(* ===== verification/Prelude.thy ===== *)
theory Prelude
  imports Complex_Main "HOL-Library.Sublist" "HOL-Library.AList" "HOL-Library.Char_ord" "HOL-Library.List_Lexorder"
begin

text \<open>
  What the components share.

  \<^item> Python values: \<open>pyval\<close> is the part of Python's object space that untyped dictionaries
    of the program carry (order responses, command parameters, reports); \<open>truthy\<close>, \<open>dget\<close>,
    \<open>py_or\<close>, \<open>py_lower\<close>, \<open>py_in\<close>, \<open>py_trunc\<close> are the language operations the code applies
    to them.
  \<^item> Numbers: a Python \<open>float\<close> is a rational here (\<open>flt\<close>). Comparison, \<open>min\<close>, \<open>max\<close> and
    truncation are exact on floats, so every branch of the code is a branch of the model; rounding of
    sums and products, infinities and NaN are not modelled.
  \<^item> Errors: \<open>'e + 'a\<close> with \<open>Inl\<close> for the exception.
  \<^item> Contracts: \<open>state_graph\<close> (a guarded transition function over a graph with final states)
    and \<open>keyed_store\<close> (an upsert store). The components interpret them.
\<close>

section \<open>Collections\<close>

text \<open>The frame equations of a component's state updates, collected for its invariant proofs.\<close>

named_theorems frames \<open>what an operation leaves unchanged\<close>

section \<open>Numbers\<close>

type_synonym flt = rat

text \<open>\<open>int(x)\<close> on a float truncates towards zero.\<close>

definition py_trunc :: "flt \<Rightarrow> int" where
  "py_trunc x = (if 0 \<le> x then \<lfloor>x\<rfloor> else \<lceil>x\<rceil>)"

text \<open>\<open>10 ** p\<close> for an integer \<open>p\<close>.\<close>

definition pow10 :: "int \<Rightarrow> flt" where
  "pow10 p = (if 0 \<le> p then 10 ^ nat p else 1 / 10 ^ nat (- p))"

lemma pow10_pos [simp]: "0 < pow10 p"
  by (simp add: pow10_def)

lemma py_trunc_le: "0 \<le> x \<Longrightarrow> of_int (py_trunc x) \<le> x"
  by (simp add: py_trunc_def)

lemma py_trunc_of_int [simp]: "py_trunc (of_int i) = i"
  by (simp add: py_trunc_def)

lemma py_trunc_nonneg: "0 \<le> x \<Longrightarrow> 0 \<le> py_trunc x"
  by (simp add: py_trunc_def)

lemma py_trunc_mono: "0 \<le> x \<Longrightarrow> x \<le> y \<Longrightarrow> py_trunc x \<le> py_trunc y"
  by (simp add: py_trunc_def floor_mono)

text \<open>Scaling, truncating and scaling back never exceeds the value.\<close>

lemma trunc_scale_le:
  assumes "0 \<le> x" and "0 < f"
  shows "of_int (py_trunc (x * f)) / f \<le> (x :: flt)"
proof -
  have "of_int (py_trunc (x * f)) \<le> x * f"
    using assms by (intro py_trunc_le) simp
  then show ?thesis using assms(2) by (simp add: divide_le_eq)
qed

lemma trunc_scale_nonneg:
  "0 \<le> x \<Longrightarrow> 0 < f \<Longrightarrow> 0 \<le> of_int (py_trunc (x * f)) / (f :: flt)"
  by (simp add: py_trunc_nonneg)

section \<open>Python values\<close>

datatype pyval =
    PyNone
  | PyBool bool
  | PyNum flt
  | PyStr string
  | PyList "pyval list"
  | PyDict "(string \<times> pyval) list"

type_synonym pydict = "(string \<times> pyval) list"

fun truthy :: "pyval \<Rightarrow> bool" where
  "truthy PyNone = False"
| "truthy (PyBool b) = b"
| "truthy (PyNum x) = (x \<noteq> 0)"
| "truthy (PyStr s) = (s \<noteq> [])"
| "truthy (PyList xs) = (xs \<noteq> [])"
| "truthy (PyDict d) = (d \<noteq> [])"

text \<open>\<open>d.get(k)\<close>.\<close>

definition dget :: "pydict \<Rightarrow> string \<Rightarrow> pyval" where
  "dget d k = (case map_of d k of None \<Rightarrow> PyNone | Some v \<Rightarrow> v)"

text \<open>\<open>a or b\<close>.\<close>

definition py_or :: "pyval \<Rightarrow> pyval \<Rightarrow> pyval" where
  "py_or a b = (if truthy a then a else b)"

text \<open>
  \<open>str(v)\<close>: strings are themselves; the rendering of numbers and containers is Python's
  formatting, the parameter \<open>shw\<close>.
\<close>

fun py_str :: "(pyval \<Rightarrow> string) \<Rightarrow> pyval \<Rightarrow> string" where
  "py_str shw (PyStr s) = s"
| "py_str shw PyNone = ''None''"
| "py_str shw (PyBool b) = (if b then ''True'' else ''False'')"
| "py_str shw v = shw v"

text \<open>
  \<open>float(v)\<close>: \<open>None\<close> where Python raises \<open>TypeError\<close> or \<open>ValueError\<close>; parsing of numerals is
  the parameter \<open>parse\<close>.
\<close>

fun py_float :: "(string \<Rightarrow> flt option) \<Rightarrow> pyval \<Rightarrow> flt option" where
  "py_float parse (PyNum x) = Some x"
| "py_float parse (PyBool b) = Some (if b then 1 else 0)"
| "py_float parse (PyStr s) = parse s"
| "py_float parse _ = None"

section \<open>Strings\<close>

text \<open>\<open>str.lower\<close> on ASCII.\<close>

definition is_upper :: "char \<Rightarrow> bool" where
  "is_upper c \<longleftrightarrow> 65 \<le> (of_char c :: nat) \<and> (of_char c :: nat) \<le> 90"

definition lower_char :: "char \<Rightarrow> char" where
  "lower_char c = (if is_upper c then char_of ((of_char c :: nat) + 32) else c)"

definition is_lower :: "char \<Rightarrow> bool" where
  "is_lower c \<longleftrightarrow> 97 \<le> (of_char c :: nat) \<and> (of_char c :: nat) \<le> 122"

definition upper_char :: "char \<Rightarrow> char" where
  "upper_char c = (if is_lower c then char_of ((of_char c :: nat) - 32) else c)"

definition py_upper :: "string \<Rightarrow> string" where
  "py_upper s = map upper_char s"

definition py_lower :: "string \<Rightarrow> string" where
  "py_lower s = map lower_char s"

text \<open>\<open>str.strip\<close> removes the white space characters at both ends.\<close>

definition is_space :: "char \<Rightarrow> bool" where
  "is_space c \<longleftrightarrow> (of_char c :: nat) \<in> {9, 10, 11, 12, 13, 28, 29, 30, 31, 32}"

definition py_strip :: "string \<Rightarrow> string" where
  "py_strip s = rev (dropWhile is_space (rev (dropWhile is_space s)))"

text \<open>\<open>str.isdigit\<close> on ASCII.\<close>

definition py_isdigit :: "string \<Rightarrow> bool" where
  "py_isdigit s \<longleftrightarrow> s \<noteq> [] \<and> (\<forall>c \<in> set s. 48 \<le> (of_char c :: nat) \<and> (of_char c :: nat) \<le> 57)"

text \<open>\<open>xs[i:]\<close>.\<close>

definition slice_from :: "'a list \<Rightarrow> int \<Rightarrow> 'a list" where
  "slice_from xs i = (if 0 \<le> i then drop (nat i) xs else drop (nat (int (length xs) + i)) xs)"

lemma slice_from_length: "length (slice_from xs i) \<le> length xs"
  by (simp add: slice_from_def)

lemma slice_from_last: "0 < n \<Longrightarrow> length (slice_from xs (- n)) = min (length xs) (nat n)"
  by (auto simp: slice_from_def)

lemma slice_from_set: "set (slice_from xs i) \<subseteq> set xs"
  by (simp add: slice_from_def set_drop_subset)

text \<open>\<open>sep.join(xs)\<close>.\<close>

fun join :: "string \<Rightarrow> string list \<Rightarrow> string" where
  "join sep [] = []"
| "join sep [x] = x"
| "join sep (x # xs) = x @ sep @ join sep xs"

text \<open>\<open>xs[:i]\<close>.\<close>

definition slice_to :: "'a list \<Rightarrow> int \<Rightarrow> 'a list" where
  "slice_to xs i = (if 0 \<le> i then take (nat i) xs else take (nat (int (length xs) + i)) xs)"

text \<open>\<open>sub in s\<close>.\<close>

fun py_in :: "string \<Rightarrow> string \<Rightarrow> bool" where
  "py_in sub [] = (sub = [])"
| "py_in sub (c # s) = (prefix sub (c # s) \<or> py_in sub s)"

lemma py_in_iff: "py_in sub s \<longleftrightarrow> (\<exists>xs ys. s = xs @ sub @ ys)"
proof (induction s)
  case Nil
  then show ?case by simp
next
  case (Cons c s)
  have "(\<exists>xs ys. c # s = xs @ sub @ ys) \<longleftrightarrow>
      prefix sub (c # s) \<or> (\<exists>xs ys. s = xs @ sub @ ys)"
    by (auto simp: prefix_def Cons_eq_append_conv)
  with Cons.IH show ?case by simp
qed

lemma py_in_chars: "py_in sub s \<Longrightarrow> c \<in> set sub \<Longrightarrow> c \<in> set s"
  by (auto simp: py_in_iff)

lemma lower_char_not_upper: "\<not> is_upper (lower_char c)"
  by (auto simp: lower_char_def is_upper_def)

lemma py_lower_no_upper: "c \<in> set (py_lower s) \<Longrightarrow> \<not> is_upper c"
  using lower_char_not_upper by (auto simp: py_lower_def)

text \<open>A needle with an upper-case letter is never found in a lowered string.\<close>

lemma py_in_lower_upper: "c \<in> set sub \<Longrightarrow> is_upper c \<Longrightarrow> \<not> py_in sub (py_lower s)"
  using py_in_chars py_lower_no_upper by blast


text \<open>
  The redaction loop of the audit functions: the first token found in the lowered text replaces the
  whole text.
\<close>

definition redacted :: string where
  "redacted = ''[redacted]''"

fun redact :: "string list \<Rightarrow> string \<Rightarrow> string" where
  "redact [] s = s"
| "redact (t # ts) s = (if py_in t (py_lower s) then redacted else redact ts s)"

lemma redact_cases:
  "redact ts s = (if \<exists>t \<in> set ts. py_in t (py_lower s) then redacted else s)"
  by (induction ts) auto

lemma redact_no_token:
  "t \<in> set ts \<Longrightarrow> \<not> py_in t (py_lower redacted) \<Longrightarrow> \<not> py_in t (py_lower (redact ts s))"
  by (auto simp: redact_cases)

text \<open>\<open>str(n)\<close> for a natural number.\<close>

fun show_nat :: "nat \<Rightarrow> string" where
  "show_nat n = (if n < 10 then [char_of (48 + n)]
                 else show_nat (n div 10) @ [char_of (48 + n mod 10)])"

declare show_nat.simps [simp del]

text \<open>\<open>str(i)\<close> for an integer.\<close>

definition show_int :: "int \<Rightarrow> string" where
  "show_int i = (if i < 0 then ''-'' @ show_nat (nat (- i)) else show_nat (nat i))"

section \<open>Dictionaries\<close>

text \<open>
  A Python dictionary keeps its insertion order: an association list with \<open>AList.update\<close>, which
  overwrites in place and appends a new key.
\<close>

type_synonym ('k, 'v) dict = "('k \<times> 'v) list"

definition dict_get :: "('k, 'v) dict \<Rightarrow> 'k \<Rightarrow> 'v \<Rightarrow> 'v" where
  "dict_get d k dflt = (case map_of d k of None \<Rightarrow> dflt | Some v \<Rightarrow> v)"

text \<open>\<open>d[k] = d.get(k, 0.0) + v\<close>.\<close>

definition dict_add :: "('k, flt) dict \<Rightarrow> 'k \<Rightarrow> flt \<Rightarrow> ('k, flt) dict" where
  "dict_add d k v = AList.update k (dict_get d k 0 + v) d"

definition dict_total :: "('k, flt) dict \<Rightarrow> flt" where
  "dict_total d = sum_list (map snd d)"

lemma map_of_update [simp]: "map_of (AList.update k v d) = (map_of d)(k \<mapsto> v)"
  by (rule update_conv')

lemma dict_total_Nil [simp]: "dict_total [] = 0"
  by (simp add: dict_total_def)

lemma dict_total_add: "dict_total (dict_add d k v) = dict_total d + v"
  by (induction d) (auto simp: dict_total_def dict_add_def dict_get_def)

lemma dict_get_add: "dict_get (dict_add d k v) j 0 = dict_get d j 0 + (if j = k then v else 0)"
  by (simp add: dict_add_def dict_get_def)

text \<open>\<open>a or b\<close> on optional numbers: zero and \<open>None\<close> are false.\<close>

definition num_or :: "flt option \<Rightarrow> flt option \<Rightarrow> flt option" where
  "num_or a b = (case a of None \<Rightarrow> b | Some x \<Rightarrow> if x = 0 then b else Some x)"

definition opt_get :: "'a option \<Rightarrow> 'a \<Rightarrow> 'a" where
  "opt_get a dflt = (case a of None \<Rightarrow> dflt | Some x \<Rightarrow> x)"

section \<open>Guarded runs\<close>

text \<open>Applying a fallible step for each event of a list stops at the first error.\<close>

fun run_steps :: "('s \<Rightarrow> 'a \<Rightarrow> 'e + 's) \<Rightarrow> 's \<Rightarrow> 'a list \<Rightarrow> 'e + 's" where
  "run_steps step s [] = Inr s"
| "run_steps step s (x # xs) =
     (case step s x of Inl e \<Rightarrow> Inl e | Inr s' \<Rightarrow> run_steps step s' xs)"

lemma run_steps_invariant:
  assumes "\<And>s x s'. P s \<Longrightarrow> step s x = Inr s' \<Longrightarrow> P s'"
  shows "P s \<Longrightarrow> run_steps step s xs = Inr s' \<Longrightarrow> P s'"
  by (induction xs arbitrary: s) (auto split: sum.splits dest: assms)

section \<open>Contracts\<close>

text \<open>
  A guarded transition function over a graph: a requested target is reached along an edge or by
  staying, every edge can be taken, and a final state has no way out.
\<close>

locale state_graph =
  fixes edge :: "'s \<Rightarrow> 's \<Rightarrow> bool"
    and final :: "'s \<Rightarrow> bool"
    and step :: "'s \<Rightarrow> 's \<Rightarrow> 'e + 's"
  assumes step_sound: "step s t = Inr u \<Longrightarrow> u = t \<and> (s = t \<or> edge s t)"
    and step_complete: "edge s t \<Longrightarrow> step s t = Inr t"
    and final_stuck: "final s \<Longrightarrow> \<not> edge s t"
begin

lemma step_rejects: "s \<noteq> t \<Longrightarrow> \<not> edge s t \<Longrightarrow> \<exists>e. step s t = Inl e"
  using step_sound [of s t] by (cases "step s t") auto

lemma final_absorbing: "final s \<Longrightarrow> step s t = Inr u \<Longrightarrow> u = s"
  using step_sound final_stuck by metis

lemma run_reaches: "run_steps step s ts = Inr u \<Longrightarrow> edge\<^sup>*\<^sup>* s u"
proof (induction ts arbitrary: s)
  case Nil
  then show ?case by simp
next
  case (Cons t ts)
  then obtain v where v: "step s t = Inr v" and "run_steps step v ts = Inr u"
    by (auto split: sum.splits)
  then have "edge\<^sup>*\<^sup>* v u" by (blast intro: Cons.IH)
  moreover have "edge\<^sup>*\<^sup>* s v" using step_sound [OF v] by auto
  ultimately show ?case by auto
qed

lemma run_final: "final s \<Longrightarrow> run_steps step s ts = Inr u \<Longrightarrow> u = s"
  by (rule run_steps_invariant [where P = "\<lambda>v. v = s" and step = step])
    (auto dest: final_absorbing)

lemma reach_invariant:
  assumes closed: "\<And>s t. P s \<Longrightarrow> edge s t \<Longrightarrow> P t"
  shows "P s \<Longrightarrow> run_steps step s ts = Inr u \<Longrightarrow> P u"
  by (rule run_steps_invariant [where step = step]) (auto dest: step_sound closed)

end

text \<open>
  An upsert store: \<open>put\<close> merges a record into the row with its key, if there is one, and leaves
  every other key alone.
\<close>

locale keyed_store =
  fixes get :: "'s \<Rightarrow> 'k \<Rightarrow> 'r option"
    and put :: "'s \<Rightarrow> 'r \<Rightarrow> 's"
    and key :: "'r \<Rightarrow> 'k"
    and merge :: "'r \<Rightarrow> 'r \<Rightarrow> 'r"
    and inv :: "'s \<Rightarrow> bool"
  assumes get_put: "inv s \<Longrightarrow> get (put s r) k =
      (if k = key r then Some (case get s k of None \<Rightarrow> r | Some old \<Rightarrow> merge old r) else get s k)"
    and inv_put: "inv s \<Longrightarrow> inv (put s r)"
    and get_key: "inv s \<Longrightarrow> get s k = Some r \<Longrightarrow> key r = k"
begin

lemma get_put_other: "inv s \<Longrightarrow> k \<noteq> key r \<Longrightarrow> get (put s r) k = get s k"
  by (simp add: get_put)

lemma get_put_fresh: "inv s \<Longrightarrow> get s (key r) = None \<Longrightarrow> get (put s r) (key r) = Some r"
  by (simp add: get_put)

lemma get_put_update:
  "inv s \<Longrightarrow> get s (key r) = Some old \<Longrightarrow> get (put s r) (key r) = Some (merge old r)"
  by (simp add: get_put)

lemma put_keeps: "inv s \<Longrightarrow> get s k \<noteq> None \<Longrightarrow> get (put s r) k \<noteq> None"
  by (auto simp: get_put)

lemma put_commute:
  "inv s \<Longrightarrow> key r \<noteq> key r' \<Longrightarrow> get (put (put s r) r') k = get (put (put s r') r) k"
  by (auto simp: get_put inv_put)

lemma puts_inv: "inv s \<Longrightarrow> inv (foldl put s rs)"
  by (induction rs arbitrary: s) (auto simp: inv_put)

end

end
