(* ===== verification/OrderStates.thy ===== *)
theory OrderStates
  imports Prelude
begin

text \<open>
  The order lifecycle of \<^verbatim>\<open>src/src/crypto/execution/states.py\<close>: the states, the directed
  edges, the guarded \<open>transition\<close> and \<open>is_terminal\<close>. The component provides the contract
  \<open>state_graph\<close>.
\<close>

section \<open>Model\<close>

datatype order_state =
    PROPOSED | RISK_PENDING | RISK_APPROVED | SUBMITTING | SUBMITTED | OPEN
  | PARTIALLY_FILLED | FILLED | CANCEL_PENDING | CANCELLED | REJECTED | FAILED
  | UNKNOWN | RECONCILING

fun TRANSITIONS :: "order_state \<Rightarrow> order_state set" where
  "TRANSITIONS PROPOSED = {RISK_PENDING, REJECTED, FAILED}"
| "TRANSITIONS RISK_PENDING = {RISK_APPROVED, REJECTED, FAILED}"
| "TRANSITIONS RISK_APPROVED = {SUBMITTING, REJECTED, FAILED}"
| "TRANSITIONS SUBMITTING =
     {SUBMITTED, OPEN, PARTIALLY_FILLED, FILLED, REJECTED, FAILED, UNKNOWN}"
| "TRANSITIONS SUBMITTED =
     {OPEN, PARTIALLY_FILLED, FILLED, CANCEL_PENDING, CANCELLED, REJECTED, FAILED,
      UNKNOWN, RECONCILING}"
| "TRANSITIONS OPEN =
     {PARTIALLY_FILLED, FILLED, CANCEL_PENDING, CANCELLED, UNKNOWN, RECONCILING}"
| "TRANSITIONS PARTIALLY_FILLED =
     {PARTIALLY_FILLED, FILLED, CANCEL_PENDING, CANCELLED, UNKNOWN, RECONCILING}"
| "TRANSITIONS CANCEL_PENDING =
     {CANCELLED, FILLED, PARTIALLY_FILLED, UNKNOWN, RECONCILING, FAILED}"
| "TRANSITIONS UNKNOWN =
     {RECONCILING, OPEN, PARTIALLY_FILLED, FILLED, CANCELLED, REJECTED, FAILED}"
| "TRANSITIONS RECONCILING =
     {OPEN, PARTIALLY_FILLED, FILLED, CANCELLED, REJECTED, FAILED, UNKNOWN, SUBMITTED}"
| "TRANSITIONS FILLED = {}"
| "TRANSITIONS CANCELLED = {}"
| "TRANSITIONS REJECTED = {}"
| "TRANSITIONS FAILED = {}"

definition can_transition :: "order_state \<Rightarrow> order_state \<Rightarrow> bool" where
  "can_transition current target \<longleftrightarrow> target \<in> TRANSITIONS current"

text \<open>\<open>TransitionError\<close> carries the two state names of its message.\<close>

datatype transition_error = TransitionError order_state order_state

definition transition :: "order_state \<Rightarrow> order_state \<Rightarrow> transition_error + order_state" where
  "transition current target =
     (if current = target then Inr current
      else if \<not> can_transition current target then Inl (TransitionError current target)
      else Inr target)"

definition is_terminal :: "order_state \<Rightarrow> bool" where
  "is_terminal s \<longleftrightarrow> s \<in> {FILLED, CANCELLED, REJECTED, FAILED}"

fun state_name :: "order_state \<Rightarrow> string" where
  "state_name PROPOSED = ''PROPOSED''"
| "state_name RISK_PENDING = ''RISK_PENDING''"
| "state_name RISK_APPROVED = ''RISK_APPROVED''"
| "state_name SUBMITTING = ''SUBMITTING''"
| "state_name SUBMITTED = ''SUBMITTED''"
| "state_name OPEN = ''OPEN''"
| "state_name PARTIALLY_FILLED = ''PARTIALLY_FILLED''"
| "state_name FILLED = ''FILLED''"
| "state_name CANCEL_PENDING = ''CANCEL_PENDING''"
| "state_name CANCELLED = ''CANCELLED''"
| "state_name REJECTED = ''REJECTED''"
| "state_name FAILED = ''FAILED''"
| "state_name UNKNOWN = ''UNKNOWN''"
| "state_name RECONCILING = ''RECONCILING''"

text \<open>\<open>OrderState[name]\<close>; \<open>None\<close> stands for the \<open>KeyError\<close>.\<close>

definition all_order_states :: "order_state list" where
  "all_order_states =
     [PROPOSED, RISK_PENDING, RISK_APPROVED, SUBMITTING, SUBMITTED, OPEN, PARTIALLY_FILLED,
      FILLED, CANCEL_PENDING, CANCELLED, REJECTED, FAILED, UNKNOWN, RECONCILING]"

definition state_of_name :: "string \<Rightarrow> order_state option" where
  "state_of_name n = map_of (map (\<lambda>s. (state_name s, s)) all_order_states) n"

section \<open>Lemmas\<close>

lemma all_order_states_complete: "s \<in> set all_order_states"
  by (cases s) (simp_all add: all_order_states_def)

lemma state_of_name_state_name [simp]: "state_of_name (state_name s) = Some s"
  by (cases s) (simp_all add: state_of_name_def all_order_states_def)

lemma state_name_inject [simp]: "state_name s = state_name t \<longleftrightarrow> s = t"
  by (metis option.inject state_of_name_state_name)

lemma can_transition_neq_terminal: "can_transition s t \<Longrightarrow> \<not> is_terminal s"
  by (cases s) (simp_all add: can_transition_def is_terminal_def)

lemma terminal_iff_no_edges: "is_terminal s \<longleftrightarrow> TRANSITIONS s = {}"
  by (cases s) (simp_all add: is_terminal_def)

interpretation order_graph: state_graph can_transition is_terminal transition
  by unfold_locales
    (auto simp: transition_def split: if_splits dest: can_transition_neq_terminal)

lemma transition_Inr: "transition s t = Inr u \<longleftrightarrow> u = t \<and> (s = t \<or> can_transition s t)"
  by (auto simp: transition_def)

lemma transition_same [simp]: "transition s s = Inr s"
  by (simp add: transition_def)

text \<open>
  The only way to become \<open>SUBMITTING\<close> is from \<open>RISK_APPROVED\<close>, so an order that has left the
  pre-submission states never becomes submittable again.
\<close>

definition pre_submission :: "order_state \<Rightarrow> bool" where
  "pre_submission s \<longleftrightarrow> s \<in> {PROPOSED, RISK_PENDING, RISK_APPROVED}"

lemma enter_submitting: "can_transition s SUBMITTING \<Longrightarrow> s = RISK_APPROVED"
  by (cases s) (simp_all add: can_transition_def)

lemma post_submission_closed:
  "\<not> pre_submission s \<Longrightarrow> s \<noteq> SUBMITTING \<Longrightarrow> can_transition s t \<Longrightarrow>
   \<not> pre_submission t \<and> t \<noteq> SUBMITTING"
  by (cases s) (auto simp: can_transition_def pre_submission_def)

text \<open>Every state that is not terminal can still reach a terminal one.\<close>

lemma terminal_reachable: "\<exists>t. is_terminal t \<and> can_transition\<^sup>*\<^sup>* s t"
proof (cases "is_terminal s")
  case True
  then show ?thesis by blast
next
  case False
  then have "can_transition s FILLED \<or> can_transition s REJECTED"
    by (cases s) (simp_all add: can_transition_def is_terminal_def)
  then show ?thesis by (auto simp: is_terminal_def)
qed

end
