(* ===== verification/Portfolio.thy ===== *)
theory Portfolio
  imports Prelude
begin

text \<open>
  Portfolio state of \<^verbatim>\<open>src/src/crypto/portfolio\<close>: the models (\<^verbatim>\<open>models.py\<close>), the
  construction of a snapshot from exchange balances (\<^verbatim>\<open>builder.py\<close>) and the comparison of the
  local snapshot with the exchange (\<^verbatim>\<open>reconcile.py\<close>).
\<close>

section \<open>Models\<close>

datatype position_side = LONG | SHORT | FLAT

record account_key =
  exchange_id :: string
  account_id :: string

record asset_holding =
  h_account :: account_key
  h_asset :: string
  h_free :: flt
  h_used :: flt
  h_total :: flt

record position =
  pos_account :: account_key
  pos_symbol :: string
  pos_side :: position_side
  pos_quantity :: flt
  average_entry :: "flt option"
  current_price :: "flt option"
  market_value :: "flt option"
  pos_unrealized_pnl :: "flt option"
  pos_realized_pnl :: flt
  pos_fees :: flt
  opened_at_ms :: "int option"
  pos_updated_at_ms :: "int option"

text \<open>\<open>Position.__post_init__\<close>: constructing a position raises \<open>ValueError\<close> or returns it.\<close>

datatype value_error = ValueError string

definition make_position :: "position \<Rightarrow> value_error + position" where
  "make_position p =
     (if pos_quantity p < 0 then Inl (ValueError ''position quantity must be >= 0'')
      else if pos_side p = FLAT \<and> pos_quantity p \<noteq> 0
        then Inl (ValueError ''FLAT position must have quantity 0'')
      else if pos_side p \<noteq> FLAT \<and> pos_quantity p = 0
        then Inl (ValueError ''non-FLAT position must have quantity > 0'')
      else Inr p)"

record exposure_breakdown =
  gross :: flt
  net :: flt
  by_symbol :: "(string, flt) dict"
  by_exchange :: "(string, flt) dict"
  by_asset :: "(string, flt) dict"

record portfolio_snapshot =
  equity :: flt
  available_balance :: flt
  reserved_balance :: flt
  holdings :: "asset_holding list"
  positions :: "position list"
  unrealized_pnl :: flt
  realized_pnl :: flt
  fees :: flt
  exposure :: exposure_breakdown
  ps_timestamp_ms :: int
  quote_currency :: string
  accounts :: "account_key list"

definition positions_for :: "portfolio_snapshot \<Rightarrow> account_key \<Rightarrow> position list" where
  "positions_for s account = filter (\<lambda>p. pos_account p = account) (positions s)"

definition holdings_for :: "portfolio_snapshot \<Rightarrow> account_key \<Rightarrow> asset_holding list" where
  "holdings_for s account = filter (\<lambda>h. h_account h = account) (holdings s)"

definition open_position_count :: "portfolio_snapshot \<Rightarrow> int" where
  "open_position_count s = int (length (filter (\<lambda>p. pos_side p \<noteq> FLAT) (positions s)))"

text \<open>The values an issue carries are numbers in every construction of the code.\<close>

record reconciliation_issue =
  ri_kind :: string
  ri_account :: account_key
  ri_detail :: string
  local_value :: "flt option"
  exchange_value :: "flt option"

record reconciliation_result =
  matched :: bool
  issues :: "reconciliation_issue list"
  checked_at_ms :: int

definition has_mismatch :: "reconciliation_result \<Rightarrow> bool" where
  "has_mismatch r \<longleftrightarrow> \<not> matched r"

section \<open>Building a snapshot\<close>

record asset_balance =
  ab_asset :: string
  ab_free :: "flt option"
  ab_used :: "flt option"
  ab_total :: "flt option"

fun build_holdings :: "account_key \<Rightarrow> asset_balance list \<Rightarrow> asset_holding list" where
  "build_holdings account [] = []"
| "build_holdings account (b # bs) =
     (let free = opt_get (ab_free b) 0;
          used = opt_get (ab_used b) 0;
          total = opt_get (ab_total b) (free + used)
      in if total = 0 \<and> free = 0 \<and> used = 0 then build_holdings account bs
         else \<lparr>h_account = account, h_asset = py_upper (ab_asset b), h_free = free,
               h_used = used, h_total = total\<rparr> # build_holdings account bs)"

text \<open>\<open>symbol.split("/")[0] if "/" in symbol else symbol\<close>.\<close>

definition base_of :: "string \<Rightarrow> string" where
  "base_of s = (if CHR ''/'' \<in> set s then takeWhile (\<lambda>c. c \<noteq> CHR ''/'') s else s)"

definition empty_exposure :: exposure_breakdown where
  "empty_exposure = \<lparr>gross = 0, net = 0, by_symbol = [], by_exchange = [], by_asset = []\<rparr>"

definition add_exposure :: "exposure_breakdown \<Rightarrow> position \<Rightarrow> exposure_breakdown" where
  "add_exposure e p =
     (case market_value p of
        None \<Rightarrow> e
      | Some mv \<Rightarrow>
          if pos_side p = FLAT then e
          else
            (let abs_mv = \<bar>mv\<bar>;
                 signed = (if pos_side p = LONG then mv else - abs_mv);
                 ex = exchange_id (pos_account p)
             in \<lparr>gross = gross e + abs_mv, net = net e + signed,
                 by_symbol = dict_add (by_symbol e) (pos_symbol p) abs_mv,
                 by_exchange = dict_add (by_exchange e) ex abs_mv,
                 by_asset = dict_add (by_asset e) (base_of (pos_symbol p)) abs_mv\<rparr>))"

definition compute_exposure :: "position list \<Rightarrow> exposure_breakdown" where
  "compute_exposure ps = foldl add_exposure empty_exposure ps"

text \<open>
  \<open>estimate_equity\<close>: the first loop runs over the holdings, the second over the positions whose
  base asset no holding has marked.
\<close>

definition price_of :: "(string, flt) dict \<Rightarrow> string \<Rightarrow> string \<Rightarrow> flt option" where
  "price_of prices asset quote =
     num_or (map_of prices asset) (map_of prices (asset @ ''/'' @ quote))"

definition add_holding ::
    "string \<Rightarrow> (string, flt) dict \<Rightarrow> flt \<times> flt \<times> flt \<Rightarrow> asset_holding \<Rightarrow> flt \<times> flt \<times> flt" where
  "add_holding quote prices acc h =
     (case acc of (eq, av, rs) \<Rightarrow>
        if h_asset h = quote then (eq + h_total h, av + h_free h, rs + h_used h)
        else (case price_of prices (h_asset h) quote of
                None \<Rightarrow> (eq, av, rs)
              | Some px \<Rightarrow> if px > 0 then (eq + h_total h * px, av, rs) else (eq, av, rs)))"

definition add_unmarked :: "(string \<times> string) set \<Rightarrow> flt \<Rightarrow> position \<Rightarrow> flt" where
  "add_unmarked counted eq p =
     (case pos_unrealized_pnl p of
        None \<Rightarrow> eq
      | Some _ \<Rightarrow>
          (case market_value p of
             None \<Rightarrow> eq
           | Some mv \<Rightarrow>
               if (exchange_id (pos_account p), base_of (pos_symbol p)) \<notin> counted
               then eq + mv else eq))"

definition estimate_equity ::
    "asset_holding list \<Rightarrow> position list \<Rightarrow> string \<Rightarrow> (string, flt) dict \<Rightarrow> flt \<times> flt \<times> flt" where
  "estimate_equity hs ps quote_cur prices =
     (let quote = py_upper quote_cur;
          counted = set (map (\<lambda>h. (exchange_id (h_account h), h_asset h)) hs)
      in case foldl (add_holding quote prices) (0, 0, 0) hs of
           (eq, available, reserved) \<Rightarrow>
             (foldl (add_unmarked counted) eq ps, available, reserved))"

definition build_portfolio ::
    "(account_key, asset_holding list) dict \<Rightarrow> position list \<Rightarrow> string \<Rightarrow>
     (string, flt) dict \<Rightarrow> flt \<Rightarrow> flt \<Rightarrow> int \<Rightarrow> portfolio_snapshot" where
  "build_portfolio accounts_holdings ps quote_cur prices realized fee ts =
     (let hs = concat (map snd accounts_holdings);
          unreal = sum_list (map (\<lambda>p. opt_get (pos_unrealized_pnl p) 0)
                      (filter (\<lambda>p. pos_side p \<noteq> FLAT) ps))
      in case estimate_equity hs ps quote_cur prices of
           (eq, available, reserved) \<Rightarrow>
             \<lparr>equity = eq, available_balance = available, reserved_balance = reserved,
              holdings = hs, positions = ps, unrealized_pnl = unreal, realized_pnl = realized,
              fees = fee, exposure = compute_exposure ps, ps_timestamp_ms = ts,
              quote_currency = py_upper quote_cur, accounts = map fst accounts_holdings\<rparr>)"

text \<open>
  Each position goes through the checked constructor; the code only builds positions that pass it
  (\<open>h.total > 0\<close>), which \<open>spot_positions_valid\<close> below states.
\<close>

fun spot_positions_from_holdings ::
    "account_key \<Rightarrow> asset_holding list \<Rightarrow> string \<Rightarrow> (string, flt) dict \<Rightarrow> int \<Rightarrow>
     value_error + position list" where
  "spot_positions_from_holdings account [] quote_cur prices ts = Inr []"
| "spot_positions_from_holdings account (h # hs) quote_cur prices ts =
     (let quote = py_upper quote_cur in
      if h_asset h = quote \<or> h_total h \<le> 0
      then spot_positions_from_holdings account hs quote_cur prices ts
      else
        (let px = price_of prices (h_asset h) quote in
         case make_position
             \<lparr>pos_account = account, pos_symbol = h_asset h @ ''/'' @ quote, pos_side = LONG,
              pos_quantity = h_total h, average_entry = px, current_price = px,
              market_value = map_option (\<lambda>p. h_total h * p) px, pos_unrealized_pnl = None,
              pos_realized_pnl = 0, pos_fees = 0, opened_at_ms = None,
              pos_updated_at_ms = Some ts\<rparr> of
           Inl e \<Rightarrow> Inl e
         | Inr p \<Rightarrow>
             (case spot_positions_from_holdings account hs quote_cur prices ts of
                Inl e \<Rightarrow> Inl e
              | Inr ps \<Rightarrow> Inr (p # ps))))"

section \<open>Reconciliation\<close>

text \<open>\<open>{f x: x for x in xs}\<close>: the last element with a key wins.\<close>

definition index_by :: "('a \<Rightarrow> string) \<Rightarrow> 'a list \<Rightarrow> (string, 'a) dict" where
  "index_by f xs = foldl (\<lambda>d x. AList.update (f x) x d) [] xs"

definition sorted_keys :: "(string, 'a) dict \<Rightarrow> (string, 'b) dict \<Rightarrow> string list" where
  "sorted_keys d e = sort (remdups (map fst d @ map fst e))"

text \<open>The quantity of an entry that may be missing.\<close>

definition quantity_at :: "('a \<Rightarrow> flt) \<Rightarrow> (string, 'a) dict \<Rightarrow> string \<Rightarrow> flt" where
  "quantity_at q d k = (case map_of d k of None \<Rightarrow> 0 | Some x \<Rightarrow> q x)"

definition mismatch_issues ::
    "string \<Rightarrow> string \<Rightarrow> account_key \<Rightarrow> (string \<Rightarrow> flt) \<Rightarrow> (string \<Rightarrow> flt) \<Rightarrow> flt \<Rightarrow> string list \<Rightarrow>
     reconciliation_issue list" where
  "mismatch_issues kind label account loc exc tolerance ks =
     map (\<lambda>k. \<lparr>ri_kind = kind, ri_account = account, ri_detail = label @ k,
               local_value = Some (loc k), exchange_value = Some (exc k)\<rparr>)
       (filter (\<lambda>k. \<bar>loc k - exc k\<bar> > tolerance) ks)"

definition reconcile_balances ::
    "account_key \<Rightarrow> portfolio_snapshot \<Rightarrow> asset_balance list \<Rightarrow> flt \<Rightarrow>
     reconciliation_issue list" where
  "reconcile_balances account loc exchange_balances tolerance =
     (let exchange_holdings = index_by h_asset (build_holdings account exchange_balances);
          local_holdings = index_by h_asset (holdings_for loc account)
      in mismatch_issues ''balance_mismatch'' ''asset='' account
           (quantity_at h_total local_holdings) (quantity_at h_total exchange_holdings) tolerance
           (sorted_keys exchange_holdings local_holdings))"

definition reconcile_positions ::
    "account_key \<Rightarrow> position list \<Rightarrow> position list \<Rightarrow> flt \<Rightarrow> reconciliation_issue list" where
  "reconcile_positions account local_positions exchange_positions tolerance =
     (let local_map = index_by pos_symbol (filter (\<lambda>p. pos_account p = account) local_positions);
          exchange_map =
            index_by pos_symbol (filter (\<lambda>p. pos_account p = account) exchange_positions)
      in mismatch_issues ''position_mismatch'' ''symbol='' account
           (quantity_at pos_quantity local_map) (quantity_at pos_quantity exchange_map) tolerance
           (sorted_keys local_map exchange_map))"

text \<open>The rendering of the age in the message is the parameter \<open>shw\<close>.\<close>

definition stale_issues ::
    "(int \<Rightarrow> string) \<Rightarrow> portfolio_snapshot \<Rightarrow> int option \<Rightarrow> int \<Rightarrow> reconciliation_issue list" where
  "stale_issues shw loc max_local_age_ms now =
     (case max_local_age_ms of
        None \<Rightarrow> []
      | Some m \<Rightarrow>
          (let age = now - ps_timestamp_ms loc in
           if age > m
           then map (\<lambda>a. \<lparr>ri_kind = ''stale'', ri_account = a,
                     ri_detail = ''local snapshot age_ms='' @ shw age,
                     local_value = Some (of_int (ps_timestamp_ms loc)),
                     exchange_value = Some (of_int now)\<rparr>) (accounts loc)
           else []))"

definition account_issues ::
    "portfolio_snapshot \<Rightarrow> (account_key, position list) dict \<Rightarrow> flt \<Rightarrow>
     account_key \<times> asset_balance list \<Rightarrow> reconciliation_issue list" where
  "account_issues loc exchange_positions tolerance ab =
     (case ab of (account, bals) \<Rightarrow>
        reconcile_balances account loc bals tolerance @
        (case map_of exchange_positions account of
           None \<Rightarrow> []
         | Some ps \<Rightarrow> reconcile_positions account (positions loc) ps tolerance))"

definition reconcile ::
    "(int \<Rightarrow> string) \<Rightarrow> portfolio_snapshot \<Rightarrow> (account_key, asset_balance list) dict \<Rightarrow>
     (account_key, position list) dict \<Rightarrow> flt \<Rightarrow> int option \<Rightarrow> int \<Rightarrow> reconciliation_result" where
  "reconcile shw loc exchange_balances exchange_positions tolerance max_local_age_ms now =
     (let iss = stale_issues shw loc max_local_age_ms now @
                concat (map (account_issues loc exchange_positions tolerance) exchange_balances)
      in \<lparr>matched = (length iss = 0), issues = iss, checked_at_ms = now\<rparr>)"

section \<open>Lemmas: exposure\<close>

lemma add_exposure_step:
  defines "c \<equiv> \<lambda>p. case market_value p of None \<Rightarrow> 0 | Some mv \<Rightarrow> if pos_side p = FLAT then 0 else \<bar>mv\<bar>"
  shows "gross (add_exposure e p) = gross e + c p"
    and "dict_total (by_symbol (add_exposure e p)) = dict_total (by_symbol e) + c p"
    and "dict_total (by_exchange (add_exposure e p)) = dict_total (by_exchange e) + c p"
    and "dict_total (by_asset (add_exposure e p)) = dict_total (by_asset e) + c p"
    and "\<bar>net (add_exposure e p)\<bar> \<le> \<bar>net e\<bar> + c p"
  unfolding c_def
  by (auto simp: add_exposure_def dict_total_add Let_def split: option.splits)

lemma foldl_add_exposure:
  assumes "dict_total (by_symbol e) = gross e" and "dict_total (by_exchange e) = gross e"
    and "dict_total (by_asset e) = gross e" and "\<bar>net e\<bar> \<le> gross e"
  shows "dict_total (by_symbol (foldl add_exposure e ps)) = gross (foldl add_exposure e ps) \<and>
         dict_total (by_exchange (foldl add_exposure e ps)) = gross (foldl add_exposure e ps) \<and>
         dict_total (by_asset (foldl add_exposure e ps)) = gross (foldl add_exposure e ps) \<and>
         \<bar>net (foldl add_exposure e ps)\<bar> \<le> gross (foldl add_exposure e ps)"
  using assms
proof (induction ps arbitrary: e)
  case Nil
  then show ?case by simp
next
  case (Cons p ps)
  show ?case
    unfolding foldl_Cons
    using Cons.prems
    by (intro Cons.IH) (auto simp: add_exposure_step intro: order_trans [OF add_exposure_step(5)])
qed

lemma by_symbol_foldl:
  "dict_get (by_symbol (foldl add_exposure e ps)) s 0 =
     dict_get (by_symbol e) s 0 +
     sum_list (map (\<lambda>p. \<bar>opt_get (market_value p) 0\<bar>)
       (filter (\<lambda>p. pos_symbol p = s \<and> pos_side p \<noteq> FLAT) ps))"
proof (induction ps arbitrary: e)
  case Nil
  then show ?case by simp
next
  case (Cons p ps)
  have "dict_get (by_symbol (add_exposure e p)) s 0 =
      dict_get (by_symbol e) s 0 +
      (if pos_symbol p = s \<and> pos_side p \<noteq> FLAT then \<bar>opt_get (market_value p) 0\<bar> else 0)"
    by (auto simp: add_exposure_def Let_def dict_get_add opt_get_def split: option.splits)
  then show ?case by (simp add: Cons.IH)
qed

section \<open>Lemmas: reconciliation\<close>

lemma foldl_update_keys:
  "fst ` set (foldl (\<lambda>d x. AList.update (f x) x d) d xs) = fst ` set d \<union> f ` set xs"
  by (induction xs arbitrary: d) (auto simp: dom_update)

lemma index_by_keys: "fst ` set (index_by f xs) = f ` set xs"
  by (simp add: index_by_def foldl_update_keys)

lemma quantity_at_absent: "k \<notin> fst ` set d \<Longrightarrow> quantity_at q d k = 0"
  by (simp add: quantity_at_def map_of_eq_None_iff [symmetric])

lemma mismatch_issues_empty:
  "mismatch_issues kind label a loc exc tol ks = [] \<longleftrightarrow> (\<forall>k \<in> set ks. \<bar>loc k - exc k\<bar> \<le> tol)"
  by (auto simp: mismatch_issues_def filter_empty_conv not_less)

lemma set_sorted_keys: "set (sorted_keys d e) = fst ` set d \<union> fst ` set e"
  by (simp add: sorted_keys_def)

lemma mismatch_over_keys:
  assumes "0 \<le> tol"
  shows "(\<forall>k \<in> fst ` set d \<union> fst ` set e. \<bar>quantity_at q d k - quantity_at r e k\<bar> \<le> tol) \<longleftrightarrow>
         (\<forall>k. \<bar>quantity_at q d k - quantity_at r e k\<bar> \<le> tol)"
  using assms by (metis UnCI abs_zero diff_self quantity_at_absent)

text \<open>The totals the comparison reads: the last holding of an asset counts.\<close>

definition local_total :: "portfolio_snapshot \<Rightarrow> account_key \<Rightarrow> string \<Rightarrow> flt" where
  "local_total loc a k = quantity_at h_total (index_by h_asset (holdings_for loc a)) k"

definition exchange_total :: "account_key \<Rightarrow> asset_balance list \<Rightarrow> string \<Rightarrow> flt" where
  "exchange_total a bals k = quantity_at h_total (index_by h_asset (build_holdings a bals)) k"

lemma reconcile_balances_empty:
  assumes "0 \<le> tol"
  shows "reconcile_balances a loc bals tol = [] \<longleftrightarrow>
         (\<forall>k. \<bar>local_total loc a k - exchange_total a bals k\<bar> \<le> tol)"
proof -
  let ?l = "index_by h_asset (holdings_for loc a)"
  let ?e = "index_by h_asset (build_holdings a bals)"
  have "reconcile_balances a loc bals tol = [] \<longleftrightarrow>
      (\<forall>k \<in> fst ` set ?l \<union> fst ` set ?e.
        \<bar>quantity_at h_total ?l k - quantity_at h_total ?e k\<bar> \<le> tol)"
    by (auto simp: reconcile_balances_def Let_def mismatch_issues_empty set_sorted_keys)
  also have "\<dots> \<longleftrightarrow> (\<forall>k. \<bar>quantity_at h_total ?l k - quantity_at h_total ?e k\<bar> \<le> tol)"
    by (rule mismatch_over_keys [OF assms])
  finally show ?thesis by (simp add: local_total_def exchange_total_def)
qed

definition position_quantity :: "position list \<Rightarrow> account_key \<Rightarrow> string \<Rightarrow> flt" where
  "position_quantity ps a k =
     quantity_at pos_quantity (index_by pos_symbol (filter (\<lambda>p. pos_account p = a) ps)) k"

lemma reconcile_positions_empty:
  assumes "0 \<le> tol"
  shows "reconcile_positions a ls es tol = [] \<longleftrightarrow>
         (\<forall>k. \<bar>position_quantity ls a k - position_quantity es a k\<bar> \<le> tol)"
proof -
  let ?l = "index_by pos_symbol (filter (\<lambda>p. pos_account p = a) ls)"
  let ?e = "index_by pos_symbol (filter (\<lambda>p. pos_account p = a) es)"
  have "reconcile_positions a ls es tol = [] \<longleftrightarrow>
      (\<forall>k \<in> fst ` set ?l \<union> fst ` set ?e.
        \<bar>quantity_at pos_quantity ?l k - quantity_at pos_quantity ?e k\<bar> \<le> tol)"
    by (auto simp: reconcile_positions_def Let_def mismatch_issues_empty set_sorted_keys)
  also have "\<dots> \<longleftrightarrow> (\<forall>k. \<bar>quantity_at pos_quantity ?l k - quantity_at pos_quantity ?e k\<bar> \<le> tol)"
    by (rule mismatch_over_keys [OF assms])
  finally show ?thesis by (simp add: position_quantity_def)
qed

section \<open>Lemmas: derived positions\<close>

lemma make_position_long: "0 < pos_quantity p \<Longrightarrow> pos_side p = LONG \<Longrightarrow> make_position p = Inr p"
  by (simp add: make_position_def)

lemma spot_positions_total:
  "\<exists>ps. spot_positions_from_holdings a hs q prices ts = Inr ps \<and>
        (\<forall>p \<in> set ps. pos_side p = LONG \<and> 0 < pos_quantity p)"
  by (induction hs) (auto simp: Let_def make_position_long)

lemma spot_positions_valid:
  "\<exists>ps. spot_positions_from_holdings a hs q prices ts = Inr ps \<and>
        (\<forall>p \<in> set ps. pos_side p = LONG \<and> 0 < pos_quantity p \<and> make_position p = Inr p)"
  using spot_positions_total [of a hs q prices ts] make_position_long by blast

end
