(* ===== verification/Risk.thy ===== *)
theory Risk
  imports Portfolio
begin

text \<open>
  The risk authority of \<^verbatim>\<open>src/src/crypto/risk\<close>: proposals and decisions
  (\<^verbatim>\<open>models.py\<close>), the policy (\<^verbatim>\<open>policy.py\<close>), position sizing
  (\<^verbatim>\<open>sizing.py\<close>) and \<open>RiskEngine\<close> (\<^verbatim>\<open>engine.py\<close>), with the data quality
  states of \<^verbatim>\<open>src/src/crypto/market/quality.py\<close>. Message texts use the parameter
  \<open>fmt\<close> for Python's number formatting; the UTC day of the clock is the parameter \<open>day\<close>.
\<close>

section \<open>Models\<close>

datatype side = BUY | SELL

datatype risk_verdict = APPROVED | REJECTED_V | BLOCKED

datatype safety_mode = NORMAL | WARNING | BLOCK_NEW_ENTRIES | REDUCE_ONLY | EMERGENCY_STOP

datatype reject_reason =
    NONE | KILL_SWITCH | SAFETY_MODE | STALE_MARKET_DATA | INVALID_MARKET_DATA
  | UNKNOWN_MARKET_DATA | INSUFFICIENT_BALANCE | ORDER_BELOW_MINIMUM | MAX_POSITION_SIZE
  | MAX_SYMBOL_EXPOSURE | MAX_EXCHANGE_EXPOSURE | MAX_PORTFOLIO_EXPOSURE
  | MAX_CONCURRENT_POSITIONS | DAILY_LOSS_LIMIT | DRAWDOWN_LIMIT | CONSECUTIVE_LOSSES
  | RECONCILIATION_MISMATCH | EXCHANGE_UNAVAILABLE | INVALID_PROPOSAL | ZERO_SIZE

datatype data_quality = COMPLETE | PARTIAL | GAP_DETECTED | STALE | INVALID | UNKNOWN_Q

record data_quality_report =
  quality :: data_quality
  q_reasons :: "string list"
  missing_timestamps_ms :: "int list"
  duplicate_count :: int
  invalid_count :: int

definition is_usable :: "data_quality_report \<Rightarrow> bool" where
  "is_usable r \<longleftrightarrow> quality r \<in> {COMPLETE, PARTIAL, GAP_DETECTED}"

record trade_proposal =
  prop_exchange_id :: string
  prop_account_id :: string
  prop_symbol :: string
  prop_side :: side
  requested_quantity :: flt
  requested_price :: "flt option"
  stop_price :: "flt option"
  prop_strategy_id :: string
  prop_timestamp_ms :: "int option"

definition prop_account :: "trade_proposal \<Rightarrow> account_key" where
  "prop_account p = \<lparr>exchange_id = prop_exchange_id p, account_id = prop_account_id p\<rparr>"

record risk_decision =
  verdict :: risk_verdict
  reason :: reject_reason
  rd_message :: string
  risk_score :: flt
  rd_allowed_quantity :: flt
  rd_allowed_notional :: flt
  current_exposure :: flt
  projected_exposure :: flt
  proposal :: "trade_proposal option"

definition executable :: "risk_decision \<Rightarrow> bool" where
  "executable d \<longleftrightarrow>
     verdict d = APPROVED \<and> rd_allowed_quantity d > 0 \<and> rd_allowed_notional d > 0"

record market_constraints =
  min_amount :: "flt option"
  min_cost :: "flt option"
  amount_precision :: "int option"
  price_precision :: "int option"
  taker_fee_pct :: "flt option"

definition no_constraints :: market_constraints where
  "no_constraints = \<lparr>min_amount = None, min_cost = None, amount_precision = None,
     price_precision = None, taker_fee_pct = None\<rparr>"

record equity_tracker =
  day_id :: string
  start_of_day_equity :: flt
  peak_equity :: flt
  current_equity :: flt
  consecutive_losses :: int

definition daily_pnl :: "equity_tracker \<Rightarrow> flt" where
  "daily_pnl t = current_equity t - start_of_day_equity t"

definition daily_loss_pct :: "equity_tracker \<Rightarrow> flt" where
  "daily_loss_pct t =
     (if start_of_day_equity t \<le> 0 then 0
      else if daily_pnl t \<ge> 0 then 0
      else \<bar>daily_pnl t\<bar> / start_of_day_equity t * 100)"

definition drawdown_pct :: "equity_tracker \<Rightarrow> flt" where
  "drawdown_pct t =
     (if peak_equity t \<le> 0 then 0
      else max 0 ((peak_equity t - current_equity t) / peak_equity t * 100))"

definition update_equity :: "equity_tracker \<Rightarrow> flt \<Rightarrow> equity_tracker" where
  "update_equity t e =
     (let t = t\<lparr>current_equity := e\<rparr>
      in if e > peak_equity t then t\<lparr>peak_equity := e\<rparr> else t)"

definition record_trade_result :: "equity_tracker \<Rightarrow> flt \<Rightarrow> equity_tracker" where
  "record_trade_result t pnl =
     (if pnl < 0 then t\<lparr>consecutive_losses := consecutive_losses t + 1\<rparr>
      else t\<lparr>consecutive_losses := 0\<rparr>)"

section \<open>Policy\<close>

record risk_policy =
  max_position_pct :: flt
  max_symbol_exposure_pct :: flt
  max_exchange_exposure_pct :: flt
  max_portfolio_exposure_pct :: flt
  max_concurrent_positions :: int
  max_daily_loss_pct :: flt
  max_drawdown_pct :: flt
  max_consecutive_losses :: int
  default_taker_fee_pct :: flt
  default_slippage_pct :: flt
  reject_stale_data :: bool
  reject_invalid_data :: bool
  reject_unknown_data :: bool
  min_notional :: flt
  risk_per_trade_pct :: flt

definition default_policy :: risk_policy where
  "default_policy =
     \<lparr>max_position_pct = 5, max_symbol_exposure_pct = 10, max_exchange_exposure_pct = 50,
      max_portfolio_exposure_pct = 25, max_concurrent_positions = 5, max_daily_loss_pct = 3,
      max_drawdown_pct = 10, max_consecutive_losses = 5, default_taker_fee_pct = 1 / 10,
      default_slippage_pct = 5 / 100, reject_stale_data = True, reject_invalid_data = True,
      reject_unknown_data = True, min_notional = 0, risk_per_trade_pct = 1\<rparr>"

text \<open>The loop over the named percentages: the first one out of range raises.\<close>

fun validate_pcts :: "(string \<times> flt) list \<Rightarrow> value_error + unit" where
  "validate_pcts [] = Inr ()"
| "validate_pcts ((name, val) # rest) =
     (if \<not> (0 < val \<and> val \<le> 100) then Inl (ValueError (name @ '' must be in (0, 100]''))
      else validate_pcts rest)"

definition validate_policy :: "risk_policy \<Rightarrow> value_error + unit" where
  "validate_policy p =
     (case validate_pcts
        [(''max_position_pct'', max_position_pct p),
         (''max_symbol_exposure_pct'', max_symbol_exposure_pct p),
         (''max_exchange_exposure_pct'', max_exchange_exposure_pct p),
         (''max_portfolio_exposure_pct'', max_portfolio_exposure_pct p),
         (''max_daily_loss_pct'', max_daily_loss_pct p),
         (''max_drawdown_pct'', max_drawdown_pct p)] of
        Inl e \<Rightarrow> Inl e
      | Inr _ \<Rightarrow>
          if max_concurrent_positions p < 0
          then Inl (ValueError ''max_concurrent_positions must be >= 0'')
          else if default_taker_fee_pct p < 0 \<or> default_slippage_pct p < 0
          then Inl (ValueError ''fee/slippage defaults must be >= 0'')
          else Inr ())"

section \<open>Sizing\<close>

datatype py_error = ZeroDivisionError

record sizing_result =
  max_quantity :: flt
  max_notional :: flt
  fee_estimate :: flt
  slippage_estimate :: flt
  limited_by :: string

definition zero_sizing :: "string \<Rightarrow> sizing_result" where
  "zero_sizing why = \<lparr>max_quantity = 0, max_notional = 0, fee_estimate = 0,
     slippage_estimate = 0, limited_by = why\<rparr>"

definition floor_precision :: "flt \<Rightarrow> int option \<Rightarrow> flt" where
  "floor_precision v precision =
     (case precision of
        None \<Rightarrow> v
      | Some p \<Rightarrow> if p < 0 then v else of_int (py_trunc (v * pow10 p)) / pow10 p)"

definition fee_pct_of :: "risk_policy \<Rightarrow> market_constraints \<Rightarrow> flt" where
  "fee_pct_of policy c = opt_get (taker_fee_pct c) (default_taker_fee_pct policy)"

text \<open>\<open>min(candidates, key=...)\<close> keeps the first of several minimal entries.\<close>

fun min_first :: "flt \<times> string \<Rightarrow> (flt \<times> string) list \<Rightarrow> flt \<times> string" where
  "min_first m [] = m"
| "min_first m (x # xs) = min_first (if fst x < fst m then x else m) xs"

definition headroom :: "flt \<Rightarrow> flt \<Rightarrow> flt \<Rightarrow> flt" where
  "headroom eq cap_pct existing = max 0 (eq * (cap_pct / 100) - existing)"

definition stop_candidates ::
    "flt \<Rightarrow> flt \<Rightarrow> risk_policy \<Rightarrow> flt option \<Rightarrow> (flt \<times> string) list" where
  "stop_candidates eq entry_price policy stop =
     (case stop of
        None \<Rightarrow> []
      | Some sp \<Rightarrow>
          if sp > 0 \<and> sp < entry_price
          then (let stop_dist = entry_price - sp;
                    risk_budget = eq * (risk_per_trade_pct policy / 100)
                in if stop_dist > 0
                   then [(risk_budget / stop_dist * entry_price, ''stop_risk'')] else [])
          else [])"

definition cap_candidates ::
    "flt \<Rightarrow> risk_policy \<Rightarrow> flt \<Rightarrow> flt \<Rightarrow> flt \<Rightarrow> flt \<Rightarrow> (flt \<times> string) list" where
  "cap_candidates eq policy sym_exp exch_exp port_exp spendable =
     [(eq * (max_position_pct policy / 100), ''max_position_pct''),
      (headroom eq (max_symbol_exposure_pct policy) sym_exp, ''max_symbol_exposure''),
      (headroom eq (max_exchange_exposure_pct policy) exch_exp, ''max_exchange_exposure''),
      (headroom eq (max_portfolio_exposure_pct policy) port_exp, ''max_portfolio_exposure''),
      (spendable, ''available_balance'')]"

definition compute_position_size ::
    "flt \<Rightarrow> flt \<Rightarrow> flt \<Rightarrow> risk_policy \<Rightarrow> market_constraints option \<Rightarrow> flt option \<Rightarrow>
     flt \<Rightarrow> flt \<Rightarrow> flt \<Rightarrow> py_error + sizing_result" where
  "compute_position_size eq avail entry_price policy mc stop sym_exp exch_exp port_exp =
     (if eq \<le> 0 \<or> avail \<le> 0 \<or> entry_price \<le> 0
      then Inr (zero_sizing ''zero_equity_or_price'')
      else
        (let c = opt_get mc no_constraints;
             fee_pct = fee_pct_of policy c;
             slip_pct = default_slippage_pct policy;
             cost_factor = 1 + (fee_pct + slip_pct) / 100
         in
         if cost_factor = 0 then Inl ZeroDivisionError
         else
           (let cands = stop_candidates eq entry_price policy stop @
                        cap_candidates eq policy sym_exp exch_exp port_exp (avail / cost_factor);
                best = min_first (hd cands) (tl cands)
            in
            if fst best \<le> 0 then Inr (zero_sizing (snd best))
            else
              (let qty = floor_precision (fst best / entry_price) (amount_precision c);
                   notional = qty * entry_price
               in Inr \<lparr>max_quantity = max 0 qty, max_notional = max 0 notional,
                       fee_estimate = notional * (fee_pct / 100),
                       slippage_estimate = notional * (slip_pct / 100),
                       limited_by = snd best\<rparr>))))"

definition meets_exchange_minimums :: "flt \<Rightarrow> flt \<Rightarrow> market_constraints option \<Rightarrow> bool" where
  "meets_exchange_minimums qty price mc =
     (if qty \<le> 0 \<or> price \<le> 0 then False
      else
        (case mc of
           None \<Rightarrow> True
         | Some c \<Rightarrow>
             if (case min_amount c of None \<Rightarrow> False | Some a \<Rightarrow> qty < a) then False
             else \<not> (case min_cost c of None \<Rightarrow> False | Some m \<Rightarrow> qty * price < m)))"

section \<open>Risk engine\<close>

type_synonym formatter = "string \<Rightarrow> pyval \<Rightarrow> string"

record risk_engine =
  policy :: risk_policy
  safety :: safety_mode
  tracker :: "equity_tracker option"
  reconciliation_ok :: bool

definition new_risk_engine :: "risk_policy \<Rightarrow> safety_mode \<Rightarrow> value_error + risk_engine" where
  "new_risk_engine p m =
     (case validate_policy p of
        Inl e \<Rightarrow> Inl e
      | Inr _ \<Rightarrow> Inr \<lparr>policy = p, safety = m, tracker = None, reconciliation_ok = True\<rparr>)"

definition set_safety_mode :: "risk_engine \<Rightarrow> safety_mode \<Rightarrow> risk_engine" where
  "set_safety_mode re m = re\<lparr>safety := m\<rparr>"

definition set_reconciliation_ok :: "risk_engine \<Rightarrow> bool \<Rightarrow> risk_engine" where
  "set_reconciliation_ok re ok = re\<lparr>reconciliation_ok := ok\<rparr>"

definition fresh_tracker :: "string \<Rightarrow> flt \<Rightarrow> equity_tracker" where
  "fresh_tracker day e = \<lparr>day_id = day, start_of_day_equity = e, peak_equity = e,
     current_equity = e, consecutive_losses = 0\<rparr>"

definition update_equity_tracker ::
    "string \<Rightarrow> risk_engine \<Rightarrow> flt \<Rightarrow> risk_engine \<times> equity_tracker" where
  "update_equity_tracker day re e =
     (let t = (case tracker re of
                 None \<Rightarrow> fresh_tracker day e
               | Some t \<Rightarrow> if day_id t \<noteq> day then fresh_tracker day e else update_equity t e)
      in (re\<lparr>tracker := Some t\<rparr>, t))"

definition load_equity_tracker :: "risk_engine \<Rightarrow> equity_tracker \<Rightarrow> risk_engine" where
  "load_equity_tracker re t = re\<lparr>tracker := Some t\<rparr>"

definition refuse ::
    "risk_verdict \<Rightarrow> flt \<Rightarrow> flt \<Rightarrow> trade_proposal \<Rightarrow> reject_reason \<Rightarrow> string \<Rightarrow> risk_decision" where
  "refuse v score cur prop why msg =
     \<lparr>verdict = v, reason = why, rd_message = msg, risk_score = score,
      rd_allowed_quantity = 0, rd_allowed_notional = 0, current_exposure = cur,
      projected_exposure = cur, proposal = Some prop\<rparr>"

abbreviation blocked :: "flt \<Rightarrow> trade_proposal \<Rightarrow> reject_reason \<Rightarrow> string \<Rightarrow> risk_decision" where
  "blocked \<equiv> refuse BLOCKED 1"

abbreviation rejected :: "flt \<Rightarrow> trade_proposal \<Rightarrow> reject_reason \<Rightarrow> string \<Rightarrow> risk_decision" where
  "rejected \<equiv> refuse REJECTED_V (8 / 10)"

definition reasons_text :: "formatter \<Rightarrow> data_quality_report \<Rightarrow> string" where
  "reasons_text fmt q = fmt [] (PyList (map PyStr (q_reasons q)))"

definition quality_gate ::
    "formatter \<Rightarrow> risk_policy \<Rightarrow> data_quality_report option \<Rightarrow> (reject_reason \<times> string) option" where
  "quality_gate fmt pol mq =
     (case mq of
        None \<Rightarrow> None
      | Some q \<Rightarrow>
          if quality q = INVALID \<and> reject_invalid_data pol
          then Some (INVALID_MARKET_DATA, ''market data INVALID: '' @ reasons_text fmt q)
          else if quality q = STALE \<and> reject_stale_data pol
          then Some (STALE_MARKET_DATA, ''market data STALE: '' @ reasons_text fmt q)
          else if quality q = UNKNOWN_Q \<and> reject_unknown_data pol
          then Some (UNKNOWN_MARKET_DATA, ''market data UNKNOWN: '' @ reasons_text fmt q)
          else None)"

text \<open>The checks before the equity tracker is touched, in the order of the code.\<close>

definition pre_gates ::
    "formatter \<Rightarrow> risk_engine \<Rightarrow> trade_proposal \<Rightarrow> flt option \<Rightarrow> data_quality_report option \<Rightarrow>
     bool \<Rightarrow> flt \<Rightarrow> risk_decision option" where
  "pre_gates fmt re prop price mq avail cur =
     (if safety re = EMERGENCY_STOP
      then Some (blocked cur prop KILL_SWITCH ''EMERGENCY_STOP active'')
      else if safety re = BLOCK_NEW_ENTRIES \<and> prop_side prop = BUY
      then Some (blocked cur prop SAFETY_MODE ''BLOCK_NEW_ENTRIES: new buys blocked'')
      else if safety re = REDUCE_ONLY \<and> prop_side prop = BUY
      then Some (blocked cur prop SAFETY_MODE ''REDUCE_ONLY: only risk-reducing sells allowed'')
      else if \<not> avail
      then Some (blocked cur prop EXCHANGE_UNAVAILABLE ''exchange unavailable'')
      else if \<not> reconciliation_ok re
      then Some (blocked cur prop RECONCILIATION_MISMATCH
                   ''local/exchange state mismatch - resolve before trading'')
      else if requested_quantity prop < 0
      then Some (rejected cur prop INVALID_PROPOSAL ''negative quantity'')
      else if (case price of None \<Rightarrow> True | Some p \<Rightarrow> p \<le> 0)
      then Some (rejected cur prop INVALID_PROPOSAL ''missing or invalid price'')
      else (case quality_gate fmt (policy re) mq of
              None \<Rightarrow> None
            | Some (why, msg) \<Rightarrow> Some (rejected cur prop why msg)))"

definition equity_gates ::
    "formatter \<Rightarrow> risk_policy \<Rightarrow> equity_tracker \<Rightarrow> trade_proposal \<Rightarrow> flt \<Rightarrow> risk_decision option" where
  "equity_gates fmt pol t prop cur =
     (if daily_loss_pct t \<ge> max_daily_loss_pct pol
      then Some (blocked cur prop DAILY_LOSS_LIMIT
             (''daily loss '' @ fmt ''.2f'' (PyNum (daily_loss_pct t)) @ ''% >= '' @
              fmt [] (PyNum (max_daily_loss_pct pol)) @ ''%''))
      else if drawdown_pct t \<ge> max_drawdown_pct pol
      then Some (blocked cur prop DRAWDOWN_LIMIT
             (''drawdown '' @ fmt ''.2f'' (PyNum (drawdown_pct t)) @ ''% >= '' @
              fmt [] (PyNum (max_drawdown_pct pol)) @ ''%''))
      else if consecutive_losses t \<ge> max_consecutive_losses pol
      then Some (blocked cur prop CONSECUTIVE_LOSSES
             (''consecutive losses '' @ fmt [] (PyNum (of_int (consecutive_losses t)))))
      else None)"

definition concurrency_gate ::
    "formatter \<Rightarrow> risk_policy \<Rightarrow> portfolio_snapshot \<Rightarrow> trade_proposal \<Rightarrow> flt \<Rightarrow>
     risk_decision option" where
  "concurrency_gate fmt pol pf prop cur =
     (if prop_side prop = BUY
      then (let open_count = open_position_count pf;
                already = (\<exists>p \<in> set (positions pf).
                   pos_symbol p = prop_symbol prop \<and> pos_account p = prop_account prop)
            in if \<not> already \<and> open_count \<ge> max_concurrent_positions pol
               then Some (rejected cur prop MAX_CONCURRENT_POSITIONS
                      (''open positions '' @ fmt [] (PyNum (of_int open_count)) @ '' >= max '' @
                       fmt [] (PyNum (of_int (max_concurrent_positions pol)))))
               else None)
      else None)"

definition allowed_of :: "trade_proposal \<Rightarrow> sizing_result \<Rightarrow> flt" where
  "allowed_of prop sz =
     max 0 (if requested_quantity prop = 0 then max_quantity sz
            else min (requested_quantity prop) (max_quantity sz))"

definition decide_size ::
    "formatter \<Rightarrow> risk_policy \<Rightarrow> portfolio_snapshot \<Rightarrow> trade_proposal \<Rightarrow>
     market_constraints option \<Rightarrow> flt \<Rightarrow> flt \<Rightarrow> sizing_result \<Rightarrow> risk_decision" where
  "decide_size fmt pol pf prop mc price cur sz =
     (let qty = allowed_of prop sz;
          notional = qty * price;
          fee_pct = (case mc of None \<Rightarrow> default_taker_fee_pct pol | Some c \<Rightarrow> fee_pct_of pol c);
          total_cost = notional * (1 + (fee_pct + default_slippage_pct pol) / 100);
          projected = cur + (if prop_side prop = BUY then notional else - notional)
      in
      if qty \<le> 0 \<or> notional \<le> 0
      then rejected cur prop ZERO_SIZE (''sized to zero (limited by '' @ limited_by sz @ '')'')
      else if \<not> meets_exchange_minimums qty price mc
      then rejected cur prop ORDER_BELOW_MINIMUM
             ''allowed size below exchange minimum amount/cost; refusing to increase size beyond risk limits''
      else if prop_side prop = BUY \<and> total_cost > available_balance pf
      then rejected cur prop INSUFFICIENT_BALANCE
             (''need ~'' @ fmt ''.4f'' (PyNum total_cost) @ '' quote, available '' @
              fmt ''.4f'' (PyNum (available_balance pf)))
      else \<lparr>verdict = APPROVED, reason = NONE,
            rd_message = ''approved qty='' @ fmt [] (PyNum qty) @ '' notional='' @
              fmt ''.4f'' (PyNum notional) @ '' (limited by '' @ limited_by sz @ '')'',
            risk_score = min 1 (notional / max (equity pf) (1 / 10 ^ 12)),
            rd_allowed_quantity = qty, rd_allowed_notional = notional,
            current_exposure = cur, projected_exposure = max 0 projected,
            proposal = Some prop\<rparr>)"

definition evaluate ::
    "formatter \<Rightarrow> string \<Rightarrow> risk_engine \<Rightarrow> trade_proposal \<Rightarrow> portfolio_snapshot \<Rightarrow>
     data_quality_report option \<Rightarrow> market_constraints option \<Rightarrow> flt option \<Rightarrow> bool \<Rightarrow>
     (py_error + risk_decision) \<times> risk_engine" where
  "evaluate fmt day re prop pf mq mc entry_price avail =
     (let price = num_or entry_price (requested_price prop);
          cur = gross (exposure pf)
      in case pre_gates fmt re prop price mq avail cur of
           Some d \<Rightarrow> (Inr d, re)
         | None \<Rightarrow>
             (case update_equity_tracker day re (equity pf) of (re', t) \<Rightarrow>
                (case equity_gates fmt (policy re) t prop cur of
                   Some d \<Rightarrow> (Inr d, re')
                 | None \<Rightarrow>
                     (case concurrency_gate fmt (policy re) pf prop cur of
                        Some d \<Rightarrow> (Inr d, re')
                      | None \<Rightarrow>
                          (let p = opt_get price 0 in
                           case compute_position_size (equity pf) (available_balance pf) p
                                  (policy re) mc (stop_price prop)
                                  (dict_get (by_symbol (exposure pf)) (prop_symbol prop) 0)
                                  (dict_get (by_exchange (exposure pf)) (prop_exchange_id prop) 0)
                                  (gross (exposure pf)) of
                             Inl e \<Rightarrow> (Inl e, re')
                           | Inr sz \<Rightarrow> (Inr (decide_size fmt (policy re) pf prop mc p cur sz), re'))))))"

definition evaluate_circuit_breakers ::
    "string \<Rightarrow> risk_engine \<Rightarrow> portfolio_snapshot \<Rightarrow> data_quality_report option \<Rightarrow> bool \<Rightarrow>
     reconciliation_result option \<Rightarrow> bool \<Rightarrow> risk_engine \<times> safety_mode" where
  "evaluate_circuit_breakers day re pf mq avail recon abnormal_move =
     (case update_equity_tracker day re (equity pf) of (re, t) \<Rightarrow>
        (let re =
           (if \<not> avail then set_safety_mode re BLOCK_NEW_ENTRIES
            else if (case recon of None \<Rightarrow> False | Some r \<Rightarrow> has_mismatch r)
            then set_safety_mode (set_reconciliation_ok re False) BLOCK_NEW_ENTRIES
            else if drawdown_pct t \<ge> max_drawdown_pct (policy re)
            then set_safety_mode re EMERGENCY_STOP
            else if daily_loss_pct t \<ge> max_daily_loss_pct (policy re)
            then set_safety_mode re BLOCK_NEW_ENTRIES
            else if (case mq of None \<Rightarrow> False | Some q \<Rightarrow> quality q \<in> {STALE, INVALID, UNKNOWN_Q})
            then set_safety_mode re WARNING
            else if abnormal_move then set_safety_mode re REDUCE_ONLY
            else if safety re \<in> {WARNING, BLOCK_NEW_ENTRIES, REDUCE_ONLY}
            then set_safety_mode re NORMAL
            else re)
         in (re, safety re)))"

section \<open>Lemmas: sizing\<close>

lemma min_first_in: "min_first m xs \<in> set (m # xs)"
  by (induction xs arbitrary: m) (auto split: if_splits)

lemma min_first_le: "x \<in> set (m # xs) \<Longrightarrow> fst (min_first m xs) \<le> fst x"
proof (induction xs arbitrary: m x)
  case Nil
  then show ?case by simp
next
  case (Cons y ys)
  let ?k = "if fst y < fst m then y else m"
  have *: "fst (min_first ?k ys) \<le> fst z" if "z \<in> set (?k # ys)" for z
    using Cons.IH that by blast
  have "fst (min_first ?k ys) \<le> fst ?k" by (rule *) simp
  then have "fst (min_first ?k ys) \<le> fst m" and "fst (min_first ?k ys) \<le> fst y"
    by (auto split: if_splits)
  with *[of x] Cons.prems show ?case by (cases "x \<in> set ys") auto
qed

lemma floor_precision_le: "0 \<le> v \<Longrightarrow> floor_precision v p \<le> v"
  by (auto simp: floor_precision_def trunc_scale_le split: option.splits)

lemma floor_precision_nonneg: "0 \<le> v \<Longrightarrow> 0 \<le> floor_precision v p"
  by (auto simp: floor_precision_def trunc_scale_nonneg split: option.splits)

definition size_candidates ::
    "flt \<Rightarrow> flt \<Rightarrow> flt \<Rightarrow> risk_policy \<Rightarrow> market_constraints option \<Rightarrow> flt option \<Rightarrow>
     flt \<Rightarrow> flt \<Rightarrow> flt \<Rightarrow> (flt \<times> string) list" where
  "size_candidates eq avail price pol mc stop sym_exp exch_exp port_exp =
     stop_candidates eq price pol stop @
     cap_candidates eq pol sym_exp exch_exp port_exp
       (avail / (1 + (fee_pct_of pol (opt_get mc no_constraints) + default_slippage_pct pol) / 100))"

text \<open>The sized notional is below every candidate; flooring to the precision keeps it there.\<close>

lemma sizing_below_candidates:
  assumes r: "compute_position_size eq avail price pol mc stop sy ex po = Inr r"
    and c: "c \<in> set (size_candidates eq avail price pol mc stop sy ex po)"
  shows "0 \<le> max_quantity r" and "max_quantity r * price \<le> max 0 (fst c)"
proof -
  let ?c = "opt_get mc no_constraints"
  let ?cands = "size_candidates eq avail price pol mc stop sy ex po"
  let ?best = "min_first (hd ?cands) (tl ?cands)"
  let ?qty = "floor_precision (fst ?best / price) (amount_precision ?c)"
  have "?cands = hd ?cands # tl ?cands"
    by (simp add: size_candidates_def cap_candidates_def)
  with c have best: "fst ?best \<le> fst c" using min_first_le by metis
  have "r = zero_sizing ''zero_equity_or_price'' \<or> r = zero_sizing (snd ?best) \<or>
      (0 < price \<and> 0 < fst ?best \<and> max_quantity r = max 0 ?qty)"
    using r by (auto simp: compute_position_size_def Let_def size_candidates_def split: if_splits)
  then have "0 \<le> max_quantity r \<and> max_quantity r * price \<le> max 0 (fst c)"
  proof (elim disjE conjE)
    assume p: "0 < price" "0 < fst ?best" and q: "max_quantity r = max 0 ?qty"
    have "0 \<le> ?qty" and "?qty \<le> fst ?best / price"
      using p by (simp_all add: floor_precision_nonneg floor_precision_le)
    with p have "?qty * price \<le> fst ?best" by (simp add: pos_le_divide_eq)
    with best q \<open>0 \<le> ?qty\<close> show ?thesis by (auto simp: max_def)
  qed (simp_all add: zero_sizing_def)
  then show "0 \<le> max_quantity r" and "max_quantity r * price \<le> max 0 (fst c)" by blast+
qed

lemma sizing_total:
  "0 \<le> default_slippage_pct pol \<Longrightarrow> 0 \<le> fee_pct_of pol (opt_get mc no_constraints) \<Longrightarrow>
   \<exists>r. compute_position_size eq avail price pol mc stop sy ex po = Inr r"
  by (simp add: compute_position_size_def Let_def add_nonneg_eq_0_iff add_pos_nonneg)

section \<open>Lemmas: decisions\<close>

lemma refuse_simps [simp]:
  "verdict (refuse v score cur prop why msg) = v"
  "rd_allowed_quantity (refuse v score cur prop why msg) = 0"
  "rd_allowed_notional (refuse v score cur prop why msg) = 0"
  "proposal (refuse v score cur prop why msg) = Some prop"
  by (simp_all add: refuse_def)

lemma pre_gates_refuse:
  "pre_gates fmt re prop price mq avail cur = Some d \<Longrightarrow>
   verdict d \<noteq> APPROVED \<and> rd_allowed_quantity d = 0 \<and> proposal d = Some prop"
  by (auto simp: pre_gates_def split: if_splits option.splits prod.splits)

lemma pre_gates_pass:
  "pre_gates fmt re prop price mq avail cur = None \<Longrightarrow>
   safety re \<noteq> EMERGENCY_STOP \<and>
   (prop_side prop = BUY \<longrightarrow> safety re \<in> {NORMAL, WARNING}) \<and>
   avail \<and> reconciliation_ok re \<and> 0 \<le> requested_quantity prop \<and>
   (\<exists>p. price = Some p \<and> 0 < p) \<and> quality_gate fmt (policy re) mq = None"
  by (cases "safety re") (auto simp: pre_gates_def split: if_splits option.splits prod.splits)

lemma equity_gates_refuse:
  "equity_gates fmt pol t prop cur = Some d \<Longrightarrow>
   verdict d \<noteq> APPROVED \<and> rd_allowed_quantity d = 0 \<and> proposal d = Some prop"
  by (auto simp: equity_gates_def split: if_splits)

lemma equity_gates_pass:
  "equity_gates fmt pol t prop cur = None \<Longrightarrow>
   daily_loss_pct t < max_daily_loss_pct pol \<and> drawdown_pct t < max_drawdown_pct pol \<and>
   consecutive_losses t < max_consecutive_losses pol"
  by (auto simp: equity_gates_def split: if_splits)

lemma concurrency_gate_refuse:
  "concurrency_gate fmt pol pf prop cur = Some d \<Longrightarrow>
   verdict d \<noteq> APPROVED \<and> rd_allowed_quantity d = 0 \<and> proposal d = Some prop"
  by (auto simp: concurrency_gate_def Let_def split: if_splits)

lemma decide_size_cases:
  "(verdict (decide_size fmt pol pf prop mc price cur sz) \<noteq> APPROVED \<and>
    rd_allowed_quantity (decide_size fmt pol pf prop mc price cur sz) = 0) \<or>
   (let d = decide_size fmt pol pf prop mc price cur sz; q = allowed_of prop sz in
    verdict d = APPROVED \<and> rd_allowed_quantity d = q \<and> rd_allowed_notional d = q * price \<and>
    0 < q \<and> 0 < q * price \<and> meets_exchange_minimums q price mc \<and>
    (prop_side prop = BUY \<longrightarrow>
       q * price * (1 + ((case mc of None \<Rightarrow> default_taker_fee_pct pol | Some c \<Rightarrow> fee_pct_of pol c) +
         default_slippage_pct pol) / 100) \<le> available_balance pf))"
  by (auto simp: decide_size_def Let_def not_le)

lemma decide_size_proposal [simp]:
  "proposal (decide_size fmt pol pf prop mc price cur sz) = Some prop"
  by (simp add: decide_size_def Let_def)

lemma allowed_of_le:
  "0 \<le> max_quantity sz \<Longrightarrow> allowed_of prop sz \<le> max_quantity sz"
  "0 < requested_quantity prop \<Longrightarrow> allowed_of prop sz \<le> requested_quantity prop"
  by (auto simp: allowed_of_def)

text \<open>Where the result of \<open>evaluate\<close> comes from.\<close>

lemma evaluate_cases:
  assumes "evaluate fmt day re prop pf mq mc entry avail = (Inr d, re')"
  obtains (refused) "verdict d \<noteq> APPROVED" "rd_allowed_quantity d = 0" "proposal d = Some prop"
  | (sized) price sz t where
      "num_or entry (requested_price prop) = Some price" "0 < price"
      "pre_gates fmt re prop (Some price) mq avail (gross (exposure pf)) = None"
      "update_equity_tracker day re (equity pf) = (re', t)"
      "equity_gates fmt (policy re) t prop (gross (exposure pf)) = None"
      "concurrency_gate fmt (policy re) pf prop (gross (exposure pf)) = None"
      "compute_position_size (equity pf) (available_balance pf) price (policy re) mc
         (stop_price prop) (dict_get (by_symbol (exposure pf)) (prop_symbol prop) 0)
         (dict_get (by_exchange (exposure pf)) (prop_exchange_id prop) 0)
         (gross (exposure pf)) = Inr sz"
      "d = decide_size fmt (policy re) pf prop mc price (gross (exposure pf)) sz"
proof (cases "pre_gates fmt re prop (num_or entry (requested_price prop)) mq avail
    (gross (exposure pf))")
  case (Some d')
  with assms refused show thesis by (auto simp: evaluate_def Let_def dest: pre_gates_refuse)
next
  case None
  obtain price where price: "num_or entry (requested_price prop) = Some price" "0 < price"
    using pre_gates_pass [OF None] by blast
  obtain re1 t where t: "update_equity_tracker day re (equity pf) = (re1, t)"
    by (metis surj_pair)
  show thesis
  proof (cases "equity_gates fmt (policy re) t prop (gross (exposure pf))")
    case (Some d')
    with assms None t refused show thesis
      by (auto simp: evaluate_def Let_def dest: equity_gates_refuse)
  next
    case eg: None
    show thesis
    proof (cases "concurrency_gate fmt (policy re) pf prop (gross (exposure pf))")
      case (Some d')
      with assms None t eg refused show thesis
        by (auto simp: evaluate_def Let_def dest: concurrency_gate_refuse)
    next
      case cg: None
      with assms None t eg price sized show thesis
        by (auto simp: evaluate_def Let_def opt_get_def split: sum.splits)
    qed
  qed
qed

lemma evaluate_proposal:
  assumes "evaluate fmt day re prop pf mq mc entry avail = (Inr d, re')"
  shows "proposal d = Some prop"
  using assms by (cases rule: evaluate_cases) auto

lemma evaluate_approved_executable:
  assumes "evaluate fmt day re prop pf mq mc entry avail = (Inr d, re')" and "verdict d = APPROVED"
  shows "executable d"
  using assms(1)
proof (cases rule: evaluate_cases)
  case refused
  with assms(2) show ?thesis by simp
next
  case (sized price sz t)
  with assms(2) show ?thesis
    using decide_size_cases [of fmt "policy re" pf "prop" mc price "gross (exposure pf)" sz]
    by (auto simp: executable_def Let_def)
qed

lemma evaluate_safety: "safety (snd (evaluate fmt day re prop pf mq mc entry avail)) = safety re"
  by (auto simp: evaluate_def Let_def update_equity_tracker_def split: option.splits sum.splits)

lemma evaluate_not_approved:
  assumes "evaluate fmt day re prop pf mq mc entry avail = (Inr d, re')" and "verdict d \<noteq> APPROVED"
  shows "rd_allowed_quantity d = 0"
  using assms(1)
proof (cases rule: evaluate_cases)
  case refused
  then show ?thesis by simp
next
  case (sized price sz t)
  with assms(2) show ?thesis
    using decide_size_cases [of fmt "policy re" pf "prop" mc price "gross (exposure pf)" sz]
    by (auto simp: Let_def)
qed

lemma update_equity_tracker_frame:
  assumes "update_equity_tracker day re e = (re', t)"
  shows "policy re' = policy re" "safety re' = safety re"
    "reconciliation_ok re' = reconciliation_ok re" "tracker re' = Some t" "day_id t = day"
    "current_equity t = e" "e \<le> peak_equity t"
  using assms
  by (auto simp: update_equity_tracker_def fresh_tracker_def update_equity_def Let_def
      split: option.splits if_splits)

end
