(* ===== verification/ExecModels.thy ===== *)
theory ExecModels
  imports OrderStates Risk
begin

text \<open>
  Execution records of \<^verbatim>\<open>src/src/crypto/execution/models.py\<close>: fills, the mutable record
  of an execution, its accounting from fills, the idempotency key and the construction of a record
  from an approved decision. Parameters: \<open>fmt\<close> renders numbers, \<open>sha\<close> is the hex digest
  of SHA-256; the random identifiers and the clock reading are arguments.
\<close>

section \<open>Model\<close>

datatype execution_mode = PAPER | LIVE

record fill =
  fill_id :: string
  f_quantity :: flt
  f_price :: flt
  fee_amount :: "flt option"
  f_fee_currency :: "string option"
  f_timestamp_ms :: int

record execution_record =
  execution_id :: string
  client_order_id :: string
  x_exchange_id :: string
  x_account_id :: string
  x_symbol :: string
  x_side :: side
  order_type :: string
  x_requested_quantity :: flt
  x_requested_price :: "flt option"
  allowed_quantity :: flt
  allowed_notional :: flt
  x_state :: order_state
  exchange_order_id :: "string option"
  filled_quantity :: flt
  remaining_quantity :: flt
  average_fill_price :: "flt option"
  fees_total :: flt
  fee_currency :: "string option"
  fills :: "fill list"
  last_error :: "string option"
  created_at_ms :: int
  updated_at_ms :: int
  strategy_id :: string
  correlation_id :: string
  x_mode :: execution_mode

definition total_filled :: "fill list \<Rightarrow> flt" where
  "total_filled fs = sum_list (map f_quantity fs)"

definition recompute_from_fills :: "execution_record \<Rightarrow> execution_record" where
  "recompute_from_fills rec =
     (if fills rec = [] then
        rec\<lparr>filled_quantity := 0, average_fill_price := None, fees_total := 0\<rparr>
      else
        (let total_qty = total_filled (fills rec) in
         if total_qty \<le> 0 then rec\<lparr>filled_quantity := 0, average_fill_price := None\<rparr>
         else
           (let notional = sum_list (map (\<lambda>f. f_quantity f * f_price f) (fills rec)) in
            rec\<lparr>filled_quantity := total_qty, average_fill_price := Some (notional / total_qty),
                fees_total := sum_list (map (\<lambda>f. opt_get (fee_amount f) 0) (fills rec)),
                remaining_quantity := max 0 (allowed_quantity rec - total_qty)\<rparr>)))"

fun side_name :: "side \<Rightarrow> string" where
  "side_name BUY = ''BUY''"
| "side_name SELL = ''SELL''"

fun mode_name :: "execution_mode \<Rightarrow> string" where
  "mode_name PAPER = ''PAPER''"
| "mode_name LIVE = ''LIVE''"

definition price_text :: "formatter \<Rightarrow> flt option \<Rightarrow> string" where
  "price_text fmt p = (case p of None \<Rightarrow> ''None'' | Some x \<Rightarrow> fmt [] (PyNum x))"

definition make_client_order_id ::
    "formatter \<Rightarrow> (string \<Rightarrow> string) \<Rightarrow> string \<Rightarrow> string \<Rightarrow> string \<Rightarrow> side \<Rightarrow> flt \<Rightarrow> flt option \<Rightarrow>
     string \<Rightarrow> string" where
  "make_client_order_id fmt sha exch acct smb sd qty price intent_key =
     (let raw = exch @ ''|'' @ acct @ ''|'' @ smb @ ''|'' @ side_name sd @ ''|'' @
                fmt ''.12g'' (PyNum qty) @ ''|'' @ price_text fmt price @ ''|'' @ intent_key
      in ''c'' @ take 24 (sha raw))"

definition record_from_decision ::
    "formatter \<Rightarrow> (string \<Rightarrow> string) \<Rightarrow> string \<Rightarrow> string \<Rightarrow> int \<Rightarrow> risk_decision \<Rightarrow> string \<Rightarrow>
     execution_mode \<Rightarrow> string \<Rightarrow> value_error + execution_record" where
  "record_from_decision fmt sha new_id corr now d otype md intent_key =
     (case proposal d of
        None \<Rightarrow> Inl (ValueError ''RiskDecision missing proposal'')
      | Some p \<Rightarrow> Inr
          \<lparr>execution_id = new_id,
           client_order_id = make_client_order_id fmt sha (prop_exchange_id p) (prop_account_id p)
             (prop_symbol p) (prop_side p) (rd_allowed_quantity d) (requested_price p) intent_key,
           x_exchange_id = prop_exchange_id p, x_account_id = prop_account_id p,
           x_symbol = prop_symbol p, x_side = prop_side p, order_type = otype,
           x_requested_quantity = requested_quantity p, x_requested_price = requested_price p,
           allowed_quantity = rd_allowed_quantity d, allowed_notional = rd_allowed_notional d,
           x_state = RISK_APPROVED, exchange_order_id = None, filled_quantity = 0,
           remaining_quantity = rd_allowed_quantity d, average_fill_price = None, fees_total = 0,
           fee_currency = None, fills = [], last_error = None, created_at_ms = now,
           updated_at_ms = now, strategy_id = prop_strategy_id p, correlation_id = corr,
           x_mode = md\<rparr>)"

section \<open>Lemmas\<close>

lemma recompute_frame [simp]:
  "execution_id (recompute_from_fills rec) = execution_id rec"
  "client_order_id (recompute_from_fills rec) = client_order_id rec"
  "x_state (recompute_from_fills rec) = x_state rec"
  "fills (recompute_from_fills rec) = fills rec"
  "allowed_quantity (recompute_from_fills rec) = allowed_quantity rec"
  "allowed_notional (recompute_from_fills rec) = allowed_notional rec"
  "exchange_order_id (recompute_from_fills rec) = exchange_order_id rec"
  "created_at_ms (recompute_from_fills rec) = created_at_ms rec"
  "x_mode (recompute_from_fills rec) = x_mode rec"
  by (simp_all add: recompute_from_fills_def Let_def)

lemma recompute_idem: "recompute_from_fills (recompute_from_fills rec) = recompute_from_fills rec"
  by (simp add: recompute_from_fills_def Let_def)

lemma recompute_filled: "filled_quantity (recompute_from_fills rec) = max 0 (total_filled (fills rec))"
  by (auto simp: recompute_from_fills_def Let_def total_filled_def)

text \<open>With non-negative fills the average price lies between the extreme fill prices.\<close>

lemma weighted_bounds:
  assumes "\<forall>f \<in> set fs. 0 \<le> f_quantity f \<and> lo \<le> f_price f \<and> f_price f \<le> hi"
  shows "lo * total_filled fs \<le> sum_list (map (\<lambda>f. f_quantity f * f_price f) fs)"
    and "sum_list (map (\<lambda>f. f_quantity f * f_price f) fs) \<le> hi * total_filled fs"
proof -
  have "lo * f_quantity f \<le> f_quantity f * f_price f \<and> f_quantity f * f_price f \<le> hi * f_quantity f"
    if "f \<in> set fs" for f
    using assms that by (simp add: mult.commute mult_right_mono)
  then show "lo * total_filled fs \<le> sum_list (map (\<lambda>f. f_quantity f * f_price f) fs)"
    and "sum_list (map (\<lambda>f. f_quantity f * f_price f) fs) \<le> hi * total_filled fs"
    by (simp_all add: total_filled_def sum_list_const_mult [symmetric] sum_list_mono)
qed

lemma record_from_decision_simps:
  assumes "record_from_decision fmt sha new_id corr now d otype md intent_key = Inr rec"
  shows "x_state rec = RISK_APPROVED" "execution_id rec = new_id"
    "allowed_quantity rec = rd_allowed_quantity d" "allowed_notional rec = rd_allowed_notional d"
    "exchange_order_id rec = None" "fills rec = []" "filled_quantity rec = 0"
    "created_at_ms rec = now" "order_type rec = otype" "x_mode rec = md"
  using assms by (auto simp: record_from_decision_def split: option.splits)

end
