(* ===== verification/ExecStore.thy ===== *)
theory ExecStore
  imports ExecModels
begin

text \<open>
  The SQLite store of \<^verbatim>\<open>src/src/crypto/execution/store.py\<close>: the row layout, \<open>save\<close>
  with its \<open>ON CONFLICT(execution_id) DO UPDATE\<close> column list, the queries and
  \<open>_row_to_record\<close>. A table is the list of its rows in rowid order. \<open>json.dumps\<close> and
  \<open>json.loads\<close> are inverse to each other on the values used here, so the column
  \<open>fills_json\<close> holds the value itself. Ties of \<open>ORDER BY created_at_ms\<close> are broken by
  rowid. The component provides the contract \<open>keyed_store\<close>.
\<close>

section \<open>Model\<close>

record exec_row =
  r_execution_id :: string
  r_client_order_id :: string
  r_exchange_id :: string
  r_account_id :: string
  r_symbol :: string
  r_side :: string
  r_order_type :: string
  r_requested_quantity :: flt
  r_requested_price :: "flt option"
  r_allowed_quantity :: flt
  r_allowed_notional :: flt
  r_state :: string
  r_exchange_order_id :: "string option"
  r_filled_quantity :: flt
  r_remaining_quantity :: flt
  r_average_fill_price :: "flt option"
  r_fees_total :: flt
  r_fee_currency :: "string option"
  r_fills_json :: pyval
  r_last_error :: "string option"
  r_created_at_ms :: int
  r_updated_at_ms :: int
  r_strategy_id :: "string option"
  r_correlation_id :: "string option"
  r_mode :: string

type_synonym exec_db = "exec_row list"

definition opt_num :: "flt option \<Rightarrow> pyval" where
  "opt_num x = (case x of None \<Rightarrow> PyNone | Some v \<Rightarrow> PyNum v)"

definition opt_str :: "string option \<Rightarrow> pyval" where
  "opt_str x = (case x of None \<Rightarrow> PyNone | Some v \<Rightarrow> PyStr v)"

definition fill_to_json :: "fill \<Rightarrow> pyval" where
  "fill_to_json f = PyDict
     [(''fill_id'', PyStr (fill_id f)), (''quantity'', PyNum (f_quantity f)),
      (''price'', PyNum (f_price f)), (''fee_amount'', opt_num (fee_amount f)),
      (''fee_currency'', opt_str (f_fee_currency f)),
      (''timestamp_ms'', PyNum (of_int (f_timestamp_ms f)))]"

definition record_to_row :: "execution_record \<Rightarrow> exec_row" where
  "record_to_row rec =
     \<lparr>r_execution_id = execution_id rec, r_client_order_id = client_order_id rec,
      r_exchange_id = x_exchange_id rec, r_account_id = x_account_id rec,
      r_symbol = x_symbol rec, r_side = side_name (x_side rec), r_order_type = order_type rec,
      r_requested_quantity = x_requested_quantity rec, r_requested_price = x_requested_price rec,
      r_allowed_quantity = allowed_quantity rec, r_allowed_notional = allowed_notional rec,
      r_state = state_name (x_state rec), r_exchange_order_id = exchange_order_id rec,
      r_filled_quantity = filled_quantity rec, r_remaining_quantity = remaining_quantity rec,
      r_average_fill_price = average_fill_price rec, r_fees_total = fees_total rec,
      r_fee_currency = fee_currency rec, r_fills_json = PyList (map fill_to_json (fills rec)),
      r_last_error = last_error rec, r_created_at_ms = created_at_ms rec,
      r_updated_at_ms = updated_at_ms rec, r_strategy_id = Some (strategy_id rec),
      r_correlation_id = Some (correlation_id rec), r_mode = mode_name (x_mode rec)\<rparr>"

text \<open>The column list of the \<open>DO UPDATE SET\<close> clause.\<close>

definition update_row :: "exec_row \<Rightarrow> exec_row \<Rightarrow> exec_row" where
  "update_row old excluded = old\<lparr>
      r_state := r_state excluded,
      r_exchange_order_id := r_exchange_order_id excluded,
      r_filled_quantity := r_filled_quantity excluded,
      r_remaining_quantity := r_remaining_quantity excluded,
      r_average_fill_price := r_average_fill_price excluded,
      r_fees_total := r_fees_total excluded,
      r_fee_currency := r_fee_currency excluded,
      r_fills_json := r_fills_json excluded,
      r_last_error := r_last_error excluded,
      r_updated_at_ms := r_updated_at_ms excluded\<rparr>"

fun upsert :: "exec_db \<Rightarrow> exec_row \<Rightarrow> exec_db" where
  "upsert [] row = [row]"
| "upsert (r # rs) row =
     (if r_execution_id r = r_execution_id row then update_row r row # rs
      else r # upsert rs row)"

definition save :: "exec_db \<Rightarrow> execution_record \<Rightarrow> exec_db" where
  "save db rec = upsert db (record_to_row rec)"

text \<open>Decoding; \<open>None\<close> stands for the exception the code raises on a malformed row.\<close>

definition num_of :: "pyval \<Rightarrow> flt option" where
  "num_of v = py_float (\<lambda>_. None) v"

fun opt_num_of :: "pyval \<Rightarrow> flt option" where
  "opt_num_of (PyNum x) = Some x"
| "opt_num_of _ = None"

fun opt_str_of :: "pyval \<Rightarrow> string option" where
  "opt_str_of (PyStr s) = Some s"
| "opt_str_of _ = None"

definition fill_of_json :: "pyval \<Rightarrow> fill option" where
  "fill_of_json v =
     (case v of
        PyDict d \<Rightarrow>
          (case (map_of d ''fill_id'', map_of d ''quantity'', map_of d ''price'',
                 map_of d ''timestamp_ms'') of
             (Some (PyStr i), Some q, Some p, Some t) \<Rightarrow>
               (case (num_of q, num_of p, num_of t) of
                  (Some q', Some p', Some t') \<Rightarrow>
                    Some \<lparr>fill_id = i, f_quantity = q', f_price = p',
                          fee_amount = opt_num_of (dget d ''fee_amount''),
                          f_fee_currency = opt_str_of (dget d ''fee_currency''),
                          f_timestamp_ms = py_trunc t'\<rparr>
                | _ \<Rightarrow> None)
           | _ \<Rightarrow> None)
      | _ \<Rightarrow> None)"

fun fills_of_json :: "pyval \<Rightarrow> fill list option" where
  "fills_of_json (PyList vs) = those (map fill_of_json vs)"
| "fills_of_json _ = None"

definition side_of_name :: "string \<Rightarrow> side option" where
  "side_of_name n = (if n = ''BUY'' then Some BUY else if n = ''SELL'' then Some SELL else None)"

definition mode_of_name :: "string \<Rightarrow> execution_mode option" where
  "mode_of_name n = (if n = ''PAPER'' then Some PAPER else if n = ''LIVE'' then Some LIVE else None)"

definition row_to_record :: "exec_row \<Rightarrow> execution_record option" where
  "row_to_record row =
     (case (fills_of_json (r_fills_json row), side_of_name (r_side row),
            state_of_name (r_state row), mode_of_name (r_mode row)) of
        (Some fs, Some sd, Some st, Some md) \<Rightarrow> Some
          \<lparr>execution_id = r_execution_id row, client_order_id = r_client_order_id row,
           x_exchange_id = r_exchange_id row, x_account_id = r_account_id row,
           x_symbol = r_symbol row, x_side = sd, order_type = r_order_type row,
           x_requested_quantity = r_requested_quantity row,
           x_requested_price = r_requested_price row,
           allowed_quantity = r_allowed_quantity row, allowed_notional = r_allowed_notional row,
           x_state = st, exchange_order_id = r_exchange_order_id row,
           filled_quantity = r_filled_quantity row, remaining_quantity = r_remaining_quantity row,
           average_fill_price = r_average_fill_price row, fees_total = r_fees_total row,
           fee_currency = r_fee_currency row, fills = fs, last_error = r_last_error row,
           created_at_ms = r_created_at_ms row, updated_at_ms = r_updated_at_ms row,
           strategy_id = opt_get (r_strategy_id row) [],
           correlation_id = opt_get (r_correlation_id row) [], x_mode = md\<rparr>
      | _ \<Rightarrow> None)"

definition get_record :: "exec_db \<Rightarrow> string \<Rightarrow> execution_record option" where
  "get_record db eid =
     (case find (\<lambda>r. r_execution_id r = eid) db of
        None \<Rightarrow> None
      | Some row \<Rightarrow> row_to_record row)"

definition get_by_client_order_id :: "exec_db \<Rightarrow> string \<Rightarrow> execution_record option" where
  "get_by_client_order_id db coid =
     (case sort_key (\<lambda>r. - r_created_at_ms r) (filter (\<lambda>r. r_client_order_id r = coid) db) of
        [] \<Rightarrow> None
      | row # _ \<Rightarrow> row_to_record row)"

definition list_all_records :: "exec_db \<Rightarrow> execution_record list" where
  "list_all_records db = List.map_filter row_to_record (sort_key r_created_at_ms db)"

definition active_row :: "exec_row \<Rightarrow> bool" where
  "active_row r \<longleftrightarrow> r_state r \<notin> {''FILLED'', ''CANCELLED'', ''REJECTED'', ''FAILED''}"

definition list_active :: "exec_db \<Rightarrow> execution_record list" where
  "list_active db =
     List.map_filter row_to_record (sort_key r_created_at_ms (filter active_row db))"

record audit_row =
  au_timestamp_ms :: int
  au_correlation_id :: string
  au_execution_id :: string
  au_event :: string
  au_detail :: string
  au_state :: "string option"

definition audit_insert ::
    "audit_row list \<Rightarrow> int \<Rightarrow> string \<Rightarrow> string \<Rightarrow> string \<Rightarrow> string \<Rightarrow> string option \<Rightarrow>
     audit_row list" where
  "audit_insert au now corr eid ev detail st =
     au @ [\<lparr>au_timestamp_ms = now, au_correlation_id = corr, au_execution_id = eid,
            au_event = ev, au_detail = take 2000 detail, au_state = st\<rparr>]"

definition audit_events :: "audit_row list \<Rightarrow> string \<Rightarrow> audit_row list" where
  "audit_events au eid = filter (\<lambda>a. au_execution_id a = eid) au"

section \<open>Lemmas: encoding\<close>

lemma opt_num_of_opt_num [simp]: "opt_num_of (opt_num x) = x"
  by (cases x) (simp_all add: opt_num_def)

lemma opt_str_of_opt_str [simp]: "opt_str_of (opt_str x) = x"
  by (cases x) (simp_all add: opt_str_def)

lemma fill_json_roundtrip [simp]: "fill_of_json (fill_to_json f) = Some f"
  by (simp add: fill_of_json_def fill_to_json_def dget_def num_of_def)

lemma fills_json_roundtrip [simp]: "fills_of_json (PyList (map fill_to_json fs)) = Some fs"
  by (induction fs) simp_all

lemma side_of_name_side_name [simp]: "side_of_name (side_name s) = Some s"
  by (cases s) (simp_all add: side_of_name_def)

lemma mode_of_name_mode_name [simp]: "mode_of_name (mode_name m) = Some m"
  by (cases m) (simp_all add: mode_of_name_def)

lemma row_roundtrip [simp]: "row_to_record (record_to_row rec) = Some rec"
  by (simp add: row_to_record_def record_to_row_def opt_get_def del: fills_of_json.simps)

lemma record_to_row_inject: "record_to_row r = record_to_row r' \<Longrightarrow> r = r'"
  by (metis option.inject row_roundtrip)

lemma row_id [simp]: "r_execution_id (record_to_row rec) = execution_id rec"
  by (simp add: record_to_row_def)

section \<open>Lemmas: the table\<close>

text \<open>What an update keeps of the old row and takes from the new record.\<close>

definition merge_record :: "execution_record \<Rightarrow> execution_record \<Rightarrow> execution_record" where
  "merge_record old rec = old\<lparr>x_state := x_state rec, exchange_order_id := exchange_order_id rec,
      filled_quantity := filled_quantity rec, remaining_quantity := remaining_quantity rec,
      average_fill_price := average_fill_price rec, fees_total := fees_total rec,
      fee_currency := fee_currency rec, fills := fills rec, last_error := last_error rec,
      updated_at_ms := updated_at_ms rec\<rparr>"

lemma update_row_record:
  "update_row (record_to_row old) (record_to_row rec) = record_to_row (merge_record old rec)"
  by (simp add: update_row_def record_to_row_def merge_record_def)

lemma merge_record_simps [simp]:
  "execution_id (merge_record old rec) = execution_id old"
  "client_order_id (merge_record old rec) = client_order_id old"
  "x_state (merge_record old rec) = x_state rec"
  "exchange_order_id (merge_record old rec) = exchange_order_id rec"
  "filled_quantity (merge_record old rec) = filled_quantity rec"
  "fills (merge_record old rec) = fills rec"
  "last_error (merge_record old rec) = last_error rec"
  "allowed_quantity (merge_record old rec) = allowed_quantity old"
  "allowed_notional (merge_record old rec) = allowed_notional old"
  "created_at_ms (merge_record old rec) = created_at_ms old"
  by (simp_all add: merge_record_def)

text \<open>A table the store has written: rows are encoded records and the primary key is unique.\<close>

definition db_ok :: "exec_db \<Rightarrow> bool" where
  "db_ok db \<longleftrightarrow> (\<exists>rs. db = map record_to_row rs \<and> distinct (map execution_id rs))"

lemma db_ok_Nil [simp]: "db_ok []"
  by (simp add: db_ok_def)

fun upsert_record :: "execution_record list \<Rightarrow> execution_record \<Rightarrow> execution_record list" where
  "upsert_record [] rec = [rec]"
| "upsert_record (r # rs) rec =
     (if execution_id r = execution_id rec then merge_record r rec # rs
      else r # upsert_record rs rec)"

lemma save_rows: "save (map record_to_row rs) rec = map record_to_row (upsert_record rs rec)"
  by (induction rs) (simp_all add: save_def update_row_record)

lemma upsert_record_ids:
  "set (map execution_id (upsert_record rs rec)) = insert (execution_id rec) (set (map execution_id rs))"
  by (induction rs) auto

lemma upsert_record_distinct:
  "distinct (map execution_id rs) \<Longrightarrow> distinct (map execution_id (upsert_record rs rec))"
proof (induction rs)
  case Nil
  then show ?case by simp
next
  case (Cons r rs)
  then show ?case using upsert_record_ids [of rs rec] by auto
qed

lemma get_record_rows:
  "get_record (map record_to_row rs) k = find (\<lambda>r. execution_id r = k) rs"
  by (induction rs) (simp_all add: get_record_def)

lemma find_upsert_record:
  "distinct (map execution_id rs) \<Longrightarrow>
   find (\<lambda>r. execution_id r = k) (upsert_record rs rec) =
     (if k = execution_id rec
      then Some (case find (\<lambda>r. execution_id r = k) rs of None \<Rightarrow> rec | Some old \<Rightarrow> merge_record old rec)
      else find (\<lambda>r. execution_id r = k) rs)"
  by (induction rs) auto

interpretation exec_store: keyed_store get_record save execution_id merge_record db_ok
proof unfold_locales
  fix s r k
  assume "db_ok s"
  then obtain rs where rs: "s = map record_to_row rs" "distinct (map execution_id rs)"
    by (auto simp: db_ok_def)
  show "get_record (save s r) k =
      (if k = execution_id r
       then Some (case get_record s k of None \<Rightarrow> r | Some old \<Rightarrow> merge_record old r)
       else get_record s k)"
    by (simp add: rs save_rows get_record_rows find_upsert_record)
  show "db_ok (save s r)"
    using rs by (auto simp: save_rows db_ok_def intro: upsert_record_distinct)
next
  fix s k r
  assume "db_ok s" and "get_record s k = Some r"
  then show "execution_id r = k"
    by (auto simp: db_ok_def get_record_rows find_Some_iff)
qed

lemma find_unique:
  "distinct (map f rs) \<Longrightarrow> r \<in> set rs \<Longrightarrow> find (\<lambda>x. f x = f r) rs = Some r"
  by (induction rs) auto

lemma active_row_iff [simp]: "active_row (record_to_row r) \<longleftrightarrow> \<not> is_terminal (x_state r)"
  by (cases "x_state r") (simp_all add: active_row_def record_to_row_def is_terminal_def)

lemma set_map_filter_some: "set (List.map_filter f xs) = {y. \<exists>x \<in> set xs. f x = Some y}"
  by (induction xs) (auto simp: List.map_filter_def)

lemma list_active_iff:
  assumes "db_ok db"
  shows "rec \<in> set (list_active db) \<longleftrightarrow>
         get_record db (execution_id rec) = Some rec \<and> \<not> is_terminal (x_state rec)"
proof -
  obtain rs where rs: "db = map record_to_row rs" "distinct (map execution_id rs)"
    using assms by (auto simp: db_ok_def)
  have "rec \<in> set (list_active db) \<longleftrightarrow> rec \<in> set rs \<and> \<not> is_terminal (x_state rec)"
    by (auto simp: list_active_def rs(1) set_map_filter_some)
  also have "rec \<in> set rs \<longleftrightarrow> get_record db (execution_id rec) = Some rec"
    using rs find_unique [OF rs(2)] by (auto simp: get_record_rows find_Some_iff)
  finally show ?thesis .
qed

lemma get_by_client_order_id_in:
  assumes "db_ok db" and "get_by_client_order_id db c = Some rec"
  shows "client_order_id rec = c" and "get_record db (execution_id rec) = Some rec"
proof -
  obtain rs where rs: "db = map record_to_row rs" "distinct (map execution_id rs)"
    using assms(1) by (auto simp: db_ok_def)
  obtain row rest where row: "sort_key (\<lambda>r. - r_created_at_ms r)
      (filter (\<lambda>r. r_client_order_id r = c) db) = row # rest" and rec: "row_to_record row = Some rec"
    using assms(2) by (auto simp: get_by_client_order_id_def split: list.splits)
  have "row \<in> set (filter (\<lambda>r. r_client_order_id r = c) db)"
    using row by (metis list.set_intros(1) set_sort)
  then obtain r where r: "r \<in> set rs" "row = record_to_row r" "r_client_order_id row = c"
    by (auto simp: rs(1))
  with rec have "r = rec" by simp
  with r show "client_order_id rec = c" by (simp add: record_to_row_def)
  show "get_record db (execution_id rec) = Some rec"
    using r \<open>r = rec\<close> find_unique [OF rs(2)] by (simp add: rs(1) get_record_rows)
qed

end
