(* ===== verification/PaperBroker.thy ===== *)
theory PaperBroker
  imports ExecModels
begin

text \<open>
  The in-process fill simulator of \<^verbatim>\<open>src/src/crypto/execution/paper.py\<close> with the shared
  cancel step of \<^verbatim>\<open>_order_utils.py\<close>. The module-level counter is part of the state.
\<close>

section \<open>Model\<close>

record paper_broker =
  fill_ratio :: flt
  fee_pct :: flt
  orders :: "(string, pydict) dict"
  next_order :: nat

definition new_paper_broker :: "flt \<Rightarrow> flt \<Rightarrow> nat \<Rightarrow> paper_broker" where
  "new_paper_broker ratio fee counter =
     \<lparr>fill_ratio = max 0 (min 1 ratio), fee_pct = fee, orders = [], next_order = counter\<rparr>"

abbreviation dust :: flt where
  "dust \<equiv> 1 / 10 ^ 12"

definition paper_create_order ::
    "paper_broker \<Rightarrow> int \<Rightarrow> string \<Rightarrow> string \<Rightarrow> string \<Rightarrow> flt \<Rightarrow> flt option \<Rightarrow> string option \<Rightarrow>
     pydict \<times> paper_broker" where
  "paper_create_order pb now symbol sd otype amount price coid =
     (let oid = ''paper-'' @ show_nat (next_order pb);
          px = (case price of None \<Rightarrow> 1 | Some p \<Rightarrow> if p > 0 then p else 1);
          filled = amount * fill_ratio pb;
          remaining = amount - filled;
          status = (if remaining \<le> dust then ''closed''
                    else if filled \<le> 0 then ''open'' else ''open'');
          status = (if filled > 0 \<and> remaining > dust then ''open'' else status);
          fee = filled * px * (fee_pct pb / 100);
          order =
            [(''id'', PyStr oid),
             (''clientOrderId'', (case coid of None \<Rightarrow> PyNone | Some c \<Rightarrow> PyStr c)),
             (''symbol'', PyStr symbol), (''side'', PyStr sd), (''type'', PyStr otype),
             (''status'', PyStr status), (''price'', PyNum px), (''amount'', PyNum amount),
             (''filled'', PyNum filled), (''remaining'', PyNum remaining),
             (''average'', if filled > 0 then PyNum px else PyNone),
             (''timestamp'', PyNum (of_int now)),
             (''fee'', PyDict [(''cost'', PyNum fee), (''currency'', PyNone)])]
      in (order, pb\<lparr>orders := AList.update oid order (orders pb),
                    next_order := Suc (next_order pb)\<rparr>))"

definition cancel_order_state ::
    "(string, pydict) dict \<Rightarrow> string \<Rightarrow> pydict \<times> (string, pydict) dict" where
  "cancel_order_state os order_id =
     (case map_of os order_id of
        None \<Rightarrow> ([(''id'', PyStr order_id), (''status'', PyStr ''canceled'')], os)
      | Some order \<Rightarrow>
          (let updated = AList.update ''remaining'' (PyNum 0)
                           (AList.update ''status'' (PyStr ''canceled'') order)
           in (updated, AList.update order_id updated os)))"

definition paper_cancel_order :: "paper_broker \<Rightarrow> string \<Rightarrow> pydict \<times> paper_broker" where
  "paper_cancel_order pb order_id =
     (case cancel_order_state (orders pb) order_id of
        (o', os) \<Rightarrow> (o', pb\<lparr>orders := os\<rparr>))"

definition paper_fetch_order :: "paper_broker \<Rightarrow> string \<Rightarrow> pydict option" where
  "paper_fetch_order pb order_id = map_of (orders pb) order_id"

section \<open>Lemmas\<close>

lemma dget_update [simp]: "dget (AList.update k v d) j = (if j = k then v else dget d j)"
  by (simp add: dget_def)

lemma paper_ratio_bounds:
  "0 \<le> fill_ratio (new_paper_broker r f c)" "fill_ratio (new_paper_broker r f c) \<le> 1"
  by (simp_all add: new_paper_broker_def)

lemma paper_create_fields:
  assumes "paper_create_order pb now symbol sd otype amount price coid = (raw, pb')"
  shows "dget raw ''id'' = PyStr (''paper-'' @ show_nat (next_order pb))"
    "dget raw ''filled'' = PyNum (amount * fill_ratio pb)"
    "dget raw ''remaining'' = PyNum (amount - amount * fill_ratio pb)"
    "dget raw ''status'' =
       PyStr (if amount - amount * fill_ratio pb \<le> dust then ''closed'' else ''open'')"
    "paper_fetch_order pb' (''paper-'' @ show_nat (next_order pb)) = Some raw"
    "fill_ratio pb' = fill_ratio pb" "next_order pb' = Suc (next_order pb)"
  using assms by (auto simp: paper_create_order_def Let_def dget_def paper_fetch_order_def)

lemma paper_cancel_status:
  "paper_cancel_order pb oid = (raw, pb') \<Longrightarrow> dget raw ''status'' = PyStr ''canceled''"
  by (auto simp: paper_cancel_order_def cancel_order_state_def Let_def
      split: option.splits prod.splits) (auto simp: dget_def)

text \<open>Quantities of a paper fill: nothing is created or lost.\<close>

lemma paper_fill_conserves:
  assumes "0 \<le> amount" and "0 \<le> fill_ratio pb" and "fill_ratio pb \<le> 1"
  shows "0 \<le> amount * fill_ratio pb" and "amount * fill_ratio pb \<le> amount"
    and "amount * fill_ratio pb + (amount - amount * fill_ratio pb) = amount"
  using assms by (auto simp: mult_left_le)

end
