(* ===== verification/ExecEngine.thy ===== *)
theory ExecEngine
  imports ExecStore PaperBroker
begin

text \<open>
  The execution engine of \<^verbatim>\<open>src/src/crypto/execution/engine.py\<close> and the trading gate of
  the exchange adapter base class, \<^verbatim>\<open>src/src/crypto/exchanges/base.py\<close>.

  The world holds everything the engine mutates: the store, the audit table, the paper broker, the
  adapter's trading flag, the risk engine, the mode, and the log of calls that reached the exchange.
  The exchange behind the adapter (the CCXT client) is the parameter \<open>venue\<close>: its answer may
  depend on every earlier call. One engine operation reads the clock as one instant \<open>now\<close>.
  Every raise is a value of \<open>exec_exn\<close>.
\<close>

section \<open>Exceptions and the venue\<close>

text \<open>
  What a call into the adapter can raise: \<open>TradingDisabledError\<close>, any other
  \<open>ExchangeError\<close> (class name and message), or an exception outside that hierarchy.
\<close>

datatype venue_exn =
    TradingDisabled string
  | ExchangeErr string string
  | OtherExn string string

datatype exec_exn =
    ExecutionError string
  | TransitionExn transition_error
  | TradingDisabledExn string
  | ValueExn value_error
  | PyExn py_error

record order_request =
  oq_symbol :: string
  oq_side :: string
  oq_type :: string
  oq_amount :: flt
  oq_price :: "flt option"
  oq_client_order_id :: string

record open_order =
  oo_id :: string
  oo_status :: string
  oo_price :: "flt option"
  oo_filled :: "flt option"
  oo_remaining :: "flt option"
  oo_timestamp_ms :: "int option"

datatype venue_call =
    CreateCall order_request
  | CancelCall string string
  | FetchCall string string

record venue =
  do_create_order :: "venue_call list \<Rightarrow> order_request \<Rightarrow> venue_exn + pydict"
  do_cancel_order :: "venue_call list \<Rightarrow> string \<Rightarrow> string \<Rightarrow> venue_exn + pydict"
  do_fetch_order :: "venue_call list \<Rightarrow> string \<Rightarrow> string \<Rightarrow> venue_exn + open_order"

section \<open>The adapter's trading gate\<close>

text \<open>
  \<open>authorized\<close> is the dual environment check (\<open>NVRA_REAL_TRADING_ENABLE\<close> and
  \<open>NVRA_REAL_TRADING_CONFIRM\<close>) of the process.
\<close>

record adapter =
  trading_enabled :: bool
  sandbox :: bool
  authorized :: bool

definition enable_trading :: "adapter \<Rightarrow> bool \<Rightarrow> venue_exn + adapter" where
  "enable_trading ad enabled =
     (if enabled \<and> \<not> sandbox ad \<and> \<not> authorized ad
      then Inl (OtherExn ''PermissionError''
        ''REAL trading requires NVRA_REAL_TRADING_ENABLE=true and NVRA_REAL_TRADING_CONFIRM=I_UNDERSTAND_REAL_TRADING'')
      else Inr (ad\<lparr>trading_enabled := enabled\<rparr>))"

definition trading_disabled_msg :: string where
  "trading_disabled_msg = ''Live trading is disabled. Only ExecutionEngine may enable it.''"

section \<open>World and environment\<close>

record world =
  db :: exec_db
  audit :: "audit_row list"
  paper :: paper_broker
  adp :: adapter
  calls :: "venue_call list"
  risk :: risk_engine
  mode :: execution_mode

text \<open>
  The environment of one operation: number formatting, \<open>str\<close> of other objects, parsing of
  numerals, SHA-256, the venue, the UTC day, the clock and the random identifiers.
\<close>

record env =
  e_fmt :: formatter
  e_show :: "pyval \<Rightarrow> string"
  e_parse :: "string \<Rightarrow> flt option"
  e_sha :: "string \<Rightarrow> string"
  e_venue :: venue
  e_day :: string
  e_now :: int
  e_new_id :: string
  e_corr :: string

definition adapter_create_order ::
    "env \<Rightarrow> world \<Rightarrow> order_request \<Rightarrow> (venue_exn + pydict) \<times> world" where
  "adapter_create_order e w req =
     (if \<not> trading_enabled (adp w) then (Inl (TradingDisabled trading_disabled_msg), w)
      else (do_create_order (e_venue e) (calls w) req, w\<lparr>calls := calls w @ [CreateCall req]\<rparr>))"

definition adapter_cancel_order ::
    "env \<Rightarrow> world \<Rightarrow> string \<Rightarrow> string \<Rightarrow> (venue_exn + pydict) \<times> world" where
  "adapter_cancel_order e w oid smb =
     (if \<not> trading_enabled (adp w) then (Inl (TradingDisabled trading_disabled_msg), w)
      else (do_cancel_order (e_venue e) (calls w) oid smb,
            w\<lparr>calls := calls w @ [CancelCall oid smb]\<rparr>))"

definition adapter_fetch_order ::
    "env \<Rightarrow> world \<Rightarrow> string \<Rightarrow> string \<Rightarrow> (venue_exn + open_order) \<times> world" where
  "adapter_fetch_order e w oid smb =
     (do_fetch_order (e_venue e) (calls w) oid smb, w\<lparr>calls := calls w @ [FetchCall oid smb]\<rparr>)"

section \<open>Internals\<close>

definition as_float :: "env \<Rightarrow> pyval \<Rightarrow> flt \<Rightarrow> flt" where
  "as_float e v dflt =
     (if v = PyNone then dflt
      else (case py_float (e_parse e) v of None \<Rightarrow> dflt | Some x \<Rightarrow> x))"

definition set_state ::
    "env \<Rightarrow> execution_record \<Rightarrow> order_state \<Rightarrow> transition_error + execution_record" where
  "set_state e rec target =
     (case transition (x_state rec) target of
        Inl err \<Rightarrow> Inl err
      | Inr s \<Rightarrow> Inr (rec\<lparr>x_state := s, updated_at_ms := e_now e\<rparr>))"

definition audit_tokens :: "string list" where
  "audit_tokens = [''apiKey'', ''api_key'', ''secret'', ''password'', ''authorization'']"

definition audit_rec :: "env \<Rightarrow> world \<Rightarrow> execution_record \<Rightarrow> string \<Rightarrow> string \<Rightarrow> world" where
  "audit_rec e w rec ev detail =
     w\<lparr>audit := audit_insert (audit w) (e_now e) (correlation_id rec) (execution_id rec) ev
         (redact audit_tokens detail) (Some (state_name (x_state rec)))\<rparr>"

definition store_rec :: "world \<Rightarrow> execution_record \<Rightarrow> world" where
  "store_rec w rec = w\<lparr>db := save (db w) rec\<rparr>"

text \<open>
  The recurring tail of a branch: set the state, note the error, save, audit, return. It is the body
  of \<open>_reject_local\<close> and of the exception handlers.
\<close>

definition settle ::
    "env \<Rightarrow> world \<Rightarrow> execution_record \<Rightarrow> order_state \<Rightarrow> string option \<Rightarrow> string \<Rightarrow> string \<Rightarrow>
     (exec_exn + execution_record) \<times> world" where
  "settle e w rec target err ev detail =
     (case set_state e rec target of
        Inl t \<Rightarrow> (Inl (TransitionExn t), w)
      | Inr rec' \<Rightarrow>
          (let rec' = (case err of None \<Rightarrow> rec' | Some m \<Rightarrow> rec'\<lparr>last_error := Some m\<rparr>)
           in (Inr rec', audit_rec e (store_rec w rec') rec' ev detail)))"

definition reject_local ::
    "env \<Rightarrow> world \<Rightarrow> execution_record \<Rightarrow> string \<Rightarrow> (exec_exn + execution_record) \<times> world" where
  "reject_local e w rec why = settle e w rec REJECTED (Some why) ''rejected'' why"

section \<open>Applying an exchange response\<close>

definition response_status :: "env \<Rightarrow> pydict \<Rightarrow> string" where
  "response_status e raw = py_lower (py_str (e_show e) (py_or (dget raw ''status'') (PyStr [])))"

definition response_order_id :: "env \<Rightarrow> pydict \<Rightarrow> string option" where
  "response_order_id e raw =
     (let s = py_str (e_show e) (py_or (dget raw ''id'') (PyStr [])) in if s = [] then None else Some s)"

text \<open>The state an exchange status asks for.\<close>

definition target_state :: "string \<Rightarrow> flt \<Rightarrow> flt \<Rightarrow> flt \<Rightarrow> order_state" where
  "target_state status filled_now filled_qty allowed =
     (if status \<in> {''closed'', ''filled''} \<or> filled_qty \<ge> allowed - dust then FILLED
      else if filled_now > 0 then PARTIALLY_FILLED
      else if status \<in> {''open'', ''new'', ''live''} then OPEN
      else if status \<in> {''canceled'', ''cancelled'', ''expired''} then CANCELLED
      else if status \<in> {''rejected''} then REJECTED
      else SUBMITTED)"

definition response_fill :: "env \<Rightarrow> execution_record \<Rightarrow> pydict \<Rightarrow> flt \<Rightarrow> fill" where
  "response_fill e rec raw filled =
     (let avg = py_or (dget raw ''average'') (dget raw ''price'');
          fee_info = (case dget raw ''fee'' of PyDict d \<Rightarrow> d | _ \<Rightarrow> []);
          fee_cost = dget fee_info ''cost'';
          fee_cur = dget fee_info ''currency''
      in \<lparr>fill_id = (case exchange_order_id rec of None \<Rightarrow> execution_id rec
                     | Some i \<Rightarrow> i) @ ''-f0'',
          f_quantity = filled,
          f_price = as_float e avg (opt_get (x_requested_price rec) 0),
          fee_amount = (if fee_cost = PyNone then None else Some (as_float e fee_cost 0)),
          f_fee_currency = (if fee_cur = PyNone then None else Some (py_str (e_show e) fee_cur)),
          f_timestamp_ms = py_trunc (as_float e (dget raw ''timestamp'') (of_int (e_now e)))\<rparr>)"

definition absorb_response :: "env \<Rightarrow> execution_record \<Rightarrow> pydict \<Rightarrow> execution_record" where
  "absorb_response e rec raw =
     (let rec = rec\<lparr>exchange_order_id := response_order_id e raw\<rparr>;
          filled = as_float e (dget raw ''filled'') 0;
          remaining = as_float e (dget raw ''remaining'') (max 0 (allowed_quantity rec - filled))
      in if filled > 0
         then recompute_from_fills (rec\<lparr>fills := fills rec @ [response_fill e rec raw filled]\<rparr>)
         else rec\<lparr>remaining_quantity := remaining\<rparr>)"

definition apply_exchange_response ::
    "env \<Rightarrow> world \<Rightarrow> execution_record \<Rightarrow> pydict \<Rightarrow> (exec_exn + execution_record) \<times> world" where
  "apply_exchange_response e w rec raw =
     (let rec = absorb_response e rec raw;
          status = response_status e raw;
          filled = as_float e (dget raw ''filled'') 0;
          target = target_state status filled (filled_quantity rec) (allowed_quantity rec)
      in case set_state e rec target of
           Inl t \<Rightarrow> (Inl (TransitionExn t), w)
         | Inr rec \<Rightarrow>
             (let rec = (if target = FILLED then rec\<lparr>remaining_quantity := 0\<rparr> else rec);
                  rec = rec\<lparr>updated_at_ms := e_now e\<rparr>
              in (Inr rec, audit_rec e (store_rec w rec) rec ''exchange_response''
                    (''status='' @ status @ '' filled='' @ e_fmt e [] (PyNum filled)))))"

section \<open>Submitting\<close>

definition order_side :: "execution_record \<Rightarrow> string" where
  "order_side rec = (if x_side rec = BUY then ''buy'' else ''sell'')"

definition order_request_of :: "execution_record \<Rightarrow> order_request" where
  "order_request_of rec =
     \<lparr>oq_symbol = x_symbol rec, oq_side = order_side rec, oq_type = order_type rec,
      oq_amount = allowed_quantity rec, oq_price = x_requested_price rec,
      oq_client_order_id = client_order_id rec\<rparr>"

text \<open>
  \<open>_live_trading_gate\<close> around one adapter call: trading is enabled, the call runs, and trading is
  disabled again whatever happened. Outside LIVE the call runs as it is.
\<close>

definition live_trading_gate ::
    "world \<Rightarrow> (world \<Rightarrow> (venue_exn + 'a) \<times> world) \<Rightarrow> (venue_exn + 'a) \<times> world" where
  "live_trading_gate w body =
     (if mode w \<noteq> LIVE then body w
      else
        (let (r, w) = (case enable_trading (adp w) True of
                         Inl exn \<Rightarrow> (Inl exn, w)
                       | Inr ad \<Rightarrow> body (w\<lparr>adp := ad\<rparr>))
         in (case enable_trading (adp w) False of
               Inl exn \<Rightarrow> (Inl exn, w)
             | Inr ad \<Rightarrow> (r, w\<lparr>adp := ad\<rparr>))))"

definition venue_create ::
    "env \<Rightarrow> world \<Rightarrow> execution_record \<Rightarrow> (venue_exn + pydict) \<times> world" where
  "venue_create e w rec =
     (if mode w = PAPER
      then (case paper_create_order (paper w) (e_now e) (x_symbol rec) (order_side rec)
                   (order_type rec) (allowed_quantity rec) (x_requested_price rec)
                   (Some (client_order_id rec)) of
              (raw, pb) \<Rightarrow> (Inr raw, w\<lparr>paper := pb\<rparr>))
      else live_trading_gate w (\<lambda>w. adapter_create_order e w (order_request_of rec)))"

definition submit_to_venue ::
    "env \<Rightarrow> world \<Rightarrow> execution_record \<Rightarrow> (exec_exn + execution_record) \<times> world" where
  "submit_to_venue e w rec =
     (case set_state e rec SUBMITTING of
        Inl t \<Rightarrow> (Inl (TransitionExn t), w)
      | Inr rec \<Rightarrow>
          (let w = audit_rec e (store_rec w rec) rec ''submitting'' (''mode='' @ mode_name (mode w))
           in case venue_create e w rec of
                (Inl (TradingDisabled m), w) \<Rightarrow>
                  (case settle e w rec FAILED (Some m) ''trading_disabled'' m of
                     (Inl x, w) \<Rightarrow> (Inl x, w)
                   | (Inr _, w) \<Rightarrow> (Inl (TradingDisabledExn m), w))
              | (Inl (ExchangeErr cls m), w) \<Rightarrow>
                  if py_in ''Network'' cls \<or> py_in ''timeout'' (py_lower m)
                  then settle e w rec UNKNOWN (Some m) ''unknown_after_submit'' m
                  else settle e w rec FAILED (Some m) ''submit_failed'' m
              | (Inl (OtherExn cls m), w) \<Rightarrow>
                  settle e w rec UNKNOWN (Some m) ''unknown_after_submit'' cls
              | (Inr raw, w) \<Rightarrow> apply_exchange_response e w rec raw))"

fun verdict_name :: "risk_verdict \<Rightarrow> string" where
  "verdict_name APPROVED = ''APPROVED''"
| "verdict_name REJECTED_V = ''REJECTED''"
| "verdict_name BLOCKED = ''BLOCKED''"

fun reason_name :: "reject_reason \<Rightarrow> string" where
  "reason_name NONE = ''NONE''"
| "reason_name KILL_SWITCH = ''KILL_SWITCH''"
| "reason_name SAFETY_MODE = ''SAFETY_MODE''"
| "reason_name STALE_MARKET_DATA = ''STALE_MARKET_DATA''"
| "reason_name INVALID_MARKET_DATA = ''INVALID_MARKET_DATA''"
| "reason_name UNKNOWN_MARKET_DATA = ''UNKNOWN_MARKET_DATA''"
| "reason_name INSUFFICIENT_BALANCE = ''INSUFFICIENT_BALANCE''"
| "reason_name ORDER_BELOW_MINIMUM = ''ORDER_BELOW_MINIMUM''"
| "reason_name MAX_POSITION_SIZE = ''MAX_POSITION_SIZE''"
| "reason_name MAX_SYMBOL_EXPOSURE = ''MAX_SYMBOL_EXPOSURE''"
| "reason_name MAX_EXCHANGE_EXPOSURE = ''MAX_EXCHANGE_EXPOSURE''"
| "reason_name MAX_PORTFOLIO_EXPOSURE = ''MAX_PORTFOLIO_EXPOSURE''"
| "reason_name MAX_CONCURRENT_POSITIONS = ''MAX_CONCURRENT_POSITIONS''"
| "reason_name DAILY_LOSS_LIMIT = ''DAILY_LOSS_LIMIT''"
| "reason_name DRAWDOWN_LIMIT = ''DRAWDOWN_LIMIT''"
| "reason_name CONSECUTIVE_LOSSES = ''CONSECUTIVE_LOSSES''"
| "reason_name RECONCILIATION_MISMATCH = ''RECONCILIATION_MISMATCH''"
| "reason_name EXCHANGE_UNAVAILABLE = ''EXCHANGE_UNAVAILABLE''"
| "reason_name INVALID_PROPOSAL = ''INVALID_PROPOSAL''"
| "reason_name ZERO_SIZE = ''ZERO_SIZE''"

text \<open>The tightening after the final check, and the precision floor.\<close>

definition tighten :: "execution_record \<Rightarrow> risk_decision \<Rightarrow> execution_record" where
  "tighten rec final =
     (if rd_allowed_quantity final < allowed_quantity rec
      then rec\<lparr>allowed_quantity := rd_allowed_quantity final,
               allowed_notional := rd_allowed_notional final,
               remaining_quantity := rd_allowed_quantity final\<rparr>
      else rec)"

text \<open>\<open>None\<close>: the quantity floors to zero and the order is rejected.\<close>

definition floor_to_precision ::
    "execution_record \<Rightarrow> market_constraints option \<Rightarrow> flt option \<Rightarrow> execution_record option" where
  "floor_to_precision rec mc price =
     (case mc of
        None \<Rightarrow> Some rec
      | Some c \<Rightarrow>
          (case amount_precision c of
             None \<Rightarrow> Some rec
           | Some p \<Rightarrow>
               (let factor = pow10 p;
                    floored = of_int (py_trunc (allowed_quantity rec * factor)) / factor
                in if floored \<le> 0 then None
                   else if floored < allowed_quantity rec
                   then Some (rec\<lparr>allowed_quantity := floored,
                                  allowed_notional := floored * opt_get price 0,
                                  remaining_quantity := floored\<rparr>)
                   else Some rec)))"

definition submit_final ::
    "env \<Rightarrow> world \<Rightarrow> execution_record \<Rightarrow> trade_proposal \<Rightarrow> portfolio_snapshot \<Rightarrow>
     data_quality_report option \<Rightarrow> market_constraints option \<Rightarrow> flt option \<Rightarrow> bool \<Rightarrow>
     (exec_exn + execution_record) \<times> world" where
  "submit_final e w rec prp pf mq mc entry_price avail =
     (if safety (risk w) = EMERGENCY_STOP then reject_local e w rec ''EMERGENCY_STOP''
      else
        (case evaluate (e_fmt e) (e_day e) (risk w) prp pf mq mc
                (num_or entry_price (requested_price prp)) avail of
           (Inl x, re) \<Rightarrow> (Inl (PyExn x), w\<lparr>risk := re\<rparr>)
         | (Inr final, re) \<Rightarrow>
             (let w = audit_rec e (w\<lparr>risk := re\<rparr>) rec ''final_risk_check''
                        (verdict_name (verdict final) @ '':'' @ reason_name (reason final) @ '':'' @
                         rd_message final)
              in
              if verdict final \<noteq> APPROVED \<or> \<not> executable final
              then reject_local e w rec
                     (''final risk failed: '' @ reason_name (reason final) @ '' '' @ rd_message final)
              else
                (case floor_to_precision (tighten rec final) mc
                        (num_or entry_price (requested_price prp)) of
                   None \<Rightarrow> reject_local e w (tighten rec final) ''quantity floors to zero''
                 | Some rec' \<Rightarrow> submit_to_venue e w rec'))))"

definition submit ::
    "env \<Rightarrow> world \<Rightarrow> risk_decision \<Rightarrow> portfolio_snapshot \<Rightarrow> string \<Rightarrow> string \<Rightarrow>
     data_quality_report option \<Rightarrow> market_constraints option \<Rightarrow> flt option \<Rightarrow> bool \<Rightarrow>
     (exec_exn + execution_record) \<times> world" where
  "submit e w d pf otype intent_key mq mc entry_price avail =
     (if verdict d \<noteq> APPROVED \<or> \<not> executable d
      then (Inl (ExecutionError (''cannot execute non-approved decision: '' @
              verdict_name (verdict d) @ '' ('' @ reason_name (reason d) @ '')'')), w)
      else
        (case proposal d of
           None \<Rightarrow> (Inl (ExecutionError ''decision has no proposal''), w)
         | Some prp \<Rightarrow>
             (let coid = make_client_order_id (e_fmt e) (e_sha e) (prop_exchange_id prp)
                           (prop_account_id prp) (prop_symbol prp) (prop_side prp)
                           (rd_allowed_quantity d) (requested_price prp) intent_key;
                  fresh =
                    (case record_from_decision (e_fmt e) (e_sha e) (e_new_id e) (e_corr e) (e_now e)
                            d otype (mode w) intent_key of
                       Inl v \<Rightarrow> (Inl (ValueExn v), w)
                     | Inr rec \<Rightarrow>
                         (case set_state e (rec\<lparr>client_order_id := coid\<rparr>) RISK_APPROVED of
                            Inl t \<Rightarrow> (Inl (TransitionExn t), w)
                          | Inr rec \<Rightarrow>
                              submit_final e
                                (audit_rec e (store_rec w rec) rec ''risk_approved'' (rd_message d))
                                rec prp pf mq mc entry_price avail))
              in
              case get_by_client_order_id (db w) coid of
                None \<Rightarrow> fresh
              | Some existing \<Rightarrow>
                  if \<not> is_terminal (x_state existing)
                  then (Inr existing, audit_rec e w existing ''idempotent_hit''
                          ''returning existing active execution'')
                  else if x_state existing = FILLED
                  then (Inr existing, audit_rec e w existing ''idempotent_hit'' ''already filled'')
                  else fresh)))"

section \<open>Cancelling\<close>

definition cancel_at_venue ::
    "env \<Rightarrow> world \<Rightarrow> execution_record \<Rightarrow> (venue_exn + pydict) \<times> world" where
  "cancel_at_venue e w rec =
     (if mode w = PAPER
      then (case paper_cancel_order (paper w) (opt_get (exchange_order_id rec) []) of
              (raw, pb) \<Rightarrow> (Inr raw, w\<lparr>paper := pb\<rparr>))
      else live_trading_gate w
             (\<lambda>w. adapter_cancel_order e w (opt_get (exchange_order_id rec) []) (x_symbol rec)))"

definition has_order_id :: "execution_record \<Rightarrow> bool" where
  "has_order_id rec \<longleftrightarrow> exchange_order_id rec \<noteq> None \<and> exchange_order_id rec \<noteq> Some []"

fun exn_text :: "venue_exn \<Rightarrow> string" where
  "exn_text (TradingDisabled m) = m"
| "exn_text (ExchangeErr cls m) = m"
| "exn_text (OtherExn cls m) = m"

fun exn_class :: "venue_exn \<Rightarrow> string" where
  "exn_class (TradingDisabled m) = ''TradingDisabledError''"
| "exn_class (ExchangeErr cls m) = cls"
| "exn_class (OtherExn cls m) = cls"

text \<open>
  The branch without an exchange order id saves but does not audit. The two closing branches audit
  the venue's status.
\<close>

definition cancel_active ::
    "env \<Rightarrow> world \<Rightarrow> execution_record \<Rightarrow> (exec_exn + execution_record) \<times> world" where
  "cancel_active e w rec =
     (case set_state e rec CANCEL_PENDING of
        Inl t \<Rightarrow> (Inl (TransitionExn t), w)
      | Inr rec \<Rightarrow>
          (let w = audit_rec e (store_rec w rec) rec ''cancel_requested'' []
           in
           if mode w \<noteq> PAPER \<and> \<not> has_order_id rec
           then (case set_state e rec UNKNOWN of
                   Inl t \<Rightarrow> (Inl (TransitionExn t), w)
                 | Inr rec \<Rightarrow>
                     (let rec = rec\<lparr>last_error := Some ''no exchange_order_id for cancel''\<rparr>
                      in (Inr rec, store_rec w rec)))
           else
             (case cancel_at_venue e w rec of
                (Inl x, w) \<Rightarrow>
                  settle e w rec UNKNOWN (Some (exn_text x)) ''cancel_unknown'' (exn_class x)
              | (Inr raw, w) \<Rightarrow>
                  (let status = response_status e raw
                   in settle e w rec
                        (if status \<in> {''canceled'', ''cancelled''} then CANCELLED else UNKNOWN)
                        None ''cancel_response'' status))))"

definition cancel ::
    "env \<Rightarrow> world \<Rightarrow> string \<Rightarrow> (exec_exn + execution_record) \<times> world" where
  "cancel e w eid =
     (case get_record (db w) eid of
        None \<Rightarrow> (Inl (ExecutionError (''unknown execution_id='' @ eid)), w)
      | Some rec \<Rightarrow> if is_terminal (x_state rec) then (Inr rec, w) else cancel_active e w rec)"

section \<open>Reconciling\<close>

definition opt_num_py :: "flt option \<Rightarrow> pyval" where
  "opt_num_py x = (case x of None \<Rightarrow> PyNone | Some v \<Rightarrow> PyNum v)"

definition raw_of_open_order :: "open_order \<Rightarrow> pydict" where
  "raw_of_open_order o' =
     [(''id'', PyStr (oo_id o')), (''status'', PyStr (oo_status o')),
      (''filled'', opt_num_py (oo_filled o')), (''remaining'', opt_num_py (oo_remaining o')),
      (''average'', opt_num_py (oo_price o')), (''price'', opt_num_py (oo_price o')),
      (''timestamp'', opt_num_py (map_option of_int (oo_timestamp_ms o')))]"

definition fetch_at_venue ::
    "env \<Rightarrow> world \<Rightarrow> execution_record \<Rightarrow> (venue_exn + pydict option) \<times> world" where
  "fetch_at_venue e w rec =
     (if \<not> has_order_id rec then (Inr None, w)
      else if mode w = PAPER
      then (Inr (paper_fetch_order (paper w) (opt_get (exchange_order_id rec) [])), w)
      else (case adapter_fetch_order e w (opt_get (exchange_order_id rec) []) (x_symbol rec) of
              (Inl x, w) \<Rightarrow> (Inl x, w)
            | (Inr oo, w) \<Rightarrow> (Inr (Some (raw_of_open_order oo)), w)))"

definition reconcile_active ::
    "env \<Rightarrow> world \<Rightarrow> execution_record \<Rightarrow> (exec_exn + execution_record) \<times> world" where
  "reconcile_active e w rec =
     (let prev = x_state rec;
          rec = (case set_state e rec RECONCILING of Inl _ \<Rightarrow> rec | Inr rec \<Rightarrow> rec);
          w = audit_rec e (store_rec w rec) rec ''reconcile_start'' (''from='' @ state_name prev)
      in case fetch_at_venue e w rec of
           (Inl x, w) \<Rightarrow>
             settle e w rec UNKNOWN (Some (exn_text x)) ''reconcile_failed'' (exn_class x)
         | (Inr None, w) \<Rightarrow>
             if prev \<in> {SUBMITTING, UNKNOWN}
             then settle e w rec FAILED (Some ''order not found on exchange during reconcile'')
                    ''reconcile_missing'' []
             else settle e w rec UNKNOWN None ''reconcile_missing'' []
         | (Inr (Some raw), w) \<Rightarrow> apply_exchange_response e w rec raw)"

definition reconcile_exec ::
    "env \<Rightarrow> world \<Rightarrow> string \<Rightarrow> (exec_exn + execution_record) \<times> world" where
  "reconcile_exec e w eid =
     (case get_record (db w) eid of
        None \<Rightarrow> (Inl (ExecutionError (''unknown execution_id='' @ eid)), w)
      | Some rec \<Rightarrow>
          if is_terminal (x_state rec) \<and> x_state rec \<noteq> UNKNOWN then (Inr rec, w)
          else reconcile_active e w rec)"

definition recoverable :: "order_state \<Rightarrow> bool" where
  "recoverable s \<longleftrightarrow> s \<in> {SUBMITTING, UNKNOWN, SUBMITTED, OPEN, PARTIALLY_FILLED,
     CANCEL_PENDING, RECONCILING}"

definition recover_one ::
    "env \<Rightarrow> world \<Rightarrow> execution_record \<Rightarrow> (exec_exn + execution_record) \<times> world" where
  "recover_one e w rec =
     (let w = audit_rec e w rec ''startup_recover'' (''state='' @ state_name (x_state rec))
      in if recoverable (x_state rec) then reconcile_exec e w (execution_id rec) else (Inr rec, w))"

fun recover_loop ::
    "env \<Rightarrow> world \<Rightarrow> execution_record list \<Rightarrow> (exec_exn + execution_record list) \<times> world" where
  "recover_loop e w [] = (Inr [], w)"
| "recover_loop e w (rec # recs) =
     (case recover_one e w rec of
        (Inl x, w) \<Rightarrow> (Inl x, w)
      | (Inr r, w) \<Rightarrow>
          (case recover_loop e w recs of
             (Inl x, w) \<Rightarrow> (Inl x, w)
           | (Inr rs, w) \<Rightarrow> (Inr (r # rs), w)))"

definition recover_on_startup :: "env \<Rightarrow> world \<Rightarrow> (exec_exn + execution_record list) \<times> world" where
  "recover_on_startup e w = recover_loop e w (list_active (db w))"

definition set_exec_mode :: "world \<Rightarrow> execution_mode \<Rightarrow> venue_exn + world" where
  "set_exec_mode w m =
     (case enable_trading (adp w) False of
        Inl x \<Rightarrow> Inl x
      | Inr ad \<Rightarrow> Inr (w\<lparr>mode := m, adp := ad\<rparr>))"

end
