(* ===== verification/ExecProofs.thy ===== *)
theory ExecProofs
  imports ExecEngine
begin

text \<open>
  What the execution engine guarantees: frame lemmas, the movement of stored orders along the
  lifecycle, the bounds on what reaches the exchange, resolution of interrupted orders, and runs of
  the engine's operations in any order (\<open>engine_step\<close>).
\<close>

section \<open>Lemmas: frames\<close>

lemma audit_rec_simps [simp]:
  "db (audit_rec e w rec ev d) = db w" "calls (audit_rec e w rec ev d) = calls w"
  "adp (audit_rec e w rec ev d) = adp w" "mode (audit_rec e w rec ev d) = mode w"
  "risk (audit_rec e w rec ev d) = risk w" "paper (audit_rec e w rec ev d) = paper w"
  by (simp_all add: audit_rec_def)

lemma store_rec_simps [simp]:
  "db (store_rec w rec) = save (db w) rec" "calls (store_rec w rec) = calls w"
  "adp (store_rec w rec) = adp w" "mode (store_rec w rec) = mode w"
  "risk (store_rec w rec) = risk w" "paper (store_rec w rec) = paper w"
  "audit (store_rec w rec) = audit w"
  by (simp_all add: store_rec_def)

lemma set_state_Inr:
  "set_state e rec t = Inr rec' \<longleftrightarrow>
   (x_state rec = t \<or> can_transition (x_state rec) t) \<and>
   rec' = rec\<lparr>x_state := t, updated_at_ms := e_now e\<rparr>"
  by (auto simp: set_state_def transition_def split: sum.splits if_splits)

lemma set_state_Inl:
  "set_state e rec t = Inl x \<longleftrightarrow>
   x_state rec \<noteq> t \<and> \<not> can_transition (x_state rec) t \<and> x = TransitionError (x_state rec) t"
  by (auto simp: set_state_def transition_def split: sum.splits if_splits)

lemma settle_frame [simp]:
  "calls (snd (settle e w rec t err ev d)) = calls w"
  "adp (snd (settle e w rec t err ev d)) = adp w"
  "mode (snd (settle e w rec t err ev d)) = mode w"
  "risk (snd (settle e w rec t err ev d)) = risk w"
  "paper (snd (settle e w rec t err ev d)) = paper w"
  by (auto simp: settle_def Let_def split: sum.splits)

lemma apply_response_frame [simp]:
  "calls (snd (apply_exchange_response e w rec raw)) = calls w"
  "adp (snd (apply_exchange_response e w rec raw)) = adp w"
  "mode (snd (apply_exchange_response e w rec raw)) = mode w"
  "risk (snd (apply_exchange_response e w rec raw)) = risk w"
  "paper (snd (apply_exchange_response e w rec raw)) = paper w"
  by (auto simp: apply_exchange_response_def Let_def split: sum.splits)

lemma absorb_response_frame [simp]:
  "execution_id (absorb_response e rec raw) = execution_id rec"
  "client_order_id (absorb_response e rec raw) = client_order_id rec"
  "x_state (absorb_response e rec raw) = x_state rec"
  "allowed_quantity (absorb_response e rec raw) = allowed_quantity rec"
  by (simp_all add: absorb_response_def Let_def)

section \<open>Lemmas: the venue log\<close>

definition is_create :: "venue_call \<Rightarrow> bool" where
  "is_create c = (case c of CreateCall _ \<Rightarrow> True | _ \<Rightarrow> False)"

lemma live_trading_gate_off:
  assumes "\<And>w'. adp (snd (body w')) = adp w'"
    and "mode w = LIVE \<or> \<not> trading_enabled (adp w)"
  shows "\<not> trading_enabled (adp (snd (live_trading_gate w body)))"
  using assms
  by (auto simp: live_trading_gate_def enable_trading_def split: sum.splits prod.splits if_splits)

lemma adapter_create_adp [simp]: "adp (snd (adapter_create_order e w req)) = adp w"
  by (simp add: adapter_create_order_def)

lemma adapter_cancel_adp [simp]: "adp (snd (adapter_cancel_order e w oid s)) = adp w"
  by (simp add: adapter_cancel_order_def)

lemma venue_create_effect:
  assumes "venue_create e w rec = (r, w')"
  shows "db w' = db w" "mode w' = mode w" "risk w' = risk w"
    and "mode w = PAPER \<Longrightarrow> calls w' = calls w \<and> adp w' = adp w"
    and "mode w = LIVE \<Longrightarrow> \<not> trading_enabled (adp w')"
    and "sandbox (adp w') = sandbox (adp w) \<and> authorized (adp w') = authorized (adp w)"
    and "calls w' = calls w \<or>
         (mode w = LIVE \<and> (sandbox (adp w) \<or> authorized (adp w)) \<and>
          calls w' = calls w @ [CreateCall (order_request_of rec)])"
  using assms
  by (cases "mode w";
      auto simp: venue_create_def live_trading_gate_def enable_trading_def adapter_create_order_def
        split: sum.splits prod.splits if_splits)+

lemma cancel_at_venue_effect:
  assumes "cancel_at_venue e w rec = (r, w')"
  shows "db w' = db w" "mode w' = mode w" "risk w' = risk w"
    and "mode w = PAPER \<Longrightarrow> calls w' = calls w \<and> adp w' = adp w"
    and "mode w = LIVE \<Longrightarrow> \<not> trading_enabled (adp w')"
    and "sandbox (adp w') = sandbox (adp w) \<and> authorized (adp w') = authorized (adp w)"
    and "filter is_create (calls w') = filter is_create (calls w)"
  using assms
  by (cases "mode w";
      auto simp: cancel_at_venue_def live_trading_gate_def enable_trading_def
        adapter_cancel_order_def is_create_def split: sum.splits prod.splits if_splits)+

lemma fetch_at_venue_effect:
  assumes "fetch_at_venue e w rec = (r, w')"
  shows "db w' = db w" "mode w' = mode w" "risk w' = risk w" "adp w' = adp w"
    and "mode w = PAPER \<Longrightarrow> calls w' = calls w"
    and "filter is_create (calls w') = filter is_create (calls w)"
  using assms
  by (auto simp: fetch_at_venue_def adapter_fetch_order_def is_create_def
      split: if_splits sum.splits)

section \<open>Lemmas: how operations move the store\<close>

abbreviation legal_path :: "order_state \<Rightarrow> order_state \<Rightarrow> bool" where
  "legal_path \<equiv> can_transition\<^sup>*\<^sup>*"

definition order_keys :: "exec_db \<Rightarrow> (string \<times> string) list" where
  "order_keys t = map (\<lambda>r. (r_execution_id r, r_client_order_id r)) t"

text \<open>
  \<open>evolves db db'\<close>: no record is lost, each keeps its identity and its size, and its state has
  moved along the edges of the lifecycle.
\<close>

definition evolves :: "exec_db \<Rightarrow> exec_db \<Rightarrow> bool" where
  "evolves t t' \<longleftrightarrow>
     (\<forall>k r. get_record t k = Some r \<longrightarrow>
        (\<exists>r'. get_record t' k = Some r' \<and> legal_path (x_state r) (x_state r') \<and>
           client_order_id r' = client_order_id r \<and> allowed_quantity r' = allowed_quantity r \<and>
           created_at_ms r' = created_at_ms r))"

lemma evolves_refl [simp]: "evolves t t"
  by (auto simp: evolves_def)

lemma evolves_trans: "evolves t u \<Longrightarrow> evolves u v \<Longrightarrow> evolves t v"
  unfolding evolves_def by (metis rtranclp_trans)

text \<open>
  An order that has not left the submission stage has no exchange order id: the id and the state
  that follows the answer are saved together.
\<close>

definition before_answer :: "order_state \<Rightarrow> bool" where
  "before_answer s \<longleftrightarrow> s \<in> {PROPOSED, RISK_PENDING, RISK_APPROVED, SUBMITTING}"

definition id_ok :: "execution_record \<Rightarrow> bool" where
  "id_ok rec \<longleftrightarrow> (before_answer (x_state rec) \<longrightarrow> exchange_order_id rec = None)"

definition store_ok :: "exec_db \<Rightarrow> bool" where
  "store_ok t \<longleftrightarrow> db_ok t \<and> (\<forall>k r. get_record t k = Some r \<longrightarrow> id_ok r)"

lemma store_ok_Nil [simp]: "store_ok []"
  by (simp add: store_ok_def get_record_def)

lemma store_ok_db [simp]: "store_ok t \<Longrightarrow> db_ok t"
  by (simp add: store_ok_def)

lemma enter_before_answer: "can_transition s t \<Longrightarrow> before_answer t \<Longrightarrow> before_answer s"
  by (cases s) (auto simp: can_transition_def before_answer_def)

lemma set_state_id_ok: "id_ok rec \<Longrightarrow> set_state e rec t = Inr r \<Longrightarrow> id_ok r"
  by (auto simp: set_state_Inr id_ok_def dest: enter_before_answer)

text \<open>The row of \<open>rec\<close> is an ancestor of \<open>rec\<close>, and \<open>rec\<close> may be saved.\<close>

definition tracks :: "exec_db \<Rightarrow> execution_record \<Rightarrow> bool" where
  "tracks t rec \<longleftrightarrow>
     (\<exists>r. get_record t (execution_id rec) = Some r \<and> legal_path (x_state r) (x_state rec)) \<and>
     id_ok rec"

lemma save_tracked:
  assumes "store_ok t" and "tracks t rec"
  shows "store_ok (save t rec)" and "evolves t (save t rec)" and "tracks (save t rec) rec"
proof -
  show "store_ok (save t rec)"
    using assms
    by (auto simp: store_ok_def exec_store.inv_put exec_store.get_put tracks_def id_ok_def)
  show "evolves t (save t rec)"
    using assms by (auto simp: evolves_def tracks_def exec_store.get_put)
  show "tracks (save t rec) rec"
    using assms by (auto simp: tracks_def exec_store.get_put)
qed

lemma order_keys_upsert:
  "order_keys (upsert t row) =
     (if r_execution_id row \<in> r_execution_id ` set t then order_keys t
      else order_keys t @ [(r_execution_id row, r_client_order_id row)])"
  by (induction t) (auto simp: order_keys_def update_row_def)

lemma get_record_Some_id:
  "get_record t k = Some r \<Longrightarrow> k \<in> r_execution_id ` set t"
  by (auto simp: get_record_def find_Some_iff split: option.splits)

lemma order_keys_save_tracked: "tracks t rec \<Longrightarrow> order_keys (save t rec) = order_keys t"
  by (auto simp: save_def order_keys_upsert tracks_def dest: get_record_Some_id)

lemma tracks_set_state:
  assumes "tracks t rec" and "set_state e rec s = Inr rec'"
  shows "tracks t rec'"
proof -
  have "legal_path (x_state rec) s" using assms(2) by (auto simp: set_state_Inr)
  with assms set_state_id_ok [OF _ assms(2)] show ?thesis
    by (auto simp: tracks_def set_state_Inr intro: rtranclp_trans)
qed

lemma tracks_updates [simp]:
  "tracks t (rec\<lparr>last_error := v\<rparr>) = tracks t rec"
  "tracks t (rec\<lparr>updated_at_ms := n\<rparr>) = tracks t rec"
  "tracks t (rec\<lparr>remaining_quantity := q\<rparr>) = tracks t rec"
  by (simp_all add: tracks_def id_ok_def)

text \<open>The states a response leads to lie after the answer.\<close>

lemma target_state_after: "\<not> before_answer (target_state st f q a)"
  by (simp add: target_state_def before_answer_def)

lemma tracks_answer:
  assumes "tracks t rec" and "set_state e (absorb_response e' rec raw) s = Inr r"
    and "\<not> before_answer s"
  shows "tracks t r"
proof -
  have "legal_path (x_state rec) s" using assms(2) by (auto simp: set_state_Inr)
  with assms show ?thesis
    by (auto simp: tracks_def set_state_Inr id_ok_def intro: rtranclp_trans)
qed

text \<open>What every operation on a tracked record does to the store.\<close>

definition moves :: "world \<Rightarrow> world \<Rightarrow> bool" where
  "moves w w' \<longleftrightarrow> store_ok (db w') \<and> evolves (db w) (db w') \<and> order_keys (db w') = order_keys (db w)"

lemma moves_refl: "store_ok (db w) \<Longrightarrow> moves w w"
  by (simp add: moves_def)

lemma moves_trans: "moves w w' \<Longrightarrow> moves w' w'' \<Longrightarrow> moves w w''"
  by (auto simp: moves_def intro: evolves_trans)

lemma moves_same_db: "store_ok (db w) \<Longrightarrow> db w' = db w \<Longrightarrow> moves w w'"
  by (simp add: moves_def)

lemma moves_ok: "moves w w' \<Longrightarrow> store_ok (db w')"
  by (simp add: moves_def)

lemma moves_save:
  "store_ok (db w) \<Longrightarrow> tracks (db w) rec \<Longrightarrow> db w' = save (db w) rec \<Longrightarrow>
   moves w w' \<and> tracks (db w') rec"
  by (simp add: moves_def save_tracked order_keys_save_tracked)

lemma settle_moves:
  assumes "store_ok (db w)" and "tracks (db w) rec"
  shows "moves w (snd (settle e w rec t err ev d))"
proof (cases "set_state e rec t")
  case (Inl x)
  with assms show ?thesis by (simp add: settle_def moves_refl)
next
  case (Inr r)
  then have "tracks (db w) r" using assms(2) tracks_set_state by blast
  then have "tracks (db w) (case err of None \<Rightarrow> r | Some m \<Rightarrow> r\<lparr>last_error := Some m\<rparr>)"
    by (simp split: option.splits)
  from moves_save [OF assms(1) this] Inr show ?thesis
    by (auto simp: settle_def Let_def)
qed

lemma apply_response_moves:
  assumes "store_ok (db w)" and "tracks (db w) rec"
  shows "moves w (snd (apply_exchange_response e w rec raw))"
proof -
  let ?a = "absorb_response e rec raw"
  let ?t = "target_state (response_status e raw) (as_float e (dget raw ''filled'') 0)
      (filled_quantity ?a) (allowed_quantity ?a)"
  show ?thesis
  proof (cases "set_state e ?a ?t")
    case (Inl x)
    with assms show ?thesis by (simp add: apply_exchange_response_def Let_def moves_refl)
  next
    case (Inr r)
    then have "tracks (db w) r" using tracks_answer [OF assms(2)] target_state_after by blast
    then have "tracks (db w) ((if ?t = FILLED then r\<lparr>remaining_quantity := 0\<rparr> else r)
        \<lparr>updated_at_ms := e_now e\<rparr>)"
      by simp
    from moves_save [OF assms(1) this] Inr show ?thesis
      by (auto simp: apply_exchange_response_def Let_def)
  qed
qed

text \<open>The submission ends in one \<open>settle\<close> or one response.\<close>

lemma snd_reraise:
  "snd (case p of (Inl x, w) \<Rightarrow> (Inl x, w) | (Inr _, w) \<Rightarrow> (Inl y, w)) = snd p"
  by (simp split: prod.splits sum.splits)

lemma submit_to_venue_end:
  assumes "set_state e rec SUBMITTING = Inr r"
    and "w1 = audit_rec e (store_rec w r) r ''submitting'' (''mode='' @ mode_name (mode w))"
    and "venue_create e w1 r = (x, w2)"
  obtains (settled) t er ev d where
      "snd (submit_to_venue e w rec) = snd (settle e w2 r t er ev d)" "t \<in> {FAILED, UNKNOWN}"
  | (responded) raw where "x = Inr raw"
      "submit_to_venue e w rec = apply_exchange_response e w2 r raw"
proof (cases x)
  case (Inr raw)
  with assms responded show thesis by (simp add: submit_to_venue_def)
next
  case (Inl exn)
  show thesis
  proof (cases exn)
    case (TradingDisabled m)
    with assms Inl have "snd (submit_to_venue e w rec) =
        snd (settle e w2 r FAILED (Some m) ''trading_disabled'' m)"
      by (simp add: submit_to_venue_def snd_reraise)
    with settled show thesis by blast
  next
    case (ExchangeErr c m)
    with assms Inl have "\<exists>t er ev d. snd (submit_to_venue e w rec) = snd (settle e w2 r t er ev d) \<and>
        t \<in> {FAILED, UNKNOWN}"
      by (auto simp: submit_to_venue_def)
    with settled show thesis by blast
  next
    case (OtherExn c m)
    with assms Inl have "snd (submit_to_venue e w rec) =
        snd (settle e w2 r UNKNOWN (Some m) ''unknown_after_submit'' c)"
      by (simp add: submit_to_venue_def)
    with settled show thesis by blast
  qed
qed

lemma submit_to_venue_moves:
  assumes "store_ok (db w)" and "tracks (db w) rec"
  shows "moves w (snd (submit_to_venue e w rec))"
proof (cases "set_state e rec SUBMITTING")
  case (Inl x)
  with assms show ?thesis by (simp add: submit_to_venue_def moves_refl)
next
  case (Inr r)
  define w1 where "w1 = audit_rec e (store_rec w r) r ''submitting'' (''mode='' @ mode_name (mode w))"
  obtain x w2 where v: "venue_create e w1 r = (x, w2)" by (metis surj_pair)
  have 1: "moves w w1 \<and> tracks (db w1) r"
    using assms Inr by (intro moves_save) (auto simp: w1_def intro: tracks_set_state)
  have d: "db w2 = db w1" using venue_create_effect(1) [OF v] .
  have 2: "store_ok (db w2)" "tracks (db w2) r" "moves w w2"
    using 1 d by (auto simp: moves_def)
  from Inr w1_def v show ?thesis
  proof (cases rule: submit_to_venue_end)
    case (settled t er ev d)
    with 2 settle_moves moves_trans show ?thesis by metis
  next
    case (responded raw)
    with 2 apply_response_moves moves_trans show ?thesis by metis
  qed
qed

text \<open>A cancellation ends in one \<open>settle\<close>, or without an order id in a local save.\<close>

lemma cancel_active_end:
  assumes "set_state e rec CANCEL_PENDING = Inr r"
    and "w1 = audit_rec e (store_rec w r) r ''cancel_requested'' []"
    and "cancel_at_venue e w1 r = (x, w2)"
  obtains (no_id) r2 where "set_state e r UNKNOWN = Inr r2"
      "cancel_active e w rec =
         (Inr (r2\<lparr>last_error := Some ''no exchange_order_id for cancel''\<rparr>),
          store_rec w1 (r2\<lparr>last_error := Some ''no exchange_order_id for cancel''\<rparr>))"
  | (settled) t er ev d where "cancel_active e w rec = settle e w2 r t er ev d"
proof (cases "mode w \<noteq> PAPER \<and> \<not> has_order_id r")
  case True
  obtain r2 where r2: "set_state e r UNKNOWN = Inr r2"
    using assms(1) by (auto simp: set_state_Inr can_transition_def)
  with True assms no_id show thesis by (simp add: cancel_active_def Let_def)
next
  case False
  with assms have "\<exists>t er ev d. cancel_active e w rec = settle e w2 r t er ev d"
    by (cases x) (auto simp: cancel_active_def Let_def)
  with settled show thesis by blast
qed

text \<open>A reconciliation ends in one \<open>settle\<close> or one response.\<close>

lemma reconcile_active_end:
  assumes "r = (case set_state e rec RECONCILING of Inl _ \<Rightarrow> rec | Inr r \<Rightarrow> r)"
    and "w1 = audit_rec e (store_rec w r) r ''reconcile_start'' (''from='' @ state_name (x_state rec))"
    and "fetch_at_venue e w1 r = (x, w2)"
  obtains (settled) t er ev d where "t \<in> {UNKNOWN, FAILED}"
      "reconcile_active e w rec = settle e w2 r t er ev d"
  | (responded) raw where "x = Inr (Some raw)"
      "reconcile_active e w rec = apply_exchange_response e w2 r raw"
proof -
  have "(\<exists>t er ev d. t \<in> {UNKNOWN, FAILED} \<and> reconcile_active e w rec = settle e w2 r t er ev d) \<or>
        (\<exists>raw. x = Inr (Some raw) \<and> reconcile_active e w rec = apply_exchange_response e w2 r raw)"
    using assms(3) unfolding assms(2)
    by (cases x) (auto simp: reconcile_active_def Let_def assms(1) [symmetric] split: option.splits)
  with settled responded show thesis by blast
qed

lemma cancel_active_moves:
  assumes "store_ok (db w)" and "tracks (db w) rec"
  shows "moves w (snd (cancel_active e w rec))"
proof (cases "set_state e rec CANCEL_PENDING")
  case (Inl x)
  with assms show ?thesis by (simp add: cancel_active_def moves_refl)
next
  case (Inr r)
  define w1 where "w1 = audit_rec e (store_rec w r) r ''cancel_requested'' []"
  have 1: "moves w w1" "tracks (db w1) r" "store_ok (db w1)"
    using moves_save [of w r w1] assms Inr
    by (auto simp: w1_def moves_def intro: tracks_set_state)
  obtain x w2 where v: "cancel_at_venue e w1 r = (x, w2)" by (metis surj_pair)
  have 2: "moves w w2" "store_ok (db w2)" "tracks (db w2) r"
    using cancel_at_venue_effect(1) [OF v] 1 by (auto simp: moves_def)
  from Inr w1_def v show ?thesis
  proof (cases rule: cancel_active_end)
    case (no_id r2)
    then have "tracks (db w1) (r2\<lparr>last_error := Some ''no exchange_order_id for cancel''\<rparr>)"
      using 1 by (simp add: tracks_set_state)
    then have "moves w1 (store_rec w1 (r2\<lparr>last_error := Some ''no exchange_order_id for cancel''\<rparr>))"
      using 1(3) moves_save by (metis store_rec_simps(1))
    then show ?thesis unfolding no_id(2) snd_conv by (rule moves_trans [OF 1(1)])
  next
    case (settled t er ev d)
    show ?thesis unfolding settled(1) by (rule moves_trans [OF 2(1) settle_moves [OF 2(2,3)]])
  qed
qed

lemma reconcile_active_moves:
  assumes "store_ok (db w)" and "tracks (db w) rec"
  shows "moves w (snd (reconcile_active e w rec))"
proof -
  define r where "r = (case set_state e rec RECONCILING of Inl _ \<Rightarrow> rec | Inr r \<Rightarrow> r)"
  define w1 where "w1 = audit_rec e (store_rec w r) r ''reconcile_start''
      (''from='' @ state_name (x_state rec))"
  obtain x w2 where v: "fetch_at_venue e w1 r = (x, w2)" by (metis surj_pair)
  have "tracks (db w) r"
    using assms(2) by (auto simp: r_def split: sum.splits intro: tracks_set_state)
  then have 1: "moves w w1" "tracks (db w1) r" "store_ok (db w1)"
    using moves_save [of w r w1] assms(1) by (auto simp: w1_def moves_def)
  have 2: "db w2 = db w1" "moves w w2" "store_ok (db w2)" "tracks (db w2) r"
    using fetch_at_venue_effect(1) [OF v] 1 by (auto simp: moves_def)
  from r_def w1_def v show ?thesis
  proof (cases rule: reconcile_active_end)
    case (settled t er ev d)
    show ?thesis unfolding settled(2) by (rule moves_trans [OF 2(2) settle_moves [OF 2(3,4)]])
  next
    case (responded raw)
    show ?thesis
      unfolding responded(2) by (rule moves_trans [OF 2(2) apply_response_moves [OF 2(3,4)]])
  qed
qed

lemma get_record_tracks:
  "store_ok t \<Longrightarrow> get_record t k = Some rec \<Longrightarrow> tracks t rec"
  using exec_store.get_key [of t k rec] by (auto simp: tracks_def store_ok_def)

lemma cancel_moves: "store_ok (db w) \<Longrightarrow> moves w (snd (cancel e w eid))"
  by (auto simp: cancel_def moves_refl split: option.splits
      intro!: cancel_active_moves intro: get_record_tracks)

lemma reconcile_moves: "store_ok (db w) \<Longrightarrow> moves w (snd (reconcile_exec e w eid))"
  by (auto simp: reconcile_exec_def moves_refl split: option.splits
      intro!: reconcile_active_moves intro: get_record_tracks)

lemma recover_one_moves:
  assumes "store_ok (db w)"
  shows "moves w (snd (recover_one e w rec))"
proof -
  define w1 where "w1 = audit_rec e w rec ''startup_recover'' (''state='' @ state_name (x_state rec))"
  have 1: "moves w w1" "store_ok (db w1)" using assms by (simp_all add: w1_def moves_def)
  have "snd (recover_one e w rec) = w1 \<or>
      snd (recover_one e w rec) = snd (reconcile_exec e w1 (execution_id rec))"
    unfolding w1_def by (simp add: recover_one_def Let_def)
  with 1 reconcile_moves moves_trans show ?thesis by metis
qed

lemma recover_loop_moves: "store_ok (db w) \<Longrightarrow> moves w (snd (recover_loop e w recs))"
proof (induction recs arbitrary: w)
  case Nil
  then show ?case by (simp add: moves_refl)
next
  case (Cons rec recs)
  obtain x w2 where v: "recover_one e w rec = (x, w2)" by (metis surj_pair)
  have m: "moves w w2" using recover_one_moves [OF Cons.prems, of e rec] v by simp
  have "snd (recover_loop e w (rec # recs)) = w2 \<or>
      snd (recover_loop e w (rec # recs)) = snd (recover_loop e w2 recs)"
    using v by (cases x) (auto split: sum.splits prod.splits)
  with m Cons.IH [of w2] show ?case by (metis moves_ok moves_trans)
qed

lemma recover_moves: "store_ok (db w) \<Longrightarrow> moves w (snd (recover_on_startup e w))"
  by (simp add: recover_on_startup_def recover_loop_moves)

section \<open>Lemmas: submission\<close>

lemma order_request_set_state:
  "set_state e rec t = Inr r \<Longrightarrow> order_request_of r = order_request_of rec"
  by (auto simp: set_state_Inr order_request_of_def order_side_def)

lemma submit_to_venue_effect:
  assumes "mode w = m"
  shows "mode (snd (submit_to_venue e w rec)) = m"
    and "calls (snd (submit_to_venue e w rec)) = calls w \<or>
         (m = LIVE \<and> (sandbox (adp w) \<or> authorized (adp w)) \<and>
          calls (snd (submit_to_venue e w rec)) = calls w @ [CreateCall (order_request_of rec)])"
    and "\<not> trading_enabled (adp w) \<Longrightarrow> \<not> trading_enabled (adp (snd (submit_to_venue e w rec)))"
proof -
  have "mode (snd (submit_to_venue e w rec)) = m \<and>
    (calls (snd (submit_to_venue e w rec)) = calls w \<or>
         (m = LIVE \<and> (sandbox (adp w) \<or> authorized (adp w)) \<and>
          calls (snd (submit_to_venue e w rec)) = calls w @ [CreateCall (order_request_of rec)])) \<and>
    (\<not> trading_enabled (adp w) \<longrightarrow> \<not> trading_enabled (adp (snd (submit_to_venue e w rec))))"
  proof (cases "set_state e rec SUBMITTING")
    case (Inl x)
    with assms show ?thesis by (simp add: submit_to_venue_def)
  next
    case (Inr r)
    define w1 where "w1 = audit_rec e (store_rec w r) r ''submitting'' (''mode='' @ mode_name (mode w))"
    obtain x w2 where v: "venue_create e w1 r = (x, w2)" by (metis surj_pair)
    have w1: "mode w1 = m" "calls w1 = calls w" "adp w1 = adp w"
      using assms by (simp_all add: w1_def)
    note eff = venue_create_effect [OF v, unfolded w1 order_request_set_state [OF Inr]]
    have "adp (snd (submit_to_venue e w rec)) = adp w2 \<and>
        calls (snd (submit_to_venue e w rec)) = calls w2 \<and>
        mode (snd (submit_to_venue e w rec)) = mode w2"
      using Inr w1_def v by (cases rule: submit_to_venue_end) auto
    with eff show ?thesis by (cases m) auto
  qed
  then show "mode (snd (submit_to_venue e w rec)) = m"
    and "calls (snd (submit_to_venue e w rec)) = calls w \<or>
         (m = LIVE \<and> (sandbox (adp w) \<or> authorized (adp w)) \<and>
          calls (snd (submit_to_venue e w rec)) = calls w @ [CreateCall (order_request_of rec)])"
    and "\<not> trading_enabled (adp w) \<Longrightarrow> \<not> trading_enabled (adp (snd (submit_to_venue e w rec)))"
    by blast+
qed

lemma tighten_le:
  "allowed_quantity (tighten rec final) \<le> allowed_quantity rec"
  "allowed_quantity (tighten rec final) \<le> rd_allowed_quantity final"
  "execution_id (tighten rec final) = execution_id rec"
  "client_order_id (tighten rec final) = client_order_id rec"
  "x_state (tighten rec final) = x_state rec"
  "exchange_order_id (tighten rec final) = exchange_order_id rec"
  by (auto simp: tighten_def)

lemma tighten_positive:
  "executable final \<Longrightarrow> 0 < allowed_quantity rec \<Longrightarrow> 0 < allowed_quantity (tighten rec final)"
  by (auto simp: tighten_def executable_def)

lemma floor_to_precision_props:
  assumes "floor_to_precision rec mc price = Some r" and "0 < allowed_quantity rec"
  shows "allowed_quantity r \<le> allowed_quantity rec" "0 < allowed_quantity r"
    "execution_id r = execution_id rec" "client_order_id r = client_order_id rec"
    "x_state r = x_state rec" "exchange_order_id r = exchange_order_id rec"
  using assms by (auto simp: floor_to_precision_def Let_def split: option.splits if_splits)

text \<open>\<open>submit_final\<close> either settles locally, raises in the risk engine, or hands a record on.\<close>

lemma submit_final_cases:
  obtains (settled) w1 r why where
      "submit_final e w rec prp pf mq mc entry avail = reject_local e w1 r why"
      "db w1 = db w" "calls w1 = calls w" "adp w1 = adp w" "mode w1 = mode w"
      "execution_id r = execution_id rec" "x_state r = x_state rec"
      "exchange_order_id r = exchange_order_id rec"
  | (raised) x re where
      "submit_final e w rec prp pf mq mc entry avail = (Inl (PyExn x), w\<lparr>risk := re\<rparr>)"
  | (sent) w1 r final re where
      "submit_final e w rec prp pf mq mc entry avail = submit_to_venue e w1 r"
      "evaluate (e_fmt e) (e_day e) (risk w) prp pf mq mc
         (num_or entry (requested_price prp)) avail = (Inr final, re)"
      "verdict final = APPROVED" "executable final" "safety (risk w) \<noteq> EMERGENCY_STOP"
      "floor_to_precision (tighten rec final) mc (num_or entry (requested_price prp)) = Some r"
      "db w1 = db w" "calls w1 = calls w" "adp w1 = adp w" "mode w1 = mode w"
proof -
  let ?ev = "evaluate (e_fmt e) (e_day e) (risk w) prp pf mq mc
         (num_or entry (requested_price prp)) avail"
  show thesis
  proof (cases "safety (risk w) = EMERGENCY_STOP")
    case True
    then show thesis by (intro settled [of w rec]) (simp_all add: submit_final_def)
  next
    case ns: False
    obtain o' re where ev: "?ev = (o', re)" by (metis surj_pair)
    show thesis
    proof (cases o')
      case (Inl x)
      with ns ev raised show thesis by (simp add: submit_final_def)
    next
      case (Inr final)
      define w1 where "w1 = audit_rec e (w\<lparr>risk := re\<rparr>) rec ''final_risk_check''
          (verdict_name (verdict final) @ '':'' @ reason_name (reason final) @ '':'' @ rd_message final)"
      have w1: "db w1 = db w" "calls w1 = calls w" "adp w1 = adp w" "mode w1 = mode w"
        by (simp_all add: w1_def)
      show thesis
      proof (cases "verdict final \<noteq> APPROVED \<or> \<not> executable final")
        case True
        with ns ev Inr show thesis
          by (intro settled [of w1 rec _]) (simp_all add: submit_final_def Let_def w1_def)
      next
        case ok: False
        show thesis
        proof (cases "floor_to_precision (tighten rec final) mc (num_or entry (requested_price prp))")
          case None
          with ns ev Inr ok show thesis
            by (intro settled [of w1 "tighten rec final"])
              (simp_all add: submit_final_def Let_def w1_def tighten_le)
        next
          case (Some r)
          with ns ev Inr ok w1 show thesis
            by (intro sent [of w1 r final re]) (simp_all add: submit_final_def Let_def w1_def)
        qed
      qed
    qed
  qed
qed

lemma submit_final_moves:
  assumes "store_ok (db w)" and "tracks (db w) rec" and "0 < allowed_quantity rec"
  shows "moves w (snd (submit_final e w rec prp pf mq mc entry avail))"
proof (cases rule: submit_final_cases [of e w rec prp pf mq mc entry avail])
  case (settled w1 r why)
  then have "store_ok (db w1)" "tracks (db w1) r" using assms by (auto simp: tracks_def id_ok_def)
  then have "moves w1 (snd (reject_local e w1 r why))" by (simp add: reject_local_def settle_moves)
  with settled show ?thesis by (simp add: moves_def)
next
  case (raised x re)
  with assms show ?thesis by (simp add: moves_def)
next
  case (sent w1 r final re)
  have "tracks (db w1) r"
    using sent assms floor_to_precision_props [OF sent(6)] tighten_positive [OF sent(4)]
    by (auto simp: tracks_def tighten_le id_ok_def)
  with sent assms have "moves w1 (snd (submit_to_venue e w1 r))" by (simp add: submit_to_venue_moves)
  with sent show ?thesis by (simp add: moves_def)
qed

lemma submit_final_effect:
  assumes "0 < allowed_quantity rec"
  shows "mode (snd (submit_final e w rec prp pf mq mc entry avail)) = mode w"
    and "\<not> trading_enabled (adp w) \<Longrightarrow>
         \<not> trading_enabled (adp (snd (submit_final e w rec prp pf mq mc entry avail)))"
    and "calls (snd (submit_final e w rec prp pf mq mc entry avail)) = calls w \<or>
      (\<exists>req final re. calls (snd (submit_final e w rec prp pf mq mc entry avail)) = calls w @ [CreateCall req] \<and>
         mode w = LIVE \<and> (sandbox (adp w) \<or> authorized (adp w)) \<and>
         0 < oq_amount req \<and> oq_amount req \<le> allowed_quantity rec \<and>
         oq_client_order_id req = client_order_id rec \<and>
         safety (risk w) \<noteq> EMERGENCY_STOP \<and>
         evaluate (e_fmt e) (e_day e) (risk w) prp pf mq mc
           (num_or entry (requested_price prp)) avail = (Inr final, re) \<and>
         verdict final = APPROVED \<and> oq_amount req \<le> rd_allowed_quantity final)"
proof -
  let ?w = "snd (submit_final e w rec prp pf mq mc entry avail)"
  have "mode ?w = mode w \<and> (\<not> trading_enabled (adp w) \<longrightarrow> \<not> trading_enabled (adp ?w)) \<and>
     (calls ?w = calls w \<or>
      (\<exists>req final re. calls ?w = calls w @ [CreateCall req] \<and>
         mode w = LIVE \<and> (sandbox (adp w) \<or> authorized (adp w)) \<and>
         0 < oq_amount req \<and> oq_amount req \<le> allowed_quantity rec \<and>
         oq_client_order_id req = client_order_id rec \<and>
         safety (risk w) \<noteq> EMERGENCY_STOP \<and>
         evaluate (e_fmt e) (e_day e) (risk w) prp pf mq mc
           (num_or entry (requested_price prp)) avail = (Inr final, re) \<and>
         verdict final = APPROVED \<and> oq_amount req \<le> rd_allowed_quantity final))"
  proof (cases rule: submit_final_cases [of e w rec prp pf mq mc entry avail])
    case (settled w1 r why)
    then show ?thesis by (simp add: reject_local_def)
  next
    case (raised x re)
    then show ?thesis by simp
  next
    case (sent w1 r final re)
    have r: "allowed_quantity r \<le> allowed_quantity (tighten rec final)" "0 < allowed_quantity r"
      "client_order_id r = client_order_id (tighten rec final)"
      using floor_to_precision_props [OF sent(6)] tighten_positive [OF sent(4) assms] by auto
    note t = tighten_le [of rec final]
    have q: "oq_amount (order_request_of r) = allowed_quantity r"
      "oq_client_order_id (order_request_of r) = client_order_id rec"
      using r t by (simp_all add: order_request_of_def)
    have b: "allowed_quantity r \<le> allowed_quantity rec" "allowed_quantity r \<le> rd_allowed_quantity final"
      using r t by (metis order_trans)+
    from submit_to_venue_effect [OF sent(10), of e r] show ?thesis
      unfolding sent(1) using sent q b r(2) by auto
  qed
  then show "mode ?w = mode w"
    and "\<not> trading_enabled (adp w) \<Longrightarrow> \<not> trading_enabled (adp ?w)"
    and "calls ?w = calls w \<or>
      (\<exists>req final re. calls ?w = calls w @ [CreateCall req] \<and>
         mode w = LIVE \<and> (sandbox (adp w) \<or> authorized (adp w)) \<and>
         0 < oq_amount req \<and> oq_amount req \<le> allowed_quantity rec \<and>
         oq_client_order_id req = client_order_id rec \<and>
         safety (risk w) \<noteq> EMERGENCY_STOP \<and>
         evaluate (e_fmt e) (e_day e) (risk w) prp pf mq mc
           (num_or entry (requested_price prp)) avail = (Inr final, re) \<and>
         verdict final = APPROVED \<and> oq_amount req \<le> rd_allowed_quantity final)"
    by blast+
qed

text \<open>The cases of \<open>submit\<close>: refused, answered from the store, or a fresh record.\<close>

lemma submit_cases:
  obtains (refused) x where "submit e w d pf otype key mq mc entry avail = (Inl x, w)"
  | (idempotent) existing msg where
      "submit e w d pf otype key mq mc entry avail =
         (Inr existing, audit_rec e w existing ''idempotent_hit'' msg)"
      "get_by_client_order_id (db w) (client_order_id existing) = Some existing \<or> \<not> db_ok (db w)"
      "\<not> is_terminal (x_state existing) \<or> x_state existing = FILLED"
  | (fresh) prp rec w1 where
      "submit e w d pf otype key mq mc entry avail = submit_final e w1 rec prp pf mq mc entry avail"
      "proposal d = Some prp" "verdict d = APPROVED" "executable d"
      "w1 = audit_rec e (store_rec w rec) rec ''risk_approved'' (rd_message d)"
      "execution_id rec = e_new_id e" "x_state rec = RISK_APPROVED" "exchange_order_id rec = None"
      "allowed_quantity rec = rd_allowed_quantity d"
      "case get_by_client_order_id (db w) (client_order_id rec) of None \<Rightarrow> True
         | Some ex \<Rightarrow> is_terminal (x_state ex) \<and> x_state ex \<noteq> FILLED"
proof (cases "verdict d \<noteq> APPROVED \<or> \<not> executable d")
  case True
  with refused show thesis by (auto simp: submit_def)
next
  case ok: False
  show thesis
  proof (cases "proposal d")
    case None
    with ok refused show thesis by (simp add: submit_def)
  next
    case (Some prp)
    define coid where "coid = make_client_order_id (e_fmt e) (e_sha e) (prop_exchange_id prp)
        (prop_account_id prp) (prop_symbol prp) (prop_side prp) (rd_allowed_quantity d)
        (requested_price prp) key"
    obtain rec0 where rec0: "record_from_decision (e_fmt e) (e_sha e) (e_new_id e) (e_corr e)
        (e_now e) d otype (mode w) key = Inr rec0"
      using Some by (simp add: record_from_decision_def)
    define rec where "rec = rec0\<lparr>client_order_id := coid, x_state := RISK_APPROVED,
        updated_at_ms := e_now e\<rparr>"
    have ss: "set_state e (rec0\<lparr>client_order_id := coid\<rparr>) RISK_APPROVED = Inr rec"
      using record_from_decision_simps [OF rec0] by (simp add: set_state_Inr rec_def)
    define w1 where "w1 = audit_rec e (store_rec w rec) rec ''risk_approved'' (rd_message d)"
    have rec: "execution_id rec = e_new_id e" "x_state rec = RISK_APPROVED"
      "exchange_order_id rec = None"
      "allowed_quantity rec = rd_allowed_quantity d" "client_order_id rec = coid"
      using record_from_decision_simps [OF rec0] by (simp_all add: rec_def)
    have fresh_eq: "submit e w d pf otype key mq mc entry avail =
        submit_final e w1 rec prp pf mq mc entry avail"
      if "case get_by_client_order_id (db w) coid of None \<Rightarrow> True
            | Some ex \<Rightarrow> is_terminal (x_state ex) \<and> x_state ex \<noteq> FILLED"
      using that ok Some rec0 ss
      by (auto simp: submit_def Let_def coid_def [symmetric] w1_def split: option.splits)
    show thesis
    proof (cases "case get_by_client_order_id (db w) coid of None \<Rightarrow> True
            | Some ex \<Rightarrow> is_terminal (x_state ex) \<and> x_state ex \<noteq> FILLED")
      case True
      with fresh_eq Some ok w1_def rec show thesis by (intro fresh) auto
    next
      case False
      then obtain ex where ex: "get_by_client_order_id (db w) coid = Some ex"
        "\<not> is_terminal (x_state ex) \<or> x_state ex = FILLED"
        by (auto split: option.splits)
      have "\<exists>msg. submit e w d pf otype key mq mc entry avail =
          (Inr ex, audit_rec e w ex ''idempotent_hit'' msg)"
        using ex ok Some by (auto simp: submit_def Let_def coid_def [symmetric])
      moreover have "get_by_client_order_id (db w) (client_order_id ex) = Some ex \<or> \<not> db_ok (db w)"
        using ex(1) get_by_client_order_id_in(1) by blast
      ultimately show thesis using idempotent ex(2) by blast
    qed
  qed
qed

lemma save_fresh:
  assumes "store_ok t" and "get_record t (execution_id rec) = None" and "id_ok rec"
  shows "store_ok (save t rec)" and "tracks (save t rec) rec" and "evolves t (save t rec)"
    and "get_record (save t rec) (execution_id rec) = Some rec"
proof -
  have ok: "db_ok t" using assms(1) by simp
  note get = exec_store.get_put [OF ok]
  show "get_record (save t rec) (execution_id rec) = Some rec" using assms(2) by (simp add: get)
  then show "tracks (save t rec) rec" using assms(3) by (simp add: tracks_def)
  show "store_ok (save t rec)"
    unfolding store_ok_def
  proof (intro conjI allI impI)
    show "db_ok (save t rec)" by (rule exec_store.inv_put [OF ok])
    fix k r assume "get_record (save t rec) k = Some r"
    then have "r = rec \<or> get_record t k = Some r"
      using assms(2) by (simp add: get split: if_splits)
    with assms(1,3) show "id_ok r" unfolding store_ok_def by blast
  qed
  show "evolves t (save t rec)" unfolding evolves_def
  proof (intro allI impI)
    fix k r assume k: "get_record t k = Some r"
    then have "get_record (save t rec) k = Some r" using assms(2) by (auto simp: get)
    then show "\<exists>r'. get_record (save t rec) k = Some r' \<and> legal_path (x_state r) (x_state r') \<and>
        client_order_id r' = client_order_id r \<and> allowed_quantity r' = allowed_quantity r \<and>
        created_at_ms r' = created_at_ms r" by simp
  qed
qed

lemma submit_moves:
  assumes "store_ok (db w)" and "get_record (db w) (e_new_id e) = None"
    and w': "w' = snd (submit e w d pf otype key mq mc entry avail)"
  shows "store_ok (db w')" and "evolves (db w) (db w')"
    and "order_keys (db w') = order_keys (db w) \<or>
         (\<exists>c. order_keys (db w') = order_keys (db w) @ [(e_new_id e, c)] \<and>
            (\<forall>req. calls w' = calls w @ [CreateCall req] \<longrightarrow> oq_client_order_id req = c))"
    and "order_keys (db w') = order_keys (db w) \<Longrightarrow> calls w' = calls w"
proof -
  have "store_ok (db w') \<and> evolves (db w) (db w') \<and>
     ((order_keys (db w') = order_keys (db w) \<and> calls w' = calls w) \<or>
      (\<exists>c. order_keys (db w') = order_keys (db w) @ [(e_new_id e, c)] \<and>
            (\<forall>req. calls w' = calls w @ [CreateCall req] \<longrightarrow> oq_client_order_id req = c)))"
  proof (cases rule: submit_cases [of e w d pf otype key mq mc entry avail])
    case (refused x)
    with assms show ?thesis by simp
  next
    case (idempotent ex msg)
    with assms show ?thesis by simp
  next
    case (fresh prp rec w1)
    have pos: "0 < allowed_quantity rec" using fresh by (simp add: executable_def)
    have db1: "db w1 = save (db w) rec" by (simp add: fresh(5))
    have ok: "db_ok (db w)" using assms(1) by simp
    have "id_ok rec" "get_record (db w) (execution_id rec) = None"
      using assms(2) fresh(6,8) by (simp_all add: id_ok_def)
    note new = save_fresh [OF assms(1) this(2,1), folded db1]
    note ok1 = new(1) and tr = new(2) and ev1 = new(3)
    have "e_new_id e \<notin> r_execution_id ` set (db w)"
      using ok assms(2) by (force simp: db_ok_def get_record_rows find_None_iff)
    then have keys1: "order_keys (db w1) = order_keys (db w) @ [(e_new_id e, client_order_id rec)]"
      using fresh(6) by (simp add: db1 save_def order_keys_upsert record_to_row_def)
    have m: "moves w1 w'"
      using submit_final_moves [OF ok1 tr pos] by (simp add: w' fresh(1))
    have c1: "calls w1 = calls w" by (simp add: fresh(5))
    have "\<forall>req. calls w' = calls w @ [CreateCall req] \<longrightarrow>
        oq_client_order_id req = client_order_id rec"
      using submit_final_effect(3) [OF pos, of e w1 prp pf mq mc entry avail]
      unfolding w' fresh(1) c1 by auto
    with m ev1 keys1 show ?thesis by (auto simp: moves_def intro: evolves_trans)
  qed
  then show "store_ok (db w')" and "evolves (db w) (db w')"
    and "order_keys (db w') = order_keys (db w) \<or>
         (\<exists>c. order_keys (db w') = order_keys (db w) @ [(e_new_id e, c)] \<and>
            (\<forall>req. calls w' = calls w @ [CreateCall req] \<longrightarrow> oq_client_order_id req = c))"
    and "order_keys (db w') = order_keys (db w) \<Longrightarrow> calls w' = calls w"
    by auto
qed

lemma submit_gate:
  "\<not> trading_enabled (adp w) \<Longrightarrow>
   \<not> trading_enabled (adp (snd (submit e w d pf otype key mq mc entry avail)))"
proof (cases rule: submit_cases [of e w d pf otype key mq mc entry avail])
  case (fresh prp rec w1)
  assume "\<not> trading_enabled (adp w)"
  moreover have "0 < allowed_quantity rec" using fresh by (simp add: executable_def)
  ultimately show ?thesis using submit_final_effect(2) fresh by simp
qed simp_all

text \<open>The calls \<open>submit\<close> can make.\<close>

lemma submit_calls:
  assumes w': "w' = snd (submit e w d pf otype key mq mc entry avail)" and "calls w' \<noteq> calls w"
  obtains req prp final re where
    "calls w' = calls w @ [CreateCall req]" "proposal d = Some prp" "mode w = LIVE"
    "sandbox (adp w) \<or> authorized (adp w)" "verdict d = APPROVED"
    "0 < oq_amount req" "oq_amount req \<le> rd_allowed_quantity d"
    "safety (risk w) \<noteq> EMERGENCY_STOP"
    "evaluate (e_fmt e) (e_day e) (risk w) prp pf mq mc
       (num_or entry (requested_price prp)) avail = (Inr final, re)"
    "verdict final = APPROVED" "oq_amount req \<le> rd_allowed_quantity final"
    "case get_by_client_order_id (db w) (oq_client_order_id req) of None \<Rightarrow> True
       | Some ex \<Rightarrow> is_terminal (x_state ex) \<and> x_state ex \<noteq> FILLED"
proof (cases rule: submit_cases [of e w d pf otype key mq mc entry avail])
  case (refused x)
  with assms show thesis by simp
next
  case (idempotent ex msg)
  with assms show thesis by simp
next
  case (fresh prp rec w1)
  have pos: "0 < allowed_quantity rec" using fresh by (simp add: executable_def)
  have w1: "calls w1 = calls w" "mode w1 = mode w" "adp w1 = adp w" "risk w1 = risk w"
    by (simp_all add: fresh(5))
  obtain req final re where req:
    "calls w' = calls w @ [CreateCall req]" "mode w = LIVE" "sandbox (adp w) \<or> authorized (adp w)"
    "0 < oq_amount req" "oq_amount req \<le> allowed_quantity rec"
    "oq_client_order_id req = client_order_id rec" "safety (risk w) \<noteq> EMERGENCY_STOP"
    "evaluate (e_fmt e) (e_day e) (risk w) prp pf mq mc
       (num_or entry (requested_price prp)) avail = (Inr final, re)"
    "verdict final = APPROVED" "oq_amount req \<le> rd_allowed_quantity final"
    using submit_final_effect(3) [OF pos, of e w1 prp pf mq mc entry avail, unfolded w1]
      assms(2) unfolding w' fresh(1) by blast
  with fresh show thesis by (intro that [of req prp final re]) simp_all
qed

section \<open>Lemmas: cancelling and reconciling\<close>

lemma cancel_effect:
  "\<not> trading_enabled (adp w) \<Longrightarrow> \<not> trading_enabled (adp (snd (cancel e w eid)))"
  "filter is_create (calls (snd (cancel e w eid))) = filter is_create (calls w)"
  "mode w = PAPER \<Longrightarrow> calls (snd (cancel e w eid)) = calls w"
proof -
  have "(\<not> trading_enabled (adp w) \<longrightarrow> \<not> trading_enabled (adp (snd (cancel_active e w rec)))) \<and>
     filter is_create (calls (snd (cancel_active e w rec))) = filter is_create (calls w) \<and>
     (mode w = PAPER \<longrightarrow> calls (snd (cancel_active e w rec)) = calls w)" for rec
  proof (cases "set_state e rec CANCEL_PENDING")
    case (Inl x)
    then show ?thesis by (simp add: cancel_active_def)
  next
    case (Inr r)
    define w1 where "w1 = audit_rec e (store_rec w r) r ''cancel_requested'' []"
    obtain x w2 where v: "cancel_at_venue e w1 r = (x, w2)" by (metis surj_pair)
    have w1: "adp w1 = adp w" "calls w1 = calls w" "mode w1 = mode w" by (simp_all add: w1_def)
    note eff = cancel_at_venue_effect [OF v, unfolded w1]
    from Inr w1_def v w1 eff show ?thesis
      by (cases rule: cancel_active_end; cases "mode w") auto
  qed
  then show "\<not> trading_enabled (adp w) \<Longrightarrow> \<not> trading_enabled (adp (snd (cancel e w eid)))"
    "filter is_create (calls (snd (cancel e w eid))) = filter is_create (calls w)"
    "mode w = PAPER \<Longrightarrow> calls (snd (cancel e w eid)) = calls w"
    by (auto simp: cancel_def split: option.splits)
qed

lemma reconcile_effect:
  "adp (snd (reconcile_exec e w eid)) = adp w"
  "mode (snd (reconcile_exec e w eid)) = mode w"
  "filter is_create (calls (snd (reconcile_exec e w eid))) = filter is_create (calls w)"
  "mode w = PAPER \<Longrightarrow> calls (snd (reconcile_exec e w eid)) = calls w"
proof -
  have "adp (snd (reconcile_active e w rec)) = adp w \<and>
     mode (snd (reconcile_active e w rec)) = mode w \<and>
     filter is_create (calls (snd (reconcile_active e w rec))) = filter is_create (calls w) \<and>
     (mode w = PAPER \<longrightarrow> calls (snd (reconcile_active e w rec)) = calls w)" for rec
  proof -
    define r where "r = (case set_state e rec RECONCILING of Inl _ \<Rightarrow> rec | Inr r \<Rightarrow> r)"
    define w1 where "w1 = audit_rec e (store_rec w r) r ''reconcile_start''
        (''from='' @ state_name (x_state rec))"
    obtain x w2 where v: "fetch_at_venue e w1 r = (x, w2)" by (metis surj_pair)
    have w1: "adp w1 = adp w" "calls w1 = calls w" "mode w1 = mode w" by (simp_all add: w1_def)
    note eff = fetch_at_venue_effect [OF v, unfolded w1]
    from r_def w1_def v eff show ?thesis by (cases rule: reconcile_active_end) auto
  qed
  then show "adp (snd (reconcile_exec e w eid)) = adp w"
    "mode (snd (reconcile_exec e w eid)) = mode w"
    "filter is_create (calls (snd (reconcile_exec e w eid))) = filter is_create (calls w)"
    "mode w = PAPER \<Longrightarrow> calls (snd (reconcile_exec e w eid)) = calls w"
    by (auto simp: reconcile_exec_def split: option.splits)
qed

lemma recover_one_effect:
  "adp (snd (recover_one e w rec)) = adp w" "mode (snd (recover_one e w rec)) = mode w"
  "filter is_create (calls (snd (recover_one e w rec))) = filter is_create (calls w)"
  "mode w = PAPER \<Longrightarrow> calls (snd (recover_one e w rec)) = calls w"
  by (simp_all add: recover_one_def Let_def reconcile_effect)

lemma recover_loop_effect:
  "adp (snd (recover_loop e w recs)) = adp w \<and>
   filter is_create (calls (snd (recover_loop e w recs))) = filter is_create (calls w) \<and>
   (mode w = PAPER \<longrightarrow> calls (snd (recover_loop e w recs)) = calls w)"
proof (induction recs arbitrary: w)
  case Nil
  then show ?case by simp
next
  case (Cons rec recs)
  obtain x w2 where v: "recover_one e w rec = (x, w2)" by (metis surj_pair)
  have "snd (recover_loop e w (rec # recs)) = w2 \<or>
      snd (recover_loop e w (rec # recs)) = snd (recover_loop e w2 recs)"
    using v by (cases x) (auto split: sum.splits prod.splits)
  with Cons.IH [of w2] recover_one_effect [where e = e and w = w and rec = rec] v show ?case by auto
qed

section \<open>What a recovery must reach\<close>

text \<open>
  The reference the recovery is measured against, written without the engine's operations: which
  executions may already be at the exchange, what the exchange answers about each, and the state the
  answer leads to.
\<close>

definition at_exchange :: "order_state \<Rightarrow> bool" where
  "at_exchange s \<longleftrightarrow> \<not> is_terminal s \<and> s \<notin> {PROPOSED, RISK_PENDING, RISK_APPROVED}"

definition asks_venue :: "execution_mode \<Rightarrow> execution_record \<Rightarrow> bool" where
  "asks_venue m rec \<longleftrightarrow> has_order_id rec \<and> m \<noteq> PAPER"

definition exchange_answer :: "env \<Rightarrow> execution_mode \<Rightarrow> paper_broker \<Rightarrow> venue_call list \<Rightarrow>
    execution_record \<Rightarrow> venue_exn + pydict option" where
  "exchange_answer e m pb cs rec =
     (let oid = opt_get (exchange_order_id rec) []
      in if \<not> has_order_id rec then Inr None
         else if m = PAPER then Inr (paper_fetch_order pb oid)
         else map_sum id (Some \<circ> raw_of_open_order) (do_fetch_order (e_venue e) cs oid (x_symbol rec)))"

definition calls_after :: "execution_mode \<Rightarrow> venue_call list \<Rightarrow> execution_record \<Rightarrow> venue_call list" where
  "calls_after m cs rec =
     (if asks_venue m rec then cs @ [FetchCall (opt_get (exchange_order_id rec) []) (x_symbol rec)]
      else cs)"

text \<open>
  A reported fill is added to the fills on record. A status that is silent about the fill leaves the
  quantity on record.
\<close>

definition answered_state :: "env \<Rightarrow> execution_record \<Rightarrow> venue_exn + pydict option \<Rightarrow> order_state" where
  "answered_state e rec ans =
     (case ans of
        Inl _ \<Rightarrow> UNKNOWN
      | Inr None \<Rightarrow> if x_state rec \<in> {SUBMITTING, UNKNOWN} then FAILED else UNKNOWN
      | Inr (Some raw) \<Rightarrow>
          (let filled = as_float e (dget raw ''filled'') 0
           in target_state (response_status e raw) filled
                (if filled > 0 then max 0 (total_filled (fills rec) + filled) else filled_quantity rec)
                (allowed_quantity rec)))"

fun recovered_states :: "env \<Rightarrow> execution_mode \<Rightarrow> paper_broker \<Rightarrow> venue_call list \<Rightarrow>
    execution_record list \<Rightarrow> order_state list" where
  "recovered_states e m pb cs [] = []"
| "recovered_states e m pb cs (rec # recs) =
     (if at_exchange (x_state rec)
      then answered_state e rec (exchange_answer e m pb cs rec) #
           recovered_states e m pb (calls_after m cs rec) recs
      else x_state rec # recovered_states e m pb cs recs)"

section \<open>Lemmas: recovery reaches it\<close>

text \<open>The engine's own list of recoverable states names exactly the orders at the exchange.\<close>

lemma recoverable_iff: "recoverable s \<longleftrightarrow> at_exchange s"
  by (cases s) (simp_all add: recoverable_def at_exchange_def is_terminal_def)

lemma settle_exact:
  assumes "x_state rec = t \<or> can_transition (x_state rec) t"
  shows "\<exists>r. fst (settle e w rec t err ev d) = Inr r \<and> x_state r = t \<and>
           execution_id r = execution_id rec \<and> db (snd (settle e w rec t err ev d)) = save (db w) r"
  using assms
  by (auto simp: settle_def Let_def set_state_def transition_def can_transition_def
      split: option.splits)

lemma reconciling_targets: "can_transition RECONCILING (target_state st f q a)"
  by (simp add: target_state_def can_transition_def)

lemma filled_after_absorb:
  "filled_quantity (absorb_response e rec raw) =
     (let filled = as_float e (dget raw ''filled'') 0
      in if filled > 0 then max 0 (total_filled (fills rec) + filled) else filled_quantity rec)"
  by (auto simp: absorb_response_def Let_def recompute_from_fills_def total_filled_def
      response_fill_def max_def)

lemma apply_response_exact:
  assumes "x_state rec = RECONCILING"
  shows "\<exists>r. fst (apply_exchange_response e w rec raw) = Inr r \<and>
           x_state r = answered_state e rec (Inr (Some raw)) \<and> execution_id r = execution_id rec \<and>
           db (snd (apply_exchange_response e w rec raw)) = save (db w) r"
proof -
  let ?a = "absorb_response e rec raw"
  let ?t = "target_state (response_status e raw) (as_float e (dget raw ''filled'') 0)
      (filled_quantity ?a) (allowed_quantity ?a)"
  have "set_state e ?a ?t = Inr (?a\<lparr>x_state := ?t, updated_at_ms := e_now e\<rparr>)"
    using assms reconciling_targets by (simp add: set_state_Inr)
  moreover have "?t = answered_state e rec (Inr (Some raw))"
    by (simp add: answered_state_def filled_after_absorb Let_def)
  ultimately show ?thesis by (simp add: apply_exchange_response_def Let_def)
qed

text \<open>The record a reconciliation works on: the stored one, in RECONCILING unless it is SUBMITTING.\<close>

definition marked :: "env \<Rightarrow> execution_record \<Rightarrow> execution_record" where
  "marked e rec = (case set_state e rec RECONCILING of Inl _ \<Rightarrow> rec | Inr r \<Rightarrow> r)"

lemma marked_frame [simp]:
  "execution_id (marked e rec) = execution_id rec"
  "exchange_order_id (marked e rec) = exchange_order_id rec"
  "x_symbol (marked e rec) = x_symbol rec" "fills (marked e rec) = fills rec"
  "filled_quantity (marked e rec) = filled_quantity rec"
  "allowed_quantity (marked e rec) = allowed_quantity rec"
  "has_order_id (marked e rec) = has_order_id rec"
  by (auto simp: marked_def set_state_def has_order_id_def split: sum.splits)

lemma answered_marked [simp]:
  "answered_state e' (marked e rec) (Inr (Some raw)) = answered_state e' rec (Inr (Some raw))"
  by (simp add: answered_state_def Let_def)

lemma marked_state:
  "at_exchange (x_state rec) \<Longrightarrow>
   x_state (marked e rec) = (if x_state rec = SUBMITTING then SUBMITTING else RECONCILING)"
  by (cases "x_state rec")
    (simp_all add: marked_def set_state_def transition_def can_transition_def at_exchange_def
      is_terminal_def)

lemma fetch_at_venue_exact:
  "fst (fetch_at_venue e w rec) = exchange_answer e (mode w) (paper w) (calls w) rec"
  "calls (snd (fetch_at_venue e w rec)) = calls_after (mode w) (calls w) rec"
  "paper (snd (fetch_at_venue e w rec)) = paper w"
  by (auto simp: fetch_at_venue_def exchange_answer_def calls_after_def asks_venue_def Let_def
      adapter_fetch_order_def split: sum.splits)

lemma answer_marked [simp]:
  "exchange_answer e m pb cs (marked e rec) = exchange_answer e m pb cs rec"
  "calls_after m cs (marked e rec) = calls_after m cs rec"
  by (simp_all add: exchange_answer_def calls_after_def asks_venue_def Let_def)

lemma reconcile_active_exact:
  fixes e :: env and w :: world and rec :: execution_record
  assumes id: "id_ok rec" and st: "at_exchange (x_state rec)"
  defines "ans \<equiv> exchange_answer e (mode w) (paper w) (calls w) rec"
  shows "\<exists>r. fst (reconcile_active e w rec) = Inr r \<and> x_state r = answered_state e rec ans \<and>
           execution_id r = execution_id rec \<and>
           db (snd (reconcile_active e w rec)) = save (save (db w) (marked e rec)) r"
    and "calls (snd (reconcile_active e w rec)) = calls_after (mode w) (calls w) rec"
    and "paper (snd (reconcile_active e w rec)) = paper w"
    and "mode (snd (reconcile_active e w rec)) = mode w"
proof -
  define m where "m = marked e rec"
  define w1 where "w1 = audit_rec e (store_rec w m) m ''reconcile_start''
      (''from='' @ state_name (x_state rec))"
  obtain x w2 where v: "fetch_at_venue e w1 m = (x, w2)" by (metis surj_pair)
  have f: "x = ans" "calls w2 = calls_after (mode w) (calls w) rec" "paper w2 = paper w"
    "mode w2 = mode w" "db w2 = save (db w) m"
    using fetch_at_venue_exact [of e w1 m] fetch_at_venue_effect(1,2) [OF v] v
    by (simp_all add: w1_def m_def ans_def)
  have ms: "x_state m = (if x_state rec = SUBMITTING then SUBMITTING else RECONCILING)"
    using marked_state [OF st] by (simp add: m_def)
  have none: "x_state rec = SUBMITTING \<Longrightarrow> ans = Inr None"
    using id by (simp add: ans_def exchange_answer_def Let_def id_ok_def before_answer_def has_order_id_def)
  have step: "reconcile_active e w rec =
      (case (x, w2) of
         (Inl x, w) \<Rightarrow> settle e w m UNKNOWN (Some (exn_text x)) ''reconcile_failed'' (exn_class x)
       | (Inr None, w) \<Rightarrow>
           if x_state rec \<in> {SUBMITTING, UNKNOWN}
           then settle e w m FAILED (Some ''order not found on exchange during reconcile'')
                  ''reconcile_missing'' []
           else settle e w m UNKNOWN None ''reconcile_missing'' []
       | (Inr (Some raw), w) \<Rightarrow> apply_exchange_response e w m raw)"
    unfolding reconcile_active_def Let_def marked_def [symmetric] m_def [symmetric]
      w1_def [symmetric] v by (simp split: sum.splits option.splits)
  consider (fails) y where "ans = Inl y" | (missing) "ans = Inr None" | (found) raw where "ans = Inr (Some raw)"
    by (cases ans) auto
  note end_cases = this
  have to: "can_transition RECONCILING UNKNOWN" "can_transition RECONCILING FAILED"
    "can_transition SUBMITTING FAILED"
    by (simp_all add: can_transition_def)
  have sv: "db w2 = save (db w) (marked e rec)" "execution_id m = execution_id rec"
    using f(5) by (simp_all add: m_def)
  show "\<exists>r. fst (reconcile_active e w rec) = Inr r \<and> x_state r = answered_state e rec ans \<and>
           execution_id r = execution_id rec \<and>
           db (snd (reconcile_active e w rec)) = save (save (db w) (marked e rec)) r"
  proof (cases rule: end_cases)
    case fails
    with ms none to have "x_state m = UNKNOWN \<or> can_transition (x_state m) UNKNOWN" by auto
    from settle_exact [OF this, of e w2] fails f(1) show ?thesis
      unfolding step by (simp add: answered_state_def sv)
  next
    case missing
    from ms to have t: "x_state m = FAILED \<or> can_transition (x_state m) FAILED"
      "x_state rec \<noteq> SUBMITTING \<Longrightarrow> x_state m = UNKNOWN \<or> can_transition (x_state m) UNKNOWN"
      by auto
    show ?thesis
    proof (cases "x_state rec \<in> {SUBMITTING, UNKNOWN}")
      case True
      with settle_exact [OF t(1), of e w2] missing f(1) show ?thesis
        unfolding step by (auto simp: answered_state_def sv)
    next
      case False
      with settle_exact [OF t(2), of e w2] missing f(1) show ?thesis
        unfolding step by (simp add: answered_state_def sv)
    qed
  next
    case found
    with none ms have "x_state m = RECONCILING" by auto
    from apply_response_exact [OF this, of e w2 raw] found f(1) show ?thesis
      unfolding step by (simp add: sv m_def)
  qed
  have "calls (snd (reconcile_active e w rec)) = calls w2 \<and>
        paper (snd (reconcile_active e w rec)) = paper w2 \<and>
        mode (snd (reconcile_active e w rec)) = mode w2"
    unfolding step by (simp split: sum.splits option.splits)
  then show "calls (snd (reconcile_active e w rec)) = calls_after (mode w) (calls w) rec"
    "paper (snd (reconcile_active e w rec)) = paper w" "mode (snd (reconcile_active e w rec)) = mode w"
    using f by auto
qed

text \<open>One turn of the recovery loop over a record that is stored as it was listed.\<close>

lemma recover_one_exact:
  assumes ok: "store_ok (db w)" and get: "get_record (db w) (execution_id rec) = Some rec"
    and act: "\<not> is_terminal (x_state rec)"
  shows "\<exists>r w'. recover_one e w rec = (Inr r, w') \<and> execution_id r = execution_id rec \<and>
     x_state r = (if at_exchange (x_state rec)
        then answered_state e rec (exchange_answer e (mode w) (paper w) (calls w) rec)
        else x_state rec) \<and>
     calls w' = (if at_exchange (x_state rec) then calls_after (mode w) (calls w) rec else calls w) \<and>
     mode w' = mode w \<and> paper w' = paper w \<and>
     map_option x_state (get_record (db w') (execution_id rec)) = Some (x_state r) \<and>
     (\<forall>k. k \<noteq> execution_id rec \<longrightarrow> get_record (db w') k = get_record (db w) k)"
proof -
  define w1 where "w1 = audit_rec e w rec ''startup_recover'' (''state='' @ state_name (x_state rec))"
  have w1: "db w1 = db w" "calls w1 = calls w" "mode w1 = mode w" "paper w1 = paper w"
    by (simp_all add: w1_def)
  show ?thesis
  proof (cases "at_exchange (x_state rec)")
    case False
    then have "recover_one e w rec = (Inr rec, w1)"
      by (simp add: recover_one_def recoverable_iff w1_def Let_def)
    with False get w1 show ?thesis by simp
  next
    case True
    have "recover_one e w rec = reconcile_active e w1 rec"
      using True get act by (simp add: recover_one_def recoverable_iff Let_def reconcile_exec_def w1_def)
    moreover have "id_ok rec" using ok get by (auto simp: store_ok_def)
    note ex = reconcile_active_exact [OF this True, where e = e and w = w1, unfolded w1]
    obtain r where r: "fst (reconcile_active e w1 rec) = Inr r"
      "x_state r = answered_state e rec (exchange_answer e (mode w) (paper w) (calls w) rec)"
      "execution_id r = execution_id rec"
      "db (snd (reconcile_active e w1 rec)) = save (save (db w) (marked e rec)) r"
      using ex(1) by blast
    have db: "db_ok (db w)" "db_ok (save (db w) (marked e rec))"
      using ok by (simp_all add: exec_store.inv_put)
    have "get_record (save (save (db w) (marked e rec)) r) k =
        (if k = execution_id rec then Some (merge_record (merge_record rec (marked e rec)) r)
         else get_record (db w) k)" for k
      using exec_store.get_put [OF db(2), of r k] exec_store.get_put [OF db(1), of "marked e rec" k]
        get r(3) by (simp split: if_splits)
    ultimately show ?thesis using True r ex(2-4) by (cases "reconcile_active e w1 rec") simp
  qed
qed

lemma recover_loop_exact:
  assumes "store_ok (db w)" and "distinct (map execution_id recs)"
    and "\<forall>rec \<in> set recs. get_record (db w) (execution_id rec) = Some rec \<and>
           \<not> is_terminal (x_state rec)"
  shows "\<exists>rs w'. recover_loop e w recs = (Inr rs, w') \<and>
     map execution_id rs = map execution_id recs \<and>
     map x_state rs = recovered_states e (mode w) (paper w) (calls w) recs \<and>
     (\<forall>r \<in> set rs. map_option x_state (get_record (db w') (execution_id r)) = Some (x_state r)) \<and>
     (\<forall>k. k \<notin> execution_id ` set recs \<longrightarrow> get_record (db w') k = get_record (db w) k)"
  using assms
proof (induction recs arbitrary: w)
  case Nil
  then show ?case by simp
next
  case (Cons rec recs)
  from recover_one_exact [of w rec e] Cons.prems obtain r w2 where
    one: "recover_one e w rec = (Inr r, w2)" "execution_id r = execution_id rec"
    "x_state r = (if at_exchange (x_state rec)
        then answered_state e rec (exchange_answer e (mode w) (paper w) (calls w) rec)
        else x_state rec)"
    "calls w2 = (if at_exchange (x_state rec) then calls_after (mode w) (calls w) rec else calls w)"
    "mode w2 = mode w" "paper w2 = paper w"
    "map_option x_state (get_record (db w2) (execution_id rec)) = Some (x_state r)"
    "\<forall>k. k \<noteq> execution_id rec \<longrightarrow> get_record (db w2) k = get_record (db w) k"
    by (auto simp del: map_option_eq_Some)
  have "store_ok (db w2)"
    using moves_ok [OF recover_one_moves [OF Cons.prems(1), of e rec]] one(1) by simp
  moreover have "\<forall>q \<in> set recs. get_record (db w2) (execution_id q) = Some q \<and> \<not> is_terminal (x_state q)"
    using Cons.prems(2,3) one(8) by (metis image_eqI image_set distinct.simps(2) list.simps(9) list.set_intros(2))
  ultimately obtain rs w' where ih: "recover_loop e w2 recs = (Inr rs, w')"
    "map execution_id rs = map execution_id recs"
    "map x_state rs = recovered_states e (mode w2) (paper w2) (calls w2) recs"
    "\<forall>r \<in> set rs. map_option x_state (get_record (db w') (execution_id r)) = Some (x_state r)"
    "\<forall>k. k \<notin> execution_id ` set recs \<longrightarrow> get_record (db w') k = get_record (db w2) k"
    using Cons.IH [of w2] Cons.prems(2) by (auto simp del: map_option_eq_Some)
  have "recover_loop e w (rec # recs) = (Inr (r # rs), w')" using one(1) ih(1) by simp
  moreover have "execution_id rec \<notin> execution_id ` set recs" using Cons.prems(2) by simp
  ultimately show ?case using one(2-8) ih(2-5)
    by (intro exI [of _ "r # rs"] exI [of _ w']) (simp del: map_option_eq_Some)
qed

lemma answered_state_settled: "answered_state e rec ans \<noteq> SUBMITTING \<and> answered_state e rec ans \<noteq> RECONCILING"
  by (simp add: answered_state_def target_state_def Let_def split: sum.split option.split)

lemma active_not_at_exchange: "\<not> at_exchange s \<Longrightarrow> s \<noteq> SUBMITTING \<and> s \<noteq> RECONCILING"
  by (auto simp: at_exchange_def is_terminal_def)

lemma recovered_states_settled:
  "\<forall>s \<in> set (recovered_states e m pb cs recs). s \<noteq> SUBMITTING \<and> s \<noteq> RECONCILING"
  by (induction recs arbitrary: cs) (simp_all add: answered_state_settled active_not_at_exchange)

lemma map_filter_ids:
  "\<forall>row \<in> set rows. \<exists>r. row_to_record row = Some r \<and> execution_id r = r_execution_id row \<Longrightarrow>
   map execution_id (List.map_filter row_to_record rows) = map r_execution_id rows"
  by (induction rows) (auto simp: List.map_filter_simps)

lemma list_active_distinct:
  assumes "db_ok t"
  shows "distinct (map execution_id (list_active t))"
proof -
  obtain rs where rs: "t = map record_to_row rs" "distinct (map execution_id rs)"
    using assms by (auto simp: db_ok_def)
  let ?rows = "sort_key r_created_at_ms (filter active_row t)"
  have "distinct (map r_execution_id t)" using rs by (simp add: comp_def)
  then have d: "distinct (map r_execution_id ?rows)"
    by (simp add: distinct_map inj_on_def)
  have "\<forall>row \<in> set ?rows. \<exists>r. row_to_record row = Some r \<and> execution_id r = r_execution_id row"
    by (auto simp: rs(1))
  from map_filter_ids [OF this] d show ?thesis by (simp only: list_active_def)
qed

section \<open>Runs of the engine\<close>

text \<open>
  The engine's operations in any order, each with its own environment (clock, identifiers, venue
  answers). A fresh identifier is one no stored record has (\<open>uuid4\<close>). The risk engine and the
  authorization of the process may change between operations.
\<close>

inductive engine_step :: "world \<Rightarrow> world \<Rightarrow> bool" where
  do_submit: "get_record (db w) (e_new_id e) = None \<Longrightarrow>
     engine_step w (snd (submit e w d pf otype key mq mc entry avail))"
| do_cancel: "engine_step w (snd (cancel e w eid))"
| do_reconcile: "engine_step w (snd (reconcile_exec e w eid))"
| do_recover: "engine_step w (snd (recover_on_startup e w))"
| do_mode: "set_exec_mode w m = Inr w' \<Longrightarrow> engine_step w w'"
| do_risk: "engine_step w (w\<lparr>risk := re\<rparr>)"
| do_authorize: "engine_step w (w\<lparr>adp := (adp w)\<lparr>authorized := b\<rparr>\<rparr>)"

lemma set_exec_mode_Inr:
  "set_exec_mode w m = Inr w' \<longleftrightarrow> w' = w\<lparr>mode := m, adp := (adp w)\<lparr>trading_enabled := False\<rparr>\<rparr>"
  by (auto simp: set_exec_mode_def enable_trading_def)

lemma engine_step_store:
  "engine_step w w' \<Longrightarrow> store_ok (db w) \<Longrightarrow> store_ok (db w') \<and> evolves (db w) (db w')"
proof (induction rule: engine_step.induct)
  case (do_submit w e d pf otype key mq mc entry avail)
  show ?case using submit_moves(1,2) [OF do_submit(2) do_submit(1) refl] by simp
next
  case (do_cancel w e eid)
  then show ?case using cancel_moves [OF do_cancel] by (simp add: moves_def)
next
  case (do_reconcile w e eid)
  then show ?case using reconcile_moves [OF do_reconcile] by (simp add: moves_def)
next
  case (do_recover w e)
  then show ?case using recover_moves [OF do_recover] by (simp add: moves_def)
qed (simp_all add: set_exec_mode_Inr)

lemma engine_run_store:
  "engine_step\<^sup>*\<^sup>* w w' \<Longrightarrow> store_ok (db w) \<Longrightarrow> store_ok (db w') \<and> evolves (db w) (db w')"
  by (induction rule: rtranclp_induct) (auto dest: engine_step_store intro: evolves_trans)

lemma engine_step_gate:
  "engine_step w w' \<Longrightarrow> \<not> trading_enabled (adp w) \<Longrightarrow> \<not> trading_enabled (adp w')"
  by (induction rule: engine_step.induct)
    (simp_all add: submit_gate cancel_effect reconcile_effect recover_on_startup_def
      recover_loop_effect set_exec_mode_Inr)

text \<open>Every order sent to the exchange is backed by a record of its own.\<close>

definition creates :: "string \<Rightarrow> venue_call list \<Rightarrow> nat" where
  "creates c cs = length (filter (\<lambda>x. case x of CreateCall q \<Rightarrow> oq_client_order_id q = c | _ \<Rightarrow> False) cs)"

definition records_for :: "string \<Rightarrow> exec_db \<Rightarrow> nat" where
  "records_for c t = length (filter (\<lambda>r. r_client_order_id r = c) t)"

lemma records_for_keys: "records_for c t = length (filter (\<lambda>p. snd p = c) (order_keys t))"
  by (simp add: records_for_def order_keys_def filter_map o_def)

lemma creates_filter: "creates c cs = creates c (filter is_create cs)"
  by (auto simp: creates_def is_create_def intro!: arg_cong [where f = length] filter_cong
      split: venue_call.splits)

lemma creates_same: "filter is_create cs' = filter is_create cs \<Longrightarrow> creates c cs' = creates c cs"
  by (metis creates_filter)

definition backed :: "world \<Rightarrow> bool" where
  "backed w \<longleftrightarrow> (\<forall>c. creates c (calls w) \<le> records_for c (db w))"

lemma backed_moves:
  "backed w \<Longrightarrow> moves w w' \<Longrightarrow> filter is_create (calls w') = filter is_create (calls w) \<Longrightarrow> backed w'"
  by (simp add: backed_def moves_def records_for_keys creates_same [of "calls w'" "calls w"])

lemma engine_step_backed:
  "engine_step w w' \<Longrightarrow> store_ok (db w) \<Longrightarrow> backed w \<Longrightarrow> backed w'"
proof (induction rule: engine_step.induct)
  case (do_submit w e d pf otype key mq mc entry avail)
  let ?w = "snd (submit e w d pf otype key mq mc entry avail)"
  note mv = submit_moves [OF do_submit(2) do_submit(1) refl, of d pf otype key mq mc entry avail]
  show ?case
  proof (cases "calls ?w = calls w")
    case True
    with mv(3) do_submit(3) show ?thesis
      by (auto simp: backed_def records_for_keys le_SucI)
  next
    case False
    then obtain req where req: "calls ?w = calls w @ [CreateCall req]"
      using submit_calls [OF refl] by metis
    with False mv(3,4) have "order_keys (db ?w) =
        order_keys (db w) @ [(e_new_id e, oq_client_order_id req)]" by auto
    with do_submit(3) req show ?thesis
      by (auto simp: backed_def records_for_keys creates_def)
  qed
next
  case (do_cancel w e eid)
  then show ?case using backed_moves cancel_moves cancel_effect(2) by blast
next
  case (do_reconcile w e eid)
  then show ?case using backed_moves reconcile_moves reconcile_effect(3) by blast
next
  case (do_recover w e)
  then show ?case
    using backed_moves recover_moves recover_loop_effect by (metis recover_on_startup_def)
qed (simp_all add: set_exec_mode_Inr backed_def)

lemma engine_run_backed:
  "engine_step\<^sup>*\<^sup>* w w' \<Longrightarrow> store_ok (db w) \<Longrightarrow> backed w \<Longrightarrow> backed w'"
proof (induction rule: rtranclp_induct)
  case base
  then show ?case by simp
next
  case (step u v)
  then show ?case using engine_step_backed engine_run_store by blast
qed

section \<open>Lemmas: the audit table\<close>

definition secret_tokens :: "string list" where
  "secret_tokens = [''api_key'', ''secret'', ''password'', ''authorization'']"

definition clean_text :: "string \<Rightarrow> bool" where
  "clean_text s \<longleftrightarrow> (\<forall>t \<in> set secret_tokens. \<not> py_in t (py_lower s))"

definition audit_clean :: "world \<Rightarrow> bool" where
  "audit_clean w \<longleftrightarrow> (\<forall>a \<in> set (audit w). clean_text (au_detail a) \<and> length (au_detail a) \<le> 2000)"

text \<open>The first token is spelled with a capital letter and looked for in lowered text.\<close>

lemma redact_without_apiKey: "redact audit_tokens s = redact (tl audit_tokens) s"
proof -
  have "is_upper CHR ''K''" by code_simp
  then have "\<not> py_in ''apiKey'' (py_lower s)" by (rule py_in_lower_upper [rotated]) simp
  then show ?thesis by (simp add: audit_tokens_def)
qed

lemma py_in_take: "py_in t (py_lower (take n s)) \<Longrightarrow> py_in t (py_lower s)"
  unfolding py_in_iff py_lower_def by (metis append.assoc append_take_drop_id map_append)

lemma redacted_clean: "clean_text redacted"
  by (simp add: clean_text_def secret_tokens_def redacted_def) code_simp

lemma redact_clean: "clean_text (take n (redact audit_tokens s))"
proof -
  have "clean_text (redact audit_tokens s)"
    using redacted_clean
    by (auto simp: clean_text_def redact_cases audit_tokens_def secret_tokens_def)
  then show ?thesis by (auto simp: clean_text_def dest: py_in_take)
qed

lemma audit_rec_clean [simp]: "audit_clean (audit_rec e w rec ev d) \<longleftrightarrow> audit_clean w"
  by (auto simp: audit_clean_def audit_rec_def audit_insert_def redact_clean)

lemma clean_cong: "audit w' = audit w \<Longrightarrow> audit_clean w' = audit_clean w"
  by (simp add: audit_clean_def)

lemma store_rec_clean [simp]: "audit_clean (store_rec w rec) \<longleftrightarrow> audit_clean w"
  by (rule clean_cong) simp

lemma settle_clean [simp]: "audit_clean (snd (settle e w rec t er ev d)) \<longleftrightarrow> audit_clean w"
  by (auto simp: settle_def Let_def split: sum.splits)

lemma apply_response_clean [simp]:
  "audit_clean (snd (apply_exchange_response e w rec raw)) \<longleftrightarrow> audit_clean w"
  by (auto simp: apply_exchange_response_def Let_def split: sum.splits)

lemma venue_audit:
  "venue_create e w rec = (x, w') \<Longrightarrow> audit w' = audit w"
  "cancel_at_venue e w rec = (x, w') \<Longrightarrow> audit w' = audit w"
  "fetch_at_venue e w rec = (y, w') \<Longrightarrow> audit w' = audit w"
  by (auto simp: venue_create_def cancel_at_venue_def fetch_at_venue_def live_trading_gate_def
      enable_trading_def adapter_create_order_def adapter_cancel_order_def adapter_fetch_order_def
      split: sum.splits prod.splits if_splits)

lemma submit_to_venue_clean [simp]:
  "audit_clean (snd (submit_to_venue e w rec)) \<longleftrightarrow> audit_clean w"
proof (cases "set_state e rec SUBMITTING")
  case (Inl x)
  then show ?thesis by (simp add: submit_to_venue_def)
next
  case (Inr r)
  define w1 where "w1 = audit_rec e (store_rec w r) r ''submitting'' (''mode='' @ mode_name (mode w))"
  obtain x w2 where v: "venue_create e w1 r = (x, w2)" by (metis surj_pair)
  have "audit_clean w2 \<longleftrightarrow> audit_clean w"
    using clean_cong [OF venue_audit(1) [OF v]] by (simp add: w1_def)
  with Inr w1_def v show ?thesis by (cases rule: submit_to_venue_end) auto
qed

lemma submit_final_clean:
  "audit_clean (snd (submit_final e w rec prp pf mq mc entry avail)) \<longleftrightarrow> audit_clean w"
proof -
  have "audit_clean (w\<lparr>risk := re\<rparr>) \<longleftrightarrow> audit_clean w" for re
    by (simp add: audit_clean_def)
  then show ?thesis
    by (auto simp: submit_final_def reject_local_def Let_def split: sum.splits prod.splits option.splits)
qed

lemma submit_clean [simp]:
  "audit_clean (snd (submit e w d pf otype key mq mc entry avail)) \<longleftrightarrow> audit_clean w"
  by (cases rule: submit_cases [of e w d pf otype key mq mc entry avail])
    (simp_all add: submit_final_clean)

lemma cancel_active_clean: "audit_clean (snd (cancel_active e w rec)) \<longleftrightarrow> audit_clean w"
proof (cases "set_state e rec CANCEL_PENDING")
  case (Inl x)
  then show ?thesis by (simp add: cancel_active_def)
next
  case (Inr r)
  define w1 where "w1 = audit_rec e (store_rec w r) r ''cancel_requested'' []"
  obtain x w2 where v: "cancel_at_venue e w1 r = (x, w2)" by (metis surj_pair)
  have c: "audit_clean w1 \<longleftrightarrow> audit_clean w" "audit_clean w2 \<longleftrightarrow> audit_clean w"
    using clean_cong [OF venue_audit(2) [OF v]] by (simp_all add: w1_def)
  from Inr w1_def v c show ?thesis by (cases rule: cancel_active_end) simp_all
qed

lemma cancel_clean [simp]: "audit_clean (snd (cancel e w eid)) \<longleftrightarrow> audit_clean w"
  by (simp add: cancel_def cancel_active_clean split: option.splits)

lemma reconcile_active_clean: "audit_clean (snd (reconcile_active e w rec)) \<longleftrightarrow> audit_clean w"
proof -
  define r where "r = (case set_state e rec RECONCILING of Inl _ \<Rightarrow> rec | Inr r \<Rightarrow> r)"
  define w1 where "w1 = audit_rec e (store_rec w r) r ''reconcile_start''
      (''from='' @ state_name (x_state rec))"
  obtain x w2 where v: "fetch_at_venue e w1 r = (x, w2)" by (metis surj_pair)
  have c: "audit_clean w2 \<longleftrightarrow> audit_clean w"
    using clean_cong [OF venue_audit(3) [OF v]] by (simp add: w1_def)
  from r_def w1_def v c show ?thesis by (cases rule: reconcile_active_end) simp_all
qed

lemma reconcile_clean [simp]: "audit_clean (snd (reconcile_exec e w eid)) \<longleftrightarrow> audit_clean w"
  by (simp add: reconcile_exec_def reconcile_active_clean split: option.splits)

lemma recover_one_clean: "audit_clean (snd (recover_one e w rec)) \<longleftrightarrow> audit_clean w"
  by (simp add: recover_one_def Let_def)

lemma recover_loop_clean: "audit_clean (snd (recover_loop e w recs)) \<longleftrightarrow> audit_clean w"
proof (induction recs arbitrary: w)
  case Nil
  then show ?case by simp
next
  case (Cons rec recs)
  obtain x w2 where v: "recover_one e w rec = (x, w2)" by (metis surj_pair)
  have "snd (recover_loop e w (rec # recs)) = w2 \<or>
      snd (recover_loop e w (rec # recs)) = snd (recover_loop e w2 recs)"
    using v by (cases x) (auto split: sum.splits prod.splits)
  with Cons.IH [of w2] recover_one_clean [of e w rec] v show ?case by auto
qed

lemma world_update_clean:
  "audit_clean (w\<lparr>mode := m, adp := ad\<rparr>) = audit_clean w"
  "audit_clean (w\<lparr>risk := re\<rparr>) = audit_clean w"
  "audit_clean (w\<lparr>mode := m\<rparr>) = audit_clean w"
  "audit_clean (w\<lparr>adp := ad\<rparr>) = audit_clean w"
  by (simp_all add: audit_clean_def)

lemma engine_step_clean: "engine_step w w' \<Longrightarrow> audit_clean w' \<longleftrightarrow> audit_clean w"
  by (induction rule: engine_step.induct)
    (simp_all add: recover_on_startup_def recover_loop_clean set_exec_mode_Inr world_update_clean)

lemma engine_run_clean: "engine_step\<^sup>*\<^sup>* w w' \<Longrightarrow> audit_clean w' \<longleftrightarrow> audit_clean w"
  by (induction rule: rtranclp_induct) (auto dest: engine_step_clean)

end
