(* ===== verification/ExecProps.thy ===== *)
theory ExecProps
  imports ExecProofs
begin

text \<open>
  The guarantees of the execution engine, and a concrete world (\<open>demo_world\<close>, a live adapter that
  fills every order completely) at which they are exercised.
\<close>

section \<open>A concrete world\<close>

definition demo_proposal :: trade_proposal where
  "demo_proposal = \<lparr>prop_exchange_id = ''binance'', prop_account_id = ''main'',
     prop_symbol = ''BTC'', prop_side = BUY, requested_quantity = 156 / 10000,
     requested_price = Some 1000, stop_price = None, prop_strategy_id = ''s'',
     prop_timestamp_ms = None\<rparr>"

definition demo_portfolio :: portfolio_snapshot where
  "demo_portfolio = \<lparr>equity = 1000, available_balance = 1000, reserved_balance = 0,
     holdings = [], positions = [], unrealized_pnl = 0, realized_pnl = 0, fees = 0,
     exposure = \<lparr>gross = 0, net = 0, by_symbol = [], by_exchange = [], by_asset = []\<rparr>,
     ps_timestamp_ms = 0, quote_currency = ''USDT'', accounts = []\<rparr>"

definition demo_decision :: risk_decision where
  "demo_decision = \<lparr>verdict = APPROVED, reason = NONE, rd_message = ''ok'', risk_score = 0,
     rd_allowed_quantity = 156 / 10000, rd_allowed_notional = 156 / 10, current_exposure = 0,
     projected_exposure = 156 / 10, proposal = Some demo_proposal\<rparr>"

definition demo_constraints :: market_constraints where
  "demo_constraints = no_constraints\<lparr>amount_precision := Some 2\<rparr>"

definition demo_venue :: venue where
  "demo_venue = \<lparr>
     do_create_order = (\<lambda>_ req. Inr [(''id'', PyStr ''x1''), (''status'', PyStr ''closed''),
       (''filled'', PyNum (oq_amount req))]),
     do_cancel_order = (\<lambda>_ oid _. Inr [(''id'', PyStr oid), (''status'', PyStr ''canceled'')]),
     do_fetch_order = (\<lambda>_ oid _. Inl (ExchangeErr ''NetworkError'' ''down''))\<rparr>"

definition demo_env :: "string \<Rightarrow> env" where
  "demo_env new_id = \<lparr>e_fmt = (\<lambda>_ _. ''n''), e_show = (\<lambda>_. ''v''), e_parse = (\<lambda>_. None), e_sha = (\<lambda>s. s),
     e_venue = demo_venue, e_day = ''d'', e_now = 7, e_new_id = new_id, e_corr = ''k''\<rparr>"

definition demo_world :: "execution_mode \<Rightarrow> world" where
  "demo_world m = \<lparr>db = [], audit = [], paper = new_paper_broker (1 / 2) 0 1,
     adp = \<lparr>trading_enabled = False, sandbox = False, authorized = True\<rparr>, calls = [],
     risk = \<lparr>policy = default_policy, safety = NORMAL, tracker = None, reconciliation_ok = True\<rparr>,
     mode = m\<rparr>"

definition demo_submit :: "execution_mode \<Rightarrow> (exec_exn + execution_record) \<times> world" where
  "demo_submit m = submit (demo_env ''e1'') (demo_world m) demo_decision demo_portfolio ''limit''
     ''key'' None (Some demo_constraints) None True"

lemma demo_frame [simp]:
  "db (demo_world m) = []" "audit (demo_world m) = []" "calls (demo_world m) = []"
  "mode (demo_world m) = m" "trading_enabled (adp (demo_world m)) = False"
  by (simp_all add: demo_world_def)

lemma demo_get [simp]: "get_record [] k = None"
  by (simp add: get_record_def)

lemma demo_step: "engine_step (demo_world m) (snd (demo_submit m))"
  unfolding demo_submit_def by (rule do_submit) simp

lemma demo_run: "engine_step\<^sup>*\<^sup>* (demo_world m) (snd (demo_submit m))"
  using demo_step by (rule r_into_rtranclp)

lemma demo_run_cancel:
  "engine_step\<^sup>*\<^sup>* (snd (demo_submit m)) (snd (cancel (demo_env ''e2'') (snd (demo_submit m)) ''e1''))"
  by (rule r_into_rtranclp) (rule do_cancel)

text \<open>What the witnesses read off the demonstration run, evaluated once.\<close>

definition summary :: "world \<Rightarrow> flt option list \<times> (order_state \<times> flt) option \<times> string list" where
  "summary w = (map (\<lambda>c. case c of CreateCall q \<Rightarrow> Some (oq_amount q) | _ \<Rightarrow> None) (calls w),
     map_option (\<lambda>r. (x_state r, allowed_quantity r)) (get_record (db w) ''e1''), map au_event (audit w))"

lemma demo_live_summary: "summary (snd (demo_submit LIVE)) =
  ([Some (1 / 100)], Some (FILLED, 156 / 10000),
   [''risk_approved'', ''final_risk_check'', ''submitting'', ''exchange_response''])"
  by code_simp

lemma demo_live_calls:
  "map (\<lambda>c. case c of CreateCall q \<Rightarrow> Some (oq_amount q) | _ \<Rightarrow> None) (calls (snd (demo_submit LIVE))) =
     [Some (1 / 100)]"
  using demo_live_summary unfolding summary_def by blast

lemma demo_live_request:
  obtains req where "calls (snd (demo_submit LIVE)) = [CreateCall req]" "oq_amount req = 1 / 100"
proof -
  have *: "\<exists>q. xs = [CreateCall q] \<and> oq_amount q = a"
    if "map (\<lambda>c. case c of CreateCall q \<Rightarrow> Some (oq_amount q) | _ \<Rightarrow> None) xs = [Some a]" for xs a
    using that by (cases xs; cases "hd xs") auto
  show thesis using *[OF demo_live_calls] that by blast
qed

lemma demo_live_record:
  "map_option (\<lambda>r. (x_state r, allowed_quantity r)) (get_record (db (snd (demo_submit LIVE))) ''e1'') =
     Some (FILLED, 156 / 10000)"
  using demo_live_summary unfolding summary_def by blast

section \<open>Properties\<close>

text \<open>C1: Along any run of the engine's operations no stored execution is lost: it keeps its identity,
  its client order id and its size, its state moves only along the edges of the order lifecycle, and
  once terminal it never changes state again.\<close>

theorem engine_run_lifecycle:
  assumes "engine_step\<^sup>*\<^sup>* w w'" and "store_ok (db w)" and "get_record (db w) k = Some r"
  shows "\<exists>r'. get_record (db w') k = Some r' \<and> can_transition\<^sup>*\<^sup>* (x_state r) (x_state r') \<and>
           (is_terminal (x_state r) \<longrightarrow> x_state r' = x_state r) \<and>
           client_order_id r' = client_order_id r \<and> allowed_quantity r' = allowed_quantity r"
proof -
  obtain r' where r': "get_record (db w') k = Some r'" "legal_path (x_state r) (x_state r')"
      "client_order_id r' = client_order_id r" "allowed_quantity r' = allowed_quantity r"
    using engine_run_store [OF assms(1,2)] assms(3) unfolding evolves_def by blast
  moreover have "is_terminal (x_state r) \<longrightarrow> x_state r' = x_state r"
    using r'(2) by (induction rule: converse_rtranclp_induct)
      (auto dest: can_transition_neq_terminal)
  ultimately show ?thesis by blast
qed

theorem engine_run_lifecycle_witness:
  "\<exists>r r'. get_record (db (snd (demo_submit LIVE))) ''e1'' = Some r \<and> x_state r = FILLED \<and>
     get_record (db (snd (cancel (demo_env ''e2'') (snd (demo_submit LIVE)) ''e1''))) ''e1'' = Some r' \<and>
     x_state r' = FILLED"
proof -
  obtain r where r: "get_record (db (snd (demo_submit LIVE))) ''e1'' = Some r" "x_state r = FILLED"
    using demo_live_record by auto
  have "store_ok (db (snd (demo_submit LIVE)))"
    using engine_run_store [OF demo_run] by simp
  from engine_run_lifecycle [OF demo_run_cancel this r(1)] r show ?thesis
    by (auto simp: is_terminal_def)
qed

text \<open>C3: Starting from an empty store and an empty log, every order the engine ever sent to the
  exchange is backed by a stored execution of its own with the same client order id: for every id,
  the number of orders sent is at most the number of stored executions that carry it.\<close>

theorem orders_backed_by_records:
  assumes "engine_step\<^sup>*\<^sup>* w w'" and "db w = []" and "calls w = []"
  shows "creates c (calls w') \<le> records_for c (db w')"
proof -
  have "backed w" using assms(3) by (simp add: backed_def creates_def)
  moreover have "store_ok (db w)" using assms(2) by simp
  ultimately have "backed w'" using engine_run_backed [OF assms(1)] by blast
  then show ?thesis by (simp add: backed_def)
qed

theorem orders_backed_by_records_witness:
  "\<forall>c. creates c (calls (snd (demo_submit LIVE))) \<le> records_for c (db (snd (demo_submit LIVE)))"
  by (intro allI orders_backed_by_records [OF demo_run]) simp_all

text \<open>C2: A submission that reaches the exchange sends exactly one order. The engine is in LIVE mode,
  the adapter is in sandbox mode or the process is authorized, the decision and the final risk check
  both approve, the emergency stop is off, the amount is positive and below both approved sizes, and
  no execution with the same client order id is still active or filled.\<close>

theorem submit_sends_one_bounded_order:
  assumes "calls (snd (submit e w d pf otype key mq mc entry avail)) \<noteq> calls w"
  shows "\<exists>req prp final re.
    calls (snd (submit e w d pf otype key mq mc entry avail)) = calls w @ [CreateCall req] \<and>
    proposal d = Some prp \<and> mode w = LIVE \<and> (sandbox (adp w) \<or> authorized (adp w)) \<and>
    verdict d = APPROVED \<and> safety (risk w) \<noteq> EMERGENCY_STOP \<and>
    0 < oq_amount req \<and> oq_amount req \<le> rd_allowed_quantity d \<and>
    evaluate (e_fmt e) (e_day e) (risk w) prp pf mq mc
      (num_or entry (requested_price prp)) avail = (Inr final, re) \<and>
    verdict final = APPROVED \<and> oq_amount req \<le> rd_allowed_quantity final \<and>
    (case get_by_client_order_id (db w) (oq_client_order_id req) of None \<Rightarrow> True
       | Some ex \<Rightarrow> is_terminal (x_state ex) \<and> x_state ex \<noteq> FILLED)"
  by (rule submit_calls [OF refl assms]) (intro exI conjI; assumption)

theorem submit_sends_one_bounded_order_witness:
  "\<exists>req. calls (snd (demo_submit LIVE)) = [CreateCall req] \<and> 0 < oq_amount req \<and>
     oq_amount req \<le> 156 / 10000"
proof -
  have "calls (snd (demo_submit LIVE)) \<noteq> calls (demo_world LIVE)"
    using demo_live_calls by auto
  from submit_sends_one_bounded_order [OF this [unfolded demo_submit_def]]
  obtain req where
    "calls (snd (demo_submit LIVE)) = [CreateCall req]" "0 < oq_amount req"
    "oq_amount req \<le> rd_allowed_quantity demo_decision"
    unfolding demo_submit_def [symmetric] demo_frame append_Nil by blast
  then show ?thesis unfolding demo_decision_def by simp
qed

text \<open>C4: In PAPER mode no operation of the engine calls the exchange: submitting, cancelling,
  reconciling and recovering leave the call log as it was.\<close>

theorem paper_mode_is_offline:
  assumes "mode w = PAPER"
  shows "calls (snd (submit e w d pf otype key mq mc entry avail)) = calls w \<and>
    calls (snd (cancel e w eid)) = calls w \<and> calls (snd (reconcile_exec e w eid)) = calls w \<and>
    calls (snd (recover_on_startup e w)) = calls w"
proof -
  have "calls (snd (submit e w d pf otype key mq mc entry avail)) = calls w"
  proof (rule ccontr)
    assume "calls (snd (submit e w d pf otype key mq mc entry avail)) \<noteq> calls w"
    with assms show False using submit_calls [OF refl] by force
  qed
  with assms show ?thesis
    by (simp add: cancel_effect reconcile_effect recover_loop_effect recover_on_startup_def)
qed

theorem paper_mode_is_offline_witness:
  "calls (snd (demo_submit PAPER)) = []"
  using paper_mode_is_offline [of "demo_world PAPER"] by (simp add: demo_submit_def)

text \<open>The adapter's trading gate is closed between operations: once closed it is closed after
  every run, however the venue answered and whatever failed.\<close>

theorem gate_closed_after_run:
  assumes "engine_step\<^sup>*\<^sup>* w w'" and "\<not> trading_enabled (adp w)"
  shows "\<not> trading_enabled (adp w')"
  using assms by (induction rule: rtranclp_induct) (auto dest: engine_step_gate)

theorem gate_closed_after_run_witness: "\<not> trading_enabled (adp (snd (demo_submit LIVE)))"
  by (rule gate_closed_after_run [OF demo_run]) simp

text \<open>Cancelling, reconciling and recovering never create an order at the exchange.\<close>

theorem only_submit_creates:
  "filter is_create (calls (snd (cancel e w eid))) = filter is_create (calls w) \<and>
   filter is_create (calls (snd (reconcile_exec e w eid))) = filter is_create (calls w) \<and>
   filter is_create (calls (snd (recover_on_startup e w))) = filter is_create (calls w)"
  by (simp add: cancel_effect reconcile_effect recover_loop_effect recover_on_startup_def)




text \<open>C6: The redaction of the audit table replaces a detail exactly when its lowered text contains
  api\_key, secret, password or authorization; the fifth name of the code's list, apiKey, never
  fires, as it is searched in lowered text. So no run of the engine stores a detail with one of those
  four names in any letter case, and none longer than 2000 characters; a detail that only spells
  apiKey is stored as it is.\<close>

theorem audit_redacts_four_names:
  assumes "engine_step\<^sup>*\<^sup>* w w'" and "audit w = []" and "a \<in> set (audit w')"
  shows "redact audit_tokens d =
      (if list_ex (\<lambda>t. py_in t (py_lower d)) [''api_key'', ''secret'', ''password'', ''authorization'']
       then redacted else d) \<and>
    \<not> py_in ''api_key'' (py_lower (au_detail a)) \<and> \<not> py_in ''secret'' (py_lower (au_detail a)) \<and>
    \<not> py_in ''password'' (py_lower (au_detail a)) \<and>
    \<not> py_in ''authorization'' (py_lower (au_detail a)) \<and> length (au_detail a) \<le> 2000"
proof -
  have "redact audit_tokens d =
      (if list_ex (\<lambda>t. py_in t (py_lower d)) [''api_key'', ''secret'', ''password'', ''authorization'']
       then redacted else d)"
    unfolding redact_without_apiKey by (simp add: redact_cases audit_tokens_def)
  moreover have "audit_clean w" using assms(2) by (simp add: audit_clean_def)
  then have "audit_clean w'" using engine_run_clean [OF assms(1)] by blast
  ultimately show ?thesis using assms(3)
    by (simp add: audit_clean_def clean_text_def secret_tokens_def)
qed

lemma demo_live_audit: "map au_event (audit (snd (demo_submit LIVE))) =
  [''risk_approved'', ''final_risk_check'', ''submitting'', ''exchange_response'']"
  using demo_live_summary unfolding summary_def by blast

theorem audit_redacts_four_names_witness:
  "length (audit (snd (demo_submit LIVE))) = 4 \<and>
   \<not> py_in ''secret'' (py_lower (au_detail (hd (audit (snd (demo_submit LIVE)))))) \<and>
   redact audit_tokens ''apiKey=XYZ'' = ''apiKey=XYZ''"
proof -
  have l: "length (audit (snd (demo_submit LIVE))) = 4"
    using arg_cong [OF demo_live_audit, of length] by simp
  then have i: "hd (audit (snd (demo_submit LIVE))) \<in> set (audit (snd (demo_submit LIVE)))"
    by (intro hd_in_set) auto
  have n: "list_ex (\<lambda>t. py_in t (py_lower ''apiKey=XYZ''))
      [''api_key'', ''secret'', ''password'', ''authorization''] = False"
    by code_simp
  from audit_redacts_four_names [OF demo_run _ i, of "''apiKey=XYZ''"] l show ?thesis
    unfolding n by simp
qed

text \<open>The token apiKey of the redaction list can never match, because it is searched in the
  lowered text: a detail whose only credential is spelled apiKey is stored unredacted.\<close>

theorem apiKey_token_is_dead:
  "redact audit_tokens s = redact (tl audit_tokens) s \<and>
   redact audit_tokens ''apiKey=XYZ'' = ''apiKey=XYZ''"
proof -
  have "redact audit_tokens ''apiKey=XYZ'' = ''apiKey=XYZ''" by code_simp
  then show ?thesis using redact_without_apiKey by simp
qed

text \<open>Applying the same exchange response twice counts its fill twice: the reported cumulative
  quantity is appended as a new fill each time, so the recorded filled quantity grows by it again.\<close>

theorem repeated_response_counts_twice:
  assumes "as_float e (dget raw ''filled'') 0 = q" and "0 < q" and "0 \<le> total_filled (fills rec)"
  shows "filled_quantity (absorb_response e rec raw) = total_filled (fills rec) + q \<and>
    filled_quantity (absorb_response e (absorb_response e rec raw) raw) =
      total_filled (fills rec) + 2 * q"
proof -
  have *: "filled_quantity (absorb_response e r raw) = total_filled (fills r) + q \<and>
      total_filled (fills (absorb_response e r raw)) = total_filled (fills r) + q"
    if "0 \<le> total_filled (fills r)" for r
    using assms(1,2) that
    by (simp add: absorb_response_def Let_def recompute_filled response_fill_def total_filled_def)
  show ?thesis using *[OF assms(3)] *[of "absorb_response e rec raw"] assms(2,3) by simp
qed

definition demo_record :: execution_record where
  "demo_record = \<lparr>execution_id = ''e1'', client_order_id = ''c1'', x_exchange_id = ''binance'',
     x_account_id = ''main'', x_symbol = ''BTC'', x_side = BUY, order_type = ''limit'',
     x_requested_quantity = 2, x_requested_price = Some 10, allowed_quantity = 2,
     allowed_notional = 20, x_state = SUBMITTING, exchange_order_id = None, filled_quantity = 0,
     remaining_quantity = 2, average_fill_price = None, fees_total = 0, fee_currency = None,
     fills = [], last_error = None, created_at_ms = 0, updated_at_ms = 0, strategy_id = ''s'',
     correlation_id = ''k'', x_mode = PAPER\<rparr>"

lemma demo_partial: "as_float (demo_env i) (dget [(''filled'', PyNum 1)] ''filled'') 0 = 1"
  by (simp add: as_float_def dget_def)

theorem repeated_response_counts_twice_witness:
  "\<forall>i. filled_quantity (absorb_response (demo_env i) (absorb_response (demo_env i) demo_record
     [(''filled'', PyNum 1)]) [(''filled'', PyNum 1)]) = allowed_quantity demo_record"
proof
  fix i
  show "filled_quantity (absorb_response (demo_env i) (absorb_response (demo_env i) demo_record
     [(''filled'', PyNum 1)]) [(''filled'', PyNum 1)]) = allowed_quantity demo_record"
    using repeated_response_counts_twice [OF demo_partial, of demo_record i]
    by (simp add: demo_record_def total_filled_def)
qed

text \<open>The store keeps the size of the decision: the tightening of the final risk check and the
  precision floor change the record in memory and the order that is sent, but the update of the row
  leaves the stored allowed quantity at the size approved first.\<close>

theorem stored_size_is_decision_size:
  assumes "store_ok (db w)" and "get_record (db w) (e_new_id e) = None"
    and "get_record (db (snd (submit e w d pf otype key mq mc entry avail))) (e_new_id e) = Some r"
  shows "allowed_quantity r = rd_allowed_quantity d"
proof (cases rule: submit_cases [of e w d pf otype key mq mc entry avail])
  case (refused x)
  with assms show ?thesis by simp
next
  case (idempotent ex msg)
  with assms show ?thesis by simp
next
  case (fresh prp rec w1)
  have pos: "0 < allowed_quantity rec" using fresh by (simp add: executable_def)
  have db1: "db w1 = save (db w) rec" by (simp add: fresh(5))
  have "id_ok rec" "get_record (db w) (execution_id rec) = None"
    using assms(2) fresh(6,8) by (simp_all add: id_ok_def)
  note new = save_fresh [OF assms(1) this(2,1), folded db1]
  note ok = new(1) and tr = new(2)
  have "get_record (db w1) (e_new_id e) = Some rec" using new(4) fresh(6) by simp
  moreover have "evolves (db w1) (db (snd (submit e w d pf otype key mq mc entry avail)))"
    using submit_final_moves [OF ok tr pos] unfolding fresh(1) moves_def by blast
  ultimately obtain r' where "get_record (db (snd (submit e w d pf otype key mq mc entry avail)))
      (e_new_id e) = Some r'" "allowed_quantity r' = allowed_quantity rec"
    unfolding evolves_def by blast
  then show ?thesis using assms(3) fresh(9) by simp
qed

theorem stored_size_is_decision_size_witness:
  "\<exists>r req. get_record (db (snd (demo_submit LIVE))) ''e1'' = Some r \<and>
     calls (snd (demo_submit LIVE)) = [CreateCall req] \<and>
     allowed_quantity r = 156 / 10000 \<and> oq_amount req = 1 / 100"
proof -
  obtain r where r: "get_record (db (snd (demo_submit LIVE))) ''e1'' = Some r"
    using demo_live_record by auto
  have "get_record (db (demo_world LIVE)) (e_new_id (demo_env ''e1'')) = None" by simp
  moreover have "get_record (db (snd (demo_submit LIVE))) (e_new_id (demo_env ''e1'')) = Some r"
    using r by (simp add: demo_env_def)
  ultimately have "allowed_quantity r = rd_allowed_quantity demo_decision"
    unfolding demo_submit_def by (intro stored_size_is_decision_size) simp_all
  moreover obtain req where "calls (snd (demo_submit LIVE)) = [CreateCall req]" "oq_amount req = 1 / 100"
    by (rule demo_live_request)
  ultimately show ?thesis using r by (auto simp: demo_decision_def)
qed

text \<open>A create response that reports the order as already cancelled or expired, without a fill,
  raises the lifecycle error out of the engine, because SUBMITTING has no edge to CANCELLED: nothing
  is saved, so the exchange's order id is lost.\<close>

theorem immediate_cancel_response_is_lost:
  assumes "x_state rec = SUBMITTING" and "response_status e raw \<in> {''canceled'', ''cancelled'', ''expired''}"
    and "as_float e (dget raw ''filled'') 0 \<le> 0" and "filled_quantity rec < allowed_quantity rec - dust"
  shows "apply_exchange_response e w rec raw =
    (Inl (TransitionExn (TransitionError SUBMITTING CANCELLED)), w)"
proof -
  let ?a = "absorb_response e rec raw"
  have a: "filled_quantity ?a = filled_quantity rec" "allowed_quantity ?a = allowed_quantity rec"
    using assms(3) by (simp_all add: absorb_response_def Let_def)
  have "target_state (response_status e raw) (as_float e (dget raw ''filled'') 0)
      (filled_quantity ?a) (allowed_quantity ?a) = CANCELLED"
    using assms(2-4) unfolding a target_state_def by auto
  moreover have "set_state e ?a CANCELLED = Inl (TransitionError SUBMITTING CANCELLED)"
    using assms(1) by (simp add: set_state_Inl can_transition_def)
  ultimately show ?thesis by (simp add: apply_exchange_response_def Let_def)
qed

theorem immediate_cancel_response_is_lost_witness:
  "apply_exchange_response (demo_env ''e1'') (demo_world LIVE) demo_record
     [(''id'', PyStr ''x9''), (''status'', PyStr ''expired'')] =
   (Inl (TransitionExn (TransitionError SUBMITTING CANCELLED)), demo_world LIVE)"
proof -
  let ?raw = "[(''id'', PyStr ''x9''), (''status'', PyStr ''expired'')]"
  have "response_status (demo_env ''e1'') ?raw = ''expired''" by code_simp
  moreover have "as_float (demo_env ''e1'') (dget ?raw ''filled'') 0 = 0"
    by (simp add: as_float_def dget_def)
  ultimately show ?thesis
    by (intro immediate_cancel_response_is_lost) (simp_all add: demo_record_def)
qed

end
