(* ===== verification/RiskProps.thy ===== *)
theory RiskProps
  imports Risk
begin

text \<open>
  The guarantees of the portfolio and risk components, each with a concrete input at which it is
  exercised.
\<close>

section \<open>A concrete portfolio\<close>

definition risk_demo_proposal :: trade_proposal where
  "risk_demo_proposal = \<lparr>prop_exchange_id = ''binance'', prop_account_id = ''main'',
     prop_symbol = ''BTC'', prop_side = BUY, requested_quantity = 1 / 100,
     requested_price = Some 1000, stop_price = Some 900, prop_strategy_id = ''s'',
     prop_timestamp_ms = None\<rparr>"

definition risk_demo_portfolio :: portfolio_snapshot where
  "risk_demo_portfolio = \<lparr>equity = 1000, available_balance = 1000, reserved_balance = 0,
     holdings = [], positions = [], unrealized_pnl = 0, realized_pnl = 0, fees = 0,
     exposure = empty_exposure, ps_timestamp_ms = 0, quote_currency = ''USDT'', accounts = []\<rparr>"

definition risk_demo_engine :: "safety_mode \<Rightarrow> risk_engine" where
  "risk_demo_engine m = \<lparr>policy = default_policy, safety = m, tracker = None, reconciliation_ok = True\<rparr>"

definition risk_demo_eval :: "safety_mode \<Rightarrow> (py_error + risk_decision) \<times> risk_engine" where
  "risk_demo_eval m = evaluate (\<lambda>_ _. ''n'') ''d'' (risk_demo_engine m) risk_demo_proposal
     risk_demo_portfolio None None None True"

lemma risk_demo_approved:
  "(case fst (risk_demo_eval NORMAL) of Inr d \<Rightarrow> (verdict d, rd_allowed_quantity d) | _ \<Rightarrow> (BLOCKED, 0)) =
     (APPROVED, 1 / 100)"
  by code_simp

lemma risk_demo_blocked:
  "(case fst (risk_demo_eval EMERGENCY_STOP) of Inr d \<Rightarrow> verdict d | _ \<Rightarrow> APPROVED) = BLOCKED"
  by code_simp

section \<open>Properties\<close>

lemma below_headroom: "0 < x \<Longrightarrow> x \<le> headroom eq c e \<Longrightarrow> e + x \<le> eq * (c / 100)"
  by (auto simp: headroom_def max_def split: if_splits)

text \<open>C7: An approved decision respects every limit of the policy at once. The notional fits the
  position cap and, added to the existing exposure, the symbol, exchange and portfolio caps; the size
  is at most the requested one when one is requested and meets the exchange's minimums; for a buy the
  cost with fee and slippage fits the available balance, the safety mode lets entries through and a
  slot is free unless the symbol is held already. The emergency stop is off, the exchange available,
  the books reconciled, the market data acceptable, and daily loss, drawdown and the losing streak of
  the updated tracker are below their limits.\<close>

theorem approval_respects_limits:
  assumes "evaluate fmt day re prp pf mq mc entry avail = (Inr d, re')" and "verdict d = APPROVED"
  shows "\<exists>price t. num_or entry (requested_price prp) = Some price \<and> 0 < price \<and>
    0 < rd_allowed_quantity d \<and> rd_allowed_notional d = rd_allowed_quantity d * price \<and>
    rd_allowed_notional d \<le> equity pf * (max_position_pct (policy re) / 100) \<and>
    dict_get (by_symbol (exposure pf)) (prop_symbol prp) 0 + rd_allowed_notional d
      \<le> equity pf * (max_symbol_exposure_pct (policy re) / 100) \<and>
    dict_get (by_exchange (exposure pf)) (prop_exchange_id prp) 0 + rd_allowed_notional d
      \<le> equity pf * (max_exchange_exposure_pct (policy re) / 100) \<and>
    gross (exposure pf) + rd_allowed_notional d
      \<le> equity pf * (max_portfolio_exposure_pct (policy re) / 100) \<and>
    (requested_quantity prp = 0 \<or> rd_allowed_quantity d \<le> requested_quantity prp) \<and>
    meets_exchange_minimums (rd_allowed_quantity d) price mc \<and>
    (prop_side prp = BUY \<longrightarrow>
       rd_allowed_notional d * (1 + ((case mc of None \<Rightarrow> default_taker_fee_pct (policy re)
            | Some c \<Rightarrow> fee_pct_of (policy re) c) + default_slippage_pct (policy re)) / 100)
         \<le> available_balance pf \<and>
       safety re \<in> {NORMAL, WARNING} \<and>
       ((\<exists>p \<in> set (positions pf). pos_symbol p = prop_symbol prp \<and> pos_account p = prop_account prp) \<or>
        open_position_count pf < max_concurrent_positions (policy re))) \<and>
    safety re \<noteq> EMERGENCY_STOP \<and> avail \<and> reconciliation_ok re \<and>
    quality_gate fmt (policy re) mq = None \<and>
    tracker re' = Some t \<and> current_equity t = equity pf \<and>
    daily_loss_pct t < max_daily_loss_pct (policy re) \<and> drawdown_pct t < max_drawdown_pct (policy re) \<and>
    consecutive_losses t < max_consecutive_losses (policy re)"
  using assms(1)
proof (cases rule: evaluate_cases)
  case refused
  with assms(2) show ?thesis by simp
next
  case (sized price sz t)
  let ?q = "allowed_of prp sz"
  have d: "rd_allowed_quantity d = ?q" "rd_allowed_notional d = ?q * price" "0 < ?q" "0 < ?q * price"
    "meets_exchange_minimums ?q price mc"
    using decide_size_cases [of fmt "policy re" pf prp mc price "gross (exposure pf)" sz] assms(2)
    unfolding sized(8) by (auto simp: Let_def)
  have below: "?q * price \<le> fst c"
    if "c \<in> set (size_candidates (equity pf) (available_balance pf) price (policy re) mc
         (stop_price prp) (dict_get (by_symbol (exposure pf)) (prop_symbol prp) 0)
         (dict_get (by_exchange (exposure pf)) (prop_exchange_id prp) 0) (gross (exposure pf)))" for c
  proof -
    note sz = sizing_below_candidates [OF sized(7) that]
    have "?q * price \<le> max_quantity sz * price"
      using allowed_of_le(1) [OF sz(1)] sized(2) by (simp add: mult_right_mono)
    with sz(2) d(4) show ?thesis by linarith
  qed
  let ?eq = "equity pf" and ?p = "policy re"
  have pos: "?q * price \<le> ?eq * (max_position_pct ?p / 100)"
    using below [of "(?eq * (max_position_pct ?p / 100), ''max_position_pct'')"]
    by (simp add: size_candidates_def cap_candidates_def)
  have head: "e + ?q * price \<le> ?eq * (c / 100)"
    if "(headroom ?eq c e, why) \<in> set (cap_candidates ?eq ?p
         (dict_get (by_symbol (exposure pf)) (prop_symbol prp) 0)
         (dict_get (by_exchange (exposure pf)) (prop_exchange_id prp) 0) (gross (exposure pf))
         (available_balance pf / (1 + (fee_pct_of ?p (opt_get mc no_constraints) + default_slippage_pct ?p) / 100)))"
    for e c why
  proof -
    have "?q * price \<le> headroom ?eq c e"
      using below [of "(headroom ?eq c e, why)"] that by (simp add: size_candidates_def)
    with d(4) show ?thesis by (rule below_headroom)
  qed
  note gates = pre_gates_pass [OF sized(3)]
  have req: "requested_quantity prp = 0 \<or> ?q \<le> requested_quantity prp"
    using gates allowed_of_le(2) [of prp sz] by force
  have buy: "?q * price * (1 + ((case mc of None \<Rightarrow> default_taker_fee_pct ?p
          | Some c \<Rightarrow> fee_pct_of ?p c) + default_slippage_pct ?p) / 100) \<le> available_balance pf"
    if "prop_side prp = BUY"
    using decide_size_cases [of fmt ?p pf prp mc price "gross (exposure pf)" sz] assms(2) that
    unfolding sized(8) by (auto simp: Let_def)
  have slot: "(\<exists>p \<in> set (positions pf). pos_symbol p = prop_symbol prp \<and> pos_account p = prop_account prp) \<or>
      open_position_count pf < max_concurrent_positions ?p" if "prop_side prp = BUY"
    using sized(6) that by (auto simp: concurrency_gate_def Let_def split: if_splits)
  have caps: "dict_get (by_symbol (exposure pf)) (prop_symbol prp) 0 + ?q * price
        \<le> ?eq * (max_symbol_exposure_pct ?p / 100)"
    "dict_get (by_exchange (exposure pf)) (prop_exchange_id prp) 0 + ?q * price
        \<le> ?eq * (max_exchange_exposure_pct ?p / 100)"
    "gross (exposure pf) + ?q * price \<le> ?eq * (max_portfolio_exposure_pct ?p / 100)"
    using head [of "max_symbol_exposure_pct ?p" _ "''max_symbol_exposure''"]
      head [of "max_exchange_exposure_pct ?p" _ "''max_exchange_exposure''"]
      head [of "max_portfolio_exposure_pct ?p" _ "''max_portfolio_exposure''"]
    by (auto simp: cap_candidates_def)
  show ?thesis
    unfolding d(1,2)
    using sized(1,2) d(3,5) pos caps req buy slot gates update_equity_tracker_frame(4,6) [OF sized(4)]
      equity_gates_pass [OF sized(5)]
    by (intro exI [of _ price] exI [of _ t] conjI impI) blast+
qed

theorem approval_respects_limits_witness:
  "\<exists>d. fst (risk_demo_eval NORMAL) = Inr d \<and> verdict d = APPROVED \<and>
     rd_allowed_notional d \<le> 1000 * (5 / 100)"
proof -
  obtain d where d: "fst (risk_demo_eval NORMAL) = Inr d" "verdict d = APPROVED"
    using risk_demo_approved by (auto split: sum.splits)
  then have "evaluate (\<lambda>_ _. ''n'') ''d'' (risk_demo_engine NORMAL) risk_demo_proposal
     risk_demo_portfolio None None None True = (Inr d, snd (risk_demo_eval NORMAL))"
    unfolding risk_demo_eval_def by (metis prod.collapse)
  from approval_respects_limits [OF this d(2)] d show ?thesis
    by (auto simp: risk_demo_portfolio_def risk_demo_engine_def default_policy_def)
qed

text \<open>Whatever the inputs, a decision that is not an approval allows no quantity and is not
  executable, and the safety mode is left as it was.\<close>

theorem refusal_allows_nothing:
  assumes "evaluate fmt day re prp pf mq mc entry avail = (Inr d, re')" and "verdict d \<noteq> APPROVED"
  shows "rd_allowed_quantity d = 0 \<and> \<not> executable d \<and> safety re' = safety re"
  using evaluate_not_approved [OF assms] evaluate_safety [of fmt day re prp pf mq mc entry avail] assms
  by (simp add: executable_def)

theorem refusal_allows_nothing_witness:
  "\<exists>d. fst (risk_demo_eval EMERGENCY_STOP) = Inr d \<and> rd_allowed_quantity d = 0"
proof -
  obtain d where d: "fst (risk_demo_eval EMERGENCY_STOP) = Inr d" "verdict d \<noteq> APPROVED"
    using risk_demo_blocked by (auto split: sum.splits)
  then have "evaluate (\<lambda>_ _. ''n'') ''d'' (risk_demo_engine EMERGENCY_STOP) risk_demo_proposal
     risk_demo_portfolio None None None True = (Inr d, snd (risk_demo_eval EMERGENCY_STOP))"
    unfolding risk_demo_eval_def by (metis prod.collapse)
  from refusal_allows_nothing [OF this d(2)] d show ?thesis by blast
qed

text \<open>An unavailable exchange replaces the emergency stop by BLOCK\_NEW\_ENTRIES, and the next
  evaluation under calm conditions returns to NORMAL: the automatic checks clear an emergency stop
  that the code means to clear by hand only.\<close>

theorem emergency_stop_is_cleared:
  assumes "validate_policy (policy re) = Inr ()" and "tracker re = None" and "safety re = EMERGENCY_STOP"
    and "evaluate_circuit_breakers day re pf mq False recon move = (re1, m1)"
    and "evaluate_circuit_breakers day re1 pf None True None False = (re2, m2)"
  shows "m1 = BLOCK_NEW_ENTRIES \<and> m2 = NORMAL \<and> safety re2 = NORMAL"
proof -
  have p: "0 < max_drawdown_pct (policy re)" "0 < max_daily_loss_pct (policy re)"
    using assms(1) by (auto simp: validate_policy_def split: if_splits sum.splits)
  have 1: "re1 = re\<lparr>tracker := Some (fresh_tracker day (equity pf)), safety := BLOCK_NEW_ENTRIES\<rparr>"
    "m1 = BLOCK_NEW_ENTRIES"
    using assms(2,4) by (auto simp: evaluate_circuit_breakers_def update_equity_tracker_def
        set_safety_mode_def Let_def)
  with p assms(5) show ?thesis
    by (auto simp: evaluate_circuit_breakers_def update_equity_tracker_def set_safety_mode_def
        fresh_tracker_def update_equity_def drawdown_pct_def daily_loss_pct_def daily_pnl_def Let_def)
qed

theorem emergency_stop_is_cleared_witness:
  "snd (evaluate_circuit_breakers ''d'' (fst (evaluate_circuit_breakers ''d''
     (risk_demo_engine EMERGENCY_STOP) risk_demo_portfolio None False None False))
     risk_demo_portfolio None True None False) = NORMAL"
proof -
  obtain re1 m1 where 1: "evaluate_circuit_breakers ''d'' (risk_demo_engine EMERGENCY_STOP)
      risk_demo_portfolio None False None False = (re1, m1)" by (metis surj_pair)
  obtain re2 m2 where 2: "evaluate_circuit_breakers ''d'' re1 risk_demo_portfolio None True None False =
      (re2, m2)" by (metis surj_pair)
  have "validate_policy (policy (risk_demo_engine EMERGENCY_STOP)) = Inr ()"
    by (simp add: risk_demo_engine_def validate_policy_def default_policy_def)
  from emergency_stop_is_cleared [OF this _ _ 1 2] 1 2 show ?thesis
    by (simp add: risk_demo_engine_def)
qed

text \<open>The exposure breakdown is consistent: the gross exposure equals the sum of the symbol map,
  of the exchange map and of the asset map, and bounds the net exposure in absolute value.\<close>

theorem exposure_maps_sum_to_gross:
  "dict_total (by_symbol (compute_exposure ps)) = gross (compute_exposure ps) \<and>
   dict_total (by_exchange (compute_exposure ps)) = gross (compute_exposure ps) \<and>
   dict_total (by_asset (compute_exposure ps)) = gross (compute_exposure ps) \<and>
   \<bar>net (compute_exposure ps)\<bar> \<le> gross (compute_exposure ps)"
  unfolding compute_exposure_def by (rule foldl_add_exposure) (simp_all add: empty_exposure_def)

text \<open>C8: A reconciliation without an age limit matches exactly when every account agrees with the
  exchange within the tolerance: on the total of every asset and, where the exchange reports
  positions, on the quantity of every symbol, on whichever side it is missing.\<close>

theorem reconcile_matches_iff_within_tolerance:
  assumes "0 \<le> tol"
  shows "matched (reconcile shw loc balances exch_positions tol None now) \<longleftrightarrow>
    (\<forall>(a, bals) \<in> set balances.
       (\<forall>k. \<bar>local_total loc a k - exchange_total a bals k\<bar> \<le> tol) \<and>
       (\<forall>ps. map_of exch_positions a = Some ps \<longrightarrow>
          (\<forall>k. \<bar>position_quantity (positions loc) a k - position_quantity ps a k\<bar> \<le> tol)))"
proof -
  have "account_issues loc exch_positions tol (a, bals) = [] \<longleftrightarrow>
      (\<forall>k. \<bar>local_total loc a k - exchange_total a bals k\<bar> \<le> tol) \<and>
      (\<forall>ps. map_of exch_positions a = Some ps \<longrightarrow>
         (\<forall>k. \<bar>position_quantity (positions loc) a k - position_quantity ps a k\<bar> \<le> tol))" for a bals
    using assms(1)
    by (auto simp: account_issues_def reconcile_balances_empty reconcile_positions_empty
        split: option.splits)
  then show ?thesis by (auto simp: reconcile_def stale_issues_def Let_def)
qed

text \<open>An account whose only holding at the exchange is unknown locally does not match.\<close>

definition recon_demo_account :: account_key where
  "recon_demo_account = \<lparr>exchange_id = ''binance'', account_id = ''main''\<rparr>"

definition recon_demo_balances :: "(account_key, asset_balance list) dict" where
  "recon_demo_balances = [(recon_demo_account,
     [\<lparr>ab_asset = ''BTC'', ab_free = Some 1, ab_used = Some 0, ab_total = Some 1\<rparr>])]"

lemma recon_demo_totals:
  "exchange_total recon_demo_account (snd (hd recon_demo_balances)) ''BTC'' = 1"
  "local_total risk_demo_portfolio recon_demo_account ''BTC'' = 0"
  by code_simp+

theorem reconcile_matches_iff_within_tolerance_witness:
  "\<not> matched (reconcile (\<lambda>_. ''n'') risk_demo_portfolio recon_demo_balances [] (1 / 100) None 0)"
proof -
  have "\<not> \<bar>local_total risk_demo_portfolio recon_demo_account ''BTC'' -
      exchange_total recon_demo_account (snd (hd recon_demo_balances)) ''BTC''\<bar> \<le> 1 / 100"
    unfolding recon_demo_totals by simp
  moreover have "recon_demo_balances = [(recon_demo_account, snd (hd recon_demo_balances))]"
    by (simp add: recon_demo_balances_def)
  ultimately show ?thesis
    using reconcile_matches_iff_within_tolerance [of "1 / 100" "\<lambda>_. ''n''" risk_demo_portfolio
        recon_demo_balances "[]" 0]
    by (metis (no_types, lifting) case_prodD list.set_intros(1) zero_le_divide_1_iff zero_le_numeral)
qed

end
