(* ===== verification/LiveGate.thy ===== *)
theory LiveGate
  imports ExecEngine
begin

text \<open>
  The live gate of \<^verbatim>\<open>src/src/crypto/control/live_gate.py\<close>: classification of failure
  reasons, the linear backoff and \<open>LiveGateController\<close>. One operation reads the clock as one
  instant. The environment authorization, the result of the preflight and the effect of the mode
  callback on the adapter are parameters; the blocking sleep is left out. In the notification texts
  the dash of the source is written with a minus sign.
\<close>

section \<open>Model\<close>

datatype live_gate_state = IDLE | LIVE_ENABLED | RECOVERING_G | HARD_STOP

datatype failure_class = NO_FAILURE | SOFT | HARD

definition SOFT_REASON_PREFIXES :: "string list" where
  "SOFT_REASON_PREFIXES =
     [''connect_failed'', ''clock_or_health_not_ok'', ''markets_not_loaded'',
      ''permission_probe_failed'', ''network'', ''timeout'', ''rate_limit'',
      ''exchange_unavailable'', ''degraded'', ''5xx'', ''temporary'']"

definition HARD_REASON_PREFIXES :: "string list" where
  "HARD_REASON_PREFIXES =
     [''NVRA_REAL_TRADING_ENABLE_not_set'', ''real_trading_confirmation_missing'',
      ''real_mode_disabled_by_policy'', ''withdrawal_permission_granted'', ''not_authenticated'',
      ''trading_permission_not_granted'', ''demo_or_sandbox_blocks_production_orders'',
      ''auth_failed'', ''invalid_api'', ''emergency_stop'', ''env_authorization_missing'']"

record live_gate_config =
  base_backoff_minutes :: int
  max_backoff_minutes :: int
  continue_at_cap :: bool
  hard_stop_remind_minutes :: int

definition default_gate_config :: live_gate_config where
  "default_gate_config = \<lparr>base_backoff_minutes = 1, max_backoff_minutes = 60,
     continue_at_cap = True, hard_stop_remind_minutes = 30\<rparr>"

text \<open>The environment variables are read with \<open>os.getenv\<close>; \<open>None\<close> is an unset variable.\<close>

definition env_authorized :: "string option \<Rightarrow> string option \<Rightarrow> bool" where
  "env_authorized enable confirm \<longleftrightarrow>
     py_lower (opt_get enable ''0'') \<in> {''1'', ''true'', ''yes''} \<and>
     opt_get confirm [] = ''I_UNDERSTAND_REAL_TRADING''"

definition classify_reasons :: "string list \<Rightarrow> failure_class" where
  "classify_reasons rs =
     (if rs = [] then NO_FAILURE
      else if \<exists>h \<in> set HARD_REASON_PREFIXES. \<exists>r \<in> set rs. py_in (py_lower h) (py_lower r) then HARD
      else if \<exists>s \<in> set SOFT_REASON_PREFIXES. \<exists>r \<in> set rs. py_in (py_lower s) (py_lower r) then SOFT
      else SOFT)"

definition linear_backoff_seconds :: "int \<Rightarrow> int \<Rightarrow> int \<Rightarrow> flt" where
  "linear_backoff_seconds attempt base_minutes max_minutes =
     (let n = max 1 attempt;
          minutes = min max_minutes (base_minutes * n)
      in of_int (minutes * 60))"

record live_gate =
  lg_adapter :: adapter
  lg_cfg :: live_gate_config
  lg_state :: live_gate_state
  lg_attempt :: int
  lg_next_retry :: "flt option"
  lg_last_reasons :: "string list"
  lg_last_remind :: "flt option"
  lg_message :: string
  lg_mode :: execution_mode
  lg_notes :: "(string \<times> string) list"

text \<open>
  What one operation reads: the clock, the authorization, the preflight (\<open>Inl\<close>: the class of the
  exception it raised) and what the mode callback does to the adapter (the identity when there is no
  callback).
\<close>

record gate_env =
  ge_now :: flt
  ge_env :: bool
  ge_preflight :: "string + (bool \<times> string list)"
  ge_mode_fn :: "execution_mode \<Rightarrow> adapter \<Rightarrow> adapter"

record live_gate_snapshot =
  sn_state :: live_gate_state
  sn_live_enabled :: bool
  sn_mode :: execution_mode
  sn_class :: failure_class
  sn_attempt :: int
  sn_next_retry_in :: "flt option"
  sn_reasons :: "string list"
  sn_message :: string

definition new_live_gate :: "adapter \<Rightarrow> live_gate_config \<Rightarrow> live_gate" where
  "new_live_gate ad cfg = \<lparr>lg_adapter = ad, lg_cfg = cfg, lg_state = IDLE, lg_attempt = 0,
     lg_next_retry = None, lg_last_reasons = [], lg_last_remind = None, lg_message = [],
     lg_mode = PAPER, lg_notes = []\<rparr>"

definition gate_snapshot :: "gate_env \<Rightarrow> live_gate \<Rightarrow> live_gate_snapshot" where
  "gate_snapshot e g = \<lparr>sn_state = lg_state g, sn_live_enabled = trading_enabled (lg_adapter g),
     sn_mode = lg_mode g,
     sn_class = (if lg_state g = HARD_STOP then HARD
                 else if lg_state g = RECOVERING_G then SOFT else NO_FAILURE),
     sn_attempt = lg_attempt g,
     sn_next_retry_in = map_option (\<lambda>t. max 0 (t - ge_now e)) (lg_next_retry g),
     sn_reasons = lg_last_reasons g, sn_message = lg_message g\<rparr>"

definition gate_notify :: "live_gate \<Rightarrow> string \<Rightarrow> string \<Rightarrow> live_gate" where
  "gate_notify g level msg = g\<lparr>lg_notes := lg_notes g @ [(level, msg)]\<rparr>"

text \<open>\<open>', '.join(xs) or dflt\<close>.\<close>

definition join_or :: "string list \<Rightarrow> string \<Rightarrow> string" where
  "join_or xs dflt = (let s = join '', '' xs in if s = [] then dflt else s)"

definition promote_live :: "gate_env \<Rightarrow> live_gate \<Rightarrow> live_gate" where
  "promote_live e g = g\<lparr>lg_mode := LIVE, lg_adapter := ge_mode_fn e LIVE (lg_adapter g)\<rparr>"

definition demote_paper :: "gate_env \<Rightarrow> live_gate \<Rightarrow> live_gate" where
  "demote_paper e g =
     (let ad = (if trading_enabled (lg_adapter g)
                then (case enable_trading (lg_adapter g) False of
                        Inl _ \<Rightarrow> lg_adapter g
                      | Inr ad \<Rightarrow> ad)
                else lg_adapter g)
      in g\<lparr>lg_mode := PAPER, lg_adapter := ge_mode_fn e PAPER ad\<rparr>)"

definition on_hard :: "gate_env \<Rightarrow> live_gate \<Rightarrow> string list \<Rightarrow> live_gate" where
  "on_hard e g reasons =
     gate_notify ((demote_paper e g)\<lparr>lg_state := HARD_STOP, lg_next_retry := None,
         lg_message := ''hard_stop'', lg_last_reasons := reasons,
         lg_last_remind := Some (ge_now e)\<rparr>)
       ''critical''
       (''NVRA live HARD_STOP - human required: '' @ join_or reasons ''unknown'' @ ''; mode=PAPER'')"

definition on_soft :: "gate_env \<Rightarrow> live_gate \<Rightarrow> string list \<Rightarrow> live_gate" where
  "on_soft e g reasons =
     (let g = demote_paper e g;
          g = g\<lparr>lg_attempt := max 1 (lg_attempt g + 1)\<rparr>;
          delay = linear_backoff_seconds (lg_attempt g) (base_backoff_minutes (lg_cfg g))
                    (max_backoff_minutes (lg_cfg g))
      in if \<not> continue_at_cap (lg_cfg g) \<and>
            lg_attempt g * base_backoff_minutes (lg_cfg g) > max_backoff_minutes (lg_cfg g)
         then on_hard e g (reasons @ [''recovery_cap_exceeded''])
         else gate_notify (g\<lparr>lg_state := RECOVERING_G, lg_next_retry := Some (ge_now e + delay),
                lg_message := ''soft_fail attempt='' @ show_int (lg_attempt g) @ '' retry_in='' @
                  show_int (py_trunc delay) @ ''s''\<rparr>)
                ''warn''
                (''NVRA live disabled (soft): '' @ join_or reasons ''unknown'' @ ''; retry in '' @
                 show_int \<lfloor>delay / 60\<rfloor> @ ''m (attempt '' @ show_int (lg_attempt g) @ ''); mode=PAPER''))"

definition on_success :: "gate_env \<Rightarrow> live_gate \<Rightarrow> live_gate" where
  "on_success e g =
     (let was_recovering = (lg_state g = RECOVERING_G)
      in case (if trading_enabled (lg_adapter g) then Inr (lg_adapter g)
               else enable_trading (lg_adapter g) True) of
           Inl x \<Rightarrow>
             if exn_class x = ''PermissionError''
             then on_hard e g [exn_text x, ''real_trading_confirmation_missing'']
             else on_soft e g [''connect_failed:'' @ exn_class x]
         | Inr ad \<Rightarrow>
             gate_notify ((promote_live e (g\<lparr>lg_adapter := ad\<rparr>))
                 \<lparr>lg_state := LIVE_ENABLED, lg_attempt := 0, lg_next_retry := None,
                  lg_message := ''live_enabled''\<rparr>)
               ''info''
               (if was_recovering then ''NVRA live recovered - trading re-enabled; mode=LIVE''
                else ''NVRA live enabled - checklist passed; mode=LIVE''))"

definition run_preflight :: "gate_env \<Rightarrow> bool \<times> string list" where
  "run_preflight e = (case ge_preflight e of
     Inl cls \<Rightarrow> (False, [''connect_failed:'' @ cls]) | Inr r \<Rightarrow> r)"

definition maybe_hard_remind :: "gate_env \<Rightarrow> live_gate \<Rightarrow> live_gate" where
  "maybe_hard_remind e g =
     (let mins = hard_stop_remind_minutes (lg_cfg g)
      in if mins \<le> 0 then g
         else if ge_now e - opt_get (lg_last_remind g) 0 \<ge> of_int (mins * 60)
         then gate_notify (g\<lparr>lg_last_remind := Some (ge_now e)\<rparr>) ''critical''
                (''NVRA live still HARD_STOP: '' @ join_or (lg_last_reasons g) (lg_message g))
         else g)"

definition gate_evaluate :: "gate_env \<Rightarrow> live_gate \<Rightarrow> live_gate" where
  "gate_evaluate e g =
     (if lg_state g = HARD_STOP then maybe_hard_remind e g
      else if \<not> ge_env e
      then on_hard e g [''env_authorization_missing'', ''NVRA_REAL_TRADING_ENABLE_not_set'',
             ''real_trading_confirmation_missing'']
      else
        (case run_preflight e of
           (allowed, reasons) \<Rightarrow>
             (let g = g\<lparr>lg_last_reasons := reasons\<rparr>
              in if allowed then on_success e g
                 else if classify_reasons reasons = HARD then on_hard e g reasons
                 else on_soft e g reasons)))"

definition gate_tick :: "gate_env \<Rightarrow> live_gate \<Rightarrow> live_gate" where
  "gate_tick e g =
     (if lg_state g = HARD_STOP then maybe_hard_remind e g
      else if lg_state g = RECOVERING_G
      then (case lg_next_retry g of
              Some t \<Rightarrow> if ge_now e < t then g else gate_evaluate e g
            | None \<Rightarrow> gate_evaluate e g)
      else gate_evaluate e g)"

definition force_hard_stop :: "gate_env \<Rightarrow> live_gate \<Rightarrow> string \<Rightarrow> live_gate" where
  "force_hard_stop e g why =
     gate_notify ((demote_paper e g)\<lparr>lg_state := HARD_STOP, lg_message := why,
         lg_last_reasons := [why]\<rparr>)
       ''critical'' (''NVRA live HARD_STOP: '' @ why)"

definition reset_hard_stop :: "gate_env \<Rightarrow> live_gate \<Rightarrow> live_gate" where
  "reset_hard_stop e g =
     (if lg_state g \<noteq> HARD_STOP then g
      else gate_evaluate e
             (gate_notify (g\<lparr>lg_state := IDLE, lg_attempt := 0, lg_next_retry := None,
                 lg_message := ''hard_stop_reset_by_operator''\<rparr>)
                ''info'' ''NVRA live hard-stop reset by operator; re-evaluating''))"

section \<open>Lemmas\<close>

text \<open>
  A mode callback is quiet when it never switches trading on. Without a callback, and with the
  engine's \<open>set_mode\<close> as the callback, it is.
\<close>

definition quiet :: "gate_env \<Rightarrow> bool" where
  "quiet e \<longleftrightarrow> (\<forall>m ad. \<not> trading_enabled ad \<longrightarrow> \<not> trading_enabled (ge_mode_fn e m ad))"

definition gate_ok :: "live_gate \<Rightarrow> bool" where
  "gate_ok g \<longleftrightarrow> (lg_mode g = LIVE \<longleftrightarrow> lg_state g = LIVE_ENABLED) \<and>
     (lg_state g \<noteq> LIVE_ENABLED \<longrightarrow> \<not> trading_enabled (lg_adapter g))"

lemma gate_notify_simps [simp]:
  "lg_state (gate_notify g l m) = lg_state g" "lg_mode (gate_notify g l m) = lg_mode g"
  "lg_adapter (gate_notify g l m) = lg_adapter g" "lg_attempt (gate_notify g l m) = lg_attempt g"
  "lg_next_retry (gate_notify g l m) = lg_next_retry g" "lg_cfg (gate_notify g l m) = lg_cfg g"
  "lg_last_remind (gate_notify g l m) = lg_last_remind g"
  by (simp_all add: gate_notify_def)

lemma demote_paper_off:
  "quiet e \<Longrightarrow> \<not> trading_enabled (lg_adapter (demote_paper e g)) \<and> lg_mode (demote_paper e g) = PAPER"
  by (simp add: demote_paper_def quiet_def enable_trading_def Let_def)

lemma demote_paper_mode [simp]: "lg_mode (demote_paper e g) = PAPER"
  by (simp add: demote_paper_def Let_def)

lemma on_hard_end [simp]:
  "lg_state (on_hard e g rs) = HARD_STOP" "lg_mode (on_hard e g rs) = PAPER"
  "quiet e \<Longrightarrow> \<not> trading_enabled (lg_adapter (on_hard e g rs))"
  by (simp_all add: on_hard_def demote_paper_off)

lemma on_soft_end [simp]:
  "lg_state (on_soft e g rs) \<noteq> LIVE_ENABLED" "lg_mode (on_soft e g rs) = PAPER"
  "quiet e \<Longrightarrow> \<not> trading_enabled (lg_adapter (on_soft e g rs))"
  by (simp_all add: on_soft_def Let_def demote_paper_off)

lemma gate_ok_off:
  "lg_state g \<noteq> LIVE_ENABLED \<Longrightarrow> lg_mode g = PAPER \<Longrightarrow> \<not> trading_enabled (lg_adapter g) \<Longrightarrow> gate_ok g"
  by (simp add: gate_ok_def)

lemma on_success_ok: "quiet e \<Longrightarrow> gate_ok (on_success e g)"
  by (auto simp: on_success_def Let_def promote_live_def gate_ok_off split: sum.splits)
    (simp_all add: gate_ok_def)

lemma maybe_hard_remind_simps [simp]:
  "lg_state (maybe_hard_remind e g) = lg_state g" "lg_mode (maybe_hard_remind e g) = lg_mode g"
  "lg_adapter (maybe_hard_remind e g) = lg_adapter g"
  by (simp_all add: maybe_hard_remind_def Let_def)

lemma gate_ok_remind [simp]: "gate_ok (maybe_hard_remind e g) = gate_ok g"
  by (simp add: gate_ok_def)

lemma gate_evaluate_ok: "quiet e \<Longrightarrow> gate_ok g \<Longrightarrow> gate_ok (gate_evaluate e g)"
  by (auto simp: gate_evaluate_def Let_def gate_ok_off on_success_ok split: prod.splits)

lemma gate_tick_ok: "quiet e \<Longrightarrow> gate_ok g \<Longrightarrow> gate_ok (gate_tick e g)"
  by (auto simp: gate_tick_def gate_evaluate_ok split: option.splits)

lemma force_hard_stop_ok: "quiet e \<Longrightarrow> gate_ok (force_hard_stop e g why)"
  by (simp add: force_hard_stop_def gate_ok_def demote_paper_off)

lemma reset_hard_stop_ok: "quiet e \<Longrightarrow> gate_ok g \<Longrightarrow> gate_ok (reset_hard_stop e g)"
  by (auto simp: reset_hard_stop_def gate_ok_def [of "gate_notify _ _ _"]
      gate_ok_def [of g] intro!: gate_evaluate_ok)

text \<open>How an evaluation ends.\<close>

lemma gate_evaluate_live:
  assumes "lg_state (gate_evaluate e g) = LIVE_ENABLED"
  shows "ge_env e \<and> fst (run_preflight e) \<and> lg_state g \<noteq> HARD_STOP"
proof (rule ccontr)
  assume "\<not> ?thesis"
  then have "lg_state (gate_evaluate e g) \<noteq> LIVE_ENABLED"
    by (cases "run_preflight e") (auto simp: gate_evaluate_def Let_def)
  with assms show False by simp
qed

lemma gate_tick_live:
  assumes "lg_state (gate_tick e g) = LIVE_ENABLED"
  shows "ge_env e \<and> fst (run_preflight e) \<and> lg_state g \<noteq> HARD_STOP"
  using assms gate_evaluate_live [of e g]
  by (auto simp: gate_tick_def split: if_splits option.splits)

section \<open>Runs of the gate\<close>

inductive gate_step :: "live_gate \<Rightarrow> live_gate \<Rightarrow> bool" where
  step_evaluate: "quiet e \<Longrightarrow> gate_step g (gate_evaluate e g)"
| step_tick: "quiet e \<Longrightarrow> gate_step g (gate_tick e g)"
| step_force: "quiet e \<Longrightarrow> gate_step g (force_hard_stop e g why)"
| step_reset: "quiet e \<Longrightarrow> gate_step g (reset_hard_stop e g)"

inductive_cases gate_stepE: "gate_step g g'"

lemma gate_step_ok: "gate_step g g' \<Longrightarrow> gate_ok g \<Longrightarrow> gate_ok g'"
  by (erule gate_stepE)
    (simp_all add: gate_evaluate_ok gate_tick_ok force_hard_stop_ok reset_hard_stop_ok)

lemma gate_run_ok: "gate_step\<^sup>*\<^sup>* g g' \<Longrightarrow> gate_ok g \<Longrightarrow> gate_ok g'"
  by (induction rule: rtranclp_induct) (auto dest: gate_step_ok)

section \<open>Properties\<close>

definition demo_adapter :: "bool \<Rightarrow> adapter" where
  "demo_adapter auth = \<lparr>trading_enabled = False, sandbox = False, authorized = auth\<rparr>"

definition demo_gate_env :: "bool \<Rightarrow> flt \<Rightarrow> string + (bool \<times> string list) \<Rightarrow> gate_env" where
  "demo_gate_env env now pre = \<lparr>ge_now = now, ge_env = env, ge_preflight = pre, ge_mode_fn = (\<lambda>_ ad. ad)\<rparr>"

lemma demo_quiet [simp]: "quiet (demo_gate_env env now pre)"
  by (simp add: quiet_def demo_gate_env_def)

definition demo_gate :: live_gate where
  "demo_gate = gate_evaluate (demo_gate_env True 0 (Inr (True, [])))
     (new_live_gate (demo_adapter True) default_gate_config)"

lemma demo_gate_live: "lg_state demo_gate = LIVE_ENABLED" "trading_enabled (lg_adapter demo_gate)"
  by code_simp+

text \<open>C9: Over any run of the gate's operations, starting from a fresh controller whose adapter is
  off, the execution mode is LIVE exactly in the state LIVE\_ENABLED, and in every other state the
  adapter's trading is off.\<close>

theorem live_gate_disables_outside_live:
  assumes "gate_step\<^sup>*\<^sup>* (new_live_gate ad cfg) g" and "\<not> trading_enabled ad"
  shows "(lg_mode g = LIVE) = (lg_state g = LIVE_ENABLED) \<and>
    (if lg_state g = LIVE_ENABLED then True else \<not> trading_enabled (lg_adapter g))"
proof -
  have "gate_ok (new_live_gate ad cfg)" using assms(2) by (simp add: gate_ok_def new_live_gate_def)
  from gate_run_ok [OF assms(1) this] show ?thesis by (auto simp: gate_ok_def)
qed

theorem live_gate_disables_outside_live_witness:
  "\<not> trading_enabled (lg_adapter (force_hard_stop (demo_gate_env True 1 (Inr (True, []))) demo_gate ''kill''))"
proof -
  let ?g = "force_hard_stop (demo_gate_env True 1 (Inr (True, []))) demo_gate ''kill''"
  have "gate_step\<^sup>*\<^sup>* (new_live_gate (demo_adapter True) default_gate_config) demo_gate"
    unfolding demo_gate_def by (rule r_into_rtranclp) (simp add: step_evaluate)
  moreover have "gate_step demo_gate ?g" by (simp add: step_force)
  ultimately have "gate_step\<^sup>*\<^sup>* (new_live_gate (demo_adapter True) default_gate_config) ?g"
    by (rule rtranclp.rtrancl_into_rtrancl)
  moreover have "\<not> trading_enabled (demo_adapter True)" by (simp add: demo_adapter_def)
  moreover have "lg_state ?g = HARD_STOP" by (simp add: force_hard_stop_def)
  ultimately show ?thesis using live_gate_disables_outside_live by force
qed

text \<open>Trading becomes live only when both the environment authorization is present and the
  preflight of that very evaluation allows it, and never out of a hard stop.\<close>

theorem live_needs_authorization_and_preflight:
  assumes "lg_state (gate_tick e g) = LIVE_ENABLED"
  shows "ge_env e \<and> (\<exists>rs. ge_preflight e = Inr (True, rs)) \<and> lg_state g \<noteq> HARD_STOP"
  using gate_tick_live [OF assms] by (auto simp: run_preflight_def split: sum.splits)

theorem live_needs_authorization_and_preflight_witness:
  "ge_env (demo_gate_env True 0 (Inr (True, []))) \<and> lg_state (new_live_gate (demo_adapter True) default_gate_config) \<noteq> HARD_STOP"
proof -
  have "lg_state (gate_tick (demo_gate_env True 0 (Inr (True, [])))
      (new_live_gate (demo_adapter True) default_gate_config)) = LIVE_ENABLED"
    using demo_gate_live(1) by (simp add: gate_tick_def demo_gate_def new_live_gate_def)
  from live_needs_authorization_and_preflight [OF this] show ?thesis by blast
qed

end
