(* ===== verification/Recovery.thy ===== *)
theory Recovery
  imports Prelude
begin

text \<open>
  The recovery package of \<^verbatim>\<open>src/src/crypto/recovery\<close>: events, the exponential backoff,
  the storm circuit breaker, component health, safe mode, the verification of UNKNOWN orders, the
  startup sequence and the \<open>Supervisor\<close>. One operation reads the monotonic clock as one instant
  \<open>now\<close> and the wall clock as \<open>wall\<close>; the random number of the jitter is the parameter
  \<open>rnd\<close>. Arrows in the texts of the source are written with \<open>->\<close>.
\<close>

section \<open>Configuration and events\<close>

record heartbeat_config =
  interval_seconds :: flt
  miss_tolerance :: int
  progress_timeout_seconds :: flt

record recovery_config =
  rc_critical :: heartbeat_config
  rc_normal :: heartbeat_config
  rc_background :: heartbeat_config
  diagnostic_grace_seconds :: flt
  level_base_seconds :: "int \<Rightarrow> flt"
  level_max_attempts :: "int \<Rightarrow> int"
  storm_max_events :: int
  storm_window_seconds :: flt
  unknown_verify_schedule :: "flt list"
  startup_min_interval_seconds :: flt

text \<open>The five levels of backoff bases and attempts, with the defaults of the two dictionaries.\<close>

definition default_recovery_config :: recovery_config where
  "default_recovery_config =
     \<lparr>rc_critical = \<lparr>interval_seconds = 2, miss_tolerance = 2, progress_timeout_seconds = 10\<rparr>,
      rc_normal = \<lparr>interval_seconds = 5, miss_tolerance = 3, progress_timeout_seconds = 30\<rparr>,
      rc_background = \<lparr>interval_seconds = 10, miss_tolerance = 3, progress_timeout_seconds = 60\<rparr>,
      diagnostic_grace_seconds = 2,
      level_base_seconds = (\<lambda>l. if l = 1 then 5 else if l = 2 then 12 else if l = 3 then 30
                                else if l = 4 then 60 else if l = 5 then 120 else 5),
      level_max_attempts = (\<lambda>l. if l = 1 then 3 else if l = 2 then 3 else if l = 3 then 2
                                else if l = 4 then 2 else 1),
      storm_max_events = 5, storm_window_seconds = 300,
      unknown_verify_schedule = [0, 2, 5, 10, 20, 30], startup_min_interval_seconds = 1 / 4\<rparr>"

datatype config_error = ConfigError string

definition validate_recovery_config :: "recovery_config \<Rightarrow> config_error + unit" where
  "validate_recovery_config c =
     (if diagnostic_grace_seconds c < 0
      then Inl (ConfigError ''diagnostic_grace_seconds must be >= 0'')
      else if storm_max_events c < 1 then Inl (ConfigError ''storm_max_events must be >= 1'')
      else Inr ())"

record recovery_event =
  ev_timestamp_ms :: int
  ev_event :: string
  ev_component :: string
  ev_detail :: string
  ev_level :: int

definition event_tokens :: "string list" where
  "event_tokens = [''api_key'', ''api_secret'', ''password'', ''token'', ''private_key'']"

definition make_event :: "int \<Rightarrow> string \<Rightarrow> string \<Rightarrow> string \<Rightarrow> int \<Rightarrow> recovery_event" where
  "make_event wall ev cid detail level =
     \<lparr>ev_timestamp_ms = wall, ev_event = ev, ev_component = cid,
      ev_detail = redact event_tokens detail, ev_level = level\<rparr>"

definition event_to_dict :: "recovery_event \<Rightarrow> pydict" where
  "event_to_dict ev =
     [(''timestamp_ms'', PyNum (of_int (ev_timestamp_ms ev))), (''event'', PyStr (ev_event ev)),
      (''component_id'', PyStr (ev_component ev)), (''detail'', PyStr (take 500 (ev_detail ev))),
      (''level'', PyNum (of_int (ev_level ev)))]"

section \<open>Backoff\<close>

text \<open>\<open>rnd\<close> is the result of \<open>Random.random()\<close>, in [0, 1).\<close>

definition backoff_seconds :: "flt \<Rightarrow> int \<Rightarrow> flt \<Rightarrow> flt \<Rightarrow> flt \<Rightarrow> flt" where
  "backoff_seconds base attempt max_seconds jitter_ratio rnd =
     (let ex = min max_seconds (base * 2 ^ nat (max 0 attempt));
          jitter = ex * jitter_ratio * (rnd * 2 - 1)
      in max 0 (min max_seconds (ex + jitter)))"

section \<open>Circuit breaker\<close>

record breaker =
  cb_max :: int
  cb_window :: flt
  cb_events :: "flt list"
  cb_open :: bool

definition new_breaker :: "int \<Rightarrow> flt \<Rightarrow> breaker" where
  "new_breaker m w = \<lparr>cb_max = m, cb_window = w, cb_events = [], cb_open = False\<rparr>"

definition cb_prune :: "flt \<Rightarrow> flt \<Rightarrow> flt list \<Rightarrow> flt list" where
  "cb_prune window now evs = dropWhile (\<lambda>t. now - t > window) evs"

definition cb_record :: "breaker \<Rightarrow> flt \<Rightarrow> breaker \<times> bool" where
  "cb_record b now =
     (let evs = cb_prune (cb_window b) now (cb_events b @ [now]);
          b = b\<lparr>cb_events := evs\<rparr>
      in if int (length evs) \<ge> cb_max b then (b\<lparr>cb_open := True\<rparr>, True) else (b, False))"

definition cb_reset :: "breaker \<Rightarrow> breaker" where
  "cb_reset b = b\<lparr>cb_events := [], cb_open := False\<rparr>"

section \<open>Component health\<close>

datatype component_class = CRITICAL_C | NORMAL_C | BACKGROUND_C

datatype health_state = HEALTHY | DEGRADED_H | SUSPECT | UNRESPONSIVE | RECOVERING_H | FAILED_H | SAFE_MODE_H

record component_health =
  ch_id :: string
  ch_class :: component_class
  ch_health :: health_state
  last_heartbeat_mono :: flt
  last_progress_mono :: flt
  current_operation :: string
  operation_start_mono :: "flt option"
  heartbeat_misses :: int
  progress_misses :: int
  recovery_level :: int
  recovery_attempts :: int
  ch_last_error :: string

definition beat :: "component_health \<Rightarrow> flt \<Rightarrow> string option \<Rightarrow> component_health" where
  "beat h now op =
     (let h = h\<lparr>last_heartbeat_mono := now, heartbeat_misses := 0\<rparr>
      in case op of None \<Rightarrow> h | Some x \<Rightarrow> h\<lparr>current_operation := x\<rparr>)"

definition health_progress :: "component_health \<Rightarrow> flt \<Rightarrow> string \<Rightarrow> component_health" where
  "health_progress h now op =
     (let h = h\<lparr>last_progress_mono := now, progress_misses := 0\<rparr>;
          h = (if op \<noteq> [] then h\<lparr>current_operation := op, operation_start_mono := Some now\<rparr> else h)
      in beat h now None)"

definition mark_operation :: "component_health \<Rightarrow> flt \<Rightarrow> string \<Rightarrow> component_health" where
  "mark_operation h now op =
     beat (h\<lparr>current_operation := op, operation_start_mono := Some now\<rparr>) now None"

section \<open>Safe mode\<close>

record safe_mode =
  sm_active :: bool
  sm_reason :: string
  sm_entered_at :: "flt option"
  sm_events :: "recovery_event list"

definition new_safe_mode :: safe_mode where
  "new_safe_mode = \<lparr>sm_active = False, sm_reason = [], sm_entered_at = None, sm_events = []\<rparr>"

definition sm_enter :: "int \<Rightarrow> safe_mode \<Rightarrow> string \<Rightarrow> flt \<Rightarrow> safe_mode" where
  "sm_enter wall s why now =
     (if sm_active s then s
      else s\<lparr>sm_active := True, sm_reason := why, sm_entered_at := Some now,
             sm_events := sm_events s @ [make_event wall ''SAFE_MODE_ENTERED'' ''supervisor'' why 0]\<rparr>)"

record exit_gates =
  components_healthy :: bool
  exchange_ok :: bool
  gate_reconciliation_ok :: bool
  execution_consistent :: bool
  market_data_fresh :: bool
  no_unresolved_critical :: bool

definition all_gates :: "exit_gates \<Rightarrow> bool" where
  "all_gates x \<longleftrightarrow> components_healthy x \<and> exchange_ok x \<and> gate_reconciliation_ok x \<and>
     execution_consistent x \<and> market_data_fresh x \<and> no_unresolved_critical x"

definition sm_try_exit :: "int \<Rightarrow> safe_mode \<Rightarrow> exit_gates \<Rightarrow> safe_mode \<times> bool" where
  "sm_try_exit wall s x =
     (if \<not> sm_active s then (s, True)
      else if \<not> all_gates x then (s, False)
      else (s\<lparr>sm_active := False, sm_reason := [],
              sm_events := sm_events s @
                [make_event wall ''SAFE_MODE_EXITED'' ''supervisor'' ''all gates passed'' 0]\<rparr>, True))"

definition sm_blocks_new_entries :: "safe_mode \<Rightarrow> bool" where
  "sm_blocks_new_entries s = sm_active s"

definition sm_blocks_ml_scanner :: "safe_mode \<Rightarrow> bool" where
  "sm_blocks_ml_scanner s = sm_active s"

definition sm_blocks_unknown_resubmit :: "safe_mode \<Rightarrow> bool" where
  "sm_blocks_unknown_resubmit s = True"

section \<open>UNKNOWN orders\<close>

datatype unknown_resolution =
    PENDING | FOUND_FILLED | FOUND_OPEN | FOUND_CANCELLED | FOUND_REJECTED | FOUND_FAILED | UNRESOLVED

fun resolution_name :: "unknown_resolution \<Rightarrow> string" where
  "resolution_name PENDING = ''PENDING''"
| "resolution_name FOUND_FILLED = ''FOUND_FILLED''"
| "resolution_name FOUND_OPEN = ''FOUND_OPEN''"
| "resolution_name FOUND_CANCELLED = ''FOUND_CANCELLED''"
| "resolution_name FOUND_REJECTED = ''FOUND_REJECTED''"
| "resolution_name FOUND_FAILED = ''FOUND_FAILED''"
| "resolution_name UNRESOLVED = ''UNRESOLVED''"

record unknown_tracker =
  ut_execution_id :: string
  ut_client_order_id :: string
  ut_started :: flt
  ut_attempts :: nat
  ut_resolution :: unknown_resolution
  ut_detail :: string
  ut_events :: "recovery_event list"

type_synonym resolver = "(string, unknown_tracker) dict"

definition ut_log :: "int \<Rightarrow> unknown_tracker \<Rightarrow> string \<Rightarrow> string \<Rightarrow> unknown_tracker" where
  "ut_log wall t ev detail =
     t\<lparr>ut_events := ut_events t @ [make_event wall ev (ut_execution_id t) detail 0]\<rparr>"

definition track_unknown ::
    "int \<Rightarrow> resolver \<Rightarrow> string \<Rightarrow> string \<Rightarrow> flt \<Rightarrow> unknown_tracker \<times> resolver" where
  "track_unknown wall ts eid coid now =
     (let t = ut_log wall \<lparr>ut_execution_id = eid, ut_client_order_id = coid, ut_started = now,
                ut_attempts = 0, ut_resolution = PENDING, ut_detail = [], ut_events = []\<rparr>
                ''UNKNOWN_ORDER'' (''client='' @ coid)
      in (t, AList.update eid t ts))"

definition should_query :: "flt list \<Rightarrow> resolver \<Rightarrow> string \<Rightarrow> flt \<Rightarrow> bool" where
  "should_query schedule ts eid now =
     (case map_of ts eid of
        None \<Rightarrow> False
      | Some t \<Rightarrow>
          if ut_resolution t \<noteq> PENDING then False
          else if ut_attempts t \<ge> length schedule then False
          else now - ut_started t \<ge> schedule ! ut_attempts t)"

definition status_resolution :: "string \<Rightarrow> unknown_resolution option" where
  "status_resolution s =
     map_of [(''filled'', FOUND_FILLED), (''closed'', FOUND_FILLED), (''open'', FOUND_OPEN),
             (''new'', FOUND_OPEN), (''live'', FOUND_OPEN), (''canceled'', FOUND_CANCELLED),
             (''cancelled'', FOUND_CANCELLED), (''rejected'', FOUND_REJECTED),
             (''failed'', FOUND_FAILED), (''expired'', FOUND_CANCELLED)] s"

definition maybe_unresolved ::
    "int \<Rightarrow> flt list \<Rightarrow> unknown_tracker \<Rightarrow> unknown_tracker \<times> unknown_resolution" where
  "maybe_unresolved wall schedule t =
     (if ut_attempts t \<ge> length schedule
      then (ut_log wall (t\<lparr>ut_resolution := UNRESOLVED\<rparr>) ''UNKNOWN_ORDER_UNRESOLVED''
              ''verification window exhausted'', UNRESOLVED)
      else (t, PENDING))"

text \<open>
  The answer of the query function: \<open>Inl\<close> the class of the exception it raised, or the status
  (\<open>None\<close>: not found).
\<close>

definition verify_once ::
    "int \<Rightarrow> flt list \<Rightarrow> unknown_tracker \<Rightarrow> string + string option \<Rightarrow>
     unknown_tracker \<times> unknown_resolution" where
  "verify_once wall schedule t answer =
     (let t = t\<lparr>ut_attempts := Suc (ut_attempts t)\<rparr>;
          t = ut_log wall t ''UNKNOWN_ORDER_RETRY'' (''attempt='' @ show_nat (ut_attempts t))
      in case answer of
           Inl cls \<Rightarrow> maybe_unresolved wall schedule (t\<lparr>ut_detail := cls\<rparr>)
         | Inr None \<Rightarrow> maybe_unresolved wall schedule t
         | Inr (Some status) \<Rightarrow>
             (case status_resolution (py_lower status) of
                None \<Rightarrow> maybe_unresolved wall schedule t
              | Some r \<Rightarrow>
                  (ut_log wall (t\<lparr>ut_resolution := r\<rparr>) ''UNKNOWN_ORDER_RESOLVED''
                     (''resolution='' @ resolution_name r), r)))"

definition query_once ::
    "int \<Rightarrow> (flt \<Rightarrow> string) \<Rightarrow> flt list \<Rightarrow> resolver \<Rightarrow> string \<Rightarrow> (string \<Rightarrow> string + string option) \<Rightarrow>
     flt \<Rightarrow> flt option \<Rightarrow> resolver \<times> unknown_resolution" where
  "query_once wall shw schedule ts eid query now retry_after =
     (case map_of ts eid of
        None \<Rightarrow> (ts, UNRESOLVED)
      | Some t \<Rightarrow>
          if ut_resolution t \<noteq> PENDING then (ts, ut_resolution t)
          else if retry_after \<noteq> None \<and> opt_get retry_after 0 > 0
          then (let d = ''retry_after='' @ shw (opt_get retry_after 0)
                in (AList.update eid (ut_log wall (t\<lparr>ut_detail := d\<rparr>) ''UNKNOWN_ORDER_RETRY'' d) ts,
                    PENDING))
          else if \<not> should_query schedule ts eid now then (ts, PENDING)
          else (case verify_once wall schedule t (query eid) of
                  (t', r) \<Rightarrow> (AList.update eid t' ts, r)))"

definition blocks_duplicate :: "resolver \<Rightarrow> string \<Rightarrow> bool" where
  "blocks_duplicate ts coid \<longleftrightarrow>
     (\<exists>t \<in> snd ` set ts. ut_client_order_id t = coid \<and>
        ut_resolution t \<in> {PENDING, UNRESOLVED, FOUND_OPEN})"

end
