(* ===== verification/Supervisor.thy ===== *)
theory Supervisor
  imports Recovery
begin

text \<open>
  The startup sequence (\<^verbatim>\<open>startup.py\<close>) and the watchdog (\<^verbatim>\<open>supervisor.py\<close>) of
  \<^verbatim>\<open>src/src/crypto/recovery\<close>. \<open>fmt\<close> renders a number with one decimal.
\<close>

section \<open>Startup\<close>

datatype startup_phase =
    LOAD_STATE | VALIDATE_DB | START_SUPERVISOR | CONNECT_EXCHANGE | HEALTH_CHECK | FETCH_BALANCES
  | FETCH_OPEN_ORDERS | FETCH_TRADES | RECONCILE_EXECUTIONS | RECONCILE_PORTFOLIO
  | VALIDATE_MARKET_DATA | RISK_EVAL | READY | PARTIAL_PHASE | SAFE_MODE_PHASE | FAILED_PHASE

datatype task_priority = P0 | P1 | P2 | P3 | P4

fun priority_value :: "task_priority \<Rightarrow> nat" where
  "priority_value P0 = 0"
| "priority_value P1 = 1"
| "priority_value P2 = 2"
| "priority_value P3 = 3"
| "priority_value P4 = 4"

text \<open>
  A task is run at most twice; the outcome of each run is \<open>Inr ok\<close> or the class and the text of
  the exception it raised.
\<close>

record startup_task =
  st_name :: string
  st_priority :: task_priority
  st_first :: "(string \<times> string) + bool"
  st_second :: "(string \<times> string) + bool"
  st_done :: bool
  st_ok :: bool
  st_error :: string

record startup_result =
  sr_phase :: startup_phase
  sr_tasks :: "startup_task list"
  sr_events :: "recovery_event list"
  trading_allowed :: bool
  sr_partial :: bool

definition safe_to_trade :: "startup_result \<Rightarrow> bool" where
  "safe_to_trade r \<longleftrightarrow> trading_allowed r \<and> \<not> sr_partial r \<and> sr_phase r = READY"

text \<open>One task: the retry is only for a rate limit.\<close>

definition run_task :: "int \<Rightarrow> startup_task \<Rightarrow> startup_task \<times> recovery_event list" where
  "run_task wall t =
     (case st_first t of
        Inr ok \<Rightarrow> (t\<lparr>st_done := True, st_ok := ok\<rparr>, [])
      | Inl (cls, msg) \<Rightarrow>
          (let t = t\<lparr>st_done := True, st_ok := False, st_error := cls\<rparr>
           in if py_in ''429'' msg \<or> py_in ''rate'' (py_lower msg)
              then (case st_second t of
                      Inr ok \<Rightarrow> t\<lparr>st_ok := ok\<rparr>
                    | Inl (cls2, _) \<Rightarrow> t\<lparr>st_ok := False, st_error := cls2\<rparr>,
                    [make_event wall ''RECOVERY_RETRY'' ''startup'' (''rate_limit '' @ st_name t) 0])
              else (t, [])))"

definition priority_ok :: "task_priority \<Rightarrow> startup_task list \<Rightarrow> bool" where
  "priority_ok p ts \<longleftrightarrow> (\<forall>t \<in> set ts. st_priority t = p \<longrightarrow> st_ok t)"

definition startup_run ::
    "int \<Rightarrow> recovery_event list \<Rightarrow> startup_task list \<Rightarrow> startup_result" where
  "startup_run wall events tasks =
     (let runs = map (run_task wall) (sort_key (\<lambda>t. priority_value (st_priority t)) tasks);
          ordered = map fst runs;
          evs = events @ [make_event wall ''RECONCILIATION_STARTED'' ''startup'' ''begin'' 0] @
                concat (map snd runs);
          p0_ok = priority_ok P0 ordered;
          p1_ok = priority_ok P1 ordered
      in if p0_ok \<and> p1_ok
         then \<lparr>sr_phase = READY, sr_tasks = ordered,
               sr_events = evs @ [make_event wall ''RECONCILIATION_SUCCESS'' ''startup'' ''ready'' 0],
               trading_allowed = True, sr_partial = False\<rparr>
         else if p0_ok \<or> p1_ok
         then \<lparr>sr_phase = PARTIAL_PHASE, sr_tasks = ordered,
               sr_events = evs @ [make_event wall ''RECONCILIATION_PARTIAL'' ''startup'' ''partial'' 0],
               trading_allowed = False, sr_partial = True\<rparr>
         else \<lparr>sr_phase = SAFE_MODE_PHASE, sr_tasks = ordered,
               sr_events = evs @ [make_event wall ''SAFE_MODE_ENTERED'' ''startup'' ''reconciliation failed'' 0],
               trading_allowed = False, sr_partial = True\<rparr>)"

section \<open>Supervisor\<close>

record supervisor =
  sv_cfg :: recovery_config
  sv_components :: "(string, component_health) dict"
  sv_safe :: safe_mode
  sv_breaker :: breaker
  sv_events :: "recovery_event list"

definition new_supervisor :: "recovery_config \<Rightarrow> config_error + supervisor" where
  "new_supervisor cfg =
     (case validate_recovery_config cfg of
        Inl e \<Rightarrow> Inl e
      | Inr _ \<Rightarrow> Inr \<lparr>sv_cfg = cfg, sv_components = [], sv_safe = new_safe_mode,
          sv_breaker = new_breaker (storm_max_events cfg) (storm_window_seconds cfg),
          sv_events = []\<rparr>)"

definition register :: "supervisor \<Rightarrow> flt \<Rightarrow> string \<Rightarrow> component_class \<Rightarrow> supervisor" where
  "register sv now cid cls =
     sv\<lparr>sv_components := AList.update cid
         \<lparr>ch_id = cid, ch_class = cls, ch_health = HEALTHY, last_heartbeat_mono = now,
          last_progress_mono = now, current_operation = [], operation_start_mono = None,
          heartbeat_misses = 0, progress_misses = 0, recovery_level = 0, recovery_attempts = 0,
          ch_last_error = []\<rparr> (sv_components sv)\<rparr>"

definition update_component :: "supervisor \<Rightarrow> string \<Rightarrow> component_health \<Rightarrow> supervisor" where
  "update_component sv cid h = sv\<lparr>sv_components := AList.update cid h (sv_components sv)\<rparr>"

definition sv_heartbeat :: "supervisor \<Rightarrow> flt \<Rightarrow> string \<Rightarrow> string option \<Rightarrow> supervisor" where
  "sv_heartbeat sv now cid op =
     (case map_of (sv_components sv) cid of
        None \<Rightarrow> sv
      | Some h \<Rightarrow>
          (let h = beat h now op
           in update_component sv cid
                (if ch_health h \<in> {SUSPECT, UNRESPONSIVE} then h\<lparr>ch_health := HEALTHY\<rparr> else h)))"

definition sv_progress :: "supervisor \<Rightarrow> flt \<Rightarrow> string \<Rightarrow> string \<Rightarrow> supervisor" where
  "sv_progress sv now cid op =
     (case map_of (sv_components sv) cid of
        None \<Rightarrow> sv
      | Some h \<Rightarrow>
          (let h = health_progress h now op
           in update_component sv cid
                (if ch_health h = DEGRADED_H then h\<lparr>ch_health := HEALTHY\<rparr> else h)))"

definition cfg_for :: "recovery_config \<Rightarrow> component_class \<Rightarrow> heartbeat_config" where
  "cfg_for cfg cls = (case cls of CRITICAL_C \<Rightarrow> rc_critical cfg | BACKGROUND_C \<Rightarrow> rc_background cfg
     | NORMAL_C \<Rightarrow> rc_normal cfg)"

definition sv_log :: "supervisor \<Rightarrow> recovery_event \<Rightarrow> supervisor" where
  "sv_log sv ev = sv\<lparr>sv_events := sv_events sv @ [ev]\<rparr>"

text \<open>\<open>_begin_recovery\<close>: an open breaker, or one that opens now, puts the component and the
  supervisor into safe mode.\<close>

definition storm_check :: "supervisor \<Rightarrow> flt \<Rightarrow> supervisor \<times> bool" where
  "storm_check sv now =
     (if cb_open (sv_breaker sv) then (sv, True)
      else (case cb_record (sv_breaker sv) now of (b, opened) \<Rightarrow> (sv\<lparr>sv_breaker := b\<rparr>, opened)))"

definition begin_recovery ::
    "int \<Rightarrow> supervisor \<Rightarrow> flt \<Rightarrow> component_health \<Rightarrow> supervisor \<times> component_health" where
  "begin_recovery wall sv now h =
     (case storm_check sv now of
        (sv, storm) \<Rightarrow>
          if storm
          then (sv_log (sv_log (sv\<lparr>sv_safe := sm_enter wall (sv_safe sv) ''RECOVERY_STORM'' now\<rparr>)
                  (make_event wall ''RECOVERY_STORM'' (ch_id h) ''circuit open'' 0))
                  (make_event wall ''SAFE_MODE_ENTERED'' ''supervisor'' ''recovery storm'' 0),
                h\<lparr>ch_health := SAFE_MODE_H\<rparr>)
          else
            (let h = h\<lparr>ch_health := RECOVERING_H, recovery_level := max 1 (recovery_level h)\<rparr>
             in (sv_log sv (make_event wall ''RECOVERY_STARTED'' (ch_id h)
                    (''level='' @ show_int (recovery_level h)) (recovery_level h)), h)))"

text \<open>The two checks of \<open>tick\<close> on one component; the third component is the list of new events.\<close>

definition check_progress ::
    "(flt \<Rightarrow> string) \<Rightarrow> int \<Rightarrow> supervisor \<Rightarrow> flt \<Rightarrow> component_health \<Rightarrow>
     supervisor \<times> component_health \<times> recovery_event list" where
  "check_progress fmt wall sv now h =
     (let cfg = cfg_for (sv_cfg sv) (ch_class h); stuck_for = now - last_progress_mono h
      in if current_operation h \<noteq> [] \<and> operation_start_mono h \<noteq> None \<and>
            stuck_for > progress_timeout_seconds cfg
         then
           (let h = h\<lparr>progress_misses := progress_misses h + 1\<rparr>
            in if ch_health h = HEALTHY
               then (let ev = make_event wall ''COMPONENT_STUCK'' (ch_id h)
                            (''op='' @ current_operation h @ '' stuck='' @ fmt stuck_for @ ''s'') 0
                     in (sv_log sv ev, h\<lparr>ch_health := DEGRADED_H\<rparr>, [ev]))
               else (sv, h, []))
         else (sv, h, []))"

definition check_heartbeat ::
    "(flt \<Rightarrow> string) \<Rightarrow> int \<Rightarrow> supervisor \<Rightarrow> flt \<Rightarrow> component_health \<Rightarrow>
     supervisor \<times> component_health \<times> recovery_event list" where
  "check_heartbeat fmt wall sv now h =
     (let cfg = cfg_for (sv_cfg sv) (ch_class h);
          hb_timeout = interval_seconds cfg * of_int (miss_tolerance cfg + 1);
          age = now - last_heartbeat_mono h
      in if age > hb_timeout
         then
           (let h = h\<lparr>heartbeat_misses := heartbeat_misses h + 1\<rparr>
            in if ch_health h \<in> {HEALTHY, DEGRADED_H}
               then (let ev = make_event wall ''HEARTBEAT_MISSED'' (ch_id h)
                            (''age='' @ fmt age @ ''s -> SUSPECT'') 0
                     in (sv_log sv ev, h\<lparr>ch_health := SUSPECT\<rparr>, [ev]))
               else if ch_health h = SUSPECT \<and> age > hb_timeout + diagnostic_grace_seconds (sv_cfg sv)
               then (let ev = make_event wall ''COMPONENT_SUSPECT'' (ch_id h)
                            ''diagnostic failed -> UNRESPONSIVE'' 0
                     in case begin_recovery wall (sv_log sv ev) now (h\<lparr>ch_health := UNRESPONSIVE\<rparr>) of
                          (sv, h) \<Rightarrow> (sv, h, [ev]))
               else (sv, h, []))
         else (sv, h, []))"

definition tick_one ::
    "(flt \<Rightarrow> string) \<Rightarrow> int \<Rightarrow> supervisor \<Rightarrow> flt \<Rightarrow> component_health \<Rightarrow>
     supervisor \<times> component_health \<times> recovery_event list" where
  "tick_one fmt wall sv now h =
     (case check_progress fmt wall sv now h of
        (sv, h, evs) \<Rightarrow>
          (case check_heartbeat fmt wall sv now h of
             (sv, h, evs') \<Rightarrow> (sv, h, evs @ evs')))"

fun tick_all ::
    "(flt \<Rightarrow> string) \<Rightarrow> int \<Rightarrow> supervisor \<Rightarrow> flt \<Rightarrow> (string, component_health) dict \<Rightarrow>
     supervisor \<times> (string, component_health) dict \<times> recovery_event list" where
  "tick_all fmt wall sv now [] = (sv, [], [])"
| "tick_all fmt wall sv now ((cid, h) # hs) =
     (case tick_one fmt wall sv now h of
        (sv, h, evs) \<Rightarrow>
          (case tick_all fmt wall sv now hs of
             (sv, hs, evs') \<Rightarrow> (sv, (cid, h) # hs, evs @ evs')))"

definition sv_tick ::
    "(flt \<Rightarrow> string) \<Rightarrow> int \<Rightarrow> supervisor \<Rightarrow> flt \<Rightarrow> supervisor \<times> recovery_event list" where
  "sv_tick fmt wall sv now =
     (case tick_all fmt wall sv now (sv_components sv) of
        (sv, hs, evs) \<Rightarrow> (sv\<lparr>sv_components := hs\<rparr>, evs))"

text \<open>
  \<open>recover_component\<close>. The outcome of the recovery function at a level is \<open>Inr ok\<close> or the
  class of the exception it raised.
\<close>

definition clamp_level :: "int \<Rightarrow> int" where
  "clamp_level l = max 1 (min 5 (if l = 0 then 1 else l))"

definition enter_safe :: "int \<Rightarrow> supervisor \<Rightarrow> flt \<Rightarrow> string \<Rightarrow> supervisor" where
  "enter_safe wall sv now why = sv\<lparr>sv_safe := sm_enter wall (sv_safe sv) why now\<rparr>"

definition recover_attempt ::
    "(flt \<Rightarrow> string) \<Rightarrow> int \<Rightarrow> supervisor \<Rightarrow> flt \<Rightarrow> flt \<Rightarrow> string \<Rightarrow> (int \<Rightarrow> string + bool) \<Rightarrow>
     int \<Rightarrow> int \<Rightarrow> component_health \<Rightarrow> supervisor \<times> bool" where
  "recover_attempt fmt wall sv now rnd cid recover_fn level attempts h =
     (let delay = backoff_seconds (level_base_seconds (sv_cfg sv) level) attempts 300 (2 / 10) rnd;
          h = h\<lparr>recovery_attempts := recovery_attempts h + 1\<rparr>;
          sv = sv_log (update_component sv cid h)
                 (make_event wall ''RECOVERY_RETRY'' cid
                    (''level='' @ show_int level @ '' attempt='' @ show_int (recovery_attempts h) @
                     '' delay='' @ fmt delay @ ''s'') level)
      in case cb_record (sv_breaker sv) now of
           (b, opened) \<Rightarrow>
             (let sv = sv\<lparr>sv_breaker := b\<rparr>
              in if opened
                 then (sv_log (enter_safe wall sv now ''RECOVERY_STORM'')
                         (make_event wall ''RECOVERY_STORM'' cid ''during recover'' 0), False)
                 else
                   (let h = (case recover_fn level of Inl cls \<Rightarrow> h\<lparr>ch_last_error := cls\<rparr> | Inr _ \<Rightarrow> h)
                    in if recover_fn level = Inr True
                       then (sv_log (update_component sv cid
                               (health_progress (beat (h\<lparr>ch_health := HEALTHY, recovery_level := 0,
                                   recovery_attempts := 0\<rparr>) now None) now []))
                               (make_event wall ''RECOVERY_SUCCEEDED'' cid (''level='' @ show_int level) 0),
                             True)
                       else (sv_log (update_component sv cid (h\<lparr>ch_health := FAILED_H\<rparr>))
                               (make_event wall ''RECOVERY_FAILED'' cid (''level='' @ show_int level) 0),
                             False))))"

definition recover_component ::
    "(flt \<Rightarrow> string) \<Rightarrow> int \<Rightarrow> supervisor \<Rightarrow> flt \<Rightarrow> flt \<Rightarrow> string \<Rightarrow> (int \<Rightarrow> string + bool) \<Rightarrow>
     supervisor \<times> bool" where
  "recover_component fmt wall sv now rnd cid recover_fn =
     (case map_of (sv_components sv) cid of
        None \<Rightarrow> (sv, False)
      | Some h \<Rightarrow>
          if cb_open (sv_breaker sv) then (enter_safe wall sv now ''RECOVERY_STORM'', False)
          else
            (let level = clamp_level (recovery_level h); attempts = recovery_attempts h
             in if attempts \<ge> level_max_attempts (sv_cfg sv) level
                then
                  if level \<ge> 5
                  then (sv_log (update_component
                          (enter_safe wall sv now (''recovery exhausted for '' @ cid)) cid
                          (h\<lparr>ch_health := SAFE_MODE_H\<rparr>))
                          (make_event wall ''RECOVERY_FAILED'' cid ''exhausted -> SAFE_MODE'' 0), False)
                  else
                    (let h = h\<lparr>recovery_level := level + 1, recovery_attempts := 0\<rparr>;
                         sv = sv_log (update_component sv cid h)
                           (make_event wall ''RECOVERY_ESCALATED'' cid
                              (''level->'' @ show_int (recovery_level h)) (recovery_level h))
                     in recover_attempt fmt wall sv now rnd cid recover_fn (level + 1) attempts h)
                else recover_attempt fmt wall sv now rnd cid recover_fn level attempts h))"

definition enter_safe_mode :: "int \<Rightarrow> supervisor \<Rightarrow> flt \<Rightarrow> string \<Rightarrow> supervisor" where
  "enter_safe_mode wall sv now why =
     (let sv = enter_safe wall sv now why
      in sv\<lparr>sv_components := map (\<lambda>(cid, h). (cid,
            if ch_class h = BACKGROUND_C then h\<lparr>ch_health := SAFE_MODE_H\<rparr> else h)) (sv_components sv)\<rparr>)"

definition try_exit_safe_mode :: "int \<Rightarrow> supervisor \<Rightarrow> exit_gates \<Rightarrow> supervisor \<times> bool" where
  "try_exit_safe_mode wall sv x =
     (case sm_try_exit wall (sv_safe sv) x of (s, ok) \<Rightarrow> (sv\<lparr>sv_safe := s\<rparr>, ok))"

definition sv_blocks_new_entries :: "supervisor \<Rightarrow> bool" where
  "sv_blocks_new_entries sv = sm_blocks_new_entries (sv_safe sv)"

end
