(* ===== verification/RecoveryProps.thy ===== *)
theory RecoveryProps
  imports Supervisor
begin

text \<open>
  Guarantees of the recovery package: the verification of UNKNOWN orders ends and blocks duplicates
  meanwhile, startup opens trading only after the essential tasks, safe mode is left through its
  gates only, a detected recovery storm latches, and the escalation stays within its bounds.
\<close>

section \<open>UNKNOWN orders\<close>

text \<open>
  Consecutive queries about one order: each with its instant, the answer of the query function and
  the Retry-After the caller passes.
\<close>

fun query_run ::
    "int \<Rightarrow> (flt \<Rightarrow> string) \<Rightarrow> flt list \<Rightarrow> resolver \<Rightarrow> string \<Rightarrow>
     (flt \<times> (string + string option) \<times> flt option) list \<Rightarrow> resolver" where
  "query_run wall shw schedule ts eid [] = ts"
| "query_run wall shw schedule ts eid ((now, a, ra) # qs) =
     query_run wall shw schedule (fst (query_once wall shw schedule ts eid (\<lambda>_. a) now ra)) eid qs"

text \<open>A query that is not deferred by a Retry-After and comes after the whole schedule.\<close>

definition deferred :: "flt option \<Rightarrow> bool" where
  "deferred ra \<longleftrightarrow> ra \<noteq> None \<and> 0 < opt_get ra 0"

definition due_query :: "flt list \<Rightarrow> flt \<Rightarrow> flt \<times> (string + string option) \<times> flt option \<Rightarrow> bool" where
  "due_query schedule started q =
     (case q of (now, a, ra) \<Rightarrow> \<not> deferred ra \<and> list_all (\<lambda>s. s \<le> now - started) schedule)"

lemma ut_log_simps [simp]:
  "ut_resolution (ut_log w t ev d) = ut_resolution t" "ut_attempts (ut_log w t ev d) = ut_attempts t"
  "ut_started (ut_log w t ev d) = ut_started t" "ut_execution_id (ut_log w t ev d) = ut_execution_id t"
  "ut_client_order_id (ut_log w t ev d) = ut_client_order_id t"
  by (simp_all add: ut_log_def)

lemma status_resolution_not_pending:
  "status_resolution s = Some r \<Longrightarrow> r \<notin> {PENDING, UNRESOLVED}"
  by (auto simp: status_resolution_def split: if_splits)

lemma verify_once_effect:
  assumes "verify_once wall sch t a = (t', r)" and "ut_resolution t = PENDING"
  shows "ut_attempts t' = Suc (ut_attempts t)" "ut_started t' = ut_started t"
    "ut_client_order_id t' = ut_client_order_id t" "ut_execution_id t' = ut_execution_id t"
    "ut_resolution t' = r" "Suc (ut_attempts t) \<ge> length sch \<Longrightarrow> r \<noteq> PENDING"
proof -
  have "ut_attempts t' = Suc (ut_attempts t) \<and> ut_started t' = ut_started t \<and>
      ut_client_order_id t' = ut_client_order_id t \<and> ut_execution_id t' = ut_execution_id t \<and>
      ut_resolution t' = r \<and> (Suc (ut_attempts t) \<ge> length sch \<longrightarrow> r \<noteq> PENDING)"
    using assms status_resolution_not_pending
    by (auto simp: verify_once_def Let_def maybe_unresolved_def
        split: sum.splits option.splits if_splits)
  then show "ut_attempts t' = Suc (ut_attempts t)" "ut_started t' = ut_started t"
    "ut_client_order_id t' = ut_client_order_id t" "ut_execution_id t' = ut_execution_id t"
    "ut_resolution t' = r" "Suc (ut_attempts t) \<ge> length sch \<Longrightarrow> r \<noteq> PENDING" by blast+
qed

text \<open>Only a final status of the exchange lets a verification end in a final resolution.\<close>

lemma verified_final:
  assumes "verify_once wall sch t a = (t', r)" and "r \<notin> {PENDING, UNRESOLVED, FOUND_OPEN}"
  shows "\<exists>status. a = Inr (Some status) \<and>
    py_lower status \<in> {''filled'', ''closed'', ''canceled'', ''cancelled'', ''rejected'', ''failed'', ''expired''}"
proof -
  obtain status where "a = Inr (Some status)" "status_resolution (py_lower status) = Some r"
    using assms
    by (auto simp: verify_once_def Let_def maybe_unresolved_def
        split: sum.splits option.splits if_splits)
  with assms(2) show ?thesis by (auto simp: status_resolution_def split: if_splits)
qed

text \<open>What one query does to the tracker it is about, and to the others.\<close>

lemma query_once_other:
  "k \<noteq> eid \<Longrightarrow> map_of (fst (query_once wall shw sch ts eid q now ra)) k = map_of ts k"
  by (auto simp: query_once_def Let_def split: option.splits prod.splits)

text \<open>The three ways a query about a pending order goes.\<close>

lemma query_once_pending:
  assumes "map_of ts eid = Some t" and "ut_resolution t = PENDING"
  obtains (waits) "\<not> deferred ra" "\<not> should_query schedule ts eid now"
      "query_once wall shw schedule ts eid q now ra = (ts, PENDING)"
  | (defers) d where "deferred ra"
      "map_of (fst (query_once wall shw schedule ts eid q now ra)) eid =
         Some (ut_log wall (t\<lparr>ut_detail := d\<rparr>) ''UNKNOWN_ORDER_RETRY'' d)"
      "snd (query_once wall shw schedule ts eid q now ra) = PENDING"
  | (asks) t' r where "\<not> deferred ra" "should_query schedule ts eid now"
      "verify_once wall schedule t (q eid) = (t', r)"
      "query_once wall shw schedule ts eid q now ra = (AList.update eid t' ts, r)"
proof (cases "deferred ra")
  case True
  with assms show thesis
    by (intro defers) (auto simp: query_once_def deferred_def Let_def)
next
  case F: False
  obtain t' r where "verify_once wall schedule t (q eid) = (t', r)" by (metis surj_pair)
  with F assms show thesis
    by (cases "should_query schedule ts eid now")
      (auto simp: query_once_def deferred_def intro: waits asks)
qed

lemma query_run_resolved:
  "map_of ts eid = Some t \<Longrightarrow> ut_resolution t \<noteq> PENDING \<Longrightarrow>
   map_of (query_run wall shw schedule ts eid qs) eid = Some t"
proof (induction qs arbitrary: ts)
  case Nil
  then show ?case by simp
next
  case (Cons q qs)
  then show ?case by (cases q) (simp add: query_once_def)
qed

text \<open>C10: Whatever the exchange answers or raises, whenever it is asked and however often a
  Retry-After defers it, the verification of an UNKNOWN order never asks more often than its schedule
  has entries and keeps the order's identity; and it ends: once the run holds as many queries that
  carry no Retry-After and come after the whole schedule as the schedule has entries left, the order is
  resolved or marked UNRESOLVED.\<close>

theorem unknown_verification_ends:
  assumes "map_of ts eid = Some t" and "ut_attempts t < length schedule"
  shows "\<exists>t'. map_of (query_run wall shw schedule ts eid qs) eid = Some t' \<and>
    ut_attempts t' \<le> length schedule \<and> ut_client_order_id t' = ut_client_order_id t \<and>
    (length schedule - ut_attempts t \<le> length (filter (due_query schedule (ut_started t)) qs) \<longrightarrow>
       ut_resolution t' \<noteq> PENDING)"
  using assms
proof (induction qs arbitrary: ts t)
  case Nil
  then show ?case by simp
next
  case (Cons q qs)
  obtain now a ra where q: "q = (now, a, ra)" by (metis prod_cases3)
  let ?ts = "fst (query_once wall shw schedule ts eid (\<lambda>_. a) now ra)"
  let ?due = "due_query schedule (ut_started t)"
  show ?case
  proof (cases "ut_resolution t = PENDING")
    case pending: True
    from Cons.prems(1) pending show ?thesis
    proof (cases rule: query_once_pending [where wall = wall and shw = shw and schedule = schedule
          and q = "\<lambda>_. a" and now = now and ra = ra])
      case waits
      then have "\<not> ?due q"
        using Cons.prems pending
        by (auto simp: q due_query_def should_query_def list_all_length)
      with Cons.IH [OF Cons.prems] waits show ?thesis by (simp add: q)
    next
      case (defers d)
      have "\<not> ?due q" using defers(1) by (simp add: q due_query_def)
      with Cons.IH [OF defers(2)] Cons.prems(2) show ?thesis by (simp add: q)
    next
      case (asks t1 r)
      note eff = verify_once_effect [OF asks(3) pending]
      have t1: "map_of ?ts eid = Some t1" using asks(4) by simp
      show ?thesis
      proof (cases "ut_attempts t1 < length schedule")
        case True
        from Cons.IH [OF t1 True] eff(1-3) show ?thesis by (auto simp: q split: if_splits)
      next
        case False
        then have "ut_resolution t1 \<noteq> PENDING" "ut_attempts t1 \<le> length schedule"
          using eff Cons.prems(2) by auto
        with query_run_resolved [OF t1] eff(3) show ?thesis by (simp add: q)
      qed
    qed
  next
    case False
    with Cons.prems query_run_resolved [OF Cons.prems(1) False, of wall shw schedule "q # qs"]
    show ?thesis by auto
  qed
qed

text \<open>
  A Retry-After is not remembered: it counts no attempt and sets no instant, so an exchange that
  always sends one keeps the order PENDING for ever, and a query without one right after it is made
  at once.
\<close>

theorem retry_after_never_ends:
  assumes "map_of ts eid = Some t" and "ut_resolution t = PENDING"
    and "list_all (\<lambda>(now, a, ra). deferred ra) qs"
  shows "\<exists>t'. map_of (query_run wall shw schedule ts eid qs) eid = Some t' \<and>
    ut_resolution t' = PENDING \<and> ut_attempts t' = ut_attempts t \<and>
    should_query schedule (query_run wall shw schedule ts eid qs) eid now =
      should_query schedule ts eid now"
  using assms
proof (induction qs arbitrary: ts t)
  case Nil
  then show ?case by simp
next
  case (Cons q qs)
  obtain n a ra where q: "q = (n, a, ra)" by (metis prod_cases3)
  have ra: "deferred ra" using Cons.prems(3) by (simp add: q)
  from Cons.prems(1,2) show ?case
  proof (cases rule: query_once_pending [where wall = wall and shw = shw and schedule = schedule
        and q = "\<lambda>_. a" and now = n and ra = ra])
    case (defers d)
    have same: "should_query schedule (fst (query_once wall shw schedule ts eid (\<lambda>_. a) n ra)) eid now =
        should_query schedule ts eid now"
      using Cons.prems(1) defers(2) by (simp add: should_query_def)
    from Cons.IH [OF defers(2)] Cons.prems(2,3) same show ?thesis by (simp add: q)
  qed (simp_all add: ra)
qed

definition unknown_demo :: resolver where
  "unknown_demo = snd (track_unknown 0 [] ''e1'' ''c1'' 0)"

theorem unknown_verification_ends_witness:
  "\<exists>t'. map_of (query_run 0 (\<lambda>_. []) [0, 2] unknown_demo ''e1''
      [(5, Inl ''Timeout'', None), (6, Inr None, Some 3), (7, Inr None, None)]) ''e1'' = Some t' \<and>
     ut_attempts t' \<le> 2 \<and> ut_resolution t' \<noteq> PENDING"
proof -
  obtain t where t: "map_of unknown_demo ''e1'' = Some t" "ut_attempts t = 0" "ut_started t = 0"
    by (simp add: unknown_demo_def track_unknown_def Let_def)
  have "ut_attempts t < length [0, 2 :: flt]" by (simp add: t)
  from unknown_verification_ends [OF t(1) this, of 0 "\<lambda>_. []"
      "[(5, Inl ''Timeout'', None), (6, Inr None, Some 3), (7, Inr None, None)]"]
  show ?thesis by (auto simp: t due_query_def deferred_def opt_get_def numeral_2_eq_2)
qed

theorem retry_after_never_ends_witness:
  "should_query [0, 2] (query_run 0 (\<lambda>_. []) [0, 2] unknown_demo ''e1'' [(5, Inr None, Some 60)]) ''e1'' 5"
proof -
  obtain t where t: "map_of unknown_demo ''e1'' = Some t" "ut_resolution t = PENDING"
    by (simp add: unknown_demo_def track_unknown_def Let_def)
  have "list_all (\<lambda>(now, a, ra). deferred ra) [(5, Inr None, Some 60)]"
    by (simp add: deferred_def opt_get_def)
  from retry_after_never_ends [OF t this, of 0 "\<lambda>_. []" "[0, 2]" 5]
  have "should_query [0, 2] (query_run 0 (\<lambda>_. []) [0, 2] unknown_demo ''e1'' [(5, Inr None, Some 60)]) ''e1'' 5
      = should_query [0, 2] unknown_demo ''e1'' 5" by blast
  then show ?thesis by (simp add: should_query_def unknown_demo_def track_unknown_def Let_def)
qed

text \<open>The answers that let a client order id go: the order was seen in a final state.\<close>

definition final_answers :: "string list" where
  "final_answers = [''filled'', ''closed'', ''canceled'', ''cancelled'', ''rejected'', ''failed'', ''expired'']"

text \<open>C11: While an order is tracked as pending, unresolved or found open, its client order id stays
  blocked against duplicates: no query about any order, whatever it answers, raises or defers,
  unblocks it, except a query about that very order which the schedule permits, carries no Retry-After
  and is answered by the exchange with a final status (filled, closed, cancelled, rejected, failed or
  expired).\<close>

theorem duplicate_stays_blocked:
  assumes "map_of ts eid = Some t" and "blocks_duplicate [(eid, t)] (ut_client_order_id t)"
  shows "blocks_duplicate (fst (query_once wall shw schedule ts k query now ra)) (ut_client_order_id t) \<or>
    k = eid \<and> \<not> deferred ra \<and> should_query schedule ts eid now \<and>
    (\<exists>status. query eid = Inr (Some status) \<and> py_lower status \<in> set final_answers)"
proof -
  let ?o = "query_once wall shw schedule ts k query now ra"
  have blk: "blocks_duplicate d c" if "map_of d j = Some u" "blocks_duplicate [(j, u)] c" for d j u c
    using that by (auto simp: blocks_duplicate_def dest!: map_of_SomeD intro!: bexI [of _ "(j, u)"])
  show ?thesis
  proof (cases "k = eid \<and> ut_resolution t = PENDING")
    case False
    then have "map_of (fst ?o) eid = Some t"
      using query_once_other [of eid k] assms(1) by (cases "k = eid") (auto simp: query_once_def)
    with blk assms(2) show ?thesis by blast
  next
    case True
    then have k: "k = eid" and p: "ut_resolution t = PENDING" by auto
    from assms(1) p show ?thesis
    proof (cases rule: query_once_pending [where wall = wall and shw = shw and schedule = schedule
          and q = query and now = now and ra = ra])
      case waits
      with assms blk k show ?thesis by auto
    next
      case (defers d)
      have "blocks_duplicate [(eid, ut_log wall (t\<lparr>ut_detail := d\<rparr>) ''UNKNOWN_ORDER_RETRY'' d)]
          (ut_client_order_id t)"
        using assms(2) by (simp add: blocks_duplicate_def ut_log_def)
      with blk [OF defers(2)] k show ?thesis by simp
    next
      case (asks t' r)
      note eff = verify_once_effect [OF asks(3) p]
      have t': "map_of (fst ?o) eid = Some t'" by (simp add: k asks(4))
      show ?thesis
      proof (cases "r \<in> {PENDING, UNRESOLVED, FOUND_OPEN}")
        case True
        then have "blocks_duplicate [(eid, t')] (ut_client_order_id t)"
          using eff(3,5) by (simp add: blocks_duplicate_def)
        with blk [OF t'] show ?thesis by simp
      next
        case False
        with verified_final [OF asks(3)] obtain status where
          "query eid = Inr (Some status)" "py_lower status \<in> set final_answers"
          by (auto simp: final_answers_def)
        with asks(1,2) k show ?thesis by blast
      qed
    qed
  qed
qed

theorem duplicate_stays_blocked_witness:
  "blocks_duplicate (fst (query_once 0 (\<lambda>_. []) [0, 2] unknown_demo ''e1'' (\<lambda>_. Inr None) 5 None)) ''c1''"
proof -
  obtain t where t: "map_of unknown_demo ''e1'' = Some t" "ut_client_order_id t = ''c1''"
    "ut_resolution t = PENDING"
    by (simp add: unknown_demo_def track_unknown_def Let_def)
  have "blocks_duplicate [(''e1'', t)] (ut_client_order_id t)"
    by (simp add: blocks_duplicate_def t(3))
  from duplicate_stays_blocked [OF t(1) this, of 0 "\<lambda>_. []" "[0, 2]" "''e1''" "\<lambda>_. Inr None" 5 None] t(2)
  show ?thesis by simp
qed

section \<open>Startup\<close>

text \<open>A task succeeds at once, or on its one retry after a rate limit.\<close>

definition task_succeeds :: "startup_task \<Rightarrow> bool" where
  "task_succeeds t \<longleftrightarrow>
     (case st_first t of
        Inr ok \<Rightarrow> ok
      | Inl (cls, msg) \<Rightarrow> (py_in ''429'' msg \<or> py_in ''rate'' (py_lower msg)) \<and> st_second t = Inr True)"

lemma run_task_fields [simp]:
  "st_priority (fst (run_task w t)) = st_priority t" "st_done (fst (run_task w t))"
  "st_ok (fst (run_task w t)) = task_succeeds t" "st_name (fst (run_task w t)) = st_name t"
  by (auto simp: run_task_def task_succeeds_def Let_def split: sum.splits prod.splits)

lemma priority_ok_runs:
  "priority_ok p (map fst (map (run_task w) (sort_key f ts))) \<longleftrightarrow>
   (\<forall>t \<in> set ts. st_priority t = p \<longrightarrow> task_succeeds t)"
  by (auto simp: priority_ok_def)

text \<open>C12: Trading is allowed after startup exactly when every task of the priorities P0 and P1
  succeeded, directly or on the one retry after a rate limit; tasks of the other priorities do not
  matter, and without tasks of these priorities startup is ready at once.\<close>

theorem startup_trades_iff_essential_tasks_ok:
  "safe_to_trade (startup_run wall evs tasks) \<longleftrightarrow>
   (\<forall>t \<in> set tasks. st_priority t \<in> {P0, P1} \<longrightarrow> task_succeeds t)"
  unfolding startup_run_def Let_def priority_ok_runs safe_to_trade_def by auto

definition startup_demo :: "task_priority \<Rightarrow> startup_task" where
  "startup_demo p = \<lparr>st_name = ''t'', st_priority = p, st_first = Inl (''HTTPError'', ''429''),
     st_second = Inr False, st_done = False, st_ok = False, st_error = []\<rparr>"

theorem startup_trades_iff_essential_tasks_ok_witness:
  "safe_to_trade (startup_run 0 [] [startup_demo P2]) \<and> \<not> safe_to_trade (startup_run 0 [] [startup_demo P0])"
  using startup_trades_iff_essential_tasks_ok [of 0 "[]" "[startup_demo P2]"]
    startup_trades_iff_essential_tasks_ok [of 0 "[]" "[startup_demo P0]"]
  by (simp add: startup_demo_def task_succeeds_def)

section \<open>The supervisor as a transition system\<close>

inductive sv_step :: "supervisor \<Rightarrow> supervisor \<Rightarrow> bool" where
  sv_register: "sv_step sv (register sv now cid cls)"
| sv_beat: "sv_step sv (sv_heartbeat sv now cid op)"
| sv_work: "sv_step sv (sv_progress sv now cid op)"
| sv_watch: "sv_step sv (fst (sv_tick fmt wall sv now))"
| sv_recover: "sv_step sv (fst (recover_component fmt wall sv now rnd cid f))"
| sv_enter: "sv_step sv (enter_safe_mode wall sv now why)"
| sv_exit: "sv_step sv (fst (try_exit_safe_mode wall sv x))"

text \<open>Each operation keeps an open breaker open and an active safe mode active (exit apart).\<close>

definition latched :: "supervisor \<Rightarrow> supervisor \<Rightarrow> bool" where
  "latched sv sv' \<longleftrightarrow> sv_cfg sv' = sv_cfg sv \<and>
     (cb_open (sv_breaker sv) \<longrightarrow> cb_open (sv_breaker sv')) \<and>
     (sm_active (sv_safe sv) \<longrightarrow> sm_active (sv_safe sv') \<and> sm_reason (sv_safe sv') = sm_reason (sv_safe sv))"

lemma latched_refl [simp]: "latched sv sv"
  by (simp add: latched_def)

lemma latched_trans: "latched sv sv' \<Longrightarrow> latched sv' sv'' \<Longrightarrow> latched sv sv''"
  by (auto simp: latched_def)

lemma sv_log_simps [simp]:
  "sv_cfg (sv_log sv ev) = sv_cfg sv" "sv_breaker (sv_log sv ev) = sv_breaker sv"
  "sv_safe (sv_log sv ev) = sv_safe sv" "sv_components (sv_log sv ev) = sv_components sv"
  by (simp_all add: sv_log_def)

lemma update_component_simps [simp]:
  "sv_cfg (update_component sv c h) = sv_cfg sv" "sv_breaker (update_component sv c h) = sv_breaker sv"
  "sv_safe (update_component sv c h) = sv_safe sv"
  by (simp_all add: update_component_def)

lemma enter_safe_simps [simp]:
  "sv_cfg (enter_safe w sv now why) = sv_cfg sv" "sv_breaker (enter_safe w sv now why) = sv_breaker sv"
  "sm_active (sv_safe (enter_safe w sv now why))"
  "sv_components (enter_safe w sv now why) = sv_components sv"
  "sm_active (sv_safe sv) \<Longrightarrow> sv_safe (enter_safe w sv now why) = sv_safe sv"
  by (auto simp: enter_safe_def sm_enter_def)

lemma cb_record_keeps: "cb_record b now = (b', o') \<Longrightarrow> cb_open b \<Longrightarrow> cb_open b'"
  by (auto simp: cb_record_def Let_def split: if_splits)

lemma begin_recovery_latched: "begin_recovery w sv now h = (sv', h') \<Longrightarrow> latched sv sv'"
  by (auto simp: begin_recovery_def storm_check_def latched_def sm_enter_def Let_def
      split: if_splits prod.splits dest: cb_record_keeps)

lemma tick_one_latched: "tick_one fmt w sv now h = (sv', h', evs) \<Longrightarrow> latched sv sv'"
proof -
  assume t: "tick_one fmt w sv now h = (sv', h', evs)"
  obtain sv1 h1 e1 where 1: "check_progress fmt w sv now h = (sv1, h1, e1)" by (metis surj_pair)
  have "latched sv sv1"
    using 1 by (auto simp: check_progress_def latched_def Let_def split: if_splits)
  moreover have "latched sv1 sv'"
    using t 1 begin_recovery_latched [of w "sv_log sv1 ev" now hh for ev hh]
    by (auto simp: tick_one_def check_heartbeat_def Let_def latched_def split: if_splits prod.splits)
  ultimately show ?thesis by (rule latched_trans)
qed

lemma tick_all_latched: "tick_all fmt w sv now hs = (sv', hs', evs) \<Longrightarrow> latched sv sv'"
proof (induction hs arbitrary: sv sv' hs' evs)
  case Nil
  then show ?case by simp
next
  case (Cons p hs)
  obtain cid h where p: "p = (cid, h)" by (metis surj_pair)
  obtain sv1 h1 e1 where 1: "tick_one fmt w sv now h = (sv1, h1, e1)" by (metis surj_pair)
  obtain sv2 hs2 e2 where 2: "tick_all fmt w sv1 now hs = (sv2, hs2, e2)" by (metis surj_pair)
  have "sv' = sv2" using Cons.prems p 1 2 by simp
  with Cons.IH [OF 2] tick_one_latched [OF 1] show ?case by (auto intro: latched_trans)
qed

lemma recover_attempt_latched:
  "latched sv (fst (recover_attempt fmt w sv now rnd cid f level attempts h))"
  by (auto simp: recover_attempt_def Let_def latched_def split: prod.splits sum.splits
      dest: cb_record_keeps)

lemma recover_component_latched: "latched sv (fst (recover_component fmt w sv now rnd cid f))"
proof -
  have *: "latched sv (fst (recover_attempt fmt w (sv_log (update_component sv cid h) ev) now rnd cid f l a h'))"
    for h ev l a h'
    by (rule latched_trans [OF _ recover_attempt_latched]) (simp add: latched_def)
  show ?thesis
    using recover_attempt_latched *
    by (auto simp: recover_component_def Let_def latched_def [of sv "enter_safe _ _ _ _"]
        latched_def [of sv "sv_log _ _"] split: option.splits)
qed

lemma sv_step_latched:
  assumes "sv_step sv sv'"
  shows "latched sv sv' \<or> (\<exists>wall x. sv' = fst (try_exit_safe_mode wall sv x) \<and> all_gates x \<and>
    sv_breaker sv' = sv_breaker sv \<and> sv_cfg sv' = sv_cfg sv)"
  using assms
proof cases
  case (sv_watch fmt wall now)
  then show ?thesis
    using tick_all_latched by (auto simp: sv_tick_def latched_def split: prod.splits)
next
  case (sv_recover fmt wall now rnd cid f)
  then show ?thesis using recover_component_latched by blast
next
  case (sv_exit wall x)
  then show ?thesis
    by (cases "all_gates x")
      (auto simp: try_exit_safe_mode_def sm_try_exit_def latched_def split: prod.splits if_splits)
qed (auto simp: register_def sv_heartbeat_def sv_progress_def enter_safe_mode_def latched_def Let_def
    split: option.splits)

text \<open>Safe mode is left only through its gates: a step that ends an active safe mode is an exit
  request for which every one of the six gates holds; nothing else, not even time or recovery, ends
  it. A request is granted exactly when all six gates hold, and a refused one leaves safe mode active.\<close>

theorem safe_mode_left_through_gates_only:
  assumes "sv_step sv sv'" and "sm_active (sv_safe sv)" and "\<not> sm_active (sv_safe sv')"
  shows "(\<exists>wall x. sv' = fst (try_exit_safe_mode wall sv x) \<and> all_gates x) \<and>
    (\<forall>wall x. snd (try_exit_safe_mode wall sv x) = all_gates x \<and>
       sm_active (sv_safe (fst (try_exit_safe_mode wall sv x))) = (\<not> all_gates x))"
proof
  show "\<exists>wall x. sv' = fst (try_exit_safe_mode wall sv x) \<and> all_gates x"
    using sv_step_latched [OF assms(1)] assms(2,3) by (auto simp: latched_def)
  show "\<forall>wall x. snd (try_exit_safe_mode wall sv x) = all_gates x \<and>
       sm_active (sv_safe (fst (try_exit_safe_mode wall sv x))) = (\<not> all_gates x)"
    using assms(2) by (simp add: try_exit_safe_mode_def sm_try_exit_def)
qed

definition sv_demo :: supervisor where
  "sv_demo = enter_safe_mode 0 \<lparr>sv_cfg = default_recovery_config, sv_components = [],
     sv_safe = new_safe_mode, sv_breaker = (new_breaker 5 300)\<lparr>cb_open := True\<rparr>, sv_events = []\<rparr> 0 ''storm''"

definition gates_demo :: exit_gates where
  "gates_demo = \<lparr>components_healthy = True, exchange_ok = True, gate_reconciliation_ok = True,
     execution_consistent = True, market_data_fresh = True, no_unresolved_critical = True\<rparr>"

theorem safe_mode_left_through_gates_only_witness:
  "\<exists>wall x. fst (try_exit_safe_mode 0 sv_demo gates_demo) = fst (try_exit_safe_mode wall sv_demo x) \<and> all_gates x"
  by (rule safe_mode_left_through_gates_only [OF sv_exit, THEN conjunct1])
    (simp_all add: sv_demo_def gates_demo_def enter_safe_mode_def try_exit_safe_mode_def sm_try_exit_def
      all_gates_def enter_safe_def sm_enter_def new_safe_mode_def Let_def)

text \<open>A detected recovery storm latches for the life of the supervisor: once the breaker is open
  it stays open through every operation, the exit of safe mode included, so no component is ever
  recovered again and each attempt puts the supervisor back into safe mode.\<close>

theorem storm_latches_forever:
  assumes "sv_step\<^sup>*\<^sup>* sv sv'" and "cb_open (sv_breaker sv)"
    and "map_of (sv_components sv') cid = Some h"
  shows "cb_open (sv_breaker sv') \<and> \<not> snd (recover_component fmt wall sv' now rnd cid f) \<and>
    sm_active (sv_safe (fst (recover_component fmt wall sv' now rnd cid f)))"
proof -
  have "cb_open (sv_breaker sv')"
    using assms(1,2)
  proof (induction rule: rtranclp_induct)
    case base
    then show ?case by simp
  next
    case (step u v)
    then show ?case using sv_step_latched [OF step(2)] by (auto simp: latched_def)
  qed
  then show ?thesis using assms(3) by (simp add: recover_component_def)
qed

theorem storm_latches_forever_witness:
  "\<not> snd (recover_component (\<lambda>_. []) 0
      (register (fst (try_exit_safe_mode 0 sv_demo gates_demo)) 9 ''ml'' BACKGROUND_C) 9 0 ''ml'' (\<lambda>_. Inr True))"
proof -
  let ?a = "fst (try_exit_safe_mode 0 sv_demo gates_demo)"
  have "sv_step\<^sup>*\<^sup>* sv_demo (register ?a 9 ''ml'' BACKGROUND_C)"
    by (meson converse_rtranclp_into_rtranclp r_into_rtranclp sv_exit sv_register)
  moreover have "cb_open (sv_breaker sv_demo)"
    by (simp add: sv_demo_def enter_safe_mode_def Let_def)
  moreover have "\<exists>h. map_of (sv_components (register ?a 9 ''ml'' BACKGROUND_C)) ''ml'' = Some h"
    by (simp add: register_def)
  ultimately show ?thesis using storm_latches_forever by blast
qed

section \<open>Backoff\<close>

text \<open>The exponential backoff is between zero and its cap, and without jitter it never decreases
  with the attempt.\<close>

theorem backoff_bounded:
  assumes "0 \<le> cap"
  shows "0 \<le> backoff_seconds base attempt cap jitter rnd \<and> backoff_seconds base attempt cap jitter rnd \<le> cap \<and>
    (if 0 \<le> base \<and> attempt \<le> attempt' then
       backoff_seconds base attempt cap 0 rnd \<le> backoff_seconds base attempt' cap 0 rnd else True)"
proof -
  have "base * 2 ^ nat (max 0 attempt) \<le> base * 2 ^ nat (max 0 attempt')"
    if "0 \<le> base" "attempt \<le> attempt'"
    using that by (intro mult_left_mono power_increasing) auto
  then show ?thesis using assms by (auto simp: backoff_seconds_def Let_def)
qed

theorem backoff_bounded_witness:
  "backoff_seconds 5 10 300 (2 / 10) (9 / 10) \<le> 300 \<and> backoff_seconds 5 1 300 0 0 \<le> backoff_seconds 5 2 300 0 0"
  using backoff_bounded [of 300 5 10 "2 / 10" "9 / 10" 10] backoff_bounded [of 300 5 1 0 0 2] by simp

end
