(* ===== verification/ControlPlane.thy ===== *)
theory ControlPlane
  imports ExecModels
begin

text \<open>
  The control plane of \<^verbatim>\<open>src/src/crypto/control\<close>: the audit log (\<^verbatim>\<open>audit.py\<close>), the
  PIN authentication (\<^verbatim>\<open>auth.py\<close>) and \<open>ControlPlane\<close> (\<^verbatim>\<open>plane.py\<close>). The key
  derivation is the parameter \<open>kdf\<close>, the random salt and the clocks are arguments, the snapshot of
  the host application is a parameter. The dash in a message of the source is a minus sign here.
\<close>

section \<open>Audit log\<close>

record control_entry =
  ce_timestamp_ms :: int
  ce_actor :: string
  ce_action :: string
  ce_result :: string
  ce_detail :: string

record control_audit =
  ca_max :: int
  ca_entries :: "control_entry list"

definition control_tokens :: "string list" where
  "control_tokens = [''api_key'', ''api_secret'', ''telegram'', ''token'', ''password'', ''pin'', ''secret'']"

definition control_record ::
    "int \<Rightarrow> control_audit \<Rightarrow> string \<Rightarrow> string \<Rightarrow> string \<Rightarrow> string \<Rightarrow> control_audit" where
  "control_record wall a actor action res detail =
     (let es = ca_entries a @ [\<lparr>ce_timestamp_ms = wall, ce_actor = actor, ce_action = action,
                 ce_result = res, ce_detail = take 500 (redact control_tokens detail)\<rparr>]
      in a\<lparr>ca_entries := (if int (length es) > ca_max a then slice_from es ((- ca_max a) div 2) else es)\<rparr>)"

definition control_recent :: "control_audit \<Rightarrow> int \<Rightarrow> control_entry list" where
  "control_recent a n = slice_from (ca_entries a) (- n)"

section \<open>PIN authentication\<close>

record pin_config =
  max_failures :: int
  lockout_seconds :: flt
  session_timeout_seconds :: flt

definition default_pin_config :: pin_config where
  "default_pin_config = \<lparr>max_failures = 5, lockout_seconds = 300, session_timeout_seconds = 300\<rparr>"

record pin_auth =
  pin_salt :: string
  pin_verifier :: "string option"
  pin_failures :: int
  locked_until :: flt
  session_ok_until :: flt

type_synonym kdf = "string \<Rightarrow> string \<Rightarrow> string"

definition new_pin_auth :: "string \<Rightarrow> pin_auth" where
  "new_pin_auth salt = \<lparr>pin_salt = salt, pin_verifier = None, pin_failures = 0, locked_until = 0,
     session_ok_until = 0\<rparr>"

definition pin_wellformed :: "string \<Rightarrow> bool" where
  "pin_wellformed pin \<longleftrightarrow> py_isdigit pin \<and> length pin = 6"

datatype pin_error = PinError string

definition set_pin :: "kdf \<Rightarrow> string \<Rightarrow> pin_auth \<Rightarrow> string \<Rightarrow> pin_error + pin_auth" where
  "set_pin kdf salt p pin =
     (if \<not> pin_wellformed pin then Inl (PinError ''PIN must be exactly 6 digits'')
      else Inr (p\<lparr>pin_salt := salt, pin_verifier := Some (kdf pin salt), pin_failures := 0,
                  locked_until := 0\<rparr>))"

definition has_pin :: "pin_auth \<Rightarrow> bool" where
  "has_pin p \<longleftrightarrow> pin_verifier p \<noteq> None"

definition pin_fail :: "pin_config \<Rightarrow> flt \<Rightarrow> pin_auth \<Rightarrow> pin_auth" where
  "pin_fail cfg now p =
     (let p = p\<lparr>pin_failures := pin_failures p + 1\<rparr>
      in if pin_failures p \<ge> max_failures cfg
         then p\<lparr>locked_until := now + lockout_seconds cfg, pin_failures := 0\<rparr> else p)"

definition verify_pin :: "kdf \<Rightarrow> pin_config \<Rightarrow> flt \<Rightarrow> pin_auth \<Rightarrow> string \<Rightarrow> pin_auth \<times> bool" where
  "verify_pin kdf cfg now p pin =
     (if now < locked_until p then (p, False)
      else
        (case pin_verifier p of
           None \<Rightarrow> (p, False)
         | Some v \<Rightarrow>
             if \<not> pin_wellformed pin then (pin_fail cfg now p, False)
             else if kdf pin (pin_salt p) = v
             then (p\<lparr>pin_failures := 0, session_ok_until := now + session_timeout_seconds cfg\<rparr>, True)
             else (pin_fail cfg now p, False)))"

definition session_valid :: "flt \<Rightarrow> pin_auth \<Rightarrow> bool" where
  "session_valid now p \<longleftrightarrow> now < session_ok_until p"

definition revoke_session :: "pin_auth \<Rightarrow> pin_auth" where
  "revoke_session p = p\<lparr>session_ok_until := 0\<rparr>"

definition export_verifier :: "pin_auth \<Rightarrow> (string \<times> string) option" where
  "export_verifier p = map_option (\<lambda>v. (pin_salt p, v)) (pin_verifier p)"

definition import_verifier :: "pin_auth \<Rightarrow> string \<Rightarrow> string \<Rightarrow> pin_auth" where
  "import_verifier p salt v = p\<lparr>pin_salt := salt, pin_verifier := Some v\<rparr>"

section \<open>Control plane\<close>

datatype command_result = OK_R | DENIED | AUTH_REQUIRED | LOCKED | UNAVAILABLE | INVALID_R

record control_response =
  cr_result :: command_result
  cr_message :: string
  cr_data :: pyval

record control_plane =
  cp_pin :: pin_auth
  cp_pin_config :: pin_config
  cp_policy :: risk_policy
  trading_mode :: execution_mode
  emergency_stop :: bool
  cp_safety :: safety_mode
  cashout_daily_limit :: flt
  cashout_used_today :: flt
  authorized_chats :: "string set"
  cp_audit :: control_audit

definition PASSIVE_COMMANDS :: "string list" where
  "PASSIVE_COMMANDS = [''saldo'', ''portfolio'', ''positions'', ''orders'', ''ml_status'',
     ''opportunities'', ''system_health'', ''risk_status'', ''recovery_status'', ''settings_view'']"

definition CRITICAL_COMMANDS :: "string list" where
  "CRITICAL_COMMANDS = [''emergency_stop'', ''cashout'', ''set_mode_live'', ''set_mode_paper'',
     ''settings_change'']"

definition response :: "command_result \<Rightarrow> string \<Rightarrow> control_response" where
  "response r msg = \<lparr>cr_result = r, cr_message = msg, cr_data = PyDict []\<rparr>"

text \<open>
  What one dispatch reads: the key derivation, the clocks, the host snapshot, rendering of numbers
  and parsing of numerals.
\<close>

record control_env =
  co_kdf :: kdf
  co_now :: flt
  co_wall :: int
  co_snapshot :: "pydict option"
  co_show :: "flt \<Rightarrow> string"
  co_parse :: "string \<Rightarrow> flt option"

definition log_control ::
    "control_env \<Rightarrow> control_plane \<Rightarrow> string \<Rightarrow> string \<Rightarrow> string \<Rightarrow> string \<Rightarrow> control_plane" where
  "log_control e cp actor action res detail =
     cp\<lparr>cp_audit := control_record (co_wall e) (cp_audit cp) actor action res detail\<rparr>"

definition authorize_chat :: "control_env \<Rightarrow> control_plane \<Rightarrow> string \<Rightarrow> control_plane" where
  "authorize_chat e cp chat =
     log_control e (cp\<lparr>authorized_chats := insert chat (authorized_chats cp)\<rparr>)
       ''system'' ''authorize_chat'' ''ok'' (''chat='' @ chat)"

definition is_authorized_chat :: "control_plane \<Rightarrow> string \<Rightarrow> bool" where
  "is_authorized_chat cp chat \<longleftrightarrow> chat \<in> authorized_chats cp"

fun safety_name :: "safety_mode \<Rightarrow> string" where
  "safety_name NORMAL = ''NORMAL''"
| "safety_name WARNING = ''WARNING''"
| "safety_name BLOCK_NEW_ENTRIES = ''BLOCK_NEW_ENTRIES''"
| "safety_name REDUCE_ONLY = ''REDUCE_ONLY''"
| "safety_name EMERGENCY_STOP = ''EMERGENCY_STOP''"

definition collect_snapshot :: "control_env \<Rightarrow> control_plane \<Rightarrow> pydict" where
  "collect_snapshot e cp =
     (case co_snapshot e of
        Some d \<Rightarrow> d
      | None \<Rightarrow>
          [(''saldo'', PyDict [(''available'', PyNum 0), (''equity'', PyNum 0)]),
           (''portfolio'', PyDict []),
           (''risk_status'', PyDict [(''safety_mode'', PyStr (safety_name (cp_safety cp))),
              (''emergency_stop'', PyBool (emergency_stop cp)),
              (''max_position_pct'', PyNum (max_position_pct (cp_policy cp)))]),
           (''system_health'', PyDict []),
           (''trading_mode'', PyStr (mode_name (trading_mode cp)))])"

definition dispatch_passive ::
    "control_env \<Rightarrow> control_plane \<Rightarrow> string \<Rightarrow> string \<Rightarrow> control_response \<times> control_plane" where
  "dispatch_passive e cp cmd actor =
     (let snap = collect_snapshot e cp
      in (\<lparr>cr_result = OK_R, cr_message = cmd,
           cr_data = (case map_of snap cmd of Some v \<Rightarrow> v | None \<Rightarrow> PyDict snap)\<rparr>,
          log_control e cp actor cmd ''ok'' []))"

definition do_emergency_stop ::
    "control_env \<Rightarrow> control_plane \<Rightarrow> string \<Rightarrow> control_response \<times> control_plane" where
  "do_emergency_stop e cp actor =
     (\<lparr>cr_result = OK_R, cr_message = ''EMERGENCY STOP active - new entries blocked'',
       cr_data = PyDict [(''safety_mode'', PyStr (safety_name EMERGENCY_STOP))]\<rparr>,
      log_control e (cp\<lparr>emergency_stop := True, cp_safety := EMERGENCY_STOP\<rparr>) actor
        ''emergency_stop'' ''ok'' [])"

text \<open>\<open>float(params.get(k) or 0)\<close>; \<open>None\<close> where it raises.\<close>

definition param_number :: "control_env \<Rightarrow> pydict \<Rightarrow> string \<Rightarrow> flt option" where
  "param_number e params k = py_float (co_parse e) (py_or (dget params k) (PyNum 0))"

datatype dispatch_error = ParamError

definition do_cashout ::
    "control_env \<Rightarrow> control_plane \<Rightarrow> string \<Rightarrow> pydict \<Rightarrow>
     (dispatch_error + control_response) \<times> control_plane" where
  "do_cashout e cp actor params =
     (case param_number e params ''amount'' of
        None \<Rightarrow> (Inl ParamError, cp)
      | Some amount \<Rightarrow>
          if amount \<le> 0
          then (Inr (response INVALID_R ''invalid amount''),
                log_control e cp actor ''cashout'' ''invalid'' ''bad amount'')
          else
            (case param_number e params ''available_balance'' of
               None \<Rightarrow> (Inl ParamError, cp)
             | Some available \<Rightarrow>
                 if amount > available
                 then (Inr (response DENIED ''insufficient balance''),
                       log_control e cp actor ''cashout'' ''denied'' ''insufficient'')
                 else if cashout_daily_limit cp > 0 \<and>
                   cashout_used_today cp + amount > cashout_daily_limit cp
                 then (Inr (response DENIED ''daily cashout limit''),
                       log_control e cp actor ''cashout'' ''denied'' ''daily limit'')
                 else if \<not> truthy (dget params ''withdrawal_supported'')
                 then (Inr (response UNAVAILABLE ''WITHDRAWAL_REQUIRES_MANUAL_AUTHORIZATION''),
                       log_control e cp actor ''cashout'' ''unavailable'' [])
                 else if \<not> truthy (dget params ''confirmed'')
                 then (Inr (response AUTH_REQUIRED ''confirmation required''), cp)
                 else (Inr (response OK_R ''cashout submitted for verification''),
                       log_control e (cp\<lparr>cashout_used_today := cashout_used_today cp + amount\<rparr>)
                         actor ''cashout'' ''ok'' (''amount='' @ co_show e amount))))"

text \<open>The commands after authentication.\<close>

definition run_critical ::
    "control_env \<Rightarrow> control_plane \<Rightarrow> string \<Rightarrow> string \<Rightarrow> pydict \<Rightarrow>
     (dispatch_error + control_response) \<times> control_plane" where
  "run_critical e cp cmd actor params =
     (if cmd = ''emergency_stop''
      then (case do_emergency_stop e cp actor of (r, cp) \<Rightarrow> (Inr r, cp))
      else if cmd = ''cashout'' then do_cashout e cp actor params
      else if cmd = ''set_mode_live''
      then (Inr (response OK_R ''mode set to LIVE''),
            log_control e (cp\<lparr>trading_mode := LIVE\<rparr>) actor cmd ''ok'' ''mode=LIVE'')
      else if cmd = ''set_mode_paper''
      then (Inr (response OK_R ''mode set to PAPER''),
            log_control e (cp\<lparr>trading_mode := PAPER\<rparr>) actor cmd ''ok'' ''mode=PAPER'')
      else if cmd = ''settings_change''
      then (Inr (response OK_R ''settings accepted''), log_control e cp actor cmd ''ok'' [])
      else (Inr (response INVALID_R ''unknown critical''), cp))"

definition dispatch_critical ::
    "control_env \<Rightarrow> control_plane \<Rightarrow> string \<Rightarrow> string \<Rightarrow> string option \<Rightarrow> pydict \<Rightarrow>
     (dispatch_error + control_response) \<times> control_plane" where
  "dispatch_critical e cp cmd actor pin params =
     (if \<not> has_pin (cp_pin cp) \<or> session_valid (co_now e) (cp_pin cp)
      then run_critical e cp cmd actor params
      else
        (case pin of
           None \<Rightarrow> (Inr (response AUTH_REQUIRED ''PIN required for critical command''),
                    log_control e cp actor cmd ''auth_required'' [])
         | Some s \<Rightarrow>
             (case verify_pin (co_kdf e) (cp_pin_config cp) (co_now e) (cp_pin cp) s of
                (p, ok) \<Rightarrow>
                  (let cp = cp\<lparr>cp_pin := p\<rparr>
                   in if ok then run_critical e cp cmd actor params
                      else if co_now e < locked_until p
                      then (Inr (response LOCKED ''PIN locked out''),
                            log_control e cp actor cmd ''locked'' [])
                      else (Inr (response DENIED ''invalid PIN''),
                            log_control e cp actor cmd ''denied'' ''bad pin'')))))"

definition dispatch ::
    "control_env \<Rightarrow> control_plane \<Rightarrow> string \<Rightarrow> string \<Rightarrow> string option \<Rightarrow> string option \<Rightarrow> pydict \<Rightarrow>
     (dispatch_error + control_response) \<times> control_plane" where
  "dispatch e cp command actor chat pin params =
     (let cmd = py_lower (py_strip command)
      in if cmd \<notin> set PASSIVE_COMMANDS \<and> cmd \<notin> set CRITICAL_COMMANDS
         then (Inr (response INVALID_R ''unknown command''),
               log_control e cp actor cmd ''invalid'' ''unknown command'')
         else if (case chat of None \<Rightarrow> False | Some c \<Rightarrow> \<not> is_authorized_chat cp c)
         then (Inr (response DENIED ''unauthorized''),
               log_control e cp actor cmd ''denied'' ''unauthorized chat'')
         else if cmd \<in> set CRITICAL_COMMANDS then dispatch_critical e cp cmd actor pin params
         else (case dispatch_passive e cp cmd actor of (r, cp) \<Rightarrow> (Inr r, cp)))"

definition risk_policy_fingerprint :: "control_plane \<Rightarrow> flt \<times> flt \<times> flt \<times> int" where
  "risk_policy_fingerprint cp =
     (max_position_pct (cp_policy cp), max_daily_loss_pct (cp_policy cp),
      max_drawdown_pct (cp_policy cp), max_concurrent_positions (cp_policy cp))"

section \<open>Lemmas\<close>

lemma log_control_frames [frames, simp]:
  "cp_pin (log_control e cp a b c d) = cp_pin cp"
  "cp_pin_config (log_control e cp a b c d) = cp_pin_config cp"
  "cp_policy (log_control e cp a b c d) = cp_policy cp"
  "trading_mode (log_control e cp a b c d) = trading_mode cp"
  "emergency_stop (log_control e cp a b c d) = emergency_stop cp"
  "cp_safety (log_control e cp a b c d) = cp_safety cp"
  "cashout_daily_limit (log_control e cp a b c d) = cashout_daily_limit cp"
  "cashout_used_today (log_control e cp a b c d) = cashout_used_today cp"
  "authorized_chats (log_control e cp a b c d) = authorized_chats cp"
  by (simp_all add: log_control_def)

text \<open>The authority of a plane: everything a command can change that matters to trading.\<close>

definition authority :: "control_plane \<Rightarrow> execution_mode \<times> bool \<times> safety_mode \<times> flt" where
  "authority cp = (trading_mode cp, emergency_stop cp, cp_safety cp, cashout_used_today cp)"

lemma authority_log [simp]: "authority (log_control e cp a b c d) = authority cp"
  by (simp add: authority_def)

lemma authority_pin [simp]: "authority (cp\<lparr>cp_pin := p\<rparr>) = authority cp"
  by (simp add: authority_def)

lemma response_simps [simp]: "cr_result (response r m) = r" "cr_message (response r m) = m"
  by (simp_all add: response_def)

lemma verify_pin_ok:
  "verify_pin kdf cfg now p pin = (p', True) \<Longrightarrow>
   \<not> now < locked_until p \<and> pin_wellformed pin \<and> pin_verifier p = Some (kdf pin (pin_salt p))"
  by (auto simp: verify_pin_def split: if_splits option.splits)

text \<open>A critical command changes the authority only after authentication.\<close>

lemma dispatch_critical_authority:
  assumes "authority (snd (dispatch_critical e cp cmd actor pin params)) \<noteq> authority cp"
  shows "\<not> has_pin (cp_pin cp) \<or> session_valid (co_now e) (cp_pin cp) \<or>
    (\<exists>s. pin = Some s \<and> pin_wellformed s \<and> \<not> co_now e < locked_until (cp_pin cp) \<and>
       pin_verifier (cp_pin cp) = Some (co_kdf e s (pin_salt (cp_pin cp))))"
proof (rule ccontr)
  assume no: "\<not> ?thesis"
  then have "has_pin (cp_pin cp)" "\<not> session_valid (co_now e) (cp_pin cp)" by auto
  moreover have "\<not> snd (verify_pin (co_kdf e) (cp_pin_config cp) (co_now e) (cp_pin cp) s)"
    if "pin = Some s" for s
    using no that verify_pin_ok [of "co_kdf e" "cp_pin_config cp" "co_now e" "cp_pin cp" s]
    by (cases "verify_pin (co_kdf e) (cp_pin_config cp) (co_now e) (cp_pin cp) s") auto
  ultimately have "authority (snd (dispatch_critical e cp cmd actor pin params)) = authority cp"
    by (auto simp: dispatch_critical_def Let_def split: option.splits prod.splits)
  with assms show False by contradiction
qed

lemma run_critical_used:
  "cashout_used_today (snd (run_critical e cp cmd actor params)) = cashout_used_today cp \<or>
   (cashout_used_today cp < cashout_used_today (snd (run_critical e cp cmd actor params)) \<and>
    (0 < cashout_daily_limit cp \<longrightarrow>
       cashout_used_today (snd (run_critical e cp cmd actor params)) \<le> cashout_daily_limit cp))"
  by (auto simp: run_critical_def do_emergency_stop_def do_cashout_def not_le not_less
      split: option.splits)

lemma run_critical_frame [frames]:
  "cashout_daily_limit (snd (run_critical e cp cmd actor params)) = cashout_daily_limit cp"
  "cp_policy (snd (run_critical e cp cmd actor params)) = cp_policy cp"
  "authorized_chats (snd (run_critical e cp cmd actor params)) = authorized_chats cp"
  by (auto simp: run_critical_def do_emergency_stop_def do_cashout_def split: option.splits)

lemma dispatch_cases:
  obtains (quiet) "authority (snd (dispatch e cp command actor chat pin params)) = authority cp"
    "cashout_daily_limit (snd (dispatch e cp command actor chat pin params)) = cashout_daily_limit cp"
    "cp_policy (snd (dispatch e cp command actor chat pin params)) = cp_policy cp"
    "authorized_chats (snd (dispatch e cp command actor chat pin params)) = authorized_chats cp"
  | (critical) "py_lower (py_strip command) \<in> set CRITICAL_COMMANDS"
    "case chat of None \<Rightarrow> True | Some c \<Rightarrow> c \<in> authorized_chats cp"
    "dispatch e cp command actor chat pin params =
       dispatch_critical e cp (py_lower (py_strip command)) actor pin params"
proof (cases "py_lower (py_strip command) \<in> set CRITICAL_COMMANDS \<and>
    (case chat of None \<Rightarrow> True | Some c \<Rightarrow> c \<in> authorized_chats cp)")
  case True
  then have "dispatch e cp command actor chat pin params =
       dispatch_critical e cp (py_lower (py_strip command)) actor pin params"
    by (auto simp: dispatch_def Let_def is_authorized_chat_def split: option.splits)
  with True critical show thesis by blast
next
  case False
  then have "authority (snd (dispatch e cp command actor chat pin params)) = authority cp \<and>
      cashout_daily_limit (snd (dispatch e cp command actor chat pin params)) = cashout_daily_limit cp \<and>
      cp_policy (snd (dispatch e cp command actor chat pin params)) = cp_policy cp \<and>
      authorized_chats (snd (dispatch e cp command actor chat pin params)) = authorized_chats cp"
    by (auto simp: dispatch_def Let_def is_authorized_chat_def dispatch_passive_def split: option.splits)
  with quiet show thesis by blast
qed

lemma dispatch_critical_frame [frames]:
  "cashout_daily_limit (snd (dispatch_critical e cp cmd actor pin params)) = cashout_daily_limit cp"
  "cp_policy (snd (dispatch_critical e cp cmd actor pin params)) = cp_policy cp"
  by (auto simp: dispatch_critical_def Let_def frames split: option.splits prod.splits)

lemma dispatch_critical_used:
  "cashout_used_today (snd (dispatch_critical e cp cmd actor pin params)) = cashout_used_today cp \<or>
   (cashout_used_today cp < cashout_used_today (snd (dispatch_critical e cp cmd actor pin params)) \<and>
    (0 < cashout_daily_limit cp \<longrightarrow>
       cashout_used_today (snd (dispatch_critical e cp cmd actor pin params)) \<le> cashout_daily_limit cp))"
proof -
  have *: "cashout_used_today (snd (run_critical e (cp\<lparr>cp_pin := p\<rparr>) cmd actor params)) = cashout_used_today cp \<or>
   (cashout_used_today cp < cashout_used_today (snd (run_critical e (cp\<lparr>cp_pin := p\<rparr>) cmd actor params)) \<and>
    (0 < cashout_daily_limit cp \<longrightarrow>
       cashout_used_today (snd (run_critical e (cp\<lparr>cp_pin := p\<rparr>) cmd actor params)) \<le> cashout_daily_limit cp))" for p
    using run_critical_used [of e "cp\<lparr>cp_pin := p\<rparr>" cmd actor params] by simp
  show ?thesis
    using run_critical_used [of e cp cmd actor params] *
    by (auto simp: dispatch_critical_def Let_def split: option.splits prod.splits)
qed

section \<open>Properties\<close>

definition demo_control :: "string option \<Rightarrow> control_plane" where
  "demo_control v = \<lparr>cp_pin = (new_pin_auth ''s'')\<lparr>pin_verifier := v\<rparr>, cp_pin_config = default_pin_config,
     cp_policy = default_policy, trading_mode = PAPER, emergency_stop = False, cp_safety = NORMAL,
     cashout_daily_limit = 100, cashout_used_today = 90, authorized_chats = {''42''},
     cp_audit = \<lparr>ca_max = 500, ca_entries = []\<rparr>\<rparr>"

definition demo_control_env :: control_env where
  "demo_control_env = \<lparr>co_kdf = (\<lambda>pin salt. pin @ salt), co_now = 10, co_wall = 0, co_snapshot = None,
     co_show = (\<lambda>_. ''n''), co_parse = (\<lambda>_. None)\<rparr>"

lemma demo_live_switch:
  "trading_mode (snd (dispatch demo_control_env (demo_control (Some ''123456s'')) '' SET_MODE_LIVE ''
     ''gui'' (Some ''42'') (Some ''123456'') [])) = LIVE"
  by code_simp

text \<open>What a critical command may change, by its name.\<close>

definition command_effect ::
    "string \<Rightarrow> execution_mode \<times> bool \<times> safety_mode \<times> flt \<Rightarrow> execution_mode \<times> bool \<times> safety_mode \<times> flt \<Rightarrow> bool"
  where
  "command_effect cmd a a' =
     (case a of (m, stop, sm, used) \<Rightarrow>
        cmd = ''emergency_stop'' \<and> a' = (m, True, EMERGENCY_STOP, used) \<or>
        cmd = ''set_mode_live'' \<and> a' = (LIVE, stop, sm, used) \<or>
        cmd = ''set_mode_paper'' \<and> a' = (PAPER, stop, sm, used) \<or>
        cmd = ''cashout'' \<and> (\<exists>used'. used < used' \<and> a' = (m, stop, sm, used')))"

lemma run_critical_effect:
  "authority (snd (run_critical e cp cmd actor params)) = authority cp \<or>
   command_effect cmd (authority cp) (authority (snd (run_critical e cp cmd actor params)))"
  by (auto simp: run_critical_def do_emergency_stop_def do_cashout_def authority_def command_effect_def
      not_le split: option.splits)

lemma dispatch_critical_effect:
  "authority (snd (dispatch_critical e cp cmd actor pin params)) = authority cp \<or>
   command_effect cmd (authority cp) (authority (snd (dispatch_critical e cp cmd actor pin params)))"
proof -
  have "authority (snd (run_critical e (cp\<lparr>cp_pin := p\<rparr>) cmd actor params)) = authority cp \<or>
     command_effect cmd (authority cp) (authority (snd (run_critical e (cp\<lparr>cp_pin := p\<rparr>) cmd actor params)))"
    for p using run_critical_effect [of e "cp\<lparr>cp_pin := p\<rparr>" cmd actor params] by simp
  then show ?thesis
    using run_critical_effect [of e cp cmd actor params]
    by (auto simp: dispatch_critical_def Let_def split: option.splits prod.splits)
qed

text \<open>C13: Once a PIN is set, a command that changes the trading mode, the emergency stop, the safety
  mode or the cash-out total is one of the critical commands, names an authorized chat if it names a
  chat, and is authenticated by a running session or by the right PIN outside a lockout; and it changes
  exactly what its name says: the stop is set and never lifted, the mode becomes the one asked for, or
  the cash-out total rises.\<close>

theorem authority_needs_authentication:
  assumes "has_pin (cp_pin cp)"
    and "authority (snd (dispatch e cp command actor chat pin params)) \<noteq> authority cp"
  shows "py_lower (py_strip command) \<in> set CRITICAL_COMMANDS \<and>
    (case chat of None \<Rightarrow> True | Some c \<Rightarrow> c \<in> authorized_chats cp) \<and>
    (session_valid (co_now e) (cp_pin cp) \<or>
      (\<exists>s. pin = Some s \<and> pin_wellformed s \<and> \<not> co_now e < locked_until (cp_pin cp) \<and>
         pin_verifier (cp_pin cp) = Some (co_kdf e s (pin_salt (cp_pin cp))))) \<and>
    command_effect (py_lower (py_strip command)) (authority cp)
      (authority (snd (dispatch e cp command actor chat pin params)))"
proof (cases rule: dispatch_cases [of e cp command actor chat pin params])
  case quiet
  with assms(2) show ?thesis by simp
next
  case critical
  with assms dispatch_critical_authority dispatch_critical_effect show ?thesis by metis
qed

theorem authority_needs_authentication_witness:
  "\<exists>s. pin_verifier (cp_pin (demo_control (Some ''123456s''))) = Some (co_kdf demo_control_env s ''s'')"
proof -
  have "authority (snd (dispatch demo_control_env (demo_control (Some ''123456s'')) '' SET_MODE_LIVE ''
     ''gui'' (Some ''42'') (Some ''123456'') [])) \<noteq> authority (demo_control (Some ''123456s''))"
    using demo_live_switch by (simp add: authority_def demo_control_def)
  from authority_needs_authentication [OF _ this] show ?thesis
    by (auto simp: demo_control_def new_pin_auth_def has_pin_def session_valid_def demo_control_env_def)
qed

text \<open>Without a PIN, which is how a plane starts, the critical commands ask for nothing.\<close>

theorem no_pin_no_authentication:
  assumes "\<not> has_pin (cp_pin cp)"
  shows "trading_mode (snd (dispatch e cp ''set_mode_live'' actor None None [])) = LIVE"
proof -
  have "py_lower (py_strip ''set_mode_live'') = ''set_mode_live''" by code_simp
  moreover have "''set_mode_live'' \<in> set CRITICAL_COMMANDS" by (simp add: CRITICAL_COMMANDS_def)
  ultimately show ?thesis using assms
    by (simp add: dispatch_def Let_def dispatch_critical_def run_critical_def)
qed

theorem no_pin_no_authentication_witness:
  "trading_mode (snd (dispatch demo_control_env (demo_control None) ''set_mode_live'' ''gui'' None None [])) = LIVE"
  by (rule no_pin_no_authentication) (simp add: demo_control_def has_pin_def new_pin_auth_def)

inductive control_step :: "control_plane \<Rightarrow> control_plane \<Rightarrow> bool" where
  cp_dispatch: "control_step cp (snd (dispatch e cp command actor chat pin params))"
| cp_authorize: "control_step cp (authorize_chat e cp chat)"

lemma control_step_used:
  assumes "control_step cp cp'"
  shows "cashout_daily_limit cp' = cashout_daily_limit cp \<and> cp_policy cp' = cp_policy cp \<and>
    cashout_used_today cp \<le> cashout_used_today cp' \<and>
    (0 < cashout_daily_limit cp \<longrightarrow> cashout_used_today cp \<le> cashout_daily_limit cp \<longrightarrow>
       cashout_used_today cp' \<le> cashout_daily_limit cp)"
  using assms
proof cases
  case (cp_dispatch e command actor chat pin params)
  show ?thesis
  proof (cases rule: dispatch_cases [of e cp command actor chat pin params])
    case quiet
    then show ?thesis by (simp add: cp_dispatch authority_def)
  next
    case critical
    have "cashout_daily_limit cp' = cashout_daily_limit cp" "cp_policy cp' = cp_policy cp"
      unfolding cp_dispatch critical(3) by (simp_all add: dispatch_critical_frame)
    with dispatch_critical_used [of e cp "py_lower (py_strip command)" actor pin params] show ?thesis
      unfolding cp_dispatch critical(3) by auto
  qed
next
  case (cp_authorize e chat)
  then show ?thesis by (simp add: authorize_chat_def)
qed

text \<open>C14: Over any sequence of commands and chat authorizations the cash-out total never falls; a
  positive daily limit that held at the start holds at the end (a limit of zero or less means no limit
  in this code); and neither the limit nor the risk policy ever changes.\<close>

theorem cashout_stays_within_limit:
  assumes "control_step\<^sup>*\<^sup>* cp cp'"
  shows "cashout_used_today cp \<le> cashout_used_today cp' \<and>
    (0 < cashout_daily_limit cp \<and> cashout_used_today cp \<le> cashout_daily_limit cp \<longrightarrow>
       cashout_used_today cp' \<le> cashout_daily_limit cp') \<and>
    cashout_daily_limit cp' = cashout_daily_limit cp \<and> cp_policy cp' = cp_policy cp"
  using assms
proof (induction rule: rtranclp_induct)
  case base
  show ?case by simp
next
  case (step u v)
  with control_step_used [OF step(2)] show ?case by auto
qed

definition demo_cashout :: pydict where
  "demo_cashout = [(''amount'', PyNum 20), (''available_balance'', PyNum 1000),
     (''withdrawal_supported'', PyBool True), (''confirmed'', PyBool True)]"

theorem cashout_stays_within_limit_witness:
  "cashout_used_today (snd (dispatch demo_control_env (demo_control None) ''cashout'' ''gui'' None None
     demo_cashout)) \<le> 100"
proof -
  have "control_step\<^sup>*\<^sup>* (demo_control None) (snd (dispatch demo_control_env (demo_control None)
      ''cashout'' ''gui'' None None demo_cashout))"
    by (rule r_into_rtranclp) (rule cp_dispatch)
  from cashout_stays_within_limit [OF this] show ?thesis by (simp add: demo_control_def)
qed

text \<open>During a lockout without a session even the emergency stop is refused: whatever PIN is
  given, the right one included, no critical command has any effect on the authority.\<close>

theorem lockout_blocks_emergency_stop:
  assumes "has_pin (cp_pin cp)" and "co_now e < locked_until (cp_pin cp)"
    and "\<not> session_valid (co_now e) (cp_pin cp)"
  shows "authority (snd (dispatch e cp ''emergency_stop'' actor chat pin params)) = authority cp"
proof (rule ccontr)
  assume "authority (snd (dispatch e cp ''emergency_stop'' actor chat pin params)) \<noteq> authority cp"
  with assms dispatch_critical_authority show False
    by (cases rule: dispatch_cases [of e cp "''emergency_stop''" actor chat pin params]) force+
qed

theorem lockout_blocks_emergency_stop_witness:
  "emergency_stop (snd (dispatch demo_control_env
     ((demo_control (Some ''123456s''))\<lparr>cp_pin := (new_pin_auth ''s'')\<lparr>pin_verifier := Some ''123456s'', locked_until := 20\<rparr>\<rparr>)
     ''emergency_stop'' ''gui'' None (Some ''123456'') [])) = False"
  using lockout_blocks_emergency_stop [of "(demo_control (Some ''123456s''))\<lparr>cp_pin :=
      (new_pin_auth ''s'')\<lparr>pin_verifier := Some ''123456s'', locked_until := 20\<rparr>\<rparr>" demo_control_env
      "''gui''" None "Some ''123456''" "[]"]
  by (simp add: authority_def has_pin_def session_valid_def demo_control_def demo_control_env_def new_pin_auth_def)

end
