(* ===== verification/Production.thy ===== *)
theory Production
  imports ExecModels
begin

text \<open>
  The production package of \<^verbatim>\<open>src/src/crypto/production\<close>: the hard ceilings
  (\<^verbatim>\<open>limits.py\<close>), the canary round trip (\<^verbatim>\<open>canary.py\<close>), the kill conditions
  (\<^verbatim>\<open>kill.py\<close>), the execution profiler (\<^verbatim>\<open>profile.py\<close>) and \<open>ProductionGate\<close>
  (\<^verbatim>\<open>gates.py\<close>). A probe is not wired (\<open>None\<close>), raises (\<open>Inl\<close> the class of the
  exception) or answers; the hash of the executable is a parameter.
\<close>

section \<open>Limits\<close>

record micro_capital =
  mc_enabled :: bool
  max_order_notional :: flt
  max_total_exposure :: flt
  max_live_orders :: int
  mc_max_daily_loss :: flt
  mc_max_drawdown_pct :: flt
  mc_max_slippage_bps :: flt
  mc_max_latency_ms :: flt
  mc_max_time_skew_ms :: int

definition default_micro_capital :: micro_capital where
  "default_micro_capital = \<lparr>mc_enabled = True, max_order_notional = 15, max_total_exposure = 50,
     max_live_orders = 1, mc_max_daily_loss = 5, mc_max_drawdown_pct = 3, mc_max_slippage_bps = 50,
     mc_max_latency_ms = 3000, mc_max_time_skew_ms = 5000\<rparr>"

definition validate_micro :: "micro_capital \<Rightarrow> value_error + unit" where
  "validate_micro m =
     (if max_order_notional m \<le> 0 then Inl (ValueError ''max_order_notional must be > 0'')
      else if max_live_orders m < 1 then Inl (ValueError ''max_live_orders must be >= 1'')
      else if max_order_notional m > 500
      then Inl (ValueError ''hard ceiling: max_order_notional cannot exceed 500 in canary'')
      else if max_total_exposure m > 2000
      then Inl (ValueError ''hard ceiling: max_total_exposure cannot exceed 2000 in canary'')
      else Inr ())"

definition clamp_to_hard_ceiling :: "micro_capital \<Rightarrow> micro_capital" where
  "clamp_to_hard_ceiling m =
     m\<lparr>max_order_notional := min (max_order_notional m) 500,
       max_total_exposure := min (max_total_exposure m) 2000,
       max_live_orders := min (max_live_orders m) 3\<rparr>"

section \<open>Canary\<close>

datatype canary_phase =
    C_IDLE | BUY_PENDING | BUY_FILLED | HOLDING | SELL_PENDING | SELL_FILLED | RECONCILED
  | C_FAILED | C_BLOCKED

record canary =
  ca_phase :: canary_phase
  buy_execution_id :: "string option"
  sell_execution_id :: "string option"
  buy_filled :: bool
  sell_filled :: bool
  ca_reconciled :: bool
  ca_last_error :: string
  ca_events :: "string list"

definition new_canary :: canary where
  "new_canary = \<lparr>ca_phase = C_IDLE, buy_execution_id = None, sell_execution_id = None,
     buy_filled = False, sell_filled = False, ca_reconciled = False, ca_last_error = [], ca_events = []\<rparr>"

definition canary_note :: "canary \<Rightarrow> string \<Rightarrow> canary" where
  "canary_note c ev = c\<lparr>ca_events := ca_events c @ [ev]\<rparr>"

definition canary_fail :: "canary \<Rightarrow> string \<Rightarrow> canary" where
  "canary_fail c why =
     canary_note (c\<lparr>ca_phase := C_FAILED, ca_last_error := why\<rparr>) (''FAILED:'' @ why)"

definition mark_buy_submitted :: "canary \<Rightarrow> string \<Rightarrow> canary" where
  "mark_buy_submitted c eid =
     canary_note (c\<lparr>buy_execution_id := Some eid, ca_phase := BUY_PENDING\<rparr>) ''buy_submitted''"

definition mark_buy_filled :: "canary \<Rightarrow> canary" where
  "mark_buy_filled c =
     canary_note ((canary_note (c\<lparr>buy_filled := True, ca_phase := BUY_FILLED\<rparr>) ''buy_filled'')
       \<lparr>ca_phase := HOLDING\<rparr>) ''holding''"

definition mark_sell_submitted :: "canary \<Rightarrow> string \<Rightarrow> canary" where
  "mark_sell_submitted c eid =
     canary_note (c\<lparr>sell_execution_id := Some eid, ca_phase := SELL_PENDING\<rparr>) ''sell_submitted''"

definition mark_sell_filled :: "canary \<Rightarrow> canary" where
  "mark_sell_filled c =
     canary_note (c\<lparr>sell_filled := True, ca_phase := SELL_FILLED\<rparr>) ''sell_filled''"

definition mark_reconciled :: "canary \<Rightarrow> canary" where
  "mark_reconciled c =
     (if buy_filled c \<and> sell_filled c
      then canary_note (c\<lparr>ca_reconciled := True, ca_phase := RECONCILED\<rparr>) ''reconciled''
      else canary_fail c ''reconcile_incomplete'')"

definition round_trip_ok :: "canary \<Rightarrow> bool" where
  "round_trip_ok c \<longleftrightarrow> ca_phase c = RECONCILED \<and> ca_reconciled c"

section \<open>Kill conditions\<close>

datatype kill_action = NO_ACTION | BLOCK_ENTRIES | ENTER_SAFE_MODE

fun action_value :: "kill_action \<Rightarrow> nat" where
  "action_value NO_ACTION = 1"
| "action_value BLOCK_ENTRIES = 2"
| "action_value ENTER_SAFE_MODE = 3"

text \<open>The comparison of the enumeration values, as the order of the type.\<close>

instantiation kill_action :: linorder
begin

definition less_eq_kill_action :: "kill_action \<Rightarrow> kill_action \<Rightarrow> bool" where
  "less_eq_kill_action a b \<longleftrightarrow> action_value a \<le> action_value b"

definition less_kill_action :: "kill_action \<Rightarrow> kill_action \<Rightarrow> bool" where
  "less_kill_action a b \<longleftrightarrow> action_value a < action_value b"

instance
proof
  fix a b :: kill_action
  assume "a \<le> b" and "b \<le> a"
  then show "a = b" by (cases a; cases b) (simp_all add: less_eq_kill_action_def)
qed (auto simp: less_eq_kill_action_def less_kill_action_def)

end

record kill_switch =
  ks_daily_loss :: flt
  ks_max_daily_loss :: flt
  ks_drawdown_pct :: flt
  ks_max_drawdown_pct :: flt
  exchange_rejections :: int
  max_rejections :: int
  slippage_bps :: flt
  ks_max_slippage_bps :: flt
  stale_data :: bool
  recon_mismatch :: bool
  permission_mismatch :: bool
  time_sync_fail :: bool
  db_integrity_fail :: bool
  recovery_storm :: bool
  resource_critical :: bool
  latency_ms :: flt
  ks_max_latency_ms :: flt

text \<open>The conditions in the order of the code: name, hit and the action of a hit.\<close>

definition kill_triggers :: "kill_switch \<Rightarrow> (string \<times> bool \<times> kill_action) list" where
  "kill_triggers k =
     [(''daily_loss'', ks_daily_loss k \<ge> ks_max_daily_loss k, ENTER_SAFE_MODE),
      (''drawdown'', ks_drawdown_pct k \<ge> ks_max_drawdown_pct k, ENTER_SAFE_MODE),
      (''rejections'', exchange_rejections k \<ge> max_rejections k, BLOCK_ENTRIES),
      (''slippage'', slippage_bps k \<ge> ks_max_slippage_bps k, BLOCK_ENTRIES),
      (''stale_data'', stale_data k, BLOCK_ENTRIES),
      (''recon_mismatch'', recon_mismatch k, ENTER_SAFE_MODE),
      (''permission'', permission_mismatch k, ENTER_SAFE_MODE),
      (''time_sync'', time_sync_fail k, BLOCK_ENTRIES),
      (''db_integrity'', db_integrity_fail k, ENTER_SAFE_MODE),
      (''recovery_storm'', recovery_storm k, ENTER_SAFE_MODE),
      (''resource'', resource_critical k, BLOCK_ENTRIES),
      (''latency'', latency_ms k \<ge> ks_max_latency_ms k, BLOCK_ENTRIES)]"

definition trig ::
    "(string \<times> bool \<times> kill_action) list \<times> kill_action \<Rightarrow> string \<times> bool \<times> kill_action \<Rightarrow>
     (string \<times> bool \<times> kill_action) list \<times> kill_action" where
  "trig acc t =
     (case (acc, t) of ((cs, action), (name, hit, act)) \<Rightarrow>
        (cs @ [(name, hit, if hit then act else NO_ACTION)],
         if hit \<and> act > action then act else action))"

definition kill_evaluate ::
    "kill_switch \<Rightarrow> (string \<times> bool \<times> kill_action) list \<times> kill_action" where
  "kill_evaluate k = foldl trig ([], NO_ACTION) (kill_triggers k)"

section \<open>Profiler\<close>

record profile_sample =
  ps_slippage_bps :: flt
  ps_latency_ms :: flt
  ps_rejected :: bool
  ps_mode :: string

record profiler =
  samples :: "profile_sample list"
  max_samples :: int

definition profiler_record :: "profiler \<Rightarrow> profile_sample \<Rightarrow> profiler" where
  "profiler_record p s =
     (let ss = samples p @ [s]
      in p\<lparr>samples := (if int (length ss) > max_samples p then slice_from ss (- max_samples p) else ss)\<rparr>)"

definition live_samples :: "profiler \<Rightarrow> profile_sample list" where
  "live_samples p = filter (\<lambda>s. ps_mode s = ''LIVE'' \<and> \<not> ps_rejected s) (samples p)"

definition mean_of :: "(profile_sample \<Rightarrow> flt) \<Rightarrow> profiler \<Rightarrow> flt option" where
  "mean_of f p =
     (if live_samples p = [] then None
      else Some (sum_list (map f (live_samples p)) / of_nat (length (live_samples p))))"

definition exceeds_safety :: "profiler \<Rightarrow> flt \<Rightarrow> flt \<Rightarrow> int \<Rightarrow> bool" where
  "exceeds_safety p max_slip max_lat min_samples =
     (if int (length (filter (\<lambda>s. ps_mode s = ''LIVE'') (samples p))) < min_samples then False
      else if (case mean_of ps_slippage_bps p of None \<Rightarrow> False | Some x \<Rightarrow> x > max_slip) then True
      else (case mean_of ps_latency_ms p of None \<Rightarrow> False | Some x \<Rightarrow> x > max_lat))"

section \<open>Production gate\<close>

datatype gate_severity = INFO | WARNING_S | CRITICAL_S

datatype live_decision = GO | NO_GO | NOT_VERIFIED

record gate_check =
  gc_name :: string
  gc_passed :: bool
  gc_severity :: gate_severity
  gc_detail :: string

type_synonym probe = "(string + bool) option"

record production_gate =
  pg_micro :: micro_capital
  expected_build_hash :: "string option"
  build_hash :: string
  connectivity :: probe
  permissions :: "(string + pydict) option"
  db_integrity :: probe
  model_ok :: probe
  recovery_ok :: probe
  governor_ok :: probe
  risk_ok :: probe
  control_ok :: probe
  time_skew_ms :: "int option"
  max_time_skew_ms :: int
  withdrawal_status :: string
  unresolved_unknown :: bool
  reconciliation_mismatch :: bool
  emergency_stop_tested :: bool
  canary_round_trip_ok :: bool
  force_live_flag :: bool

record gate_report =
  gr_checks :: "gate_check list"
  gr_decision :: live_decision
  software_green :: bool
  production_live_verified :: bool
  gr_micro :: micro_capital
  gr_build_hash :: string

definition check :: "string \<Rightarrow> bool \<Rightarrow> gate_severity \<Rightarrow> string \<Rightarrow> gate_check" where
  "check name ok sev detail = \<lparr>gc_name = name, gc_passed = ok, gc_severity = sev, gc_detail = detail\<rparr>"

definition critical_failed :: "gate_check \<Rightarrow> bool" where
  "critical_failed c \<longleftrightarrow> \<not> gc_passed c \<and> gc_severity c = CRITICAL_S"

definition build_check :: "production_gate \<Rightarrow> gate_check" where
  "build_check g =
     (case expected_build_hash g of
        None \<Rightarrow> check ''build_hash'' True WARNING_S ''no expected hash configured (dev/CI)''
      | Some h \<Rightarrow>
          if h = [] then check ''build_hash'' True WARNING_S ''no expected hash configured (dev/CI)''
          else
            (let ok = (build_hash g \<noteq> [] \<and> build_hash g = h);
                 ok = (if force_live_flag g \<and> \<not> ok then False else ok)
             in check ''build_hash'' ok CRITICAL_S
                  (if ok then ''match'' else ''mismatch or missing (force-live ignored)'')))"

definition probe_check :: "string \<Rightarrow> probe \<Rightarrow> string \<Rightarrow> gate_check" where
  "probe_check name p failed_text =
     (case p of
        None \<Rightarrow> check name True WARNING_S ''probe not wired''
      | Some (Inl cls) \<Rightarrow> check name False CRITICAL_S cls
      | Some (Inr ok) \<Rightarrow> check name ok CRITICAL_S (if ok then ''ok'' else failed_text))"

text \<open>The permission probe: the failure check it adds, and the two statuses it finds.\<close>

definition read_permissions ::
    "(pyval \<Rightarrow> string) \<Rightarrow> production_gate \<Rightarrow> gate_check list \<times> string \<times> string" where
  "read_permissions shw g =
     (case permissions g of
        None \<Rightarrow> ([], ''UNKNOWN'', withdrawal_status g)
      | Some (Inl cls) \<Rightarrow> ([check ''permissions'' False CRITICAL_S cls], ''UNKNOWN'', withdrawal_status g)
      | Some (Inr d) \<Rightarrow>
          ([], py_upper (case map_of d ''trading'' of None \<Rightarrow> ''UNKNOWN'' | Some v \<Rightarrow> py_str shw v),
               py_upper (case map_of d ''withdrawal'' of None \<Rightarrow> withdrawal_status g
                         | Some v \<Rightarrow> py_str shw v)))"

definition permission_checks :: "(pyval \<Rightarrow> string) \<Rightarrow> production_gate \<Rightarrow> gate_check list" where
  "permission_checks shw g =
     (case read_permissions shw g of
        (failed, trading, withdrawal) \<Rightarrow>
          failed @
          [check ''trading_permission''
             (if permissions g \<noteq> None then trading \<in> {''ENABLED'', ''TRUE'', ''YES''} else True)
             (if permissions g \<noteq> None then CRITICAL_S else WARNING_S) trading,
           check ''withdrawal_disabled'' (withdrawal \<in> {''DISABLED'', ''FALSE'', ''NO''}) CRITICAL_S
             withdrawal])"

definition skew_check :: "production_gate \<Rightarrow> gate_check" where
  "skew_check g =
     (case time_skew_ms g of
        None \<Rightarrow> check ''time_sync'' True WARNING_S ''not measured''
      | Some s \<Rightarrow> check ''time_sync'' (\<bar>s\<bar> \<le> max_time_skew_ms g) CRITICAL_S (''skew_ms='' @ show_int s))"

definition live_probe_checks :: "production_gate \<Rightarrow> gate_check list" where
  "live_probe_checks g =
     map (\<lambda>(name, _). check (''live_'' @ name @ ''_probe'') False CRITICAL_S
            ''probe not wired; LIVE blocked'')
       (filter (\<lambda>(_, wired). \<not> wired)
          [(''connectivity'', connectivity g \<noteq> None), (''permissions'', permissions g \<noteq> None),
           (''time_sync'', time_skew_ms g \<noteq> None)])"

definition all_checks ::
    "(pyval \<Rightarrow> string) \<Rightarrow> production_gate \<Rightarrow> micro_capital \<Rightarrow> bool \<Rightarrow> gate_check list" where
  "all_checks shw g limits exchange_verified =
     [build_check g, probe_check ''connectivity'' (connectivity g) ''unreachable''] @
     permission_checks shw g @
     [skew_check g,
      probe_check ''database_integrity'' (db_integrity g) ''failed'',
      probe_check ''model_registry'' (model_ok g) ''failed'',
      probe_check ''recovery'' (recovery_ok g) ''failed'',
      probe_check ''governor'' (governor_ok g) ''failed'',
      probe_check ''risk_engine'' (risk_ok g) ''failed'',
      probe_check ''control_plane'' (control_ok g) ''failed'',
      check ''micro_capital_active'' (mc_enabled limits) CRITICAL_S
        (if mc_enabled limits then ''enabled'' else ''disabled''),
      check ''unresolved_unknown'' (\<not> unresolved_unknown g) CRITICAL_S
        (if unresolved_unknown g then ''present'' else ''none''),
      check ''reconciliation'' (\<not> reconciliation_mismatch g) CRITICAL_S
        (if reconciliation_mismatch g then ''mismatch'' else ''ok''),
      check ''canary_round_trip'' (canary_round_trip_ok g) CRITICAL_S
        (if canary_round_trip_ok g then ''ok'' else ''not completed''),
      check ''emergency_stop_test'' (emergency_stop_tested g) CRITICAL_S
        (if emergency_stop_tested g then ''ok'' else ''not tested'')] @
     (if exchange_verified then live_probe_checks g else [])"

definition software_critical :: "string list" where
  "software_critical = [''database_integrity'', ''model_registry'', ''recovery'', ''governor'',
     ''risk_engine'', ''control_plane'', ''micro_capital_active'', ''unresolved_unknown'',
     ''reconciliation'', ''withdrawal_disabled'']"

definition gate_evaluate_production ::
    "(pyval \<Rightarrow> string) \<Rightarrow> production_gate \<Rightarrow> bool \<Rightarrow> value_error + gate_report" where
  "gate_evaluate_production shw g exchange_verified =
     (let limits = clamp_to_hard_ceiling (pg_micro g)
      in case validate_micro limits of
           Inl e \<Rightarrow> Inl e
         | Inr _ \<Rightarrow>
             (let checks = all_checks shw g limits exchange_verified;
                  soft_fails = filter (\<lambda>c. critical_failed c \<and>
                    (gc_name c \<in> set software_critical \<or> gc_name c = ''build_hash'')) checks;
                  live_fails = filter critical_failed checks;
                  decision = (if \<not> exchange_verified then NOT_VERIFIED
                              else if live_fails \<noteq> [] then NO_GO else GO)
              in Inr \<lparr>gr_checks = checks, gr_decision = decision,
                      software_green = (soft_fails = []),
                      production_live_verified = (decision = GO), gr_micro = limits,
                      gr_build_hash = build_hash g\<rparr>))"

definition allow_live_submission ::
    "(pyval \<Rightarrow> string) \<Rightarrow> production_gate \<Rightarrow> gate_report option \<Rightarrow> value_error + bool" where
  "allow_live_submission shw g report =
     (case report of
        Some r \<Rightarrow> Inr (gr_decision r = GO)
      | None \<Rightarrow>
          (case gate_evaluate_production shw g False of
             Inl e \<Rightarrow> Inl e
           | Inr r \<Rightarrow> Inr (gr_decision r = GO)))"

definition default_mode :: execution_mode where
  "default_mode = PAPER"

end
