(* ===== verification/ProductionProps.thy ===== *)
theory ProductionProps
  imports Production
begin

text \<open>
  Guarantees of the production package: what a GO decision requires, which probes it does not
  require, the kill switch as a maximum, and the canary round trip as a transition system.
\<close>

section \<open>Lemmas\<close>

lemma check_simps [simp]:
  "gc_name (check n ok sev d) = n" "gc_passed (check n ok sev d) = ok"
  "gc_severity (check n ok sev d) = sev"
  "critical_failed (check n ok sev d) \<longleftrightarrow> \<not> ok \<and> sev = CRITICAL_S"
  by (auto simp: check_def critical_failed_def)

lemma clamp_bounds:
  "max_order_notional (clamp_to_hard_ceiling m) \<le> 500" "max_total_exposure (clamp_to_hard_ceiling m) \<le> 2000"
  "max_live_orders (clamp_to_hard_ceiling m) \<le> 3" "mc_enabled (clamp_to_hard_ceiling m) = mc_enabled m"
  by (simp_all add: clamp_to_hard_ceiling_def)

definition not_failed :: "probe \<Rightarrow> bool" where
  "not_failed p \<longleftrightarrow> p = None \<or> p = Some (Inr True)"

definition build_accepted :: "production_gate \<Rightarrow> bool" where
  "build_accepted g \<longleftrightarrow> (\<forall>h. expected_build_hash g = Some h \<longrightarrow> h = [] \<or> build_hash g = h)"

definition skew_accepted :: "production_gate \<Rightarrow> bool" where
  "skew_accepted g \<longleftrightarrow> (\<forall>s. time_skew_ms g = Some s \<longrightarrow> \<bar>s\<bar> \<le> max_time_skew_ms g)"

lemma probe_failed [simp]: "critical_failed (probe_check n p t) \<longleftrightarrow> \<not> not_failed p"
  by (auto simp: probe_check_def not_failed_def split: option.splits sum.splits)

lemma build_failed [simp]: "critical_failed (build_check g) \<longleftrightarrow> \<not> build_accepted g"
  by (auto simp: build_check_def build_accepted_def Let_def split: option.splits)

lemma skew_failed [simp]: "critical_failed (skew_check g) \<longleftrightarrow> \<not> skew_accepted g"
  by (auto simp: skew_check_def skew_accepted_def split: option.splits)

text \<open>The statuses a permission report carries.\<close>

definition permissions_safe :: "(pyval \<Rightarrow> string) \<Rightarrow> production_gate \<Rightarrow> bool" where
  "permissions_safe shw g \<longleftrightarrow>
     (\<exists>d. permissions g = Some (Inr d) \<and>
        fst (snd (read_permissions shw g)) \<in> {''ENABLED'', ''TRUE'', ''YES''}) \<and>
     snd (snd (read_permissions shw g)) \<in> {''DISABLED'', ''FALSE'', ''NO''}"

lemma permission_failed:
  assumes "permissions g \<noteq> None"
  shows "(\<forall>c \<in> set (permission_checks shw g). \<not> critical_failed c) \<longleftrightarrow> permissions_safe shw g"
  using assms
  by (auto simp: permission_checks_def permissions_safe_def read_permissions_def
      split: option.splits sum.splits)

lemma live_probe_failed:
  "(\<forall>c \<in> set (live_probe_checks g). \<not> critical_failed c) \<longleftrightarrow>
   connectivity g \<noteq> None \<and> permissions g \<noteq> None \<and> time_skew_ms g \<noteq> None"
  by (auto simp: live_probe_checks_def)

definition live_requirements :: "(pyval \<Rightarrow> string) \<Rightarrow> production_gate \<Rightarrow> bool" where
  "live_requirements shw g \<longleftrightarrow>
     connectivity g = Some (Inr True) \<and> permissions_safe shw g \<and>
     (\<exists>s. time_skew_ms g = Some s \<and> \<bar>s\<bar> \<le> max_time_skew_ms g) \<and>
     build_accepted g \<and>
     not_failed (db_integrity g) \<and> not_failed (model_ok g) \<and> not_failed (recovery_ok g) \<and>
     not_failed (governor_ok g) \<and> not_failed (risk_ok g) \<and> not_failed (control_ok g) \<and>
     mc_enabled (pg_micro g) \<and> \<not> unresolved_unknown g \<and> \<not> reconciliation_mismatch g \<and>
     canary_round_trip_ok g \<and> emergency_stop_tested g"

lemma no_failures_iff:
  "filter critical_failed (all_checks shw g (clamp_to_hard_ceiling (pg_micro g)) True) = [] \<longleftrightarrow>
   live_requirements shw g"
proof -
  have "filter critical_failed (all_checks shw g (clamp_to_hard_ceiling (pg_micro g)) True) = [] \<longleftrightarrow>
      (\<forall>c \<in> set (permission_checks shw g). \<not> critical_failed c) \<and>
      (connectivity g \<noteq> None \<and> permissions g \<noteq> None \<and> time_skew_ms g \<noteq> None) \<and>
      not_failed (connectivity g) \<and> skew_accepted g \<and> build_accepted g \<and>
      not_failed (db_integrity g) \<and> not_failed (model_ok g) \<and> not_failed (recovery_ok g) \<and>
      not_failed (governor_ok g) \<and> not_failed (risk_ok g) \<and> not_failed (control_ok g) \<and>
      mc_enabled (pg_micro g) \<and> \<not> unresolved_unknown g \<and> \<not> reconciliation_mismatch g \<and>
      canary_round_trip_ok g \<and> emergency_stop_tested g"
    unfolding filter_empty_conv all_checks_def
    by (simp add: ball_Un live_probe_failed clamp_bounds(4)) blast
  moreover have "(connectivity g \<noteq> None \<and> not_failed (connectivity g)) = (connectivity g = Some (Inr True))"
    by (auto simp: not_failed_def)
  moreover have "(time_skew_ms g \<noteq> None \<and> skew_accepted g) =
      (\<exists>s. time_skew_ms g = Some s \<and> \<bar>s\<bar> \<le> max_time_skew_ms g)"
    by (auto simp: skew_accepted_def)
  moreover have "permissions_safe shw g \<Longrightarrow> permissions g \<noteq> None"
    by (auto simp: permissions_safe_def)
  ultimately show ?thesis
    using permission_failed [of g shw] unfolding live_requirements_def by blast
qed

lemma production_decision:
  assumes "gate_evaluate_production shw g verified = Inr r"
  shows "gr_decision r = GO \<longleftrightarrow> verified \<and> live_requirements shw g"
  using assms no_failures_iff [of shw g]
  by (cases verified) (auto simp: gate_evaluate_production_def Let_def split: sum.splits)

section \<open>Properties\<close>

definition demo_gate_ok :: production_gate where
  "demo_gate_ok = \<lparr>pg_micro = default_micro_capital, expected_build_hash = Some ''h'', build_hash = ''h'',
     connectivity = Some (Inr True),
     permissions = Some (Inr [(''trading'', PyStr ''enabled''), (''withdrawal'', PyStr ''disabled'')]),
     db_integrity = Some (Inr True), model_ok = Some (Inr True), recovery_ok = Some (Inr True),
     governor_ok = Some (Inr True), risk_ok = Some (Inr True), control_ok = Some (Inr True),
     time_skew_ms = Some 3, max_time_skew_ms = 5000, withdrawal_status = ''DISABLED'',
     unresolved_unknown = False, reconciliation_mismatch = False, emergency_stop_tested = True,
     canary_round_trip_ok = True, force_live_flag = False\<rparr>"

lemma demo_gate_go:
  "(case gate_evaluate_production (\<lambda>_. []) demo_gate_ok True of Inr r \<Rightarrow> gr_decision r | _ \<Rightarrow> NO_GO) = GO"
  by code_simp

text \<open>C15: A GO decision is only ever given to a verified exchange whose connection, permission and
  clock probes are wired and answer well (reachable, trading permitted and withdrawals disabled, small
  skew), with the expected build, no integrity probe that fails or raises, active ceilings, no unknown
  order, no reconciliation mismatch, a completed canary and a tested emergency stop; the ceilings it
  reports are within the absolute software limits. With all of that and the six integrity probes wired
  and answering well the decision is GO. (An unwired integrity probe does not block GO: see
  \<open>live_go_without_integrity_probes\<close>.)\<close>

theorem live_go_needs_requirements:
  assumes "gate_evaluate_production shw g verified = Inr r"
  shows "(gr_decision r = GO \<longrightarrow> verified \<and> live_requirements shw g) \<and>
    (verified \<and> live_requirements shw g \<and>
     list_all (\<lambda>p. p = Some (Inr True))
       [db_integrity g, model_ok g, recovery_ok g, governor_ok g, risk_ok g, control_ok g] \<longrightarrow>
     gr_decision r = GO) \<and>
    production_live_verified r = (gr_decision r = GO) \<and>
    max_order_notional (gr_micro r) \<le> 500 \<and> max_total_exposure (gr_micro r) \<le> 2000 \<and>
    max_live_orders (gr_micro r) \<le> 3"
  using production_decision [OF assms] assms
  by (auto simp: gate_evaluate_production_def Let_def clamp_bounds split: sum.splits)

theorem live_go_needs_requirements_witness: "live_requirements (\<lambda>_. []) demo_gate_ok"
proof -
  obtain r where "gate_evaluate_production (\<lambda>_. []) demo_gate_ok True = Inr r" "gr_decision r = GO"
    using demo_gate_go by (auto split: sum.splits)
  from live_go_needs_requirements [OF this(1)] this(2) show ?thesis by blast
qed

text \<open>The integrity probes are not required: when the gate says GO it still says GO with the
  database, model, recovery, governor, risk and control probes all unwired.\<close>

theorem live_go_without_integrity_probes:
  assumes "gate_evaluate_production shw g True = Inr r" and "gr_decision r = GO"
  shows "\<exists>r'. gate_evaluate_production shw
      (g\<lparr>db_integrity := None, model_ok := None, recovery_ok := None, governor_ok := None,
         risk_ok := None, control_ok := None\<rparr>) True = Inr r' \<and> gr_decision r' = GO"
proof -
  let ?g = "g\<lparr>db_integrity := None, model_ok := None, recovery_ok := None, governor_ok := None,
         risk_ok := None, control_ok := None\<rparr>"
  have "read_permissions shw ?g = read_permissions shw g" 
    by (simp add: read_permissions_def split: option.split sum.split)
  then have "live_requirements shw ?g"
    using production_decision [OF assms(1)] assms(2)
    by (simp add: live_requirements_def not_failed_def permissions_safe_def build_accepted_def)
  moreover obtain r' where "gate_evaluate_production shw ?g True = Inr r'"
    using assms(1) by (auto simp: gate_evaluate_production_def Let_def split: sum.splits)
  ultimately show ?thesis using production_decision by blast
qed

theorem live_go_without_integrity_probes_witness:
  "\<exists>r'. gate_evaluate_production (\<lambda>_. [])
      (demo_gate_ok\<lparr>db_integrity := None, model_ok := None, recovery_ok := None, governor_ok := None,
         risk_ok := None, control_ok := None\<rparr>) True = Inr r' \<and> gr_decision r' = GO"
proof -
  obtain r where "gate_evaluate_production (\<lambda>_. []) demo_gate_ok True = Inr r" "gr_decision r = GO"
    using demo_gate_go by (auto split: sum.splits)
  from live_go_without_integrity_probes [OF this] show ?thesis .
qed

lemma foldl_trig_max:
  "snd (foldl trig (cs, a) ts) =
    Max (insert a {act. \<exists>name. (name, True, act) \<in> set ts})"
proof (induction ts arbitrary: cs a)
  case Nil
  then show ?case by simp
next
  case (Cons t ts)
  obtain n hit act where t: "t = (n, hit, act)" by (metis prod_cases3)
  have fin: "finite {act. \<exists>name. (name, True, act) \<in> set ts}" for ts
    by (rule finite_subset [of _ "(\<lambda>(n, h, a). a) ` set ts"]) force+
  have s: "{act. \<exists>name. (name, True, act) \<in> set (t # ts)} =
      (if hit then insert act else id) {act. \<exists>name. (name, True, act) \<in> set ts}"
    using t by auto
  show ?case
  proof (cases hit)
    case True
    have "Max (insert a (insert act {act. \<exists>name. (name, True, act) \<in> set ts})) =
        Max (insert (max a act) {act. \<exists>name. (name, True, act) \<in> set ts})"
      using fin [of ts] by (cases "{act. \<exists>name. (name, True, act) \<in> set ts} = {}")
        (simp_all add: max.assoc)
    with True s t Cons.IH show ?thesis by (auto simp: trig_def max_def not_less)
  next
    case False
    with s t Cons.IH show ?thesis by (simp add: trig_def)
  qed
qed

lemma Max_no_action:
  assumes "finite A" and "NO_ACTION \<notin> A"
  shows "Max (insert NO_ACTION A) = NO_ACTION \<longleftrightarrow> A = {}"
proof
  assume m: "Max (insert NO_ACTION A) = NO_ACTION"
  have "a = NO_ACTION" if "a \<in> A" for a
    using Max_ge [of "insert NO_ACTION A" a] assms(1) that unfolding m
    by (cases a) (simp_all add: less_eq_kill_action_def)
  with assms(2) show "A = {}" by blast
qed simp

text \<open>The kill switch takes the most severe action of the conditions that hold, in the order
  NONE, BLOCK\_NEW\_ENTRIES, SAFE\_MODE, and does nothing exactly when no condition holds.\<close>

theorem kill_switch_takes_maximum:
  "snd (kill_evaluate k) = Max (insert NO_ACTION {act. \<exists>name. (name, True, act) \<in> set (kill_triggers k)}) \<and>
   (snd (kill_evaluate k) = NO_ACTION) = (\<forall>name act. (name, True, act) \<notin> set (kill_triggers k))"
proof -
  let ?A = "{act. \<exists>name. (name, True, act) \<in> set (kill_triggers k)}"
  have "finite ?A" by (rule finite_subset [of _ "(\<lambda>(n, h, a). a) ` set (kill_triggers k)"]) force+
  moreover have "NO_ACTION \<notin> ?A" by (simp add: kill_triggers_def)
  ultimately show ?thesis using Max_no_action [of ?A] by (auto simp: kill_evaluate_def foldl_trig_max)
qed

section \<open>The canary as a transition system\<close>

inductive canary_step :: "canary \<Rightarrow> canary \<Rightarrow> bool" where
  "canary_step c (canary_fail c why)"
| "canary_step c (mark_buy_submitted c eid)"
| "canary_step c (mark_buy_filled c)"
| "canary_step c (mark_sell_submitted c eid)"
| "canary_step c (mark_sell_filled c)"
| "canary_step c (mark_reconciled c)"

inductive_cases canary_stepE: "canary_step c c'"

lemmas canary_defs = canary_note_def canary_fail_def mark_buy_submitted_def mark_buy_filled_def
  mark_sell_submitted_def mark_sell_filled_def mark_reconciled_def new_canary_def

definition canary_ok :: "canary \<Rightarrow> bool" where
  "canary_ok c \<longleftrightarrow>
     (ca_phase c = RECONCILED \<or> ca_reconciled c \<longrightarrow> buy_filled c \<and> sell_filled c) \<and>
     (buy_filled c \<longrightarrow> ''buy_filled'' \<in> set (ca_events c)) \<and>
     (sell_filled c \<longrightarrow> ''sell_filled'' \<in> set (ca_events c))"

lemma canary_step_ok: "canary_step c c' \<Longrightarrow> canary_ok c \<Longrightarrow> canary_ok c'"
  by (erule canary_stepE) (auto simp: canary_ok_def canary_defs)

text \<open>However its operations are called, a canary counts as a completed round trip only when both
  the buy and the sell were marked filled, and its event log shows both fills.\<close>

theorem canary_completion_needs_both_fills:
  assumes "canary_step\<^sup>*\<^sup>* new_canary c" and "round_trip_ok c"
  shows "buy_filled c \<and> sell_filled c \<and> ''buy_filled'' \<in> set (ca_events c) \<and>
    ''sell_filled'' \<in> set (ca_events c)"
proof -
  have "canary_ok c"
    using assms(1)
  proof (induction rule: rtranclp_induct)
    case base
    then show ?case by (simp add: canary_ok_def canary_defs)
  next
    case (step c c')
    then show ?case by (blast intro: canary_step_ok)
  qed
  with assms(2) show ?thesis by (auto simp: canary_ok_def round_trip_ok_def)
qed

definition demo_round_trip :: canary where
  "demo_round_trip = mark_reconciled (mark_sell_filled (mark_buy_filled new_canary))"

theorem canary_completion_needs_both_fills_witness:
  "buy_filled demo_round_trip \<and> sell_filled demo_round_trip"
proof -
  have "canary_step\<^sup>*\<^sup>* new_canary (mark_buy_filled new_canary)"
    by (rule r_into_rtranclp) (rule canary_step.intros(3))
  then have "canary_step\<^sup>*\<^sup>* new_canary (mark_sell_filled (mark_buy_filled new_canary))"
    by (rule rtranclp.rtrancl_into_rtrancl) (rule canary_step.intros(5))
  then have "canary_step\<^sup>*\<^sup>* new_canary demo_round_trip"
    unfolding demo_round_trip_def
    by (rule rtranclp.rtrancl_into_rtrancl) (rule canary_step.intros(6))
  moreover have "round_trip_ok demo_round_trip"
    by (simp add: demo_round_trip_def canary_defs round_trip_ok_def)
  ultimately show ?thesis using canary_completion_needs_both_fills by blast
qed

end
