(* ===== verification/Hardware.thy ===== *)
theory Hardware
  imports Prelude
begin

text \<open>
  Hardware capability and resource budgets, \<^verbatim>\<open>src/src/crypto/hardware\<close>: the records of
  \<^verbatim>\<open>models.py\<close>, the scores, the profile and its budget (\<^verbatim>\<open>profile.py\<close>), the comparison of two
  snapshots (\<^verbatim>\<open>snapshot.py\<close>) and the hand-over to the scanner (\<^verbatim>\<open>integration.py\<close>). What the
  detectors find is an argument. Decimal constants such as 0.9 are exact here.
\<close>

datatype hardware_profile = ULTRA_LITE | LITE | BALANCED | PERFORMANCE | HEAVY | EXTREME

datatype storage_kind = HDD | SSD | NVME | REMOVABLE | UNKNOWN_STORAGE

datatype gpu_vendor = NVIDIA | AMD | INTEL | UNKNOWN_GPU | NO_GPU

record cpu_info =
  cpu_vendor :: string
  cpu_model :: string
  architecture :: string
  physical_cores :: "int option"
  logical_processors :: int
  max_frequency_mhz :: "flt option"
  cpu_flags :: "string list"

record ram_info =
  total_bytes :: int
  available_bytes :: "int option"

definition GIB :: flt where
  "GIB = 1024 ^ 3"

definition total_gb :: "ram_info \<Rightarrow> flt" where
  "total_gb r = of_int (total_bytes r) / GIB"

definition available_gb :: "ram_info \<Rightarrow> flt option" where
  "available_gb r = map_option (\<lambda>b. of_int b / GIB) (available_bytes r)"

record gpu_info =
  gpu_available :: bool
  gpu_vendor :: gpu_vendor
  gpu_model :: string
  vram_bytes :: "int option"
  dedicated :: "bool option"

definition vram_gb :: "gpu_info \<Rightarrow> flt option" where
  "vram_gb g = map_option (\<lambda>b. of_int b / GIB) (vram_bytes g)"

record storage_info =
  storage_path :: string
  filesystem :: string
  storage_total_bytes :: "int option"
  storage_free_bytes :: "int option"
  storage_kind :: storage_kind
  removable :: "bool option"

record power_info =
  on_battery :: "bool option"
  battery_percent :: "flt option"
  power_saver :: "bool option"

record thermal_info =
  cpu_celsius :: "flt option"
  gpu_celsius :: "flt option"

record capability_scores =
  sc_cpu :: flt
  sc_ram :: flt
  sc_storage :: flt
  sc_gpu :: flt
  sc_overall :: flt

record resource_budget =
  recommended_workers :: int
  max_workers :: int
  max_ml_models :: int
  max_universe :: int
  max_candidates :: int
  max_ml_candidates :: int
  max_predictions_per_cycle :: int
  max_opportunities :: int
  prediction_cache_size :: int
  feature_cache_size :: int
  market_cache_size :: int
  ohlcv_cache_size :: int
  max_features :: int
  max_training_rows :: int
  memory_pressure_warning_bytes :: int
  memory_pressure_critical_bytes :: int
  ml_profile_name :: string

record hardware_snapshot =
  hw_timestamp_ms :: int
  os_name :: string
  os_version :: string
  hostname :: string
  virtualized :: "bool option"
  hw_cpu :: cpu_info
  hw_ram :: ram_info
  hw_gpu :: gpu_info
  hw_storage :: storage_info
  hw_power :: power_info
  hw_thermal :: thermal_info
  hw_scores :: capability_scores
  hw_profile :: hardware_profile
  hw_budget :: resource_budget
  reassess_required :: bool
  previous_profile :: "string option"

section \<open>Scores\<close>

definition score_cpu :: "cpu_info \<Rightarrow> flt" where
  "score_cpu cpu =
     (let n = max 1 (logical_processors cpu)
      in if n \<le> 1 then 12 else if n = 2 then 28 else if n \<le> 4 then 45 else if n \<le> 8 then 70
         else if n \<le> 16 then 88 else 96)"

definition score_ram :: "ram_info \<Rightarrow> flt" where
  "score_ram ram =
     (let gb = total_gb ram
      in if gb < 3/2 then 8 else if gb < 5/2 then 18 else if gb < 9/2 then 35 else if gb < 17/2 then 55
         else if gb < 33/2 then 72 else if gb < 65/2 then 88 else 96)"

definition score_storage :: "storage_info \<Rightarrow> flt" where
  "score_storage s =
     (case storage_kind s of
        NVME \<Rightarrow> 90 | SSD \<Rightarrow> 75 | REMOVABLE \<Rightarrow> 20 | HDD \<Rightarrow> 30
      | UNKNOWN_STORAGE \<Rightarrow> if removable s = Some True then 22 else 50)"

definition score_gpu :: "gpu_info \<Rightarrow> flt" where
  "score_gpu g =
     (if \<not> gpu_available g then 0
      else case vram_bytes g of
             None \<Rightarrow> 40
           | Some b \<Rightarrow>
               (let gb = of_int b / GIB
                in if gb \<ge> 8 then 85 else if gb \<ge> 4 then 70 else if gb \<ge> 2 then 55 else 40))"

definition compute_scores ::
    "cpu_info \<Rightarrow> ram_info \<Rightarrow> storage_info \<Rightarrow> gpu_info \<Rightarrow> capability_scores" where
  "compute_scores cpu ram st gpu =
     (let c = score_cpu cpu; r = score_ram ram; s = score_storage st; g = score_gpu gpu
      in \<lparr>sc_cpu = c, sc_ram = r, sc_storage = s, sc_gpu = g,
          sc_overall = 2/5 * c + 2/5 * r + 1/5 * s\<rparr>)"

section \<open>Profile and budget\<close>

definition classify_profile :: "capability_scores \<Rightarrow> int \<Rightarrow> flt \<Rightarrow> hardware_profile" where
  "classify_profile scores logical_cpus ram_gb =
     (let o' = sc_overall scores
      in if ram_gb \<le> 5/2 \<and> logical_cpus \<le> 2 then ULTRA_LITE
         else if o' < 25 \<or> ram_gb < 7/2 \<and> logical_cpus \<le> 2 then ULTRA_LITE
         else if o' < 40 \<or> ram_gb < 9/2 then LITE
         else if o' < 58 then BALANCED
         else if o' < 75 then PERFORMANCE
         else if o' < 88 then HEAVY
         else EXTREME)"

definition budget_row ::
    "int \<Rightarrow> int \<Rightarrow> int list \<Rightarrow> string \<Rightarrow> resource_budget" where
  "budget_row warn crit v name =
     \<lparr>recommended_workers = v!0, max_workers = v!1, max_ml_models = v!2, max_universe = v!3,
      max_candidates = v!4, max_ml_candidates = v!5, max_predictions_per_cycle = v!6,
      max_opportunities = v!7, prediction_cache_size = v!8, feature_cache_size = v!9,
      market_cache_size = v!10, ohlcv_cache_size = v!11, max_features = v!12,
      max_training_rows = v!13, memory_pressure_warning_bytes = warn,
      memory_pressure_critical_bytes = crit, ml_profile_name = name\<rparr>"

fun budget_values :: "hardware_profile \<Rightarrow> int list" where
  "budget_values ULTRA_LITE = [1, 1, 1, 200, 40, 15, 8, 3, 16, 32, 64, 32, 20, 2000]"
| "budget_values LITE = [1, 2, 2, 400, 80, 30, 12, 5, 32, 64, 128, 64, 30, 5000]"
| "budget_values BALANCED = [2, 4, 3, 800, 150, 50, 20, 10, 64, 128, 256, 128, 40, 20000]"
| "budget_values PERFORMANCE = [4, 8, 4, 1500, 250, 80, 40, 15, 128, 256, 512, 256, 40, 50000]"
| "budget_values HEAVY = [6, 12, 4, 2500, 400, 120, 60, 20, 256, 512, 1024, 512, 40, 80000]"
| "budget_values EXTREME = [8, 16, 4, 3000, 500, 150, 80, 25, 512, 1024, 2048, 1024, 40, 100000]"

fun ml_name :: "hardware_profile \<Rightarrow> string" where
  "ml_name ULTRA_LITE = ''ULTRA_LITE''"
| "ml_name LITE = ''LITE''"
| "ml_name BALANCED = ''BALANCED''"
| "ml_name PERFORMANCE = ''PERFORMANCE''"
| "ml_name HEAVY = ''PERFORMANCE''"
| "ml_name EXTREME = ''EXTREME''"

definition budget_for :: "hardware_profile \<Rightarrow> ram_info \<Rightarrow> resource_budget" where
  "budget_for p ram =
     (let total = max (total_bytes ram) (512 * 1024 * 1024);
          warn = py_trunc (of_int total * (3/4));
          crit = py_trunc (of_int total * (9/10))
      in budget_row warn crit (budget_values p) (ml_name p))"

section \<open>Snapshots\<close>

definition significant_change ::
    "hardware_snapshot \<Rightarrow> cpu_info \<Rightarrow> ram_info \<Rightarrow> gpu_info \<Rightarrow> hardware_profile \<Rightarrow> bool" where
  "significant_change previous cpu ram gpu new_profile =
     (if hw_profile previous \<noteq> new_profile then True
      else if total_bytes (hw_ram previous) > 0 \<and>
        (let ratio = of_int (total_bytes ram) / (of_int (total_bytes (hw_ram previous)) :: flt)
         in ratio < 3/4 \<or> ratio > 5/4) then True
      else if logical_processors cpu \<noteq> logical_processors (hw_cpu previous) then True
      else gpu_available gpu \<noteq> gpu_available (hw_gpu previous))"

fun profile_name :: "hardware_profile \<Rightarrow> string" where
  "profile_name ULTRA_LITE = ''ULTRA_LITE''"
| "profile_name LITE = ''LITE''"
| "profile_name BALANCED = ''BALANCED''"
| "profile_name PERFORMANCE = ''PERFORMANCE''"
| "profile_name HEAVY = ''HEAVY''"
| "profile_name EXTREME = ''EXTREME''"

text \<open>What the detectors of the host report.\<close>

record detected =
  de_cpu :: cpu_info
  de_ram :: ram_info
  de_gpu :: gpu_info
  de_storage :: storage_info
  de_power :: power_info
  de_thermal :: thermal_info
  de_virtualized :: "bool option"
  de_os :: "string \<times> string \<times> string"

definition build_snapshot ::
    "int \<Rightarrow> detected \<Rightarrow> hardware_snapshot option \<Rightarrow> hardware_snapshot" where
  "build_snapshot wall d previous =
     (let cpu = de_cpu d; ram = de_ram d; gpu = de_gpu d; st = de_storage d;
          scores = compute_scores cpu ram st gpu;
          prof = classify_profile scores (logical_processors cpu) (total_gb ram);
          (name, version, host) = de_os d
      in \<lparr>hw_timestamp_ms = wall, os_name = (if name = [] then ''unknown'' else name),
          os_version = version, hostname = host, virtualized = de_virtualized d,
          hw_cpu = cpu, hw_ram = ram, hw_gpu = gpu, hw_storage = st, hw_power = de_power d,
          hw_thermal = de_thermal d, hw_scores = scores, hw_profile = prof,
          hw_budget = budget_for prof ram,
          reassess_required = (case previous of None \<Rightarrow> False
             | Some p \<Rightarrow> significant_change p cpu ram gpu prof),
          previous_profile = map_option (\<lambda>p. profile_name (hw_profile p)) previous\<rparr>)"

text \<open>The scanner's configuration of \<^verbatim>\<open>scanner/config.py\<close> from a budget.\<close>

record scanner_budget =
  sb_max_universe :: int
  sb_max_candidates :: int
  sb_max_ml_candidates :: int
  sb_max_predictions_per_cycle :: int
  sb_max_opportunities :: int

definition scanner_config_from_budget :: "resource_budget \<Rightarrow> scanner_budget" where
  "scanner_config_from_budget b = \<lparr>sb_max_universe = max_universe b, sb_max_candidates = max_candidates b,
     sb_max_ml_candidates = max_ml_candidates b,
     sb_max_predictions_per_cycle = max_predictions_per_cycle b,
     sb_max_opportunities = max_opportunities b\<rparr>"

section \<open>Monotonicity\<close>

text \<open>The order of the profiles and of the budgets.\<close>

fun profile_rank :: "hardware_profile \<Rightarrow> nat" where
  "profile_rank ULTRA_LITE = 0"
| "profile_rank LITE = 1"
| "profile_rank BALANCED = 2"
| "profile_rank PERFORMANCE = 3"
| "profile_rank HEAVY = 4"
| "profile_rank EXTREME = 5"

definition budget_vector :: "resource_budget \<Rightarrow> int list" where
  "budget_vector b = [recommended_workers b, max_workers b, max_ml_models b, max_universe b,
     max_candidates b, max_ml_candidates b, max_predictions_per_cycle b, max_opportunities b,
     prediction_cache_size b, feature_cache_size b, market_cache_size b, ohlcv_cache_size b,
     max_features b, max_training_rows b, memory_pressure_warning_bytes b,
     memory_pressure_critical_bytes b]"

lemma score_cpu_mono: "logical_processors c \<le> logical_processors d \<Longrightarrow> score_cpu c \<le> score_cpu d"
  by (simp add: score_cpu_def Let_def)

lemma total_gb_mono: "total_bytes r \<le> total_bytes s \<Longrightarrow> total_gb r \<le> total_gb s"
  by (simp add: total_gb_def GIB_def divide_right_mono)

lemma score_ram_mono: "total_bytes r \<le> total_bytes s \<Longrightarrow> score_ram r \<le> score_ram s"
  using total_gb_mono [of r s] by (simp add: score_ram_def Let_def)

lemma overall_mono:
  "logical_processors c \<le> logical_processors c' \<Longrightarrow> total_bytes r \<le> total_bytes r' \<Longrightarrow>
   score_storage s \<le> score_storage s' \<Longrightarrow>
   sc_overall (compute_scores c r s g) \<le> sc_overall (compute_scores c' r' s' g')"
  using score_cpu_mono [of c c'] score_ram_mono [of r r']
  by (simp add: compute_scores_def Let_def)

lemma classify_mono:
  "sc_overall s \<le> sc_overall s' \<Longrightarrow> n \<le> n' \<Longrightarrow> gb \<le> gb' \<Longrightarrow>
   profile_rank (classify_profile s n gb) \<le> profile_rank (classify_profile s' n' gb')"
  unfolding classify_profile_def Let_def by (auto split: if_split)

lemma budget_values_mono:
  "profile_rank p \<le> profile_rank q \<Longrightarrow> list_all2 (\<le>) (budget_values p) (budget_values q)"
  by (cases p; cases q; simp)

lemma budget_for_vector:
  "budget_vector (budget_for p r) = budget_values p @
     [py_trunc (of_int (max (total_bytes r) 536870912) * (3/4)),
      py_trunc (of_int (max (total_bytes r) 536870912) * (9/10))]"
  by (cases p) (simp_all add: budget_vector_def budget_for_def budget_row_def Let_def)

lemma budget_for_mono:
  assumes "profile_rank p \<le> profile_rank q" and "total_bytes r \<le> total_bytes s"
  shows "list_all2 (\<le>) (budget_vector (budget_for p r)) (budget_vector (budget_for q s))"
proof -
  have "max (total_bytes r) 536870912 \<le> max (total_bytes s) 536870912" using assms(2) by simp
  then have "(of_int (max (total_bytes r) 536870912) :: flt) \<le> of_int (max (total_bytes s) 536870912)"
    by (simp only: of_int_le_iff)
  then have "py_trunc (of_int (max (total_bytes r) 536870912) * f) \<le>
      py_trunc (of_int (max (total_bytes s) 536870912) * f)" if "0 \<le> f" for f :: flt
    using that by (intro py_trunc_mono mult_right_mono mult_nonneg_nonneg) auto
  from this [of "3/4"] this [of "9/10"] show ?thesis
    using budget_values_mono [OF assms(1)]
    unfolding budget_for_vector by (intro list_all2_appendI) auto
qed

text \<open>A machine with at least the processors, the memory and the storage score of another one gets a
  profile at least as high and, entry by entry, at least its resource budget.\<close>

theorem better_hardware_never_gets_less:
  assumes "logical_processors (de_cpu d) \<le> logical_processors (de_cpu d')"
    and "total_bytes (de_ram d) \<le> total_bytes (de_ram d')"
    and "score_storage (de_storage d) \<le> score_storage (de_storage d')"
  shows "profile_rank (hw_profile (build_snapshot w d p)) \<le> profile_rank (hw_profile (build_snapshot w' d' p')) \<and>
    list_all2 (\<le>) (budget_vector (hw_budget (build_snapshot w d p)))
      (budget_vector (hw_budget (build_snapshot w' d' p')))"
  using classify_mono [OF overall_mono [OF assms] assms(1) total_gb_mono [OF assms(2)]]
  by (auto simp: build_snapshot_def Let_def split: prod.splits intro!: budget_for_mono assms(2))

definition demo_machine :: "int \<Rightarrow> int \<Rightarrow> storage_kind \<Rightarrow> detected" where
  "demo_machine n bytes kind = \<lparr>
     de_cpu = \<lparr>cpu_vendor = [], cpu_model = [], architecture = ''x86_64'', physical_cores = None,
       logical_processors = n, max_frequency_mhz = None, cpu_flags = []\<rparr>,
     de_ram = \<lparr>total_bytes = bytes, available_bytes = None\<rparr>,
     de_gpu = \<lparr>gpu_available = False, gpu_vendor = NO_GPU, gpu_model = [], vram_bytes = None,
       dedicated = None\<rparr>,
     de_storage = \<lparr>storage_path = [], filesystem = [], storage_total_bytes = None,
       storage_free_bytes = None, storage_kind = kind, removable = None\<rparr>,
     de_power = \<lparr>on_battery = None, battery_percent = None, power_saver = None\<rparr>,
     de_thermal = \<lparr>cpu_celsius = None, gpu_celsius = None\<rparr>,
     de_virtualized = None, de_os = ([], [], [])\<rparr>"

theorem better_hardware_never_gets_less_witness:
  "list_all2 (\<le>)
     (budget_vector (hw_budget (build_snapshot 0 (demo_machine 2 2147483648 HDD) None)))
     (budget_vector (hw_budget (build_snapshot 0 (demo_machine 8 17179869184 SSD) None)))"
  by (rule better_hardware_never_gets_less [THEN conjunct2])
    (simp_all add: demo_machine_def score_storage_def)

end
