(* ===== verification/Governor.thy ===== *)
theory Governor
  imports Hardware
begin

text \<open>
  The resource governor, \<^verbatim>\<open>src/src/crypto/governor\<close>: states and rings (\<^verbatim>\<open>states.py\<close>), thresholds
  (\<^verbatim>\<open>config.py\<close>), the adaptive budget (\<^verbatim>\<open>budgets.py\<close>), the data-freshness gate (\<^verbatim>\<open>freshness.py\<close>)
  and \<open>ResourceGovernor\<close> (\<^verbatim>\<open>engine.py\<close>). The telemetry sample and both clocks are arguments. An
  arrow in an event text of the code is \<open>->\<close> here.
\<close>

section \<open>States\<close>

datatype governor_state = NORMAL_G | DEGRADED_G | CONSTRAINED_G | CRITICAL_G | RECOVERY_G

datatype ring_status = PROTECTED | FULL | REDUCED | SUSPENDED

datatype memory_pressure = MEM_NORMAL | MEM_WARNING | MEM_CRITICAL | MEM_UNKNOWN

datatype data_freshness = FRESH | AGING | STALE_DATA | CRITICAL_STALE

fun governor_name :: "governor_state \<Rightarrow> string" where
  "governor_name NORMAL_G = ''NORMAL''"
| "governor_name DEGRADED_G = ''DEGRADED''"
| "governor_name CONSTRAINED_G = ''CONSTRAINED''"
| "governor_name CRITICAL_G = ''CRITICAL''"
| "governor_name RECOVERY_G = ''RECOVERY''"

fun freshness_name :: "data_freshness \<Rightarrow> string" where
  "freshness_name FRESH = ''FRESH''"
| "freshness_name AGING = ''AGING''"
| "freshness_name STALE_DATA = ''STALE''"
| "freshness_name CRITICAL_STALE = ''CRITICAL_STALE''"

fun DEGRADATION_LEVELS :: "governor_state \<Rightarrow> int" where
  "DEGRADATION_LEVELS NORMAL_G = 0"
| "DEGRADATION_LEVELS DEGRADED_G = 2"
| "DEGRADATION_LEVELS CONSTRAINED_G = 4"
| "DEGRADATION_LEVELS CRITICAL_G = 6"
| "DEGRADATION_LEVELS RECOVERY_G = 3"

definition ring0_status :: "governor_state \<Rightarrow> ring_status" where
  "ring0_status s = PROTECTED"

definition ring1_status :: "governor_state \<Rightarrow> ring_status" where
  "ring1_status s =
     (if s = NORMAL_G then FULL
      else if s \<in> {DEGRADED_G, RECOVERY_G} then REDUCED
      else if s = CONSTRAINED_G then REDUCED
      else SUSPENDED)"

definition ring2_status :: "governor_state \<Rightarrow> ring_status" where
  "ring2_status s = (if s = NORMAL_G then FULL else SUSPENDED)"

fun severity_rank :: "governor_state \<Rightarrow> nat" where
  "severity_rank NORMAL_G = 0"
| "severity_rank DEGRADED_G = 1"
| "severity_rank RECOVERY_G = 1"
| "severity_rank CONSTRAINED_G = 2"
| "severity_rank CRITICAL_G = 3"

section \<open>Thresholds\<close>

record governor_thresholds =
  cpu_scale_down :: flt
  cpu_scale_up :: flt
  ram_free_scale_down :: flt
  ram_free_scale_up :: flt
  ram_free_critical_bytes :: int
  ram_free_warning_bytes :: int
  io_latency_scale_down_ms :: flt
  io_latency_scale_up_ms :: flt
  net_latency_scale_down_ms :: flt
  net_latency_scale_up_ms :: flt
  queue_depth_scale_down :: int
  queue_depth_scale_up :: int
  min_dwell_seconds :: flt
  recovery_stability_seconds :: flt
  data_aging_seconds :: flt
  data_stale_seconds :: flt
  data_critical_stale_seconds :: flt
  coalesce_degraded_ms :: int
  coalesce_constrained_ms :: int

definition default_thresholds :: governor_thresholds where
  "default_thresholds = \<lparr>cpu_scale_down = 9/10, cpu_scale_up = 13/20, ram_free_scale_down = 3/25,
     ram_free_scale_up = 1/4, ram_free_critical_bytes = 200 * 1024 * 1024,
     ram_free_warning_bytes = 400 * 1024 * 1024, io_latency_scale_down_ms = 200,
     io_latency_scale_up_ms = 80, net_latency_scale_down_ms = 1500, net_latency_scale_up_ms = 400,
     queue_depth_scale_down = 500, queue_depth_scale_up = 100, min_dwell_seconds = 30,
     recovery_stability_seconds = 120, data_aging_seconds = 5, data_stale_seconds = 15,
     data_critical_stale_seconds = 60, coalesce_degraded_ms = 250, coalesce_constrained_ms = 500\<rparr>"

definition validate_thresholds :: "governor_thresholds \<Rightarrow> string + unit" where
  "validate_thresholds t =
     (if cpu_scale_up t \<ge> cpu_scale_down t then Inl ''cpu_scale_up must be < cpu_scale_down''
      else if ram_free_scale_up t \<le> ram_free_scale_down t
      then Inl ''ram_free_scale_up must be > ram_free_scale_down''
      else if min_dwell_seconds t < 0 \<or> recovery_stability_seconds t < 0
      then Inl ''dwell/stability must be >= 0''
      else Inr ())"

section \<open>Adaptive budget\<close>

record adaptive_budget =
  ab_state :: governor_state
  degradation_level :: int
  ab_workers :: int
  ab_max_ml_models :: int
  ab_max_universe :: int
  ab_max_candidates :: int
  ab_max_ml_candidates :: int
  ab_max_predictions :: int
  ab_max_opportunities :: int
  ab_prediction_cache :: int
  ab_feature_cache :: int
  ab_market_cache :: int
  ab_ohlcv_cache :: int
  coalesce_interval_ms :: int
  admit_training :: bool
  admit_large_scan :: bool
  ring2_enabled :: bool
  ab_ml_profile_name :: string

definition clamp_int :: "int \<Rightarrow> int" where
  "clamp_int v = max 1 v"

text \<open>\<open>int(base * factor)\<close>.\<close>

definition scaled :: "int \<Rightarrow> flt \<Rightarrow> int" where
  "scaled v f = py_trunc (of_int v * f)"

fun index_of :: "'a list \<Rightarrow> 'a \<Rightarrow> nat option" where
  "index_of [] x = None"
| "index_of (y # ys) x = (if y = x then Some 0 else map_option Suc (index_of ys x))"

definition ml_order :: "string list" where
  "ml_order = [''ULTRA_LITE'', ''LITE'', ''BALANCED'', ''PERFORMANCE'', ''EXTREME'']"

definition downgrade_ml :: "string \<Rightarrow> nat \<Rightarrow> string" where
  "downgrade_ml name steps =
     (case index_of ml_order name of None \<Rightarrow> ''ULTRA_LITE'' | Some i \<Rightarrow> ml_order ! (i - steps))"

definition scale_budget ::
    "resource_budget \<Rightarrow> governor_state \<Rightarrow> int \<Rightarrow> int \<Rightarrow> adaptive_budget" where
  "scale_budget b s coalesce_deg coalesce_con =
     (case s of
        NORMAL_G \<Rightarrow> \<lparr>ab_state = s, degradation_level = 0, ab_workers = recommended_workers b,
          ab_max_ml_models = max_ml_models b, ab_max_universe = max_universe b,
          ab_max_candidates = max_candidates b, ab_max_ml_candidates = max_ml_candidates b,
          ab_max_predictions = max_predictions_per_cycle b,
          ab_max_opportunities = max_opportunities b,
          ab_prediction_cache = prediction_cache_size b, ab_feature_cache = feature_cache_size b,
          ab_market_cache = market_cache_size b, ab_ohlcv_cache = ohlcv_cache_size b,
          coalesce_interval_ms = 0, admit_training = True, admit_large_scan = True,
          ring2_enabled = True, ab_ml_profile_name = ml_profile_name b\<rparr>
      | DEGRADED_G \<Rightarrow> \<lparr>ab_state = s, degradation_level = 2,
          ab_workers = clamp_int (recommended_workers b),
          ab_max_ml_models = clamp_int (max 1 (max_ml_models b - 1)),
          ab_max_universe = clamp_int (scaled (max_universe b) (3/5)),
          ab_max_candidates = clamp_int (scaled (max_candidates b) (1/2)),
          ab_max_ml_candidates = clamp_int (scaled (max_ml_candidates b) (1/2)),
          ab_max_predictions = clamp_int (scaled (max_predictions_per_cycle b) (1/2)),
          ab_max_opportunities = clamp_int (scaled (max_opportunities b) (7/10)),
          ab_prediction_cache = clamp_int (scaled (prediction_cache_size b) (1/2)),
          ab_feature_cache = clamp_int (scaled (feature_cache_size b) (1/2)),
          ab_market_cache = clamp_int (scaled (market_cache_size b) (3/4)),
          ab_ohlcv_cache = clamp_int (scaled (ohlcv_cache_size b) (3/4)),
          coalesce_interval_ms = coalesce_deg, admit_training = False, admit_large_scan = True,
          ring2_enabled = False, ab_ml_profile_name = downgrade_ml (ml_profile_name b) 1\<rparr>
      | RECOVERY_G \<Rightarrow> \<lparr>ab_state = s, degradation_level = 3,
          ab_workers = clamp_int (recommended_workers b),
          ab_max_ml_models = clamp_int (max 1 (max_ml_models b - 1)),
          ab_max_universe = clamp_int (scaled (max_universe b) (1/2)),
          ab_max_candidates = clamp_int (scaled (max_candidates b) (2/5)),
          ab_max_ml_candidates = clamp_int (scaled (max_ml_candidates b) (2/5)),
          ab_max_predictions = clamp_int (scaled (max_predictions_per_cycle b) (2/5)),
          ab_max_opportunities = clamp_int (scaled (max_opportunities b) (1/2)),
          ab_prediction_cache = clamp_int (scaled (prediction_cache_size b) (2/5)),
          ab_feature_cache = clamp_int (scaled (feature_cache_size b) (2/5)),
          ab_market_cache = clamp_int (scaled (market_cache_size b) (3/5)),
          ab_ohlcv_cache = clamp_int (scaled (ohlcv_cache_size b) (3/5)),
          coalesce_interval_ms = coalesce_deg, admit_training = False, admit_large_scan = False,
          ring2_enabled = False, ab_ml_profile_name = downgrade_ml (ml_profile_name b) 1\<rparr>
      | CONSTRAINED_G \<Rightarrow> \<lparr>ab_state = s, degradation_level = 4, ab_workers = 1, ab_max_ml_models = 1,
          ab_max_universe = clamp_int (scaled (max_universe b) (1/4)),
          ab_max_candidates = clamp_int (scaled (max_candidates b) (1/5)),
          ab_max_ml_candidates = clamp_int (max 5 (scaled (max_ml_candidates b) (1/5))),
          ab_max_predictions = clamp_int (max 3 (scaled (max_predictions_per_cycle b) (1/4))),
          ab_max_opportunities = clamp_int (max 2 (scaled (max_opportunities b) (3/10))),
          ab_prediction_cache = clamp_int (scaled (prediction_cache_size b) (1/4)),
          ab_feature_cache = clamp_int (scaled (feature_cache_size b) (1/4)),
          ab_market_cache = clamp_int (scaled (market_cache_size b) (2/5)),
          ab_ohlcv_cache = clamp_int (scaled (ohlcv_cache_size b) (2/5)),
          coalesce_interval_ms = coalesce_con, admit_training = False, admit_large_scan = False,
          ring2_enabled = False, ab_ml_profile_name = ''ULTRA_LITE''\<rparr>
      | CRITICAL_G \<Rightarrow> \<lparr>ab_state = s, degradation_level = 6, ab_workers = 1, ab_max_ml_models = 1,
          ab_max_universe = clamp_int (scaled (max_universe b) (1/10)),
          ab_max_candidates = 10, ab_max_ml_candidates = 3, ab_max_predictions = 1,
          ab_max_opportunities = 1, ab_prediction_cache = 8, ab_feature_cache = 8,
          ab_market_cache = 16, ab_ohlcv_cache = 16,
          coalesce_interval_ms = coalesce_con, admit_training = False, admit_large_scan = False,
          ring2_enabled = False, ab_ml_profile_name = ''ULTRA_LITE''\<rparr>)"

section \<open>Freshness gate\<close>

definition freshness_evaluate :: "governor_thresholds \<Rightarrow> int option \<Rightarrow> int \<Rightarrow> data_freshness" where
  "freshness_evaluate t last_ms now =
     (case last_ms of
        None \<Rightarrow> CRITICAL_STALE
      | Some l \<Rightarrow>
          (let age = max 0 (of_int (now - l) / 1000)
           in if age \<ge> data_critical_stale_seconds t then CRITICAL_STALE
              else if age \<ge> data_stale_seconds t then STALE_DATA
              else if age \<ge> data_aging_seconds t then AGING
              else FRESH))"

definition allow_new_proposal :: "data_freshness \<Rightarrow> bool" where
  "allow_new_proposal f \<longleftrightarrow> f \<in> {FRESH, AGING}"

section \<open>The governor\<close>

record resource_sample =
  rs_timestamp_ms :: int
  cpu_utilization :: "flt option"
  ram_total_bytes :: "int option"
  ram_available_bytes :: "int option"
  process_rss_bytes :: "int option"
  swap_used_bytes :: "int option"
  io_wait_ratio :: "flt option"
  disk_latency_ms :: "flt option"
  network_latency_ms :: "flt option"
  network_errors :: "int option"
  queue_depth :: "int option"
  queue_age_ms :: "flt option"
  cpu_temp_c :: "flt option"
  rs_on_battery :: "bool option"

record governor_event =
  ge_timestamp_ms :: int
  ge_event :: string
  ge_detail :: string
  ge_state :: string

record governor =
  gv_base :: resource_budget
  gv_t :: governor_thresholds
  gv_state :: governor_state
  gv_entered :: flt
  pressure_since :: "flt option"
  recovery_since :: "flt option"
  gv_events :: "governor_event list"
  last_sample :: "resource_sample option"
  gv_adaptive :: adaptive_budget

definition new_governor ::
    "flt \<Rightarrow> resource_budget \<Rightarrow> governor_thresholds \<Rightarrow> string + governor" where
  "new_governor now b t =
     (case validate_thresholds t of
        Inl e \<Rightarrow> Inl e
      | Inr _ \<Rightarrow> Inr \<lparr>gv_base = b, gv_t = t, gv_state = NORMAL_G, gv_entered = now,
          pressure_since = None, recovery_since = None, gv_events = [], last_sample = None,
          gv_adaptive = scale_budget b NORMAL_G 250 500\<rparr>)"

definition gv_emit :: "int \<Rightarrow> governor \<Rightarrow> string \<Rightarrow> string \<Rightarrow> governor" where
  "gv_emit wall g event detail =
     (let es = gv_events g @ [\<lparr>ge_timestamp_ms = wall, ge_event = event, ge_detail = take 500 detail,
                 ge_state = governor_name (gv_state g)\<rparr>]
      in g\<lparr>gv_events := (if length es > 200 then slice_from es (- 100) else es)\<rparr>)"

definition emit_if :: "bool \<Rightarrow> int \<Rightarrow> string \<Rightarrow> string \<Rightarrow> governor \<Rightarrow> governor" where
  "emit_if c wall event detail g = (if c then gv_emit wall g event detail else g)"

definition set_state :: "int \<Rightarrow> governor \<Rightarrow> governor_state \<Rightarrow> flt \<Rightarrow> string \<Rightarrow> governor" where
  "set_state wall g new now detail =
     (if new = gv_state g then g
      else
        (let old = gv_state g;
             g = g\<lparr>gv_state := new, gv_entered := now,
                   gv_adaptive := scale_budget (gv_base g) new 250 500\<rparr>;
             g = gv_emit wall g ''GOVERNOR_STATE_CHANGED''
                   (governor_name old @ ''->'' @ governor_name new @ '' ('' @ detail @ '')'');
             g = emit_if (new = DEGRADED_G) wall ''ML_DEGRADED'' ''ensemble reduced'' g;
             g = emit_if (new = DEGRADED_G) wall ''SCANNER_DEGRADED'' ''candidate budget reduced'' g;
             g = emit_if (new \<in> {CONSTRAINED_G, CRITICAL_G}) wall ''RING2_SUSPENDED''
                   ''expendable work stopped'' g;
             g = emit_if (new \<in> {CONSTRAINED_G, CRITICAL_G}) wall ''RING1_DEGRADED''
                   ''elastic work reduced'' g;
             g = emit_if (new = CRITICAL_G) wall ''RESOURCE_PRESSURE'' ''critical compute only'' g
         in emit_if (old \<in> {CRITICAL_G, CONSTRAINED_G} \<and> severity_rank new < severity_rank old) wall
              ''RESOURCE_RECOVERY'' (''recovering via '' @ governor_name new) g))"

definition read_memory_pressure :: "governor_thresholds \<Rightarrow> resource_sample \<Rightarrow> memory_pressure" where
  "read_memory_pressure t s =
     (case (ram_available_bytes s, ram_total_bytes s) of
        (Some free, Some tot) \<Rightarrow>
          (let total = max 1 tot; frac = of_int free / of_int total
           in if free \<le> ram_free_critical_bytes t \<or> frac < ram_free_scale_down t * (1/2)
              then MEM_CRITICAL
              else if free \<le> ram_free_warning_bytes t \<or> frac < ram_free_scale_down t
              then MEM_WARNING
              else MEM_NORMAL)
      | _ \<Rightarrow> MEM_UNKNOWN)"

text \<open>\<open>if x is not None and p(x): pressure_score = max(pressure_score, n)\<close>.\<close>

definition raise_if :: "'a option \<Rightarrow> ('a \<Rightarrow> bool) \<Rightarrow> nat \<Rightarrow> nat \<Rightarrow> nat" where
  "raise_if v p n score = (case v of None \<Rightarrow> score | Some x \<Rightarrow> if p x then max score n else score)"

definition desired_state :: "governor_thresholds \<Rightarrow> resource_sample \<Rightarrow> governor_state" where
  "desired_state t s =
     (let p = 0;
          p = raise_if (cpu_utilization s) (\<lambda>x. x \<ge> cpu_scale_down t) 1 p;
          p = raise_if (cpu_utilization s) (\<lambda>x. x \<ge> 97/100) 2 p;
          p = (case read_memory_pressure t s of
                 MEM_WARNING \<Rightarrow> max p 1 | MEM_CRITICAL \<Rightarrow> max p 3 | _ \<Rightarrow> p);
          p = raise_if (disk_latency_ms s) (\<lambda>x. x \<ge> io_latency_scale_down_ms t) 1 p;
          p = raise_if (disk_latency_ms s) (\<lambda>x. x \<ge> io_latency_scale_down_ms t * 2) 2 p;
          p = raise_if (network_latency_ms s) (\<lambda>x. x \<ge> net_latency_scale_down_ms t) 1 p;
          p = raise_if (network_latency_ms s) (\<lambda>x. x \<ge> net_latency_scale_down_ms t * 2) 2 p;
          p = raise_if (queue_depth s) (\<lambda>x. x \<ge> queue_depth_scale_down t) 1 p;
          p = raise_if (queue_depth s)
                (\<lambda>x. x \<ge> queue_depth_scale_down t \<and> x \<ge> queue_depth_scale_down t * 3) 2 p;
          p = raise_if (cpu_temp_c s) (\<lambda>x. x \<ge> 90) 2 p;
          p = raise_if (rs_on_battery s) (\<lambda>x. x) 1 p
      in if p = 0 then NORMAL_G else if p = 1 then DEGRADED_G
         else if p = 2 then CONSTRAINED_G else CRITICAL_G)"

text \<open>\<open>self._recovery_since and ...\<close>: an unset or zero time is false.\<close>

definition since_truthy :: "flt option \<Rightarrow> bool" where
  "since_truthy t \<longleftrightarrow> t \<noteq> None \<and> t \<noteq> Some 0"

definition maybe_transition :: "int \<Rightarrow> flt \<Rightarrow> governor \<Rightarrow> governor_state \<Rightarrow> governor" where
  "maybe_transition wall now g desired =
     (let elapsed = now - gv_entered g; t = gv_t g; st = gv_state g;
          cur = severity_rank st; des = severity_rank desired
      in if des > cur
         then if elapsed < min 5 (min_dwell_seconds t) then g
              else (set_state wall g desired now (''pressure->'' @ governor_name desired))
                     \<lparr>pressure_since := Some now, recovery_since := None\<rparr>
         else if des < cur
         then if elapsed < min_dwell_seconds t then g
              else if st = CRITICAL_G \<and> desired \<in> {NORMAL_G, DEGRADED_G, CONSTRAINED_G} \<and>
                recovery_since g = None
              then (set_state wall g RECOVERY_G now ''enter recovery'')\<lparr>recovery_since := Some now\<rparr>
              else if st = RECOVERY_G
              then if since_truthy (recovery_since g) \<and>
                     now - opt_get (recovery_since g) 0 < recovery_stability_seconds t then g
                   else if desired = NORMAL_G
                   then set_state wall g DEGRADED_G now ''recovery->degraded''
                   else (set_state wall g desired now (''recovery->'' @ governor_name desired))
                          \<lparr>recovery_since := None\<rparr>
              else if pressure_since g \<noteq> None \<and> now - gv_entered g < recovery_stability_seconds t
              then g
              else if st = CONSTRAINED_G \<and> desired = NORMAL_G
              then set_state wall g DEGRADED_G now ''step up degraded''
              else (set_state wall g desired now (''scale-up->'' @ governor_name desired))
                     \<lparr>pressure_since := None\<rparr>
         else if st = RECOVERY_G \<and> desired = NORMAL_G \<and> since_truthy (recovery_since g) \<and>
           now - opt_get (recovery_since g) 0 \<ge> recovery_stability_seconds t
         then set_state wall g DEGRADED_G now ''recovery stable->degraded''
         else g)"

definition governor_evaluate :: "int \<Rightarrow> flt \<Rightarrow> governor \<Rightarrow> resource_sample \<Rightarrow> governor" where
  "governor_evaluate wall now g sample =
     (let g = g\<lparr>last_sample := Some sample\<rparr>;
          g = maybe_transition wall now g (desired_state (gv_t g) sample)
      in g\<lparr>gv_adaptive := scale_budget (gv_base g) (gv_state g) (coalesce_degraded_ms (gv_t g))
             (coalesce_constrained_ms (gv_t g))\<rparr>)"

definition admit :: "governor \<Rightarrow> string \<Rightarrow> bool" where
  "admit g work =
     (if work = ''training'' then admit_training (gv_adaptive g)
      else if work = ''large_scan'' then admit_large_scan (gv_adaptive g)
      else if work = ''ring2'' then ring2_enabled (gv_adaptive g)
      else True)"

definition allow_strategy_proposal ::
    "int \<Rightarrow> int \<Rightarrow> governor \<Rightarrow> int option \<Rightarrow> bool \<times> governor" where
  "allow_strategy_proposal wall now_ms g last_ms =
     (let f = freshness_evaluate (gv_t g) last_ms now_ms
      in if \<not> allow_new_proposal f
         then (False, gv_emit wall g ''STALE_DATA_BLOCK'' (''freshness='' @ freshness_name f))
         else if gv_state g = CRITICAL_G then (f = FRESH, g)
         else (True, g))"

section \<open>Snapshot\<close>

record governor_snapshot =
  gs_timestamp_ms :: int
  gs_state :: governor_state
  gs_degradation_level :: int
  gs_cpu_usage :: "flt option"
  gs_ram_usage :: "flt option"
  gs_memory_pressure :: memory_pressure
  gs_swap_pressure :: "bool option"
  gs_io_wait :: "flt option"
  gs_disk_latency_ms :: "flt option"
  gs_network_latency_ms :: "flt option"
  gs_network_errors :: "int option"
  gs_queue_depth :: "int option"
  gs_queue_age_ms :: "flt option"
  thermal_state :: string
  power_state :: string
  gs_ring0 :: ring_status
  gs_ring1 :: ring_status
  gs_ring2 :: ring_status
  current_workers :: int
  gs_max_workers :: int
  gs_adaptive :: adaptive_budget
  data_mode :: string
  events_tail :: "string list"

definition sample_field :: "(resource_sample \<Rightarrow> 'a option) \<Rightarrow> governor \<Rightarrow> 'a option" where
  "sample_field f g = Option.bind (last_sample g) f"

definition take_snapshot :: "int \<Rightarrow> governor \<Rightarrow> governor_snapshot" where
  "take_snapshot wall g = \<lparr>gs_timestamp_ms = wall, gs_state = gv_state g,
     gs_degradation_level = DEGRADATION_LEVELS (gv_state g),
     gs_cpu_usage = sample_field cpu_utilization g,
     gs_ram_usage = (case (sample_field ram_total_bytes g, sample_field ram_available_bytes g) of
        (Some tot, Some free) \<Rightarrow>
          if tot = 0 then None else Some (1 - of_int free / of_int (max 1 tot))
      | _ \<Rightarrow> None),
     gs_memory_pressure = (case last_sample g of None \<Rightarrow> MEM_UNKNOWN
        | Some s \<Rightarrow> read_memory_pressure (gv_t g) s),
     gs_swap_pressure = map_option (\<lambda>b. b > 0) (sample_field swap_used_bytes g),
     gs_io_wait = sample_field io_wait_ratio g,
     gs_disk_latency_ms = sample_field disk_latency_ms g,
     gs_network_latency_ms = sample_field network_latency_ms g,
     gs_network_errors = sample_field network_errors g,
     gs_queue_depth = sample_field queue_depth g,
     gs_queue_age_ms = sample_field queue_age_ms g,
     thermal_state = (case sample_field cpu_temp_c g of None \<Rightarrow> ''UNKNOWN''
        | Some c \<Rightarrow> if c \<ge> 85 then ''HOT'' else ''OK''),
     power_state = (case sample_field rs_on_battery g of None \<Rightarrow> ''UNKNOWN''
        | Some b \<Rightarrow> if b then ''BATTERY'' else ''AC''),
     gs_ring0 = ring0_status (gv_state g), gs_ring1 = ring1_status (gv_state g),
     gs_ring2 = ring2_status (gv_state g), current_workers = ab_workers (gv_adaptive g),
     gs_max_workers = max_workers (gv_base g), gs_adaptive = gv_adaptive g,
     data_mode = (if coalesce_interval_ms (gv_adaptive g) > 0 then ''coalesced'' else ''normal''),
     events_tail = map ge_event (slice_from (gv_events g) (- 5))\<rparr>"

end
