(* ===== verification/GovernorProps.thy ===== *)
theory GovernorProps
  imports Governor
begin

text \<open>
  Properties of the governor: how its state moves over any run of evaluations, that sustained calm
  brings it back to normal, and how the budgets of its states compare.
\<close>

section \<open>Frames\<close>

lemma gv_emit_frame [simp]:
  "gv_state (gv_emit w g e d) = gv_state g" "gv_t (gv_emit w g e d) = gv_t g"
  "gv_base (gv_emit w g e d) = gv_base g" "gv_entered (gv_emit w g e d) = gv_entered g"
  "recovery_since (gv_emit w g e d) = recovery_since g"
  "pressure_since (gv_emit w g e d) = pressure_since g"
  "gv_adaptive (gv_emit w g e d) = gv_adaptive g"
  by (simp_all add: gv_emit_def Let_def)

lemma emit_if_frame [simp]:
  "gv_state (emit_if c w e d g) = gv_state g" "gv_t (emit_if c w e d g) = gv_t g"
  "gv_base (emit_if c w e d g) = gv_base g" "gv_entered (emit_if c w e d g) = gv_entered g"
  "recovery_since (emit_if c w e d g) = recovery_since g"
  "pressure_since (emit_if c w e d g) = pressure_since g"
  by (simp_all add: emit_if_def)

lemma set_state_frame [simp]:
  "gv_state (set_state w g s now d) = s" "gv_t (set_state w g s now d) = gv_t g"
  "gv_base (set_state w g s now d) = gv_base g"
  "gv_entered (set_state w g s now d) = (if s = gv_state g then gv_entered g else now)"
  "recovery_since (set_state w g s now d) = recovery_since g"
  "pressure_since (set_state w g s now d) = pressure_since g"
  by (simp_all add: set_state_def Let_def)

lemma transition_frame [simp]:
  "gv_t (maybe_transition w now g d) = gv_t g" "gv_base (maybe_transition w now g d) = gv_base g"
  by (simp_all add: maybe_transition_def Let_def)

lemma evaluate_frame [simp]:
  "gv_t (governor_evaluate w now g s) = gv_t g" "gv_base (governor_evaluate w now g s) = gv_base g"
  by (simp_all add: governor_evaluate_def Let_def)

text \<open>An evaluation is a transition of the governor that has stored the sample.\<close>

lemma evaluate_state:
  fixes w now g s
  defines "h \<equiv> maybe_transition w now (g\<lparr>last_sample := Some s\<rparr>) (desired_state (gv_t g) s)"
  shows "gv_state (governor_evaluate w now g s) = gv_state h"
    "gv_entered (governor_evaluate w now g s) = gv_entered h"
    "recovery_since (governor_evaluate w now g s) = recovery_since h"
    "pressure_since (governor_evaluate w now g s) = pressure_since h"
    "gv_adaptive (governor_evaluate w now g s) = scale_budget (gv_base g) (gv_state h)
       (coalesce_degraded_ms (gv_t g)) (coalesce_constrained_ms (gv_t g))"
  by (simp_all add: governor_evaluate_def h_def Let_def)

lemma evaluate_budget:
  "gv_adaptive (governor_evaluate w now g s) = scale_budget (gv_base g) (gv_state (governor_evaluate w now g s))
     (coalesce_degraded_ms (gv_t g)) (coalesce_constrained_ms (gv_t g))"
  by (simp only: evaluate_state)

lemma desired_not_recovery: "desired_state t s \<noteq> RECOVERY_G"
  by (simp add: desired_state_def Let_def)

section \<open>The ladder\<close>

text \<open>The next rung down from each state.\<close>

fun rung_down :: "governor_state \<Rightarrow> governor_state" where
  "rung_down CRITICAL_G = RECOVERY_G"
| "rung_down RECOVERY_G = DEGRADED_G"
| "rung_down CONSTRAINED_G = DEGRADED_G"
| "rung_down DEGRADED_G = NORMAL_G"
| "rung_down NORMAL_G = NORMAL_G"

text \<open>
  The recovery clock is unset in the critical state, and in recovery it is the time of entry.
\<close>

definition clock_ok :: "governor \<Rightarrow> bool" where
  "clock_ok g \<longleftrightarrow>
     (gv_state g = CRITICAL_G \<longrightarrow> recovery_since g = None) \<and>
     (gv_state g = RECOVERY_G \<longrightarrow> recovery_since g = Some (gv_entered g))"

lemma transition_up:
  assumes "severity_rank (gv_state g) < severity_rank d"
  shows "maybe_transition w now g d =
    (if now - gv_entered g < min 5 (min_dwell_seconds (gv_t g)) then g
     else (set_state w g d now (''pressure->'' @ governor_name d))
            \<lparr>pressure_since := Some now, recovery_since := None\<rparr>)"
  using assms unfolding maybe_transition_def Let_def by simp

lemma transition_early:
  assumes "\<not> severity_rank (gv_state g) < severity_rank d" and "now - gv_entered g < min_dwell_seconds (gv_t g)"
    and "severity_rank d < severity_rank (gv_state g)"
  shows "maybe_transition w now g d = g"
  using assms unfolding maybe_transition_def Let_def by simp

lemma transition_level:
  assumes "severity_rank d = severity_rank (gv_state g)"
  shows "maybe_transition w now g d = g"
  using assms unfolding maybe_transition_def Let_def by (cases d) auto

lemma transition_critical:
  assumes "gv_state g = CRITICAL_G" and "clock_ok g" and "severity_rank d < 3" and "d \<noteq> RECOVERY_G"
    and "min_dwell_seconds (gv_t g) \<le> now - gv_entered g"
  shows "maybe_transition w now g d =
    (set_state w g RECOVERY_G now ''enter recovery'')\<lparr>recovery_since := Some now\<rparr>"
  using assms unfolding maybe_transition_def Let_def clock_ok_def by (cases d) auto

lemma transition_recovery:
  assumes "gv_state g = RECOVERY_G" and "clock_ok g"
    and "min_dwell_seconds (gv_t g) \<le> now - gv_entered g"
  shows "maybe_transition w now g NORMAL_G =
    (if gv_entered g \<noteq> 0 \<and> now - gv_entered g < recovery_stability_seconds (gv_t g) then g
     else set_state w g DEGRADED_G now ''recovery->degraded'')"
  using assms unfolding maybe_transition_def Let_def clock_ok_def since_truthy_def
  by (auto simp: opt_get_def)

lemma transition_improve:
  assumes "gv_state g \<in> {CONSTRAINED_G, DEGRADED_G}" and "severity_rank d < severity_rank (gv_state g)"
    and "d \<noteq> RECOVERY_G" and "min_dwell_seconds (gv_t g) \<le> now - gv_entered g"
  shows "maybe_transition w now g d =
    (if pressure_since g \<noteq> None \<and> now - gv_entered g < recovery_stability_seconds (gv_t g) then g
     else if gv_state g = CONSTRAINED_G \<and> d = NORMAL_G
     then set_state w g DEGRADED_G now ''step up degraded''
     else (set_state w g d now (''scale-up->'' @ governor_name d))\<lparr>pressure_since := None\<rparr>)"
proof -
  have r: "\<not> severity_rank (gv_state g) < severity_rank d" "gv_state g \<noteq> CRITICAL_G"
    "gv_state g \<noteq> RECOVERY_G" "\<not> now - gv_entered g < min_dwell_seconds (gv_t g)"
    using assms by auto
  show ?thesis
    unfolding maybe_transition_def Let_def
    by (simp only: r assms(2) simp_thms if_True if_False)
qed

text \<open>Every transition stays, goes up to the desired state or goes one rung down.\<close>

lemma transition_ladder:
  fixes w now g d
  defines "h \<equiv> maybe_transition w now g d"
  assumes ok: "clock_ok g" and d: "d \<noteq> RECOVERY_G"
  shows "clock_ok h \<and>
    (h = g \<or>
     severity_rank (gv_state g) < severity_rank d \<and> gv_state h = d \<and> gv_entered h = now \<and>
       min 5 (min_dwell_seconds (gv_t g)) \<le> now - gv_entered g \<or>
     severity_rank d < severity_rank (gv_state g) \<and> gv_state h = rung_down (gv_state g) \<and>
       gv_entered h = now \<and> min_dwell_seconds (gv_t g) \<le> now - gv_entered g)"
proof (cases "severity_rank (gv_state g) < severity_rank d")
  case True
  then have "gv_state g \<noteq> d" by auto
  with True show ?thesis
    using ok d unfolding h_def transition_up [OF True] by (auto simp: clock_ok_def)
next
  case up: False
  show ?thesis
  proof (cases "severity_rank d < severity_rank (gv_state g)")
    case down: True
    show ?thesis
    proof (cases "now - gv_entered g < min_dwell_seconds (gv_t g)")
      case True
      then show ?thesis using ok unfolding h_def transition_early [OF up True down] by simp
    next
      case False
      then have late: "min_dwell_seconds (gv_t g) \<le> now - gv_entered g" by simp
      show ?thesis
      proof (cases "gv_state g")
        case CRITICAL_G
        then show ?thesis
          using down late unfolding h_def
          by (subst (1 2 3 4) transition_critical [OF CRITICAL_G ok _ d late]) (auto simp: clock_ok_def)
      next
        case RECOVERY_G
        with down have "d = NORMAL_G" by (cases d) auto
        with RECOVERY_G late ok show ?thesis
          unfolding h_def \<open>d = NORMAL_G\<close> transition_recovery [OF RECOVERY_G ok late]
          by (auto simp: clock_ok_def)
      next
        case CONSTRAINED_G
        with down d have "d = NORMAL_G \<or> d = DEGRADED_G" by (cases d) auto
        moreover have c: "gv_state g \<in> {CONSTRAINED_G, DEGRADED_G}" using CONSTRAINED_G by simp
        ultimately show ?thesis
          using CONSTRAINED_G late ok down unfolding h_def transition_improve [OF c down d late]
          by (auto simp: clock_ok_def)
      next
        case DEGRADED_G
        with down d have "d = NORMAL_G" by (cases d) auto
        moreover have c: "gv_state g \<in> {CONSTRAINED_G, DEGRADED_G}" using DEGRADED_G by simp
        ultimately show ?thesis
          using DEGRADED_G late ok down unfolding h_def transition_improve [OF c down d late]
          by (auto simp: clock_ok_def)
      qed (use down in simp)
    qed
  next
    case False
    with up have "severity_rank d = severity_rank (gv_state g)" by simp
    then show ?thesis using ok unfolding h_def by (simp add: transition_level)
  qed
qed

section \<open>Runs\<close>

type_synonym observation = "int \<times> flt \<times> resource_sample"

definition governor_run :: "governor \<Rightarrow> observation list \<Rightarrow> governor" where
  "governor_run = foldl (\<lambda>g (w, now, s). governor_evaluate w now g s)"

lemma governor_run_snoc:
  "governor_run g (obs @ [(w, now, s)]) = governor_evaluate w now (governor_run g obs) s"
  by (simp add: governor_run_def)

lemma clock_ok_sample [simp]: "clock_ok (g\<lparr>last_sample := x\<rparr>) = clock_ok g"
  by (simp add: clock_ok_def)

text \<open>The ladder for a whole evaluation.\<close>

lemma evaluate_ladder:
  fixes w now g s
  defines "h \<equiv> governor_evaluate w now g s" and "d \<equiv> desired_state (gv_t g) s"
  assumes "clock_ok g"
  shows "clock_ok h \<and>
    (gv_state h = gv_state g \<and> gv_entered h = gv_entered g \<or>
     severity_rank (gv_state g) < severity_rank d \<and> gv_state h = d \<and> gv_entered h = now \<and>
       min 5 (min_dwell_seconds (gv_t g)) \<le> now - gv_entered g \<or>
     severity_rank d < severity_rank (gv_state g) \<and> gv_state h = rung_down (gv_state g) \<and>
       gv_entered h = now \<and> min_dwell_seconds (gv_t g) \<le> now - gv_entered g)"
proof -
  have "clock_ok (g\<lparr>last_sample := Some s\<rparr>)" using assms(3) by simp
  from transition_ladder [OF this desired_not_recovery [of "gv_t g" s], of w now] show ?thesis
    unfolding h_def d_def clock_ok_def [of "governor_evaluate w now g s"] evaluate_state
    by (auto simp: clock_ok_def)
qed

lemma new_governor_ok:
  "new_governor now b t = Inr g \<Longrightarrow> clock_ok g \<and> gv_t g = t \<and> gv_base g = b"
  by (auto simp: new_governor_def clock_ok_def split: sum.splits)

lemma run_frame [simp]: "gv_t (governor_run g obs) = gv_t g" "gv_base (governor_run g obs) = gv_base g"
  by (induction obs rule: rev_induct) (auto simp: governor_run_def split: prod.split)

lemma run_clock_ok: "clock_ok g \<Longrightarrow> clock_ok (governor_run g obs)"
proof (induction obs rule: rev_induct)
  case Nil
  then show ?case by (simp add: governor_run_def)
next
  case (snoc ob obs)
  then show ?case
    by (cases ob) (simp only: governor_run_snoc, use evaluate_ladder in blast)
qed

text \<open>C16: Over any run of evaluations the governor changes its state only in two ways: up to the state
  that the sample asks for, after the brief dwell, or down by exactly one rung (CRITICAL to RECOVERY,
  RECOVERY and CONSTRAINED to DEGRADED, DEGRADED to NORMAL) after the full dwell when the sample asks
  for less; and its budget is always the one of its state. (RECOVERY is entered from CRITICAL only,
  where a comment of the code names CONSTRAINED too: see \<open>recovery_only_from_critical\<close>.)\<close>

theorem governor_moves_by_rungs:
  assumes "new_governor now0 b t = Inr g0"
  shows "let g = governor_run g0 obs; h = governor_evaluate w now g s; d = desired_state t s in
    (gv_state h = gv_state g \<or>
     severity_rank (gv_state g) < severity_rank d \<and> gv_state h = d \<and>
       min 5 (min_dwell_seconds t) \<le> now - gv_entered g \<or>
     severity_rank d < severity_rank (gv_state g) \<and> gv_state h = rung_down (gv_state g) \<and>
       min_dwell_seconds t \<le> now - gv_entered g) \<and>
    gv_adaptive h = scale_budget b (gv_state h) (coalesce_degraded_ms t) (coalesce_constrained_ms t)"
proof -
  have "clock_ok (governor_run g0 obs)" using new_governor_ok [OF assms] run_clock_ok by blast
  from evaluate_ladder [OF this, of w now s] show ?thesis
    using new_governor_ok [OF assms] unfolding Let_def
    by (auto simp: evaluate_budget)
qed

text \<open>One calm evaluation after the dwell and the stability time goes one rung down.\<close>

lemma calm_step:
  assumes ok: "clock_ok g" and calm: "desired_state (gv_t g) s = NORMAL_G"
    and late: "min_dwell_seconds (gv_t g) \<le> now - gv_entered g"
      "recovery_stability_seconds (gv_t g) \<le> now - gv_entered g"
  shows "gv_state (governor_evaluate w now g s) = rung_down (gv_state g) \<and>
    gv_entered (governor_evaluate w now g s) \<le> max now (gv_entered g)"
proof -
  let ?g = "g\<lparr>last_sample := Some s\<rparr>"
  have ok': "clock_ok ?g" and late': "min_dwell_seconds (gv_t ?g) \<le> now - gv_entered ?g"
    using ok late by simp_all
  have "gv_state (maybe_transition w now ?g NORMAL_G) = rung_down (gv_state g)"
  proof (cases "gv_state g")
    case NORMAL_G
    then show ?thesis using transition_level [of NORMAL_G ?g] by simp
  next
    case CRITICAL_G
    then have "gv_state ?g = CRITICAL_G" by simp
    from transition_critical [OF this ok' _ _ late', of NORMAL_G] CRITICAL_G show ?thesis by simp
  next
    case RECOVERY_G
    then have "gv_state ?g = RECOVERY_G" by simp
    from transition_recovery [OF this ok' late'] RECOVERY_G late(2) show ?thesis by simp
  next
    case CONSTRAINED_G
    then show ?thesis using transition_improve [OF _ _ _ late', of NORMAL_G] late(2) by simp
  next
    case DEGRADED_G
    then show ?thesis using transition_improve [OF _ _ _ late', of NORMAL_G] late(2) by simp
  qed
  then show ?thesis using evaluate_ladder [OF ok, of w now s] calm by (auto simp: evaluate_state)
qed

text \<open>Whatever happened before, three calm evaluations that are each later than the state's entry by
  the dwell and the stability time bring the governor back to NORMAL, where training is admitted and
  the full budget is restored.\<close>

theorem calm_returns_to_normal:
  assumes "new_governor now0 b t = Inr g0" and "g = governor_run g0 obs"
    and "\<forall>s \<in> {s1, s2, s3}. desired_state t s = NORMAL_G"
    and "gv_entered g + gap \<le> now1" and "now1 + gap \<le> now2" and "now2 + gap \<le> now3"
    and "gap = max (min_dwell_seconds t) (recovery_stability_seconds t)"
  shows "let h = governor_run g [(w1, now1, s1), (w2, now2, s2), (w3, now3, s3)] in
    gv_state h = NORMAL_G \<and> admit h ''training'' \<and> ab_max_candidates (gv_adaptive h) = max_candidates b"
proof -
  have t: "gv_t g = t" "gv_base g = b" and g: "clock_ok g"
    using new_governor_ok [OF assms(1)] run_clock_ok assms(2) by auto
  have "0 \<le> gap"
    using assms(1,7) by (auto simp: new_governor_def validate_thresholds_def split: sum.splits if_splits)
  let ?g1 = "governor_evaluate w1 now1 g s1"
  let ?g2 = "governor_evaluate w2 now2 ?g1 s2"
  let ?g3 = "governor_evaluate w3 now3 ?g2 s3"
  have 1: "gv_state ?g1 = rung_down (gv_state g)" "gv_entered ?g1 \<le> now1" "clock_ok ?g1"
    using calm_step [OF g, of s1 now1 w1] evaluate_ladder [OF g, of w1 now1 s1] t assms \<open>0 \<le> gap\<close> by auto
  have 2: "gv_state ?g2 = rung_down (gv_state ?g1)" "gv_entered ?g2 \<le> now2" "clock_ok ?g2"
    using calm_step [OF 1(3), of s2 now2 w2] evaluate_ladder [OF 1(3), of w2 now2 s2] 1(2) t assms \<open>0 \<le> gap\<close>
    by auto
  have "gv_state ?g3 = rung_down (gv_state ?g2)"
    using calm_step [OF 2(3), of s3 now3 w3] 2(2) t assms \<open>0 \<le> gap\<close> by auto
  then have "gv_state ?g3 = NORMAL_G" unfolding 1 2 by (cases "gv_state g") simp_all
  then show ?thesis
    using t by (simp add: governor_run_def admit_def evaluate_budget scale_budget_def)
qed

definition calm_sample :: resource_sample where
  "calm_sample = \<lparr>rs_timestamp_ms = 0, cpu_utilization = Some (1/10), ram_total_bytes = None,
     ram_available_bytes = None, process_rss_bytes = None, swap_used_bytes = None,
     io_wait_ratio = None, disk_latency_ms = None, network_latency_ms = None,
     network_errors = None, queue_depth = Some 1, queue_age_ms = None, cpu_temp_c = None,
     rs_on_battery = Some False\<rparr>"

definition busy_sample :: resource_sample where
  "busy_sample = calm_sample\<lparr>cpu_utilization := Some 1\<rparr>"

definition demo_budget :: resource_budget where
  "demo_budget = budget_for ULTRA_LITE \<lparr>total_bytes = 2147483648, available_bytes = None\<rparr>"

definition demo_governor :: governor where
  "demo_governor = (case new_governor 0 demo_budget default_thresholds of Inr g \<Rightarrow> g)"

lemma demo_governor: "new_governor 0 demo_budget default_thresholds = Inr demo_governor"
  by (simp add: demo_governor_def new_governor_def validate_thresholds_def default_thresholds_def)

theorem governor_moves_by_rungs_witness:
  "let g = governor_run demo_governor [(0, 10, busy_sample)];
       h = governor_evaluate 0 11 g calm_sample in
   gv_adaptive h = scale_budget demo_budget (gv_state h) 250 500"
  using governor_moves_by_rungs [OF demo_governor, of "[(0, 10, busy_sample)]" 0 11 calm_sample]
  by (simp add: Let_def default_thresholds_def)

lemma calm_desired: "desired_state default_thresholds calm_sample = NORMAL_G"
  by (simp add: desired_state_def calm_sample_def default_thresholds_def raise_if_def read_memory_pressure_def)

lemma busy_entered: "gv_entered (governor_run demo_governor [(0, 10, busy_sample)]) \<le> 10"
proof -
  have "gv_entered demo_governor \<le> 10"
    by (simp add: demo_governor_def new_governor_def validate_thresholds_def default_thresholds_def)
  then show ?thesis
    using evaluate_ladder [of demo_governor 0 10 busy_sample] new_governor_ok [OF demo_governor]
    by (auto simp: governor_run_def)
qed

text \<open>RECOVERY is entered from CRITICAL only. A governor in CONSTRAINED steps to DEGRADED, although
  the comment in the code announces RECOVERY first from both states: the run below sees a busy and
  then a calm sample.\<close>

theorem recovery_only_from_critical:
  assumes "new_governor now0 b t = Inr g0" and "g = governor_run g0 obs"
    and "gv_state (governor_evaluate w now g s) = RECOVERY_G" and "gv_state g \<noteq> RECOVERY_G"
  shows "gv_state g = CRITICAL_G"
proof -
  have "clock_ok g" using new_governor_ok [OF assms(1)] run_clock_ok assms(2) by blast
  from evaluate_ladder [OF this, of w now s] desired_not_recovery [of "gv_t g" s] assms(3,4)
  have "rung_down (gv_state g) = RECOVERY_G" by auto
  then show ?thesis by (cases "gv_state g") simp_all
qed

lemma constrained_steps_to_degraded:
  "map (\<lambda>obs. gv_state (governor_run demo_governor obs))
     [[(0, 10, busy_sample)], [(0, 10, busy_sample), (0, 130, calm_sample)]] =
   [CONSTRAINED_G, DEGRADED_G]"
  by code_simp

theorem recovery_only_from_critical_witness:
  "gv_state (governor_evaluate 0 130 (governor_run demo_governor [(0, 10, busy_sample)]) calm_sample)
     \<noteq> RECOVERY_G"
  using recovery_only_from_critical [OF demo_governor refl,
      of 0 130 "[(0, 10, busy_sample)]" calm_sample] constrained_steps_to_degraded
  by auto

theorem calm_returns_to_normal_witness:
  "gv_state (governor_run (governor_run demo_governor [(0, 10, busy_sample)])
     [(0, 130, calm_sample), (0, 250, calm_sample), (0, 370, calm_sample)]) = NORMAL_G"
  using calm_returns_to_normal [OF demo_governor refl, of calm_sample calm_sample calm_sample
      "[(0, 10, busy_sample)]" 120 130 250 370 0 0 0] busy_entered
  by (simp add: calm_desired) (simp add: default_thresholds_def Let_def)

section \<open>Budgets of the states\<close>

definition allowances :: "resource_budget \<Rightarrow> governor_state \<Rightarrow> int list" where
  "allowances b s = (let a = scale_budget b s 250 500 in
     [ab_workers a, ab_max_ml_models a, ab_max_universe a, ab_max_candidates a,
      ab_max_ml_candidates a, ab_max_predictions a, ab_max_opportunities a, ab_prediction_cache a,
      ab_feature_cache a, ab_market_cache a, ab_ohlcv_cache a])"

lemmas budget_eval = allowances_def scale_budget_def budget_for_def budget_row_def clamp_int_def
  scaled_def py_trunc_def Let_def

text \<open>
  On the budgets of \<open>budget_for\<close> the ladder of allowances descends from NORMAL over DEGRADED and
  RECOVERY to CONSTRAINED, but for the smallest profile, where CONSTRAINED allows two opportunities and
  RECOVERY only one.
\<close>

lemma allowances_descend:
  assumes "p \<noteq> ULTRA_LITE"
  shows "list_all2 (\<le>) (allowances (budget_for p r) CONSTRAINED_G) (allowances (budget_for p r) RECOVERY_G) \<and>
   list_all2 (\<le>) (allowances (budget_for p r) RECOVERY_G) (allowances (budget_for p r) DEGRADED_G) \<and>
   list_all2 (\<le>) (allowances (budget_for p r) DEGRADED_G) (allowances (budget_for p r) NORMAL_G)"
  using assms by (cases p) (auto simp: budget_eval intro!: floor_mono)

lemma recovery_below_constrained:
  "ab_max_opportunities (scale_budget (budget_for ULTRA_LITE r) RECOVERY_G 250 500) = 1 \<and>
   ab_max_opportunities (scale_budget (budget_for ULTRA_LITE r) CONSTRAINED_G 250 500) = 2"
  by (simp add: budget_eval)

text \<open>The constants of CRITICAL can exceed what CONSTRAINED allows on a small machine.\<close>

lemma critical_exceeds_constrained:
  "ab_max_candidates (scale_budget (budget_for ULTRA_LITE r) CONSTRAINED_G 250 500) = 8 \<and>
   ab_max_candidates (scale_budget (budget_for ULTRA_LITE r) CRITICAL_G 250 500) = 10"
  by (simp add: budget_eval)

text \<open>Under steady moderate pressure RECOVERY is never left.\<close>

lemma recovery_stuck:
  "gv_state g = RECOVERY_G \<Longrightarrow> desired_state (gv_t g) s = DEGRADED_G \<Longrightarrow>
   gv_state (governor_evaluate w now g s) = RECOVERY_G"
  by (simp add: evaluate_state transition_level)

end
