(* ===== verification/PyJson.thy ===== *)
theory PyJson
  imports Prelude
begin

text \<open>
  Reading records out of JSON-like dictionaries, as the \<open>from_dict\<close> constructors of the program do:
  the conversions \<open>str\<close>, \<open>int\<close>, \<open>float\<close>, \<open>tuple\<close> and \<open>dict\<close> with the exceptions Python raises.
  Parsing of numerals in strings is the parameter \<open>parse\<close>, rendering of numbers \<open>shw\<close>.
\<close>

datatype py_exc = KeyE | TypeE | ValueE | AttributeE

definition bindE :: "'e + 'a \<Rightarrow> ('a \<Rightarrow> 'e + 'b) \<Rightarrow> 'e + 'b" where
  "bindE m f = (case m of Inl e \<Rightarrow> Inl e | Inr x \<Rightarrow> f x)"

lemma bindE_simps [simp]: "bindE (Inl e) f = Inl e" "bindE (Inr x) f = f x"
  by (simp_all add: bindE_def)

lemma bindE_Inr: "bindE m f = Inr y \<longleftrightarrow> (\<exists>x. m = Inr x \<and> f x = Inr y)"
  by (cases m) auto

text \<open>\<open>d[k]\<close>.\<close>

definition item :: "pydict \<Rightarrow> string \<Rightarrow> py_exc + pyval" where
  "item d k = (case map_of d k of None \<Rightarrow> Inl KeyE | Some v \<Rightarrow> Inr v)"

definition to_int :: "(string \<Rightarrow> flt option) \<Rightarrow> pyval \<Rightarrow> py_exc + int" where
  "to_int parse v =
     (case v of
        PyNum x \<Rightarrow> Inr (py_trunc x)
      | PyBool b \<Rightarrow> Inr (if b then 1 else 0)
      | PyStr s \<Rightarrow> (case parse s of None \<Rightarrow> Inl ValueE
           | Some x \<Rightarrow> if x = of_int \<lfloor>x\<rfloor> \<and> set s \<inter> set ''.eE'' = {} then Inr \<lfloor>x\<rfloor> else Inl ValueE)
      | _ \<Rightarrow> Inl TypeE)"

definition to_float :: "(string \<Rightarrow> flt option) \<Rightarrow> pyval \<Rightarrow> py_exc + flt" where
  "to_float parse v =
     (case v of
        PyNum x \<Rightarrow> Inr x
      | PyBool b \<Rightarrow> Inr (if b then 1 else 0)
      | PyStr s \<Rightarrow> (case parse s of None \<Rightarrow> Inl ValueE | Some x \<Rightarrow> Inr x)
      | _ \<Rightarrow> Inl TypeE)"

definition to_tuple :: "pyval \<Rightarrow> py_exc + pyval list" where
  "to_tuple v =
     (case v of
        PyList xs \<Rightarrow> Inr xs
      | PyStr s \<Rightarrow> Inr (map (\<lambda>c. PyStr [c]) s)
      | PyDict d \<Rightarrow> Inr (map (\<lambda>(k, _). PyStr k) d)
      | _ \<Rightarrow> Inl TypeE)"

text \<open>\<open>dict(v or {})\<close>; a list of pairs, which Python would accept too, counts as an error here.\<close>

definition to_dict_or_empty :: "pyval \<Rightarrow> py_exc + pydict" where
  "to_dict_or_empty v =
     (if \<not> truthy v then Inr []
      else case v of PyDict d \<Rightarrow> Inr d | _ \<Rightarrow> Inl TypeE)"

text \<open>\<open>{k: float(v) for k, v in (v or {}).items()}\<close>.\<close>

fun floats_of :: "(string \<Rightarrow> flt option) \<Rightarrow> pydict \<Rightarrow> py_exc + (string \<times> flt) list" where
  "floats_of parse [] = Inr []"
| "floats_of parse ((k, v) # d) =
     bindE (to_float parse v) (\<lambda>x. bindE (floats_of parse d) (\<lambda>xs. Inr ((k, x) # xs)))"

definition to_float_dict :: "(string \<Rightarrow> flt option) \<Rightarrow> pyval \<Rightarrow> py_exc + (string \<times> flt) list" where
  "to_float_dict parse v =
     (if \<not> truthy v then Inr []
      else case v of PyDict d \<Rightarrow> floats_of parse d | _ \<Rightarrow> Inl AttributeE)"

text \<open>Numbers, lists and dictionaries as values.\<close>

definition num :: "int \<Rightarrow> pyval" where
  "num i = PyNum (of_int i)"

definition num_dict :: "(string \<times> flt) list \<Rightarrow> pyval" where
  "num_dict d = PyDict (map (\<lambda>(k, x). (k, PyNum x)) d)"

lemma to_int_num [simp]: "to_int parse (num i) = Inr i"
  by (simp add: to_int_def num_def)

lemma truthy_num [simp]: "truthy (num i) = (i \<noteq> 0)"
  by (simp add: num_def)

lemma floats_of_nums: "floats_of parse (map (\<lambda>(k, x). (k, PyNum x)) d) = Inr d"
  by (induction d) (auto simp: to_float_def)

lemma to_float_dict_num [simp]: "to_float_dict parse (num_dict d) = Inr d"
  by (cases d) (auto simp: to_float_dict_def num_dict_def to_float_def floats_of_nums)

lemma to_dict_or_empty_dict [simp]: "to_dict_or_empty (PyDict d) = Inr d"
  by (simp add: to_dict_or_empty_def)

lemma to_tuple_list [simp]: "to_tuple (PyList xs) = Inr xs"
  by (simp add: to_tuple_def)

lemma py_or_int [simp]: "to_int parse (py_or (num i) (num j)) = Inr (if i = 0 then j else i)"
  by (simp add: py_or_def)

lemma py_or_str [simp]: "py_str shw (py_or (PyStr s) (PyStr t)) = (if s = [] then t else s)"
  by (simp add: py_or_def)

end
