(* ===== verification/Registry.thy ===== *)
theory Registry
  imports PyJson
begin

text \<open>
  Model artifacts and the model registry: \<open>ModelMetadata\<close> (\<^verbatim>\<open>src/src/crypto/ml/base.py\<close>), the
  checks of \<open>load_artifact\<close> (\<^verbatim>\<open>ml/artifacts.py\<close>), the registry's entries (\<^verbatim>\<open>registry/models.py\<close>)
  and \<open>ModelRegistry\<close> (\<^verbatim>\<open>registry/store.py\<close>). The contents of the files are inputs; the hash, the
  JSON text of a dictionary and the deserialisation of a model are parameters.
\<close>

section \<open>Metadata\<close>

record model_metadata =
  mm_model_id :: string
  mm_version :: string
  mm_algorithm :: string
  mm_schema :: string
  mm_feature_names :: "pyval list"
  mm_training_rows :: int
  mm_training_data_hash :: string
  mm_hyperparameters :: pydict
  mm_metrics :: "(string \<times> flt) list"
  mm_created_at_ms :: int
  mm_profile :: string
  mm_label_horizon_bars :: int

definition metadata_to_dict :: "model_metadata \<Rightarrow> pydict" where
  "metadata_to_dict m =
     [(''model_id'', PyStr (mm_model_id m)), (''version'', PyStr (mm_version m)),
      (''algorithm'', PyStr (mm_algorithm m)), (''feature_schema_version'', PyStr (mm_schema m)),
      (''feature_names'', PyList (mm_feature_names m)), (''training_rows'', num (mm_training_rows m)),
      (''training_data_hash'', PyStr (mm_training_data_hash m)),
      (''hyperparameters'', PyDict (mm_hyperparameters m)), (''metrics'', num_dict (mm_metrics m)),
      (''created_at_ms'', num (mm_created_at_ms m)), (''profile'', PyStr (mm_profile m)),
      (''label_horizon_bars'', num (mm_label_horizon_bars m))]"

definition metadata_from_dict ::
    "(pyval \<Rightarrow> string) \<Rightarrow> (string \<Rightarrow> flt option) \<Rightarrow> pydict \<Rightarrow> py_exc + model_metadata" where
  "metadata_from_dict shw parse d =
     bindE (item d ''model_id'') (\<lambda>mid.
     bindE (item d ''version'') (\<lambda>ver.
     bindE (item d ''algorithm'') (\<lambda>alg.
     bindE (item d ''feature_schema_version'') (\<lambda>sch.
     bindE (bindE (item d ''feature_names'') to_tuple) (\<lambda>names.
     bindE (bindE (item d ''training_rows'') (to_int parse)) (\<lambda>rows.
     bindE (item d ''training_data_hash'') (\<lambda>hash.
     bindE (to_dict_or_empty (dget d ''hyperparameters'')) (\<lambda>hyper.
     bindE (to_float_dict parse (dget d ''metrics'')) (\<lambda>metrics.
     bindE (to_int parse (py_or (dget d ''created_at_ms'') (num 0))) (\<lambda>created.
     bindE (to_int parse (py_or (dget d ''label_horizon_bars'') (num 5))) (\<lambda>horizon.
       Inr \<lparr>mm_model_id = py_str shw mid, mm_version = py_str shw ver, mm_algorithm = py_str shw alg,
            mm_schema = py_str shw sch, mm_feature_names = names, mm_training_rows = rows,
            mm_training_data_hash = py_str shw hash, mm_hyperparameters = hyper,
            mm_metrics = metrics, mm_created_at_ms = created,
            mm_profile = py_str shw (py_or (dget d ''profile'') (PyStr ''ULTRA_LITE'')),
            mm_label_horizon_bars = horizon\<rparr>)))))))))))"

section \<open>Artifacts\<close>

definition FEATURE_SCHEMA_VERSION :: string where
  "FEATURE_SCHEMA_VERSION = ''v1''"

text \<open>The three files of an artifact; \<open>Inl\<close> is a metadata file that is not JSON.\<close>

record artifact_files =
  meta_file :: "(unit + pydict) option"
  bin_file :: "string option"
  checksum_file :: "string option"

datatype artifact_error =
    ArtifactError string
  | OtherError py_exc

definition secret_words :: "string list" where
  "secret_words = [''api_key'', ''api_secret'', ''password'', ''private_key'']"

definition first_word :: "string \<Rightarrow> string option" where
  "first_word s =
     (let w = takeWhile (\<lambda>c. \<not> is_space c) (dropWhile is_space s) in if w = [] then None else Some w)"

text \<open>What \<open>load_artifact\<close> takes from its environment.\<close>

record 'm artifact_env =
  ae_shw :: "pyval \<Rightarrow> string"
  ae_parse :: "string \<Rightarrow> flt option"
  ae_dumps :: "pydict \<Rightarrow> string"
  ae_sha256 :: "string \<Rightarrow> string"
  ae_load_bytes :: "string \<Rightarrow> string \<Rightarrow> string + 'm"
  ae_files :: "string \<Rightarrow> artifact_files"

definition read_metadata ::
    "'m artifact_env \<Rightarrow> unit + pydict \<Rightarrow> artifact_error + model_metadata" where
  "read_metadata e f =
     (case f of
        Inl _ \<Rightarrow> Inl (ArtifactError ''corrupt metadata'')
      | Inr payload \<Rightarrow>
          (case bindE (item payload ''meta'') (\<lambda>v.
                  case v of PyDict d \<Rightarrow> metadata_from_dict (ae_shw e) (ae_parse e) d | _ \<Rightarrow> Inl TypeE) of
             Inl x \<Rightarrow> if x \<in> {KeyE, TypeE} then Inl (ArtifactError ''corrupt metadata'')
                      else Inl (OtherError x)
           | Inr m \<Rightarrow> Inr m))"

definition load_artifact ::
    "'m artifact_env \<Rightarrow> string \<Rightarrow> artifact_error + ('m \<times> model_metadata)" where
  "load_artifact e path =
     (let f = ae_files e path in
      case (meta_file f, bin_file f) of
        (Some mf, Some raw) \<Rightarrow>
          bindE (read_metadata e mf) (\<lambda>meta.
            if mm_schema meta \<noteq> FEATURE_SCHEMA_VERSION
            then Inl (ArtifactError ''feature schema mismatch'')
            else if \<exists>w \<in> set secret_words. py_in w (py_lower (ae_dumps e (metadata_to_dict meta)))
            then Inl (ArtifactError ''artifact metadata contains forbidden secret-like fields'')
            else case checksum_file f of
                   None \<Rightarrow> Inl (ArtifactError ''missing trusted artifact checksum'')
                 | Some c \<Rightarrow>
                     (case first_word c of
                        None \<Rightarrow> Inl (ArtifactError ''invalid artifact checksum'')
                      | Some expected \<Rightarrow>
                          if ae_sha256 e raw \<noteq> expected
                          then Inl (ArtifactError ''artifact_checksum_mismatch'')
                          else case ae_load_bytes e (mm_algorithm meta) raw of
                                 Inl x \<Rightarrow> Inl (ArtifactError (''failed to load model bytes: '' @ x))
                               | Inr m \<Rightarrow> Inr (m, meta)))
      | _ \<Rightarrow> Inl (ArtifactError (''artifact incomplete: '' @ path)))"

section \<open>Entries\<close>

datatype model_status = CANDIDATE | VALIDATED | ACTIVE | CANARY | RETIRED | INVALID_MODEL

fun status_name :: "model_status \<Rightarrow> string" where
  "status_name CANDIDATE = ''CANDIDATE''"
| "status_name VALIDATED = ''VALIDATED''"
| "status_name ACTIVE = ''ACTIVE''"
| "status_name CANARY = ''CANARY''"
| "status_name RETIRED = ''RETIRED''"
| "status_name INVALID_MODEL = ''INVALID''"

definition status_of_name :: "string \<Rightarrow> py_exc + model_status" where
  "status_of_name n =
     (case find (\<lambda>s. status_name s = n) [CANDIDATE, VALIDATED, ACTIVE, CANARY, RETIRED, INVALID_MODEL] of
        None \<Rightarrow> Inl KeyE | Some s \<Rightarrow> Inr s)"

record registry_entry =
  re_model_id :: string
  re_version :: string
  re_algorithm :: string
  re_schema :: string
  re_feature_names :: "pyval list"
  re_training_data_hash :: string
  re_metrics :: "(string \<times> flt) list"
  re_status :: model_status
  re_artifact_path :: string
  re_created_at_ms :: int
  re_activated_at_ms :: "int option"
  re_training_rows :: int
  re_profile :: string
  re_label_horizon_bars :: int
  re_hyperparameters :: pydict
  re_notes :: string

definition entry_to_dict :: "registry_entry \<Rightarrow> pydict" where
  "entry_to_dict e =
     [(''model_id'', PyStr (re_model_id e)), (''version'', PyStr (re_version e)),
      (''algorithm'', PyStr (re_algorithm e)), (''feature_schema_version'', PyStr (re_schema e)),
      (''feature_names'', PyList (re_feature_names e)),
      (''training_data_hash'', PyStr (re_training_data_hash e)),
      (''metrics'', num_dict (re_metrics e)), (''status'', PyStr (status_name (re_status e))),
      (''artifact_path'', PyStr (re_artifact_path e)), (''created_at_ms'', num (re_created_at_ms e)),
      (''activated_at_ms'', case re_activated_at_ms e of None \<Rightarrow> PyNone | Some t \<Rightarrow> num t),
      (''training_rows'', num (re_training_rows e)), (''profile'', PyStr (re_profile e)),
      (''label_horizon_bars'', num (re_label_horizon_bars e)),
      (''hyperparameters'', PyDict (re_hyperparameters e)), (''notes'', PyStr (re_notes e))]"

definition entry_from_dict ::
    "(pyval \<Rightarrow> string) \<Rightarrow> (string \<Rightarrow> flt option) \<Rightarrow> pydict \<Rightarrow> py_exc + registry_entry" where
  "entry_from_dict shw parse d =
     bindE (item d ''model_id'') (\<lambda>mid.
     bindE (item d ''version'') (\<lambda>ver.
     bindE (item d ''algorithm'') (\<lambda>alg.
     bindE (item d ''feature_schema_version'') (\<lambda>sch.
     bindE (bindE (item d ''feature_names'') to_tuple) (\<lambda>names.
     bindE (item d ''training_data_hash'') (\<lambda>hash.
     bindE (to_float_dict parse (dget d ''metrics'')) (\<lambda>metrics.
     bindE (bindE (item d ''status'') (\<lambda>v. status_of_name (py_str shw v))) (\<lambda>st.
     bindE (item d ''artifact_path'') (\<lambda>path.
     bindE (bindE (item d ''created_at_ms'') (to_int parse)) (\<lambda>created.
     bindE (if dget d ''activated_at_ms'' \<noteq> PyNone
            then bindE (bindE (item d ''activated_at_ms'') (to_int parse)) (\<lambda>t. Inr (Some t))
            else Inr None) (\<lambda>activated.
     bindE (to_int parse (py_or (dget d ''training_rows'') (num 0))) (\<lambda>rows.
     bindE (to_int parse (py_or (dget d ''label_horizon_bars'') (num 5))) (\<lambda>horizon.
     bindE (to_dict_or_empty (dget d ''hyperparameters'')) (\<lambda>hyper.
       Inr \<lparr>re_model_id = py_str shw mid, re_version = py_str shw ver, re_algorithm = py_str shw alg,
            re_schema = py_str shw sch, re_feature_names = names,
            re_training_data_hash = py_str shw hash, re_metrics = metrics, re_status = st,
            re_artifact_path = py_str shw path, re_created_at_ms = created,
            re_activated_at_ms = activated, re_training_rows = rows,
            re_profile = py_str shw (py_or (dget d ''profile'') (PyStr ''ULTRA_LITE'')),
            re_label_horizon_bars = horizon, re_hyperparameters = hyper,
            re_notes = py_str shw (py_or (dget d ''notes'') (PyStr []))\<rparr>))))))))))))))"

section \<open>The registry\<close>

record registry =
  rg_entries :: "(string, registry_entry) dict"
  rg_index :: "pydict list option"

datatype registry_error =
    RegistryError string
  | ArtifactFailed artifact_error

definition load_index ::
    "(pyval \<Rightarrow> string) \<Rightarrow> (string \<Rightarrow> flt option) \<Rightarrow> pydict list option \<Rightarrow> py_exc + registry" where
  "load_index shw parse index =
     (case index of
        None \<Rightarrow> Inr \<lparr>rg_entries = [], rg_index = None\<rparr>
      | Some ds \<Rightarrow>
          bindE (fold (\<lambda>d acc. bindE acc (\<lambda>es. bindE (entry_from_dict shw parse d) (\<lambda>e.
                   Inr (AList.update (re_model_id e) e es)))) ds (Inr []))
            (\<lambda>es. Inr \<lparr>rg_entries = es, rg_index = Some ds\<rparr>))"

definition save_index :: "registry \<Rightarrow> registry" where
  "save_index r = r\<lparr>rg_index := Some (map (\<lambda>(_, e). entry_to_dict e) (rg_entries r))\<rparr>"

definition put_entry :: "registry_entry \<Rightarrow> registry \<Rightarrow> registry" where
  "put_entry e r = r\<lparr>rg_entries := AList.update (re_model_id e) e (rg_entries r)\<rparr>"

definition get_entry :: "registry \<Rightarrow> string \<Rightarrow> registry_entry option" where
  "get_entry r mid = map_of (rg_entries r) mid"

definition require :: "registry \<Rightarrow> string \<Rightarrow> registry_error + registry_entry" where
  "require r mid =
     (case get_entry r mid of
        None \<Rightarrow> Inl (RegistryError (''unknown model_id='' @ mid)) | Some e \<Rightarrow> Inr e)"

text \<open>An operation that may fail returns its result and the registry it leaves.\<close>

type_synonym 'a reg_result = "(registry_error + 'a) \<times> registry"

definition register ::
    "'m artifact_env \<Rightarrow> int \<Rightarrow> registry \<Rightarrow> model_metadata \<Rightarrow> string \<Rightarrow> model_status \<Rightarrow>
     registry_entry reg_result" where
  "register env now r meta path st =
     (case load_artifact env path of
        Inl x \<Rightarrow> (Inl (ArtifactFailed x), r)
      | Inr (_, loaded) \<Rightarrow>
          if mm_model_id loaded \<noteq> mm_model_id meta
          then (Inl (RegistryError ''metadata model_id mismatch with artifact''), r)
          else if mm_schema loaded \<noteq> FEATURE_SCHEMA_VERSION
          then (Inl (RegistryError ''incompatible feature schema''), r)
          else
            (let e = \<lparr>re_model_id = mm_model_id meta, re_version = mm_version meta,
                   re_algorithm = mm_algorithm meta, re_schema = mm_schema meta,
                   re_feature_names = mm_feature_names meta,
                   re_training_data_hash = mm_training_data_hash meta, re_metrics = mm_metrics meta,
                   re_status = st, re_artifact_path = path,
                   re_created_at_ms = (if mm_created_at_ms meta = 0 then now else mm_created_at_ms meta),
                   re_activated_at_ms = None, re_training_rows = mm_training_rows meta,
                   re_profile = mm_profile meta, re_label_horizon_bars = mm_label_horizon_bars meta,
                   re_hyperparameters = mm_hyperparameters meta, re_notes = []\<rparr>
             in (Inr e, save_index (put_entry e r))))"

definition list_entries :: "registry \<Rightarrow> model_status option \<Rightarrow> registry_entry list" where
  "list_entries r st =
     (let out = map snd (rg_entries r);
          out = (case st of None \<Rightarrow> out | Some s \<Rightarrow> filter (\<lambda>e. re_status e = s) out)
      in sort_key (\<lambda>e. - re_created_at_ms e) out)"

definition validate_model :: "'m artifact_env \<Rightarrow> registry \<Rightarrow> string \<Rightarrow> registry_entry reg_result" where
  "validate_model env r mid =
     (case require r mid of
        Inl x \<Rightarrow> (Inl x, r)
      | Inr e \<Rightarrow>
          if re_status e = INVALID_MODEL then (Inl (RegistryError ''model already INVALID''), r)
          else (case load_artifact env (re_artifact_path e) of
                  Inl (ArtifactError x) \<Rightarrow>
                    (Inl (RegistryError (''validation failed: '' @ x)),
                     save_index (put_entry (e\<lparr>re_status := INVALID_MODEL, re_notes := x\<rparr>) r))
                | Inl x \<Rightarrow> (Inl (ArtifactFailed x), r)
                | Inr _ \<Rightarrow>
                    (Inr (e\<lparr>re_status := VALIDATED\<rparr>),
                     save_index (put_entry (e\<lparr>re_status := VALIDATED\<rparr>) r))))"

text \<open>The loops that retire the active models of an algorithm.\<close>

definition retire_active :: "string \<Rightarrow> (registry_entry \<Rightarrow> bool) \<Rightarrow> registry \<Rightarrow> registry" where
  "retire_active alg sel r = r\<lparr>rg_entries := map (\<lambda>(k, e).
     (k, if re_algorithm e = alg \<and> re_status e = ACTIVE \<and> sel e then e\<lparr>re_status := RETIRED\<rparr> else e))
     (rg_entries r)\<rparr>"

definition activate :: "int \<Rightarrow> registry \<Rightarrow> string \<Rightarrow> registry_entry reg_result" where
  "activate now r mid =
     (case require r mid of
        Inl x \<Rightarrow> (Inl x, r)
      | Inr e \<Rightarrow>
          if re_status e \<notin> {VALIDATED, ACTIVE, CANARY}
          then (Inl (RegistryError (''cannot activate status='' @ status_name (re_status e) @
                  ''; validate first'')), r)
          else
            (let r = retire_active (re_algorithm e) (\<lambda>o'. re_model_id o' \<noteq> re_model_id e) r;
                 e = e\<lparr>re_status := ACTIVE, re_activated_at_ms := Some now\<rparr>
             in (Inr e, save_index (put_entry e r))))"

definition set_status ::
    "(registry_entry \<Rightarrow> registry_entry) \<Rightarrow> registry \<Rightarrow> string \<Rightarrow> registry_entry reg_result" where
  "set_status f r mid =
     (case require r mid of
        Inl x \<Rightarrow> (Inl x, r)
      | Inr e \<Rightarrow> (Inr (f e), save_index (put_entry (f e) r)))"

definition set_canary :: "registry \<Rightarrow> string \<Rightarrow> registry_entry reg_result" where
  "set_canary r mid =
     (case require r mid of
        Inl x \<Rightarrow> (Inl x, r)
      | Inr e \<Rightarrow>
          if re_status e \<notin> {VALIDATED, CANARY}
          then (Inl (RegistryError ''canary requires VALIDATED model''), r)
          else set_status (\<lambda>e. e\<lparr>re_status := CANARY\<rparr>) r mid)"

definition retire :: "registry \<Rightarrow> string \<Rightarrow> registry_entry reg_result" where
  "retire = set_status (\<lambda>e. e\<lparr>re_status := RETIRED\<rparr>)"

definition mark_invalid :: "registry \<Rightarrow> string \<Rightarrow> string \<Rightarrow> registry_entry reg_result" where
  "mark_invalid r mid reason =
     set_status (\<lambda>e. e\<lparr>re_status := INVALID_MODEL, re_notes := reason\<rparr>) r mid"

definition rollback_candidates :: "registry \<Rightarrow> string \<Rightarrow> registry_entry list" where
  "rollback_candidates r alg =
     sort_key (\<lambda>e. - re_created_at_ms e)
       (filter (\<lambda>e. re_algorithm e = alg \<and> re_status e \<in> {VALIDATED, RETIRED}) (map snd (rg_entries r)))"

definition rollback :: "int \<Rightarrow> registry \<Rightarrow> string \<Rightarrow> registry_entry reg_result" where
  "rollback now r alg =
     (case rollback_candidates r alg of
        [] \<Rightarrow> (Inl (RegistryError (''no rollback candidate for '' @ alg)), r)
      | e # _ \<Rightarrow>
          (let r = retire_active alg (\<lambda>_. True) r;
               e = e\<lparr>re_status := ACTIVE, re_activated_at_ms := Some now\<rparr>
           in (Inr e, save_index (put_entry e r))))"

text \<open>The loading loop: an unreadable artifact invalidates its entry, another exception stops it.\<close>

fun load_models ::
    "'m artifact_env \<Rightarrow> registry \<Rightarrow> registry_entry list \<Rightarrow> ('m \<times> model_metadata) list reg_result" where
  "load_models env r [] = (Inr [], save_index r)"
| "load_models env r (e # es) =
     (case load_artifact env (re_artifact_path e) of
        Inl (ArtifactError _) \<Rightarrow> load_models env (put_entry (e\<lparr>re_status := INVALID_MODEL\<rparr>) r) es
      | Inl x \<Rightarrow> (Inl (ArtifactFailed x), r)
      | Inr m \<Rightarrow>
          (case load_models env r es of
             (Inl x, r) \<Rightarrow> (Inl x, r)
           | (Inr ms, r) \<Rightarrow> (Inr (m # ms), r)))"

definition load_active_models :: "'m artifact_env \<Rightarrow> registry \<Rightarrow> ('m \<times> model_metadata) list reg_result" where
  "load_active_models env r = load_models env r (list_entries r (Some ACTIVE))"

definition load_canary_models :: "'m artifact_env \<Rightarrow> registry \<Rightarrow> ('m \<times> model_metadata) list reg_result" where
  "load_canary_models env r = load_models env r (list_entries r (Some CANARY))"

end
