(* ===== verification/RegistryProps.thy ===== *)
theory RegistryProps
  imports Registry
begin

text \<open>
  Properties of the model registry: what an entry is after the round trip through the index file, the
  registry as a keyed store, and at most one active model per algorithm unless a model is registered as
  active.
\<close>

section \<open>Round trip of an entry\<close>

text \<open>What an entry is after the index is read back: \<open>d.get(...) or default\<close> replaces an empty
  profile and a horizon of zero.\<close>

definition reloaded :: "registry_entry \<Rightarrow> registry_entry" where
  "reloaded e = e\<lparr>re_profile := (if re_profile e = [] then ''ULTRA_LITE'' else re_profile e),
     re_label_horizon_bars := (if re_label_horizon_bars e = 0 then 5 else re_label_horizon_bars e)\<rparr>"

lemma status_round_trip [simp]: "status_of_name (status_name s) = Inr s"
  by (cases s) (simp_all add: status_of_name_def)

lemma entry_round_trip: "entry_from_dict shw parse (entry_to_dict e) = Inr (reloaded e)"
proof -
  have "num t \<noteq> PyNone" for t by (simp add: num_def)
  then show ?thesis
    by (cases "re_activated_at_ms e"; cases "re_profile e = []"; cases "re_label_horizon_bars e = 0")
      (simp_all add: entry_from_dict_def entry_to_dict_def item_def dget_def reloaded_def)
qed

lemma reloaded_simps [simp]: "re_model_id (reloaded e) = re_model_id e" "re_status (reloaded e) = re_status e"
  by (simp_all add: reloaded_def)

section \<open>The registry as a keyed store\<close>

definition keyed :: "registry \<Rightarrow> bool" where
  "keyed r \<longleftrightarrow> distinct (map fst (rg_entries r)) \<and> (\<forall>(k, e) \<in> set (rg_entries r). re_model_id e = k)"

lemma get_put_entry [simp]: "get_entry (put_entry e r) = (get_entry r)(re_model_id e \<mapsto> e)"
  by (auto simp: get_entry_def put_entry_def)

lemma get_save_index [simp]: "get_entry (save_index r) = get_entry r"
  by (auto simp: get_entry_def save_index_def)

lemma keyed_save_index [simp]: "keyed (save_index r) = keyed r"
  by (simp add: keyed_def save_index_def)

lemma update_pairs: "(k, e) \<in> set (AList.update i x d) \<Longrightarrow> (k, e) = (i, x) \<or> (k, e) \<in> set d"
  by (induction d) (auto split: if_splits)

lemma keyed_put_entry: "keyed r \<Longrightarrow> keyed (put_entry e r)"
  by (auto simp: keyed_def put_entry_def distinct_update dest!: update_pairs)

lemma keyed_get: "keyed r \<Longrightarrow> get_entry r k = Some e \<Longrightarrow> re_model_id e = k"
  by (auto simp: keyed_def get_entry_def dest: map_of_SomeD)

lemma keyed_member: "keyed r \<Longrightarrow> (k, e) \<in> set (rg_entries r) \<longleftrightarrow> get_entry r k = Some e"
  by (simp add: keyed_def get_entry_def)

interpretation registry_store: keyed_store get_entry "\<lambda>r e. put_entry e r" re_model_id "\<lambda>_ e. e" keyed
  by unfold_locales (auto simp: keyed_put_entry keyed_get split: option.split)

section \<open>At most one active model per algorithm\<close>

definition one_active :: "registry \<Rightarrow> bool" where
  "one_active r \<longleftrightarrow>
     (\<forall>k1 k2 e1 e2. get_entry r k1 = Some e1 \<longrightarrow> get_entry r k2 = Some e2 \<longrightarrow>
        re_status e1 = ACTIVE \<longrightarrow> re_status e2 = ACTIVE \<longrightarrow> re_algorithm e1 = re_algorithm e2 \<longrightarrow> k1 = k2)"

lemma one_active_save [simp]: "one_active (save_index r) = one_active r"
  by (simp add: one_active_def)

lemma one_active_put: "one_active r \<Longrightarrow> re_status e \<noteq> ACTIVE \<Longrightarrow> one_active (put_entry e r)"
  by (auto simp: one_active_def split: if_splits)

lemma get_retire_active:
  "get_entry (retire_active alg sel r) k = map_option (\<lambda>e.
     if re_algorithm e = alg \<and> re_status e = ACTIVE \<and> sel e then e\<lparr>re_status := RETIRED\<rparr> else e)
     (get_entry r k)"
  unfolding get_entry_def retire_active_def
  by (simp add: map_of_map)

lemma keyed_retire_active [simp]: "keyed (retire_active alg sel r) = keyed r"
  by (auto simp: keyed_def retire_active_def comp_def case_prod_unfold)

lemma still_active:
  "get_entry (retire_active alg sel r) k = Some e \<Longrightarrow> re_status e = ACTIVE \<Longrightarrow>
   get_entry r k = Some e \<and> (re_algorithm e = alg \<longrightarrow> \<not> sel e)"
  by (cases "get_entry r k") (auto simp: get_retire_active split: if_splits)

lemma one_active_retire: "one_active r \<Longrightarrow> one_active (retire_active alg sel r)"
  unfolding one_active_def using still_active by meson

text \<open>Retiring the other active models of the algorithm makes room for the activation.\<close>

lemma one_active_activate:
  assumes one: "one_active r" and "keyed r" and alg: "re_algorithm e' = alg"
    and sel: "\<And>e. re_model_id e \<noteq> re_model_id e' \<Longrightarrow> sel e"
  shows "one_active (put_entry e' (retire_active alg sel r))"
proof -
  have other: "re_algorithm e \<noteq> alg"
    if "get_entry (retire_active alg sel r) k = Some e" "re_status e = ACTIVE" "k \<noteq> re_model_id e'" for k e
    using still_active [OF that(1,2)] keyed_get [OF assms(2), of k e] sel that(3) by auto
  have "k1 = k2"
    if "get_entry (put_entry e' (retire_active alg sel r)) k1 = Some e1"
      "get_entry (put_entry e' (retire_active alg sel r)) k2 = Some e2"
      "re_status e1 = ACTIVE" "re_status e2 = ACTIVE" "re_algorithm e1 = re_algorithm e2" for k1 k2 e1 e2
  proof (rule ccontr)
    assume "k1 \<noteq> k2"
    with that other [of k1 e1] other [of k2 e2] alg one_active_retire [OF one, of alg sel]
    show False by (auto simp: one_active_def split: if_splits)
  qed
  then show ?thesis unfolding one_active_def by blast
qed

section \<open>Runs\<close>

text \<open>
  The steps of a registry, for any artifacts on disk at each step. Two switches say which runs are
  meant: \<open>direct\<close> admits registrations with status ACTIVE (the default is CANDIDATE), and \<open>aborts\<close>
  admits loads that end in an exception other than an artifact error, which do not write the index.
\<close>

inductive reg_step :: "'m artifact_env \<Rightarrow> bool \<Rightarrow> bool \<Rightarrow> registry \<Rightarrow> registry \<Rightarrow> bool"
  for env direct aborts where
  step_register: "direct \<or> st \<noteq> ACTIVE \<Longrightarrow>
     reg_step env direct aborts r (snd (register (env\<lparr>ae_files := files\<rparr>) now r meta path st))"
| step_validate: "reg_step env direct aborts r (snd (validate_model (env\<lparr>ae_files := files\<rparr>) r mid))"
| step_activate: "reg_step env direct aborts r (snd (activate now r mid))"
| step_canary: "reg_step env direct aborts r (snd (set_canary r mid))"
| step_retire: "reg_step env direct aborts r (snd (retire r mid))"
| step_invalid: "reg_step env direct aborts r (snd (mark_invalid r mid reason))"
| step_rollback: "reg_step env direct aborts r (snd (rollback now r alg))"
| step_load: "load_active_models (env\<lparr>ae_files := files\<rparr>) r = (res, r') \<or>
     load_canary_models (env\<lparr>ae_files := files\<rparr>) r = (res, r') \<Longrightarrow> aborts \<or> \<not> isl res \<Longrightarrow>
     reg_step env direct aborts r r'"

definition synced :: "registry \<Rightarrow> bool" where
  "synced r \<longleftrightarrow> (case rg_index r of None \<Rightarrow> rg_entries r = []
      | Some ds \<Rightarrow> ds = map (\<lambda>(_, e). entry_to_dict e) (rg_entries r))"

definition registry_ok :: "bool \<Rightarrow> registry \<Rightarrow> bool" where
  "registry_ok direct r \<longleftrightarrow> keyed r \<and> (direct \<or> one_active r)"

lemma synced_save [simp]: "synced (save_index r)"
  by (simp add: synced_def save_index_def)

lemma ok_save [simp]: "registry_ok b (save_index r) = registry_ok b r"
  by (simp add: registry_ok_def)

lemma ok_put: "registry_ok b r \<Longrightarrow> b \<or> re_status e \<noteq> ACTIVE \<Longrightarrow> registry_ok b (put_entry e r)"
  by (auto simp: registry_ok_def keyed_put_entry one_active_put)

lemma ok_activate:
  assumes "registry_ok b r" and "\<And>o'. re_model_id o' \<noteq> re_model_id e \<Longrightarrow> sel o'"
  shows "registry_ok b (put_entry (e\<lparr>re_status := ACTIVE, re_activated_at_ms := t\<rparr>)
    (retire_active (re_algorithm e) sel r))"
proof -
  let ?e = "e\<lparr>re_status := ACTIVE, re_activated_at_ms := t\<rparr>"
  let ?r = "retire_active (re_algorithm e) sel r"
  have "b \<or> one_active (put_entry ?e ?r)"
    using assms one_active_activate [of r ?e "re_algorithm e" sel] by (auto simp: registry_ok_def)
  moreover have "keyed (put_entry ?e ?r)"
    using assms(1) by (simp add: registry_ok_def keyed_put_entry)
  ultimately show ?thesis by (simp add: registry_ok_def)
qed

lemma require_some: "require r mid = Inr e \<longleftrightarrow> get_entry r mid = Some e"
  by (auto simp: require_def split: option.split)

lemma set_status_ok:
  assumes "registry_ok b r" and "\<And>e. re_status (f e) \<noteq> ACTIVE"
  shows "registry_ok b (snd (set_status f r mid)) \<and> (synced r \<longrightarrow> synced (snd (set_status f r mid)))"
  using assms by (auto simp: set_status_def intro!: ok_put split: sum.split)

text \<open>A loading run keeps the invariant, and writes the index when it comes to its end.\<close>

lemma load_models_ok:
  assumes "load_models env r es = (res, r')" and "registry_ok b r"
  shows "registry_ok b r' \<and> (\<not> isl res \<longrightarrow> synced r')"
  using assms
proof (induction es arbitrary: r res)
  case Nil
  then show ?case by auto
next
  case (Cons e es)
  have "registry_ok b (put_entry (e\<lparr>re_status := INVALID_MODEL\<rparr>) r)"
    using Cons.prems by (auto intro!: ok_put)
  then show ?case
    using Cons by (auto split: sum.splits artifact_error.splits prod.splits)
qed

lemma reg_step_ok:
  assumes "reg_step env direct aborts r r'" and "registry_ok direct r"
  shows "registry_ok direct r' \<and> (\<not> aborts \<and> synced r \<longrightarrow> synced r')"
  using assms(1)
proof cases
  case (step_register st files now meta path)
  then show ?thesis
    using assms(2) by (auto simp: register_def Let_def intro!: ok_put split: sum.split)
next
  case (step_validate files mid)
  then show ?thesis
    using assms(2) by (auto simp: validate_model_def intro!: ok_put split: sum.split artifact_error.split)
next
  case (step_activate now mid)
  then show ?thesis
    using assms(2) by (auto simp: activate_def Let_def intro!: ok_activate split: sum.split)
next
  case (step_canary mid)
  have "registry_ok direct (snd (set_status (\<lambda>e. e\<lparr>re_status := CANARY\<rparr>) r mid)) \<and>
      (synced r \<longrightarrow> synced (snd (set_status (\<lambda>e. e\<lparr>re_status := CANARY\<rparr>) r mid)))"
    by (rule set_status_ok [OF assms(2)]) simp
  then show ?thesis using step_canary assms(2) by (auto simp: set_canary_def split: sum.split)
next
  case (step_retire mid)
  have "registry_ok direct (snd (set_status (\<lambda>e. e\<lparr>re_status := RETIRED\<rparr>) r mid)) \<and>
      (synced r \<longrightarrow> synced (snd (set_status (\<lambda>e. e\<lparr>re_status := RETIRED\<rparr>) r mid)))"
    by (rule set_status_ok [OF assms(2)]) simp
  then show ?thesis using step_retire by (auto simp: retire_def)
next
  case (step_invalid mid reason)
  have "registry_ok direct (snd (mark_invalid r mid reason)) \<and>
      (synced r \<longrightarrow> synced (snd (mark_invalid r mid reason)))"
    unfolding mark_invalid_def by (rule set_status_ok [OF assms(2)]) simp
  then show ?thesis using step_invalid by auto
next
  case (step_rollback now alg)
  show ?thesis
  proof (cases "rollback_candidates r alg")
    case Nil
    then show ?thesis using step_rollback assms(2) by (simp add: rollback_def)
  next
    case (Cons e es)
    then have "e \<in> set (rollback_candidates r alg)" by simp
    then have "re_algorithm e = alg" by (auto simp: rollback_candidates_def)
    then show ?thesis
      using step_rollback assms(2) Cons by (auto simp: rollback_def Let_def intro!: ok_activate)
  qed
next
  case (step_load files res)
  then show ?thesis
    using load_models_ok [OF _ assms(2)]
    by (auto simp: load_active_models_def load_canary_models_def)
qed

definition empty_registry :: registry where
  "empty_registry = \<lparr>rg_entries = [], rg_index = None\<rparr>"

lemma run_ok:
  "(reg_step env direct aborts)\<^sup>*\<^sup>* empty_registry r \<Longrightarrow>
   registry_ok direct r \<and> (\<not> aborts \<longrightarrow> synced r)"
proof (induction rule: rtranclp_induct)
  case base
  then show ?case
    by (simp add: empty_registry_def registry_ok_def keyed_def one_active_def synced_def get_entry_def)
qed (use reg_step_ok in blast)

text \<open>C17: Over any run of registry operations from an empty registry whose registrations do not
  themselves ask for the status ACTIVE (the default is CANDIDATE), aborted loads included, at most one
  model of each algorithm is active, and every entry is stored under its own id.\<close>

theorem one_active_model_per_algorithm:
  assumes "(reg_step env False True)\<^sup>*\<^sup>* empty_registry r"
    and "get_entry r k1 = Some e1" and "get_entry r k2 = Some e2"
    and "re_status e1 = ACTIVE" and "re_status e2 = ACTIVE" and "re_algorithm e1 = re_algorithm e2"
  shows "k1 = k2 \<and> re_model_id e1 = k1 \<and> e1 = e2"
proof -
  have "keyed r" "one_active r" using run_ok [OF assms(1)] by (auto simp: registry_ok_def)
  then have "k1 = k2" "re_model_id e1 = k1"
    using assms(2-) keyed_get by (auto simp: one_active_def)
  then show ?thesis using assms(2,3) by simp
qed

text \<open>Registering with status ACTIVE retires nobody: a second active model of the algorithm appears.\<close>

theorem active_registration_adds_second:
  assumes "register env now r meta path ACTIVE = (Inr e, r')" and "get_entry r k = Some e0"
    and "re_status e0 = ACTIVE" and "re_algorithm e0 = mm_algorithm meta" and "k \<noteq> mm_model_id meta"
  shows "get_entry r' k = Some e0 \<and> get_entry r' (mm_model_id meta) = Some e \<and>
    re_status e = ACTIVE \<and> re_algorithm e = re_algorithm e0"
  using assms by (auto simp: register_def Let_def split: sum.splits if_splits)

section \<open>Restart\<close>

lemma update_fresh: "k \<notin> fst ` set d \<Longrightarrow> AList.update k v d = d @ [(k, v)]"
  by (induction d) auto

lemma load_fold:
  assumes "\<forall>(k, e) \<in> set es. re_model_id e = k"
    and "distinct (map fst (acc @ es))"
  shows "fold (\<lambda>d acc. bindE acc (\<lambda>es. bindE (entry_from_dict shw parse d) (\<lambda>e.
      Inr (AList.update (re_model_id e) e es)))) (map (\<lambda>(_, e). entry_to_dict e) es) (Inr acc) =
    Inr (acc @ map (\<lambda>(k, e). (k, reloaded e)) es)"
  using assms
proof (induction es arbitrary: acc)
  case Nil
  then show ?case by simp
next
  case (Cons x es)
  obtain k e where [simp]: "x = (k, e)" by force
  have "re_model_id e = k" "k \<notin> fst ` set acc" using Cons.prems by auto
  then have "AList.update (re_model_id e) (reloaded e) acc = acc @ [(k, reloaded e)]"
    by (simp add: update_fresh)
  then show ?case
    using Cons.IH [of "acc @ [(k, reloaded e)]"] Cons.prems by (simp add: entry_round_trip)
qed

text \<open>C31: Whatever is registered, in any run of operations in which no load is aborted, the index
  file holds the registry at every point: a registry that is loaded from it after a restart has the
  same entries under the same ids in the same order, and each entry is the stored one, except that an
  empty profile reads back as ULTRA\_LITE and a label horizon of 0 as 5.\<close>

theorem registry_survives_restart:
  assumes "(reg_step env True False)\<^sup>*\<^sup>* empty_registry r"
  shows "load_index shw parse (rg_index r) =
    Inr (r\<lparr>rg_entries := map (\<lambda>(k, e). (k,
      e\<lparr>re_profile := (if re_profile e = [] then ''ULTRA_LITE'' else re_profile e),
        re_label_horizon_bars := (if re_label_horizon_bars e = 0 then 5 else re_label_horizon_bars e)\<rparr>))
      (rg_entries r)\<rparr>)"
proof -
  have ok: "keyed r" "synced r" using run_ok [OF assms] by (auto simp: registry_ok_def)
  have "fold (\<lambda>d acc. bindE acc (\<lambda>es. bindE (entry_from_dict shw parse d) (\<lambda>e.
      Inr (AList.update (re_model_id e) e es)))) (map (\<lambda>(_, e). entry_to_dict e) (rg_entries r)) (Inr []) =
    Inr (map (\<lambda>(k, e). (k, reloaded e)) (rg_entries r))"
    using load_fold [of "rg_entries r" "[]" shw parse] ok(1) by (auto simp: keyed_def)
  with ok(2) show ?thesis
    by (cases "rg_index r") (simp_all add: load_index_def synced_def reloaded_def)
qed

section \<open>Witnesses\<close>

definition demo_meta :: "string \<Rightarrow> int \<Rightarrow> model_metadata" where
  "demo_meta mid created = \<lparr>mm_model_id = mid, mm_version = ''1'', mm_algorithm = ''lgbm'',
     mm_schema = ''v1'', mm_feature_names = [], mm_training_rows = 10, mm_training_data_hash = ''h'',
     mm_hyperparameters = [], mm_metrics = [], mm_created_at_ms = created, mm_profile = ''LITE'',
     mm_label_horizon_bars = 5\<rparr>"

definition demo_files :: "string \<Rightarrow> artifact_files" where
  "demo_files mid = \<lparr>meta_file = Some (Inr [(''meta'', PyDict (metadata_to_dict (demo_meta mid 1)))]),
     bin_file = Some ''x'', checksum_file = Some ''x''\<rparr>"

definition demo_artifacts :: "string artifact_env" where
  "demo_artifacts = \<lparr>ae_shw = (\<lambda>_. []), ae_parse = (\<lambda>_. None), ae_dumps = (\<lambda>_. []),
     ae_sha256 = (\<lambda>s. s), ae_load_bytes = (\<lambda>_ s. Inr s), ae_files = demo_files\<rparr>"

definition demo_registry :: registry where
  "demo_registry = snd (register demo_artifacts 1 empty_registry (demo_meta ''m1'' 1) ''m1'' CANDIDATE)"

definition demo_active :: registry where
  "demo_active = snd (activate 3 (snd (validate_model demo_artifacts demo_registry ''m1'')) ''m1'')"

lemma demo_registry_run: "(reg_step demo_artifacts direct aborts)\<^sup>*\<^sup>* empty_registry demo_active"
proof -
  have "reg_step demo_artifacts direct aborts empty_registry demo_registry"
    using step_register [of direct CANDIDATE demo_artifacts aborts empty_registry demo_files 1
        "demo_meta ''m1'' 1" "''m1''"]
    by (simp add: demo_registry_def demo_artifacts_def)
  moreover have "reg_step demo_artifacts direct aborts demo_registry
      (snd (validate_model demo_artifacts demo_registry ''m1''))"
    using step_validate [of demo_artifacts direct aborts demo_registry demo_files "''m1''"]
    by (simp add: demo_artifacts_def)
  ultimately show ?thesis
    unfolding demo_active_def using step_activate
    by (meson rtranclp.rtrancl_into_rtrancl rtranclp.rtrancl_refl)
qed

lemma demo_status: "map_option re_status (get_entry demo_active ''m1'') = Some ACTIVE"
  by code_simp

lemma demo_alg: "map_option re_algorithm (get_entry demo_active ''m1'') = Some ''lgbm''"
  by code_simp

lemma demo_active: "\<exists>e. get_entry demo_active ''m1'' = Some e \<and> re_status e = ACTIVE"
  using demo_status by auto

theorem one_active_model_per_algorithm_witness:
  "\<exists>e. get_entry demo_active ''m1'' = Some e \<and> re_status e = ACTIVE \<and> re_model_id e = ''m1''"
  using demo_active one_active_model_per_algorithm [OF demo_registry_run] by blast

text \<open>A second model registered as ACTIVE beside the first, with an empty profile.\<close>

definition second_meta :: model_metadata where
  "second_meta = (demo_meta ''m2'' 2)\<lparr>mm_profile := [], mm_label_horizon_bars := 0\<rparr>"

definition second_artifacts :: "string artifact_env" where
  "second_artifacts = demo_artifacts\<lparr>ae_files := (\<lambda>_. \<lparr>meta_file =
     Some (Inr [(''meta'', PyDict (metadata_to_dict second_meta))]),
     bin_file = Some ''x'', checksum_file = Some ''x''\<rparr>)\<rparr>"

definition demo_second :: "registry_entry reg_result" where
  "demo_second = register second_artifacts 4 demo_active second_meta ''m2'' ACTIVE"

lemma demo_second_entries:
  "map (\<lambda>(k, e). (k, re_algorithm e, re_status e, re_profile e)) (rg_entries (snd demo_second)) =
     [(''m1'', ''lgbm'', ACTIVE, ''LITE''), (''m2'', ''lgbm'', ACTIVE, [])]"
  by code_simp

lemma demo_second_ok: "\<not> isl (fst demo_second)"
  by code_simp

lemma demo_second_run: "(reg_step demo_artifacts True aborts)\<^sup>*\<^sup>* empty_registry (snd demo_second)"
proof -
  have "reg_step demo_artifacts True aborts demo_active (snd demo_second)"
    using step_register [of True ACTIVE demo_artifacts aborts demo_active
        "ae_files second_artifacts" 4 second_meta "''m2''"]
    by (simp add: demo_second_def second_artifacts_def)
  with demo_registry_run [of True aborts] show ?thesis by (rule rtranclp.rtrancl_into_rtrancl)
qed

theorem registry_survives_restart_witness:
  "\<exists>r. load_index (\<lambda>_. []) (\<lambda>_. None) (rg_index (snd demo_second)) = Inr r \<and>
     map (\<lambda>(k, e). (k, re_profile e)) (rg_entries r) = [(''m1'', ''LITE''), (''m2'', ''ULTRA_LITE'')]"
proof -
  obtain b c where "rg_entries (snd demo_second) = [(''m1'', b), (''m2'', c)]"
    "re_profile b = ''LITE''" "re_profile c = []"
    using demo_second_entries by (auto simp: map_eq_Cons_conv)
  with registry_survives_restart [OF demo_second_run, of "\<lambda>_. []" "\<lambda>_. None"] show ?thesis
    by simp
qed

theorem active_registration_adds_second_witness:
  "\<exists>e1 e2. get_entry (snd demo_second) ''m1'' = Some e1 \<and> get_entry (snd demo_second) ''m2'' = Some e2 \<and>
     re_status e1 = ACTIVE \<and> re_status e2 = ACTIVE \<and> re_algorithm e1 = re_algorithm e2"
proof -
  obtain e where e: "demo_second = (Inr e, snd demo_second)"
    using demo_second_ok by (cases "fst demo_second") (simp_all add: prod_eq_iff)
  obtain e0 where e0: "get_entry demo_active ''m1'' = Some e0" "re_status e0 = ACTIVE"
    using demo_active by blast
  have "re_algorithm e0 = mm_algorithm second_meta"
    using arg_cong [OF demo_alg, of the] e0(1) by (simp add: second_meta_def demo_meta_def)
  from active_registration_adds_second [OF e [unfolded demo_second_def] e0 this] e0(2)
  show ?thesis by (auto simp: second_meta_def demo_meta_def demo_second_def)
qed

section \<open>What the code does where its comments say otherwise\<close>

text \<open>Validating the active model takes it out of service.\<close>

lemma validate_deactivates:
  assumes "get_entry r mid = Some e" and "re_status e = ACTIVE"
    and "load_artifact env (re_artifact_path e) = Inr m" and "keyed r"
  shows "\<exists>e'. get_entry (snd (validate_model env r mid)) mid = Some e' \<and> re_status e' = VALIDATED"
  using assms keyed_get [OF assms(4,1)] by (simp add: validate_model_def require_def)

text \<open>
  A rollback picks the newest model that was not active, validated ones included, and a second
  rollback brings the first model back.
\<close>

definition demo_two :: registry where
  "demo_two = snd (activate 5 (snd (validate_model demo_artifacts
     (snd (register demo_artifacts 4 demo_active (demo_meta ''m2'' 2) ''m2'' CANDIDATE)) ''m2'')) ''m2'')"

lemma rollback_ping_pong:
  "map (\<lambda>(k, e). (k, re_status e)) (rg_entries demo_two) = [(''m1'', RETIRED), (''m2'', ACTIVE)] \<and>
   map (\<lambda>(k, e). (k, re_status e)) (rg_entries (snd (rollback 6 demo_two ''lgbm''))) =
     [(''m1'', ACTIVE), (''m2'', RETIRED)] \<and>
   map (\<lambda>(k, e). (k, re_status e)) (rg_entries (snd (rollback 7 (snd (rollback 6 demo_two ''lgbm'')) ''lgbm''))) =
     [(''m1'', RETIRED), (''m2'', ACTIVE)]"
  by code_simp

end
