(* ===== verification/Notify.thy ===== *)
theory Notify
  imports Prelude "HOL-Library.Product_Lexorder" "HOL-Library.Multiset"
begin

text \<open>
  The notification queue of \<^verbatim>\<open>src/src/crypto/notify/queue.py\<close>: publishing with redaction,
  deduplication, aggregation and a bounded size, and the rate-limited pop. Both clocks are arguments;
  the text of the aggregation window is the parameter \<open>fmt\<close>.
\<close>

datatype notify_priority = N0 | N1 | N2 | N3

fun notify_value :: "notify_priority \<Rightarrow> nat" where
  "notify_value N0 = 0"
| "notify_value N1 = 1"
| "notify_value N2 = 2"
| "notify_value N3 = 3"

record notification =
  n_priority :: notify_priority
  n_event :: string
  n_message :: string
  n_timestamp_ms :: int
  n_dedupe_key :: string

record notify_queue =
  nq_max_size :: int
  nq_rate :: int
  nq_window :: flt
  nq_items :: "notification list"
  nq_sent :: "flt list"
  nq_recent :: "(string, flt list) dict"

definition new_notify_queue :: "int \<Rightarrow> int \<Rightarrow> flt \<Rightarrow> notify_queue" where
  "new_notify_queue cap rate window = \<lparr>nq_max_size = cap, nq_rate = rate, nq_window = window,
     nq_items = [], nq_sent = [], nq_recent = []\<rparr>"

definition notify_tokens :: "string list" where
  "notify_tokens = [''api_key'', ''api_secret'', ''bot_token'', ''password'', ''pin'']"

definition notify_order :: "notification \<Rightarrow> nat \<times> int" where
  "notify_order n = (notify_value (n_priority n), n_timestamp_ms n)"

text \<open>Sorting and, when the queue is over its size, dropping the least urgent.\<close>

definition insert_bounded :: "int \<Rightarrow> notification list \<Rightarrow> notification \<Rightarrow> notification list" where
  "insert_bounded max_size items n =
     (let items = sort_key notify_order (items @ [n])
      in if int (length items) > max_size then slice_to (sort_key notify_order items) max_size else items)"

definition publish ::
    "(flt \<Rightarrow> string) \<Rightarrow> int \<Rightarrow> flt \<Rightarrow> notify_queue \<Rightarrow> string \<Rightarrow> string \<Rightarrow> notify_priority \<Rightarrow> string \<Rightarrow>
     notify_queue" where
  "publish fmt now_ms clock q event message priority dedupe_key =
     (let safe = redact notify_tokens message;
          key = (if dedupe_key = [] then event @ '':'' @ take 40 safe else dedupe_key);
          times = filter (\<lambda>t. clock - t \<le> nq_window q) (dict_get (nq_recent q) key [] @ [clock]);
          q = q\<lparr>nq_recent := AList.update key times (nq_recent q)\<rparr>;
          burst = (length times \<ge> 3);
          safe = (if burst then event @ '' unstable: '' @ show_nat (length times) @ '' events in '' @
                    fmt (nq_window q) @ ''s''
                  else safe);
          items = (if burst then filter (\<lambda>n. n_dedupe_key n \<noteq> key) (nq_items q) else nq_items q);
          n = \<lparr>n_priority = priority, n_event = event, n_message = safe, n_timestamp_ms = now_ms,
               n_dedupe_key = key\<rparr>
      in q\<lparr>nq_items := insert_bounded (nq_max_size q) items n\<rparr>)"

fun pop_first :: "('a \<Rightarrow> bool) \<Rightarrow> 'a list \<Rightarrow> ('a \<times> 'a list) option" where
  "pop_first p [] = None"
| "pop_first p (x # xs) =
     (if p x then Some (x, xs) else map_option (\<lambda>(y, ys). (y, x # ys)) (pop_first p xs))"

definition pop_ready :: "flt \<Rightarrow> notify_queue \<Rightarrow> notification option \<times> notify_queue" where
  "pop_ready clock q =
     (if nq_items q = [] then (None, q)
      else
        (let q = q\<lparr>nq_sent := dropWhile (\<lambda>t. clock - t > 60) (nq_sent q)\<rparr>
         in case pop_first (\<lambda>n. n_priority n = N0) (nq_items q) of
              Some (n, items) \<Rightarrow> (Some n, q\<lparr>nq_items := items, nq_sent := nq_sent q @ [clock]\<rparr>)
            | None \<Rightarrow>
                if int (length (nq_sent q)) \<ge> nq_rate q then (None, q)
                else (Some (hd (nq_items q)),
                      q\<lparr>nq_items := tl (nq_items q), nq_sent := nq_sent q @ [clock]\<rparr>)))"

definition pending_count :: "notify_queue \<Rightarrow> nat" where
  "pending_count q = length (nq_items q)"

definition pending_by_priority :: "notify_queue \<Rightarrow> notify_priority \<Rightarrow> nat" where
  "pending_by_priority q p = length (filter (\<lambda>n. n_priority n = p) (nq_items q))"

section \<open>Invariant\<close>

definition queue_ok :: "notify_queue \<Rightarrow> bool" where
  "queue_ok q \<longleftrightarrow> sorted (map notify_order (nq_items q)) \<and> int (length (nq_items q)) \<le> max 0 (nq_max_size q)"

inductive notify_step :: "notify_queue \<Rightarrow> notify_queue \<Rightarrow> bool" where
  step_publish: "notify_step q (publish fmt now_ms clock q event message priority dedupe_key)"
| step_pop: "notify_step q (snd (pop_ready clock q))"

lemma sorted_slice_to: "sorted (map f xs) \<Longrightarrow> sorted (map f (slice_to xs i))"
  unfolding slice_to_def by (simp only: take_map [symmetric] sorted_wrt_take split: if_split) simp

lemma publish_ok:
  assumes "0 \<le> nq_max_size q"
  shows "queue_ok (publish fmt now_ms clock q event message priority dedupe_key)"
proof -
  have "sorted (map notify_order (insert_bounded m xs n)) \<and> int (length (insert_bounded m xs n)) \<le> m"
    if "0 \<le> m" for m xs n
    using that by (auto simp: insert_bounded_def Let_def sorted_slice_to) (simp add: slice_to_def)
  then show ?thesis using assms by (simp add: queue_ok_def publish_def Let_def)
qed

lemma pop_first_sorted:
  assumes "sorted (map notify_order xs)" and "pop_first (\<lambda>n. n_priority n = N0) xs = Some (n, ys)"
  shows "xs = n # ys \<and> n_priority n = N0"
  using assms
proof (induction xs arbitrary: ys)
  case Nil
  then show ?case by simp
next
  case (Cons x xs)
  show ?case
  proof (cases "n_priority x = N0")
    case True
    with Cons.prems show ?thesis by simp
  next
    case False
    with Cons.prems(2) obtain zs where z: "pop_first (\<lambda>n. n_priority n = N0) xs = Some (n, zs)" by auto
    have "sorted (map notify_order xs)" using Cons.prems(1) by simp
    from Cons.IH [OF this z] have "xs = n # zs" "n_priority n = N0" by blast+
    then have "notify_order x \<le> notify_order n" using Cons.prems(1) by simp
    with False \<open>n_priority n = N0\<close> show ?thesis
      by (cases "n_priority x") (auto simp: notify_order_def)
  qed
qed

lemma pop_first_None: "pop_first p xs = None \<longleftrightarrow> (\<forall>x \<in> set xs. \<not> p x)"
  by (induction xs) auto

text \<open>What a pop does on an ordered queue.\<close>

lemma pop_ready_spec:
  fixes clock :: flt
  assumes "queue_ok q" and "nq_items q \<noteq> []"
  defines "recent \<equiv> dropWhile (\<lambda>t. clock - t > 60) (nq_sent q)"
  shows "pop_ready clock q =
    (if n_priority (hd (nq_items q)) = N0 \<or> int (length recent) < nq_rate q
     then (Some (hd (nq_items q)), q\<lparr>nq_items := tl (nq_items q), nq_sent := recent @ [clock]\<rparr>)
     else (None, q\<lparr>nq_sent := recent\<rparr>))"
proof (cases "pop_first (\<lambda>n. n_priority n = N0) (nq_items q)")
  case None
  then have "n_priority (hd (nq_items q)) \<noteq> N0" using assms(2) by (auto simp: pop_first_None)
  with None assms show ?thesis by (simp add: pop_ready_def Let_def recent_def)
next
  case (Some r)
  obtain n ys where r: "r = (n, ys)" by force
  with Some assms(1) have "nq_items q = n # ys \<and> n_priority n = N0"
    by (intro pop_first_sorted) (auto simp: queue_ok_def)
  with Some r show ?thesis by (simp add: pop_ready_def Let_def recent_def)
qed

lemma pop_ok: "queue_ok q \<Longrightarrow> queue_ok (snd (pop_ready clock q))"
proof (cases "nq_items q = []")
  case False
  assume ok: "queue_ok q"
  obtain x xs where "nq_items q = x # xs" using False by (cases "nq_items q") auto
  with ok show ?thesis unfolding pop_ready_spec [OF ok False] by (auto simp: queue_ok_def)
qed (simp add: pop_ready_def)

lemma step_config: "notify_step q q' \<Longrightarrow> nq_max_size q' = nq_max_size q \<and> nq_rate q' = nq_rate q"
  by (induction rule: notify_step.induct)
    (auto simp: publish_def pop_ready_def Let_def split: option.splits)

lemma run_queue_ok:
  assumes "notify_step\<^sup>*\<^sup>* (new_notify_queue cap rate window) q" and "0 \<le> cap"
  shows "queue_ok q \<and> nq_max_size q = cap \<and> nq_rate q = rate"
  using assms(1)
proof (induction rule: rtranclp_induct)
  case base
  then show ?case by (simp add: queue_ok_def new_notify_queue_def)
next
  case (step q q')
  then have c: "nq_max_size q' = cap \<and> nq_rate q' = rate" using step_config [of q q'] by simp
  from step(2) show ?case
  proof cases
    case step_publish
    then show ?thesis using publish_ok step.IH assms(2) c by auto
  next
    case step_pop
    then show ?thesis using pop_ok step.IH c by auto
  qed
qed

lemma head_urgent:
  assumes "queue_ok q" and "nq_items q = x # xs"
  shows "(\<exists>n \<in> set (nq_items q). n_priority n = N0) \<longleftrightarrow> n_priority x = N0"
proof
  assume "\<exists>n \<in> set (nq_items q). n_priority n = N0"
  then obtain n where n: "n \<in> set (nq_items q)" "n_priority n = N0" by blast
  with assms have "notify_order x \<le> notify_order n" by (auto simp: queue_ok_def)
  with n(2) show "n_priority x = N0" by (cases "n_priority x") (auto simp: notify_order_def)
qed (use assms in auto)

section \<open>The bounded priority queue\<close>

text \<open>
  The abstract queue is a multiset of notifications. \<open>most_urgent cap all kept\<close>: of \<open>all\<close>, the
  queue keeps as many as fit, and nothing it drops comes before anything it keeps.
\<close>

definition most_urgent :: "nat \<Rightarrow> notification multiset \<Rightarrow> notification multiset \<Rightarrow> bool" where
  "most_urgent cap every kept \<longleftrightarrow>
     kept \<subseteq># every \<and> size kept = min cap (size every) \<and>
     (\<forall>k \<in># kept. \<forall>d \<in># every - kept. notify_order k \<le> notify_order d)"

lemma take_most_urgent:
  assumes "sorted (map notify_order xs)"
  shows "most_urgent cap (mset xs) (mset (take cap xs))"
proof -
  have split: "mset xs = mset (take cap xs) + mset (drop cap xs)"
    by (simp flip: mset_append)
  have "notify_order k \<le> notify_order d" if "k \<in> set (take cap xs)" "d \<in> set (drop cap xs)" for k d
  proof -
    have "sorted (map notify_order (take cap xs @ drop cap xs))" using assms by simp
    with that show ?thesis unfolding map_append sorted_append by simp
  qed
  then show ?thesis unfolding most_urgent_def by (simp add: split)
qed

lemma insert_bounded_most_urgent:
  assumes "0 \<le> cap"
  shows "most_urgent (nat cap) (mset items + {#n#}) (mset (insert_bounded cap items n))"
proof -
  let ?s = "sort_key notify_order (items @ [n])"
  have "sort_key notify_order ?s = ?s" by (rule sort_key_id_if_sorted) simp
  then have "insert_bounded cap items n = take (nat cap) ?s"
    using assms by (auto simp: insert_bounded_def Let_def slice_to_def)
  with take_most_urgent [of ?s "nat cap"] show ?thesis by (simp add: union_commute)
qed

text \<open>The instants of the recent publications under a key, and the aggregation they trigger.\<close>

definition key_of :: "string \<Rightarrow> string \<Rightarrow> string \<Rightarrow> string" where
  "key_of event message dedupe_key =
     (if dedupe_key = [] then event @ '':'' @ take 40 (redact notify_tokens message) else dedupe_key)"

definition recent_count :: "flt \<Rightarrow> notify_queue \<Rightarrow> string \<Rightarrow> nat" where
  "recent_count clock q key =
     length (filter (\<lambda>t. clock - t \<le> nq_window q) (dict_get (nq_recent q) key [] @ [clock]))"

lemma publish_items:
  "\<exists>n. n_priority n = priority \<and> n_event n = event \<and> n_timestamp_ms n = now_ms \<and>
     n_dedupe_key n = key_of event message dedupe_key \<and>
     (3 \<le> recent_count clock q (key_of event message dedupe_key) \<or>
        n_message n = redact notify_tokens message) \<and>
     nq_items (publish fmt now_ms clock q event message priority dedupe_key) =
       insert_bounded (nq_max_size q)
         (if 3 \<le> recent_count clock q (key_of event message dedupe_key)
          then filter (\<lambda>m. n_dedupe_key m \<noteq> key_of event message dedupe_key) (nq_items q)
          else nq_items q) n"
proof -
  let ?k = "key_of event message dedupe_key"
  let ?c = "recent_count clock q ?k"
  let ?n = "\<lparr>n_priority = priority, n_event = event,
      n_message = (if 3 \<le> ?c then event @ '' unstable: '' @ show_nat ?c @ '' events in '' @
                     fmt (nq_window q) @ ''s'' else redact notify_tokens message),
      n_timestamp_ms = now_ms, n_dedupe_key = ?k\<rparr>"
  have "nq_items (publish fmt now_ms clock q event message priority dedupe_key) =
      insert_bounded (nq_max_size q)
        (if 3 \<le> ?c then filter (\<lambda>m. n_dedupe_key m \<noteq> ?k) (nq_items q) else nq_items q) ?n"
    unfolding publish_def Let_def key_of_def recent_count_def by simp
  then show ?thesis by (intro exI [of _ ?n]) simp
qed

text \<open>C32: After any sequence of publications and pops the queue behaves as a bounded priority queue.
  A publication adds one notification with the given event, priority
  and time and, unless it aggregates, the redacted message; when its key was
  published at least three times within the window, it first removes the pending notifications with
  that key, whatever their priority; of the result the queue then keeps as many as fit, none of them
  less urgent than a dropped one. A pop delivers a pending notification of the least priority value
  and, among those, the oldest: an emergency (P0) at once whatever the rate, any other one exactly when
  fewer than the permitted number were sent in the last minute; and otherwise nothing is lost.\<close>

theorem queue_refines_bounded_priority_queue:
  assumes "notify_step\<^sup>*\<^sup>* (new_notify_queue cap rate window) q" and "0 \<le> cap"
  shows "(let q' = publish fmt now_ms clock q event message priority dedupe_key;
              key = key_of event message dedupe_key;
              rest = (if 3 \<le> recent_count clock q key
                      then filter (\<lambda>m. n_dedupe_key m \<noteq> key) (nq_items q) else nq_items q)
          in \<exists>n. n_priority n = priority \<and> n_event n = event \<and> n_timestamp_ms n = now_ms \<and>
               n_dedupe_key n = key \<and>
             (3 \<le> recent_count clock q key \<or> n_message n = redact notify_tokens message) \<and>
             most_urgent (nat cap) (mset rest + {#n#}) (mset (nq_items q'))) \<and>
         (let urgent = (\<exists>n \<in> set (nq_items q). n_priority n = N0);
              free = int (length (dropWhile (\<lambda>t. clock - t > 60) (nq_sent q))) < rate in
          case pop_ready clock q of
            (None, q') \<Rightarrow> (nq_items q = [] \<or> \<not> urgent \<and> \<not> free) \<and> nq_items q' = nq_items q
          | (Some n, q') \<Rightarrow> (urgent \<or> free) \<and> nq_items q = n # nq_items q' \<and>
              notify_order n = Min (notify_order ` set (nq_items q)))"
proof (intro conjI)
  have cap: "nq_max_size q = cap" using run_queue_ok [OF assms(1,2)] by simp
  show "let q' = publish fmt now_ms clock q event message priority dedupe_key;
            key = key_of event message dedupe_key;
            rest = (if 3 \<le> recent_count clock q key
                    then filter (\<lambda>m. n_dedupe_key m \<noteq> key) (nq_items q) else nq_items q)
        in \<exists>n. n_priority n = priority \<and> n_event n = event \<and> n_timestamp_ms n = now_ms \<and>
             n_dedupe_key n = key \<and>
             (3 \<le> recent_count clock q key \<or> n_message n = redact notify_tokens message) \<and>
             most_urgent (nat cap) (mset rest + {#n#}) (mset (nq_items q'))"
  proof -
    obtain n where "n_priority n = priority" "n_event n = event" "n_timestamp_ms n = now_ms"
      "n_dedupe_key n = key_of event message dedupe_key"
      "3 \<le> recent_count clock q (key_of event message dedupe_key) \<or>
        n_message n = redact notify_tokens message"
      "nq_items (publish fmt now_ms clock q event message priority dedupe_key) =
        insert_bounded cap (if 3 \<le> recent_count clock q (key_of event message dedupe_key)
           then filter (\<lambda>m. n_dedupe_key m \<noteq> key_of event message dedupe_key) (nq_items q)
           else nq_items q) n"
      using publish_items [where fmt = fmt and now_ms = now_ms and clock = clock and q = q and event = event and message = message
        and priority = priority and dedupe_key = dedupe_key] cap by metis
    with insert_bounded_most_urgent [OF assms(2)] show ?thesis
      unfolding Let_def by metis
  qed
next
  have ok: "queue_ok q" "nq_rate q = rate" using run_queue_ok [OF assms(1,2)] by auto
  show "let urgent = (\<exists>n \<in> set (nq_items q). n_priority n = N0);
            free = int (length (dropWhile (\<lambda>t. clock - t > 60) (nq_sent q))) < rate in
        case pop_ready clock q of
          (None, q') \<Rightarrow> (nq_items q = [] \<or> \<not> urgent \<and> \<not> free) \<and> nq_items q' = nq_items q
        | (Some n, q') \<Rightarrow> (urgent \<or> free) \<and> nq_items q = n # nq_items q' \<and>
            notify_order n = Min (notify_order ` set (nq_items q))"
  proof (cases "nq_items q")
    case Nil
    then show ?thesis by (simp add: pop_ready_def Let_def)
  next
    case q: (Cons x xs)
    then have ne: "nq_items q \<noteq> []" by simp
    have "notify_order x = Min (notify_order ` set (nq_items q))"
      using q ok(1) by (intro Min_eqI [symmetric]) (auto simp: queue_ok_def)
    then show ?thesis
      using ok q head_urgent [OF ok(1) q] unfolding pop_ready_spec [OF ok(1) ne] by (auto simp: Let_def)
  qed
qed

definition demo_queue :: notify_queue where
  "demo_queue = publish (\<lambda>_. ''20'') 7 7 (publish (\<lambda>_. ''20'') 5 5 (new_notify_queue 500 0 20)
     ''telemetry'' ''ok'' N3 []) ''stop'' ''emergency'' N0 []"

lemma demo_not_recent: "\<not> 3 \<le> recent_count 8 demo_queue (key_of ''fill'' ''ok'' [])"
  by code_simp

theorem queue_refines_bounded_priority_queue_witness:
  "map n_priority (nq_items demo_queue) = [N0, N3] \<and>
   (\<exists>n. n_priority n = N2 \<and>
     most_urgent 500 (mset (nq_items demo_queue) + {#n#})
       (mset (nq_items (publish (\<lambda>_. ''20'') 8 8 demo_queue ''fill'' ''ok'' N2 []))))"
proof -
  have "notify_step\<^sup>*\<^sup>* (new_notify_queue 500 0 20) demo_queue"
    unfolding demo_queue_def
    by (rule rtranclp.rtrancl_into_rtrancl [OF r_into_rtranclp]) (rule step_publish)+
  from queue_refines_bounded_priority_queue [OF this, of "\<lambda>_. ''20''" 8 8 "''fill''" "''ok''" N2 "[]"]
  have "\<exists>n. n_priority n = N2 \<and>
     most_urgent 500 (mset (nq_items demo_queue) + {#n#})
       (mset (nq_items (publish (\<lambda>_. ''20'') 8 8 demo_queue ''fill'' ''ok'' N2 [])))"
    using demo_not_recent by (auto simp: Let_def)
  moreover have "map n_priority (nq_items demo_queue) = [N0, N3]" by code_simp
  ultimately show ?thesis by blast
qed

text \<open>
  Aggregation can lose an emergency: the third event with the key of a pending P0 notification
  replaces it by one of its own priority.
\<close>

lemma aggregation_drops_emergency:
  "map n_priority (nq_items (publish (\<lambda>_. ''20'') 9 9 (publish (\<lambda>_. ''20'') 8 8
      (publish (\<lambda>_. ''20'') 7 7 (new_notify_queue 500 20 20) ''x'' ''a'' N0 ''k'')
      ''x'' ''b'' N3 ''k'') ''x'' ''c'' N3 ''k'')) = [N3]"
  by code_simp

end
