(* ===== verification/Capital.thy ===== *)
theory Capital
  imports Prelude
begin

text \<open>
  The capital safety posture, \<^verbatim>\<open>src/god/capital\<close>: the states and their graph (\<^verbatim>\<open>states.py\<close>), the
  transition records (\<^verbatim>\<open>models.py\<close>), the in-process registry (\<^verbatim>\<open>registry.py\<close>) and
  \<open>CapitalSafetyEngine\<close> (\<^verbatim>\<open>engine.py\<close>). The content hash that names a transition is the parameter
  \<open>mkid\<close>; time stamps and provenance are arguments. The optional persistence of the registry is left
  out.
\<close>

section \<open>States\<close>

datatype capital_state =
    CS_INITIALIZING | CS_OBSERVING | CS_NORMAL | CS_CAUTION | CS_RESTRICTED | CS_PAUSED
  | CS_RECOVERY | CS_EMERGENCY_STOP | CS_UNKNOWN

fun capital_name :: "capital_state \<Rightarrow> string" where
  "capital_name CS_INITIALIZING = ''INITIALIZING''"
| "capital_name CS_OBSERVING = ''OBSERVING''"
| "capital_name CS_NORMAL = ''NORMAL''"
| "capital_name CS_CAUTION = ''CAUTION''"
| "capital_name CS_RESTRICTED = ''RESTRICTED''"
| "capital_name CS_PAUSED = ''PAUSED''"
| "capital_name CS_RECOVERY = ''RECOVERY''"
| "capital_name CS_EMERGENCY_STOP = ''EMERGENCY_STOP''"
| "capital_name CS_UNKNOWN = ''UNKNOWN''"

fun ALLOWED_TRANSITIONS :: "capital_state \<Rightarrow> capital_state set" where
  "ALLOWED_TRANSITIONS CS_INITIALIZING = {CS_OBSERVING, CS_UNKNOWN, CS_EMERGENCY_STOP}"
| "ALLOWED_TRANSITIONS CS_OBSERVING =
     {CS_NORMAL, CS_CAUTION, CS_RESTRICTED, CS_PAUSED, CS_UNKNOWN, CS_EMERGENCY_STOP}"
| "ALLOWED_TRANSITIONS CS_NORMAL =
     {CS_CAUTION, CS_RESTRICTED, CS_PAUSED, CS_EMERGENCY_STOP, CS_UNKNOWN, CS_OBSERVING}"
| "ALLOWED_TRANSITIONS CS_CAUTION =
     {CS_RESTRICTED, CS_PAUSED, CS_RECOVERY, CS_EMERGENCY_STOP, CS_UNKNOWN, CS_NORMAL}"
| "ALLOWED_TRANSITIONS CS_RESTRICTED =
     {CS_PAUSED, CS_RECOVERY, CS_EMERGENCY_STOP, CS_UNKNOWN, CS_CAUTION}"
| "ALLOWED_TRANSITIONS CS_PAUSED = {CS_RECOVERY, CS_EMERGENCY_STOP, CS_UNKNOWN, CS_RESTRICTED}"
| "ALLOWED_TRANSITIONS CS_RECOVERY =
     {CS_NORMAL, CS_CAUTION, CS_RESTRICTED, CS_PAUSED, CS_EMERGENCY_STOP, CS_UNKNOWN, CS_OBSERVING}"
| "ALLOWED_TRANSITIONS CS_EMERGENCY_STOP = {CS_RECOVERY, CS_UNKNOWN, CS_PAUSED}"
| "ALLOWED_TRANSITIONS CS_UNKNOWN =
     {CS_OBSERVING, CS_PAUSED, CS_EMERGENCY_STOP, CS_RECOVERY, CS_INITIALIZING}"

definition capital_can_transition :: "capital_state \<Rightarrow> capital_state \<Rightarrow> bool" where
  "capital_can_transition before after \<longleftrightarrow> before = after \<or> after \<in> ALLOWED_TRANSITIONS before"

datatype capital_error =
    EmptyReason
  | InvalidCapitalTransition capital_state capital_state

definition assert_transition :: "capital_state \<Rightarrow> capital_state \<Rightarrow> capital_error + capital_state" where
  "assert_transition before after =
     (if capital_can_transition before after then Inr after
      else Inl (InvalidCapitalTransition before after))"

interpretation capital_graph: state_graph
  "\<lambda>s t. t \<in> ALLOWED_TRANSITIONS s" "\<lambda>_. False" assert_transition
  by unfold_locales (auto simp: assert_transition_def capital_can_transition_def split: if_splits)

section \<open>Records and registry\<close>

record capital_transition =
  ct_id :: string
  ct_before :: capital_state
  ct_after :: capital_state
  ct_reason :: string
  ct_evidence :: "string list"
  ct_timestamp :: string
  ct_actor :: string
  ct_provenance :: "pydict option"
  ct_metadata :: pydict

record capital_record =
  cr_record_id :: string
  cr_state :: capital_state
  cr_updated_at :: string
  cr_last_transition :: "string option"
  cr_transition_ids :: "string list"
  cr_evidence :: "string list"
  cr_provenance :: "pydict option"
  cr_metadata :: pydict

record capital_registry =
  cg_record :: "capital_record option"
  cg_transitions :: "(string, capital_transition) dict"

definition set_record :: "capital_registry \<Rightarrow> capital_record \<Rightarrow> capital_registry" where
  "set_record r c = r\<lparr>cg_record := Some c\<rparr>"

definition add_transition ::
    "capital_registry \<Rightarrow> capital_transition \<Rightarrow> capital_registry \<times> capital_transition" where
  "add_transition r t =
     (case map_of (cg_transitions r) (ct_id t) of
        Some old \<Rightarrow> (r, old)
      | None \<Rightarrow> (r\<lparr>cg_transitions := AList.update (ct_id t) t (cg_transitions r)\<rparr>, t))"

definition get_transition :: "capital_registry \<Rightarrow> string \<Rightarrow> capital_transition option" where
  "get_transition r i = map_of (cg_transitions r) i"

definition list_transitions :: "capital_registry \<Rightarrow> capital_transition list" where
  "list_transitions r = map snd (cg_transitions r)"

section \<open>Engine\<close>

text \<open>What a call takes from its environment: the hash, an id, the time and a provenance record.\<close>

record capital_env =
  ce_mkid :: "capital_state \<Rightarrow> capital_state \<Rightarrow> string \<Rightarrow> string \<Rightarrow> string"
  ce_uuid :: string
  ce_now :: string
  ce_provenance :: pydict

definition init_record :: "capital_env \<Rightarrow> capital_registry \<Rightarrow> capital_state \<Rightarrow> capital_record \<times> capital_registry" where
  "init_record e r s =
     (let c = \<lparr>cr_record_id = ce_uuid e, cr_state = s, cr_updated_at = ce_now e,
               cr_last_transition = None, cr_transition_ids = [], cr_evidence = [],
               cr_provenance = Some (ce_provenance e), cr_metadata = []\<rparr>
      in (c, set_record r c))"

definition new_capital :: "capital_env \<Rightarrow> capital_registry" where
  "new_capital e = snd (init_record e \<lparr>cg_record = None, cg_transitions = []\<rparr> CS_INITIALIZING)"

definition posture :: "capital_registry \<Rightarrow> capital_state" where
  "posture r = (case cg_record r of None \<Rightarrow> CS_UNKNOWN | Some c \<Rightarrow> cr_state c)"

text \<open>\<open>list(dict.fromkeys(xs))\<close>: the first occurrences in order.\<close>

definition fromkeys :: "'a list \<Rightarrow> 'a list" where
  "fromkeys xs = rev (remdups (rev xs))"

definition capital_move ::
    "capital_env \<Rightarrow> capital_registry \<Rightarrow> capital_state \<Rightarrow> string \<Rightarrow> string list \<Rightarrow> string \<Rightarrow> pydict \<Rightarrow>
     (capital_error + capital_record) \<times> capital_registry" where
  "capital_move e r to_state reason evidence actor metadata =
     (if py_strip reason = [] then (Inl EmptyReason, r)
      else
        (case (case cg_record r of Some c \<Rightarrow> (c, r) | None \<Rightarrow> init_record e r CS_UNKNOWN) of
           (c, r) \<Rightarrow>
             (let before = cr_state c in
              if before = to_state then (Inr c, r)
              else (case assert_transition before to_state of
                 Inl x \<Rightarrow> (Inl x, r)
               | Inr _ \<Rightarrow>
                   (let tid = ce_mkid e before to_state (py_strip reason) (join ''|'' (sort evidence)) in
                    case get_transition r tid of
                      Some _ \<Rightarrow> (Inr c, r)
                    | None \<Rightarrow>
                        (let t = \<lparr>ct_id = tid, ct_before = before, ct_after = to_state,
                               ct_reason = py_strip reason, ct_evidence = evidence,
                               ct_timestamp = ce_now e, ct_actor = actor,
                               ct_provenance = Some (ce_provenance e), ct_metadata = metadata\<rparr>;
                             r = fst (add_transition r t);
                             c = c\<lparr>cr_state := to_state, cr_updated_at := ct_timestamp t,
                                   cr_last_transition := Some tid,
                                   cr_transition_ids := cr_transition_ids c @ [tid],
                                   cr_evidence := fromkeys (cr_evidence c @ evidence)\<rparr>
                         in (Inr c, set_record r c)))))))"

definition hint_target :: "string \<Rightarrow> capital_state" where
  "hint_target perm =
     (if perm = ''BLOCK'' then CS_EMERGENCY_STOP
      else if perm = ''PAUSE'' then CS_PAUSED
      else if perm = ''RESTRICT'' then CS_RESTRICTED
      else if perm = ''UNKNOWN'' then CS_UNKNOWN
      else if perm = ''ALLOW'' then CS_NORMAL
      else CS_UNKNOWN)"

definition adjusted_target :: "string \<Rightarrow> capital_state \<Rightarrow> capital_state" where
  "adjusted_target perm current =
     (let target = hint_target perm;
          target = (if perm = ''ALLOW'' \<and> current = CS_EMERGENCY_STOP then CS_RECOVERY else target)
      in if perm = ''ALLOW'' \<and> current = CS_PAUSED then CS_RECOVERY else target)"

definition apply_permission_hint ::
    "capital_env \<Rightarrow> capital_registry \<Rightarrow> string \<Rightarrow> string list \<Rightarrow> string option \<Rightarrow>
     (capital_error + capital_record option) \<times> capital_registry" where
  "apply_permission_hint e r permission evidence reason =
     (let perm = py_upper (if permission = [] then ''UNKNOWN'' else permission);
          current = posture r;
          target = adjusted_target perm current;
          why = (case reason of Some s \<Rightarrow> if s = [] then ''policy_permission='' @ perm else s
                 | None \<Rightarrow> ''policy_permission='' @ perm);
          go = (\<lambda>t. case capital_move e r t why evidence ''policy_hint'' [] of
                  (Inl x, r) \<Rightarrow> (Inl x, r) | (Inr c, r) \<Rightarrow> (Inr (Some c), r))
      in if capital_can_transition current target then go target
         else if capital_can_transition current CS_UNKNOWN then go CS_UNKNOWN
         else (Inr (cg_record r), r))"

definition is_allowed_transition :: "capital_registry \<Rightarrow> capital_state \<Rightarrow> bool" where
  "is_allowed_transition r s = capital_can_transition (posture r) s"

end
