(* ===== verification/CapitalProps.thy ===== *)
theory CapitalProps
  imports Capital
begin

text \<open>
  Properties of the capital safety engine: the lineage of transitions, the way out of an emergency
  stop, and the stop that is ignored the second time.
\<close>

text \<open>The recorded transitions form one path of the graph from \<open>s\<close> to \<open>t\<close>.\<close>

fun path :: "capital_state \<Rightarrow> capital_transition list \<Rightarrow> capital_state \<Rightarrow> bool" where
  "path s [] t = (s = t)"
| "path s (x # xs) t =
     (ct_before x = s \<and> ct_after x \<in> ALLOWED_TRANSITIONS s \<and> path (ct_after x) xs t)"

lemma path_append: "path s (xs @ [x]) t \<longleftrightarrow>
    path s xs (ct_before x) \<and> ct_after x \<in> ALLOWED_TRANSITIONS (ct_before x) \<and> t = ct_after x"
  by (induction xs arbitrary: s) auto

definition lineage :: "capital_registry \<Rightarrow> bool" where
  "lineage r \<longleftrightarrow>
     (\<exists>c. cg_record r = Some c \<and>
        path CS_INITIALIZING (list_transitions r) (cr_state c) \<and>
        cr_transition_ids c = map ct_id (list_transitions r) \<and>
        map fst (cg_transitions r) = map ct_id (list_transitions r) \<and>
        distinct (cr_transition_ids c) \<and>
        cr_last_transition c = (if list_transitions r = [] then None
          else Some (ct_id (last (list_transitions r)))))"

lemma no_self_edge: "s \<notin> ALLOWED_TRANSITIONS s"
  by (cases s) auto

lemma update_new: "map_of d k = None \<Longrightarrow> AList.update k v d = d @ [(k, v)]"
  by (induction d) (auto split: if_splits)

text \<open>A transition leaves the registry as it is or appends one edge.\<close>

lemma capital_move_cases [consumes 1]:
  assumes "cg_record r = Some c"
  obtains (stay) "snd (capital_move e r t reason ev actor md) = r"
  | (move) tr c' where
      "snd (capital_move e r t reason ev actor md) =
         r\<lparr>cg_record := Some c', cg_transitions := cg_transitions r @ [(ct_id tr, tr)]\<rparr>"
      "fst (capital_move e r t reason ev actor md) = Inr c'"
      "ct_before tr = cr_state c" "ct_after tr = t" "t \<in> ALLOWED_TRANSITIONS (cr_state c)"
      "cr_state c' = t" "cr_transition_ids c' = cr_transition_ids c @ [ct_id tr]"
      "cr_last_transition c' = Some (ct_id tr)" "map_of (cg_transitions r) (ct_id tr) = None"
      "py_strip reason \<noteq> []"
proof -
  let ?tid = "ce_mkid e (cr_state c) t (py_strip reason) (join ''|'' (sort ev))"
  show ?thesis
  proof (cases "py_strip reason = [] \<or> cr_state c = t \<or> t \<notin> ALLOWED_TRANSITIONS (cr_state c) \<or>
      get_transition r ?tid \<noteq> None")
    case True
    then have "snd (capital_move e r t reason ev actor md) = r"
      using assms
      by (auto simp: capital_move_def Let_def assert_transition_def capital_can_transition_def)
    then show ?thesis by (rule stay)
  next
    case False
    then show ?thesis
      using assms
      by (intro move [of "\<lparr>ct_id = ?tid, ct_before = cr_state c, ct_after = t,
              ct_reason = py_strip reason, ct_evidence = ev, ct_timestamp = ce_now e,
              ct_actor = actor, ct_provenance = Some (ce_provenance e), ct_metadata = md\<rparr>"
            "c\<lparr>cr_state := t, cr_updated_at := ce_now e, cr_last_transition := Some ?tid,
               cr_transition_ids := cr_transition_ids c @ [?tid],
               cr_evidence := fromkeys (cr_evidence c @ ev)\<rparr>"])
        (auto simp: capital_move_def Let_def assert_transition_def capital_can_transition_def
          add_transition_def set_record_def get_transition_def update_new)
  qed
qed

lemma capital_move_lineage:
  assumes "lineage r"
  shows "lineage (snd (capital_move e r t reason ev actor md))"
proof -
  obtain c where c: "cg_record r = Some c" using assms by (auto simp: lineage_def)
  from c show ?thesis
  proof (cases rule: capital_move_cases [of r c e t reason ev actor md])
    case stay
    then show ?thesis using assms by simp
  next
    case (move tr c')
    have "ct_id tr \<notin> set (map fst (cg_transitions r))" using move by (simp add: map_of_eq_None_iff)
    also have "map fst (cg_transitions r) = map ct_id (list_transitions r)"
      using assms by (auto simp: lineage_def)
    finally show ?thesis
      using assms c move by (auto simp: lineage_def list_transitions_def path_append)
  qed
qed

lemma snd_wrapped [simp]:
  "snd (case m of (Inl x, r) \<Rightarrow> (Inl x, r) | (Inr c, r) \<Rightarrow> (Inr (f c), r)) = snd m"
  by (cases m; cases "fst m") auto

lemma apply_hint_moves:
  "\<exists>t why. snd (apply_permission_hint e r p ev reason) = r \<or>
    snd (apply_permission_hint e r p ev reason) = snd (capital_move e r t why ev ''policy_hint'' [])"
  unfolding apply_permission_hint_def Let_def if_distrib [where f = snd] snd_wrapped snd_conv
  by (simp split: if_split) blast

inductive capital_step :: "capital_registry \<Rightarrow> capital_registry \<Rightarrow> bool" where
  step_move: "capital_step r (snd (capital_move e r t reason ev actor md))"
| step_hint: "capital_step r (snd (apply_permission_hint e r p ev reason))"

lemma capital_step_lineage: "capital_step r r' \<Longrightarrow> lineage r \<Longrightarrow> lineage r'"
proof (induction rule: capital_step.induct)
  case (step_hint r e p ev reason)
  then show ?case using apply_hint_moves [of e r p ev reason] capital_move_lineage by metis
qed (rule capital_move_lineage)

lemma new_capital_lineage: "lineage (new_capital e)"
  by (simp add: lineage_def new_capital_def init_record_def set_record_def list_transitions_def Let_def)

text \<open>C33: However the engine is driven, directly or by policy hints, its registry holds the complete
  history: the recorded transitions form one path of the graph from INITIALIZING to the current
  state, in the order of the record's transition ids, which are pairwise different and end with the
  last one.\<close>

theorem capital_history_is_a_path:
  assumes "capital_step\<^sup>*\<^sup>* (new_capital e) r"
  shows "\<exists>c. cg_record r = Some c \<and> path CS_INITIALIZING (list_transitions r) (cr_state c) \<and>
    cr_transition_ids c = map ct_id (list_transitions r) \<and> distinct (cr_transition_ids c) \<and>
    cr_last_transition c = (if list_transitions r = [] then None
      else Some (ct_id (last (list_transitions r))))"
proof -
  have "lineage r"
    using assms by (induction rule: rtranclp_induct) (auto simp: new_capital_lineage capital_step_lineage)
  then show ?thesis by (auto simp: lineage_def)
qed

section \<open>The ignored stop\<close>

text \<open>A transition whose name is already in the registry is not made again: an emergency stop with
  the reason and the evidence of an earlier one, out of the same state, reports success and leaves the
  posture as it is.\<close>

theorem repeated_stop_is_ignored:
  assumes "cg_record r = Some c" and "cr_state c \<noteq> CS_EMERGENCY_STOP" and "py_strip reason \<noteq> []"
    and "cr_state c \<in> {CS_INITIALIZING, CS_OBSERVING, CS_NORMAL, CS_CAUTION, CS_RESTRICTED}"
    and "get_transition r (ce_mkid e (cr_state c) CS_EMERGENCY_STOP (py_strip reason)
           (join ''|'' (sort evidence))) \<noteq> None"
  shows "capital_move e r CS_EMERGENCY_STOP reason evidence actor md = (Inr c, r) \<and>
    posture r \<noteq> CS_EMERGENCY_STOP"
  using assms
  by (auto simp: capital_move_def Let_def assert_transition_def capital_can_transition_def posture_def)

definition demo_capital_env :: capital_env where
  "demo_capital_env = \<lparr>ce_mkid = (\<lambda>b a r ev. capital_name b @ ''>'' @ capital_name a @ '':'' @ r @ ''|'' @ ev),
     ce_uuid = ''id'', ce_now = ''t'', ce_provenance = []\<rparr>"

fun hints :: "capital_registry \<Rightarrow> string list \<Rightarrow> capital_registry" where
  "hints r [] = r"
| "hints r (p # ps) = hints (snd (apply_permission_hint demo_capital_env r p [] None)) ps"

definition demo_capital :: capital_registry where
  "demo_capital = hints (snd (capital_move demo_capital_env (new_capital demo_capital_env) CS_OBSERVING
     ''start'' [] ''op'' [])) [''ALLOW'', ''BLOCK'', ''ALLOW'', ''ALLOW'']"

text \<open>
  The posture went to NORMAL, to EMERGENCY STOP, to RECOVERY and back to NORMAL; the second BLOCK is
  not obeyed.
\<close>

lemma demo_capital_values:
  "posture demo_capital = CS_NORMAL" "posture (hints demo_capital [''BLOCK'']) = CS_NORMAL"
  "get_transition demo_capital (ce_mkid demo_capital_env CS_NORMAL CS_EMERGENCY_STOP
     (py_strip ''policy_permission=BLOCK'') (join ''|'' (sort []))) \<noteq> None"
  by code_simp+

lemma hints_steps: "capital_step\<^sup>*\<^sup>* r s \<Longrightarrow> capital_step\<^sup>*\<^sup>* r (hints s ps)"
  by (induction ps arbitrary: s) (auto intro: rtranclp.rtrancl_into_rtrancl step_hint)

lemma demo_capital_run: "capital_step\<^sup>*\<^sup>* (new_capital demo_capital_env) demo_capital"
  unfolding demo_capital_def by (rule hints_steps, rule r_into_rtranclp, rule step_move)

theorem capital_history_is_a_path_witness:
  "\<exists>c. cg_record demo_capital = Some c \<and> cr_transition_ids c = map ct_id (list_transitions demo_capital)"
  using capital_history_is_a_path [OF demo_capital_run] by blast

theorem repeated_stop_is_ignored_witness:
  "\<exists>c. capital_move demo_capital_env demo_capital CS_EMERGENCY_STOP ''policy_permission=BLOCK'' [] ''x'' [] =
    (Inr c, demo_capital) \<and> posture demo_capital \<noteq> CS_EMERGENCY_STOP"
proof -
  obtain c where c: "cg_record demo_capital = Some c" "cr_state c = CS_NORMAL"
    using demo_capital_values(1) by (auto simp: posture_def split: option.splits)
  have "py_strip ''policy_permission=BLOCK'' \<noteq> []" by code_simp
  then show ?thesis
    using repeated_stop_is_ignored [OF c(1), of "''policy_permission=BLOCK''" demo_capital_env "[]" "''x''" "[]"]
      c(2) demo_capital_values(3) by auto
qed

end
