(* ===== verification/LiveAuth.thy ===== *)
theory LiveAuth
  imports PyJson
begin

text \<open>
  LIVE authorization of the desktop system: the models of \<^verbatim>\<open>src/god/live/models.py\<close>, the
  \<open>LiveAuthorizationGate\<close> (\<^verbatim>\<open>authorization.py\<close>), the preflight (\<^verbatim>\<open>preflight.py\<close>), the capital gate
  (\<^verbatim>\<open>src/god/mt5_runtime/safety_gate.py\<close>) and the administrative policy
  (\<^verbatim>\<open>live/autonomous_policy.py\<close>, without its file I/O).
\<close>

section \<open>Models\<close>

datatype live_mode = DEMO_M | PAPER_M | LIVE_M

datatype live_execution_state =
    X_DISABLED | X_READY | X_ARMING | X_ARMED | X_EXECUTING | X_MONITORING | X_DEGRADED | X_HALTED
  | X_BLOCKED

fun execution_state_name :: "live_execution_state \<Rightarrow> string" where
  "execution_state_name X_DISABLED = ''DISABLED''"
| "execution_state_name X_READY = ''READY''"
| "execution_state_name X_ARMING = ''ARMING''"
| "execution_state_name X_ARMED = ''ARMED''"
| "execution_state_name X_EXECUTING = ''EXECUTING''"
| "execution_state_name X_MONITORING = ''MONITORING''"
| "execution_state_name X_DEGRADED = ''DEGRADED''"
| "execution_state_name X_HALTED = ''HALTED''"
| "execution_state_name X_BLOCKED = ''BLOCKED''"

datatype live_validation_state = V_DEMO | LIVE_DISABLED | LIVE_READY | LIVE_ARMED | SAFE_MODE_V

fun validation_name :: "live_validation_state \<Rightarrow> string" where
  "validation_name V_DEMO = ''DEMO''"
| "validation_name LIVE_DISABLED = ''LIVE_DISABLED''"
| "validation_name LIVE_READY = ''LIVE_READY''"
| "validation_name LIVE_ARMED = ''LIVE_ARMED''"
| "validation_name SAFE_MODE_V = ''SAFE_MODE''"

datatype preflight_status = PF_PASS | PF_FAIL | PF_UNKNOWN

fun preflight_name :: "preflight_status \<Rightarrow> string" where
  "preflight_name PF_PASS = ''PASS''"
| "preflight_name PF_FAIL = ''FAIL''"
| "preflight_name PF_UNKNOWN = ''UNKNOWN''"

record hard_risk_limits =
  hl_max_position_size :: flt
  hl_max_total_exposure :: flt
  hl_max_daily_loss :: flt
  hl_max_drawdown :: flt
  hl_max_risk_per_trade :: flt
  hl_max_open_positions :: int
  hl_max_order_notional :: flt
  hl_max_slippage :: flt
  hl_max_spread :: flt
  hl_max_consecutive_losses :: int

definition default_hard_limits :: hard_risk_limits where
  "default_hard_limits = \<lparr>hl_max_position_size = 1/100, hl_max_total_exposure = 1/20,
     hl_max_daily_loss = 1/100, hl_max_drawdown = 1/20, hl_max_risk_per_trade = 1/200,
     hl_max_open_positions = 1, hl_max_order_notional = 100, hl_max_slippage = 1/1000,
     hl_max_spread = 1/2000, hl_max_consecutive_losses = 3\<rparr>"

record preflight_report =
  pr_overall :: preflight_status
  pr_checks :: "(string \<times> preflight_status) list"
  pr_reasons :: "string list"

record live_prerequisites =
  operator_authorized :: bool
  license_valid :: bool
  device_valid :: bool
  credentials_valid :: bool
  broker_connected :: bool
  state_loaded :: bool
  reconciliation_pass :: bool
  risk_governor_ready :: bool
  startup_ready :: bool

definition no_prerequisites :: live_prerequisites where
  "no_prerequisites = \<lparr>operator_authorized = False, license_valid = False, device_valid = False,
     credentials_valid = False, broker_connected = False, state_loaded = False,
     reconciliation_pass = False, risk_governor_ready = False, startup_ready = False\<rparr>"

definition prereq_dict :: "live_prerequisites \<Rightarrow> (string \<times> bool) list" where
  "prereq_dict p =
     [(''operator_authorized'', operator_authorized p), (''license_valid'', license_valid p),
      (''device_valid'', device_valid p), (''credentials_valid'', credentials_valid p),
      (''broker_connected'', broker_connected p), (''state_loaded'', state_loaded p),
      (''reconciliation_pass'', reconciliation_pass p), (''risk_governor_ready'', risk_governor_ready p),
      (''startup_ready'', startup_ready p)]"

definition missing :: "live_prerequisites \<Rightarrow> string list" where
  "missing p = map fst (filter (\<lambda>(_, v). \<not> v) (prereq_dict p))"

definition all_satisfied :: "live_prerequisites \<Rightarrow> bool" where
  "all_satisfied p \<longleftrightarrow> missing p = []"

definition MANDATORY_PREFLIGHT :: "string list" where
  "MANDATORY_PREFLIGHT =
     [''broker_credentials'', ''broker_connection'', ''account_authenticated'', ''account_identity'',
      ''trading_permissions'', ''market_data_live'', ''clock_sync'', ''symbol_mapping'',
      ''contract_specs'', ''price_fresh'', ''portfolio_sync'', ''positions_sync'', ''orders_sync'',
      ''risk_engine'', ''risk_limits'', ''execution_engine'', ''model_loaded'', ''model_compatible'',
      ''feature_schema'', ''state_snapshot'', ''audit_logging'', ''kill_switch'']"

section \<open>Preflight\<close>

definition run_live_preflight :: "(string \<times> preflight_status) list \<Rightarrow> bool \<Rightarrow> preflight_report" where
  "run_live_preflight checks force_all_unknown =
     (let results = map (\<lambda>name. (name, if force_all_unknown then PF_UNKNOWN
             else dict_get checks name PF_UNKNOWN)) MANDATORY_PREFLIGHT;
          reasons = map (\<lambda>(name, st). name @ ''='' @ preflight_name st)
             (filter (\<lambda>(_, st). st \<noteq> PF_PASS) results)
      in if \<exists>(_, v) \<in> set results. v = PF_FAIL
         then \<lparr>pr_overall = PF_FAIL, pr_checks = results, pr_reasons = reasons\<rparr>
         else if \<exists>(_, v) \<in> set results. v = PF_UNKNOWN
         then \<lparr>pr_overall = PF_FAIL, pr_checks = results,
               pr_reasons = (if ''unknown_checks'' \<notin> set reasons
                  then reasons @ [''unknown_checks_block_arm''] else reasons)\<rparr>
         else \<lparr>pr_overall = PF_PASS, pr_checks = results, pr_reasons = reasons\<rparr>)"

section \<open>Authorization gate\<close>

record live_arm_result =
  ar_ok :: bool
  ar_state :: string
  ar_reason :: string
  ar_missing :: "string list"

record auth_gate =
  ag_prereq :: live_prerequisites
  explicit_armed :: bool
  ag_safe_mode :: bool
  ag_safe_reason :: string
  ag_state :: live_validation_state

definition new_auth_gate :: "bool \<Rightarrow> live_prerequisites \<Rightarrow> auth_gate" where
  "new_auth_gate demo p = \<lparr>ag_prereq = p, explicit_armed = False, ag_safe_mode = False,
     ag_safe_reason = [], ag_state = (if demo then V_DEMO else LIVE_DISABLED)\<rparr>"

definition recompute :: "auth_gate \<Rightarrow> auth_gate" where
  "recompute g =
     (if ag_safe_mode g then g\<lparr>ag_state := SAFE_MODE_V, explicit_armed := False\<rparr>
      else if ag_state g = V_DEMO then g
      else if explicit_armed g \<and> all_satisfied (ag_prereq g) then g\<lparr>ag_state := LIVE_ARMED\<rparr>
      else g\<lparr>explicit_armed := False,
             ag_state := (if all_satisfied (ag_prereq g) then LIVE_READY else LIVE_DISABLED)\<rparr>)"

text \<open>
  Only the flags of the record, and only truth values, are taken over. (The code asks \<open>hasattr\<close>, so a
  truth value under the name of one of its methods would hide that method; no caller sends one, and
  such a name is ignored here.)
\<close>

definition set_flag :: "live_prerequisites \<Rightarrow> string \<times> pyval \<Rightarrow> live_prerequisites" where
  "set_flag p kv =
     (case kv of
        (k, PyBool b) \<Rightarrow>
          if k = ''operator_authorized'' then p\<lparr>operator_authorized := b\<rparr>
          else if k = ''license_valid'' then p\<lparr>license_valid := b\<rparr>
          else if k = ''device_valid'' then p\<lparr>device_valid := b\<rparr>
          else if k = ''credentials_valid'' then p\<lparr>credentials_valid := b\<rparr>
          else if k = ''broker_connected'' then p\<lparr>broker_connected := b\<rparr>
          else if k = ''state_loaded'' then p\<lparr>state_loaded := b\<rparr>
          else if k = ''reconciliation_pass'' then p\<lparr>reconciliation_pass := b\<rparr>
          else if k = ''risk_governor_ready'' then p\<lparr>risk_governor_ready := b\<rparr>
          else if k = ''startup_ready'' then p\<lparr>startup_ready := b\<rparr>
          else p
      | _ \<Rightarrow> p)"

definition update_prerequisites :: "auth_gate \<Rightarrow> pydict \<Rightarrow> auth_gate" where
  "update_prerequisites g flags = recompute (g\<lparr>ag_prereq := foldl set_flag (ag_prereq g) flags\<rparr>)"

definition set_prerequisites :: "auth_gate \<Rightarrow> live_prerequisites \<Rightarrow> auth_gate" where
  "set_prerequisites g p = recompute (g\<lparr>ag_prereq := p\<rparr>)"

definition gate_enter_safe :: "auth_gate \<Rightarrow> string \<Rightarrow> auth_gate" where
  "gate_enter_safe g reason = g\<lparr>ag_safe_mode := True,
     ag_safe_reason := (if reason = [] then ''fault'' else reason), explicit_armed := False,
     ag_state := SAFE_MODE_V\<rparr>"

definition gate_exit_safe :: "auth_gate \<Rightarrow> auth_gate" where
  "gate_exit_safe g =
     (let g = g\<lparr>ag_safe_mode := False, ag_safe_reason := [], explicit_armed := False\<rparr>
      in if ag_state g = V_DEMO then g else recompute g)"

definition arm_result :: "bool \<Rightarrow> live_validation_state \<Rightarrow> string \<Rightarrow> string list \<Rightarrow> live_arm_result" where
  "arm_result ok st reason miss = \<lparr>ar_ok = ok, ar_state = validation_name st, ar_reason = reason,
     ar_missing = miss\<rparr>"

text \<open>A refusal disarms and recomputes before it reports the state.\<close>

definition refuse :: "auth_gate \<Rightarrow> string \<Rightarrow> (auth_gate \<Rightarrow> string list) \<Rightarrow> live_arm_result \<times> auth_gate" where
  "refuse g reason miss =
     (let g' = recompute (g\<lparr>explicit_armed := False\<rparr>)
      in (arm_result False (ag_state g') reason (miss g'), g'))"

definition gate_arm :: "auth_gate \<Rightarrow> string \<Rightarrow> live_arm_result \<times> auth_gate" where
  "gate_arm g authorization =
     (if ag_state g = V_DEMO then (arm_result False V_DEMO ''demo_mode_no_live_arm'' [], g)
      else if ag_safe_mode g \<or> ag_state g = SAFE_MODE_V
      then (arm_result False SAFE_MODE_V ''safe_mode'' (missing (ag_prereq g)), g)
      else if authorization = [] \<or> py_strip authorization = []
      then refuse g ''missing_operator_authorization'' (\<lambda>g. missing (ag_prereq g))
      else if missing (ag_prereq g) \<noteq> []
      then refuse g ''prerequisites_unmet'' (\<lambda>_. missing (ag_prereq g))
      else (arm_result True LIVE_ARMED ''armed'' [],
            g\<lparr>explicit_armed := True, ag_state := LIVE_ARMED\<rparr>))"

definition gate_disarm :: "auth_gate \<Rightarrow> live_arm_result \<times> auth_gate" where
  "gate_disarm g =
     (let g = g\<lparr>explicit_armed := False\<rparr>
      in if ag_safe_mode g
         then (arm_result True SAFE_MODE_V ''disarmed_in_safe_mode'' [], g\<lparr>ag_state := SAFE_MODE_V\<rparr>)
         else if ag_state g = V_DEMO then (arm_result True V_DEMO ''demo'' [], g)
         else (let g = recompute g in (arm_result True (ag_state g) ''disarmed'' [], g)))"

definition can_submit_live :: "auth_gate \<Rightarrow> bool" where
  "can_submit_live g \<longleftrightarrow> ag_state g = LIVE_ARMED \<and> \<not> ag_safe_mode g \<and> explicit_armed g \<and>
     all_satisfied (ag_prereq g)"

definition resume_from_admin_policy :: "auth_gate \<Rightarrow> bool \<Rightarrow> bool \<Rightarrow> live_arm_result \<times> auth_gate" where
  "resume_from_admin_policy g autonomous_live prerequisites_satisfied =
     (if ag_state g = V_DEMO \<and> \<not> autonomous_live then (arm_result True V_DEMO ''demo'' [], g)
      else if ag_safe_mode g then (arm_result False SAFE_MODE_V ''safe_mode'' [], g)
      else if \<not> autonomous_live then refuse g ''autonomous_live_false'' (\<lambda>_. [])
      else if \<not> prerequisites_satisfied
      then refuse g ''prerequisites_unmet'' (\<lambda>g. missing (ag_prereq g))
      else
        (let g = g\<lparr>ag_prereq := (ag_prereq g)\<lparr>operator_authorized := True\<rparr>\<rparr>
         in if \<not> all_satisfied (ag_prereq g)
            then refuse g ''prerequisites_unmet'' (\<lambda>g. missing (ag_prereq g))
            else (arm_result True LIVE_ARMED ''resumed_from_admin_policy'' [],
                  g\<lparr>explicit_armed := True, ag_state := LIVE_ARMED\<rparr>)))"

section \<open>Capital gate\<close>

record capital_gate =
  kg_blocked :: bool
  kg_unlock_reason :: string
  kg_orders_submitted :: int
  administrative_live_authorized :: bool

definition new_capital_gate :: capital_gate where
  "new_capital_gate = \<lparr>kg_blocked = True, kg_unlock_reason = [], kg_orders_submitted = 0,
     administrative_live_authorized = False\<rparr>"

definition LIVE_CAPITAL_BLOCKED :: bool where
  "LIVE_CAPITAL_BLOCKED = True"

definition allow_live_execution :: "capital_gate \<Rightarrow> string option \<Rightarrow> bool" where
  "allow_live_execution k unlock_token =
     (if kg_blocked k \<and> \<not> administrative_live_authorized k then False
      else if administrative_live_authorized k \<and> \<not> kg_blocked k then True
      else if kg_blocked k \<or> LIVE_CAPITAL_BLOCKED then False
      else if unlock_token = None \<or> unlock_token = Some [] then False
      else False)"

definition authorize_from_admin_policy :: "capital_gate \<Rightarrow> string \<Rightarrow> capital_gate" where
  "authorize_from_admin_policy k reason = k\<lparr>administrative_live_authorized := True,
     kg_blocked := False, kg_unlock_reason := reason\<rparr>"

definition revoke_admin_authorization :: "capital_gate \<Rightarrow> string \<Rightarrow> capital_gate" where
  "revoke_admin_authorization k reason = k\<lparr>administrative_live_authorized := False,
     kg_blocked := True, kg_unlock_reason := reason\<rparr>"

section \<open>Administrative policy\<close>

definition FORBIDDEN_KEYS :: "string list" where
  "FORBIDDEN_KEYS = [''password'', ''api_key'', ''api_secret'', ''secret'', ''token'', ''access_token'',
     ''refresh_token'', ''session_token'', ''private_key'', ''operator_ack'', ''unlock_token'',
     ''credential'', ''credentials'']"

record trading_policy =
  tp_schema_version :: int
  tp_mode :: string
  tp_autonomous_live :: bool
  tp_autonomous_enabled :: bool
  tp_updated_at :: flt
  tp_source :: string

definition policy_to_dict :: "trading_policy \<Rightarrow> pydict" where
  "policy_to_dict p =
     [(''schema_version'', num (tp_schema_version p)), (''trading_mode'', PyStr (tp_mode p)),
      (''autonomous_live'', PyBool (tp_autonomous_live p)),
      (''autonomous_enabled'', PyBool (tp_autonomous_enabled p)),
      (''updated_at'', PyNum (tp_updated_at p)), (''source'', PyStr (tp_source p))]"

text \<open>\<open>d.get(k, dflt)\<close>.\<close>

definition get_or :: "pydict \<Rightarrow> string \<Rightarrow> pyval \<Rightarrow> pyval" where
  "get_or d k dflt = (case map_of d k of None \<Rightarrow> dflt | Some v \<Rightarrow> v)"

definition policy_from_dict ::
    "(pyval \<Rightarrow> string) \<Rightarrow> (string \<Rightarrow> flt option) \<Rightarrow> flt \<Rightarrow> pydict \<Rightarrow> py_exc + trading_policy" where
  "policy_from_dict shw parse now d =
     (if \<exists>k \<in> fst ` set d. py_lower k \<in> set FORBIDDEN_KEYS then Inl ValueE
      else
        (let mode = py_upper (py_str shw (get_or d ''trading_mode'' (PyStr ''PAPER'')));
             mode = (if mode \<in> {''DEMO'', ''PAPER'', ''LIVE''} then mode else ''PAPER'')
         in bindE (to_int parse (get_or d ''schema_version'' (num 1))) (\<lambda>ver.
            bindE (to_float parse (get_or d ''updated_at'' (PyNum now))) (\<lambda>upd.
              Inr \<lparr>tp_schema_version = ver, tp_mode = mode,
                   tp_autonomous_live = truthy (get_or d ''autonomous_live'' (PyBool False)),
                   tp_autonomous_enabled = truthy (get_or d ''autonomous_enabled'' (PyBool True)),
                   tp_updated_at = upd,
                   tp_source = py_str shw (get_or d ''source'' (PyStr ''administrative''))\<rparr>))))"

definition enable_autonomous_live :: "flt \<Rightarrow> string \<Rightarrow> trading_policy" where
  "enable_autonomous_live now mode =
     (let mode = (if py_upper mode \<in> {''DEMO'', ''PAPER'', ''LIVE''} then py_upper mode else ''LIVE'')
      in \<lparr>tp_schema_version = 1, tp_mode = mode, tp_autonomous_live = (mode = ''LIVE''),
          tp_autonomous_enabled = True, tp_updated_at = now, tp_source = ''administrative''\<rparr>)"

definition enable_autonomous_paper :: "flt \<Rightarrow> trading_policy" where
  "enable_autonomous_paper now = \<lparr>tp_schema_version = 1, tp_mode = ''PAPER'',
     tp_autonomous_live = False, tp_autonomous_enabled = True, tp_updated_at = now,
     tp_source = ''administrative''\<rparr>"

end
