(* ===== verification/LiveController.thy ===== *)
theory LiveController
  imports LiveAuth
begin

text \<open>
  \<open>LiveExecutionController\<close> (\<^verbatim>\<open>src/god/live/controller.py\<close>), the only part of the desktop system
  that hands orders to a broker, and the headless start that arms it from a stored policy
  (\<^verbatim>\<open>live/autonomous_runtime.py\<close>). The broker is a function from a request to a response or the text
  of an exception; the probes of the start are given per attempt; the clock is an argument.
\<close>

record live_order_intent =
  li_client_order_id :: string
  li_symbol :: string
  li_side :: string
  li_size :: flt
  li_decision_id :: string
  li_risk_id :: string
  li_comment :: string

record live_submit_result =
  sr_ok :: bool
  sr_status :: string
  sr_reason :: string
  sr_response :: "pyval option"
  sr_state :: string

record live_audit =
  la_ts :: flt
  la_kind :: string
  la_state :: string
  la_payload :: pydict

record live_controller =
  lc_mode :: live_mode
  lc_limits :: hard_risk_limits
  lc_capital :: capital_gate
  lc_state :: live_execution_state
  lc_preflight :: preflight_report
  lc_armed_at :: flt
  lc_halt_reason :: string
  lc_ids :: "string list"
  lc_audit :: "live_audit list"
  lc_submitted :: int
  lc_open :: int
  lc_daily_loss :: flt
  lc_consecutive_losses :: int
  lc_auth :: auth_gate

definition new_live_controller ::
    "live_mode \<Rightarrow> hard_risk_limits option \<Rightarrow> capital_gate option \<Rightarrow> live_controller" where
  "new_live_controller mode limits capital = \<lparr>lc_mode = mode,
     lc_limits = opt_get limits default_hard_limits, lc_capital = opt_get capital new_capital_gate,
     lc_state = X_DISABLED, lc_preflight = run_live_preflight [] True, lc_armed_at = 0,
     lc_halt_reason = [], lc_ids = [], lc_audit = [], lc_submitted = 0, lc_open = 0,
     lc_daily_loss = 0, lc_consecutive_losses = 0,
     lc_auth = new_auth_gate (mode \<noteq> LIVE_M) no_prerequisites\<rparr>"

definition audit_event :: "flt \<Rightarrow> live_controller \<Rightarrow> string \<Rightarrow> pydict \<Rightarrow> live_controller" where
  "audit_event now c kind payload = c\<lparr>lc_audit := lc_audit c @ [\<lparr>la_ts = now, la_kind = kind,
     la_state = execution_state_name (lc_state c), la_payload = payload\<rparr>]\<rparr>"

definition evaluate_preflight ::
    "flt \<Rightarrow> live_controller \<Rightarrow> (string \<times> preflight_status) list \<Rightarrow> preflight_report \<times> live_controller" where
  "evaluate_preflight now c checks =
     (let c = c\<lparr>lc_preflight := run_live_preflight checks False\<rparr>;
          c = audit_event now c ''preflight''
                [(''overall'', PyStr (preflight_name (pr_overall (lc_preflight c))))];
          c = (if pr_overall (lc_preflight c) \<noteq> PF_PASS \<and> lc_state c \<notin> {X_HALTED, X_BLOCKED}
               then c\<lparr>lc_state := X_BLOCKED\<rparr> else c)
      in (lc_preflight c, c))"

text \<open>The reply of an arming call.\<close>

record live_reply =
  lr_ok :: bool
  lr_reason :: string
  lr_missing :: "string list"
  lr_state :: string

definition reply :: "bool \<Rightarrow> string \<Rightarrow> string list \<Rightarrow> live_controller \<Rightarrow> live_reply \<times> live_controller" where
  "reply ok reason miss c = (\<lparr>lr_ok = ok, lr_reason = reason, lr_missing = miss,
     lr_state = execution_state_name (lc_state c)\<rparr>, c)"

definition strs :: "string list \<Rightarrow> pyval" where
  "strs xs = PyList (map PyStr xs)"

definition controller_arm :: "flt \<Rightarrow> live_controller \<Rightarrow> string \<Rightarrow> live_reply \<times> live_controller" where
  "controller_arm now c operator_ack =
     (if lc_state c = X_HALTED then reply False ''halted'' [] c
      else if pr_overall (lc_preflight c) \<noteq> PF_PASS
      then reply False ''preflight_not_pass'' []
             (audit_event now (c\<lparr>lc_state := X_BLOCKED\<rparr>) ''arm_denied''
                [(''reason'', PyStr ''preflight_not_pass'')])
      else if lc_mode c = LIVE_M \<and> \<not> allow_live_execution (lc_capital c) None
      then reply False ''live_capital_blocked'' []
             (audit_event now (c\<lparr>lc_state := X_BLOCKED\<rparr>) ''arm_denied''
                [(''reason'', PyStr ''live_capital_blocked'')])
      else if operator_ack = []
      then reply False ''missing_operator_ack'' []
             (audit_event now c ''arm_denied'' [(''reason'', PyStr ''missing_operator_ack'')])
      else
        (let (res, auth) = (if lc_mode c = LIVE_M then gate_arm (lc_auth c) operator_ack
                            else (arm_result True (ag_state (lc_auth c)) [] [], lc_auth c));
             c = c\<lparr>lc_auth := auth\<rparr>
         in if \<not> ar_ok res
            then reply False (ar_reason res) (ar_missing res)
                   (audit_event now (c\<lparr>lc_state := X_BLOCKED\<rparr>) ''arm_denied''
                      [(''reason'', PyStr (ar_reason res)), (''missing'', strs (ar_missing res))])
            else reply True [] []
                   (audit_event now (c\<lparr>lc_state := X_ARMED, lc_armed_at := now\<rparr>) ''armed''
                      [(''operator_ack'', PyStr (take 64 operator_ack))])))"

definition arm_from_admin_policy ::
    "flt \<Rightarrow> live_controller \<Rightarrow> bool \<Rightarrow> string \<Rightarrow> live_reply \<times> live_controller" where
  "arm_from_admin_policy now c prerequisites_satisfied policy_reason =
     (if lc_state c = X_HALTED then reply False ''halted'' [] c
      else if pr_overall (lc_preflight c) \<noteq> PF_PASS
      then reply False ''preflight_not_pass'' [] (c\<lparr>lc_state := X_BLOCKED\<rparr>)
      else if lc_mode c \<noteq> LIVE_M then reply False ''not_live_mode'' [] c
      else if \<not> allow_live_execution (lc_capital c) None
      then reply False ''live_capital_blocked'' [] (c\<lparr>lc_state := X_BLOCKED\<rparr>)
      else
        (let (res, auth) = resume_from_admin_policy (lc_auth c) True prerequisites_satisfied;
             c = c\<lparr>lc_auth := auth\<rparr>
         in if \<not> ar_ok res
            then reply False (ar_reason res) (ar_missing res)
                   (audit_event now (c\<lparr>lc_state := X_BLOCKED\<rparr>) ''arm_denied''
                      [(''reason'', PyStr (ar_reason res)), (''missing'', strs (ar_missing res))])
            else reply True ''resumed_from_admin_policy'' []
                   (audit_event now (c\<lparr>lc_state := X_ARMED, lc_armed_at := now\<rparr>)
                      ''armed_from_admin_policy'' [(''reason'', PyStr (take 64 policy_reason))])))"

definition controller_disarm :: "flt \<Rightarrow> live_controller \<Rightarrow> live_reply \<times> live_controller" where
  "controller_disarm now c =
     (if lc_state c = X_HALTED then reply False ''halted'' [] c
      else reply True [] []
             (audit_event now (c\<lparr>lc_state := X_DISABLED, lc_auth := snd (gate_disarm (lc_auth c))\<rparr>)
                ''disarmed'' []))"

definition kill_switch_live :: "flt \<Rightarrow> live_controller \<Rightarrow> string \<Rightarrow> live_reply \<times> live_controller" where
  "kill_switch_live now c reason =
     reply True reason []
       (audit_event now (c\<lparr>lc_state := X_HALTED, lc_halt_reason := reason\<rparr>) ''kill_switch''
          [(''reason'', PyStr reason)])"

definition reset_after_halt :: "flt \<Rightarrow> live_controller \<Rightarrow> string \<Rightarrow> live_reply \<times> live_controller" where
  "reset_after_halt now c operator_ack =
     (if lc_state c \<noteq> X_HALTED then reply False ''not_halted'' [] c
      else if operator_ack = [] then reply False ''missing_operator_ack'' [] c
      else reply True [] []
             (audit_event now (c\<lparr>lc_state := X_DISABLED, lc_halt_reason := [],
                lc_preflight := run_live_preflight [] True\<rparr>) ''reset_after_halt'' []))"

definition risk_check :: "live_controller \<Rightarrow> live_order_intent \<Rightarrow> string option" where
  "risk_check c i =
     (if li_size i \<le> 0 then Some ''invalid_size''
      else if li_size i > hl_max_position_size (lc_limits c) then Some ''max_position_size''
      else if lc_open c \<ge> hl_max_open_positions (lc_limits c) then Some ''max_open_positions''
      else if lc_daily_loss c \<ge> hl_max_daily_loss (lc_limits c) then Some ''max_daily_loss''
      else if lc_consecutive_losses c \<ge> hl_max_consecutive_losses (lc_limits c)
      then Some ''max_consecutive_losses''
      else if li_symbol i = [] then Some ''invalid_symbol''
      else if py_upper (li_side i) \<notin> {''BUY'', ''SELL''} then Some ''invalid_side''
      else None)"

definition order_request :: "live_order_intent \<Rightarrow> pydict" where
  "order_request i = [(''client_order_id'', PyStr (li_client_order_id i)),
     (''symbol'', PyStr (li_symbol i)), (''side'', PyStr (py_upper (li_side i))),
     (''size'', PyNum (li_size i)), (''decision_id'', PyStr (li_decision_id i)),
     (''risk_id'', PyStr (li_risk_id i)), (''comment'', PyStr (li_comment i))]"

definition submit_result ::
    "bool \<Rightarrow> string \<Rightarrow> string \<Rightarrow> pyval option \<Rightarrow> live_controller \<Rightarrow> live_submit_result" where
  "submit_result ok status reason resp c = \<lparr>sr_ok = ok, sr_status = status, sr_reason = reason,
     sr_response = resp, sr_state = execution_state_name (lc_state c)\<rparr>"

text \<open>The guards of a submission: the refusal with the state it leaves, if there is one.\<close>

definition submit_guard ::
    "flt \<Rightarrow> live_controller \<Rightarrow> live_order_intent \<Rightarrow> bool \<Rightarrow>
     (live_submit_result \<times> live_controller) option" where
  "submit_guard now c i has_broker =
     (let no = (\<lambda>status reason c. Some (submit_result False status reason None c, c)) in
      if lc_state c = X_HALTED
      then no ''HALTED'' (if lc_halt_reason c = [] then ''halted'' else lc_halt_reason c) c
      else if lc_state c \<notin> {X_ARMED, X_MONITORING}
      then no ''BLOCKED'' (''state_'' @ execution_state_name (lc_state c)) c
      else if lc_mode c = LIVE_M \<and> \<not> can_submit_live (lc_auth c)
      then no ''BLOCKED'' ''live_not_authorized'' c
      else if li_client_order_id i \<in> set (lc_ids c)
      then no ''REJECTED'' ''duplicate_client_order_id''
             (audit_event now c ''duplicate_blocked''
                [(''client_order_id'', PyStr (li_client_order_id i))])
      else case risk_check c i of
             Some f \<Rightarrow> no ''REJECTED'' f (audit_event now c ''risk_reject'' [(''reason'', PyStr f)])
           | None \<Rightarrow>
               if lc_mode c = LIVE_M \<and> \<not> allow_live_execution (lc_capital c) None
               then no ''BLOCKED'' ''live_capital_blocked'' c
               else if \<not> has_broker then no ''REJECTED'' ''no_broker_submit'' c
               else None)"

text \<open>The bookkeeping after a response.\<close>

definition after_response ::
    "(pyval \<Rightarrow> string) \<Rightarrow> flt \<Rightarrow> live_controller \<Rightarrow> live_order_intent \<Rightarrow> pyval \<Rightarrow>
     (py_exc + live_submit_result) \<times> live_controller" where
  "after_response shw now c i resp =
     (let c = c\<lparr>lc_ids := li_client_order_id i # lc_ids c\<rparr>;
          ok = (case resp of PyDict d \<Rightarrow> truthy (dget d ''ok'') | _ \<Rightarrow> False);
          status = (case resp of PyDict d \<Rightarrow> py_str shw (get_or d ''status'' (PyStr ''UNKNOWN''))
                    | _ \<Rightarrow> ''UNKNOWN'');
          idp = (''client_order_id'', PyStr (li_client_order_id i));
          c = (if ok
               then audit_event now (c\<lparr>lc_submitted := lc_submitted c + 1, lc_open := lc_open c + 1,
                      lc_state := X_MONITORING\<rparr>) ''order_accepted'' [idp]
               else audit_event now (c\<lparr>lc_state := X_ARMED\<rparr>) ''order_rejected''
                      [idp, (''resp'', resp)]);
          raw = (case resp of PyDict d \<Rightarrow> resp | _ \<Rightarrow> PyDict [(''raw'', PyStr (py_str shw resp))])
      in if ok then (Inr (submit_result True status [] (Some raw) c), c)
         else case resp of
                PyDict d \<Rightarrow>
                  (Inr (submit_result False ''REJECTED''
                     (py_str shw (get_or d ''message'' (PyStr ''broker_rejected''))) (Some raw) c), c)
              | _ \<Rightarrow>
                  if truthy resp then (Inl AttributeE, c)
                  else (Inr (submit_result False ''REJECTED'' ''broker_rejected'' (Some raw) c), c))"

definition submit_live_order ::
    "(pyval \<Rightarrow> string) \<Rightarrow> flt \<Rightarrow> live_controller \<Rightarrow> live_order_intent \<Rightarrow>
     (pydict \<Rightarrow> string + pyval) option \<Rightarrow> (py_exc + live_submit_result) \<times> live_controller" where
  "submit_live_order shw now c i broker =
     (case submit_guard now c i (broker \<noteq> None) of
        Some (r, c) \<Rightarrow> (Inr r, c)
      | None \<Rightarrow>
          (let c = c\<lparr>lc_state := X_EXECUTING\<rparr>
           in case (case broker of Some f \<Rightarrow> f (order_request i) | None \<Rightarrow> Inl []) of
                Inl e \<Rightarrow>
                  (let c = audit_event now (c\<lparr>lc_state := X_DEGRADED\<rparr>) ''broker_exception''
                             [(''error'', PyStr e)]
                   in (Inr (submit_result False ''REJECTED'' (''broker_exception:'' @ e) None c), c))
              | Inr resp \<Rightarrow> after_response shw now c i resp))"

definition record_fill_outcome :: "live_controller \<Rightarrow> flt \<Rightarrow> live_controller" where
  "record_fill_outcome c profit =
     (let c = (if profit < 0
               then c\<lparr>lc_consecutive_losses := lc_consecutive_losses c + 1,
                      lc_daily_loss := lc_daily_loss c + \<bar>profit\<bar>\<rparr>
               else c\<lparr>lc_consecutive_losses := 0\<rparr>)
      in if lc_open c > 0 then c\<lparr>lc_open := lc_open c - 1\<rparr> else c)"

section \<open>Headless start\<close>

record runtime_probes =
  rp_prereq :: live_prerequisites
  rp_artifact_integrity :: bool
  rp_config_valid :: bool

definition evaluate_runtime_prechecks ::
    "runtime_probes \<Rightarrow> bool \<times> live_prerequisites \<times> string list" where
  "evaluate_runtime_prechecks p =
     (let pre = (rp_prereq p)\<lparr>operator_authorized := True\<rparr>;
          m = missing pre @ (if rp_artifact_integrity p then [] else [''artifact_integrity'']) @
                (if rp_config_valid p then [] else [''config_valid''])
      in (m = [], pre, m))"

record runtime_result =
  rr_ok :: bool
  rr_state :: string
  rr_mode :: string
  rr_reason :: string
  rr_safe_mode :: bool
  rr_live :: "live_controller option"

definition runtime_reply :: "bool \<Rightarrow> string \<Rightarrow> string \<Rightarrow> string \<Rightarrow> bool \<Rightarrow> runtime_result" where
  "runtime_reply ok st mode reason safe = \<lparr>rr_ok = ok, rr_state = st, rr_mode = mode,
     rr_reason = reason, rr_safe_mode = safe, rr_live = None\<rparr>"

definition all_prerequisites :: "bool \<Rightarrow> live_prerequisites" where
  "all_prerequisites b = \<lparr>operator_authorized = b, license_valid = b, device_valid = b,
     credentials_valid = b, broker_connected = b, state_loaded = b, reconciliation_pass = b,
     risk_governor_ready = b, startup_ready = b\<rparr>"

text \<open>The first attempt whose prechecks pass gives its prerequisites.\<close>

fun first_passing :: "(nat \<Rightarrow> runtime_probes) \<Rightarrow> nat list \<Rightarrow> live_prerequisites option" where
  "first_passing probes [] = None"
| "first_passing probes (n # ns) =
     (case evaluate_runtime_prechecks (probes n) of
        (ok, pre, _) \<Rightarrow> if ok then Some pre else first_passing probes ns)"

text \<open>The probes without a precheck function: all true, but all false for LIVE.\<close>

definition default_probes :: "bool \<Rightarrow> nat \<Rightarrow> runtime_probes" where
  "default_probes live n = \<lparr>rp_prereq = all_prerequisites (\<not> live), rp_artifact_integrity = True,
     rp_config_valid = True\<rparr>"

text \<open>The LIVE part of the start: authorize the capital, fill in the preflight, arm.\<close>

definition resume_live :: "flt \<Rightarrow> live_prerequisites \<Rightarrow> runtime_result" where
  "resume_live now pre =
     (let capital = authorize_from_admin_policy new_capital_gate ''admin_autonomous_policy'';
          c = new_live_controller LIVE_M None (Some capital);
          c = c\<lparr>lc_auth := set_prerequisites (new_auth_gate False no_prerequisites) pre\<rparr>;
          c = snd (evaluate_preflight now c (map (\<lambda>n. (n, PF_PASS)) MANDATORY_PREFLIGHT));
          (arm, c) = arm_from_admin_policy now c True ''autonomous_policy_resume''
      in if \<not> lr_ok arm
         then runtime_reply False ''SAFE_MODE'' ''LIVE'' (lr_reason arm) True
         else (runtime_reply True ''RUNNING'' ''LIVE'' ''autonomous_live_resumed'' False)
                \<lparr>rr_live := Some c\<rparr>)"

definition run_autonomous_startup ::
    "flt \<Rightarrow> trading_policy option \<Rightarrow> (nat \<Rightarrow> runtime_probes) option \<Rightarrow> int \<Rightarrow> runtime_result" where
  "run_autonomous_startup now policy precheck max_recovery_attempts =
     (case policy of
        None \<Rightarrow> runtime_reply True ''READY'' ''PAPER'' ''no_policy_default_paper'' False
      | Some pol \<Rightarrow>
          if \<not> tp_autonomous_enabled pol
          then runtime_reply False ''SAFE_MODE'' (tp_mode pol) ''autonomous_disabled'' True
          else
            (let live = (tp_mode pol = ''LIVE'' \<and> tp_autonomous_live pol)
             in case first_passing (opt_get precheck (default_probes live))
                       [0..<nat (max_recovery_attempts + 1)] of
                  None \<Rightarrow> runtime_reply False ''SAFE_MODE'' (tp_mode pol) ''prechecks_failed'' True
                | Some pre \<Rightarrow>
                    if \<not> live
                    then runtime_reply True ''RUNNING'' (tp_mode pol) ''autonomous_paper_or_demo'' False
                    else resume_live now pre))"

definition run_autonomous_runtime :: "runtime_result \<Rightarrow> int" where
  "run_autonomous_runtime r =
     (if rr_ok r \<and> rr_state r = ''RUNNING'' then 0
      else if rr_reason r = ''no_policy_default_paper'' then 0
      else 1)"

end
