(* ===== verification/LiveControllerProps.thy ===== *)
theory LiveControllerProps
  imports LiveController
begin

text \<open>
  Properties of LIVE authorization: the gate's state tells the truth, the broker sees only orders that
  passed every guard, the kill switch holds until an operator resets it, and what the headless start
  needs.
\<close>

section \<open>The authorization gate\<close>

inductive auth_step :: "auth_gate \<Rightarrow> auth_gate \<Rightarrow> bool" where
  auth_flags: "auth_step g (update_prerequisites g flags)"
| auth_set: "auth_step g (set_prerequisites g p)"
| auth_recompute: "auth_step g (recompute g)"
| auth_enter: "auth_step g (gate_enter_safe g reason)"
| auth_exit: "auth_step g (gate_exit_safe g)"
| auth_arm: "auth_step g (snd (gate_arm g ack))"
| auth_disarm: "auth_step g (snd (gate_disarm g))"
| auth_resume: "auth_step g (snd (resume_from_admin_policy g live ok))"

definition auth_ok :: "auth_gate \<Rightarrow> bool" where
  "auth_ok g \<longleftrightarrow>
     (ag_safe_mode g \<longleftrightarrow> ag_state g = SAFE_MODE_V) \<and>
     (explicit_armed g \<longleftrightarrow> ag_state g = LIVE_ARMED) \<and>
     (ag_state g = LIVE_ARMED \<longrightarrow> all_satisfied (ag_prereq g))"

lemma recompute_ok:
  assumes "ag_safe_mode g \<or> ag_state g \<noteq> SAFE_MODE_V" and "ag_state g = V_DEMO \<Longrightarrow> \<not> explicit_armed g"
  shows "auth_ok (recompute g)"
  using assms by (cases "ag_state g") (auto simp: recompute_def auth_ok_def)

lemma recompute_disarmed_ok:
  "auth_ok (recompute (g\<lparr>ag_safe_mode := False, ag_safe_reason := r, explicit_armed := False\<rparr>))"
  if "ag_state g \<noteq> SAFE_MODE_V"
  using that by (intro recompute_ok) auto

lemma exit_safe_ok: "auth_ok g \<Longrightarrow> auth_ok (gate_exit_safe g)"
  by (cases "ag_state g") (auto simp: gate_exit_safe_def recompute_def auth_ok_def Let_def)

lemma refuse_ok: "auth_ok g \<Longrightarrow> auth_ok (snd (refuse g why f))"
  unfolding refuse_def Let_def snd_conv by (rule recompute_ok) (auto simp: auth_ok_def)

lemma arm_ok: "auth_ok g \<Longrightarrow> auth_ok (snd (gate_arm g ack))"
  using refuse_ok [of g] by (auto simp: gate_arm_def all_satisfied_def auth_ok_def)

lemma refuse_prereq_ok:
  "auth_ok g \<Longrightarrow> auth_ok (snd (refuse (g\<lparr>ag_prereq := p\<rparr>) why f))"
  unfolding refuse_def Let_def snd_conv by (rule recompute_ok) (auto simp: auth_ok_def)

lemma resume_ok: "auth_ok g \<Longrightarrow> auth_ok (snd (resume_from_admin_policy g live ok))"
  using refuse_ok [of g] refuse_prereq_ok [of g]
  by (auto simp: resume_from_admin_policy_def Let_def) (auto simp: auth_ok_def)

lemma auth_step_ok: "auth_step g g' \<Longrightarrow> auth_ok g \<Longrightarrow> auth_ok g'"
proof (induction rule: auth_step.induct)
  case (auth_flags g flags)
  then show ?case unfolding update_prerequisites_def by (intro recompute_ok) (auto simp: auth_ok_def)
next
  case (auth_set g p)
  then show ?case unfolding set_prerequisites_def by (intro recompute_ok) (auto simp: auth_ok_def)
next
  case (auth_recompute g)
  then show ?case by (intro recompute_ok) (auto simp: auth_ok_def)
next
  case (auth_enter g reason)
  then show ?case by (simp add: gate_enter_safe_def auth_ok_def)
next
  case (auth_disarm g)
  then show ?case
    by (cases "ag_state g") (auto simp: gate_disarm_def recompute_def auth_ok_def Let_def)
qed (auto simp: exit_safe_ok arm_ok resume_ok)

lemma new_auth_gate_ok: "auth_ok (new_auth_gate demo p)"
  by (simp add: auth_ok_def new_auth_gate_def)

text \<open>How a gate that is not armed becomes armed.\<close>

lemma auth_step_arms:
  assumes "auth_step g g'" and "auth_ok g" and "ag_state g \<noteq> LIVE_ARMED" and "ag_state g' = LIVE_ARMED"
  shows "(\<exists>ack. g' = snd (gate_arm g ack) \<and> py_strip ack \<noteq> [] \<and> ag_state g \<noteq> V_DEMO) \<or>
    g' = snd (resume_from_admin_policy g True True)"
  using assms(1)
proof cases
  case (auth_arm ack)
  then show ?thesis
    using assms(2-) by (auto simp: gate_arm_def refuse_def recompute_def Let_def split: if_splits)
next
  case (auth_resume live ok)
  then show ?thesis
    using assms(2-)
    by (cases live; cases ok)
      (auto simp: resume_from_admin_policy_def refuse_def recompute_def Let_def split: if_splits)
qed (use assms(2-) in \<open>auto simp: update_prerequisites_def set_prerequisites_def recompute_def auth_ok_def
      gate_enter_safe_def gate_exit_safe_def gate_disarm_def arm_result_def Let_def split: if_splits\<close>)

text \<open>C36: Over any run of the authorization gate LIVE may be submitted exactly in the state LIVE\_ARMED,
  and then all nine prerequisites hold and safe mode is off; and the only steps into that state are an
  arming with a non-blank operator authorization on a gate that is not in demo mode and a resumption
  from the administrative policy.\<close>

theorem live_armed_only_with_authority:
  assumes "auth_step\<^sup>*\<^sup>* (new_auth_gate demo p) g" and "auth_step g g'"
  shows "can_submit_live g = (ag_state g = LIVE_ARMED) \<and>
    (if can_submit_live g' \<and> \<not> can_submit_live g
     then missing (ag_prereq g') = [] \<and> \<not> ag_safe_mode g' \<and>
       ((\<exists>ack. g' = snd (gate_arm g ack) \<and> py_strip ack \<noteq> [] \<and> ag_state g \<noteq> V_DEMO) \<or>
        g' = snd (resume_from_admin_policy g True True))
     else True)"
proof -
  have ok: "auth_ok g"
    using assms(1) by (induction rule: rtranclp_induct) (auto intro: auth_step_ok new_auth_gate_ok)
  then have iff: "can_submit_live g = (ag_state g = LIVE_ARMED)"
    by (auto simp: auth_ok_def can_submit_live_def)
  show ?thesis
    using iff auth_step_arms [OF assms(2) ok] by (auto simp: can_submit_live_def all_satisfied_def)
qed

theorem live_armed_only_with_authority_witness:
  "can_submit_live (snd (gate_arm (new_auth_gate False (all_prerequisites True)) ''op'')) \<and>
   \<not> can_submit_live (new_auth_gate False (all_prerequisites True))"
proof -
  have "can_submit_live (new_auth_gate False (all_prerequisites True)) =
      (ag_state (new_auth_gate False (all_prerequisites True)) = LIVE_ARMED)"
    by (rule live_armed_only_with_authority [THEN conjunct1, OF rtranclp.rtrancl_refl])
      (rule auth_arm [where ack = "''op''"])
  moreover have "can_submit_live (snd (gate_arm (new_auth_gate False (all_prerequisites True)) ''op''))"
    by code_simp
  ultimately show ?thesis by (simp add: new_auth_gate_def)
qed

text \<open>
  A demo gate does not stay one: after a safe-mode episode it is a LIVE gate, and a resumption from
  policy arms it directly.
\<close>

lemma demo_gate_can_be_armed:
  "can_submit_live (snd (gate_arm (set_prerequisites (gate_exit_safe (gate_enter_safe
     (new_auth_gate True no_prerequisites) ''fault'')) (all_prerequisites True)) ''op''))"
  "can_submit_live (snd (resume_from_admin_policy (new_auth_gate True (all_prerequisites True)) True True))"
  by code_simp+

section \<open>The controller\<close>

text \<open>
  A labelled step: \<open>Sent\<close> for a submission that reaches the broker (answered or not), \<open>Reset\<close> for an
  operator's reset, \<open>Internal\<close> for everything else, the owner's changes of the gates included.
\<close>

datatype live_label = Internal | Reset | Sent live_order_intent bool

inductive live_step :: "live_controller \<Rightarrow> live_label \<Rightarrow> live_controller \<Rightarrow> bool" where
  ls_preflight: "live_step c Internal (snd (evaluate_preflight now c checks))"
| ls_arm: "live_step c Internal (snd (controller_arm now c ack))"
| ls_admin: "live_step c Internal (snd (arm_from_admin_policy now c ok why))"
| ls_disarm: "live_step c Internal (snd (controller_disarm now c))"
| ls_kill: "live_step c Internal (snd (kill_switch_live now c why))"
| ls_fill: "live_step c Internal (record_fill_outcome c profit)"
| ls_auth: "auth_step (lc_auth c) g \<Longrightarrow> live_step c Internal (c\<lparr>lc_auth := g\<rparr>)"
| ls_capital: "live_step c Internal (c\<lparr>lc_capital := k\<rparr>)"
| ls_reset: "live_step c Reset (snd (reset_after_halt now c ack))"
| ls_refused: "submit_guard now c i b = Some (r, c') \<Longrightarrow> live_step c Internal c'"
| ls_answered: "submit_guard now c i True = None \<Longrightarrow> f (order_request i) = Inr resp \<Longrightarrow>
     live_step c (Sent i True) (snd (submit_live_order shw now c i (Some f)))"
| ls_raised: "submit_guard now c i True = None \<Longrightarrow> f (order_request i) = Inl e \<Longrightarrow>
     live_step c (Sent i False) (snd (submit_live_order shw now c i (Some f)))"

inductive live_run :: "live_controller \<Rightarrow> live_label list \<Rightarrow> live_controller \<Rightarrow> bool" for c0 where
  run_start: "live_run c0 [] c0"
| run_step: "live_run c0 ls c \<Longrightarrow> live_step c l c' \<Longrightarrow> live_run c0 (ls @ [l]) c'"

lemma audit_event_frame [simp]:
  "lc_state (audit_event now c k p) = lc_state c" "lc_ids (audit_event now c k p) = lc_ids c"
  "lc_auth (audit_event now c k p) = lc_auth c" "lc_mode (audit_event now c k p) = lc_mode c"
  "lc_limits (audit_event now c k p) = lc_limits c" "lc_open (audit_event now c k p) = lc_open c"
  "lc_capital (audit_event now c k p) = lc_capital c" "lc_preflight (audit_event now c k p) = lc_preflight c"
  "lc_submitted (audit_event now c k p) = lc_submitted c"
  "lc_halt_reason (audit_event now c k p) = lc_halt_reason c"
  "lc_daily_loss (audit_event now c k p) = lc_daily_loss c"
  "lc_consecutive_losses (audit_event now c k p) = lc_consecutive_losses c"
  by (simp_all add: audit_event_def)

lemma reply_snd [simp]: "snd (reply ok why m c) = c"
  by (simp add: reply_def)

lemma guard_refused_frame:
  assumes "submit_guard now c i b = Some (r, c')"
  shows "lc_state c' = lc_state c \<and> lc_ids c' = lc_ids c \<and> lc_auth c' = lc_auth c \<and>
    lc_mode c' = lc_mode c \<and> lc_limits c' = lc_limits c \<and> lc_open c' = lc_open c"
  using assms by (auto simp: submit_guard_def Let_def split: if_splits option.splits)

lemma guard_passed:
  assumes "submit_guard now c i b = None"
  shows "lc_state c \<in> {X_ARMED, X_MONITORING} \<and> (lc_mode c = LIVE_M \<longrightarrow>
      can_submit_live (lc_auth c) \<and> allow_live_execution (lc_capital c) None) \<and>
    li_client_order_id i \<notin> set (lc_ids c) \<and> risk_check c i = None"
  using assms by (auto simp: submit_guard_def Let_def split: if_splits option.splits)

lemma risk_check_passed:
  "risk_check c i = None \<Longrightarrow> 0 < li_size i \<and> li_size i \<le> hl_max_position_size (lc_limits c) \<and>
    lc_open c < hl_max_open_positions (lc_limits c) \<and> lc_daily_loss c < hl_max_daily_loss (lc_limits c) \<and>
    lc_consecutive_losses c < hl_max_consecutive_losses (lc_limits c)"
  by (auto simp: risk_check_def split: if_splits)

lemma submit_answered:
  assumes "submit_guard now c i True = None" and "f (order_request i) = Inr resp"
  shows "lc_ids (snd (submit_live_order shw now c i (Some f))) = li_client_order_id i # lc_ids c \<and>
    lc_mode (snd (submit_live_order shw now c i (Some f))) = lc_mode c \<and>
    lc_limits (snd (submit_live_order shw now c i (Some f))) = lc_limits c \<and>
    lc_open (snd (submit_live_order shw now c i (Some f))) \<le> lc_open c + 1 \<and>
    lc_state (snd (submit_live_order shw now c i (Some f))) \<in> {X_ARMED, X_MONITORING}"
  using assms
  by (cases resp) (auto simp: submit_live_order_def after_response_def Let_def split: if_splits)

lemma submit_raised:
  assumes "submit_guard now c i True = None" and "f (order_request i) = Inl e"
  shows "lc_ids (snd (submit_live_order shw now c i (Some f))) = lc_ids c \<and>
    lc_mode (snd (submit_live_order shw now c i (Some f))) = lc_mode c \<and>
    lc_limits (snd (submit_live_order shw now c i (Some f))) = lc_limits c \<and>
    lc_open (snd (submit_live_order shw now c i (Some f))) = lc_open c \<and>
    lc_state (snd (submit_live_order shw now c i (Some f))) = X_DEGRADED"
  using assms by (simp add: submit_live_order_def Let_def)

lemma internal_frame:
  assumes "live_step c l c'" and "l = Internal \<or> l = Reset"
  shows "lc_ids c' = lc_ids c \<and> lc_mode c' = lc_mode c \<and> lc_limits c' = lc_limits c \<and> lc_open c' \<le> lc_open c"
  using assms(1)
proof cases
  case (ls_refused now i b r)
  then show ?thesis using guard_refused_frame by auto
qed (use assms(2) in \<open>auto simp: evaluate_preflight_def controller_arm_def arm_from_admin_policy_def
    controller_disarm_def kill_switch_live_def record_fill_outcome_def reset_after_halt_def Let_def
    split: prod.splits if_splits\<close>)

text \<open>The client order ids that the broker has answered in a run.\<close>

fun answered :: "live_label list \<Rightarrow> string list" where
  "answered [] = []"
| "answered (Sent i True # ls) = li_client_order_id i # answered ls"
| "answered (_ # ls) = answered ls"

lemma answered_append: "answered (xs @ ys) = answered xs @ answered ys"
  by (induction xs rule: answered.induct) auto

definition run_ok :: "live_controller \<Rightarrow> live_label list \<Rightarrow> live_controller \<Rightarrow> bool" where
  "run_ok c0 ls c \<longleftrightarrow> lc_mode c = lc_mode c0 \<and> lc_limits c = lc_limits c0 \<and>
     set (lc_ids c) = set (answered ls) \<and> distinct (answered ls) \<and>
     lc_open c \<le> max 0 (hl_max_open_positions (lc_limits c0))"

lemma live_step_ok:
  assumes "live_step c l c'" and "run_ok c0 ls c"
  shows "run_ok c0 (ls @ [l]) c'"
proof (cases l)
  case (Sent i b)
  from assms(1) show ?thesis
  proof cases
    case (ls_answered now j f resp shw)
    have fresh: "li_client_order_id j \<notin> set (answered ls)" and room: "lc_open c < hl_max_open_positions (lc_limits c)"
      using guard_passed [OF ls_answered(3)] risk_check_passed [of c j] assms(2) by (simp_all add: run_ok_def)
    have f: "lc_ids c' = li_client_order_id j # lc_ids c" "lc_mode c' = lc_mode c"
      "lc_limits c' = lc_limits c" "lc_open c' \<le> lc_open c + 1"
      using submit_answered [of now c j f resp shw, OF ls_answered(3,4)] ls_answered(2) by simp_all
    have "answered (ls @ [l]) = answered ls @ [li_client_order_id j]"
      using ls_answered(1) by (simp add: answered_append)
    with fresh room f assms(2) show ?thesis by (simp add: run_ok_def)
  next
    case (ls_raised now j f e shw)
    have "answered (ls @ [l]) = answered ls" using ls_raised(1) by (simp add: answered_append)
    with submit_raised [of now c j f e shw, OF ls_raised(3,4)] ls_raised(2) assms(2) show ?thesis
      by (simp add: run_ok_def)
  qed (use Sent in auto)
next
  case Internal
  then show ?thesis
    using internal_frame [OF assms(1)] assms(2) by (simp add: run_ok_def answered_append)
next
  case Reset
  then show ?thesis
    using internal_frame [OF assms(1)] assms(2) by (simp add: run_ok_def answered_append)
qed

lemma live_run_ok:
  assumes "live_run c0 ls c" and "lc_ids c0 = []" and "lc_open c0 = 0"
  shows "run_ok c0 ls c"
  using assms(1)
proof (induction rule: live_run.induct)
  case run_start
  then show ?case using assms(2,3) by (simp add: run_ok_def)
qed (rule live_step_ok)

text \<open>C34: Over any run of a LIVE controller, whatever the broker answers or raises: an order reaches the
  broker only from an armed or monitoring controller with a fully authorized gate and an open capital
  gate, with a size inside the limit, fewer open positions, a smaller daily loss and fewer consecutive
  losses than allowed; no answered client order id is ever sent again; and the open positions never
  exceed their limit.\<close>

theorem broker_sees_only_guarded_orders:
  assumes "live_run (new_live_controller LIVE_M limits capital) ls c" and "live_step c (Sent i b) c'"
  shows "lc_state c \<in> {X_ARMED, X_MONITORING} \<and> can_submit_live (lc_auth c) \<and>
    allow_live_execution (lc_capital c) None \<and> 0 < li_size i \<and>
    li_size i \<le> hl_max_position_size (opt_get limits default_hard_limits) \<and>
    lc_open c < hl_max_open_positions (opt_get limits default_hard_limits) \<and>
    lc_daily_loss c < hl_max_daily_loss (opt_get limits default_hard_limits) \<and>
    lc_consecutive_losses c < hl_max_consecutive_losses (opt_get limits default_hard_limits) \<and>
    li_client_order_id i \<notin> set (answered ls) \<and> distinct (answered ls) \<and>
    lc_open c' \<le> hl_max_open_positions (opt_get limits default_hard_limits)"
proof -
  let ?c0 = "new_live_controller LIVE_M limits capital"
  have ok: "run_ok ?c0 ls c" by (rule live_run_ok [OF assms(1)]) (simp_all add: new_live_controller_def)
  obtain now where g: "submit_guard now c i True = None" using assms(2) by cases auto
  have "lc_mode c = LIVE_M" "lc_limits c = opt_get limits default_hard_limits"
    using ok by (simp_all add: run_ok_def new_live_controller_def)
  moreover have "lc_open c' \<le> lc_open c + 1"
    using assms(2)
  proof cases
    case (ls_answered now f resp shw)
    then show ?thesis using submit_answered [of now c i f resp shw] by auto
  next
    case (ls_raised now f e shw)
    then show ?thesis using submit_raised [of now c i f e shw] by auto
  qed
  ultimately show ?thesis
    using guard_passed [OF g] risk_check_passed [of c i] ok by (auto simp: run_ok_def)
qed

section \<open>The kill switch\<close>

lemma halted_stays:
  assumes "live_step c l c'" and "lc_state c = X_HALTED"
  shows "lc_state c' = X_HALTED \<or> l = Reset"
  using assms(1)
proof cases
  case (ls_refused now i b r)
  then show ?thesis using guard_refused_frame assms(2) by auto
next
  case (ls_answered now i f resp shw)
  then show ?thesis using guard_passed [of now c i True] assms(2) by simp
next
  case (ls_raised now i f e shw)
  then show ?thesis using guard_passed [of now c i True] assms(2) by simp
qed (use assms(2) in \<open>auto simp: evaluate_preflight_def controller_arm_def arm_from_admin_policy_def
    controller_disarm_def kill_switch_live_def record_fill_outcome_def Let_def split: if_splits\<close>)

text \<open>C35: The kill switch holds: after it, no sequence of operations without an operator's reset, not even
  arming, a passing preflight or a change of the gates, leaves the halted state, no order reaches the
  broker, and a reset needs an acknowledgement and a new preflight.\<close>

theorem kill_switch_holds:
  assumes "live_run (snd (kill_switch_live now c why)) ls c'" and "Reset \<notin> set ls"
  shows "lc_state c' = X_HALTED \<and> (\<forall>i b. Sent i b \<notin> set ls) \<and>
    (\<forall>t i b. submit_guard t c' i b \<noteq> None) \<and> lc_state (snd (reset_after_halt t' c' [])) = X_HALTED \<and>
    pr_overall (lc_preflight (snd (reset_after_halt t' c' (x # ack)))) = PF_FAIL"
proof -
  have "lc_state c' = X_HALTED \<and> (\<forall>i b. Sent i b \<notin> set ls)"
    using assms
  proof (induction rule: live_run.induct)
    case run_start
    then show ?case by (simp add: kill_switch_live_def)
  next
    case (run_step ls c l c')
    then have h: "lc_state c = X_HALTED" by auto
    have "l \<noteq> Sent i b" for i b
    proof
      assume "l = Sent i b"
      with run_step(2) obtain t where "submit_guard t c i True = None" by cases auto
      with h show False using guard_passed by fastforce
    qed
    with run_step halted_stays [OF run_step(2) h] show ?case by auto
  qed
  moreover have "submit_guard t c' i b \<noteq> None" if "lc_state c' = X_HALTED" for t i b
    using that by (simp add: submit_guard_def Let_def)
  moreover have "pr_overall (run_live_preflight [] True) = PF_FAIL" by code_simp
  ultimately show ?thesis by (auto simp: reset_after_halt_def)
qed

section \<open>The headless start\<close>

lemma first_passing_Some:
  "first_passing probes ns = Some pre \<Longrightarrow>
   \<exists>n \<in> set ns. evaluate_runtime_prechecks (probes n) = (True, pre, [])"
  by (induction ns) (auto simp: evaluate_runtime_prechecks_def Let_def split: if_splits)

lemma first_passing_None:
  "first_passing probes ns = None \<longleftrightarrow> (\<forall>n \<in> set ns. \<not> fst (evaluate_runtime_prechecks (probes n)))"
  by (induction ns) (auto split: prod.splits)

lemma prechecks_satisfied:
  "evaluate_runtime_prechecks p = (True, pre, m) \<Longrightarrow> all_satisfied pre \<and> operator_authorized pre"
  by (auto simp: evaluate_runtime_prechecks_def Let_def all_satisfied_def)

lemma preflight_all_pass:
  "pr_overall (run_live_preflight (map (\<lambda>n. (n, PF_PASS)) MANDATORY_PREFLIGHT) False) = PF_PASS"
  by code_simp

text \<open>The start of a LIVE policy whose prechecks passed.\<close>

lemma live_start:
  fixes now why s
  assumes "all_satisfied pre" and "operator_authorized pre"
  defines "c \<equiv> snd (evaluate_preflight now ((new_live_controller LIVE_M None
      (Some (authorize_from_admin_policy new_capital_gate why)))
        \<lparr>lc_auth := set_prerequisites (new_auth_gate False no_prerequisites) pre\<rparr>)
      (map (\<lambda>n. (n, PF_PASS)) MANDATORY_PREFLIGHT))"
  shows "lr_ok (fst (arm_from_admin_policy now c True s)) \<and>
    lc_state (snd (arm_from_admin_policy now c True s)) = X_ARMED \<and>
    can_submit_live (lc_auth (snd (arm_from_admin_policy now c True s))) \<and>
    pr_overall (lc_preflight (snd (arm_from_admin_policy now c True s))) = PF_PASS"
proof -
  have "lc_preflight c = run_live_preflight (map (\<lambda>n. (n, PF_PASS)) MANDATORY_PREFLIGHT) False"
    "lc_mode c = LIVE_M" "lc_state c \<noteq> X_HALTED"
    "allow_live_execution (lc_capital c) None"
    "lc_auth c = set_prerequisites (new_auth_gate False no_prerequisites) pre"
    unfolding c_def evaluate_preflight_def Let_def
    by (simp_all add: preflight_all_pass new_live_controller_def opt_get_def allow_live_execution_def
        authorize_from_admin_policy_def)
  moreover have "all_satisfied (pre\<lparr>operator_authorized := True\<rparr>)"
    using assms(1,2) by (simp add: all_satisfied_def missing_def prereq_dict_def)
  ultimately show ?thesis
    using assms(1,2)
    by (simp add: arm_from_admin_policy_def preflight_all_pass resume_from_admin_policy_def
        set_prerequisites_def recompute_def new_auth_gate_def arm_result_def can_submit_live_def
        reply_def Let_def)
qed

lemma resume_live_arms:
  assumes "all_satisfied pre" and "operator_authorized pre"
  shows "\<exists>c. rr_live (resume_live now pre) = Some c \<and> lc_state c = X_ARMED \<and>
    can_submit_live (lc_auth c) \<and> pr_overall (lc_preflight c) = PF_PASS"
proof -
  let ?a = "arm_from_admin_policy now (snd (evaluate_preflight now ((new_live_controller LIVE_M None
      (Some (authorize_from_admin_policy new_capital_gate ''admin_autonomous_policy'')))
        \<lparr>lc_auth := set_prerequisites (new_auth_gate False no_prerequisites) pre\<rparr>)
      (map (\<lambda>n. (n, PF_PASS)) MANDATORY_PREFLIGHT))) True ''autonomous_policy_resume''"
  have start: "lr_ok (fst ?a) \<and> lc_state (snd ?a) = X_ARMED \<and> can_submit_live (lc_auth (snd ?a)) \<and>
      pr_overall (lc_preflight (snd ?a)) = PF_PASS"
    using live_start [OF assms] by blast
  then have "rr_live (resume_live now pre) = Some (snd ?a)"
    unfolding resume_live_def Let_def by (cases ?a) simp
  with start show ?thesis by blast
qed

lemma default_probes_fail: "\<not> fst (evaluate_runtime_prechecks (default_probes True k))"
  by (simp add: default_probes_def all_prerequisites_def evaluate_runtime_prechecks_def missing_def
      prereq_dict_def)

text \<open>When a LIVE policy gets past the prechecks.\<close>

lemma prechecks_pass_iff:
  "(\<exists>pre. first_passing (opt_get precheck (default_probes True)) [0..<nat (n + 1)] = Some pre) \<longleftrightarrow>
   (\<exists>f k. precheck = Some f \<and> int k \<le> n \<and> fst (evaluate_runtime_prechecks (f k)))"
proof -
  have "k \<in> set [0..<nat (n + 1)] \<longleftrightarrow> int k \<le> n" for k by auto
  then show ?thesis
    using first_passing_None [of "opt_get precheck (default_probes True)" "[0..<nat (n + 1)]"]
      default_probes_fail
    by (cases precheck) (auto simp: opt_get_def)
qed

text \<open>The headless start hands out an armed LIVE controller exactly when the stored policy is enabled,
  in LIVE mode and autonomous, and one of the permitted attempts finds all prechecks true. The
  controller can then submit at once: its mandatory preflight is PASS although no check was run.\<close>

theorem headless_live_start:
  "(rr_live (run_autonomous_startup now policy precheck n) \<noteq> None) =
     (\<exists>pol f k. policy = Some pol \<and> precheck = Some f \<and> tp_autonomous_enabled pol \<and>
        tp_mode pol = ''LIVE'' \<and> tp_autonomous_live pol \<and> int k \<le> n \<and>
        fst (evaluate_runtime_prechecks (f k))) \<and>
   (case rr_live (run_autonomous_startup now policy precheck n) of
      None \<Rightarrow> True
    | Some c \<Rightarrow> lc_state c = X_ARMED \<and> can_submit_live (lc_auth c) \<and>
        pr_overall (lc_preflight c) = PF_PASS)"
proof (cases "\<exists>pol. policy = Some pol \<and> tp_autonomous_enabled pol \<and> tp_mode pol = ''LIVE'' \<and>
    tp_autonomous_live pol")
  case False
  then have "rr_live (run_autonomous_startup now policy precheck n) = None"
    by (auto simp: run_autonomous_startup_def runtime_reply_def Let_def split: option.split)
  with False show ?thesis by auto
next
  case True
  let ?pass = "first_passing (opt_get precheck (default_probes True)) [0..<nat (n + 1)]"
  have run: "rr_live (run_autonomous_startup now policy precheck n) =
      (case ?pass of None \<Rightarrow> None | Some pre \<Rightarrow> rr_live (resume_live now pre))"
    using True by (auto simp: run_autonomous_startup_def runtime_reply_def split: option.split)
  show ?thesis
  proof (cases ?pass)
    case None
    then show ?thesis using True prechecks_pass_iff [of precheck n] unfolding run by auto
  next
    case (Some pre)
    then obtain c where "rr_live (resume_live now pre) = Some c" "lc_state c = X_ARMED"
      "can_submit_live (lc_auth c)" "pr_overall (lc_preflight c) = PF_PASS"
      using first_passing_Some prechecks_satisfied resume_live_arms by meson
    then show ?thesis using True Some prechecks_pass_iff [of precheck n] unfolding run by auto
  qed
qed

section \<open>Witnesses\<close>

definition demo_live :: live_controller where
  "demo_live = new_live_controller LIVE_M None (Some (authorize_from_admin_policy new_capital_gate []))"

definition demo_live_ready :: live_controller where
  "demo_live_ready = snd (evaluate_preflight 0 (demo_live
     \<lparr>lc_auth := set_prerequisites (new_auth_gate False no_prerequisites) (all_prerequisites True)\<rparr>)
     (map (\<lambda>n. (n, PF_PASS)) MANDATORY_PREFLIGHT))"

definition demo_live_armed :: live_controller where
  "demo_live_armed = snd (controller_arm 0 demo_live_ready ''op'')"

definition demo_intent :: live_order_intent where
  "demo_intent = \<lparr>li_client_order_id = ''c1'', li_symbol = ''EURUSD'', li_side = ''buy'',
     li_size = 1/100, li_decision_id = [], li_risk_id = [], li_comment = []\<rparr>"

lemma demo_live_run: "live_run demo_live [Internal, Internal, Internal] demo_live_armed"
proof -
  have auth: "auth_step (lc_auth demo_live)
      (set_prerequisites (new_auth_gate False no_prerequisites) (all_prerequisites True))"
    using auth_set [of "lc_auth demo_live" "all_prerequisites True"]
    by (simp add: demo_live_def new_live_controller_def)
  show ?thesis
    unfolding demo_live_armed_def demo_live_ready_def
    using run_step [OF run_step [OF run_step [OF run_start ls_auth [OF auth]] ls_preflight] ls_arm]
    by simp
qed

lemma demo_guard: "submit_guard 0 demo_live_armed demo_intent True = None"
  by code_simp

theorem broker_sees_only_guarded_orders_witness:
  "can_submit_live (lc_auth demo_live_armed) \<and> li_size demo_intent \<le> 1/100 \<and>
   lc_open (snd (submit_live_order (\<lambda>_. []) 0 demo_live_armed demo_intent
     (Some (\<lambda>_. Inr (PyDict [(''ok'', PyBool True)]))))) \<le> 1"
proof -
  have "live_step demo_live_armed (Sent demo_intent True) (snd (submit_live_order (\<lambda>_. []) 0
      demo_live_armed demo_intent (Some (\<lambda>_. Inr (PyDict [(''ok'', PyBool True)])))))"
    by (rule ls_answered [OF demo_guard]) simp
  from broker_sees_only_guarded_orders [OF demo_live_run [unfolded demo_live_def] this]
  show ?thesis by (simp add: opt_get_def default_hard_limits_def)
qed

theorem kill_switch_holds_witness:
  "lc_state (snd (controller_arm 2 (snd (kill_switch_live 1 demo_live_armed ''stop'')) ''op'')) = X_HALTED"
  using kill_switch_holds [of 1 demo_live_armed "''stop''", OF run_step [OF run_start ls_arm], of 2 "''op''"]
  by auto

end
