(* ===== verification/Contract.thy ===== *)
theory Contract
  imports PyJson
begin

text \<open>
  The execution contract of the desktop program (\<open>god/execution_contract\<close>): a decision becomes an
  \<^emph>\<open>intent\<close>, the validator grades it, and the null provider answers it without ever executing
  anything.

  What the code reads from outside is gathered in one record: \<open>sha\<close> is \<open>content_hash\<close> (SHA-256 of
  the sorted JSON text), \<open>uuid4\<close> the identifiers drawn while one operation runs (by the payload they
  are drawn for), and \<open>utc\<close> the clock during that operation. Every operation takes its own record,
  so two operations may see different clocks and identifiers.
\<close>

section \<open>The surroundings\<close>

record contract_env =
  sha :: "pyval \<Rightarrow> string"
  uuid4 :: "pydict \<Rightarrow> string"
  utc :: string

text \<open>\<open>content_hash(payload)[:24]\<close>.\<close>

definition digest :: "contract_env \<Rightarrow> pydict \<Rightarrow> string" where
  "digest env p = take 24 (sha env (PyDict p))"

text \<open>\<open>a or b\<close> on optional strings: the empty string is false.\<close>

definition str_or :: "string option \<Rightarrow> string \<Rightarrow> string" where
  "str_or a b = (case a of None \<Rightarrow> b | Some s \<Rightarrow> if s = [] then b else s)"

definition opt_str :: "string option \<Rightarrow> pyval" where
  "opt_str a = (case a of None \<Rightarrow> PyNone | Some s \<Rightarrow> PyStr s)"

definition build_provenance_dict :: "contract_env \<Rightarrow> string \<Rightarrow> pydict \<Rightarrow> pydict" where
  "build_provenance_dict env origin p =
     [(''provenance_id'', PyStr (uuid4 env p)), (''content_hash'', PyStr (sha env (PyDict p))),
      (''origin'', PyStr origin)]"

lemma provenance_nonempty [simp]: "build_provenance_dict env origin p \<noteq> []"
  by (simp add: build_provenance_dict_def)

section \<open>Models\<close>

datatype intent_action = NO_ACTION | PAPER_ENTER | PAPER_EXIT

fun action_value :: "intent_action \<Rightarrow> string" where
  "action_value NO_ACTION = ''NO_ACTION''"
| "action_value PAPER_ENTER = ''PAPER_ENTER''"
| "action_value PAPER_EXIT = ''PAPER_EXIT''"

lemma action_value_inject [simp]: "action_value a = action_value b \<longleftrightarrow> a = b"
  by (cases a; cases b) simp_all

datatype intent_status =
  IS_VALID | IS_INVALID | IS_STALE | IS_BLOCKED | IS_UNKNOWN | IS_CORRUPTED

fun intent_status_value :: "intent_status \<Rightarrow> string" where
  "intent_status_value IS_VALID = ''VALID''"
| "intent_status_value IS_INVALID = ''INVALID''"
| "intent_status_value IS_STALE = ''STALE''"
| "intent_status_value IS_BLOCKED = ''BLOCKED''"
| "intent_status_value IS_UNKNOWN = ''UNKNOWN''"
| "intent_status_value IS_CORRUPTED = ''CORRUPTED''"

datatype result_status = NULL_EXECUTED | RES_SIMULATED | RES_REJECTED | RES_FAILED

definition INTENT_SCHEMA :: string where
  "INTENT_SCHEMA = ''execution-contract-5a-v1''"

record execution_intent =
  in_intent_id :: string
  in_decision_id :: string
  in_cycle_id :: string
  in_opportunity_id :: string
  in_symbol :: string
  in_strategy_ref :: "string option"
  in_decision_status :: string
  in_action :: intent_action
  in_status :: intent_status
  in_created_at :: string
  in_content_hash :: string
  in_schema_version :: string
  in_valid_until :: "string option"
  in_evidence_refs :: "string list"
  in_provenance :: "pydict option"
  in_notes :: string

record execution_result =
  er_result_id :: string
  er_intent_id :: string
  er_decision_id :: string
  er_cycle_id :: string
  er_status :: result_status
  er_provider :: string
  er_executed :: bool
  er_simulated :: bool
  er_created_at :: string
  er_content_hash :: string
  er_reason_codes :: "string list"
  er_provenance :: "pydict option"
  er_notes :: string

definition make_intent_id :: "contract_env \<Rightarrow> pydict \<Rightarrow> string" where
  "make_intent_id env p = ''intent-'' @ digest env p"

definition make_result_id :: "contract_env \<Rightarrow> pydict \<Rightarrow> string" where
  "make_result_id env p = ''eres-'' @ digest env p"

definition build_exec_provenance :: "contract_env \<Rightarrow> pydict \<Rightarrow> pydict" where
  "build_exec_provenance env p = build_provenance_dict env ''execution_contract_5a'' p"

text \<open>
  A decision as the engine reads it with \<open>getattr\<close>: a missing or false attribute is \<open>None\<close>; the
  status is the value of the enumeration, or the text of whatever stands there.
\<close>

record decision_view =
  dv_decision_id :: "string option"
  dv_cycle_id :: "string option"
  dv_opportunity_id :: "string option"
  dv_symbol :: "string option"
  dv_strategy_ref :: "string option"
  dv_status :: "string option"
  dv_evidence_refs :: "string list"

section \<open>The validator\<close>

definition ELIGIBLE :: "string list" where
  "ELIGIBLE = [''SELECTED'', ''STILL_VALID'', ''DEGRADED'']"

definition REJECT_STATUSES :: "string list" where
  "REJECT_STATUSES = [''UNKNOWN'', ''BLOCKED'', ''INVALID'', ''STALE'', ''CORRUPTED'', ''NO_LONGER_VALID'',
     ''INSUFFICIENT_EVIDENCE'', ''NO_VALID_OPPORTUNITY'']"

definition blank :: "string \<Rightarrow> bool" where
  "blank s \<longleftrightarrow> s = [] \<or> py_strip s = []"

text \<open>The dictionary that an intent's hash covers.\<close>

definition core_payload ::
  "string \<Rightarrow> string \<Rightarrow> string \<Rightarrow> string \<Rightarrow> string option \<Rightarrow> string \<Rightarrow> intent_action \<Rightarrow> string \<Rightarrow> pydict" where
  "core_payload did cid oid sy strat dstat act schema =
     [(''decision_id'', PyStr did), (''cycle_id'', PyStr cid), (''opportunity_id'', PyStr oid),
      (''symbol'', PyStr sy), (''strategy_ref'', opt_str strat), (''decision_status'', PyStr dstat),
      (''intent_action'', PyStr (action_value act)), (''schema_version'', PyStr schema)]"

definition intent_core :: "execution_intent \<Rightarrow> pydict" where
  "intent_core i = core_payload (in_decision_id i) (in_cycle_id i) (in_opportunity_id i) (in_symbol i)
     (in_strategy_ref i) (in_decision_status i) (in_action i) (in_schema_version i)"

text \<open>The part of the validator after the time checks: the decision's status.\<close>

definition grade_decision :: "execution_intent \<Rightarrow> intent_status \<times> string" where
  "grade_decision i =
     (let ds = py_upper (in_decision_status i) in
      if ds \<in> set REJECT_STATUSES \<or> ds = ''UNKNOWN'' then
        if ds = ''BLOCKED'' then (IS_BLOCKED, ''decision_blocked'')
        else if ds = ''STALE'' then (IS_STALE, ''decision_stale'')
        else if ds = ''CORRUPTED'' then (IS_CORRUPTED, ''decision_corrupted'')
        else if ds = ''UNKNOWN'' \<or> ds = ''INSUFFICIENT_EVIDENCE'' then (IS_UNKNOWN, ''decision_unknown'')
        else (IS_INVALID, ''decision_status='' @ ds)
      else if ds \<notin> set ELIGIBLE \<and> ds \<noteq> [] then (IS_BLOCKED, ''not_eligible:'' @ ds)
      else if in_status i = IS_CORRUPTED then (IS_CORRUPTED, ''intent_marked_corrupted'')
      else (IS_VALID, ''ok''))"

definition validate_intent ::
  "contract_env \<Rightarrow> execution_intent \<Rightarrow> string option \<Rightarrow> intent_status \<times> string" where
  "validate_intent env i now_iso =
     (if blank (in_decision_id i) then (IS_INVALID, ''missing_decision_id'')
      else if blank (in_cycle_id i) then (IS_INVALID, ''missing_cycle_id'')
      else if blank (in_opportunity_id i) then (IS_INVALID, ''missing_opportunity_id'')
      else if blank (in_symbol i) then (IS_INVALID, ''missing_symbol'')
      else if in_content_hash i \<noteq> [] \<and> in_content_hash i \<noteq> sha env (PyDict (intent_core i))
        then (IS_CORRUPTED, ''hash_mismatch'')
      else if opt_get (in_provenance i) [] = [] then (IS_INVALID, ''missing_provenance'')
      else if in_created_at i = [] then (IS_INVALID, ''missing_created_at'')
      else case now_iso of
             None \<Rightarrow> grade_decision i
           | Some now \<Rightarrow>
               if now < in_created_at i then (IS_INVALID, ''future_created_at'')
               else if opt_get (in_valid_until i) [] \<noteq> [] \<and> opt_get (in_valid_until i) [] < now
                 then (IS_STALE, ''past_valid_until'')
               else grade_decision i)"

definition validate ::
  "contract_env \<Rightarrow> execution_intent \<Rightarrow> string option \<Rightarrow> bool \<times> intent_status \<times> string" where
  "validate env i now_iso =
     (let (status, reason) = validate_intent env i now_iso in (status = IS_VALID, status, reason))"

lemma grade_decision_valid:
  "fst (grade_decision i) = IS_VALID \<longleftrightarrow>
     (py_upper (in_decision_status i) \<in> set ELIGIBLE \<or> in_decision_status i = []) \<and> in_status i \<noteq> IS_CORRUPTED"
  by (auto simp: grade_decision_def Let_def ELIGIBLE_def REJECT_STATUSES_def py_upper_def)

lemma validate_intent_valid:
  "fst (validate_intent env i now) = IS_VALID \<longleftrightarrow>
     \<not> blank (in_decision_id i) \<and> \<not> blank (in_cycle_id i) \<and> \<not> blank (in_opportunity_id i) \<and>
     \<not> blank (in_symbol i) \<and>
     (in_content_hash i = [] \<or> in_content_hash i = sha env (PyDict (intent_core i))) \<and>
     opt_get (in_provenance i) [] \<noteq> [] \<and> in_created_at i \<noteq> [] \<and>
     (case now of None \<Rightarrow> True | Some t \<Rightarrow> in_created_at i \<le> t \<and>
        (opt_get (in_valid_until i) [] = [] \<or> t \<le> opt_get (in_valid_until i) [])) \<and>
     (py_upper (in_decision_status i) \<in> set ELIGIBLE \<or> in_decision_status i = []) \<and>
     in_status i \<noteq> IS_CORRUPTED"
  by (cases now) (auto simp: validate_intent_def grade_decision_valid not_less)

lemma validate_simps [simp]:
  "fst (validate env i now) \<longleftrightarrow> fst (validate_intent env i now) = IS_VALID"
  "fst (snd (validate env i now)) = fst (validate_intent env i now)"
  by (simp_all add: validate_def split: prod.splits)

section \<open>The null provider\<close>

definition null_reject :: "contract_env \<Rightarrow> execution_intent \<Rightarrow> execution_result" where
  "null_reject env i =
     (let p = [(''intent_id'', PyStr (in_intent_id i)), (''status'', PyStr ''REJECTED''),
               (''provider'', PyStr ''null'')] in
      \<lparr>er_result_id = make_result_id env p, er_intent_id = in_intent_id i,
       er_decision_id = in_decision_id i, er_cycle_id = in_cycle_id i, er_status = RES_REJECTED,
       er_provider = ''null'', er_executed = False, er_simulated = True, er_created_at = utc env,
       er_content_hash = sha env (PyDict p), er_reason_codes = [''intent_not_valid''],
       er_provenance = Some (build_exec_provenance env p), er_notes = ''rejected_non_valid_intent''\<rparr>)"

definition null_accept :: "contract_env \<Rightarrow> execution_intent \<Rightarrow> execution_result" where
  "null_accept env i =
     (let p = [(''intent_id'', PyStr (in_intent_id i)), (''decision_id'', PyStr (in_decision_id i)),
               (''cycle_id'', PyStr (in_cycle_id i)), (''status'', PyStr ''NULL_EXECUTED''),
               (''provider'', PyStr ''null''), (''executed'', PyBool False), (''simulated'', PyBool True)] in
      \<lparr>er_result_id = make_result_id env p, er_intent_id = in_intent_id i,
       er_decision_id = in_decision_id i, er_cycle_id = in_cycle_id i, er_status = NULL_EXECUTED,
       er_provider = ''null'', er_executed = False, er_simulated = True, er_created_at = utc env,
       er_content_hash = sha env (PyDict p), er_reason_codes = [''null_provider'', ''no_real_execution''],
       er_provenance = Some (build_exec_provenance env p),
       er_notes = ''SIMULATED_NULL_EXECUTION'' @ '' - no broker, no order, no position''\<rparr>)"

type_synonym result_cache = "(string, execution_result) dict"

definition null_execute ::
  "contract_env \<Rightarrow> result_cache \<Rightarrow> execution_intent \<Rightarrow> execution_result \<times> result_cache" where
  "null_execute env c i =
     (case map_of c (in_intent_id i) of
        Some r \<Rightarrow> (r, c)
      | None \<Rightarrow>
          let r = (if in_status i \<noteq> IS_VALID then null_reject env i else null_accept env i) in
          (r, AList.update (in_intent_id i) r c))"

section \<open>The engine\<close>

record contract_engine =
  ce_intents :: "(string, execution_intent) dict"
  ce_results :: result_cache
  ce_provider :: result_cache

definition new_contract_engine :: contract_engine where
  "new_contract_engine = \<lparr>ce_intents = [], ce_results = [], ce_provider = []\<rparr>"

definition decision_core :: "decision_view \<Rightarrow> intent_action \<Rightarrow> pydict" where
  "decision_core d act =
     (let did = str_or (dv_decision_id d) [] in
      core_payload did (str_or (dv_cycle_id d) []) (str_or (dv_opportunity_id d) did)
        (str_or (dv_symbol d) []) (dv_strategy_ref d) (str_or (dv_status d) []) act INTENT_SCHEMA)"

definition fresh_intent ::
  "contract_env \<Rightarrow> decision_view \<Rightarrow> intent_action \<Rightarrow> string option \<Rightarrow> execution_intent" where
  "fresh_intent env d act now_iso =
     (let did = str_or (dv_decision_id d) []; core = decision_core d act in
      \<lparr>in_intent_id = make_intent_id env core, in_decision_id = did,
       in_cycle_id = str_or (dv_cycle_id d) [], in_opportunity_id = str_or (dv_opportunity_id d) did,
       in_symbol = str_or (dv_symbol d) [], in_strategy_ref = dv_strategy_ref d,
       in_decision_status = str_or (dv_status d) [], in_action = act, in_status = IS_VALID,
       in_created_at = str_or now_iso (utc env), in_content_hash = sha env (PyDict core),
       in_schema_version = INTENT_SCHEMA, in_valid_until = None,
       in_evidence_refs = take 50 (dv_evidence_refs d),
       in_provenance = Some (build_exec_provenance env core), in_notes = ''paper_intent_only''\<rparr>)"

definition create_intent ::
  "contract_env \<Rightarrow> contract_engine \<Rightarrow> decision_view \<Rightarrow> intent_action \<Rightarrow> string option \<Rightarrow>
     execution_intent \<times> contract_engine" where
  "create_intent env ce d act now_iso =
     (let iid = make_intent_id env (decision_core d act) in
      case map_of (ce_intents ce) iid of
        Some i \<Rightarrow> (i, ce)
      | None \<Rightarrow> let i = fresh_intent env d act now_iso in
          (i, ce\<lparr>ce_intents := AList.update iid i (ce_intents ce)\<rparr>))"

definition provide ::
  "contract_env \<Rightarrow> contract_engine \<Rightarrow> execution_intent \<Rightarrow> execution_result \<times> contract_engine" where
  "provide env ce i =
     (case map_of (ce_results ce) (in_intent_id i) of
        Some r \<Rightarrow> (r, ce)
      | None \<Rightarrow>
          let (r, c) = null_execute env (ce_provider ce) i in
          (r, ce\<lparr>ce_results := AList.update (in_intent_id i) r (ce_results ce), ce_provider := c\<rparr>))"

definition execute_shadow ::
  "contract_env \<Rightarrow> contract_engine \<Rightarrow> decision_view \<Rightarrow> intent_action \<Rightarrow> string option \<Rightarrow>
     execution_result \<times> contract_engine" where
  "execute_shadow env ce d act now_iso =
     (let (i, ce') = create_intent env ce d act now_iso;
          (ok, status, reason) = validate env i now_iso in
      if \<not> ok then provide env ce' (i\<lparr>in_status := status, in_notes := reason\<rparr>)
      else provide env ce' i)"

section \<open>Facts\<close>

text \<open>Every result the engine holds says that nothing was executed.\<close>

definition simulated_only :: "execution_result \<Rightarrow> bool" where
  "simulated_only r \<longleftrightarrow> \<not> er_executed r \<and> er_simulated r \<and>
     er_status r \<in> {NULL_EXECUTED, RES_REJECTED} \<and> er_provider r = ''null''"

definition contract_inv :: "contract_engine \<Rightarrow> bool" where
  "contract_inv ce \<longleftrightarrow> (\<forall>r \<in> snd ` set (ce_results ce) \<union> snd ` set (ce_provider ce). simulated_only r)"

lemma null_results_simulated [simp]:
  "simulated_only (null_reject env i)" "simulated_only (null_accept env i)"
  by (simp_all add: simulated_only_def null_reject_def null_accept_def Let_def)

lemma snd_update: "snd ` set (AList.update k v d) \<subseteq> insert v (snd ` set d)"
  by (induction d) auto

lemma map_of_snd: "map_of d k = Some v \<Longrightarrow> v \<in> snd ` set d"
  by (force dest: map_of_SomeD)

lemma update_all: "\<forall>x \<in> snd ` set d. P x \<Longrightarrow> P v \<Longrightarrow> \<forall>x \<in> snd ` set (AList.update k v d). P x"
  using snd_update [of k v d] by blast

lemma map_of_all: "\<forall>x \<in> snd ` set d. P x \<Longrightarrow> map_of d k = Some v \<Longrightarrow> P v"
  using map_of_snd by metis

lemma null_execute_simulated:
  assumes "null_execute env c i = (r, c')" and c: "\<forall>r \<in> snd ` set c. simulated_only r"
  shows "simulated_only r \<and> (\<forall>r \<in> snd ` set c'. simulated_only r)"
proof (cases "map_of c (in_intent_id i)")
  case (Some x)
  then show ?thesis using assms(1) map_of_all [OF c Some] c by (simp add: null_execute_def)
next
  case None
  then have "simulated_only r" "c' = AList.update (in_intent_id i) r c"
    using assms(1) by (auto simp: null_execute_def Let_def split: if_splits)
  with update_all [OF c this(1)] show ?thesis by simp
qed

lemma provide_simulated:
  assumes "provide env ce i = (r, ce')" and "contract_inv ce"
  shows "simulated_only r \<and> contract_inv ce'"
proof (cases "map_of (ce_results ce) (in_intent_id i)")
  case (Some x)
  then show ?thesis using assms by (auto simp: provide_def contract_inv_def dest: map_of_snd)
next
  case None
  obtain c where c: "null_execute env (ce_provider ce) i = (r, c)"
      "ce' = ce\<lparr>ce_results := AList.update (in_intent_id i) r (ce_results ce), ce_provider := c\<rparr>"
    using assms(1) None by (auto simp: provide_def Let_def split: prod.splits)
  have "\<forall>r \<in> snd ` set (ce_provider ce). simulated_only r"
    using assms(2) by (auto simp: contract_inv_def)
  note n = null_execute_simulated [OF c(1) this]
  have "\<forall>r \<in> snd ` set (ce_results ce). simulated_only r"
    using assms(2) by (auto simp: contract_inv_def)
  then have "\<forall>x \<in> snd ` set (AList.update (in_intent_id i) r (ce_results ce)). simulated_only x"
    using n by (intro update_all) simp_all
  with n c(2) show ?thesis by (auto simp: contract_inv_def)
qed

lemma create_intent_results:
  "create_intent env ce d act now = (i, ce') \<Longrightarrow> ce_results ce' = ce_results ce \<and> ce_provider ce' = ce_provider ce"
  by (auto simp: create_intent_def Let_def split: option.splits)

lemma create_intent_inv:
  assumes "create_intent env ce d act now = (i, ce')"
  shows "contract_inv ce' = contract_inv ce"
  using create_intent_results [OF assms] by (simp add: contract_inv_def)

lemma execute_shadow_provide:
  obtains i ce' i' where "create_intent env ce d act now = (i, ce')"
    "execute_shadow env ce d act now = provide env ce' i'" "in_intent_id i' = in_intent_id i"
    "fst (validate_intent env i now) = IS_VALID \<Longrightarrow> i' = i"
    "fst (validate_intent env i now) \<noteq> IS_VALID \<Longrightarrow> in_status i' \<noteq> IS_VALID"
proof -
  obtain i ce' where i: "create_intent env ce d act now = (i, ce')" by fastforce
  obtain status reason where v: "validate_intent env i now = (status, reason)" by fastforce
  show thesis
  proof (cases "status = IS_VALID")
    case True
    with i v show thesis by (intro that [of i ce' i]) (simp_all add: execute_shadow_def validate_def)
  next
    case False
    with i v show thesis
      by (intro that [of i ce' "i\<lparr>in_status := status, in_notes := reason\<rparr>"])
        (simp_all add: execute_shadow_def validate_def)
  qed
qed

lemma execute_shadow_simulated:
  assumes "execute_shadow env ce d act now = (r, ce')" and "contract_inv ce"
  shows "simulated_only r \<and> contract_inv ce'"
proof -
  obtain i ce1 i' where 1: "create_intent env ce d act now = (i, ce1)"
      "execute_shadow env ce d act now = provide env ce1 i'"
    by (rule execute_shadow_provide)
  with assms create_intent_inv [OF 1(1)] show ?thesis using provide_simulated [of env ce1 i' r ce'] by simp
qed

text \<open>The answer given first for an intent is given for ever.\<close>

lemma provide_sticky:
  "map_of (ce_results ce) (in_intent_id i) = Some r \<Longrightarrow> provide env ce i = (r, ce)"
  by (simp add: provide_def)

lemma provide_records:
  "provide env ce i = (r, ce') \<Longrightarrow> map_of (ce_results ce') (in_intent_id i) = Some r"
  by (auto simp: provide_def Let_def split: option.splits prod.splits)

lemma provide_intents: "provide env ce i = (r, ce') \<Longrightarrow> ce_intents ce' = ce_intents ce"
  by (auto simp: provide_def Let_def split: option.splits prod.splits)

end
