(* ===== verification/PaperSim.thy ===== *)
theory PaperSim
  imports Contract
begin

text \<open>
  The paper simulator of the desktop program (\<open>god/paper\<close>): executions and fills, the bounded store of
  executions, the fill from the last observed price, the simulation engine, and the reconciliation of an
  execution with its intent.

  Observations are the untyped dictionaries the code reads, so an access of the wrong shape is the
  exception Python raises (\<open>py_exc\<close>). Timestamps that are themselves lists are not modelled (comparing
  them counts as a \<open>TypeError\<close>); a price that is not a number (NaN) does not exist here.
\<close>

section \<open>Bounded stores\<close>

text \<open>
  Three classes keep a dictionary next to the list of its keys in order of insertion, and drop the
  oldest keys when the list grows past a maximum.
\<close>

record 'v bstore =
  entries :: "(string, 'v) dict"
  order :: "string list"

definition empty_store :: "'v bstore" where
  "empty_store = \<lparr>entries = [], order = []\<rparr>"

definition bget :: "'v bstore \<Rightarrow> string \<Rightarrow> 'v option" where
  "bget s k = map_of (entries s) k"

text \<open>\<open>while len(order) > m: entries.pop(order.pop(0), None)\<close>\<close>

fun evict :: "nat \<Rightarrow> (string, 'v) dict \<Rightarrow> string list \<Rightarrow> 'v bstore" where
  "evict m es [] = \<lparr>entries = es, order = []\<rparr>"
| "evict m es (k # ks) =
     (if m < length (k # ks) then evict m (AList.delete k es) ks
      else \<lparr>entries = es, order = k # ks\<rparr>)"

text \<open>Storing: the entry is set, the key appended if it is new, the oldest entries dropped.\<close>

definition bput :: "nat \<Rightarrow> string \<Rightarrow> 'v \<Rightarrow> 'v bstore \<Rightarrow> 'v bstore" where
  "bput m k v s = evict m (AList.update k v (entries s))
     (if k \<in> set (order s) then order s else order s @ [k])"

definition bstore_inv :: "nat \<Rightarrow> 'v bstore \<Rightarrow> bool" where
  "bstore_inv m s \<longleftrightarrow> distinct (order s) \<and> set (order s) = fst ` set (entries s) \<and>
     length (order s) \<le> m \<and> distinct (map fst (entries s))"

lemma evict_order: "order (evict m es ks) = drop (length ks - m) ks"
  by (induction m es ks rule: evict.induct) (auto simp: Suc_diff_le)

lemma evict_get:
  "distinct ks \<Longrightarrow> map_of (entries (evict m es ks)) k =
     (if k \<in> set (take (length ks - m) ks) then None else map_of es k)"
proof (induction m es ks rule: evict.induct)
  case (2 m es x ks)
  then show ?case by (auto simp: Suc_diff_le AList.delete_conv' dest: in_set_takeD)
qed simp

lemma evict_keys:
  "distinct ks \<Longrightarrow> set ks = fst ` set es \<Longrightarrow> distinct (map fst es) \<Longrightarrow>
     set (order (evict m es ks)) = fst ` set (entries (evict m es ks)) \<and>
     distinct (map fst (entries (evict m es ks)))"
proof (induction m es ks rule: evict.induct)
  case (2 m es x ks)
  have "fst ` set (AList.delete x es) = set (removeAll x (map fst es))"
    by (metis AList.delete_keys set_map)
  then have "set ks = fst ` set (AList.delete x es)" "distinct (map fst (AList.delete x es))"
    using 2(2-4) by (auto simp: AList.distinct_delete)
  with 2 show ?case by simp
qed simp

lemma evict_values: "snd ` set (entries (evict m es ks)) \<subseteq> snd ` set es"
proof (induction m es ks rule: evict.induct)
  case (2 m es x ks)
  have "snd ` set (AList.delete x es) \<subseteq> snd ` set es" by (auto simp: AList.delete_eq)
  with 2 show ?case by (auto dest: subset_trans)
qed simp

lemma bput_inv:
  assumes "bstore_inv m s"
  shows "bstore_inv m (bput m k v s)"
proof -
  let ?ks = "if k \<in> set (order s) then order s else order s @ [k]"
  have "distinct ?ks" "set ?ks = fst ` set (AList.update k v (entries s))"
    "distinct (map fst (AList.update k v (entries s)))"
    using assms by (auto simp: bstore_inv_def AList.dom_update AList.distinct_update)
  note e = evict_keys [OF this, of m]
  then show ?thesis
    using \<open>distinct ?ks\<close> by (simp add: bput_def bstore_inv_def evict_order)
qed

text \<open>What is stored can be read, unless the maximum is zero; other keys keep their entry or lose it.\<close>

lemma bput_get:
  assumes "bstore_inv m s" and "0 < m"
  shows "bget (bput m k v s) k = Some v"
proof (cases "k \<in> set (order s)")
  case True
  then show ?thesis using assms by (auto simp: bget_def bput_def evict_get bstore_inv_def)
next
  case False
  have "k \<notin> set (take (Suc (length (order s)) - m) (order s @ [k]))"
    using assms False by (auto simp: bstore_inv_def dest: in_set_takeD)
  then show ?thesis using assms False by (auto simp: bget_def bput_def evict_get bstore_inv_def)
qed

lemma bput_other:
  assumes "bstore_inv m s" and "j \<noteq> k"
  shows "bget (bput m k v s) j = bget s j \<or> bget (bput m k v s) j = None"
  using assms by (auto simp: bget_def bput_def evict_get bstore_inv_def)

lemma bput_entry:
  assumes "bstore_inv m s" and "bget (bput m k v s) j = Some x"
  shows "j = k \<and> x = v \<or> bget s j = Some x"
proof (cases "j = k")
  case True
  then show ?thesis
    using assms by (auto simp: bget_def bput_def evict_get bstore_inv_def split: if_splits)
next
  case False
  then show ?thesis using bput_other [OF assms(1) False, of v] assms(2) by auto
qed

lemma bput_values: "snd ` set (entries (bput m k v s)) \<subseteq> insert v (snd ` set (entries s))"
proof -
  have "snd ` set (entries (evict m (AList.update k v (entries s)) ks)) \<subseteq> insert v (snd ` set (entries s))"
    for ks
    using evict_values snd_update by (rule subset_trans)
  then show ?thesis unfolding bput_def .
qed

lemma bget_values: "bget s k = Some v \<Longrightarrow> v \<in> snd ` set (entries s)"
  by (simp add: bget_def map_of_snd)

section \<open>Models\<close>

datatype paper_status =
  PS_RECEIVED | PS_VALIDATED | PAPER_SIMULATED | PAPER_REJECTED | PAPER_FAILED

fun paper_status_value :: "paper_status \<Rightarrow> string" where
  "paper_status_value PS_RECEIVED = ''RECEIVED''"
| "paper_status_value PS_VALIDATED = ''VALIDATED''"
| "paper_status_value PAPER_SIMULATED = ''PAPER_SIMULATED''"
| "paper_status_value PAPER_REJECTED = ''PAPER_REJECTED''"
| "paper_status_value PAPER_FAILED = ''PAPER_FAILED''"

definition PAPER_SCHEMA :: string where
  "PAPER_SCHEMA = ''paper-5b-v1''"

record paper_fill =
  pf_fill_id :: string
  pf_execution_id :: string
  pf_symbol :: string
  pf_reference_price :: "flt option"
  pf_simulated_at :: string
  pf_content_hash :: string
  pf_schema_version :: string
  pf_snapshot_id :: "string option"
  pf_provenance :: "pydict option"
  pf_notes :: string

record paper_execution =
  pe_id :: string
  pe_intent_id :: string
  pe_decision_id :: string
  pe_cycle_id :: string
  pe_symbol :: string
  pe_action :: string
  pe_status :: paper_status
  pe_simulated_at :: string
  pe_content_hash :: string
  pe_schema_version :: string
  pe_fill :: "paper_fill option"
  pe_provenance :: "pydict option"
  pe_reason_codes :: "string list"
  pe_notes :: string

definition make_paper_id :: "contract_env \<Rightarrow> pydict \<Rightarrow> string" where
  "make_paper_id env p = ''paper-'' @ digest env p"

definition make_fill_id :: "contract_env \<Rightarrow> pydict \<Rightarrow> string" where
  "make_fill_id env p = ''pfill-'' @ digest env p"

definition build_paper_provenance :: "contract_env \<Rightarrow> pydict \<Rightarrow> pydict" where
  "build_paper_provenance env p = build_provenance_dict env ''paper_5b'' p"

lemma paper_provenance_nonempty [simp]: "build_paper_provenance env p \<noteq> []"
  by (simp add: build_paper_provenance_def)

section \<open>The store of executions\<close>

record paper_state =
  ps_max :: nat
  ps_store :: "paper_execution bstore"

definition new_paper_state :: "nat \<Rightarrow> paper_state" where
  "new_paper_state m = \<lparr>ps_max = m, ps_store = empty_store\<rparr>"

definition state_get :: "paper_state \<Rightarrow> string \<Rightarrow> paper_execution option" where
  "state_get ps k = bget (ps_store ps) k"

definition state_put :: "paper_state \<Rightarrow> paper_execution \<Rightarrow> paper_execution \<times> paper_state" where
  "state_put ps e =
     (case state_get ps (pe_id e) of
        Some old \<Rightarrow> (old, ps)
      | None \<Rightarrow> (e, ps\<lparr>ps_store := bput (ps_max ps) (pe_id e) e (ps_store ps)\<rparr>))"

definition state_recent :: "paper_state \<Rightarrow> int \<Rightarrow> paper_execution list" where
  "state_recent ps n = List.map_filter (state_get ps) (slice_from (order (ps_store ps)) (- n))"

definition count_simulated :: "paper_state \<Rightarrow> nat" where
  "count_simulated ps = length (filter (\<lambda>(_, e). pe_status e = PAPER_SIMULATED) (entries (ps_store ps)))"

section \<open>The fill\<close>

text \<open>\<open>a < b\<close> on values; comparing values of different kinds raises.\<close>

fun py_num :: "pyval \<Rightarrow> flt option" where
  "py_num (PyNum x) = Some x"
| "py_num (PyBool b) = Some (if b then 1 else 0)"
| "py_num _ = None"

definition py_less :: "pyval \<Rightarrow> pyval \<Rightarrow> py_exc + bool" where
  "py_less a b =
     (case (a, b) of
        (PyStr x, PyStr y) \<Rightarrow> Inr (x < y)
      | _ \<Rightarrow> (case (py_num a, py_num b) of (Some x, Some y) \<Rightarrow> Inr (x < y) | _ \<Rightarrow> Inl TypeE))"

text \<open>The elements of a sequence, and \<open>v[-1]\<close>.\<close>

fun elements :: "pyval \<Rightarrow> pyval list option" where
  "elements (PyList xs) = Some xs"
| "elements (PyStr s) = Some (map (\<lambda>c. PyStr [c]) s)"
| "elements _ = None"

definition last_item :: "pyval \<Rightarrow> py_exc + pyval" where
  "last_item v =
     (case v of
        PyDict _ \<Rightarrow> Inl KeyE
      | _ \<Rightarrow> (case elements v of Some xs \<Rightarrow> if xs = [] then Inl ValueE else Inr (last xs) | None \<Rightarrow> Inl TypeE))"

fun chronological :: "pyval list \<Rightarrow> py_exc + bool" where
  "chronological (a # b # ts) =
     bindE (py_less b a) (\<lambda>less. if less then Inr False else chronological (b # ts))"
| "chronological _ = Inr True"

text \<open>The time checks, made only when timestamps and a current time are given.\<close>

definition timestamp_check :: "pyval \<Rightarrow> string option \<Rightarrow> py_exc + string option" where
  "timestamp_check timestamps now_iso =
     (if \<not> truthy timestamps \<or> opt_get now_iso [] = [] then Inr None
      else bindE (last_item timestamps) (\<lambda>last_ts.
           bindE (if truthy last_ts then py_less (PyStr (opt_get now_iso [])) last_ts else Inr False)
             (\<lambda>future.
               if future then Inr (Some ''future_timestamp'')
               else case elements timestamps of
                      None \<Rightarrow> Inl TypeE
                    | Some ts \<Rightarrow> bindE (chronological ts)
                        (\<lambda>ok. Inr (if ok then None else Some ''chronology_violation'')))))"

definition last_price :: "(string \<Rightarrow> flt option) \<Rightarrow> pyval \<Rightarrow> py_exc + flt option \<times> string" where
  "last_price parse vals =
     (case bindE (last_item vals) (to_float parse) of
        Inr price \<Rightarrow> Inr (Some price, ''ok'')
      | Inl e \<Rightarrow> if e = TypeE \<or> e = ValueE then Inr (None, ''non_numeric_price'') else Inl e)"

text \<open>The observation of a symbol: under its name, under its name in capitals, or the whole.\<close>

definition observation_of :: "pydict \<Rightarrow> string \<Rightarrow> pyval" where
  "observation_of m sy =
     (let obs = py_or (dget m sy) (dget m (py_upper sy)) in
      if obs = PyNone \<and> map_of m ''values'' \<noteq> None then PyDict m else obs)"

definition extract_reference_price ::
  "(string \<Rightarrow> flt option) \<Rightarrow> pydict option \<Rightarrow> string \<Rightarrow> string option \<Rightarrow> py_exc + flt option \<times> string" where
  "extract_reference_price parse obs sy now_iso =
     (if opt_get obs [] = [] then Inr (None, ''missing_market_observation'')
      else case observation_of (opt_get obs []) sy of
             PyDict d \<Rightarrow>
               (let vals = py_or (dget d ''values'') (dget d ''closes'') in
                if \<not> truthy vals then Inr (None, ''empty_values'')
                else bindE (timestamp_check (dget d ''timestamps'') now_iso) (\<lambda>bad.
                     case bad of Some why \<Rightarrow> Inr (None, why) | None \<Rightarrow> last_price parse vals))
           | _ \<Rightarrow> Inr (None, ''malformed_observation''))"

definition fill_payload :: "string \<Rightarrow> string \<Rightarrow> flt \<Rightarrow> string option \<Rightarrow> pydict" where
  "fill_payload pid sy price snap =
     [(''paper_execution_id'', PyStr pid), (''symbol'', PyStr sy), (''reference_price'', PyNum price),
      (''snapshot_id'', PyStr (opt_get snap []))]"

definition simulate_fill ::
  "contract_env \<Rightarrow> (string \<Rightarrow> flt option) \<Rightarrow> string \<Rightarrow> string \<Rightarrow> pydict option \<Rightarrow> string \<Rightarrow> string option \<Rightarrow>
     string option \<Rightarrow> py_exc + paper_fill option \<times> string" where
  "simulate_fill env parse pid sy obs at_iso snap now_iso =
     bindE (extract_reference_price parse obs sy now_iso) (\<lambda>(price, reason).
       case price of
         None \<Rightarrow> Inr (None, reason)
       | Some p \<Rightarrow>
           let payload = fill_payload pid sy p snap in
           Inr (Some \<lparr>pf_fill_id = make_fill_id env payload, pf_execution_id = pid, pf_symbol = sy,
                  pf_reference_price = Some p, pf_simulated_at = at_iso,
                  pf_content_hash = sha env (PyDict payload), pf_schema_version = PAPER_SCHEMA,
                  pf_snapshot_id = snap, pf_provenance = Some (build_paper_provenance env payload),
                  pf_notes = ''reference_last_close_only''\<rparr>, ''ok''))"

text \<open>A fill has the price of the observation: no price is invented.\<close>

lemma simulate_fill_price:
  assumes "simulate_fill env parse pid sy obs at_iso snap now = Inr (Some f, why)"
  shows "\<exists>p. pf_reference_price f = Some p \<and>
     extract_reference_price parse obs sy now = Inr (Some p, ''ok'') \<and> pf_execution_id f = pid \<and>
     pf_simulated_at f = at_iso"
proof -
  obtain p r where x: "extract_reference_price parse obs sy now = Inr (Some p, r)"
    "pf_reference_price f = Some p" "pf_execution_id f = pid" "pf_simulated_at f = at_iso"
    using assms by (auto simp: simulate_fill_def bindE_Inr Let_def split: option.splits)
  moreover have "r = ''ok''"
    using x(1) by (auto simp: extract_reference_price_def last_price_def bindE_Inr Let_def
        split: if_splits pyval.splits option.splits sum.splits)
  ultimately show ?thesis by auto
qed

section \<open>The simulation engine\<close>

definition exec_payload :: "string \<Rightarrow> string \<Rightarrow> string \<Rightarrow> paper_status \<Rightarrow> string \<Rightarrow> pydict" where
  "exec_payload pid iid did st fid =
     [(''paper_execution_id'', PyStr pid), (''intent_id'', PyStr iid), (''decision_id'', PyStr did),
      (''status'', PyStr (paper_status_value st)), (''fill_id'', PyStr fid)]"

definition reject_payload :: "string \<Rightarrow> string \<Rightarrow> paper_status \<Rightarrow> string list \<Rightarrow> pydict" where
  "reject_payload pid iid st reasons =
     [(''paper_execution_id'', PyStr pid), (''intent_id'', PyStr iid),
      (''status'', PyStr (paper_status_value st)), (''reasons'', PyList (map PyStr reasons))]"

definition rejected_execution ::
  "contract_env \<Rightarrow> string \<Rightarrow> execution_intent \<Rightarrow> string \<Rightarrow> string list \<Rightarrow> paper_status \<Rightarrow> paper_execution" where
  "rejected_execution env pid i now reasons st =
     (let payload = reject_payload pid (in_intent_id i) st reasons in
      \<lparr>pe_id = pid, pe_intent_id = in_intent_id i, pe_decision_id = in_decision_id i,
       pe_cycle_id = in_cycle_id i, pe_symbol = in_symbol i, pe_action = action_value (in_action i),
       pe_status = st, pe_simulated_at = now, pe_content_hash = sha env (PyDict payload),
       pe_schema_version = PAPER_SCHEMA, pe_fill = None,
       pe_provenance = Some (build_paper_provenance env payload), pe_reason_codes = reasons,
       pe_notes = ''paper_rejected''\<rparr>)"

definition paper_reject ::
  "contract_env \<Rightarrow> paper_state \<Rightarrow> string \<Rightarrow> execution_intent \<Rightarrow> string \<Rightarrow> string list \<Rightarrow> paper_status \<Rightarrow>
     paper_execution \<times> paper_state" where
  "paper_reject env ps pid i now reasons st =
     (case state_get ps pid of
        Some old \<Rightarrow> (old, ps)
      | None \<Rightarrow> state_put ps (rejected_execution env pid i now reasons st))"

definition filled_execution ::
  "contract_env \<Rightarrow> string \<Rightarrow> execution_intent \<Rightarrow> string \<Rightarrow> paper_fill \<Rightarrow> paper_execution" where
  "filled_execution env pid i now f =
     (let payload = exec_payload pid (in_intent_id i) (in_decision_id i) PAPER_SIMULATED (pf_fill_id f) in
      \<lparr>pe_id = pid, pe_intent_id = in_intent_id i, pe_decision_id = in_decision_id i,
       pe_cycle_id = in_cycle_id i, pe_symbol = in_symbol i, pe_action = action_value (in_action i),
       pe_status = PAPER_SIMULATED, pe_simulated_at = now,
       pe_content_hash = sha env (PyDict payload), pe_schema_version = PAPER_SCHEMA, pe_fill = Some f,
       pe_provenance = Some (build_paper_provenance env payload), pe_reason_codes = [''paper_simulated''],
       pe_notes = ''PAPER_SIMULATION_ONLY - not live execution''\<rparr>)"

text \<open>The identity of a simulation: the intent, the snapshot and, when present, the last value.\<close>

definition paper_key ::
  "execution_intent \<Rightarrow> pydict option \<Rightarrow> string option \<Rightarrow> py_exc + pydict" where
  "paper_key i obs snap =
     (let key = [(''intent_id'', PyStr (in_intent_id i)), (''snapshot_id'', PyStr (opt_get snap [])),
                 (''schema_version'', PyStr PAPER_SCHEMA), (''symbol'', PyStr (in_symbol i)),
                 (''action'', PyStr (action_value (in_action i)))] in
      if opt_get obs [] = [] then Inr key
      else case py_or (dget (opt_get obs []) (in_symbol i)) (dget (opt_get obs []) (py_upper (in_symbol i))) of
             PyDict d \<Rightarrow>
               if truthy (dget d ''values'')
               then bindE (last_item (dget d ''values'')) (\<lambda>v. Inr (key @ [(''last_value'', v)]))
               else Inr key
           | _ \<Rightarrow> Inr key)"

definition simulate_new ::
  "contract_env \<Rightarrow> (string \<Rightarrow> flt option) \<Rightarrow> paper_state \<Rightarrow> string \<Rightarrow> execution_intent \<Rightarrow> pydict option \<Rightarrow>
     string option \<Rightarrow> string \<Rightarrow> (py_exc + paper_execution) \<times> paper_state" where
  "simulate_new env parse ps pid i obs snap now =
     (let (ok, status, reason) = validate env i (Some now);
          reject = (\<lambda>reasons. let (e, ps') = paper_reject env ps pid i now reasons PAPER_REJECTED in (Inr e, ps')) in
      if \<not> ok then reject [reason]
      else if status \<noteq> IS_VALID then reject [intent_status_value status, reason]
      else case simulate_fill env parse pid (in_symbol i) obs now snap (Some now) of
             Inl e \<Rightarrow> (Inl e, ps)
           | Inr (None, why) \<Rightarrow> reject [why]
           | Inr (Some f, _) \<Rightarrow>
               let (e, ps') = state_put ps (filled_execution env pid i now f) in (Inr e, ps'))"

definition simulate ::
  "contract_env \<Rightarrow> (string \<Rightarrow> flt option) \<Rightarrow> paper_state \<Rightarrow> execution_intent \<Rightarrow> pydict option \<Rightarrow>
     string option \<Rightarrow> string option \<Rightarrow> (py_exc + paper_execution) \<times> paper_state" where
  "simulate env parse ps i obs snap now_iso =
     (case paper_key i obs snap of
        Inl e \<Rightarrow> (Inl e, ps)
      | Inr key \<Rightarrow>
          let pid = make_paper_id env key in
          (case state_get ps pid of
             Some old \<Rightarrow> (Inr old, ps)
           | None \<Rightarrow> simulate_new env parse ps pid i obs snap (str_or now_iso (utc env))))"

section \<open>Reconciliation\<close>

datatype reconciliation_status =
  RS_CONSISTENT | RS_DUPLICATE | RS_MISSING_INTENT | RS_MISMATCHED_INTENT | RS_CORRUPTED | RS_STALE
  | RS_INVALID | RS_UNKNOWN

fun rec_status_value :: "reconciliation_status \<Rightarrow> string" where
  "rec_status_value RS_CONSISTENT = ''CONSISTENT''"
| "rec_status_value RS_DUPLICATE = ''DUPLICATE''"
| "rec_status_value RS_MISSING_INTENT = ''MISSING_INTENT''"
| "rec_status_value RS_MISMATCHED_INTENT = ''MISMATCHED_INTENT''"
| "rec_status_value RS_CORRUPTED = ''CORRUPTED''"
| "rec_status_value RS_STALE = ''STALE''"
| "rec_status_value RS_INVALID = ''INVALID''"
| "rec_status_value RS_UNKNOWN = ''UNKNOWN''"

record reconciliation_record =
  rr_record_id :: string
  rr_execution_id :: string
  rr_intent_id :: string
  rr_status :: reconciliation_status
  rr_content_hash :: string
  rr_reasons :: "string list"
  rr_provenance :: "pydict option"
  rr_notes :: string

definition recalc_paper_hash :: "contract_env \<Rightarrow> paper_execution \<Rightarrow> string" where
  "recalc_paper_hash env e = sha env (PyDict (exec_payload (pe_id e) (pe_intent_id e) (pe_decision_id e)
     (pe_status e) (case pe_fill e of None \<Rightarrow> [] | Some f \<Rightarrow> pf_fill_id f)))"

definition compare_intent ::
  "paper_execution \<Rightarrow> execution_intent option \<Rightarrow> reconciliation_status \<times> string list" where
  "compare_intent e intent =
     (case intent of
        None \<Rightarrow> (RS_MISSING_INTENT, [''missing_intent''])
      | Some i \<Rightarrow>
          if pe_intent_id e \<noteq> in_intent_id i then (RS_MISMATCHED_INTENT, [''intent_id_mismatch''])
          else if pe_decision_id e \<noteq> in_decision_id i then (RS_MISMATCHED_INTENT, [''decision_id_mismatch''])
          else if pe_cycle_id e \<noteq> in_cycle_id i then (RS_MISMATCHED_INTENT, [''cycle_id_mismatch''])
          else if pe_symbol e \<noteq> in_symbol i then (RS_MISMATCHED_INTENT, [''symbol_mismatch''])
          else if pe_action e \<noteq> action_value (in_action i) then (RS_MISMATCHED_INTENT, [''action_mismatch''])
          else (RS_CONSISTENT, []))"

text \<open>
  A later check that fails adds its reason; it replaces the status always (\<open>override\<close>) or only while
  the status is still \<open>CONSISTENT\<close> (\<open>downgrade\<close>).
\<close>

definition downgrade ::
  "bool \<Rightarrow> reconciliation_status \<Rightarrow> string \<Rightarrow> reconciliation_status \<times> string list \<Rightarrow>
     reconciliation_status \<times> string list" where
  "downgrade bad st why = (\<lambda>(status, reasons).
     if bad then (if status = RS_CONSISTENT then st else status, reasons @ [why]) else (status, reasons))"

definition override ::
  "bool \<Rightarrow> reconciliation_status \<Rightarrow> string \<Rightarrow> reconciliation_status \<times> string list \<Rightarrow>
     reconciliation_status \<times> string list" where
  "override bad st why = (\<lambda>(status, reasons). if bad then (st, reasons @ [why]) else (status, reasons))"

definition reconcile_verdict ::
  "contract_env \<Rightarrow> paper_execution \<Rightarrow> execution_intent option \<Rightarrow> string \<Rightarrow> string option \<Rightarrow>
     reconciliation_status \<times> string list" where
  "reconcile_verdict env e intent schema now_iso =
     downgrade (pe_status e \<notin> {PAPER_SIMULATED, PAPER_REJECTED, PS_RECEIVED, PS_VALIDATED, PAPER_FAILED})
       RS_UNKNOWN (''unexpected_status='' @ paper_status_value (pe_status e))
     (override (opt_get now_iso [] \<noteq> [] \<and> pe_simulated_at e \<noteq> [] \<and> opt_get now_iso [] < pe_simulated_at e)
       RS_INVALID ''future_simulated_at''
     (downgrade (opt_get (pe_provenance e) [] = []) RS_INVALID ''missing_provenance''
     (override (pe_content_hash e \<noteq> recalc_paper_hash env e) RS_CORRUPTED ''hash_mismatch''
     (downgrade (pe_schema_version e \<noteq> schema) RS_STALE ''schema_mismatch''
     (compare_intent e intent)))))"

definition rec_payload :: "paper_execution \<Rightarrow> reconciliation_status \<Rightarrow> string list \<Rightarrow> pydict" where
  "rec_payload e st reasons =
     [(''paper_execution_id'', PyStr (pe_id e)), (''intent_id'', PyStr (pe_intent_id e)),
      (''status'', PyStr (rec_status_value st)), (''reasons'', PyList (map PyStr reasons))]"

definition reconcile_paper ::
  "contract_env \<Rightarrow> paper_execution \<Rightarrow> execution_intent option \<Rightarrow> string option \<Rightarrow> reconciliation_record" where
  "reconcile_paper env e intent now_iso =
     (let (st, reasons) = reconcile_verdict env e intent PAPER_SCHEMA now_iso;
          payload = rec_payload e st reasons in
      \<lparr>rr_record_id = ''rec-'' @ digest env payload, rr_execution_id = pe_id e,
       rr_intent_id = pe_intent_id e, rr_status = st, rr_content_hash = sha env (PyDict payload),
       rr_reasons = reasons, rr_provenance = Some (build_paper_provenance env payload),
       rr_notes = ''paper_reconciliation_only''\<rparr>)"

record paper_reconciler =
  rc_max :: nat
  rc_cache :: "reconciliation_record bstore"

definition new_reconciler :: "nat \<Rightarrow> paper_reconciler" where
  "new_reconciler m = \<lparr>rc_max = m, rc_cache = empty_store\<rparr>"

definition reconciler_reconcile ::
  "contract_env \<Rightarrow> paper_reconciler \<Rightarrow> paper_execution \<Rightarrow> execution_intent option \<Rightarrow> string option \<Rightarrow>
     reconciliation_record \<times> paper_reconciler" where
  "reconciler_reconcile env rc e intent now_iso =
     (let r = reconcile_paper env e intent now_iso in
      case bget (rc_cache rc) (rr_record_id r) of
        Some old \<Rightarrow> (old, rc)
      | None \<Rightarrow> (r, rc\<lparr>rc_cache := bput (rc_max rc) (rr_record_id r) r (rc_cache rc)\<rparr>))"

section \<open>Consistency and recovery\<close>

definition detect_duplicate :: "paper_state \<Rightarrow> paper_execution \<Rightarrow> bool" where
  "detect_duplicate ps e \<longleftrightarrow> state_get ps (pe_id e) \<noteq> None"

definition detect_conflict :: "paper_state \<Rightarrow> paper_execution \<Rightarrow> bool" where
  "detect_conflict ps e =
     (case state_get ps (pe_id e) of None \<Rightarrow> False | Some old \<Rightarrow> pe_content_hash old \<noteq> pe_content_hash e)"

definition verify_hash :: "contract_env \<Rightarrow> paper_execution \<Rightarrow> bool" where
  "verify_hash env e \<longleftrightarrow> pe_content_hash e = recalc_paper_hash env e"

definition consistency_check ::
  "contract_env \<Rightarrow> paper_state \<Rightarrow> paper_execution \<Rightarrow> execution_intent option \<Rightarrow> string option \<Rightarrow>
     reconciliation_status" where
  "consistency_check env ps e intent now_iso =
     (if detect_conflict ps e then RS_CORRUPTED
      else if \<not> verify_hash env e then RS_CORRUPTED
      else let st = rr_status (reconcile_paper env e intent now_iso) in
        if detect_duplicate ps e \<and> st = RS_CONSISTENT then RS_DUPLICATE else st)"

definition recover ::
  "contract_env \<Rightarrow> (string \<Rightarrow> flt option) \<Rightarrow> paper_state \<Rightarrow> paper_reconciler \<Rightarrow> paper_execution \<Rightarrow>
     execution_intent option \<Rightarrow> pydict option \<Rightarrow> string option \<Rightarrow> string option \<Rightarrow>
     (py_exc + reconciliation_record \<times> paper_execution option) \<times> paper_state \<times> paper_reconciler" where
  "recover env parse ps rc e intent obs snap now_iso =
     (let (r, rc') = reconciler_reconcile env rc e intent now_iso in
      if rr_status r \<in> {RS_CONSISTENT, RS_DUPLICATE} then
        (Inr (r, Some (opt_get (state_get ps (pe_id e)) e)), ps, rc')
      else if rr_status r \<in> {RS_MISSING_INTENT, RS_MISMATCHED_INTENT, RS_INVALID, RS_UNKNOWN} then
        (Inr (r, None), ps, rc')
      else case intent of
             None \<Rightarrow> (Inr (r, None), ps, rc')
           | Some i \<Rightarrow>
               (case simulate env parse ps i obs snap now_iso of
                  (Inl x, ps') \<Rightarrow> (Inl x, ps', rc')
                | (Inr e', ps') \<Rightarrow> (Inr (r, Some e'), ps', rc')))"

end
