(* ===== verification/PaperBook.thy ===== *)
theory PaperBook
  imports PaperSim
begin

text \<open>
  The paper portfolio and what is computed from it (\<open>god/paper/portfolio.py\<close>, \<open>performance.py\<close>,
  \<open>risk.py\<close>, \<open>safety.py\<close>): accounting with one holding of a fixed unit, performance metrics with the
  maximum drawdown, and the fail-closed risk gate.
\<close>

section \<open>The portfolio\<close>

datatype portfolio_status =
  PB_EMPTY | OPEN_PAPER | CLOSED_PAPER | PB_INVALID | PB_CORRUPTED | PB_INSUFFICIENT_DATA

fun portfolio_status_value :: "portfolio_status \<Rightarrow> string" where
  "portfolio_status_value PB_EMPTY = ''EMPTY''"
| "portfolio_status_value OPEN_PAPER = ''OPEN_PAPER''"
| "portfolio_status_value CLOSED_PAPER = ''CLOSED_PAPER''"
| "portfolio_status_value PB_INVALID = ''INVALID''"
| "portfolio_status_value PB_CORRUPTED = ''CORRUPTED''"
| "portfolio_status_value PB_INSUFFICIENT_DATA = ''INSUFFICIENT_DATA''"

record paper_holding =
  hd_symbol :: string
  hd_entry_price :: flt
  hd_entry_at :: string
  hd_execution_id :: string
  hd_intent_id :: string
  hd_decision_id :: string
  hd_cycle_id :: string

definition PORTFOLIO_SCHEMA :: string where
  "PORTFOLIO_SCHEMA = ''paper-portfolio-5d-v1''"

record paper_portfolio =
  pp_id :: string
  pp_status :: portfolio_status
  pp_cash :: flt
  pp_equity :: flt
  pp_realized :: flt
  pp_unrealized :: flt
  pp_content_hash :: string
  pp_schema_version :: string
  pp_holding :: "paper_holding option"
  pp_updated_at :: string
  pp_provenance :: "pydict option"
  pp_notes :: string

definition make_portfolio_id :: "contract_env \<Rightarrow> string \<Rightarrow> string" where
  "make_portfolio_id env seed = ''pport-'' @
     take 20 (sha env (PyDict [(''seed'', PyStr seed), (''v'', PyStr PORTFOLIO_SCHEMA)]))"

record portfolio_engine =
  pb_initial :: flt
  pb_max_history :: nat
  pb_history :: "paper_portfolio list"
  pb_state :: paper_portfolio

definition UNIT :: flt where
  "UNIT = 1"

definition PORTFOLIO_NOTES :: string where
  "PORTFOLIO_NOTES = ''paper_portfolio_simulation_only''"

definition money_payload :: "portfolio_status \<Rightarrow> flt \<Rightarrow> flt \<Rightarrow> flt \<Rightarrow> flt \<Rightarrow> pydict" where
  "money_payload st cash eq realized unrealized =
     [(''status'', PyStr (portfolio_status_value st)), (''cash'', PyNum cash), (''equity'', PyNum eq),
      (''realized'', PyNum realized), (''unrealized'', PyNum unrealized)]"

definition empty_state :: "contract_env \<Rightarrow> flt \<Rightarrow> paper_portfolio" where
  "empty_state env initial =
     (let payload = money_payload PB_EMPTY initial initial 0 0 in
      \<lparr>pp_id = make_portfolio_id env ''empty'', pp_status = PB_EMPTY, pp_cash = initial,
       pp_equity = initial, pp_realized = 0, pp_unrealized = 0,
       pp_content_hash = sha env (PyDict payload), pp_schema_version = PORTFOLIO_SCHEMA,
       pp_holding = None, pp_updated_at = utc env,
       pp_provenance = Some (build_paper_provenance env payload), pp_notes = PORTFOLIO_NOTES\<rparr>)"

definition new_portfolio :: "contract_env \<Rightarrow> flt \<Rightarrow> nat \<Rightarrow> portfolio_engine" where
  "new_portfolio env initial m =
     \<lparr>pb_initial = initial, pb_max_history = m, pb_history = [], pb_state = empty_state env initial\<rparr>"

text \<open>\<open>_push\<close> keeps the newest states; \<open>commit\<close> is the assignment of the new state with its push.\<close>

definition commit :: "portfolio_engine \<Rightarrow> paper_portfolio \<Rightarrow> portfolio_engine" where
  "commit pb st =
     (let h = pb_history pb @ [st] in
      pb\<lparr>pb_state := st, pb_history := drop (length h - pb_max_history pb) h\<rparr>)"

definition portfolio_reject :: "contract_env \<Rightarrow> portfolio_engine \<Rightarrow> string \<Rightarrow> string \<Rightarrow> paper_portfolio" where
  "portfolio_reject env pb now why =
     (let s = pb_state pb;
          payload = [(''status'', PyStr ''INVALID''), (''reason'', PyStr why), (''cash'', PyNum (pp_cash s))] in
      \<lparr>pp_id = pp_id s, pp_status = PB_INVALID, pp_cash = pp_cash s, pp_equity = pp_equity s,
       pp_realized = pp_realized s, pp_unrealized = pp_unrealized s,
       pp_content_hash = sha env (PyDict payload), pp_schema_version = PORTFOLIO_SCHEMA,
       pp_holding = pp_holding s, pp_updated_at = now,
       pp_provenance = Some (build_paper_provenance env payload), pp_notes = why\<rparr>)"

definition entered_state ::
  "contract_env \<Rightarrow> paper_portfolio \<Rightarrow> paper_execution \<Rightarrow> flt \<Rightarrow> string \<Rightarrow> paper_portfolio" where
  "entered_state env s e price now =
     (let cost = price * UNIT; cash = pp_cash s - cost;
          payload = money_payload OPEN_PAPER cash (cash + cost) (pp_realized s) 0
            @ [(''exec'', PyStr (pe_id e))] in
      \<lparr>pp_id = make_portfolio_id env (pe_id e), pp_status = OPEN_PAPER, pp_cash = cash,
       pp_equity = cash + cost, pp_realized = pp_realized s, pp_unrealized = 0,
       pp_content_hash = sha env (PyDict payload), pp_schema_version = PORTFOLIO_SCHEMA,
       pp_holding = Some \<lparr>hd_symbol = pe_symbol e, hd_entry_price = price,
         hd_entry_at = pe_simulated_at e, hd_execution_id = pe_id e, hd_intent_id = pe_intent_id e,
         hd_decision_id = pe_decision_id e, hd_cycle_id = pe_cycle_id e\<rparr>,
       pp_updated_at = now, pp_provenance = Some (build_paper_provenance env payload),
       pp_notes = PORTFOLIO_NOTES\<rparr>)"

definition exited_state ::
  "contract_env \<Rightarrow> paper_portfolio \<Rightarrow> paper_holding \<Rightarrow> paper_execution \<Rightarrow> flt \<Rightarrow> string \<Rightarrow> paper_portfolio" where
  "exited_state env s hld e price now =
     (let pnl = (price - hd_entry_price hld) * UNIT; cash = pp_cash s + price * UNIT;
          realized = pp_realized s + pnl;
          payload = money_payload CLOSED_PAPER cash cash realized 0 @ [(''exec'', PyStr (pe_id e))] in
      \<lparr>pp_id = make_portfolio_id env (pe_id e @ ''-exit''), pp_status = CLOSED_PAPER, pp_cash = cash,
       pp_equity = cash, pp_realized = realized, pp_unrealized = 0,
       pp_content_hash = sha env (PyDict payload), pp_schema_version = PORTFOLIO_SCHEMA,
       pp_holding = None, pp_updated_at = now,
       pp_provenance = Some (build_paper_provenance env payload), pp_notes = PORTFOLIO_NOTES\<rparr>)"

definition portfolio_enter ::
  "contract_env \<Rightarrow> portfolio_engine \<Rightarrow> paper_execution \<Rightarrow> flt \<Rightarrow> string \<Rightarrow> paper_portfolio \<times> portfolio_engine" where
  "portfolio_enter env pb e price now =
     (case pp_holding (pb_state pb) of
        Some hld \<Rightarrow>
          if hd_execution_id hld = pe_id e then (pb_state pb, pb)
          else (portfolio_reject env pb now ''already_open'', pb)
      | None \<Rightarrow> let st = entered_state env (pb_state pb) e price now in (st, commit pb st))"

definition portfolio_exit ::
  "contract_env \<Rightarrow> portfolio_engine \<Rightarrow> paper_execution \<Rightarrow> flt \<Rightarrow> string \<Rightarrow> paper_portfolio \<times> portfolio_engine" where
  "portfolio_exit env pb e price now =
     (case pp_holding (pb_state pb) of
        None \<Rightarrow> (portfolio_reject env pb now ''no_open_holding'', pb)
      | Some hld \<Rightarrow>
          if pe_symbol e \<noteq> hd_symbol hld then (portfolio_reject env pb now ''symbol_mismatch'', pb)
          else if hd_entry_at hld \<noteq> [] \<and> pe_simulated_at e \<noteq> [] \<and> pe_simulated_at e < hd_entry_at hld then
            (portfolio_reject env pb now ''exit_before_entry'', pb)
          else let st = exited_state env (pb_state pb) hld e price now in (st, commit pb st))"

definition portfolio_apply ::
  "contract_env \<Rightarrow> portfolio_engine \<Rightarrow> paper_execution \<Rightarrow> string option \<Rightarrow> paper_portfolio \<times> portfolio_engine" where
  "portfolio_apply env pb e now_iso =
     (let now = str_or now_iso (utc env) in
      case pe_fill e of
        None \<Rightarrow> (portfolio_reject env pb now ''execution_not_simulated'', pb)
      | Some f \<Rightarrow>
          if pe_status e \<noteq> PAPER_SIMULATED then (portfolio_reject env pb now ''execution_not_simulated'', pb)
          else case pf_reference_price f of
            None \<Rightarrow> (portfolio_reject env pb now ''missing_reference_price'', pb)
          | Some price \<Rightarrow>
              if opt_get now_iso [] \<noteq> [] \<and> pe_simulated_at e \<noteq> [] \<and> opt_get now_iso [] < pe_simulated_at e
              then (portfolio_reject env pb now ''future_execution'', pb)
              else if pe_action e = ''PAPER_ENTER'' then portfolio_enter env pb e price now
              else if pe_action e = ''PAPER_EXIT'' then portfolio_exit env pb e price now
              else (pb_state pb, pb))"

definition mark_to_market ::
  "contract_env \<Rightarrow> portfolio_engine \<Rightarrow> flt \<Rightarrow> string option \<Rightarrow> paper_portfolio \<times> portfolio_engine" where
  "mark_to_market env pb price now_iso =
     (let s = pb_state pb in
      case pp_holding s of
        None \<Rightarrow> (s, pb)
      | Some hld \<Rightarrow>
          let unrealized = (price - hd_entry_price hld) * UNIT;
              eq = pp_cash s + price * UNIT;
              payload = money_payload (pp_status s) (pp_cash s) eq (pp_realized s) unrealized
                @ [(''holding'', PyStr (hd_symbol hld))];
              st = \<lparr>pp_id = pp_id s, pp_status = OPEN_PAPER, pp_cash = pp_cash s, pp_equity = eq,
                    pp_realized = pp_realized s, pp_unrealized = unrealized,
                    pp_content_hash = sha env (PyDict payload), pp_schema_version = PORTFOLIO_SCHEMA,
                    pp_holding = Some hld, pp_updated_at = str_or now_iso (utc env),
                    pp_provenance = Some (build_paper_provenance env payload),
                    pp_notes = PORTFOLIO_NOTES\<rparr> in
          (st, commit pb st))"

section \<open>The accounting invariant\<close>

text \<open>
  Cash and the entry value of the holding add up to the initial cash and the realised result; equity
  is the initial cash with the realised and the unrealised result.
\<close>

definition balanced :: "flt \<Rightarrow> paper_portfolio \<Rightarrow> bool" where
  "balanced initial s \<longleftrightarrow>
     pp_cash s + (case pp_holding s of None \<Rightarrow> 0 | Some hld \<Rightarrow> hd_entry_price hld * UNIT)
       = initial + pp_realized s \<and>
     pp_equity s = initial + pp_realized s + pp_unrealized s \<and>
     (pp_holding s = None \<longrightarrow> pp_unrealized s = 0)"

definition live_status :: "paper_portfolio \<Rightarrow> bool" where
  "live_status s \<longleftrightarrow> (pp_holding s = None \<longrightarrow> pp_status s \<in> {PB_EMPTY, CLOSED_PAPER}) \<and>
     (pp_holding s \<noteq> None \<longrightarrow> pp_status s = OPEN_PAPER)"

definition book_inv :: "portfolio_engine \<Rightarrow> bool" where
  "book_inv pb \<longleftrightarrow> balanced (pb_initial pb) (pb_state pb) \<and> live_status (pb_state pb) \<and>
     length (pb_history pb) \<le> pb_max_history pb \<and>
     (\<forall>s \<in> set (pb_history pb). balanced (pb_initial pb) s \<and> live_status s)"

lemma book_inv_new: "book_inv (new_portfolio env initial m)"
  by (simp add: book_inv_def new_portfolio_def empty_state_def balanced_def live_status_def Let_def)

lemma commit_inv:
  assumes "book_inv pb" and "balanced (pb_initial pb) st" and "live_status st"
  shows "book_inv (commit pb st)"
  using assms by (auto simp: book_inv_def commit_def Let_def dest!: in_set_dropD)

lemma entered_balanced:
  "balanced c s \<Longrightarrow> pp_holding s = None \<Longrightarrow> balanced c (entered_state env s e price now)"
  by (simp add: balanced_def entered_state_def Let_def)

lemma exited_balanced:
  "balanced c s \<Longrightarrow> pp_holding s = Some hld \<Longrightarrow> balanced c (exited_state env s hld e price now)"
  by (simp add: balanced_def exited_state_def Let_def algebra_simps)

lemma moved_status [simp]:
  "live_status (entered_state env s e price now)" "live_status (exited_state env s hld e price now)"
  by (simp_all add: live_status_def entered_state_def exited_state_def Let_def)

lemma portfolio_enter_inv: "book_inv pb \<Longrightarrow> book_inv (snd (portfolio_enter env pb e price now))"
  by (auto simp: portfolio_enter_def Let_def split: option.splits intro!: commit_inv entered_balanced)
    (simp_all add: book_inv_def)

lemma portfolio_exit_inv: "book_inv pb \<Longrightarrow> book_inv (snd (portfolio_exit env pb e price now))"
  by (auto simp: portfolio_exit_def Let_def split: option.splits intro!: commit_inv exited_balanced)
    (simp_all add: book_inv_def)

lemma portfolio_apply_inv: "book_inv pb \<Longrightarrow> book_inv (snd (portfolio_apply env pb e now))"
  by (auto simp: portfolio_apply_def Let_def portfolio_enter_inv portfolio_exit_inv split: option.splits)

lemma mark_to_market_inv: "book_inv pb \<Longrightarrow> book_inv (snd (mark_to_market env pb price now))"
  by (auto simp: mark_to_market_def Let_def split: option.splits intro!: commit_inv)
    (auto simp: balanced_def live_status_def book_inv_def algebra_simps)

lemma portfolio_apply_initial: "pb_initial (snd (portfolio_apply env pb e now)) = pb_initial pb"
  by (auto simp: portfolio_apply_def portfolio_enter_def portfolio_exit_def commit_def Let_def
      split: option.splits)

lemma mark_to_market_initial: "pb_initial (snd (mark_to_market env pb price now)) = pb_initial pb"
  by (auto simp: mark_to_market_def commit_def Let_def split: option.splits)

text \<open>A refused execution leaves the portfolio as it was.\<close>

lemma reject_status [simp]: "pp_status (portfolio_reject env pb now why) = PB_INVALID"
  by (simp add: portfolio_reject_def Let_def)

lemma moved_pp_status [simp]:
  "pp_status (entered_state env s e price now) = OPEN_PAPER"
  "pp_status (exited_state env s hld e price now) = CLOSED_PAPER"
  by (simp_all add: entered_state_def exited_state_def Let_def)

lemma portfolio_enter_cases:
  assumes "portfolio_enter env pb e price now = (st, pb')"
  shows "pp_status st = PB_INVALID \<and> pb' = pb \<or> st = pb_state pb \<and> pb' = pb \<or>
    pp_holding (pb_state pb) = None \<and> st = entered_state env (pb_state pb) e price now \<and> pb' = commit pb st"
  using assms by (auto simp: portfolio_enter_def Let_def split: option.splits if_splits)

lemma portfolio_exit_cases:
  assumes "portfolio_exit env pb e price now = (st, pb')"
  shows "pp_status st = PB_INVALID \<and> pb' = pb \<or>
    (\<exists>hld. pp_holding (pb_state pb) = Some hld \<and> pe_symbol e = hd_symbol hld \<and>
      st = exited_state env (pb_state pb) hld e price now \<and> pb' = commit pb st)"
proof (cases "pp_holding (pb_state pb)")
  case None
  with assms show ?thesis by (auto simp: portfolio_exit_def)
next
  case (Some hld)
  let ?bad = "hd_entry_at hld \<noteq> [] \<and> pe_simulated_at e \<noteq> [] \<and> pe_simulated_at e < hd_entry_at hld"
  let ?st = "exited_state env (pb_state pb) hld e price now"
  note ex = assms [unfolded portfolio_exit_def Some option.simps Let_def]
  consider "pe_symbol e \<noteq> hd_symbol hld" | "pe_symbol e = hd_symbol hld" ?bad
    | "pe_symbol e = hd_symbol hld" "\<not> ?bad" by blast
  then show ?thesis
  proof cases
    case 1
    with ex show ?thesis by auto
  next
    case 2
    with ex have "st = portfolio_reject env pb now ''exit_before_entry''" "pb' = pb" by auto
    then show ?thesis by simp
  next
    case 3
    have "(?st, commit pb ?st) = (st, pb')"
      using ex unfolding if_not_P [OF 3(2)] 3(1) if_False not_True_eq_False simp_thms .
    then have "?st = st \<and> commit pb ?st = pb'" unfolding prod.inject .
    with Some 3(1) show ?thesis by blast
  qed
qed

lemma portfolio_apply_cases:
  assumes "portfolio_apply env pb e now_iso = (st, pb')"
  obtains (refused) "pp_status st = PB_INVALID" "pb' = pb"
  | (kept) "st = pb_state pb" "pb' = pb"
  | (entered) price where "pe_action e = ''PAPER_ENTER''" "pp_holding (pb_state pb) = None"
      "\<exists>f. pe_fill e = Some f \<and> pf_reference_price f = Some price" "pe_status e = PAPER_SIMULATED"
      "st = entered_state env (pb_state pb) e price (str_or now_iso (utc env))" "pb' = commit pb st"
  | (exited) price hld where "pe_action e = ''PAPER_EXIT''" "pp_holding (pb_state pb) = Some hld"
      "\<exists>f. pe_fill e = Some f \<and> pf_reference_price f = Some price" "pe_status e = PAPER_SIMULATED"
      "pe_symbol e = hd_symbol hld"
      "st = exited_state env (pb_state pb) hld e price (str_or now_iso (utc env))" "pb' = commit pb st"
proof (cases "pp_status st = PB_INVALID \<and> pb' = pb \<or> st = pb_state pb \<and> pb' = pb")
  case True
  then show ?thesis using refused kept by blast
next
  case False
  let ?now = "str_or now_iso (utc env)"
  note * = assms [unfolded portfolio_apply_def Let_def]
  obtain f price where f: "pe_fill e = Some f" "pf_reference_price f = Some price"
      "pe_status e = PAPER_SIMULATED"
    using * False by (auto split: option.splits if_splits)
  then have price: "\<exists>f. pe_fill e = Some f \<and> pf_reference_price f = Some price" by blast
  consider "pe_action e = ''PAPER_ENTER''" "portfolio_enter env pb e price ?now = (st, pb')"
    | "pe_action e = ''PAPER_EXIT''" "portfolio_exit env pb e price ?now = (st, pb')"
    using * False f by (auto split: if_splits)
  then show ?thesis
  proof cases
    case 1
    with portfolio_enter_cases [OF 1(2)] False show ?thesis
      by (elim disjE conjE) (simp_all add: entered [OF 1(1) _ price f(3)])
  next
    case 2
    with portfolio_exit_cases [OF 2(2)] False obtain hld where
        "pp_holding (pb_state pb) = Some hld" "pe_symbol e = hd_symbol hld"
        "st = exited_state env (pb_state pb) hld e price ?now" "pb' = commit pb st" by metis
    then show ?thesis by (intro exited [OF 2(1) _ price f(3)])
  qed
qed

section \<open>Performance\<close>

datatype metrics_status = MS_VALID | MS_INSUFFICIENT_DATA | MS_INVALID | MS_CORRUPTED

fun metrics_status_value :: "metrics_status \<Rightarrow> string" where
  "metrics_status_value MS_VALID = ''VALID''"
| "metrics_status_value MS_INSUFFICIENT_DATA = ''INSUFFICIENT_DATA''"
| "metrics_status_value MS_INVALID = ''INVALID''"
| "metrics_status_value MS_CORRUPTED = ''CORRUPTED''"

record performance_metrics =
  pm_id :: string
  pm_status :: metrics_status
  pm_realized :: flt
  pm_unrealized :: flt
  pm_total :: flt
  pm_starting :: flt
  pm_current :: flt
  pm_return_pct :: "flt option"
  pm_max_drawdown :: "flt option"
  pm_completed :: nat
  pm_content_hash :: string
  pm_provenance :: "pydict option"

text \<open>The loop of \<open>_max_drawdown\<close> over the equities, with the running peak and maximum.\<close>

fun drawdown_loop :: "flt \<Rightarrow> flt \<Rightarrow> flt list \<Rightarrow> flt" where
  "drawdown_loop peak mx [] = mx"
| "drawdown_loop peak mx (eq # eqs) =
     (let peak' = (if peak < eq then eq else peak);
          dd = (peak' - eq) / peak' in
      drawdown_loop peak' (if 0 < peak' \<and> mx < dd then dd else mx) eqs)"

definition max_drawdown_of :: "flt list \<Rightarrow> flt \<Rightarrow> flt option" where
  "max_drawdown_of eqs starting = (if eqs = [] then None else Some (drawdown_loop starting 0 eqs))"

definition compute_metrics :: "contract_env \<Rightarrow> portfolio_engine \<Rightarrow> performance_metrics" where
  "compute_metrics env pb =
     (let s = pb_state pb; hist = pb_history pb; starting = pb_initial pb;
          total = pp_realized s + pp_unrealized s;
          (status, ret, dd) =
            (if pp_status s = PB_CORRUPTED then (MS_CORRUPTED, None, None)
             else if hist = [] \<and> pp_status s = PB_EMPTY then (MS_INSUFFICIENT_DATA, None, None)
             else (MS_VALID,
               if starting \<noteq> 0 then Some ((pp_equity s - starting) / starting * 100) else None,
               max_drawdown_of (map pp_equity hist) starting));
          payload = [(''realized'', PyNum (pp_realized s)), (''unrealized'', PyNum (pp_unrealized s)),
            (''total'', PyNum total), (''equity'', PyNum (pp_equity s)),
            (''status'', PyStr (metrics_status_value status))] in
      \<lparr>pm_id = ''pm-'' @ take 20 (sha env (PyDict payload)), pm_status = status,
       pm_realized = pp_realized s, pm_unrealized = pp_unrealized s, pm_total = total,
       pm_starting = starting, pm_current = pp_equity s, pm_return_pct = ret, pm_max_drawdown = dd,
       pm_completed = length (filter (\<lambda>h. pp_status h = CLOSED_PAPER) hist),
       pm_content_hash = sha env (PyDict payload),
       pm_provenance = Some (build_paper_provenance env payload)\<rparr>)"

text \<open>
  The reference: the drawdown of a position of the history against the highest equity up to it
  (the starting equity included), and the maximum over all positions.
\<close>

definition peak_at :: "flt \<Rightarrow> flt list \<Rightarrow> nat \<Rightarrow> flt" where
  "peak_at starting eqs n = Max (insert starting (set (take (Suc n) eqs)))"

definition drawdown_at :: "flt \<Rightarrow> flt list \<Rightarrow> nat \<Rightarrow> flt" where
  "drawdown_at starting eqs n = (peak_at starting eqs n - eqs ! n) / peak_at starting eqs n"

lemma Max_insert_insert: "finite A \<Longrightarrow> Max (insert x (insert y A)) = Max (insert (max x y) A)"
  by (cases "A = {}") (simp_all add: max.assoc)

lemma peak_at_Cons_Suc: "peak_at starting (e # eqs) (Suc n) = peak_at (max starting e) eqs n"
  by (simp add: peak_at_def Max_insert_insert del: Max_insert)

lemma peak_at_0: "peak_at starting (e # eqs) 0 = max starting e"
  by (simp add: peak_at_def)

lemma drawdown_loop_spec:
  assumes "0 < peak"
  shows "drawdown_loop peak mx eqs =
    Max (insert mx ((\<lambda>n. drawdown_at peak eqs n) ` {..<length eqs}))"
  using assms
proof (induction eqs arbitrary: peak mx)
  case Nil
  then show ?case by simp
next
  case (Cons e eqs)
  let ?p = "max peak e" and ?S = "(\<lambda>n. drawdown_at (max peak e) eqs n) ` {..<length eqs}"
  have p: "(if peak < e then e else peak) = ?p" "0 < ?p" using Cons.prems by (auto simp: max_def)
  have img: "(\<lambda>n. drawdown_at peak (e # eqs) n) ` {..<length (e # eqs)} = insert ((?p - e) / ?p) ?S"
    by (simp only: list.size(4) add_Suc_right add_0_right lessThan_Suc_eq_insert_0 image_insert image_image
        drawdown_at_def peak_at_Cons_Suc peak_at_0 nth_Cons_0 nth_Cons_Suc)
  have m: "(if 0 < ?p \<and> mx < (?p - e) / ?p then (?p - e) / ?p else mx) = max mx ((?p - e) / ?p)"
    using p(2) by (auto simp: max_def)
  have "drawdown_loop peak mx (e # eqs) = drawdown_loop ?p (max mx ((?p - e) / ?p)) eqs"
    unfolding drawdown_loop.simps Let_def p(1) m ..
  also have "\<dots> = Max (insert (max mx ((?p - e) / ?p)) ?S)"
    using p(2) by (rule Cons.IH)
  also have "\<dots> = Max (insert mx (insert ((?p - e) / ?p) ?S))"
    by (cases "?S = {}") (simp_all add: max.assoc)
  finally show ?case unfolding img .
qed

section \<open>Risk\<close>

datatype risk_level = RL_NORMAL | RL_WARNING | RL_BLOCKED
datatype safety_decision = PAPER_ALLOWED | SD_BLOCKED

datatype risk_status =
  RK_VALID | RK_UNKNOWN | RK_STALE | RK_INVALID | RK_CORRUPTED | RK_MISSING_DATA | RK_FAILED

fun risk_level_value :: "risk_level \<Rightarrow> string" where
  "risk_level_value RL_NORMAL = ''NORMAL''"
| "risk_level_value RL_WARNING = ''WARNING''"
| "risk_level_value RL_BLOCKED = ''BLOCKED''"

fun safety_decision_value :: "safety_decision \<Rightarrow> string" where
  "safety_decision_value PAPER_ALLOWED = ''PAPER_ALLOWED''"
| "safety_decision_value SD_BLOCKED = ''BLOCKED''"

fun risk_status_value :: "risk_status \<Rightarrow> string" where
  "risk_status_value RK_VALID = ''VALID''"
| "risk_status_value RK_UNKNOWN = ''UNKNOWN''"
| "risk_status_value RK_STALE = ''STALE''"
| "risk_status_value RK_INVALID = ''INVALID''"
| "risk_status_value RK_CORRUPTED = ''CORRUPTED''"
| "risk_status_value RK_MISSING_DATA = ''MISSING_DATA''"
| "risk_status_value RK_FAILED = ''FAILED''"

record risk_assessment =
  ra_id :: string
  ra_decision :: safety_decision
  ra_level :: risk_level
  ra_status :: risk_status
  ra_content_hash :: string
  ra_reasons :: "string list"
  ra_drawdown :: "flt option"
  ra_decision_id :: "string option"
  ra_cycle_id :: "string option"
  ra_provenance :: "pydict option"

record risk_inputs =
  ri_portfolio :: "paper_portfolio option"
  ri_data_status :: "string option"
  ri_decision_status :: "string option"
  ri_decision_id :: "string option"
  ri_cycle_id :: "string option"
  ri_now_iso :: "string option"
  ri_observed_at :: "string option"
  ri_max_drawdown :: "flt option"

record paper_risk_engine =
  pr_warning :: flt
  pr_critical :: flt
  pr_max_reasons :: int
  pr_cache :: "(string, risk_assessment) dict"

definition new_risk_engine :: paper_risk_engine where
  "new_risk_engine = \<lparr>pr_warning = 10 / 100, pr_critical = 25 / 100, pr_max_reasons = 20, pr_cache = []\<rparr>"

text \<open>The local variables of \<open>evaluate\<close>.\<close>

record risk_vars =
  rv_reasons :: "string list"
  rv_status :: risk_status
  rv_level :: risk_level
  rv_decision :: safety_decision

definition block :: "string \<Rightarrow> risk_vars \<Rightarrow> risk_vars" where
  "block why v = v\<lparr>rv_reasons := rv_reasons v @ [why], rv_level := RL_BLOCKED, rv_decision := SD_BLOCKED\<rparr>"

definition block_as :: "risk_status \<Rightarrow> string \<Rightarrow> risk_vars \<Rightarrow> risk_vars" where
  "block_as st why v = (block why v)\<lparr>rv_status := st\<rparr>"

definition BAD_DATA :: "string list" where
  "BAD_DATA = [''INVALID'', ''CORRUPTED'', ''MISSING'', ''UNAVAILABLE'', ''FAILED'']"

definition BAD_DECISIONS :: "string list" where
  "BAD_DECISIONS = [''UNKNOWN'', ''BLOCKED'', ''INVALID'', ''STALE'', ''CORRUPTED'']"

definition check_data :: "string \<Rightarrow> risk_vars \<Rightarrow> risk_vars" where
  "check_data ds v =
     (if ds = ''UNKNOWN'' then block_as RK_UNKNOWN ''data_unknown'' v
      else if ds = ''STALE'' then block_as RK_STALE ''data_stale'' v
      else if ds \<in> set BAD_DATA then
        block_as (if ds = ''CORRUPTED'' then RK_CORRUPTED else if ds = ''INVALID'' then RK_INVALID
                  else if ds = ''MISSING'' \<or> ds = ''UNAVAILABLE'' then RK_MISSING_DATA else RK_FAILED)
          (''data_'' @ py_lower ds) v
      else v)"

definition check_decision :: "string \<Rightarrow> risk_vars \<Rightarrow> risk_vars" where
  "check_decision decs v =
     (if decs \<in> set BAD_DECISIONS then
        block_as (if decs = ''CORRUPTED'' then RK_CORRUPTED else if decs = ''STALE'' then RK_STALE
                  else if decs = ''UNKNOWN'' then RK_UNKNOWN else RK_INVALID)
          (''decision_'' @ py_lower decs) v
      else v)"

definition check_time :: "string option \<Rightarrow> string option \<Rightarrow> risk_vars \<Rightarrow> risk_vars" where
  "check_time now_iso observed v =
     (if opt_get now_iso [] \<noteq> [] \<and> opt_get observed [] \<noteq> [] \<and> opt_get now_iso [] < opt_get observed []
      then block_as RK_INVALID ''future_observation'' v else v)"

definition check_portfolio :: "paper_portfolio option \<Rightarrow> risk_vars \<Rightarrow> risk_vars" where
  "check_portfolio portfolio v =
     (case portfolio of
        None \<Rightarrow> v
      | Some s \<Rightarrow>
          let v1 = (if pp_status s = PB_CORRUPTED then block_as RK_CORRUPTED ''portfolio_corrupted'' v else v);
              v2 = (if pp_status s = PB_INVALID then block_as RK_INVALID ''portfolio_invalid'' v1 else v1) in
          if pp_holding s \<noteq> None \<and> pp_cash s < 0 then block ''negative_cash'' v2 else v2)"

definition check_drawdown :: "paper_risk_engine \<Rightarrow> flt option \<Rightarrow> risk_vars \<Rightarrow> risk_vars" where
  "check_drawdown re dd v =
     (case dd of
        None \<Rightarrow> v
      | Some x \<Rightarrow>
          if pr_critical re \<le> x then block ''critical_drawdown'' v
          else if pr_warning re \<le> x then
            v\<lparr>rv_reasons := rv_reasons v @ [''warning_drawdown''],
              rv_level := (if rv_level v = RL_NORMAL then RL_WARNING else rv_level v)\<rparr>
          else v)"

definition check_inputs :: "risk_inputs \<Rightarrow> risk_vars \<Rightarrow> risk_vars" where
  "check_inputs x v =
     (if ri_portfolio x = None \<and> ri_data_status x = None \<and> ri_decision_status x = None
      then block_as RK_MISSING_DATA ''missing_inputs'' v else v)"

definition risk_verdict :: "paper_risk_engine \<Rightarrow> risk_inputs \<Rightarrow> risk_vars" where
  "risk_verdict re x =
     check_inputs x
     (check_drawdown re (ri_max_drawdown x)
     (check_portfolio (ri_portfolio x)
     (check_time (ri_now_iso x) (ri_observed_at x)
     (check_decision (py_upper (opt_get (ri_decision_status x) []))
     (check_data (py_upper (opt_get (ri_data_status x) []))
       \<lparr>rv_reasons = [], rv_status = RK_VALID, rv_level = RL_NORMAL, rv_decision = PAPER_ALLOWED\<rparr>)))))"

definition risk_payload :: "risk_vars \<Rightarrow> string list \<Rightarrow> risk_inputs \<Rightarrow> pydict" where
  "risk_payload v reasons x =
     [(''decision'', PyStr (safety_decision_value (rv_decision v))),
      (''risk_level'', PyStr (risk_level_value (rv_level v))),
      (''risk_status'', PyStr (risk_status_value (rv_status v))),
      (''reasons'', PyList (map PyStr reasons)),
      (''dd'', case ri_max_drawdown x of None \<Rightarrow> PyNone | Some d \<Rightarrow> PyNum d),
      (''decision_id'', PyStr (opt_get (ri_decision_id x) [])),
      (''cycle_id'', PyStr (opt_get (ri_cycle_id x) [])), (''schema'', PyStr ''paper-risk-5e-v1'')]"

definition fresh_assessment :: "contract_env \<Rightarrow> paper_risk_engine \<Rightarrow> risk_inputs \<Rightarrow> risk_assessment" where
  "fresh_assessment env re x =
     (let v = risk_verdict re x; reasons = slice_to (rv_reasons v) (pr_max_reasons re);
          payload = risk_payload v reasons x in
      \<lparr>ra_id = ''risk-'' @ digest env payload, ra_decision = rv_decision v, ra_level = rv_level v,
       ra_status = rv_status v, ra_content_hash = sha env (PyDict payload), ra_reasons = reasons,
       ra_drawdown = ri_max_drawdown x, ra_decision_id = ri_decision_id x, ra_cycle_id = ri_cycle_id x,
       ra_provenance = Some (build_paper_provenance env payload)\<rparr>)"

definition risk_evaluate ::
  "contract_env \<Rightarrow> paper_risk_engine \<Rightarrow> risk_inputs \<Rightarrow> risk_assessment \<times> paper_risk_engine" where
  "risk_evaluate env re x =
     (let a = fresh_assessment env re x in
      case map_of (pr_cache re) (ra_id a) of
        Some old \<Rightarrow> (old, re)
      | None \<Rightarrow> (a, re\<lparr>pr_cache := AList.update (ra_id a) a (pr_cache re)\<rparr>))"

definition allow_paper_progression ::
  "contract_env \<Rightarrow> paper_risk_engine \<Rightarrow> risk_inputs \<Rightarrow> (bool \<times> risk_assessment) \<times> paper_risk_engine" where
  "allow_paper_progression env re x =
     (let (a, re') = risk_evaluate env re x in ((ra_decision a = PAPER_ALLOWED, a), re'))"

text \<open>When progression is allowed by a fresh verdict.\<close>

lemma block_decision [simp]: "rv_decision (block why v) = SD_BLOCKED" "rv_decision (block_as st why v) = SD_BLOCKED"
  by (simp_all add: block_def block_as_def)

lemma risk_verdict_allowed:
  "rv_decision (risk_verdict re x) = PAPER_ALLOWED \<longleftrightarrow>
     (let ds = py_upper (opt_get (ri_data_status x) []) in
        ds \<notin> {''UNKNOWN'', ''STALE''} \<and> ds \<notin> set BAD_DATA) \<and>
     py_upper (opt_get (ri_decision_status x) []) \<notin> set BAD_DECISIONS \<and>
     \<not> (opt_get (ri_now_iso x) [] \<noteq> [] \<and> opt_get (ri_observed_at x) [] \<noteq> [] \<and>
        opt_get (ri_now_iso x) [] < opt_get (ri_observed_at x) []) \<and>
     (case ri_portfolio x of None \<Rightarrow> True | Some s \<Rightarrow> pp_status s \<notin> {PB_CORRUPTED, PB_INVALID} \<and>
        (pp_holding s = None \<or> 0 \<le> pp_cash s)) \<and>
     (case ri_max_drawdown x of None \<Rightarrow> True | Some d \<Rightarrow> d < pr_critical re) \<and>
     (ri_portfolio x \<noteq> None \<or> ri_data_status x \<noteq> None \<or> ri_decision_status x \<noteq> None)"
proof -
  define v1 where "v1 = check_data (py_upper (opt_get (ri_data_status x) []))
    \<lparr>rv_reasons = [], rv_status = RK_VALID, rv_level = RL_NORMAL, rv_decision = PAPER_ALLOWED\<rparr>"
  define v2 where "v2 = check_decision (py_upper (opt_get (ri_decision_status x) [])) v1"
  define v3 where "v3 = check_time (ri_now_iso x) (ri_observed_at x) v2"
  define v4 where "v4 = check_portfolio (ri_portfolio x) v3"
  define v5 where "v5 = check_drawdown re (ri_max_drawdown x) v4"
  have "rv_decision v1 = PAPER_ALLOWED \<longleftrightarrow> py_upper (opt_get (ri_data_status x) []) \<notin> {''UNKNOWN'', ''STALE''} \<and>
      py_upper (opt_get (ri_data_status x) []) \<notin> set BAD_DATA"
    unfolding v1_def check_data_def by (auto simp: BAD_DATA_def)
  moreover have "rv_decision v2 = PAPER_ALLOWED \<longleftrightarrow> rv_decision v1 = PAPER_ALLOWED \<and>
      py_upper (opt_get (ri_decision_status x) []) \<notin> set BAD_DECISIONS"
    unfolding v2_def check_decision_def by auto
  moreover have "rv_decision v3 = PAPER_ALLOWED \<longleftrightarrow> rv_decision v2 = PAPER_ALLOWED \<and>
      \<not> (opt_get (ri_now_iso x) [] \<noteq> [] \<and> opt_get (ri_observed_at x) [] \<noteq> [] \<and>
        opt_get (ri_now_iso x) [] < opt_get (ri_observed_at x) [])"
    unfolding v3_def check_time_def by auto
  moreover have "rv_decision v4 = PAPER_ALLOWED \<longleftrightarrow> rv_decision v3 = PAPER_ALLOWED \<and>
      (case ri_portfolio x of None \<Rightarrow> True | Some s \<Rightarrow> pp_status s \<notin> {PB_CORRUPTED, PB_INVALID} \<and>
        (pp_holding s = None \<or> 0 \<le> pp_cash s))"
    unfolding v4_def check_portfolio_def by (auto simp: Let_def split: option.splits)
  moreover have "rv_decision v5 = PAPER_ALLOWED \<longleftrightarrow> rv_decision v4 = PAPER_ALLOWED \<and>
      (case ri_max_drawdown x of None \<Rightarrow> True | Some d \<Rightarrow> d < pr_critical re)"
    unfolding v5_def check_drawdown_def by (auto split: option.splits)
  moreover have "rv_decision (risk_verdict re x) = PAPER_ALLOWED \<longleftrightarrow> rv_decision v5 = PAPER_ALLOWED \<and>
      (ri_portfolio x \<noteq> None \<or> ri_data_status x \<noteq> None \<or> ri_decision_status x \<noteq> None)"
    unfolding risk_verdict_def v5_def v4_def v3_def v2_def v1_def check_inputs_def by auto
  ultimately show ?thesis by (simp add: Let_def conj_assoc)
qed

end
