(* ===== verification/PaperCycle.thy ===== *)
theory PaperCycle
  imports PaperBook
begin

text \<open>
  The paper pipeline (\<open>god/paper/lifecycle.py\<close>, \<open>orchestrator.py\<close>, \<open>readiness.py\<close>): a decision becomes
  an intent, passes the safety gate, is simulated, reconciled and applied to the portfolio; the lifecycle
  record walks along its state graph, and results are cached by the identity of the cycle.

  The engines that the classes share by reference (the portfolio of lifecycle and performance engine)
  are one component of the state here. Texts that hold a dash outside ASCII are written with a hyphen.
\<close>

section \<open>The lifecycle\<close>

datatype lifecycle_state =
  LS_CREATED | LS_VALIDATED | LS_ACCEPTED | LS_SIMULATED | LS_FILLED | LS_RECONCILED
  | LS_PORTFOLIO_APPLIED | LS_COMPLETED | LS_REJECTED | LS_INVALID | LS_STALE | LS_CORRUPTED | LS_FAILED

fun lifecycle_value :: "lifecycle_state \<Rightarrow> string" where
  "lifecycle_value LS_CREATED = ''CREATED''"
| "lifecycle_value LS_VALIDATED = ''VALIDATED''"
| "lifecycle_value LS_ACCEPTED = ''ACCEPTED''"
| "lifecycle_value LS_SIMULATED = ''SIMULATED''"
| "lifecycle_value LS_FILLED = ''FILLED''"
| "lifecycle_value LS_RECONCILED = ''RECONCILED''"
| "lifecycle_value LS_PORTFOLIO_APPLIED = ''PORTFOLIO_APPLIED''"
| "lifecycle_value LS_COMPLETED = ''COMPLETED''"
| "lifecycle_value LS_REJECTED = ''REJECTED''"
| "lifecycle_value LS_INVALID = ''INVALID''"
| "lifecycle_value LS_STALE = ''STALE''"
| "lifecycle_value LS_CORRUPTED = ''CORRUPTED''"
| "lifecycle_value LS_FAILED = ''FAILED''"

fun lifecycle_targets :: "lifecycle_state \<Rightarrow> lifecycle_state list" where
  "lifecycle_targets LS_CREATED = [LS_VALIDATED, LS_REJECTED, LS_INVALID, LS_FAILED]"
| "lifecycle_targets LS_VALIDATED = [LS_ACCEPTED, LS_REJECTED, LS_INVALID, LS_STALE, LS_FAILED]"
| "lifecycle_targets LS_ACCEPTED = [LS_SIMULATED, LS_REJECTED, LS_FAILED, LS_CORRUPTED]"
| "lifecycle_targets LS_SIMULATED = [LS_FILLED, LS_REJECTED, LS_FAILED, LS_CORRUPTED]"
| "lifecycle_targets LS_FILLED = [LS_RECONCILED, LS_REJECTED, LS_CORRUPTED, LS_FAILED]"
| "lifecycle_targets LS_RECONCILED = [LS_PORTFOLIO_APPLIED, LS_REJECTED, LS_CORRUPTED, LS_FAILED]"
| "lifecycle_targets LS_PORTFOLIO_APPLIED = [LS_COMPLETED, LS_FAILED, LS_CORRUPTED]"
| "lifecycle_targets _ = []"

definition can_transition :: "lifecycle_state \<Rightarrow> lifecycle_state \<Rightarrow> bool" where
  "can_transition s t \<longleftrightarrow> t \<in> set (lifecycle_targets s)"

record lifecycle_record =
  lr_id :: string
  lr_state :: lifecycle_state
  lr_intent_id :: string
  lr_decision_id :: string
  lr_cycle_id :: string
  lr_content_hash :: string
  lr_execution_id :: "string option"
  lr_fill_id :: "string option"
  lr_reconciliation_id :: "string option"
  lr_portfolio_id :: "string option"
  lr_reasons :: "string list"
  lr_updated_at :: string
  lr_provenance :: "pydict option"
  lr_notes :: string

definition LIFECYCLE_SCHEMA :: string where
  "LIFECYCLE_SCHEMA = ''paper-lifecycle-5f-v1''"

definition make_lifecycle_id :: "contract_env \<Rightarrow> string \<Rightarrow> string option \<Rightarrow> string" where
  "make_lifecycle_id env iid snap = ''life-'' @ digest env
     [(''intent_id'', PyStr iid), (''snapshot_id'', PyStr (opt_get snap [])),
      (''schema'', PyStr LIFECYCLE_SCHEMA)]"

record paper_lifecycle =
  lc_executions :: paper_state
  lc_portfolio :: portfolio_engine
  lc_reconciler :: paper_reconciler
  lc_risk :: paper_risk_engine
  lc_max :: nat
  lc_records :: "lifecycle_record bstore"

definition store_record ::
  "paper_lifecycle \<Rightarrow> lifecycle_record \<Rightarrow> lifecycle_record \<times> paper_lifecycle" where
  "store_record L r = (r, L\<lparr>lc_records := bput (lc_max L) (lr_id r) r (lc_records L)\<rparr>)"

definition fail_record ::
  "contract_env \<Rightarrow> paper_lifecycle \<Rightarrow> lifecycle_record \<Rightarrow> lifecycle_state \<Rightarrow> string \<Rightarrow> string list \<Rightarrow>
     lifecycle_record \<times> paper_lifecycle" where
  "fail_record env L r st now reasons =
     (let payload = [(''lifecycle_id'', PyStr (lr_id r)), (''state'', PyStr (lifecycle_value st)),
        (''intent_id'', PyStr (lr_intent_id r)), (''reasons'', PyList (map PyStr reasons))] in
      store_record L (r\<lparr>lr_state := st, lr_reasons := reasons, lr_updated_at := now,
        lr_content_hash := sha env (PyDict payload),
        lr_provenance := Some (build_paper_provenance env payload),
        lr_notes := ''paper_lifecycle_failed''\<rparr>))"

definition advanced ::
  "contract_env \<Rightarrow> lifecycle_record \<Rightarrow> lifecycle_state \<Rightarrow> string \<Rightarrow> string list \<Rightarrow> lifecycle_record" where
  "advanced env r st now reasons =
     (let payload = [(''lifecycle_id'', PyStr (lr_id r)), (''state'', PyStr (lifecycle_value st)),
        (''intent_id'', PyStr (lr_intent_id r)), (''decision_id'', PyStr (lr_decision_id r)),
        (''paper_execution_id'', PyStr (opt_get (lr_execution_id r) []))] in
      r\<lparr>lr_state := st, lr_reasons := reasons, lr_updated_at := now,
        lr_content_hash := sha env (PyDict payload),
        lr_provenance := Some (build_paper_provenance env payload)\<rparr>)"

definition lc_transition ::
  "contract_env \<Rightarrow> paper_lifecycle \<Rightarrow> lifecycle_record \<Rightarrow> lifecycle_state \<Rightarrow> string \<Rightarrow> string list \<Rightarrow>
     lifecycle_record \<times> paper_lifecycle" where
  "lc_transition env L r st now reasons =
     (if \<not> can_transition (lr_state r) st then
        fail_record env L r LS_INVALID now
          [''invalid_transition'', lifecycle_value (lr_state r) @ ''->'' @ lifecycle_value st]
      else (advanced env r st now reasons, L))"

definition fresh_record :: "string \<Rightarrow> execution_intent \<Rightarrow> string \<Rightarrow> lifecycle_record" where
  "fresh_record lid i now =
     \<lparr>lr_id = lid, lr_state = LS_CREATED, lr_intent_id = in_intent_id i,
      lr_decision_id = in_decision_id i, lr_cycle_id = in_cycle_id i, lr_content_hash = [],
      lr_execution_id = None, lr_fill_id = None, lr_reconciliation_id = None, lr_portfolio_id = None,
      lr_reasons = [], lr_updated_at = now, lr_provenance = None, lr_notes = ''paper_lifecycle_only''\<rparr>"

text \<open>The last stage of \<open>run\<close>: the portfolio.\<close>

definition run_portfolio ::
  "contract_env \<Rightarrow> paper_lifecycle \<Rightarrow> lifecycle_record \<Rightarrow> paper_execution \<Rightarrow> string \<Rightarrow>
     lifecycle_record \<times> paper_lifecycle" where
  "run_portfolio env L r pe now =
     (let (r1, L1) = lc_transition env L r LS_RECONCILED now [''reconciled''];
          (pst, pb) = portfolio_apply env (lc_portfolio L1) pe (Some now);
          L2 = L1\<lparr>lc_portfolio := pb\<rparr> in
      if pp_status pst = PB_INVALID then
        fail_record env L2 r1 LS_FAILED now [''portfolio_invalid'', pp_notes pst]
      else
        let (r2, L3) = lc_transition env L2 (r1\<lparr>lr_portfolio_id := Some (pp_id pst)\<rparr>)
              LS_PORTFOLIO_APPLIED now [''portfolio_applied''];
            (r3, L4) = lc_transition env L3 r2 LS_COMPLETED now [''completed''] in
        store_record L4 r3)"

definition failure_of :: "reconciliation_status \<Rightarrow> lifecycle_state" where
  "failure_of st =
     (if st \<in> {RS_MISSING_INTENT, RS_MISMATCHED_INTENT} then LS_REJECTED
      else if st = RS_STALE then LS_STALE else LS_CORRUPTED)"

text \<open>The stage before it: the simulated execution is recorded and reconciled.\<close>

definition run_reconcile ::
  "contract_env \<Rightarrow> paper_lifecycle \<Rightarrow> lifecycle_record \<Rightarrow> execution_intent \<Rightarrow> paper_execution \<Rightarrow> string \<Rightarrow>
     lifecycle_record \<times> paper_lifecycle" where
  "run_reconcile env L r i pe now =
     (let r0 = r\<lparr>lr_execution_id := Some (pe_id pe), lr_fill_id := map_option pf_fill_id (pe_fill pe)\<rparr>;
          (r1, L1) = lc_transition env L r0 LS_SIMULATED now [''simulated''];
          (r2, L2) = lc_transition env L1 r1 LS_FILLED now [''filled''];
          (rrec, rc) = reconciler_reconcile env (lc_reconciler L2) pe (Some i) (Some now);
          r3 = r2\<lparr>lr_reconciliation_id := Some (rr_record_id rrec)\<rparr>;
          L3 = L2\<lparr>lc_reconciler := rc\<rparr> in
      if rr_status rrec \<noteq> RS_CONSISTENT then
        fail_record env L3 r3 (failure_of (rr_status rrec)) now
          [''reconcile_'' @ py_lower (rec_status_value (rr_status rrec))]
      else run_portfolio env L3 r3 pe now)"

text \<open>The simulation.\<close>

definition run_simulate ::
  "contract_env \<Rightarrow> (string \<Rightarrow> flt option) \<Rightarrow> paper_lifecycle \<Rightarrow> lifecycle_record \<Rightarrow> execution_intent \<Rightarrow>
     pydict option \<Rightarrow> string option \<Rightarrow> string \<Rightarrow> (py_exc + lifecycle_record) \<times> paper_lifecycle" where
  "run_simulate env parse L r i obs snap now =
     (let (r1, L1) = lc_transition env L r LS_ACCEPTED now [''accepted''] in
      case simulate env parse (lc_executions L1) i obs snap (Some now) of
        (Inl e, ps) \<Rightarrow> (Inl e, L1\<lparr>lc_executions := ps\<rparr>)
      | (Inr pe, ps) \<Rightarrow>
          let L2 = L1\<lparr>lc_executions := ps\<rparr>;
              (r2, L3) =
                (if pe_status pe \<noteq> PAPER_SIMULATED \<or> pe_fill pe = None then
                   fail_record env L2 r1 LS_REJECTED now
                     ([''simulation_failed'', paper_status_value (pe_status pe)] @ take 3 (pe_reason_codes pe))
                 else run_reconcile env L2 r1 i pe now) in
          (Inr r2, L3))"

definition gate_inputs :: "execution_intent \<Rightarrow> string \<Rightarrow> string \<Rightarrow> flt option \<Rightarrow> risk_inputs" where
  "gate_inputs i data_status now dd =
     \<lparr>ri_portfolio = None, ri_data_status = Some data_status,
      ri_decision_status = Some (in_decision_status i), ri_decision_id = Some (in_decision_id i),
      ri_cycle_id = Some (in_cycle_id i), ri_now_iso = Some now, ri_observed_at = None,
      ri_max_drawdown = dd\<rparr>"

text \<open>A cycle that is not known to be completed: the safety gate and the checks before the simulation.\<close>

definition run_new ::
  "contract_env \<Rightarrow> (string \<Rightarrow> flt option) \<Rightarrow> paper_lifecycle \<Rightarrow> string \<Rightarrow> execution_intent \<Rightarrow> pydict option \<Rightarrow>
     string option \<Rightarrow> string \<Rightarrow> string \<Rightarrow> flt option \<Rightarrow> (py_exc + lifecycle_record) \<times> paper_lifecycle" where
  "run_new env parse L lid i obs snap data_status now dd =
     (let (r, L1) = lc_transition env L (fresh_record lid i now) LS_VALIDATED now [''created''];
          ((allowed, a), re) = allow_paper_progression env (lc_risk L1) (gate_inputs i data_status now dd);
          L2 = L1\<lparr>lc_risk := re\<rparr> in
      if \<not> allowed then
        (let (r', L') = fail_record env L2 r LS_REJECTED now
           ([''safety_blocked'', risk_status_value (ra_status a)] @ take 5 (ra_reasons a)) in (Inr r', L'))
      else if in_status i \<noteq> IS_VALID then
        (let (r', L') = fail_record env L2 r LS_INVALID now [''intent_not_valid''] in (Inr r', L'))
      else run_simulate env parse L2 r i obs snap now)"

definition lifecycle_run ::
  "contract_env \<Rightarrow> (string \<Rightarrow> flt option) \<Rightarrow> paper_lifecycle \<Rightarrow> execution_intent \<Rightarrow> pydict option \<Rightarrow>
     string option \<Rightarrow> string \<Rightarrow> string option \<Rightarrow> flt option \<Rightarrow>
     (py_exc + lifecycle_record) \<times> paper_lifecycle" where
  "lifecycle_run env parse L i obs snap data_status now_iso dd =
     (let now = str_or now_iso (utc env); lid = make_lifecycle_id env (in_intent_id i) snap in
      case bget (lc_records L) lid of
        Some r \<Rightarrow>
          if lr_state r = LS_COMPLETED then (Inr r, L)
          else run_new env parse L lid i obs snap data_status now dd
      | None \<Rightarrow> run_new env parse L lid i obs snap data_status now dd)"

section \<open>The orchestrator\<close>

datatype pipeline_status = PL_COMPLETED | PL_REJECTED | PL_FAILED | PL_RETURN_EXISTING

fun pipeline_value :: "pipeline_status \<Rightarrow> string" where
  "pipeline_value PL_COMPLETED = ''COMPLETED''"
| "pipeline_value PL_REJECTED = ''REJECTED''"
| "pipeline_value PL_FAILED = ''FAILED''"
| "pipeline_value PL_RETURN_EXISTING = ''RETURN_EXISTING''"

record pipeline_result =
  pl_id :: string
  pl_status :: pipeline_status
  pl_lifecycle_state :: "string option"
  pl_decision_id :: string
  pl_cycle_id :: string
  pl_intent_id :: "string option"
  pl_content_hash :: string
  pl_lifecycle_id :: "string option"
  pl_execution_id :: "string option"
  pl_portfolio_id :: "string option"
  pl_reasons :: "string list"
  pl_performance :: "performance_metrics option"
  pl_provenance :: "pydict option"
  pl_notes :: string

record orchestrator =
  or_contract :: contract_engine
  or_lifecycle :: paper_lifecycle
  or_max :: nat
  or_cache :: "pipeline_result bstore"

definition store_result :: "orchestrator \<Rightarrow> pipeline_result \<Rightarrow> pipeline_result \<times> orchestrator" where
  "store_result Q r = (r, Q\<lparr>or_cache := bput (or_max Q) (pl_id r) r (or_cache Q)\<rparr>)"

definition rejected_result ::
  "contract_env \<Rightarrow> string \<Rightarrow> string \<Rightarrow> string \<Rightarrow> string option \<Rightarrow> string list \<Rightarrow> lifecycle_record option \<Rightarrow>
     pipeline_result" where
  "rejected_result env rid did cid iid reasons life =
     (let payload = [(''result_id'', PyStr rid), (''status'', PyStr ''REJECTED''),
        (''reasons'', PyList (map PyStr reasons))] in
      \<lparr>pl_id = rid, pl_status = PL_REJECTED,
       pl_lifecycle_state = map_option (\<lambda>l. lifecycle_value (lr_state l)) life,
       pl_decision_id = did, pl_cycle_id = cid, pl_intent_id = iid,
       pl_content_hash = sha env (PyDict payload), pl_lifecycle_id = map_option lr_id life,
       pl_execution_id = (case life of None \<Rightarrow> None | Some l \<Rightarrow> lr_execution_id l),
       pl_portfolio_id = None, pl_reasons = reasons, pl_performance = None,
       pl_provenance = Some (build_paper_provenance env payload), pl_notes = ''paper_pipeline_rejected''\<rparr>)"

definition completed_result ::
  "contract_env \<Rightarrow> string \<Rightarrow> string \<Rightarrow> string \<Rightarrow> string \<Rightarrow> lifecycle_record \<Rightarrow> performance_metrics \<Rightarrow>
     pipeline_result" where
  "completed_result env rid did cid iid life m =
     (let payload = [(''result_id'', PyStr rid), (''status'', PyStr ''COMPLETED''),
        (''lifecycle_id'', PyStr (lr_id life)), (''decision_id'', PyStr did), (''cycle_id'', PyStr cid)] in
      \<lparr>pl_id = rid, pl_status = PL_COMPLETED,
       pl_lifecycle_state = Some (lifecycle_value (lr_state life)), pl_decision_id = did,
       pl_cycle_id = cid, pl_intent_id = Some iid, pl_content_hash = sha env (PyDict payload),
       pl_lifecycle_id = Some (lr_id life), pl_execution_id = lr_execution_id life,
       pl_portfolio_id = lr_portfolio_id life, pl_reasons = [''pipeline_completed''],
       pl_performance = Some m, pl_provenance = Some (build_paper_provenance env payload),
       pl_notes = ''paper_pipeline_only''\<rparr>)"

definition life_result ::
  "contract_env \<Rightarrow> string \<Rightarrow> string \<Rightarrow> string \<Rightarrow> string \<Rightarrow> lifecycle_record \<Rightarrow> performance_metrics \<Rightarrow>
     pipeline_result" where
  "life_result env rid did cid iid life m =
     (if lr_state life \<noteq> LS_COMPLETED then
        rejected_result env rid did cid (Some iid)
          (if lr_reasons life = [] then [lifecycle_value (lr_state life)] else lr_reasons life) (Some life)
      else completed_result env rid did cid iid life m)"

text \<open>The last values of all observed symbols go into the identity of the cycle.\<close>

fun observed_values :: "pydict \<Rightarrow> py_exc + pydict" where
  "observed_values [] = Inr []"
| "observed_values ((k, obs) # m) =
     (case obs of
        PyDict d \<Rightarrow>
          if truthy (dget d ''values'')
          then bindE (last_item (dget d ''values'')) (\<lambda>v.
                 bindE (observed_values m) (\<lambda>vs. Inr ((''v:'' @ k, v) # vs)))
          else observed_values m
      | _ \<Rightarrow> observed_values m)"

definition ORCHESTRATOR_SCHEMA :: string where
  "ORCHESTRATOR_SCHEMA = ''paper-orchestrator-5g-v1''"

definition cycle_key ::
  "decision_view \<Rightarrow> pydict option \<Rightarrow> string option \<Rightarrow> intent_action \<Rightarrow> py_exc + pydict" where
  "cycle_key d obs snap act =
     bindE (observed_values (opt_get obs [])) (\<lambda>vs.
       Inr ([(''decision_id'', PyStr (str_or (dv_decision_id d) [])),
             (''cycle_id'', PyStr (str_or (dv_cycle_id d) [])),
             (''snapshot_id'', PyStr (opt_get snap [])), (''action'', PyStr (action_value act)),
             (''schema'', PyStr ORCHESTRATOR_SCHEMA)] @ vs))"

definition existing_result :: "pipeline_result \<Rightarrow> pipeline_result" where
  "existing_result r = r\<lparr>pl_status := PL_RETURN_EXISTING, pl_notes := ''return_existing''\<rparr>"

text \<open>The intent is rebuilt with the status \<open>VALID\<close>.\<close>

definition valid_intent_of :: "contract_env \<Rightarrow> execution_intent \<Rightarrow> execution_intent" where
  "valid_intent_of env i =
     (let core = core_payload (in_decision_id i) (in_cycle_id i) (in_opportunity_id i) (in_symbol i)
        (in_strategy_ref i) (in_decision_status i) (in_action i) INTENT_SCHEMA in
      i\<lparr>in_status := IS_VALID, in_content_hash := sha env (PyDict core),
        in_schema_version := INTENT_SCHEMA, in_valid_until := None,
        in_provenance := Some (build_exec_provenance env core), in_notes := []\<rparr>)"

definition cycle_new ::
  "contract_env \<Rightarrow> (string \<Rightarrow> flt option) \<Rightarrow> orchestrator \<Rightarrow> string \<Rightarrow> decision_view \<Rightarrow> pydict option \<Rightarrow>
     string option \<Rightarrow> string \<Rightarrow> string \<Rightarrow> flt option \<Rightarrow> intent_action \<Rightarrow>
     (py_exc + pipeline_result) \<times> orchestrator" where
  "cycle_new env parse Q rid d obs snap data_status now dd act =
     (let did = str_or (dv_decision_id d) []; cid = str_or (dv_cycle_id d) [];
          (i, ce) = create_intent env (or_contract Q) d act (Some now);
          Q1 = Q\<lparr>or_contract := ce\<rparr>; dstat = str_or (dv_status d) [];
          finish = (\<lambda>(r, Q'). (Inr r, Q')) in
      if py_upper dstat \<in> set BAD_DECISIONS then
        finish (store_result Q1 (rejected_result env rid did cid (Some (in_intent_id i))
          [''decision_'' @ py_lower dstat] None))
      else case lifecycle_run env parse (or_lifecycle Q1) (valid_intent_of env i) obs snap data_status
             (Some now) dd of
        (Inl e, L) \<Rightarrow> (Inl e, Q1\<lparr>or_lifecycle := L\<rparr>)
      | (Inr life, L) \<Rightarrow>
          finish (store_result (Q1\<lparr>or_lifecycle := L\<rparr>)
            (life_result env rid did cid (in_intent_id i) life (compute_metrics env (lc_portfolio L)))))"

definition run_paper_cycle ::
  "contract_env \<Rightarrow> (string \<Rightarrow> flt option) \<Rightarrow> orchestrator \<Rightarrow> decision_view \<Rightarrow> pydict option \<Rightarrow>
     string option \<Rightarrow> string \<Rightarrow> string option \<Rightarrow> flt option \<Rightarrow> intent_action \<Rightarrow>
     (py_exc + pipeline_result) \<times> orchestrator" where
  "run_paper_cycle env parse Q d obs snap data_status now_iso dd act =
     (case cycle_key d obs snap act of
        Inl e \<Rightarrow> (Inl e, Q)
      | Inr key \<Rightarrow>
          let rid = ''pipe-'' @ digest env key;
              now = str_or now_iso (utc env) in
          case bget (or_cache Q) rid of
            Some r \<Rightarrow>
              if pl_status r = PL_COMPLETED then (Inr (existing_result r), Q)
              else cycle_new env parse Q rid d obs snap data_status now dd act
          | None \<Rightarrow> cycle_new env parse Q rid d obs snap data_status now dd act)"

definition new_orchestrator :: "contract_env \<Rightarrow> orchestrator" where
  "new_orchestrator env =
     \<lparr>or_contract = new_contract_engine,
      or_lifecycle = \<lparr>lc_executions = new_paper_state 500, lc_portfolio = new_portfolio env 10000 200,
        lc_reconciler = new_reconciler 500, lc_risk = new_risk_engine, lc_max = 500,
        lc_records = empty_store\<rparr>,
      or_max = 500, or_cache = empty_store\<rparr>"

section \<open>The readiness gate\<close>

record readiness_check =
  ck_name :: string
  ck_passed :: bool
  ck_detail :: string

record readiness_report =
  rp_id :: string
  rp_ready :: bool
  rp_checks :: "readiness_check list"
  rp_content_hash :: string
  rp_result_id :: "string option"
  rp_decision_id :: "string option"
  rp_cycle_id :: "string option"
  rp_reasons :: "string list"
  rp_provenance :: "pydict option"

type_synonym report_cache = "(string, readiness_report) dict"

definition check :: "string \<Rightarrow> bool \<Rightarrow> string \<Rightarrow> readiness_check" where
  "check n ok det = \<lparr>ck_name = n, ck_passed = ok, ck_detail = det\<rparr>"

text \<open>The keys of \<open>PaperPipelineResult.to_dict\<close>.\<close>

definition RESULT_KEYS :: "string list" where
  "RESULT_KEYS = [''result_id'', ''status'', ''lifecycle_state'', ''decision_id'', ''cycle_id'', ''intent_id'',
     ''lifecycle_id'', ''paper_execution_id'', ''portfolio_id'', ''reason_codes'', ''performance'',
     ''content_hash'', ''schema_version'', ''provenance'', ''notes'']"

definition NOT_READY_DATA :: "string list" where
  "NOT_READY_DATA = [''UNKNOWN'', ''STALE'', ''INVALID'', ''CORRUPTED'', ''BLOCKED'', ''MISSING'',
     ''UNAVAILABLE'', ''FAILED'']"

text \<open>A failed check leaves its reason.\<close>

definition readiness_checks ::
  "pipeline_result \<Rightarrow> string \<Rightarrow> (readiness_check \<times> string) list" where
  "readiness_checks r data_status =
     (let ok_pipe = (pl_status r \<in> {PL_COMPLETED, PL_RETURN_EXISTING});
          ds = py_upper data_status;
          ident = (\<lambda>n v. (check n (v \<noteq> []) v, ''missing_'' @ n)) in
      [(check ''pipeline'' ok_pipe (pipeline_value (pl_status r)),
          ''pipeline_'' @ py_lower (pipeline_value (pl_status r))),
       (check ''lifecycle'' (pl_lifecycle_state r = Some ''COMPLETED'')
          (str_or (pl_lifecycle_state r) ''missing''), ''lifecycle_incomplete''),
       ident ''decision_id'' (pl_decision_id r), ident ''cycle_id'' (pl_cycle_id r),
       ident ''intent_id'' (opt_get (pl_intent_id r) []),
       (check ''provenance'' (opt_get (pl_provenance r) [] \<noteq> [] \<and> pl_content_hash r \<noteq> []) [],
          ''missing_provenance''),
       (check ''data_status'' (ds \<notin> set NOT_READY_DATA) (if ds = [] then ''empty'' else ds),
          ''data_'' @ (if py_lower ds = [] then ''empty'' else py_lower ds)),
       (check ''no_live_fields'' (''order_id'' \<notin> set RESULT_KEYS \<and> ''position_id'' \<notin> set RESULT_KEYS) [],
          ''live_fields_present'')])"

definition make_report ::
  "contract_env \<Rightarrow> report_cache \<Rightarrow> readiness_check list \<Rightarrow> string list \<Rightarrow> pipeline_result option \<Rightarrow>
     readiness_report \<times> report_cache" where
  "make_report env c checks reasons pr =
     (let ready = (\<forall>k \<in> set checks. ck_passed k);
          payload = [(''status'', PyStr (if ready then ''READY'' else ''NOT_READY'')),
            (''checks'', PyList (map (\<lambda>k. PyStr (ck_name k @ '':'' @ (if ck_passed k then ''True'' else ''False''))) checks)),
            (''reasons'', PyList (map PyStr reasons)),
            (''pipe'', PyStr (case pr of None \<Rightarrow> [] | Some r \<Rightarrow> pl_id r)),
            (''schema'', PyStr ''paper-readiness-5h-v1'')];
          rid = ''ready-'' @ digest env payload in
      case map_of c rid of
        Some old \<Rightarrow> (old, c)
      | None \<Rightarrow>
          let rep = \<lparr>rp_id = rid, rp_ready = ready, rp_checks = checks,
                rp_content_hash = sha env (PyDict payload), rp_result_id = map_option pl_id pr,
                rp_decision_id = map_option pl_decision_id pr, rp_cycle_id = map_option pl_cycle_id pr,
                rp_reasons = reasons, rp_provenance = Some (build_paper_provenance env payload)\<rparr> in
          (rep, AList.update rid rep c))"

definition evaluate_result ::
  "contract_env \<Rightarrow> report_cache \<Rightarrow> pipeline_result \<Rightarrow> string \<Rightarrow> readiness_report \<times> report_cache" where
  "evaluate_result env c r data_status =
     (let cs = readiness_checks r data_status in
      make_report env c (map fst cs) (map snd (filter (\<lambda>(k, _). \<not> ck_passed k) cs)) (Some r))"

definition evaluate_readiness ::
  "contract_env \<Rightarrow> (string \<Rightarrow> flt option) \<Rightarrow> orchestrator \<Rightarrow> report_cache \<Rightarrow> decision_view option \<Rightarrow>
     pipeline_result option \<Rightarrow> pydict option \<Rightarrow> string \<Rightarrow> string option \<Rightarrow> flt option \<Rightarrow>
     (py_exc + readiness_report) \<times> orchestrator \<times> report_cache" where
  "evaluate_readiness env parse Q c d pr obs data_status now_iso dd =
     (case pr of
        Some r \<Rightarrow> (let (rep, c') = evaluate_result env c r data_status in (Inr rep, Q, c'))
      | None \<Rightarrow>
          (case d of
             None \<Rightarrow> (let (rep, c') = make_report env c [check ''decision'' False ''missing'']
                        [''missing_decision''] None in (Inr rep, Q, c'))
           | Some dv \<Rightarrow>
               (case run_paper_cycle env parse Q dv obs None data_status now_iso dd PAPER_ENTER of
                  (Inl e, Q') \<Rightarrow> (Inl e, Q', c)
                | (Inr r, Q') \<Rightarrow>
                    let (rep, c') = evaluate_result env c r data_status in (Inr rep, Q', c'))))"

end
