(* ===== verification/PaperProps.thy ===== *)
theory PaperProps
  imports PaperCycle
begin

text \<open>
  The guarantees of the paper pipeline: accounting over any run of cycles, what stands behind every
  change of the portfolio, the drawdown against its definition, and the answers of the contract engine.

  Identifiers are truncated hashes. Where a guarantee reads a cached verdict, the hypothesis
  \<open>separates H k v\<close> says that the hash tells a payload with the value \<open>v\<close> at \<open>k\<close> from one with another
  value there; nothing else is assumed about the hash.
\<close>

section \<open>The lifecycle walks its graph\<close>

interpretation lifecycle: state_graph can_transition "\<lambda>s. lifecycle_targets s = []"
  "\<lambda>s t. if can_transition s t then Inr t else Inl (s, t)"
  by unfold_locales (auto simp: can_transition_def split: if_splits)

lemma advanced_simps [simp]:
  "lr_state (advanced env r st now why) = st" "lr_id (advanced env r st now why) = lr_id r"
  "lr_execution_id (advanced env r st now why) = lr_execution_id r"
  by (simp_all add: advanced_def Let_def)

lemma lc_transition_ok:
  "can_transition (lr_state r) st \<Longrightarrow> lc_transition env L r st now why = (advanced env r st now why, L)"
  by (simp add: lc_transition_def)

lemma store_record_simps [simp]:
  "fst (store_record L r) = r" "lc_portfolio (snd (store_record L r)) = lc_portfolio L"
  "lc_risk (snd (store_record L r)) = lc_risk L" "lc_reconciler (snd (store_record L r)) = lc_reconciler L"
  "lc_executions (snd (store_record L r)) = lc_executions L"
  by (simp_all add: store_record_def)

lemma fail_record_simps [simp]:
  "lr_state (fst (fail_record env L r st now why)) = st"
  "lc_portfolio (snd (fail_record env L r st now why)) = lc_portfolio L"
  "lc_risk (snd (fail_record env L r st now why)) = lc_risk L"
  "lc_reconciler (snd (fail_record env L r st now why)) = lc_reconciler L"
  "lc_executions (snd (fail_record env L r st now why)) = lc_executions L"
  by (simp_all add: fail_record_def Let_def)

lemma can_transition_simps [simp]:
  "can_transition LS_CREATED LS_VALIDATED" "can_transition LS_VALIDATED LS_ACCEPTED"
  "can_transition LS_ACCEPTED LS_SIMULATED" "can_transition LS_SIMULATED LS_FILLED"
  "can_transition LS_FILLED LS_RECONCILED" "can_transition LS_RECONCILED LS_PORTFOLIO_APPLIED"
  "can_transition LS_PORTFOLIO_APPLIED LS_COMPLETED"
  by (simp_all add: can_transition_def)

lemma run_portfolio_outcome:
  assumes "lr_state r = LS_FILLED" and "portfolio_apply env (lc_portfolio L) pe (Some now) = (pst, pb)"
  shows "lr_state (fst (run_portfolio env L r pe now)) =
      (if pp_status pst = PB_INVALID then LS_FAILED else LS_COMPLETED) \<and>
    lc_portfolio (snd (run_portfolio env L r pe now)) = pb \<and>
    lc_risk (snd (run_portfolio env L r pe now)) = lc_risk L \<and>
    lc_reconciler (snd (run_portfolio env L r pe now)) = lc_reconciler L"
  using assms by (simp add: run_portfolio_def lc_transition_ok Let_def)

text \<open>Whatever is refused leaves the portfolio alone.\<close>

lemma invalid_unchanged:
  assumes "portfolio_apply env pb e now = (st, pb')" and "pp_status st = PB_INVALID"
  shows "pb' = pb"
  using assms(1) by (cases rule: portfolio_apply_cases) (use assms(2) in auto)

section \<open>Hash assumptions\<close>

definition separates :: "(pyval \<Rightarrow> string) \<Rightarrow> string \<Rightarrow> string \<Rightarrow> bool" where
  "separates H k v \<longleftrightarrow> (\<forall>p q. dget p k = PyStr v \<and> dget q k \<noteq> PyStr v \<longrightarrow>
     take 24 (H (PyDict p)) \<noteq> take 24 (H (PyDict q)))"

text \<open>The caches hold what their keys say.\<close>

definition risk_cache_ok :: "(pyval \<Rightarrow> string) \<Rightarrow> paper_risk_engine \<Rightarrow> bool" where
  "risk_cache_ok H re \<longleftrightarrow> (\<forall>k a. map_of (pr_cache re) k = Some a \<longrightarrow>
     (\<exists>p. k = ''risk-'' @ take 24 (H (PyDict p)) \<and>
       dget p ''decision'' = PyStr (safety_decision_value (ra_decision a))))"

definition reconciler_ok :: "(pyval \<Rightarrow> string) \<Rightarrow> paper_reconciler \<Rightarrow> bool" where
  "reconciler_ok H rc \<longleftrightarrow> bstore_inv (rc_max rc) (rc_cache rc) \<and>
     (\<forall>k r. bget (rc_cache rc) k = Some r \<longrightarrow>
       (\<exists>p. k = ''rec-'' @ take 24 (H (PyDict p)) \<and>
         dget p ''status'' = PyStr (rec_status_value (rr_status r))))"

lemma risk_payload_decision:
  "dget (risk_payload v reasons x) ''decision'' = PyStr (safety_decision_value (rv_decision v))"
  by (simp add: risk_payload_def dget_def)

lemma rec_payload_status: "dget (rec_payload e st reasons) ''status'' = PyStr (rec_status_value st)"
  by (simp add: rec_payload_def dget_def)

lemma safety_decision_value_inject [simp]:
  "safety_decision_value a = safety_decision_value b \<longleftrightarrow> a = b"
  by (cases a; cases b) simp_all

lemma rec_status_value_consistent [simp]: "rec_status_value st = ''CONSISTENT'' \<longleftrightarrow> st = RS_CONSISTENT"
  by (cases st) simp_all

text \<open>An allowed progression was allowed on its own inputs.\<close>

lemma fresh_assessment_key:
  "\<exists>p. ra_id (fresh_assessment env re x) = ''risk-'' @ take 24 (sha env (PyDict p)) \<and>
     dget p ''decision'' = PyStr (safety_decision_value (ra_decision (fresh_assessment env re x)))"
  unfolding fresh_assessment_def Let_def digest_def by (auto simp: risk_payload_decision)

lemma fresh_assessment_decision:
  "ra_decision (fresh_assessment env re x) = rv_decision (risk_verdict re x)"
  by (simp add: fresh_assessment_def Let_def)

lemma risk_evaluate_cases:
  assumes "risk_evaluate env re x = (a, re')"
  obtains (fresh) "map_of (pr_cache re) (ra_id a) = None" "a = fresh_assessment env re x"
      "re' = re\<lparr>pr_cache := AList.update (ra_id a) a (pr_cache re)\<rparr>"
    | (cached) "map_of (pr_cache re) (ra_id (fresh_assessment env re x)) = Some a" "re' = re"
  using assms by (auto simp: risk_evaluate_def Let_def split: option.splits)

lemma risk_evaluate_cache:
  assumes "risk_evaluate env re x = (a, re')" and "risk_cache_ok (sha env) re"
  shows "risk_cache_ok (sha env) re'"
  using assms(1)
proof (cases rule: risk_evaluate_cases)
  case fresh
  have "\<exists>p. k = ''risk-'' @ take 24 (sha env (PyDict p)) \<and>
      dget p ''decision'' = PyStr (safety_decision_value (ra_decision b))"
    if b: "map_of (pr_cache re') k = Some b" for k b
  proof (cases "k = ra_id a")
    case True
    with b fresh(3) have "b = a" by simp
    then show ?thesis using fresh_assessment_key [of env re x] fresh(2) True by metis
  next
    case False
    with b fresh(3) have "map_of (pr_cache re) k = Some b" by simp
    with assms(2) show ?thesis unfolding risk_cache_ok_def by blast
  qed
  then show ?thesis unfolding risk_cache_ok_def by blast
qed (use assms(2) in simp)

lemma risk_evaluate_engine:
  "risk_evaluate env re x = (a, re') \<Longrightarrow> pr_critical re' = pr_critical re"
  by (erule risk_evaluate_cases) simp_all

lemma risk_evaluate_sound:
  assumes "risk_evaluate env re x = (a, re')" and "risk_cache_ok (sha env) re"
    and "separates (sha env) ''decision'' ''PAPER_ALLOWED''" and "ra_decision a = PAPER_ALLOWED"
  shows "rv_decision (risk_verdict re x) = PAPER_ALLOWED"
  using assms(1)
proof (cases rule: risk_evaluate_cases)
  case fresh
  then show ?thesis using assms(4) by (simp add: fresh_assessment_decision)
next
  case cached
  obtain p where p: "ra_id (fresh_assessment env re x) = ''risk-'' @ take 24 (sha env (PyDict p))"
      "dget p ''decision'' = PyStr (safety_decision_value (rv_decision (risk_verdict re x)))"
    using fresh_assessment_key [of env re x] by (auto simp: fresh_assessment_decision)
  from cached(1) assms(2) obtain q where
      q: "ra_id (fresh_assessment env re x) = ''risk-'' @ take 24 (sha env (PyDict q))"
      "dget q ''decision'' = PyStr (safety_decision_value (ra_decision a))"
    unfolding risk_cache_ok_def by blast
  then have "dget p ''decision'' = PyStr ''PAPER_ALLOWED''"
    using assms(3,4) p(1) unfolding separates_def by (metis safety_decision_value.simps(1) same_append_eq)
  with p(2) show ?thesis by (cases "rv_decision (risk_verdict re x)") simp_all
qed

lemma reconcile_key:
  "\<exists>p. rr_record_id (reconcile_paper env e i now) = ''rec-'' @ take 24 (sha env (PyDict p)) \<and>
     dget p ''status'' = PyStr (rec_status_value (rr_status (reconcile_paper env e i now)))"
  unfolding reconcile_paper_def Let_def digest_def
  by (auto simp: rec_payload_status split: prod.splits)

lemma reconciler_cases:
  assumes "reconciler_reconcile env rc e i now = (r, rc')"
  obtains (fresh) "bget (rc_cache rc) (rr_record_id r) = None" "r = reconcile_paper env e i now"
      "rc' = rc\<lparr>rc_cache := bput (rc_max rc) (rr_record_id r) r (rc_cache rc)\<rparr>"
    | (cached) "bget (rc_cache rc) (rr_record_id (reconcile_paper env e i now)) = Some r" "rc' = rc"
  using assms by (auto simp: reconciler_reconcile_def Let_def split: option.splits)

lemma reconciler_cache:
  assumes "reconciler_reconcile env rc e i now = (r, rc')" and ok: "reconciler_ok (sha env) rc"
  shows "reconciler_ok (sha env) rc'"
  using assms(1)
proof (cases rule: reconciler_cases)
  case fresh
  have inv: "bstore_inv (rc_max rc) (rc_cache rc)" using ok by (simp add: reconciler_ok_def)
  have "\<exists>p. k = ''rec-'' @ take 24 (sha env (PyDict p)) \<and> dget p ''status'' = PyStr (rec_status_value (rr_status x))"
    if b: "bget (rc_cache rc') k = Some x" for k x
  proof -
    from b have "bget (bput (rc_max rc) (rr_record_id r) r (rc_cache rc)) k = Some x" by (simp add: fresh(3))
    from bput_entry [OF inv this] show ?thesis
      using ok reconcile_key [of env e i now] fresh(2) unfolding reconciler_ok_def by blast
  qed
  then show ?thesis
    using bput_inv [OF inv] unfolding reconciler_ok_def fresh(3) by simp
qed (use ok in simp)

lemma reconciler_sound:
  assumes "reconciler_reconcile env rc e i now = (r, rc')" and "reconciler_ok (sha env) rc"
    and "separates (sha env) ''status'' ''CONSISTENT''" and "rr_status r = RS_CONSISTENT"
  shows "rr_status (reconcile_paper env e i now) = RS_CONSISTENT"
  using assms(1)
proof (cases rule: reconciler_cases)
  case fresh
  then show ?thesis using assms(4) by simp
next
  case cached
  obtain p where p: "rr_record_id (reconcile_paper env e i now) = ''rec-'' @ take 24 (sha env (PyDict p))"
      "dget p ''status'' = PyStr (rec_status_value (rr_status (reconcile_paper env e i now)))"
    using reconcile_key by blast
  from cached(1) assms(2) obtain q where
      q: "rr_record_id (reconcile_paper env e i now) = ''rec-'' @ take 24 (sha env (PyDict q))"
      "dget q ''status'' = PyStr (rec_status_value (rr_status r))"
    unfolding reconciler_ok_def by blast
  then have "dget p ''status'' = PyStr ''CONSISTENT''"
    using assms(3,4) p(1) unfolding separates_def by (metis rec_status_value.simps(1) same_append_eq)
  with p(2) have "rec_status_value (rr_status (reconcile_paper env e i now)) = ''CONSISTENT''" by simp
  then show ?thesis by (simp only: rec_status_value_consistent)
qed

text \<open>What a consistent reconciliation says about an execution.\<close>

lemma downgrade_consistent:
  "fst (downgrade bad st why x) = RS_CONSISTENT \<Longrightarrow> st \<noteq> RS_CONSISTENT \<Longrightarrow> \<not> bad \<and> fst x = RS_CONSISTENT"
  by (cases x) (auto simp: downgrade_def split: if_splits)

lemma override_consistent:
  "fst (override bad st why x) = RS_CONSISTENT \<Longrightarrow> st \<noteq> RS_CONSISTENT \<Longrightarrow> \<not> bad \<and> fst x = RS_CONSISTENT"
  by (cases x) (auto simp: override_def split: if_splits)

definition matches :: "contract_env \<Rightarrow> paper_execution \<Rightarrow> execution_intent \<Rightarrow> string \<Rightarrow> bool" where
  "matches env e i now \<longleftrightarrow>
     pe_intent_id e = in_intent_id i \<and> pe_decision_id e = in_decision_id i \<and>
     pe_cycle_id e = in_cycle_id i \<and> pe_symbol e = in_symbol i \<and>
     pe_action e = action_value (in_action i) \<and> pe_content_hash e = recalc_paper_hash env e \<and>
     (now = [] \<or> pe_simulated_at e \<le> now)"

lemma consistent_matches:
  assumes "rr_status (reconcile_paper env e (Some i) (Some now)) = RS_CONSISTENT"
  shows "matches env e i now"
proof -
  have v: "fst (reconcile_verdict env e (Some i) PAPER_SCHEMA (Some now)) = RS_CONSISTENT"
    using assms by (simp add: reconcile_paper_def Let_def split: prod.splits)
  note 1 = downgrade_consistent [OF v[unfolded reconcile_verdict_def], simplified]
  note 2 = override_consistent [OF conjunct2 [OF 1], simplified]
  note 3 = downgrade_consistent [OF conjunct2 [OF 2], simplified]
  note 4 = override_consistent [OF conjunct2 [OF 3], simplified]
  note 5 = downgrade_consistent [OF conjunct2 [OF 4], simplified]
  show ?thesis
    using 2 4 5 by (auto simp: matches_def compare_intent_def opt_get_def not_less split: if_splits)
qed

section \<open>One cycle\<close>

text \<open>
  What stands behind a completed lifecycle: a simulated execution that (with a separating hash) matches
  the intent, accepted by the portfolio. A lifecycle that does not complete leaves the portfolio alone.
\<close>

definition backed ::
  "contract_env \<Rightarrow> portfolio_engine \<Rightarrow> paper_execution \<Rightarrow> execution_intent \<Rightarrow> string \<Rightarrow> portfolio_engine \<Rightarrow> bool" where
  "backed env pb e i now pb' \<longleftrightarrow>
     (separates (sha env) ''status'' ''CONSISTENT'' \<longrightarrow> matches env e i now) \<and>
     (\<exists>st. portfolio_apply env pb e (Some now) = (st, pb') \<and> pp_status st \<noteq> PB_INVALID)"

lemma run_reconcile_eq:
  assumes "lr_state r = LS_ACCEPTED"
    and "reconciler_reconcile env (lc_reconciler L) pe (Some i) (Some now) = (rrec, rc)"
  shows "\<exists>r3. lr_state r3 = LS_FILLED \<and> run_reconcile env L r i pe now =
    (if rr_status rrec \<noteq> RS_CONSISTENT then
       fail_record env (L\<lparr>lc_reconciler := rc\<rparr>) r3 (failure_of (rr_status rrec)) now
         [''reconcile_'' @ py_lower (rec_status_value (rr_status rrec))]
     else run_portfolio env (L\<lparr>lc_reconciler := rc\<rparr>) r3 pe now)"
  by (rule exI [of _ "advanced env (advanced env (r\<lparr>lr_execution_id := Some (pe_id pe),
        lr_fill_id := map_option pf_fill_id (pe_fill pe)\<rparr>) LS_SIMULATED now [''simulated''])
        LS_FILLED now [''filled'']\<lparr>lr_reconciliation_id := Some (rr_record_id rrec)\<rparr>"])
    (use assms in \<open>simp add: run_reconcile_def lc_transition_ok Let_def\<close>)

lemma Inr_pair: "(case x of (r, L) \<Rightarrow> (Inr r, L)) = (Inr (fst x), snd x)"
  by (simp add: case_prod_beta)

lemma run_reconcile_outcome:
  assumes r: "lr_state r = LS_ACCEPTED" and run: "run_reconcile env L r i pe now = (r', L')"
    and ok: "reconciler_ok (sha env) (lc_reconciler L)"
  shows "lc_risk L' = lc_risk L \<and> reconciler_ok (sha env) (lc_reconciler L') \<and>
    (if lr_state r' = LS_COMPLETED then backed env (lc_portfolio L) pe i now (lc_portfolio L')
     else lc_portfolio L' = lc_portfolio L)"
proof -
  obtain rrec rc where rec: "reconciler_reconcile env (lc_reconciler L) pe (Some i) (Some now) = (rrec, rc)"
    by fastforce
  define L1 where "L1 = L\<lparr>lc_reconciler := rc\<rparr>"
  have L1: "lc_portfolio L1 = lc_portfolio L" "lc_risk L1 = lc_risk L" "lc_reconciler L1 = rc"
    by (simp_all add: L1_def)
  have rc: "reconciler_ok (sha env) rc" by (rule reconciler_cache [OF rec ok])
  obtain r3 where r3: "lr_state r3 = LS_FILLED" and eq: "run_reconcile env L r i pe now =
      (if rr_status rrec \<noteq> RS_CONSISTENT then
         fail_record env L1 r3 (failure_of (rr_status rrec)) now
           [''reconcile_'' @ py_lower (rec_status_value (rr_status rrec))]
       else run_portfolio env L1 r3 pe now)"
    using run_reconcile_eq [OF r rec] unfolding L1_def by blast
  show ?thesis
  proof (cases "rr_status rrec = RS_CONSISTENT")
    case False
    have "failure_of (rr_status rrec) \<noteq> LS_COMPLETED" by (simp add: failure_of_def)
    moreover have "(r', L') = fail_record env L1 r3 (failure_of (rr_status rrec)) now
        [''reconcile_'' @ py_lower (rec_status_value (rr_status rrec))]"
      using False run eq by simp
    ultimately show ?thesis using rc L1
      fail_record_simps [of env L1 r3 "failure_of (rr_status rrec)" now] by (metis fst_conv snd_conv)
  next
    case True
    obtain st pb where ap: "portfolio_apply env (lc_portfolio L1) pe (Some now) = (st, pb)" by fastforce
    have "run_portfolio env L1 r3 pe now = (r', L')" using True run eq by simp
    with run_portfolio_outcome [OF r3 ap]
    have *: "lr_state r' = (if pp_status st = PB_INVALID then LS_FAILED else LS_COMPLETED)"
        "lc_portfolio L' = pb" "lc_risk L' = lc_risk L1" "lc_reconciler L' = rc"
      using L1 by simp_all
    have m: "separates (sha env) ''status'' ''CONSISTENT'' \<longrightarrow> matches env pe i now"
      using consistent_matches reconciler_sound [OF rec ok _ True] by blast
    show ?thesis
    proof (cases "pp_status st = PB_INVALID")
      case True
      with invalid_unchanged [OF ap] * L1 rc show ?thesis by simp
    next
      case False
      with * L1 rc m ap show ?thesis by (simp add: backed_def)
    qed
  qed
qed

lemma run_simulate_outcome:
  assumes r: "lr_state r = LS_VALIDATED" and run: "run_simulate env parse L r i obs snap now = (res, L')"
    and ok: "reconciler_ok (sha env) (lc_reconciler L)"
  shows "lc_risk L' = lc_risk L \<and> reconciler_ok (sha env) (lc_reconciler L') \<and>
    (if \<exists>r'. res = Inr r' \<and> lr_state r' = LS_COMPLETED
     then \<exists>e. pe_status e = PAPER_SIMULATED \<and> backed env (lc_portfolio L) e i now (lc_portfolio L')
     else lc_portfolio L' = lc_portfolio L)"
proof -
  obtain x ps where sim: "simulate env parse (lc_executions L) i obs snap (Some now) = (x, ps)" by fastforce
  define L2 where "L2 = L\<lparr>lc_executions := ps\<rparr>"
  have L2: "lc_portfolio L2 = lc_portfolio L" "lc_risk L2 = lc_risk L" "lc_reconciler L2 = lc_reconciler L"
    by (simp_all add: L2_def)
  define r1 where "r1 = advanced env r LS_ACCEPTED now [''accepted'']"
  have r1: "lr_state r1 = LS_ACCEPTED" by (simp add: r1_def)
  note run = run [unfolded run_simulate_def lc_transition_ok [of r LS_ACCEPTED, unfolded r, simplified]
      Let_def prod.case sim, folded L2_def r1_def]
  show ?thesis
  proof (cases x)
    case (Inl e)
    with run have "res = Inl e" "L' = L2" by simp_all
    with L2 ok show ?thesis by simp
  next
    case (Inr pe)
    show ?thesis
    proof (cases "pe_status pe \<noteq> PAPER_SIMULATED \<or> pe_fill pe = None")
      case True
      let ?why = "[''simulation_failed'', paper_status_value (pe_status pe)] @ take 3 (pe_reason_codes pe)"
      from True run Inr have "res = Inr (fst (fail_record env L2 r1 LS_REJECTED now ?why))"
          "L' = snd (fail_record env L2 r1 LS_REJECTED now ?why)"
        by (auto split: prod.splits)
      with L2 ok show ?thesis by simp
    next
      case False
      with run Inr obtain r' where r': "run_reconcile env L2 r1 i pe now = (r', L')" "res = Inr r'"
        by (auto split: prod.splits)
      from run_reconcile_outcome [OF r1 r'(1)] ok L2 r'(2) False show ?thesis
        by (auto split: if_splits)
    qed
  qed
qed

lemma run_new_outcome:
  assumes run: "run_new env parse L lid i obs snap data_status now dd = (res, L')"
    and ok: "reconciler_ok (sha env) (lc_reconciler L)" "risk_cache_ok (sha env) (lc_risk L)"
  shows "reconciler_ok (sha env) (lc_reconciler L') \<and> risk_cache_ok (sha env) (lc_risk L') \<and>
    pr_critical (lc_risk L') = pr_critical (lc_risk L) \<and>
    (if \<exists>r'. res = Inr r' \<and> lr_state r' = LS_COMPLETED
     then (separates (sha env) ''decision'' ''PAPER_ALLOWED'' \<longrightarrow>
             rv_decision (risk_verdict (lc_risk L) (gate_inputs i data_status now dd)) = PAPER_ALLOWED) \<and>
       (\<exists>e. pe_status e = PAPER_SIMULATED \<and> backed env (lc_portfolio L) e i now (lc_portfolio L'))
     else lc_portfolio L' = lc_portfolio L)"
proof -
  obtain a re where ev: "risk_evaluate env (lc_risk L) (gate_inputs i data_status now dd) = (a, re)" by fastforce
  note re = risk_evaluate_cache [OF ev ok(2)] risk_evaluate_engine [OF ev]
  define L2 where "L2 = L\<lparr>lc_risk := re\<rparr>"
  have L2: "lc_portfolio L2 = lc_portfolio L" "lc_risk L2 = re" "lc_reconciler L2 = lc_reconciler L"
    by (simp_all add: L2_def)
  define r where "r = advanced env (fresh_record lid i now) LS_VALIDATED now [''created'']"
  have r: "lr_state r = LS_VALIDATED" by (simp add: r_def)
  have "lr_state (fresh_record lid i now) = LS_CREATED" by (simp add: fresh_record_def)
  note tr = lc_transition_ok [of "fresh_record lid i now" LS_VALIDATED, unfolded this, simplified]
  note run = run [unfolded run_new_def tr Let_def prod.case allow_paper_progression_def ev,
      folded L2_def r_def]
  show ?thesis
  proof (cases "ra_decision a = PAPER_ALLOWED \<and> in_status i = IS_VALID")
    case False
    have "\<exists>st why. st \<noteq> LS_COMPLETED \<and> res = Inr (fst (fail_record env L2 r st now why)) \<and>
        L' = snd (fail_record env L2 r st now why)"
    proof (cases "ra_decision a = PAPER_ALLOWED")
      case True
      with False run show ?thesis
        by (intro exI [of _ LS_INVALID] exI [of _ "[''intent_not_valid'']"]) (simp add: Inr_pair)
    next
      case False
      with run show ?thesis
        by (intro exI [of _ LS_REJECTED] exI [of _ "[''safety_blocked'', risk_status_value (ra_status a)] @
            take 5 (ra_reasons a)"]) (simp add: Inr_pair)
    qed
    then obtain st why where "st \<noteq> LS_COMPLETED" "res = Inr (fst (fail_record env L2 r st now why))"
        "L' = snd (fail_record env L2 r st now why)" by blast
    with L2 ok re show ?thesis by simp
  next
    case True
    with run have "run_simulate env parse L2 r i obs snap now = (res, L')" by simp
    note s = run_simulate_outcome [OF r this, unfolded L2, OF ok(1)]
    have "separates (sha env) ''decision'' ''PAPER_ALLOWED'' \<longrightarrow>
        rv_decision (risk_verdict (lc_risk L) (gate_inputs i data_status now dd)) = PAPER_ALLOWED"
      using risk_evaluate_sound [OF ev ok(2)] True by blast
    with s re show ?thesis by (auto split: if_splits)
  qed
qed

lemma lifecycle_run_outcome:
  assumes run: "lifecycle_run env parse L i obs snap data_status (Some now) dd = (res, L')" and "now \<noteq> []"
    and ok: "reconciler_ok (sha env) (lc_reconciler L)" "risk_cache_ok (sha env) (lc_risk L)"
  shows "reconciler_ok (sha env) (lc_reconciler L') \<and> risk_cache_ok (sha env) (lc_risk L') \<and>
    pr_critical (lc_risk L') = pr_critical (lc_risk L) \<and>
    (lc_portfolio L' = lc_portfolio L \<or>
     (\<exists>r'. res = Inr r' \<and> lr_state r' = LS_COMPLETED) \<and>
       (separates (sha env) ''decision'' ''PAPER_ALLOWED'' \<longrightarrow>
             rv_decision (risk_verdict (lc_risk L) (gate_inputs i data_status now dd)) = PAPER_ALLOWED) \<and>
       (\<exists>e. pe_status e = PAPER_SIMULATED \<and> backed env (lc_portfolio L) e i now (lc_portfolio L')))"
proof -
  let ?lid = "make_lifecycle_id env (in_intent_id i) snap"
  have now: "str_or (Some now) (utc env) = now" using \<open>now \<noteq> []\<close> by (simp add: str_or_def)
  show ?thesis
  proof (cases "\<exists>r. bget (lc_records L) ?lid = Some r \<and> lr_state r = LS_COMPLETED")
    case True
    with run have "L' = L" by (auto simp: lifecycle_run_def Let_def)
    with ok show ?thesis by simp
  next
    case False
    with run have "run_new env parse L ?lid i obs snap data_status now dd = (res, L')"
      by (auto simp: lifecycle_run_def Let_def now split: option.splits)
    from run_new_outcome [OF this ok] show ?thesis by (auto split: if_splits)
  qed
qed

definition orch_ok :: "(pyval \<Rightarrow> string) \<Rightarrow> orchestrator \<Rightarrow> bool" where
  "orch_ok H Q \<longleftrightarrow> reconciler_ok H (lc_reconciler (or_lifecycle Q)) \<and>
     risk_cache_ok H (lc_risk (or_lifecycle Q)) \<and> bstore_inv (or_max Q) (or_cache Q)"

abbreviation book :: "orchestrator \<Rightarrow> portfolio_engine" where
  "book Q \<equiv> lc_portfolio (or_lifecycle Q)"

lemma store_result_simps [simp]:
  "fst (store_result Q r) = r" "or_lifecycle (snd (store_result Q r)) = or_lifecycle Q"
  "or_max (snd (store_result Q r)) = or_max Q"
  "or_cache (snd (store_result Q r)) = bput (or_max Q) (pl_id r) r (or_cache Q)"
  by (simp_all add: store_result_def)

lemma valid_intent_simps [simp]:
  "in_intent_id (valid_intent_of env i) = in_intent_id i"
  "in_decision_id (valid_intent_of env i) = in_decision_id i"
  "in_cycle_id (valid_intent_of env i) = in_cycle_id i"
  "in_symbol (valid_intent_of env i) = in_symbol i" "in_action (valid_intent_of env i) = in_action i"
  "in_decision_status (valid_intent_of env i) = in_decision_status i"
  by (simp_all add: valid_intent_of_def Let_def)

lemma result_ids [simp]:
  "pl_id (rejected_result env rid did cid iid why life) = rid"
  "pl_status (rejected_result env rid did cid iid why life) = PL_REJECTED"
  "pl_id (completed_result env rid did cid iid' lr m) = rid"
  "pl_status (completed_result env rid did cid iid' lr m) = PL_COMPLETED"
  by (simp_all add: rejected_result_def completed_result_def Let_def)

lemma life_result_simps [simp]:
  "pl_id (life_result env rid did cid iid life m) = rid"
  "pl_status (life_result env rid did cid iid life m) =
     (if lr_state life = LS_COMPLETED then PL_COMPLETED else PL_REJECTED)"
  by (simp_all add: life_result_def)

text \<open>The cases of a cycle whose result is not cached.\<close>

lemma cycle_new_cases:
  assumes run: "cycle_new env parse Q rid d obs snap data_status now dd act = (res, Q')"
    and i: "create_intent env (or_contract Q) d act (Some now) = (i, ce)"
  obtains
    (blocked) "py_upper (str_or (dv_status d) []) \<in> set BAD_DECISIONS" "or_lifecycle Q' = or_lifecycle Q"
      "\<exists>r. res = Inr r \<and> pl_id r = rid \<and> pl_status r = PL_REJECTED \<and>
        or_cache Q' = bput (or_max Q) rid r (or_cache Q)" "or_max Q' = or_max Q"
  | (raised) e where
      "lifecycle_run env parse (or_lifecycle Q) (valid_intent_of env i) obs snap data_status (Some now) dd
         = (Inl e, or_lifecycle Q')" "res = Inl e" "or_cache Q' = or_cache Q" "or_max Q' = or_max Q"
  | (ran) life where "py_upper (str_or (dv_status d) []) \<notin> set BAD_DECISIONS"
      "lifecycle_run env parse (or_lifecycle Q) (valid_intent_of env i) obs snap data_status (Some now) dd
         = (Inr life, or_lifecycle Q')"
      "\<exists>r. res = Inr r \<and> pl_id r = rid \<and>
        pl_status r = (if lr_state life = LS_COMPLETED then PL_COMPLETED else PL_REJECTED) \<and>
        or_cache Q' = bput (or_max Q) rid r (or_cache Q)" "or_max Q' = or_max Q"
proof -
  let ?Q1 = "Q\<lparr>or_contract := ce\<rparr>" and ?i = "valid_intent_of env i"
  note run = run [unfolded cycle_new_def i Let_def prod.case]
  show ?thesis
  proof (cases "py_upper (str_or (dv_status d) []) \<in> set BAD_DECISIONS")
    case True
    with run have "res = Inr (fst (store_result ?Q1 (rejected_result env rid (str_or (dv_decision_id d) [])
          (str_or (dv_cycle_id d) []) (Some (in_intent_id i))
          [''decision_'' @ py_lower (str_or (dv_status d) [])] None)))"
      "Q' = snd (store_result ?Q1 (rejected_result env rid (str_or (dv_decision_id d) [])
          (str_or (dv_cycle_id d) []) (Some (in_intent_id i))
          [''decision_'' @ py_lower (str_or (dv_status d) [])] None))"
      by (simp_all add: Inr_pair)
    with True show ?thesis by (intro blocked) simp_all
  next
    case False
    obtain x L where life: "lifecycle_run env parse (or_lifecycle Q) ?i obs snap data_status (Some now) dd = (x, L)"
      by fastforce
    show ?thesis
    proof (cases x)
      case (Inl e)
      with False run life have "res = Inl e" "Q' = ?Q1\<lparr>or_lifecycle := L\<rparr>" by simp_all
      with life Inl show ?thesis by (intro raised [of e]) simp_all
    next
      case (Inr lf)
      let ?r = "life_result env rid (str_or (dv_decision_id d) []) (str_or (dv_cycle_id d) [])
        (in_intent_id i) lf (compute_metrics env (lc_portfolio L))"
      from False run life Inr have "res = Inr ?r" "Q' = snd (store_result (?Q1\<lparr>or_lifecycle := L\<rparr>) ?r)"
        by (simp_all add: Inr_pair)
      with False life Inr show ?thesis by (intro ran [of lf]) simp_all
    qed
  qed
qed

lemma cycle_outcome:
  assumes run: "run_paper_cycle env parse Q d obs snap data_status now_iso dd act = (res, Q')"
    and ok: "orch_ok (sha env) Q" and now: "str_or now_iso (utc env) \<noteq> []"
    and i: "create_intent env (or_contract Q) d act (Some (str_or now_iso (utc env))) = (i, ce)"
  shows "orch_ok (sha env) Q' \<and> pr_critical (lc_risk (or_lifecycle Q')) = pr_critical (lc_risk (or_lifecycle Q)) \<and>
    (book Q' = book Q \<or>
     (\<exists>r. res = Inr r \<and> pl_status r = PL_COMPLETED) \<and>
     py_upper (str_or (dv_status d) []) \<notin> set BAD_DECISIONS \<and>
     (separates (sha env) ''decision'' ''PAPER_ALLOWED'' \<longrightarrow>
        rv_decision (risk_verdict (lc_risk (or_lifecycle Q))
          (gate_inputs (valid_intent_of env i) data_status (str_or now_iso (utc env)) dd)) = PAPER_ALLOWED) \<and>
     (\<exists>e. pe_status e = PAPER_SIMULATED \<and>
        backed env (book Q) e (valid_intent_of env i) (str_or now_iso (utc env)) (book Q')))"
proof -
  let ?now = "str_or now_iso (utc env)"
  consider "or_lifecycle Q' = or_lifecycle Q" "or_cache Q' = or_cache Q" "or_max Q' = or_max Q"
    | rid where "cycle_new env parse Q rid d obs snap data_status ?now dd act = (res, Q')"
    using run by (auto simp: run_paper_cycle_def Let_def split: sum.splits option.splits if_splits)
  then show ?thesis
  proof cases
    case 1
    with ok show ?thesis by (simp add: orch_ok_def)
  next
    case 2
    have o: "reconciler_ok (sha env) (lc_reconciler (or_lifecycle Q))"
        "risk_cache_ok (sha env) (lc_risk (or_lifecycle Q))" "bstore_inv (or_max Q) (or_cache Q)"
      using ok by (simp_all add: orch_ok_def)
    note put = bput_inv [OF o(3)]
    from 2 i show ?thesis
    proof (cases rule: cycle_new_cases)
      case blocked
      with o put show ?thesis by (auto simp: orch_ok_def)
    next
      case (raised e)
      note l = lifecycle_run_outcome [OF raised(1) now o(1,2)]
      with raised(2-4) o(3) show ?thesis by (auto simp: orch_ok_def)
    next
      case (ran life)
      note l = lifecycle_run_outcome [OF ran(2) now o(1,2)]
      from ran(3,4) put have "bstore_inv (or_max Q') (or_cache Q')" by auto
      with l ran(1,3) show ?thesis by (auto simp: orch_ok_def)
    qed
  qed
qed

section \<open>Runs\<close>

text \<open>
  The orchestrators reachable with a hash \<open>H\<close>: from a new one by cycles and by marking the portfolio
  to the market. The clock's text is never empty.
\<close>

definition mark_book :: "contract_env \<Rightarrow> orchestrator \<Rightarrow> flt \<Rightarrow> string option \<Rightarrow> orchestrator" where
  "mark_book env Q price now_iso =
     Q\<lparr>or_lifecycle := (or_lifecycle Q)\<lparr>lc_portfolio := snd (mark_to_market env (book Q) price now_iso)\<rparr>\<rparr>"

inductive paper_reach :: "(pyval \<Rightarrow> string) \<Rightarrow> orchestrator \<Rightarrow> bool" for H where
  start: "sha env = H \<Longrightarrow> paper_reach H (new_orchestrator env)"
| cycle: "paper_reach H Q \<Longrightarrow> sha env = H \<Longrightarrow> utc env \<noteq> [] \<Longrightarrow>
    run_paper_cycle env parse Q d obs snap data_status now_iso dd act = (res, Q') \<Longrightarrow> paper_reach H Q'"
| mark: "paper_reach H Q \<Longrightarrow> sha env = H \<Longrightarrow> paper_reach H (mark_book env Q price now_iso)"

lemma str_or_nonempty: "b \<noteq> [] \<Longrightarrow> str_or a b \<noteq> []"
  by (simp add: str_or_def split: option.splits)

definition run_inv :: "(pyval \<Rightarrow> string) \<Rightarrow> orchestrator \<Rightarrow> bool" where
  "run_inv H Q \<longleftrightarrow> orch_ok H Q \<and> book_inv (book Q) \<and> pb_initial (book Q) = 10000 \<and>
     pb_max_history (book Q) = 200 \<and> pr_critical (lc_risk (or_lifecycle Q)) = 25 / 100 \<and> or_max Q = 500"

lemma apply_frame:
  assumes "portfolio_apply env pb e now = (st, pb')"
  shows "pb_initial pb' = pb_initial pb \<and> pb_max_history pb' = pb_max_history pb"
  using assms by (cases rule: portfolio_apply_cases) (simp_all add: commit_def Let_def)

lemma cycle_or_max:
  assumes "run_paper_cycle env parse Q d obs snap data_status now_iso dd act = (res, Q')"
  shows "or_max Q' = or_max Q"
proof -
  let ?now = "str_or now_iso (utc env)"
  obtain i ce where i: "create_intent env (or_contract Q) d act (Some ?now) = (i, ce)" by fastforce
  consider "or_max Q' = or_max Q"
    | rid where "cycle_new env parse Q rid d obs snap data_status ?now dd act = (res, Q')"
    using assms by (auto simp: run_paper_cycle_def Let_def split: sum.splits option.splits if_splits)
  then show ?thesis
  proof cases
    case 2
    from 2 i show ?thesis by (cases rule: cycle_new_cases)
  qed
qed

lemma cycle_inv:
  assumes run: "run_paper_cycle env parse Q d obs snap data_status now_iso dd act = (res, Q')"
    and inv: "run_inv (sha env) Q" and utc: "utc env \<noteq> []"
  shows "run_inv (sha env) Q'"
proof -
  let ?now = "str_or now_iso (utc env)"
  obtain i ce where i: "create_intent env (or_contract Q) d act (Some ?now) = (i, ce)" by fastforce
  have ok: "orch_ok (sha env) Q" using inv by (simp add: run_inv_def)
  note out = cycle_outcome [OF run ok str_or_nonempty [OF utc] i]
  have "book_inv (book Q') \<and> pb_initial (book Q') = pb_initial (book Q) \<and>
      pb_max_history (book Q') = pb_max_history (book Q)"
  proof (cases "book Q' = book Q")
    case True
    with inv show ?thesis by (simp add: run_inv_def)
  next
    case False
    with out obtain e st where "portfolio_apply env (book Q) e (Some ?now) = (st, book Q')"
      by (auto simp: backed_def)
    with apply_frame [OF this] portfolio_apply_inv [of "book Q" env e "Some ?now"] inv show ?thesis
      by (simp add: run_inv_def)
  qed
  with out inv cycle_or_max [OF run] show ?thesis by (simp add: run_inv_def)
qed

lemma reach_inv: "paper_reach H Q \<Longrightarrow> run_inv H Q"
proof (induction rule: paper_reach.induct)
  case (start env)
  show ?case
    by (simp add: run_inv_def new_orchestrator_def book_inv_new orch_ok_def reconciler_ok_def
        new_reconciler_def empty_store_def bstore_inv_def bget_def risk_cache_ok_def new_risk_engine_def)
      (simp add: new_portfolio_def)
next
  case (cycle Q env parse d obs snap data_status now_iso dd act res Q')
  then show ?case using cycle_inv by blast
next
  case (mark Q env price now_iso)
  have "pb_max_history (snd (mark_to_market env (book Q) price now_iso)) = pb_max_history (book Q)"
    by (simp add: mark_to_market_def commit_def Let_def split: option.splits)
  with mark.IH mark_to_market_inv [of "book Q" env price now_iso] show ?case
    by (auto simp: run_inv_def mark_book_def orch_ok_def mark_to_market_initial)
qed

section \<open>A concrete cycle\<close>

definition demo_sha :: "pyval \<Rightarrow> string" where
  "demo_sha v = (case v of
     PyDict p \<Rightarrow> (if dget p ''decision'' = PyStr ''PAPER_ALLOWED'' then ''a'' else ''b'') @
       (if dget p ''status'' = PyStr ''CONSISTENT'' then ''a'' else ''b'')
   | _ \<Rightarrow> [])"

definition demo_env :: contract_env where
  "demo_env = \<lparr>sha = demo_sha, uuid4 = (\<lambda>_. ''u''), utc = ''2026''\<rparr>"

definition demo_decision :: decision_view where
  "demo_decision = \<lparr>dv_decision_id = Some ''d1'', dv_cycle_id = Some ''c1'', dv_opportunity_id = None,
     dv_symbol = Some ''EUR'', dv_strategy_ref = None, dv_status = Some ''SELECTED'', dv_evidence_refs = []\<rparr>"

definition demo_obs :: "pydict option" where
  "demo_obs = Some [(''EUR'', PyDict [(''values'', PyList [PyNum 100])])]"

definition demo_cycle :: "orchestrator \<Rightarrow> (py_exc + pipeline_result) \<times> orchestrator" where
  "demo_cycle Q = run_paper_cycle demo_env (\<lambda>_. None) Q demo_decision demo_obs None ''HEALTHY'' None None
     PAPER_ENTER"

lemma demo_separates:
  "separates demo_sha ''decision'' ''PAPER_ALLOWED''" "separates demo_sha ''status'' ''CONSISTENT''"
  by (simp_all add: separates_def demo_sha_def)

text \<open>What the witnesses read off the demonstration cycle, evaluated once.\<close>

definition cycle_summary ::
  "(py_exc + pipeline_result) \<times> orchestrator \<Rightarrow> pipeline_status option \<times> portfolio_status \<times> flt \<times> bool" where
  "cycle_summary x = ((case fst x of Inr r \<Rightarrow> Some (pl_status r) | Inl _ \<Rightarrow> None),
     pp_status (pb_state (book (snd x))), pp_cash (pb_state (book (snd x))),
     0 < pb_initial (book (snd x)) \<and> pb_history (book (snd x)) \<noteq> [])"

lemma demo_summary:
  "cycle_summary (demo_cycle (new_orchestrator demo_env)) = (Some PL_COMPLETED, OPEN_PAPER, 9900, True)"
  by code_simp

lemma demo_completed:
  "\<exists>r. fst (demo_cycle (new_orchestrator demo_env)) = Inr r \<and> pl_status r = PL_COMPLETED"
  "pp_status (pb_state (book (snd (demo_cycle (new_orchestrator demo_env))))) = OPEN_PAPER"
  "pp_cash (pb_state (book (snd (demo_cycle (new_orchestrator demo_env))))) = 9900"
  "0 < pb_initial (book (snd (demo_cycle (new_orchestrator demo_env))))"
  "pb_history (book (snd (demo_cycle (new_orchestrator demo_env)))) \<noteq> []"
  using demo_summary by (auto simp: cycle_summary_def split: sum.splits)

lemma demo_empty: "pp_status (pb_state (book (new_orchestrator env))) = PB_EMPTY"
  by (simp add: new_orchestrator_def new_portfolio_def empty_state_def Let_def)

lemma demo_reach: "paper_reach demo_sha (snd (demo_cycle (new_orchestrator demo_env)))"
proof (rule paper_reach.cycle [where env = demo_env and Q = "new_orchestrator demo_env"])
  show "paper_reach demo_sha (new_orchestrator demo_env)" by (rule start) (simp add: demo_env_def)
  show "run_paper_cycle demo_env (\<lambda>_. None) (new_orchestrator demo_env) demo_decision demo_obs None
      ''HEALTHY'' None None PAPER_ENTER
    = (fst (demo_cycle (new_orchestrator demo_env)), snd (demo_cycle (new_orchestrator demo_env)))"
    by (simp add: demo_cycle_def)
qed (simp_all add: demo_env_def)

section \<open>Properties\<close>

text \<open>C38: The paper accounts balance over any run of cycles and markings: cash and the entry value of the
  holding add up to the initial cash and the realised result, equity is the initial cash plus the
  realised and unrealised result, and the history stays within its bound.\<close>

theorem paper_accounts_balance:
  assumes "paper_reach H Q"
  shows "pp_cash (pb_state (book Q)) +
      (case pp_holding (pb_state (book Q)) of None \<Rightarrow> 0 | Some hld \<Rightarrow> hd_entry_price hld)
        = 10000 + pp_realized (pb_state (book Q)) \<and>
    pp_equity (pb_state (book Q)) = 10000 + pp_realized (pb_state (book Q)) + pp_unrealized (pb_state (book Q)) \<and>
    length (pb_history (book Q)) \<le> 200"
  using reach_inv [OF assms]
  by (auto simp: run_inv_def book_inv_def balanced_def UNIT_def split: option.splits)

theorem paper_accounts_balance_witness:
  "pp_equity (pb_state (book (snd (demo_cycle (new_orchestrator demo_env))))) =
     10000 + pp_realized (pb_state (book (snd (demo_cycle (new_orchestrator demo_env))))) +
       pp_unrealized (pb_state (book (snd (demo_cycle (new_orchestrator demo_env))))) \<and>
   pp_cash (pb_state (book (snd (demo_cycle (new_orchestrator demo_env))))) = 9900"
  using paper_accounts_balance [OF demo_reach] demo_completed(3) by blast

text \<open>C37: Every change a cycle makes to the paper portfolio went past every gate: the result is
  COMPLETED, the decision's status is not a refused one, the data status is healthy, the drawdown is
  below the critical one, the execution is simulated, belongs to the cycle's intent in every
  identifier, carries its own hash and is not from the future, and the portfolio moved by exactly its
  entry or exit at the observed price.\<close>

theorem portfolio_change_passed_every_gate:
  fixes now_iso :: "string option"
  defines "now \<equiv> \<lambda>env. str_or now_iso (utc env)"
  assumes "paper_reach (sha env) Q" and "utc env \<noteq> []"
    and "separates (sha env) ''decision'' ''PAPER_ALLOWED''" and "separates (sha env) ''status'' ''CONSISTENT''"
    and "run_paper_cycle env parse Q d obs snap data_status now_iso dd act = (res, Q')"
    and "book Q' \<noteq> book Q"
  shows "\<exists>r e i price. res = Inr r \<and> pl_status r = PL_COMPLETED \<and>
    i = fst (create_intent env (or_contract Q) d act (Some (now env))) \<and>
    py_upper (str_or (dv_status d) []) \<notin> set BAD_DECISIONS \<and>
    py_upper data_status \<notin> set ([''UNKNOWN'', ''STALE''] @ BAD_DATA) \<and> opt_get dd 0 < 25 / 100 \<and>
    pe_status e = PAPER_SIMULATED \<and> matches env e (valid_intent_of env i) (now env) \<and>
    map_option pf_reference_price (pe_fill e) = Some (Some price) \<and>
    (pe_action e = ''PAPER_ENTER'' \<and> pp_holding (pb_state (book Q)) = None \<and>
       pb_state (book Q') = entered_state env (pb_state (book Q)) e price (now env) \<or>
     pe_action e = ''PAPER_EXIT'' \<and> (\<exists>hld. pp_holding (pb_state (book Q)) = Some hld \<and>
       hd_symbol hld = pe_symbol e \<and>
       pb_state (book Q') = exited_state env (pb_state (book Q)) hld e price (now env)))"
proof -
  have inv: "orch_ok (sha env) Q" "pr_critical (lc_risk (or_lifecycle Q)) = 25 / 100"
    using reach_inv [OF assms(2)] by (simp_all add: run_inv_def)
  obtain i ce where i: "create_intent env (or_contract Q) d act (Some (str_or now_iso (utc env))) = (i, ce)"
    by fastforce
  note out = cycle_outcome [OF assms(6) inv(1) str_or_nonempty [OF assms(3)] i]
  have now: "str_or now_iso (utc env) = now env" by (simp add: now_def)
  from out assms(4,7) obtain r e where r: "res = Inr r" "pl_status r = PL_COMPLETED"
      "py_upper (str_or (dv_status d) []) \<notin> set BAD_DECISIONS"
      "rv_decision (risk_verdict (lc_risk (or_lifecycle Q))
        (gate_inputs (valid_intent_of env i) data_status (now env) dd)) = PAPER_ALLOWED"
      "pe_status e = PAPER_SIMULATED" "backed env (book Q) e (valid_intent_of env i) (now env) (book Q')"
    unfolding now by blast
  have g: "py_upper data_status \<notin> set ([''UNKNOWN'', ''STALE''] @ BAD_DATA)" "opt_get dd 0 < 25 / 100"
    using r(4) [unfolded risk_verdict_allowed] inv(2)
    by (auto simp: gate_inputs_def opt_get_def Let_def split: option.splits)
  from r(6) assms(5) obtain st where m: "matches env e (valid_intent_of env i) (now env)"
      and ap: "portfolio_apply env (book Q) e (Some (now env)) = (st, book Q')"
    by (auto simp: backed_def)
  have n: "str_or (Some (now env)) (utc env) = now env"
    using str_or_nonempty [OF assms(3), of now_iso] by (simp add: now_def str_or_def)
  from ap assms(7) have "\<exists>price. map_option pf_reference_price (pe_fill e) = Some (Some price) \<and>
    (pe_action e = ''PAPER_ENTER'' \<and> pp_holding (pb_state (book Q)) = None \<and>
       pb_state (book Q') = entered_state env (pb_state (book Q)) e price (now env) \<or>
     pe_action e = ''PAPER_EXIT'' \<and> (\<exists>hld. pp_holding (pb_state (book Q)) = Some hld \<and>
       hd_symbol hld = pe_symbol e \<and>
       pb_state (book Q') = exited_state env (pb_state (book Q)) hld e price (now env)))"
    by (cases rule: portfolio_apply_cases) (auto simp: n commit_def Let_def)
  with r(1-3,5) i g m now show ?thesis by (intro exI [of _ r] exI [of _ e] exI [of _ i]) simp
qed

theorem portfolio_change_passed_every_gate_witness:
  "\<exists>r. fst (demo_cycle (new_orchestrator demo_env)) = Inr r \<and> pl_status r = PL_COMPLETED"
proof -
  let ?Q = "new_orchestrator demo_env" and ?Q' = "snd (demo_cycle (new_orchestrator demo_env))"
  have s: "sha demo_env = demo_sha" "utc demo_env \<noteq> []" by (simp_all add: demo_env_def)
  have reach: "paper_reach (sha demo_env) ?Q" by (rule start) simp
  have run: "run_paper_cycle demo_env (\<lambda>_. None) ?Q demo_decision demo_obs None ''HEALTHY'' None None
      PAPER_ENTER = (fst (demo_cycle ?Q), ?Q')" by (simp add: demo_cycle_def)
  have "book ?Q' \<noteq> book ?Q" using demo_completed(2) demo_empty [of demo_env] by force
  from portfolio_change_passed_every_gate [OF reach s(2) demo_separates(1)[folded s(1)]
      demo_separates(2)[folded s(1)] run this] show ?thesis by blast
qed

text \<open>C39: The maximum drawdown that the loop with its running peak computes is the maximum, over all
  recorded equities, of the fall from the highest equity before them.\<close>

theorem drawdown_is_largest_fall_from_peak:
  assumes "0 < pb_initial pb" and "pb_history pb \<noteq> []" and "pp_status (pb_state pb) \<noteq> PB_CORRUPTED"
  shows "pm_max_drawdown (compute_metrics env pb) =
    Some (Max (insert 0 (drawdown_at (pb_initial pb) (map pp_equity (pb_history pb)) ` {..<length (pb_history pb)})))"
  using assms drawdown_loop_spec [OF assms(1), of 0 "map pp_equity (pb_history pb)"]
  by (simp add: compute_metrics_def max_drawdown_of_def Let_def)

theorem drawdown_is_largest_fall_from_peak_witness:
  "\<exists>dd. pm_max_drawdown (compute_metrics demo_env (book (snd (demo_cycle (new_orchestrator demo_env))))) = Some dd \<and> 0 \<le> dd"
proof -
  let ?pb = "book (snd (demo_cycle (new_orchestrator demo_env)))"
  have "pp_status (pb_state ?pb) \<noteq> PB_CORRUPTED" using demo_completed(2) by simp
  then show ?thesis
    using drawdown_is_largest_fall_from_peak [OF demo_completed(4,5), of demo_env] by simp
qed

text \<open>A cycle that completed is not done again: repeating it, at any time and under any data status,
  returns the stored result as an existing one and leaves the orchestrator as it is.\<close>

theorem completed_cycle_is_idempotent:
  assumes "paper_reach (sha env) Q" and "sha env' = sha env"
    and "run_paper_cycle env parse Q d obs snap data_status now_iso dd act = (Inr r, Q')"
    and "pl_status r = PL_COMPLETED"
  shows "run_paper_cycle env' parse' Q' d obs snap data_status' now_iso' dd' act = (Inr (existing_result r), Q')"
proof -
  let ?now = "str_or now_iso (utc env)"
  obtain i ce where i: "create_intent env (or_contract Q) d act (Some ?now) = (i, ce)" by fastforce
  have inv: "bstore_inv (or_max Q) (or_cache Q)" "0 < or_max Q"
    using reach_inv [OF assms(1)] by (auto simp: run_inv_def orch_ok_def)
  obtain key where key: "cycle_key d obs snap act = Inr key"
    using assms(3) by (auto simp: run_paper_cycle_def split: sum.splits)
  let ?rid = "''pipe-'' @ digest env key"
  have "existing_result x \<noteq> r" for x using assms(4) by (auto simp: existing_result_def)
  with assms(3) key have new: "cycle_new env parse Q ?rid d obs snap data_status ?now dd act = (Inr r, Q')"
    by (auto simp: run_paper_cycle_def Let_def split: option.splits if_splits)
  from new i have "or_cache Q' = bput (or_max Q) ?rid r (or_cache Q)"
    by (cases rule: cycle_new_cases) (use assms(4) in auto)
  with bput_get [OF inv] have "bget (or_cache Q') ?rid = Some r" by simp
  moreover have "digest env' key = digest env key" using assms(2) by (simp add: digest_def)
  ultimately show ?thesis using key assms(4) by (simp add: run_paper_cycle_def Let_def)
qed

theorem completed_cycle_is_idempotent_witness:
  "\<exists>r. demo_cycle (snd (demo_cycle (new_orchestrator demo_env))) =
     (Inr (existing_result r), snd (demo_cycle (new_orchestrator demo_env)))"
proof -
  let ?Q = "new_orchestrator demo_env"
  obtain r where r: "fst (demo_cycle ?Q) = Inr r" "pl_status r = PL_COMPLETED"
    using demo_completed(1) by blast
  have "paper_reach (sha demo_env) ?Q" by (rule start) simp
  moreover have "run_paper_cycle demo_env (\<lambda>_. None) ?Q demo_decision demo_obs None ''HEALTHY'' None None
      PAPER_ENTER = (Inr r, snd (demo_cycle ?Q))" using r(1) by (simp add: demo_cycle_def prod_eq_iff)
  ultimately show ?thesis
    using completed_cycle_is_idempotent [OF _ refl _ r(2)] unfolding demo_cycle_def by blast
qed

inductive contract_reach :: "contract_engine \<Rightarrow> bool" where
  start: "contract_reach new_contract_engine"
| shadow: "contract_reach ce \<Longrightarrow> execute_shadow env ce d act now = (r, ce') \<Longrightarrow> contract_reach ce'"

lemma contract_reach_inv: "contract_reach ce \<Longrightarrow> contract_inv ce"
proof (induction rule: contract_reach.induct)
  case start
  show ?case by (simp add: contract_inv_def new_contract_engine_def)
next
  case shadow
  then show ?case using execute_shadow_simulated by blast
qed

text \<open>Over any sequence of decisions put through the execution contract no result ever says that
  something was executed: it is simulated, and either a null execution or a rejection.\<close>

theorem contract_never_executes:
  assumes "contract_reach ce" and "execute_shadow env ce d act now = (r, ce')"
  shows "\<not> er_executed r \<and> er_simulated r \<and> er_status r \<in> {NULL_EXECUTED, RES_REJECTED}"
  using execute_shadow_simulated [OF assms(2) contract_reach_inv [OF assms(1)]]
  by (simp add: simulated_only_def)

theorem contract_never_executes_witness:
  "\<not> er_executed (fst (execute_shadow demo_env new_contract_engine demo_decision PAPER_ENTER None))"
  using contract_never_executes [OF contract_reach.start, of demo_env demo_decision PAPER_ENTER None]
  by (metis prod.collapse)

section \<open>What modelling showed\<close>

text \<open>A rejected execution carries a hash of other fields than the reconciliation recomputes: it never
  reconciles as consistent, it is reported as corrupted.\<close>

lemma verdict_fst:
  "fst (override bad st why x) = (if bad then st else fst x)"
  "fst (downgrade bad st why x) = (if bad \<and> fst x = RS_CONSISTENT then st else fst x)"
  by (cases x; simp add: override_def downgrade_def)+

lemma rejected_never_reconciles:
  assumes "sha env (PyDict (reject_payload pid (in_intent_id i) st why)) \<noteq>
      sha env (PyDict (exec_payload pid (in_intent_id i) (in_decision_id i) st []))"
    and now: "\<not> (opt_get now' [] \<noteq> [] \<and> opt_get now' [] < now)"
  shows "rr_status (reconcile_paper env (rejected_execution env pid i now why st) (Some i) now') = RS_CORRUPTED"
proof -
  let ?e = "rejected_execution env pid i now why st"
  have "pe_content_hash ?e \<noteq> recalc_paper_hash env ?e" "pe_simulated_at ?e = now"
    using assms(1) by (simp_all add: rejected_execution_def recalc_paper_hash_def Let_def)
  then have "fst (reconcile_verdict env ?e (Some i) PAPER_SCHEMA now') = RS_CORRUPTED"
    using now unfolding reconcile_verdict_def verdict_fst by auto
  then show ?thesis by (simp add: reconcile_paper_def Let_def case_prod_beta)
qed

text \<open>Recovery of a corrupted execution simulates again, and the simulation answers with whatever is
  stored under the identity: the stored record is handed back, corrupted or not.\<close>

lemma recovery_returns_stored:
  assumes "paper_key i obs snap = Inr key" and "state_get ps (make_paper_id env key) = Some old"
    and "reconciler_reconcile env rc e (Some i) now = (r, rc')" and "rr_status r = RS_CORRUPTED"
  shows "recover env parse ps rc e (Some i) obs snap now = (Inr (r, Some old), ps, rc')"
  using assms by (simp add: recover_def simulate_def)

text \<open>The gate of the lifecycle is asked without the portfolio, and an entry is not checked against the
  cash: it goes through at any price.\<close>

lemma gate_ignores_portfolio: "ri_portfolio (gate_inputs i data_status now dd) = None"
  by (simp add: gate_inputs_def)

lemma entry_ignores_cash:
  assumes "pp_holding (pb_state pb) = None" and "pp_cash (pb_state pb) < price"
  shows "pp_cash (fst (portfolio_enter env pb e price now)) < 0 \<and>
    pp_status (fst (portfolio_enter env pb e price now)) = OPEN_PAPER"
  using assms by (simp add: portfolio_enter_def entered_state_def UNIT_def Let_def)

text \<open>An intent made from a decision never has a time until which it is valid, so the validator's check
  of that time never refuses.\<close>

lemma fresh_intent_no_expiry: "in_valid_until (fresh_intent env d act now) = None"
  by (simp add: fresh_intent_def Let_def)

end
