(* ===== verification/MlState.thy ===== *)
theory MlState
  imports PyJson
begin

text \<open>
  The lifecycle statuses of a model and the advisory gates around it: \<^verbatim>\<open>god/ml/state_machine.py\<close>
  (the graph of legal status changes and its audited application), \<^verbatim>\<open>god/ml/freshness.py\<close>,
  \<^verbatim>\<open>god/ml/degradation.py\<close>, the drift flags of \<^verbatim>\<open>god/ml/drift.py\<close> and the score and
  report of \<^verbatim>\<open>god/ml/health.py\<close>. Statuses are strings, as in the code, since the registry
  reads them from a file. Parsing a time stamp and the statistics of a sample (PSI, the regime of a
  price series) are inputs.
\<close>

section \<open>Statuses\<close>

definition TRAINING :: string where "TRAINING = ''training''"
definition VALIDATED :: string where "VALIDATED = ''validated''"
definition CANDIDATE :: string where "CANDIDATE = ''candidate''"
definition OOS :: string where "OOS = ''oos''"
definition CHALLENGER :: string where "CHALLENGER = ''challenger''"
definition PROMOTION_GATE :: string where "PROMOTION_GATE = ''promotion_gate''"
definition CHAMPION :: string where "CHAMPION = ''champion''"
definition REJECTED :: string where "REJECTED = ''rejected''"
definition ROLLED_BACK :: string where "ROLLED_BACK = ''rolled_back''"
definition RETIRED :: string where "RETIRED = ''retired''"

lemmas statuses = TRAINING_def VALIDATED_def CANDIDATE_def OOS_def CHALLENGER_def
  PROMOTION_GATE_def CHAMPION_def REJECTED_def ROLLED_BACK_def RETIRED_def

definition LEGAL_TRANSITIONS :: "(string, string list) dict" where
  "LEGAL_TRANSITIONS =
     [(TRAINING, [VALIDATED, REJECTED]),
      (VALIDATED, [CANDIDATE, REJECTED]),
      (CANDIDATE, [OOS, REJECTED, CHALLENGER]),
      (OOS, [CHALLENGER, REJECTED]),
      (CHALLENGER, [PROMOTION_GATE, REJECTED]),
      (PROMOTION_GATE, [CHAMPION, REJECTED, CHALLENGER]),
      (CHAMPION, [ROLLED_BACK, RETIRED]),
      (REJECTED, []),
      (ROLLED_BACK, [RETIRED]),
      (RETIRED, [])]"

definition REGISTRY_ALIASES :: "(string, string) dict" where
  "REGISTRY_ALIASES =
     [(''candidate'', CANDIDATE), (''champion'', CHAMPION), (''retired'', RETIRED),
      (''rolled_back'', ROLLED_BACK), (''challenger'', CHALLENGER), (''rejected'', REJECTED)]"

definition normalize_status :: "string \<Rightarrow> string" where
  "normalize_status status =
     (let s = py_lower (py_strip status) in dict_get REGISTRY_ALIASES s s)"

definition is_legal_transition :: "string \<Rightarrow> string \<Rightarrow> bool" where
  "is_legal_transition from_status to_status =
     (let src = normalize_status from_status; dst = normalize_status to_status in
      if src = dst then True
      else case map_of LEGAL_TRANSITIONS src of
             None \<Rightarrow> dst \<in> set [CANDIDATE, CHAMPION, REJECTED, RETIRED, ROLLED_BACK]
           | Some allowed \<Rightarrow> dst \<in> set allowed)"

record transition_result =
  tr_allowed :: bool
  tr_from :: string
  tr_to :: string
  tr_reason :: string
  tr_model_id :: string
  tr_model_version :: string
  tr_recorded_at :: string

definition transition_to_dict :: "transition_result \<Rightarrow> pydict" where
  "transition_to_dict r =
     [(''allowed'', PyBool (tr_allowed r)), (''from_status'', PyStr (tr_from r)),
      (''to_status'', PyStr (tr_to r)), (''reason'', PyStr (tr_reason r)),
      (''model_id'', PyStr (tr_model_id r)), (''model_version'', PyStr (tr_model_version r)),
      (''recorded_at'', PyStr (tr_recorded_at r))]"

definition validate_transition ::
    "string \<Rightarrow> string \<Rightarrow> string \<Rightarrow> string \<Rightarrow> string \<Rightarrow> transition_result" where
  "validate_transition now from_status to_status mid ver =
     (let src = normalize_status from_status; dst = normalize_status to_status;
          ok = is_legal_transition src dst
      in \<lparr>tr_allowed = ok, tr_from = src, tr_to = dst,
          tr_reason = (if ok then ''ok'' else ''illegal_transition:'' @ src @ ''->'' @ dst),
          tr_model_id = mid, tr_model_version = ver, tr_recorded_at = now\<rparr>)"

text \<open>
  The optional audit sink: \<open>None\<close> is no sink, otherwise a record is appended. A sink that
  raises has no effect in the code, and none here.
\<close>

record audit_event =
  ev_kind :: string
  ev_model_id :: string
  ev_model_version :: string
  ev_outcome :: string
  ev_detail :: pydict

type_synonym audit = "audit_event list option"

definition audit_record :: "audit_event \<Rightarrow> audit \<Rightarrow> audit" where
  "audit_record e a = map_option (\<lambda>es. es @ [e]) a"

definition apply_transition ::
    "string \<Rightarrow> string \<Rightarrow> string \<Rightarrow> string \<Rightarrow> string \<Rightarrow> bool \<Rightarrow> audit \<Rightarrow> transition_result \<times> audit" where
  "apply_transition now cur target mid ver force a =
     (let r = validate_transition now cur target mid ver;
          event = (\<lambda>outcome. \<lparr>ev_kind = ''state_transition'', ev_model_id = mid, ev_model_version = ver,
                     ev_outcome = outcome, ev_detail = transition_to_dict r\<rparr>)
      in if \<not> tr_allowed r \<and> \<not> force then (r, audit_record (event ''denied'') a)
         else (r, audit_record (event (if tr_allowed r then ''success'' else ''forced'')) a))"

lemma known_status_cases:
  "map_of LEGAL_TRANSITIONS s = Some al \<Longrightarrow> s \<in> {TRAINING, VALIDATED, CANDIDATE, OOS, CHALLENGER,
     PROMOTION_GATE, CHAMPION, REJECTED, ROLLED_BACK, RETIRED}"
  by (auto simp: LEGAL_TRANSITIONS_def split: if_splits)

lemma normalize_known:
  "s \<in> {TRAINING, VALIDATED, CANDIDATE, OOS, CHALLENGER, PROMOTION_GATE, CHAMPION, REJECTED,
     ROLLED_BACK, RETIRED} \<Longrightarrow> normalize_status s = s"
  by (elim insertE emptyE) (simp_all only:, (code_simp)+)

section \<open>Freshness\<close>

record freshness_policy =
  max_model_age_hours :: flt
  max_dataset_age_hours :: flt
  hard_stale_model_hours :: flt

definition default_freshness_policy :: freshness_policy where
  "default_freshness_policy =
     \<lparr>max_model_age_hours = 168, max_dataset_age_hours = 72, hard_stale_model_hours = 720\<rparr>"

record freshness_report =
  fr_ok :: bool
  fr_status :: string
  fr_model_age :: flt
  fr_dataset_age :: flt
  fr_reasons :: "string list"
  fr_no_trade :: bool

text \<open>\<open>_parse_iso\<close>: the empty string is no time; the library's parser is the parameter \<open>isot\<close>.\<close>

definition parse_iso :: "(string \<Rightarrow> flt option) \<Rightarrow> string \<Rightarrow> flt option" where
  "parse_iso isot ts = (if ts = [] then None else isot ts)"

definition age_hours :: "flt \<Rightarrow> flt option \<Rightarrow> flt" where
  "age_hours now t = (case t of None \<Rightarrow> - 1 | Some t \<Rightarrow> max 0 ((now - t) / 3600))"

definition evaluate_freshness ::
    "(string \<Rightarrow> flt option) \<Rightarrow> freshness_policy \<Rightarrow> flt \<Rightarrow> string \<Rightarrow> string \<Rightarrow> freshness_report" where
  "evaluate_freshness isot pol now model_saved_at dataset_built_at =
     (let mt = parse_iso isot model_saved_at;
          model_age = age_hours now mt;
          reasons = (if mt = None then []
                     else if hard_stale_model_hours pol < model_age then [''model_hard_stale'']
                     else if max_model_age_hours pol < model_age then [''model_stale''] else []);
          dt = parse_iso isot dataset_built_at;
          data_age = age_hours now dt;
          reasons = reasons @ (if dt \<noteq> None \<and> max_dataset_age_hours pol < data_age
                               then [''dataset_stale''] else [])
      in if model_saved_at = [] \<and> dataset_built_at = []
         then \<lparr>fr_ok = True, fr_status = ''unknown'', fr_model_age = - 1, fr_dataset_age = - 1,
               fr_reasons = [''no_timestamps''], fr_no_trade = False\<rparr>
         else
           (let hard = ''model_hard_stale'' \<in> set reasons;
                soft = reasons \<noteq> [] \<and> \<not> hard
            in \<lparr>fr_ok = (\<not> hard \<and> \<not> soft),
                fr_status = (if hard then ''stale_model''
                             else if soft then (if ''model_stale'' \<in> set reasons then ''stale_model''
                                                else ''stale_dataset'')
                             else ''fresh''),
                fr_model_age = model_age, fr_dataset_age = data_age, fr_reasons = reasons,
                fr_no_trade = hard\<rparr>))"

section \<open>Degradation\<close>

record resource_limits =
  rl_training_allowed :: bool
  rl_inference_priority :: bool
  rl_max_ensemble_size :: int

record degradation =
  dg_mode :: string
  dg_training :: bool
  dg_heavy :: bool
  dg_max_ensemble :: int
  dg_no_trade :: bool
  dg_reasons :: "string list"

definition dg_reason :: "string \<Rightarrow> degradation \<Rightarrow> degradation" where
  "dg_reason s d = d\<lparr>dg_reasons := dg_reasons d @ [s]\<rparr>"

text \<open>\<open>if mode == "FULL": mode = m\<close>.\<close>

definition from_full :: "string \<Rightarrow> degradation \<Rightarrow> degradation" where
  "from_full m d = (if dg_mode d = ''FULL'' then d\<lparr>dg_mode := m\<rparr> else d)"

definition cap_ensemble :: "int \<Rightarrow> degradation \<Rightarrow> degradation" where
  "cap_ensemble n d = d\<lparr>dg_max_ensemble := min (dg_max_ensemble d) n\<rparr>"

definition reduced :: "degradation \<Rightarrow> degradation" where
  "reduced d = cap_ensemble 1 (from_full ''REDUCED'' d\<lparr>dg_heavy := False\<rparr>)"

definition safe_only :: "degradation \<Rightarrow> degradation" where
  "safe_only d = d\<lparr>dg_mode := ''SAFE_ONLY'', dg_training := False, dg_heavy := False,
     dg_max_ensemble := 1, dg_no_trade := True\<rparr>"

definition profile_floor :: "string option \<Rightarrow> degradation \<Rightarrow> degradation" where
  "profile_floor profile d =
     (case profile of
        None \<Rightarrow> d
      | Some p \<Rightarrow>
          if p = ''CONSERVATIVE''
          then dg_reason ''profile_conservative''
                 (d\<lparr>dg_mode := ''REDUCED'', dg_heavy := False, dg_max_ensemble := 1\<rparr>)
          else if p = ''BALANCED''
          then dg_reason ''profile_balanced'' ((cap_ensemble 3 d)\<lparr>dg_heavy := False\<rparr>)
          else d)"

definition limits_floor :: "resource_limits option \<Rightarrow> bool \<Rightarrow> degradation \<Rightarrow> degradation" where
  "limits_floor limits pressure d =
     (case limits of
        None \<Rightarrow> d
      | Some l \<Rightarrow>
          (let d = (if rl_training_allowed l then d
                    else dg_reason ''limits_training_blocked'' (d\<lparr>dg_training := False\<rparr>));
               d = (if rl_inference_priority l \<and> pressure
                    then dg_reason ''inference_priority_under_pressure'' (d\<lparr>dg_training := False\<rparr>)
                    else d)
           in if rl_max_ensemble_size l = 0 then d else cap_ensemble (rl_max_ensemble_size l) d))"

definition pressure_floor :: "bool \<Rightarrow> degradation \<Rightarrow> degradation" where
  "pressure_floor pressure d =
     (if pressure then dg_reason ''resource_pressure'' ((reduced d)\<lparr>dg_training := False\<rparr>) else d)"

definition quality_floor :: "string \<Rightarrow> degradation \<Rightarrow> degradation" where
  "quality_floor q d =
     (if q = ''FAIL'' then dg_reason ''data_quality_fail'' (safe_only d)
      else if q = ''WARN'' then dg_reason ''data_quality_warn'' (reduced d)
      else d)"

definition health_floor :: "string \<Rightarrow> degradation \<Rightarrow> degradation" where
  "health_floor h d =
     (if h = ''CRITICAL'' then dg_reason ''health_critical'' (safe_only d)
      else if h = ''DEGRADED'' then dg_reason ''health_degraded'' (reduced d)
      else if h = ''UNKNOWN''
      then dg_reason ''health_unknown''
             ((from_full ''MINIMAL'' d)\<lparr>dg_training := False, dg_max_ensemble := 1, dg_no_trade := True\<rparr>)
      else d)"

definition drift_floor :: "bool \<Rightarrow> degradation \<Rightarrow> degradation" where
  "drift_floor drift d = (if drift then dg_reason ''drift_restrict'' (cap_ensemble 1 d) else d)"

definition evaluate_degradation ::
    "string option \<Rightarrow> resource_limits option \<Rightarrow> string \<Rightarrow> string \<Rightarrow> bool \<Rightarrow> bool \<Rightarrow> degradation" where
  "evaluate_degradation profile limits health quality pressure drift =
     (let d = \<lparr>dg_mode = ''FULL'', dg_training = True, dg_heavy = True, dg_max_ensemble = 3,
               dg_no_trade = False, dg_reasons = []\<rparr>;
          d = drift_floor drift (health_floor health (quality_floor quality
                (pressure_floor pressure (limits_floor limits pressure (profile_floor profile d)))))
      in d\<lparr>dg_max_ensemble := max 1 (min (dg_max_ensemble d) 5)\<rparr>)"

section \<open>Drift\<close>

record drift_report =
  dr_feature :: bool
  dr_prediction :: bool
  dr_performance :: bool
  dr_regime :: bool
  dr_confidence :: flt
  dr_retrain :: bool
  dr_restrict :: bool

definition detect_performance_degradation :: "flt \<Rightarrow> flt \<Rightarrow> flt \<Rightarrow> bool" where
  "detect_performance_degradation baseline recent fall =
     (if baseline \<le> 0 then False else fall \<le> baseline - recent)"

text \<open>
  \<open>evaluate_drift\<close> from the statistics on: the feature, prediction and regime flags are those
  its detectors return (\<open>False\<close> when a sample is not given).
\<close>

definition drift_of_flags :: "bool \<Rightarrow> bool \<Rightarrow> bool \<Rightarrow> flt \<Rightarrow> flt \<Rightarrow> drift_report" where
  "drift_of_flags feat pred regime baseline_acc recent_acc =
     (let perf = detect_performance_degradation baseline_acc recent_acc (1 / 10);
          any_drift = feat \<or> pred \<or> perf \<or> regime;
          conf = (if any_drift
                  then (let c = (if feat \<or> pred then 1 / 2 else 7 / 10)
                        in if perf then min c (4 / 10) else c)
                  else 1)
      in \<lparr>dr_feature = feat, dr_prediction = pred, dr_performance = perf, dr_regime = regime,
          dr_confidence = conf, dr_retrain = any_drift, dr_restrict = any_drift\<rparr>)"

end
