(* ===== verification/MlHealth.thy ===== *)
theory MlHealth
  imports MlState
begin

text \<open>
  Telemetry and health of the champion: the ring buffers and the summary of \<^verbatim>\<open>god/ml/telemetry.py\<close>
  and the score and report of \<^verbatim>\<open>god/ml/health.py\<close>. Time stamps are inputs, numbers are rationals.
\<close>

section \<open>Telemetry\<close>

record inference_event =
  ie_ts :: string
  ie_model_id :: string
  ie_model_version :: string
  ie_latency_ms :: flt
  ie_confidence :: flt
  ie_allow_trade :: bool
  ie_regime :: string
  ie_ood :: bool
  ie_notes :: string

record training_event =
  te_ts :: string
  te_model_id :: string
  te_model_version :: string
  te_n_samples :: int
  te_duration_ms :: flt
  te_oos_accuracy :: flt
  te_status :: string
  te_reason :: string
  te_profile :: string

record ml_telemetry =
  mt_max_events :: nat
  mt_inf :: "inference_event list"
  mt_trn :: "training_event list"

text \<open>\<open>deque(maxlen=n).append(e)\<close>.\<close>

definition ring_append :: "nat \<Rightarrow> 'a list \<Rightarrow> 'a \<Rightarrow> 'a list" where
  "ring_append n xs e = drop (length xs + 1 - n) (xs @ [e])"

definition record_inference :: "ml_telemetry \<Rightarrow> inference_event \<Rightarrow> ml_telemetry" where
  "record_inference t e = t\<lparr>mt_inf := ring_append (mt_max_events t) (mt_inf t) e\<rparr>"

definition record_training :: "ml_telemetry \<Rightarrow> training_event \<Rightarrow> ml_telemetry" where
  "record_training t e = t\<lparr>mt_trn := ring_append (mt_max_events t) (mt_trn t) e\<rparr>"

record telemetry_summary =
  ts_inference_count :: nat
  ts_train_count :: nat
  ts_mean_latency :: flt
  ts_p95_latency :: flt
  ts_mean_confidence :: flt
  ts_block_rate :: flt
  ts_last_inference :: string
  ts_last_train :: string

definition mean :: "flt list \<Rightarrow> flt" where
  "mean xs = (if xs = [] then 0 else sum_list xs / of_nat (length xs))"

definition p95 :: "flt list \<Rightarrow> flt" where
  "p95 lat = (if lat = [] then 0
     else (let s = sort lat;
               idx = min (length s - 1) (nat (py_trunc (95 / 100 * of_nat (length s))))
           in s ! idx))"

definition telemetry_summarize :: "ml_telemetry \<Rightarrow> telemetry_summary" where
  "telemetry_summarize t =
     (let inf = mt_inf t; trn = mt_trn t;
          lat = map ie_latency_ms inf;
          conf = map ie_confidence inf;
          blocks = length (filter (\<lambda>e. \<not> ie_allow_trade e) inf)
      in \<lparr>ts_inference_count = length inf, ts_train_count = length trn,
          ts_mean_latency = mean lat, ts_p95_latency = p95 lat, ts_mean_confidence = mean conf,
          ts_block_rate = (if inf = [] then 0 else of_nat blocks / of_nat (length inf)),
          ts_last_inference = (if inf = [] then [] else ie_ts (List.last inf)),
          ts_last_train = (if trn = [] then [] else te_ts (List.last trn))\<rparr>)"

text \<open>\<open>recent_inferences\<close> and \<open>recent_trainings\<close> before rendering.\<close>

definition recent_inferences :: "ml_telemetry \<Rightarrow> int \<Rightarrow> inference_event list" where
  "recent_inferences t n = slice_from (mt_inf t) (- n)"

definition recent_trainings :: "ml_telemetry \<Rightarrow> int \<Rightarrow> training_event list" where
  "recent_trainings t n = slice_from (mt_trn t) (- n)"

section \<open>The health score\<close>

record health_signals =
  hs_oos_accuracy :: "flt option"
  hs_brier :: "flt option"
  hs_f1 :: "flt option"
  hs_drift :: "flt option"
  hs_quality :: "flt option"
  hs_calibration_valid :: "bool option"
  hs_uncertainty_high :: bool
  hs_ood_rate :: "flt option"
  hs_p95 :: "flt option"
  hs_artifact_ok :: bool
  hs_block_rate :: "flt option"
  hs_mean_confidence :: "flt option"
  hs_stale :: bool
  hs_recovery_failed :: bool

definition clamp01 :: "flt \<Rightarrow> flt" where
  "clamp01 x = max 0 (min 1 x)"

text \<open>A signal that is present contributes a value in \<open>[0, 1]\<close> with a weight.\<close>

definition part :: "flt option \<Rightarrow> (flt \<Rightarrow> flt) \<Rightarrow> flt \<Rightarrow> (flt \<times> flt) list" where
  "part x f w = (case x of None \<Rightarrow> [] | Some x \<Rightarrow> [(f x, w)])"

definition flag_part :: "bool \<Rightarrow> flt \<Rightarrow> flt \<Rightarrow> (flt \<times> flt) list" where
  "flag_part b v w = (if b then [(v, w)] else [])"

definition score_parts :: "health_signals \<Rightarrow> (flt \<times> flt) list" where
  "score_parts s =
     part (hs_oos_accuracy s) (\<lambda>x. clamp01 ((x - 45 / 100) / (25 / 100))) (15 / 10) @
     part (hs_brier s) (\<lambda>x. clamp01 (1 - x / (35 / 100))) 1 @
     part (hs_f1 s) clamp01 1 @
     part (hs_drift s) (\<lambda>x. clamp01 (1 - x)) (12 / 10) @
     part (hs_quality s) clamp01 1 @
     (case hs_calibration_valid s of None \<Rightarrow> []
      | Some ok \<Rightarrow> [(if ok then 1 else 2 / 10, 8 / 10)]) @
     flag_part (hs_uncertainty_high s) (3 / 10) (6 / 10) @
     part (hs_ood_rate s) (\<lambda>x. clamp01 (1 - x)) (8 / 10) @
     part (hs_p95 s) (\<lambda>x. clamp01 (1 - (x - 500) / 4500)) (5 / 10) @
     flag_part (\<not> hs_artifact_ok s) 0 2 @
     part (hs_block_rate s) (\<lambda>x. clamp01 (1 - x)) 1 @
     part (hs_mean_confidence s) clamp01 (7 / 10) @
     flag_part (hs_stale s) (25 / 100) 1 @
     flag_part (hs_recovery_failed s) 0 (15 / 10)"

definition weighted_mean :: "(flt \<times> flt) list \<Rightarrow> flt" where
  "weighted_mean parts = sum_list (map (\<lambda>(v, w). v * w) parts) / sum_list (map snd parts)"

definition compute_health_score :: "health_signals \<Rightarrow> flt" where
  "compute_health_score s =
     (let parts = score_parts s in if parts = [] then 1 / 2 else weighted_mean parts)"

section \<open>The health report\<close>

record health_policy =
  hp_max_block_rate :: flt
  hp_min_mean_confidence :: flt
  hp_max_p95 :: flt
  hp_min_inferences :: nat
  hp_min_score :: flt

definition default_health_policy :: health_policy where
  "default_health_policy = \<lparr>hp_max_block_rate = 85 / 100, hp_min_mean_confidence = 5 / 100,
     hp_max_p95 = 5000, hp_min_inferences = 5, hp_min_score = 35 / 100\<rparr>"

record health_report =
  hr_status :: string
  hr_champion_id :: string
  hr_champion_version :: string
  hr_reasons :: "string list"
  hr_metrics :: "(string, flt) dict"
  hr_score :: flt
  hr_restrict :: bool
  hr_no_trade :: bool

text \<open>The arguments of \<open>evaluate\<close>.\<close>

record health_inputs =
  hi_oos_accuracy :: "flt option"
  hi_brier :: "flt option"
  hi_f1 :: "flt option"
  hi_drift_restrict :: bool
  hi_drift_score :: "flt option"
  hi_quality :: "flt option"
  hi_calibration_invalid :: bool
  hi_uncertainty_high :: bool
  hi_ood_rate :: "flt option"
  hi_artifact_ok :: bool
  hi_stale :: bool
  hi_recovery_failed :: bool

text \<open>The verdict while it is built: status, reasons, restrict, no-trade.\<close>

record verdict =
  vd_status :: string
  vd_reasons :: "string list"
  vd_restrict :: bool
  vd_no_trade :: bool

definition because :: "string \<Rightarrow> verdict \<Rightarrow> verdict" where
  "because s v = v\<lparr>vd_reasons := vd_reasons v @ [s]\<rparr>"

definition degrade :: "verdict \<Rightarrow> verdict" where
  "degrade v = (if vd_status v = ''HEALTHY'' then v\<lparr>vd_status := ''DEGRADED''\<rparr> else v)"

definition critical :: "verdict \<Rightarrow> verdict" where
  "critical v = v\<lparr>vd_status := ''CRITICAL'', vd_restrict := True, vd_no_trade := True\<rparr>"

definition no_trade :: "verdict \<Rightarrow> verdict" where
  "no_trade v = v\<lparr>vd_no_trade := True\<rparr>"

definition telemetry_checks :: "health_policy \<Rightarrow> telemetry_summary \<Rightarrow> verdict \<Rightarrow> verdict" where
  "telemetry_checks pol s v =
     (if hp_min_inferences pol \<le> ts_inference_count s
      then (let v = (if hp_max_block_rate pol \<le> ts_block_rate s
                     then no_trade (because ''high_block_rate'' v\<lparr>vd_status := ''DEGRADED''\<rparr>) else v);
                v = (if ts_mean_confidence s < hp_min_mean_confidence pol
                     then no_trade (because ''low_mean_confidence'' v\<lparr>vd_status := ''DEGRADED''\<rparr>) else v)
            in if hp_max_p95 pol < ts_p95_latency s then degrade (because ''high_p95_latency'' v) else v)
      else v)"

definition input_checks :: "health_inputs \<Rightarrow> verdict \<Rightarrow> verdict" where
  "input_checks i v =
     (let v = (case hi_oos_accuracy i of None \<Rightarrow> v
               | Some a \<Rightarrow> if a < 48 / 100 then critical (because ''oos_accuracy_collapse'' v) else v);
          v = (if hi_drift_restrict i
               then degrade (because ''drift_restrict'' v\<lparr>vd_restrict := True\<rparr>) else v);
          v = (if hi_calibration_invalid i
               then no_trade (degrade (because ''calibration_invalid'' v)) else v);
          v = (if hi_artifact_ok i then v else critical (because ''artifact_integrity_failed'' v));
          v = (if hi_stale i then degrade (because ''model_stale'' v) else v)
      in if hi_recovery_failed i then critical (because ''recovery_failed'' v) else v)"

text \<open>\<open>x if summary.inference_count else None\<close>.\<close>

definition if_inferred :: "telemetry_summary \<Rightarrow> flt \<Rightarrow> flt option" where
  "if_inferred s x = (if ts_inference_count s = 0 then None else Some x)"

definition signals_of :: "health_inputs \<Rightarrow> telemetry_summary \<Rightarrow> health_signals" where
  "signals_of i s =
     \<lparr>hs_oos_accuracy = hi_oos_accuracy i, hs_brier = hi_brier i, hs_f1 = hi_f1 i,
      hs_drift = (case hi_drift_score i of Some x \<Rightarrow> Some x
                  | None \<Rightarrow> if hi_drift_restrict i then Some (8 / 10) else None),
      hs_quality = hi_quality i,
      hs_calibration_valid = (if hi_calibration_invalid i \<or> hi_oos_accuracy i \<noteq> None
                              then Some (\<not> hi_calibration_invalid i) else None),
      hs_uncertainty_high = hi_uncertainty_high i, hs_ood_rate = hi_ood_rate i,
      hs_p95 = if_inferred s (ts_p95_latency s), hs_artifact_ok = hi_artifact_ok i,
      hs_block_rate = if_inferred s (ts_block_rate s),
      hs_mean_confidence = if_inferred s (ts_mean_confidence s),
      hs_stale = hi_stale i, hs_recovery_failed = hi_recovery_failed i\<rparr>"

definition health_evaluate ::
    "health_policy \<Rightarrow> (string \<times> string) option \<Rightarrow> ml_telemetry \<Rightarrow> health_inputs \<Rightarrow> health_report" where
  "health_evaluate pol champ telemetry i =
     (case champ of
        None \<Rightarrow> \<lparr>hr_status = ''UNKNOWN'', hr_champion_id = [], hr_champion_version = [],
                 hr_reasons = [''no_champion''], hr_metrics = [], hr_score = 0, hr_restrict = False,
                 hr_no_trade = True\<rparr>
      | Some (mid, ver) \<Rightarrow>
          (let s = telemetry_summarize telemetry;
               v = input_checks i (telemetry_checks pol s
                     \<lparr>vd_status = ''HEALTHY'', vd_reasons = [], vd_restrict = False, vd_no_trade = False\<rparr>);
               score = compute_health_score (signals_of i s);
               metrics = [(''inference_count'', of_nat (ts_inference_count s)),
                    (''mean_latency_ms'', ts_mean_latency s), (''p95_latency_ms'', ts_p95_latency s),
                    (''mean_confidence'', ts_mean_confidence s), (''block_rate'', ts_block_rate s)] @
                  (case hi_oos_accuracy i of None \<Rightarrow> [] | Some a \<Rightarrow> [(''recent_oos_accuracy'', a)]) @
                  [(''health_score'', score)];
               v = (if score < hp_min_score pol \<and> vd_status v = ''HEALTHY''
                    then because ''low_health_score'' (degrade v) else v)
           in \<lparr>hr_status = vd_status v, hr_champion_id = mid, hr_champion_version = ver,
               hr_reasons = vd_reasons v, hr_metrics = metrics, hr_score = score,
               hr_restrict = vd_restrict v, hr_no_trade = vd_no_trade v\<rparr>))"

end
