(* ===== verification/MlHealthProps.thy ===== *)
theory MlHealthProps
  imports MlHealth
begin

text \<open>
  The advisory gates: bounds of the health score and of the telemetry statistics, what makes a model
  unhealthy, the degradation ladder, and the status graph.
\<close>

section \<open>The health score\<close>

lemma clamp01_bounds [simp]: "0 \<le> clamp01 x" "clamp01 x \<le> 1"
  by (auto simp: clamp01_def)

text \<open>A weighted mean of values in \<open>[0, 1]\<close> with positive weights stays there.\<close>

lemma weighted_mean_bounds:
  assumes "parts \<noteq> []" and "\<And>v w. (v, w) \<in> set parts \<Longrightarrow> 0 \<le> v \<and> v \<le> 1 \<and> 0 < (w :: flt)"
  shows "0 \<le> weighted_mean parts \<and> weighted_mean parts \<le> 1"
proof -
  have sums: "0 \<le> sum_list (map (\<lambda>(v, w). v * w) ps) \<and>
      sum_list (map (\<lambda>(v, w). v * w) ps) \<le> sum_list (map snd ps) \<and> (ps \<noteq> [] \<longrightarrow> 0 < sum_list (map snd ps))"
    if "\<And>v w. (v, w) \<in> set ps \<Longrightarrow> 0 \<le> v \<and> v \<le> 1 \<and> 0 < (w :: flt)" for ps
    using that
  proof (induction ps)
    case Nil
    then show ?case by simp
  next
    case (Cons p ps)
    obtain v w where p: "p = (v, w)" by (cases p)
    then have vw: "0 \<le> v" "v \<le> 1" "0 < w" using Cons.prems by auto
    then have "0 \<le> v * w" "v * w \<le> w" by (auto simp: mult_left_le_one_le)
    moreover have "0 \<le> sum_list (map snd ps)"
      by (rule sum_list_nonneg) (use Cons.prems in fastforce)
    moreover have "0 \<le> sum_list (map (\<lambda>(v, w). v * w) ps) \<and>
        sum_list (map (\<lambda>(v, w). v * w) ps) \<le> sum_list (map snd ps)"
      using Cons.IH Cons.prems by (metis list.set_intros(2))
    moreover from this have "v * w + sum_list (map (\<lambda>(v, w). v * w) ps) \<le> w + sum_list (map snd ps)"
      using \<open>v * w \<le> w\<close> by (intro add_mono) simp_all
    ultimately show ?case using vw p by (simp add: add_pos_nonneg)
  qed
  from sums [of parts] assms show ?thesis by (auto simp: weighted_mean_def divide_simps)
qed

lemma part_bounds:
  "(\<And>x. 0 \<le> f x \<and> f x \<le> 1) \<Longrightarrow> 0 < u \<Longrightarrow> (v, w) \<in> set (part x f u) \<Longrightarrow> 0 \<le> v \<and> v \<le> 1 \<and> 0 < w"
  by (auto simp: part_def split: option.splits)

lemma score_parts_bounds:
  "(v, w) \<in> set (score_parts s) \<Longrightarrow> 0 \<le> v \<and> v \<le> 1 \<and> 0 < w"
  unfolding score_parts_def set_append Un_iff
  by (elim disjE) (auto simp: part_def flag_part_def split: option.splits if_splits)

text \<open>The health score lies between 0 and 1, whichever signals are present.\<close>

theorem health_score_in_unit_interval:
  "0 \<le> compute_health_score s \<and> compute_health_score s \<le> 1"
  using weighted_mean_bounds [of "score_parts s"] score_parts_bounds
  by (auto simp: compute_health_score_def Let_def)

section \<open>Telemetry\<close>

lemma ring_append_length: "length xs \<le> n \<Longrightarrow> length (ring_append n xs e) \<le> n"
  by (auto simp: ring_append_def)

lemma mean_bounds:
  assumes "xs \<noteq> []" and "\<And>x. x \<in> set xs \<Longrightarrow> lo \<le> x \<and> x \<le> (hi :: flt)"
  shows "lo \<le> mean xs \<and> mean xs \<le> hi"
proof -
  have "lo * of_nat (length ys) \<le> sum_list ys \<and> sum_list ys \<le> hi * of_nat (length ys)"
    if "\<And>x. x \<in> set ys \<Longrightarrow> lo \<le> x \<and> x \<le> hi" for ys :: "flt list"
    using that by (induction ys) (auto simp: algebra_simps add_mono)
  from this [of xs] assms show ?thesis by (auto simp: mean_def divide_simps)
qed

lemma p95_mem:
  assumes "lat \<noteq> []"
  shows "p95 lat \<in> set lat"
proof -
  have "sort lat ! min (length (sort lat) - 1) i \<in> set (sort lat)" for i
    by (rule nth_mem) (use assms in \<open>cases lat; simp\<close>)
  with assms show ?thesis unfolding p95_def Let_def by (simp only: if_False set_sort)
qed

section \<open>Degradation\<close>

lemmas floor_defs = profile_floor_def limits_floor_def pressure_floor_def quality_floor_def
  health_floor_def drift_floor_def reduced_def safe_only_def from_full_def cap_ensemble_def
  dg_reason_def

lemma ensemble_bounds:
  "1 \<le> dg_max_ensemble (evaluate_degradation p l h q pr dr) \<and>
   dg_max_ensemble (evaluate_degradation p l h q pr dr) \<le> 5"
  by (simp add: evaluate_degradation_def Let_def)

text \<open>Only the data quality and the health lead to \<open>SAFE_ONLY\<close>, and they shed everything.\<close>

definition shed :: "degradation \<Rightarrow> bool" where
  "shed d \<longleftrightarrow> \<not> dg_training d \<and> \<not> dg_heavy d \<and> dg_max_ensemble d = 1 \<and> dg_no_trade d"

lemma profile_mode: "dg_mode d = ''FULL'' \<Longrightarrow> dg_mode (profile_floor p d) \<noteq> ''SAFE_ONLY''"
  by (cases p) (simp_all add: floor_defs)

lemma limits_mode: "dg_mode (limits_floor l pr d) = dg_mode d"
  by (cases l) (simp_all add: floor_defs Let_def)

lemma pressure_mode: "dg_mode d \<noteq> ''SAFE_ONLY'' \<Longrightarrow> dg_mode (pressure_floor pr d) \<noteq> ''SAFE_ONLY''"
  by (simp add: floor_defs)

lemma quality_mode:
  "dg_mode d \<noteq> ''SAFE_ONLY'' \<Longrightarrow>
     (dg_mode (quality_floor q d) = ''SAFE_ONLY'') = (q = ''FAIL'') \<and>
     (q = ''FAIL'' \<longrightarrow> shed (quality_floor q d))"
  by (simp add: floor_defs shed_def)

lemma health_mode:
  "(dg_mode (health_floor h d) = ''SAFE_ONLY'') = (h = ''CRITICAL'' \<or> dg_mode d = ''SAFE_ONLY'') \<and>
   (h = ''CRITICAL'' \<or> shed d \<longrightarrow> shed (health_floor h d))"
  by (cases "h = ''CRITICAL''"; cases "h = ''DEGRADED''"; cases "h = ''UNKNOWN''")
    (simp_all add: floor_defs shed_def)

lemma drift_mode: "dg_mode (drift_floor dr d) = dg_mode d" "shed d \<Longrightarrow> shed (drift_floor dr d)"
  by (simp_all add: floor_defs shed_def)

lemma clamp_mode:
  "dg_mode (d\<lparr>dg_max_ensemble := n\<rparr>) = dg_mode d"
  "shed d \<Longrightarrow> shed (d\<lparr>dg_max_ensemble := max 1 (min (dg_max_ensemble d) 5)\<rparr>)"
  by (simp_all add: shed_def)

text \<open>The ladder ends in SAFE_ONLY exactly for critical health or failed data quality, and then
  training, heavy models and trading are all shed and one model is left.\<close>

theorem safe_only_sheds_everything:
  "let d = evaluate_degradation p l h q pr dr
   in if h = ''CRITICAL'' \<or> q = ''FAIL'' then dg_mode d = ''SAFE_ONLY'' \<and> shed d
      else dg_mode d \<noteq> ''SAFE_ONLY''"
proof -
  let ?start = "\<lparr>dg_mode = ''FULL'', dg_training = True, dg_heavy = True, dg_max_ensemble = 3,
        dg_no_trade = False, dg_reasons = []\<rparr>"
  let ?a = "pressure_floor pr (limits_floor l pr (profile_floor p ?start))"
  let ?d = "drift_floor dr (health_floor h (quality_floor q ?a))"
  have "dg_mode ?a \<noteq> ''SAFE_ONLY''"
    by (intro pressure_mode) (simp add: limits_mode profile_mode)
  from quality_mode [OF this, of q] health_mode [of h "quality_floor q ?a"] drift_mode
  have "(dg_mode ?d = ''SAFE_ONLY'') = (h = ''CRITICAL'' \<or> q = ''FAIL'') \<and>
      (dg_mode ?d \<noteq> ''SAFE_ONLY'' \<or> shed ?d)"
    by metis
  moreover have "evaluate_degradation p l h q pr dr =
      ?d\<lparr>dg_max_ensemble := max 1 (min (dg_max_ensemble ?d) 5)\<rparr>"
    by (simp only: evaluate_degradation_def Let_def)
  ultimately show ?thesis unfolding Let_def using clamp_mode by metis
qed

section \<open>Statuses\<close>

lemma final_rows:
  "map_of LEGAL_TRANSITIONS REJECTED = Some []" "map_of LEGAL_TRANSITIONS RETIRED = Some []"
  by code_simp+

text \<open>A rejected or retired model has no way on.\<close>

lemma final_statuses:
  "normalize_status s \<in> {REJECTED, RETIRED} \<Longrightarrow>
     is_legal_transition s t = (normalize_status t = normalize_status s)"
  by (auto simp: is_legal_transition_def final_rows Let_def)

text \<open>From a status of the machine only \<open>promotion_gate\<close> leads to \<open>champion\<close>.\<close>

lemma champion_rows:
  "list_all (\<lambda>(s, ts). (CHAMPION \<in> set ts) = (s = PROMOTION_GATE)) LEGAL_TRANSITIONS"
  "normalize_status CHAMPION = CHAMPION"
  by code_simp+

lemma champion_from_gate_only:
  assumes "map_of LEGAL_TRANSITIONS (normalize_status s) = Some ts" "normalize_status s \<noteq> CHAMPION"
  shows "is_legal_transition s CHAMPION = (normalize_status s = PROMOTION_GATE)"
  using assms champion_rows(1) map_of_SomeD [OF assms(1)]
  by (auto simp: is_legal_transition_def champion_rows(2) Let_def list_all_iff)

text \<open>A status outside the machine, such as the registry's \<open>pruned\<close>, may become champion at once.\<close>

lemma unknown_status_champion: "is_legal_transition ''pruned'' CHAMPION"
  by code_simp

end
