(* ===== verification/MlArtifacts.thy ===== *)
theory MlArtifacts
  imports MlState
begin

text \<open>
  Model artifacts on disk: saving and loading (\<^verbatim>\<open>god/ml/persist.py\<close>), the integrity report
  and the schema check (\<^verbatim>\<open>god/ml/lifecycle.py\<close>), and the deployment manifest
  (\<^verbatim>\<open>god/ml/manifest.py\<close>). The disk is a map from paths below the registry's root to
  contents; JSON text, pickles, the SHA-256 digest and the time are the parameters of \<open>ml_env\<close>.
  Writes succeed; an exception of the Python code is a value.
\<close>

section \<open>Disk and paths\<close>

type_synonym disk = "string \<rightharpoonup> string"

definition ARTIFACT_SCHEMA_VERSION :: string where
  "ARTIFACT_SCHEMA_VERSION = ''1.0''"

text \<open>\<open>str.isalnum\<close> of a character, on ASCII.\<close>

definition is_alnum :: "char \<Rightarrow> bool" where
  "is_alnum c \<longleftrightarrow> is_upper c \<or> is_lower c \<or> 48 \<le> (of_char c :: nat) \<and> (of_char c :: nat) \<le> 57"

definition safe_name :: "string \<Rightarrow> string \<Rightarrow> string" where
  "safe_name extra s = map (\<lambda>c. if is_alnum c \<or> c \<in> set extra then c else CHR ''_'') s"

definition model_dir :: "string \<Rightarrow> string \<Rightarrow> string" where
  "model_dir mid ver = ''artifacts/'' @ safe_name ''-_'' mid @ ''@'' @ safe_name ''._-'' ver"

definition file_in :: "string \<Rightarrow> string \<Rightarrow> string \<Rightarrow> string" where
  "file_in mid ver name = model_dir mid ver @ ''/'' @ name"

text \<open>\<open>{**d, **e}\<close>.\<close>

definition dict_merge :: "pydict \<Rightarrow> pydict \<Rightarrow> pydict" where
  "dict_merge d e = fold (\<lambda>(k, v). AList.update k v) e d"

datatype load_exc = FileNotFoundE | ValueErrorE string | OtherE

text \<open>What the code takes from its environment; \<open>'o\<close> is the type of unpickled objects.\<close>

record 'o ml_env =
  me_shw :: "pyval \<Rightarrow> string"
  me_parse :: "string \<Rightarrow> flt option"
  me_json :: "string \<Rightarrow> pyval option"
  me_dumps :: "pyval \<Rightarrow> string"
  me_sha256 :: "string \<Rightarrow> string"
  me_now :: string
  me_pickle :: "string \<Rightarrow> 'o \<Rightarrow> string"
  me_unpickle :: "string \<Rightarrow> load_exc + 'o"
  me_logit :: "'o \<Rightarrow> load_exc + 'o"
  me_has_weights :: "'o \<Rightarrow> bool"
  me_is_none :: "'o \<Rightarrow> bool"

section \<open>Bundles\<close>

record artifact_bundle =
  ab_model_id :: string
  ab_model_version :: string
  ab_backend :: string
  ab_features_version :: string
  ab_feature_names :: "pyval list"
  ab_dataset_hash :: string
  ab_metrics :: pydict
  ab_metadata :: pydict
  ab_calibration :: "pydict option"
  ab_saved_at :: string
  ab_artifact_file :: string
  ab_calibrator_file :: string
  ab_schema_version :: string
  ab_checksum :: string

definition opt_dict :: "pydict option \<Rightarrow> pyval" where
  "opt_dict c = (case c of None \<Rightarrow> PyNone | Some d \<Rightarrow> if d = [] then PyNone else PyDict d)"

definition bundle_to_dict :: "artifact_bundle \<Rightarrow> pydict" where
  "bundle_to_dict b =
     [(''model_id'', PyStr (ab_model_id b)), (''model_version'', PyStr (ab_model_version b)),
      (''backend'', PyStr (ab_backend b)), (''features_version'', PyStr (ab_features_version b)),
      (''feature_names'', PyList (ab_feature_names b)), (''dataset_hash'', PyStr (ab_dataset_hash b)),
      (''metrics'', PyDict (ab_metrics b)), (''metadata'', PyDict (ab_metadata b)),
      (''calibration'', opt_dict (ab_calibration b)), (''saved_at'', PyStr (ab_saved_at b)),
      (''artifact_file'', PyStr (ab_artifact_file b)),
      (''calibrator_file'', PyStr (ab_calibrator_file b)),
      (''schema_version'', PyStr (ab_schema_version b)),
      (''artifact_checksum'', PyStr (ab_checksum b))]"

text \<open>\<open>str(d.get(k, dflt))\<close>.\<close>

definition get_str :: "(pyval \<Rightarrow> string) \<Rightarrow> pydict \<Rightarrow> string \<Rightarrow> string \<Rightarrow> string" where
  "get_str shw d k dflt = py_str shw (dict_get d k (PyStr dflt))"

definition opt_dict_of :: "pyval \<Rightarrow> py_exc + pydict option" where
  "opt_dict_of v = (if truthy v then bindE (to_dict_or_empty v) (\<lambda>d. Inr (Some d)) else Inr None)"

definition bundle_from_dict :: "(pyval \<Rightarrow> string) \<Rightarrow> pydict \<Rightarrow> py_exc + artifact_bundle" where
  "bundle_from_dict shw d =
     bindE (to_dict_or_empty (dget d ''metadata'')) (\<lambda>meta.
     bindE (item d ''model_id'') (\<lambda>mid.
     bindE (item d ''model_version'') (\<lambda>ver.
     bindE (to_tuple (py_or (dget d ''feature_names'') (PyList []))) (\<lambda>names.
     bindE (to_dict_or_empty (dget d ''metrics'')) (\<lambda>metrics.
     bindE (opt_dict_of (dget d ''calibration'')) (\<lambda>cal.
       Inr \<lparr>ab_model_id = py_str shw mid, ab_model_version = py_str shw ver,
            ab_backend = get_str shw d ''backend'' [],
            ab_features_version = get_str shw d ''features_version'' [],
            ab_feature_names = names, ab_dataset_hash = get_str shw d ''dataset_hash'' [],
            ab_metrics = metrics, ab_metadata = meta, ab_calibration = cal,
            ab_saved_at = get_str shw d ''saved_at'' [],
            ab_artifact_file = get_str shw d ''artifact_file'' ''model.pkl'',
            ab_calibrator_file = get_str shw d ''calibrator_file'' ''calibrator.json'',
            ab_schema_version = py_str shw (py_or (dget d ''schema_version'')
              (py_or (dget meta ''schema_version'') (PyStr ARTIFACT_SCHEMA_VERSION))),
            ab_checksum = py_str shw (py_or (dget d ''artifact_checksum'')
              (py_or (dget meta ''artifact_checksum'') (PyStr [])))\<rparr>))))))"

definition validate_artifact_bundle :: "artifact_bundle \<Rightarrow> bool \<times> string" where
  "validate_artifact_bundle b =
     (if py_strip (ab_model_id b) = [] then (False, ''missing_model_id'')
      else if py_strip (ab_model_version b) = [] then (False, ''missing_model_version'')
      else if ab_backend b = [] then (False, ''missing_backend'')
      else if ab_feature_names b = [] then (False, ''missing_feature_names'')
      else if ab_dataset_hash b = [] then (False, ''missing_dataset_hash'')
      else (True, ''ok''))"

section \<open>Saving\<close>

record 'o trained_model =
  tm_model_id :: string
  tm_model_version :: string
  tm_backend :: string
  tm_feature_names :: "pyval list"
  tm_features_version :: string
  tm_dataset_hash :: string
  tm_artifact :: 'o
  tm_metrics :: pydict
  tm_metadata :: pydict

text \<open>A Platt calibrator: slope, offset, fitted.\<close>

record calibrator =
  cb_a :: flt
  cb_b :: flt
  cb_fitted :: bool

definition calibrator_payload :: "calibrator \<Rightarrow> pydict" where
  "calibrator_payload c = [(''a'', PyNum (cb_a c)), (''b'', PyNum (cb_b c)), (''fitted'', PyBool True)]"

definition save_trained_model ::
    "'o ml_env \<Rightarrow> disk \<Rightarrow> 'o trained_model \<Rightarrow> calibrator option \<Rightarrow> pydict option \<Rightarrow> pydict \<Rightarrow>
     artifact_bundle \<times> disk" where
  "save_trained_model e disk m cal calibration extra =
     (let mid = tm_model_id m; ver = tm_model_version m;
          raw = me_pickle e (tm_backend m) (tm_artifact m);
          disk = disk(file_in mid ver ''model.pkl'' \<mapsto> raw);
          checksum = me_sha256 e raw;
          (cal_meta, disk) = (case cal of
              Some c \<Rightarrow> if cb_fitted c
                then ((case calibration of None \<Rightarrow> Some (calibrator_payload c)
                       | Some r \<Rightarrow> Some (dict_merge (calibrator_payload c) r)),
                      disk(file_in mid ver ''calibrator.json'' \<mapsto>
                             me_dumps e (PyDict (calibrator_payload c))))
                else (None, disk)
            | None \<Rightarrow> (None, disk));
          meta = AList.update ''artifact_checksum'' (PyStr checksum)
                   (AList.update ''schema_version'' (PyStr ARTIFACT_SCHEMA_VERSION) (tm_metadata m));
          b = \<lparr>ab_model_id = mid, ab_model_version = ver, ab_backend = tm_backend m,
               ab_features_version = tm_features_version m, ab_feature_names = tm_feature_names m,
               ab_dataset_hash = tm_dataset_hash m, ab_metrics = dict_merge (tm_metrics m) extra,
               ab_metadata = meta, ab_calibration = cal_meta, ab_saved_at = me_now e,
               ab_artifact_file = ''model.pkl'', ab_calibrator_file = ''calibrator.json'',
               ab_schema_version = ARTIFACT_SCHEMA_VERSION, ab_checksum = checksum\<rparr>
      in (b, disk(file_in mid ver ''bundle.json'' \<mapsto> me_dumps e (PyDict (bundle_to_dict b)))))"

section \<open>Loading\<close>

definition load_exc_of :: "py_exc \<Rightarrow> load_exc" where
  "load_exc_of x = (if x = ValueE then ValueErrorE [] else OtherE)"

definition mapE :: "('e \<Rightarrow> 'f) \<Rightarrow> 'e + 'a \<Rightarrow> 'f + 'a" where
  "mapE f m = (case m of Inl x \<Rightarrow> Inl (f x) | Inr y \<Rightarrow> Inr y)"

definition read_json :: "'o ml_env \<Rightarrow> string \<Rightarrow> load_exc + pydict" where
  "read_json e txt =
     (case me_json e txt of
        None \<Rightarrow> Inl (ValueErrorE ''invalid JSON'')
      | Some (PyDict d) \<Rightarrow> Inr d
      | Some _ \<Rightarrow> Inl OtherE)"

text \<open>\<open>float(d.get(k, dflt))\<close>; the message of its \<open>ValueError\<close> quotes the string.\<close>

definition get_float :: "'o ml_env \<Rightarrow> pydict \<Rightarrow> string \<Rightarrow> flt \<Rightarrow> load_exc + flt" where
  "get_float e d k dflt =
     (let v = dict_get d k (PyNum dflt) in
      case to_float (me_parse e) v of
        Inr x \<Rightarrow> Inr x
      | Inl ValueE \<Rightarrow> Inl (ValueErrorE (''could not convert string to float: '' @ py_str (me_shw e) v))
      | Inl _ \<Rightarrow> Inl OtherE)"

definition load_calibrator :: "'o ml_env \<Rightarrow> string option \<Rightarrow> load_exc + calibrator option" where
  "load_calibrator e f =
     (case f of
        None \<Rightarrow> Inr None
      | Some txt \<Rightarrow>
          bindE (read_json e txt) (\<lambda>d.
            if truthy (dget d ''fitted'')
            then bindE (get_float e d ''a'' 1) (\<lambda>a. bindE (get_float e d ''b'' 0) (\<lambda>b.
                   Inr (Some \<lparr>cb_a = a, cb_b = b, cb_fitted = True\<rparr>)))
            else Inr None))"

definition load_trained_model ::
    "'o ml_env \<Rightarrow> disk \<Rightarrow> string \<Rightarrow> string \<Rightarrow> load_exc + ('o trained_model \<times> calibrator option \<times> artifact_bundle)" where
  "load_trained_model e disk mid ver =
     (case disk (file_in mid ver ''bundle.json'') of
        None \<Rightarrow> Inl FileNotFoundE
      | Some txt \<Rightarrow>
          bindE (read_json e txt) (\<lambda>d.
          bindE (mapE load_exc_of (bundle_from_dict (me_shw e) d)) (\<lambda>b.
            case disk (file_in mid ver (ab_artifact_file b)) of
              None \<Rightarrow> Inl FileNotFoundE
            | Some raw \<Rightarrow>
                if ab_checksum b \<noteq> [] \<and> me_sha256 e raw \<noteq> ab_checksum b
                then Inl (ValueErrorE ''artifact_checksum_mismatch'')
                else
                  bindE (me_unpickle e raw) (\<lambda>data.
                  bindE (if ab_backend b = ''numpy_logit'' then me_logit e data else Inr data) (\<lambda>art.
                  bindE (load_calibrator e (disk (file_in mid ver (ab_calibrator_file b)))) (\<lambda>cal.
                    Inr (\<lparr>tm_model_id = ab_model_id b, tm_model_version = ab_model_version b,
                          tm_backend = ab_backend b, tm_feature_names = ab_feature_names b,
                          tm_features_version = ab_features_version b,
                          tm_dataset_hash = ab_dataset_hash b, tm_artifact = art,
                          tm_metrics = ab_metrics b, tm_metadata = ab_metadata b\<rparr>, cal, b)))))))"

text \<open>A result or the reason there is none.\<close>

definition load_trained_model_safe ::
    "'o ml_env \<Rightarrow> disk \<Rightarrow> string \<Rightarrow> string \<Rightarrow>
     ('o trained_model \<times> calibrator option \<times> artifact_bundle) option \<times> string" where
  "load_trained_model_safe e disk mid ver =
     (case load_trained_model e disk mid ver of
        Inl FileNotFoundE \<Rightarrow> (None, ''missing'')
      | Inl (ValueErrorE msg) \<Rightarrow>
          (None, if py_in ''checksum'' (py_lower msg) then ''checksum_mismatch'' else ''corrupt'')
      | Inl OtherE \<Rightarrow> (None, ''corrupt'')
      | Inr (m, cal, b) \<Rightarrow>
          if \<not> fst (validate_artifact_bundle b) then (None, ''invalid_bundle'')
          else if ab_backend b = ''numpy_logit''
          then (if me_has_weights e (tm_artifact m) then (Some (m, cal, b), ''ok'') else (None, ''corrupt''))
          else if me_is_none e (tm_artifact m) then (None, ''corrupt'')
          else (Some (m, cal, b), ''ok''))"

section \<open>Integrity\<close>

record integrity =
  ir_ok :: bool
  ir_status :: string
  ir_reasons :: "string list"
  ir_schema_version :: string
  ir_checksum :: string
  ir_expected :: string
  ir_model_id :: string
  ir_model_version :: string

definition bad_integrity :: "string \<Rightarrow> string \<Rightarrow> string \<Rightarrow> string list \<Rightarrow> integrity" where
  "bad_integrity mid ver st reasons =
     \<lparr>ir_ok = False, ir_status = st, ir_reasons = reasons, ir_schema_version = [], ir_checksum = [],
      ir_expected = [], ir_model_id = mid, ir_model_version = ver\<rparr>"

text \<open>\<open>str(data.get(k, "") or data.get("metadata", {}).get(k, ""))\<close>.\<close>

definition top_or_meta :: "(pyval \<Rightarrow> string) \<Rightarrow> pydict \<Rightarrow> string \<Rightarrow> py_exc + string" where
  "top_or_meta shw d k =
     (let v = dict_get d k (PyStr []) in
      if truthy v then Inr (py_str shw v)
      else case dict_get d ''metadata'' (PyDict []) of
             PyDict meta \<Rightarrow> Inr (py_str shw (dict_get meta k (PyStr [])))
           | _ \<Rightarrow> Inl AttributeE)"

fun exc_name :: "py_exc \<Rightarrow> string" where
  "exc_name KeyE = ''KeyError''"
| "exc_name TypeE = ''TypeError''"
| "exc_name ValueE = ''ValueError''"
| "exc_name AttributeE = ''AttributeError''"

definition check_bundle ::
    "'o ml_env \<Rightarrow> pydict \<Rightarrow> string \<Rightarrow> string \<Rightarrow> string \<Rightarrow> string \<Rightarrow> string \<Rightarrow> integrity" where
  "check_bundle e d mid ver schema actual expected =
     (case bundle_from_dict (me_shw e) d of
        Inl x \<Rightarrow> bad_integrity mid ver ''corrupt'' [''bundle_parse:'' @ exc_name x]
      | Inr b \<Rightarrow>
          (case validate_artifact_bundle b of
             (False, reason) \<Rightarrow>
               (bad_integrity mid ver ''corrupt'' [''bundle_invalid:'' @ reason])
                 \<lparr>ir_schema_version := schema, ir_checksum := actual\<rparr>
           | (True, _) \<Rightarrow>
               \<lparr>ir_ok = True, ir_status = ''ok'', ir_reasons = [], ir_schema_version = schema,
                ir_checksum = actual, ir_expected = (if expected = [] then actual else expected),
                ir_model_id = mid, ir_model_version = ver\<rparr>))"

definition verify_artifact_integrity ::
    "'o ml_env \<Rightarrow> disk \<Rightarrow> string \<Rightarrow> string \<Rightarrow> string \<Rightarrow> py_exc + integrity" where
  "verify_artifact_integrity e disk expected_schema mid ver =
     (case disk (file_in mid ver ''bundle.json'') of
        None \<Rightarrow> Inr (bad_integrity mid ver ''missing'' [''bundle_missing''])
      | Some txt \<Rightarrow>
          (case me_json e txt of
             None \<Rightarrow> Inr (bad_integrity mid ver ''corrupt'' [''bundle_json_corrupt''])
           | Some (PyDict d) \<Rightarrow>
               bindE (top_or_meta (me_shw e) d ''schema_version'') (\<lambda>schema.
                 if schema \<noteq> [] \<and> schema \<noteq> expected_schema
                 then Inr ((bad_integrity mid ver ''schema_mismatch''
                        [''schema_mismatch:'' @ schema @ ''!='' @ expected_schema])
                        \<lparr>ir_schema_version := schema\<rparr>)
                 else
                   (let sch = (if schema = [] then expected_schema else schema) in
                    case disk (file_in mid ver (get_str (me_shw e) d ''artifact_file'' ''model.pkl'')) of
                      None \<Rightarrow> Inr ((bad_integrity mid ver ''missing'' [''artifact_file_missing''])
                                 \<lparr>ir_schema_version := sch\<rparr>)
                    | Some raw \<Rightarrow>
                        (let actual = me_sha256 e raw in
                         bindE (top_or_meta (me_shw e) d ''artifact_checksum'') (\<lambda>expected.
                           if expected \<noteq> [] \<and> actual \<noteq> expected
                           then Inr ((bad_integrity mid ver ''checksum_mismatch''
                                  [''artifact_checksum_mismatch''])
                                  \<lparr>ir_schema_version := sch, ir_checksum := actual, ir_expected := expected\<rparr>)
                           else Inr (check_bundle e d mid ver sch actual expected)))))
           | Some _ \<Rightarrow> Inl AttributeE))"

definition check_schema_compatibility :: "(pyval \<Rightarrow> string) \<Rightarrow> artifact_bundle \<Rightarrow> string \<Rightarrow> string \<Rightarrow> string list" where
  "check_schema_compatibility shw b expected_features expected_schema =
     (let actual = py_str shw (py_or (dict_get (ab_metadata b) ''schema_version'' (PyStr []))
                     (py_or (PyStr (ab_schema_version b)) (PyStr [])))
      in (if actual \<noteq> [] \<and> actual \<noteq> expected_schema then [''schema_incompatible:'' @ actual] else []) @
         (if expected_features \<noteq> [] \<and> ab_features_version b \<noteq> [] \<and>
             ab_features_version b \<noteq> expected_features
          then [''features_version_mismatch:'' @ ab_features_version b @ ''!='' @ expected_features]
          else []) @
         (if ab_feature_names b = [] then [''empty_feature_names''] else []))"

definition load_with_integrity ::
    "'o ml_env \<Rightarrow> disk \<Rightarrow> string \<Rightarrow> string \<Rightarrow> string \<Rightarrow>
     py_exc + (('o trained_model \<times> calibrator option \<times> artifact_bundle) option \<times> integrity)" where
  "load_with_integrity e disk expected_features mid ver =
     bindE (verify_artifact_integrity e disk ARTIFACT_SCHEMA_VERSION mid ver) (\<lambda>irep.
       if \<not> ir_ok irep then Inr (None, irep)
       else case load_trained_model_safe e disk mid ver of
              (None, st) \<Rightarrow>
                Inr (None, bad_integrity mid ver (if st = ''missing'' then ''missing'' else ''corrupt'')
                       [''safe_load:'' @ st])
            | (Some (m, cal, b), st) \<Rightarrow>
                (let bad = check_schema_compatibility (me_shw e) b expected_features ARTIFACT_SCHEMA_VERSION
                 in if bad \<noteq> []
                    then Inr (None, (bad_integrity mid ver ''incompatible'' bad)
                           \<lparr>ir_schema_version := py_str (me_shw e)
                              (py_or (dict_get (ab_metadata b) ''schema_version'' (PyStr []))
                                (py_or (PyStr (ab_schema_version b)) (PyStr ARTIFACT_SCHEMA_VERSION)))\<rparr>)
                    else Inr (Some (m, cal, b), irep)))"

end
