(* ===== verification/MlManifest.thy ===== *)
theory MlManifest
  imports MlArtifacts
begin

text \<open>
  The deployment manifest of an artifact (\<^verbatim>\<open>god/ml/manifest.py\<close>): its fields, its JSON form
  and back, its validation, and the check against the artifact on disk.
\<close>

definition MANIFEST_VERSION :: string where
  "MANIFEST_VERSION = ''1.0''"

record manifest =
  am_manifest_version :: string
  am_schema_version :: string
  am_model_id :: string
  am_model_version :: string
  am_model_family :: string
  am_backend :: string
  am_status :: string
  am_feature_schema_version :: string
  am_feature_schema_hash :: string
  am_feature_names :: "pyval list"
  am_dataset_fingerprint :: string
  am_dataset_version :: string
  am_n_samples :: int
  am_trained_at :: string
  am_promoted_at :: string
  am_parent_id :: string
  am_parent_version :: string
  am_checksum :: string
  am_calibration_method :: string
  am_calibration_version :: string
  am_calibration_n :: int
  am_calibration_checksum :: string
  am_oos_metrics :: "(string \<times> flt) list"
  am_hardware_profile :: string
  am_runtime_python :: string
  am_runtime_platform :: string
  am_runtime_arch :: string
  am_library_versions :: "(string \<times> string) list"
  am_rollback_from_id :: string
  am_rollback_from_version :: string
  am_rollback_reason :: string
  am_notes :: "pyval list"
  am_created_at :: string

definition str_dict :: "(string \<times> string) list \<Rightarrow> pyval" where
  "str_dict d = PyDict (map (\<lambda>(k, s). (k, PyStr s)) d)"

text \<open>\<open>{str(k): str(v) for k, v in (v or {}).items()}\<close>.\<close>

definition to_str_dict :: "(pyval \<Rightarrow> string) \<Rightarrow> pyval \<Rightarrow> py_exc + (string \<times> string) list" where
  "to_str_dict shw v =
     (if \<not> truthy v then Inr []
      else case v of PyDict d \<Rightarrow> Inr (map (\<lambda>(k, x). (k, py_str shw x)) d) | _ \<Rightarrow> Inl AttributeE)"

definition manifest_to_dict :: "manifest \<Rightarrow> pydict" where
  "manifest_to_dict m =
     [(''manifest_version'', PyStr (am_manifest_version m)),
      (''schema_version'', PyStr (am_schema_version m)), (''model_id'', PyStr (am_model_id m)),
      (''model_version'', PyStr (am_model_version m)), (''model_family'', PyStr (am_model_family m)),
      (''backend'', PyStr (am_backend m)), (''status'', PyStr (am_status m)),
      (''feature_schema_version'', PyStr (am_feature_schema_version m)),
      (''feature_schema_hash'', PyStr (am_feature_schema_hash m)),
      (''feature_names'', PyList (am_feature_names m)),
      (''dataset_fingerprint'', PyStr (am_dataset_fingerprint m)),
      (''dataset_version'', PyStr (am_dataset_version m)), (''n_samples'', num (am_n_samples m)),
      (''trained_at'', PyStr (am_trained_at m)), (''promoted_at'', PyStr (am_promoted_at m)),
      (''parent_champion_id'', PyStr (am_parent_id m)),
      (''parent_champion_version'', PyStr (am_parent_version m)),
      (''artifact_checksum'', PyStr (am_checksum m)),
      (''calibration_method'', PyStr (am_calibration_method m)),
      (''calibration_version'', PyStr (am_calibration_version m)),
      (''calibration_n'', num (am_calibration_n m)),
      (''calibration_checksum'', PyStr (am_calibration_checksum m)),
      (''oos_metrics'', num_dict (am_oos_metrics m)),
      (''hardware_profile'', PyStr (am_hardware_profile m)),
      (''runtime_python'', PyStr (am_runtime_python m)),
      (''runtime_platform'', PyStr (am_runtime_platform m)),
      (''runtime_arch'', PyStr (am_runtime_arch m)),
      (''library_versions'', str_dict (am_library_versions m)),
      (''rollback_from_id'', PyStr (am_rollback_from_id m)),
      (''rollback_from_version'', PyStr (am_rollback_from_version m)),
      (''rollback_reason'', PyStr (am_rollback_reason m)), (''notes'', PyList (am_notes m)),
      (''created_at'', PyStr (am_created_at m))]"

definition manifest_from_dict ::
    "(pyval \<Rightarrow> string) \<Rightarrow> (string \<Rightarrow> flt option) \<Rightarrow> pydict \<Rightarrow> py_exc + manifest" where
  "manifest_from_dict shw parse d =
     (let s = (\<lambda>k. get_str shw d k []) in
      bindE (to_tuple (py_or (dget d ''feature_names'') (PyList []))) (\<lambda>names.
      bindE (to_int parse (dict_get d ''n_samples'' (num 0))) (\<lambda>n.
      bindE (to_int parse (dict_get d ''calibration_n'' (num 0))) (\<lambda>cal_n.
      bindE (to_float_dict parse (dget d ''oos_metrics'')) (\<lambda>oos.
      bindE (to_str_dict shw (dget d ''library_versions'')) (\<lambda>libs.
      bindE (to_tuple (py_or (dget d ''notes'') (PyList []))) (\<lambda>notes.
        Inr \<lparr>am_manifest_version = get_str shw d ''manifest_version'' MANIFEST_VERSION,
             am_schema_version = get_str shw d ''schema_version'' ARTIFACT_SCHEMA_VERSION,
             am_model_id = s ''model_id'', am_model_version = s ''model_version'',
             am_model_family = s ''model_family'', am_backend = s ''backend'',
             am_status = get_str shw d ''status'' ''candidate'',
             am_feature_schema_version = s ''feature_schema_version'',
             am_feature_schema_hash = s ''feature_schema_hash'', am_feature_names = names,
             am_dataset_fingerprint = s ''dataset_fingerprint'',
             am_dataset_version = s ''dataset_version'', am_n_samples = n,
             am_trained_at = s ''trained_at'', am_promoted_at = s ''promoted_at'',
             am_parent_id = s ''parent_champion_id'', am_parent_version = s ''parent_champion_version'',
             am_checksum = s ''artifact_checksum'', am_calibration_method = s ''calibration_method'',
             am_calibration_version = s ''calibration_version'', am_calibration_n = cal_n,
             am_calibration_checksum = s ''calibration_checksum'', am_oos_metrics = oos,
             am_hardware_profile = s ''hardware_profile'', am_runtime_python = s ''runtime_python'',
             am_runtime_platform = s ''runtime_platform'', am_runtime_arch = s ''runtime_arch'',
             am_library_versions = libs, am_rollback_from_id = s ''rollback_from_id'',
             am_rollback_from_version = s ''rollback_from_version'',
             am_rollback_reason = s ''rollback_reason'', am_notes = notes,
             am_created_at = s ''created_at''\<rparr>)))))))"

definition major :: "string \<Rightarrow> string" where
  "major v = takeWhile (\<lambda>c. c \<noteq> CHR ''.'') v"

definition validate_manifest :: "manifest \<Rightarrow> bool \<times> string" where
  "validate_manifest m =
     (if am_model_id m = [] \<or> am_model_version m = [] then (False, ''missing_model_identity'')
      else if am_checksum m = [] then (False, ''missing_artifact_checksum'')
      else if am_feature_names m = [] then (False, ''missing_feature_names'')
      else if am_dataset_fingerprint m = [] then (False, ''missing_dataset_fingerprint'')
      else if am_schema_version m \<noteq> [] \<and> am_schema_version m \<noteq> ARTIFACT_SCHEMA_VERSION
      then (False, ''unsupported_schema:'' @ am_schema_version m)
      else if am_manifest_version m \<noteq> [] \<and> major (am_manifest_version m) \<noteq> major MANIFEST_VERSION
      then (False, ''unsupported_manifest:'' @ am_manifest_version m)
      else (True, ''ok''))"

definition save_manifest :: "'o ml_env \<Rightarrow> disk \<Rightarrow> manifest \<Rightarrow> disk" where
  "save_manifest e disk m =
     disk(file_in (am_model_id m) (am_model_version m) ''manifest.json'' \<mapsto>
            me_dumps e (PyDict (manifest_to_dict m)))"

text \<open>Only a JSON error, \<open>KeyError\<close>, \<open>TypeError\<close> and \<open>ValueError\<close> count as no manifest.\<close>

definition load_manifest :: "'o ml_env \<Rightarrow> disk \<Rightarrow> string \<Rightarrow> string \<Rightarrow> py_exc + manifest option" where
  "load_manifest e disk mid ver =
     (case disk (file_in mid ver ''manifest.json'') of
        None \<Rightarrow> Inr None
      | Some txt \<Rightarrow>
          (case me_json e txt of
             None \<Rightarrow> Inr None
           | Some (PyDict d) \<Rightarrow>
               (case manifest_from_dict (me_shw e) (me_parse e) d of
                  Inr m \<Rightarrow> Inr (Some m)
                | Inl AttributeE \<Rightarrow> Inl AttributeE
                | Inl _ \<Rightarrow> Inr None)
           | Some _ \<Rightarrow> Inl AttributeE))"

definition verify_manifest_against_disk ::
    "'o ml_env \<Rightarrow> disk \<Rightarrow> string \<Rightarrow> string \<Rightarrow> py_exc + (bool \<times> string)" where
  "verify_manifest_against_disk e disk mid ver =
     bindE (load_manifest e disk mid ver) (\<lambda>m.
       case m of
         None \<Rightarrow> Inr (False, ''manifest_missing_or_corrupt'')
       | Some m \<Rightarrow>
           (case validate_manifest m of
              (False, reason) \<Rightarrow> Inr (False, reason)
            | (True, _) \<Rightarrow>
                (case disk (file_in mid ver ''model.pkl'') of
                   None \<Rightarrow> Inr (False, ''artifact_missing'')
                 | Some raw \<Rightarrow>
                     if am_checksum m \<noteq> [] \<and> me_sha256 e raw \<noteq> am_checksum m
                     then Inr (False, ''checksum_mismatch'')
                     else Inr (True, ''ok''))))"

section \<open>Round trips\<close>

lemma to_str_dict_strs [simp]: "to_str_dict shw (str_dict d) = Inr d"
proof -
  have "map (\<lambda>(k, x). (k, py_str shw x)) (map (\<lambda>(k, s). (k, PyStr s)) d) = d"
    by (induction d) auto
  then show ?thesis by (cases "d = []") (auto simp: to_str_dict_def str_dict_def)
qed

lemma list_or_empty [simp]: "py_or (PyList xs) (PyList []) = PyList xs"
  by (simp add: py_or_def)

lemmas lookups = dget_def dict_get_def get_str_def

lemma manifest_from_to_dict: "manifest_from_dict shw parse (manifest_to_dict m) = Inr m"
  by (simp add: manifest_from_dict_def manifest_to_dict_def lookups)

end
