(* ===== verification/MlCompute.thy ===== *)
theory MlCompute
  imports MlState
begin

text \<open>
  The gate for models trained elsewhere: the jobs and results of \<^verbatim>\<open>god/ml/compute/types.py\<close>
  and the validation of \<^verbatim>\<open>god/ml/compute/validation.py\<close>. The file system maps a path to
  nothing, to an unreadable file or to contents; the digest and the URL parser are parameters.
\<close>

datatype job_status = J_PENDING | J_PREPARING | J_SUBMITTED | J_RUNNING | J_SUCCESS | J_COMPLETED
  | J_INTERRUPTED | J_UNKNOWN | J_FAILED | J_CANCELLED | J_REJECTED | J_VALIDATED

fun job_status_value :: "job_status \<Rightarrow> string" where
  "job_status_value J_PENDING = ''PENDING''"
| "job_status_value J_PREPARING = ''PREPARING''"
| "job_status_value J_SUBMITTED = ''SUBMITTED''"
| "job_status_value J_RUNNING = ''RUNNING''"
| "job_status_value J_SUCCESS = ''SUCCESS''"
| "job_status_value J_COMPLETED = ''COMPLETED''"
| "job_status_value J_INTERRUPTED = ''INTERRUPTED''"
| "job_status_value J_UNKNOWN = ''UNKNOWN''"
| "job_status_value J_FAILED = ''FAILED''"
| "job_status_value J_CANCELLED = ''CANCELLED''"
| "job_status_value J_REJECTED = ''REJECTED''"
| "job_status_value J_VALIDATED = ''VALIDATED''"

record training_job =
  tj_job_id :: string
  tj_tenant_id :: string
  tj_model_id :: string
  tj_model_version :: string
  tj_model_type :: string
  tj_workload_type :: string
  tj_dataset_id :: string
  tj_dataset_hash :: string
  tj_code_version :: string
  tj_dependency_profile :: string
  tj_training_config_hash :: string
  tj_provider :: string
  tj_requested_resources :: pydict
  tj_timeout_sec :: int
  tj_checkpoint_ref :: string
  tj_artifact_ref :: string
  tj_created_at :: flt
  tj_status :: job_status
  tj_metrics :: "(string \<times> flt) list"
  tj_metadata :: pydict
  tj_provenance :: pydict

definition is_heavy :: "training_job \<Rightarrow> bool" where
  "is_heavy j \<longleftrightarrow> py_lower (tj_workload_type j) \<in> set [''heavy'', ''training_heavy'', ''neural'',
     ''ensemble_heavy'', ''hparam_search'', ''backtest_heavy'']"

record training_result =
  rs_job :: training_job
  rs_artifact_hash :: string
  rs_checkpoint_hash :: string
  rs_provider_notes :: "string list"

text \<open>A file system: no file, a file that cannot be read, or contents.\<close>

type_synonym files = "string \<Rightarrow> (unit + string) option"

text \<open>\<open>urlparse\<close> gives the scheme and the path.\<close>

record compute_env =
  ce_shw :: "pyval \<Rightarrow> string"
  ce_sha256 :: "string \<Rightarrow> string"
  ce_urlparse :: "string \<Rightarrow> string \<times> string"
  ce_files :: files

definition if_file :: "files \<Rightarrow> string \<Rightarrow> string option" where
  "if_file fs p = (if fs p = None then None else Some p)"

definition resolve_ref :: "compute_env \<Rightarrow> string \<Rightarrow> string option" where
  "resolve_ref e ref =
     (if ref = [] then None
      else if prefix ''local://'' ref then None
      else if py_in ''://'' ref
      then (let (scheme, path) = ce_urlparse e ref in
            if scheme \<in> set [''file'', []] then if_file (ce_files e) path else None)
      else if_file (ce_files e) ref)"

definition resolve_artifact_path ::
    "compute_env \<Rightarrow> training_result \<Rightarrow> string option \<Rightarrow> string option" where
  "resolve_artifact_path e r artifact_path =
     (case artifact_path of
        Some p \<Rightarrow> if_file (ce_files e) p
      | None \<Rightarrow>
          (let meta_path = dget (tj_metadata (rs_job r)) ''artifact_path'';
               p = py_str (ce_shw e) meta_path
           in if truthy meta_path \<and> ce_files e p \<noteq> None then Some p
              else resolve_ref e (tj_artifact_ref (rs_job r))))"

text \<open>The reasons about the dataset, the schema, and the artifact with its digest.\<close>

definition dataset_reasons :: "training_job \<Rightarrow> string \<Rightarrow> string list" where
  "dataset_reasons job expected =
     (if expected = [] then []
      else if tj_dataset_hash job = [] then [''missing_dataset_hash'']
      else if tj_dataset_hash job \<noteq> expected then [''dataset_hash_mismatch''] else [])"

definition schema_reasons :: "training_job \<Rightarrow> pydict \<Rightarrow> string list" where
  "schema_reasons job expected =
     map (\<lambda>(k, _). ''schema_mismatch:'' @ k)
       (filter (\<lambda>(k, v). dget (tj_metadata job) k \<noteq> v) expected)"

definition actual_digest ::
    "compute_env \<Rightarrow> training_result \<Rightarrow> string option \<Rightarrow> string option \<Rightarrow> bool \<Rightarrow>
     string list \<times> string option" where
  "actual_digest e r artifact_path artifact_bytes require_resolvable =
     (case artifact_bytes of
        Some raw \<Rightarrow> ([], Some (ce_sha256 e raw))
      | None \<Rightarrow>
          (case resolve_artifact_path e r artifact_path of
             Some p \<Rightarrow>
               (case ce_files e p of
                  Some (Inr raw) \<Rightarrow> ([], Some (ce_sha256 e raw))
                | _ \<Rightarrow> ([''artifact_unreadable''], None))
           | None \<Rightarrow> (if require_resolvable then [''artifact_unresolvable''] else [], None)))"

definition validation_reasons ::
    "compute_env \<Rightarrow> training_result \<Rightarrow> string \<Rightarrow> pydict \<Rightarrow> nat \<Rightarrow> string option \<Rightarrow> string option \<Rightarrow>
     bool \<Rightarrow> string list" where
  "validation_reasons e r expected_dataset expected_schema min_len artifact_path artifact_bytes require =
     (let job = rs_job r;
          (unresolved, actual) = actual_digest e r artifact_path artifact_bytes require
      in (if tj_status job = J_SUCCESS then []
          else [''job_status_not_success:'' @ job_status_value (tj_status job)]) @
         (if rs_artifact_hash r = [] \<or> length (rs_artifact_hash r) < min_len
          then [''missing_or_short_artifact_hash''] else []) @
         dataset_reasons job expected_dataset @
         schema_reasons job expected_schema @
         (if ''interrupted'' \<in> set (rs_provider_notes r) \<or> ''not_success'' \<in> set (rs_provider_notes r)
          then [''provider_interrupted''] else []) @
         unresolved @
         (if actual \<noteq> None \<and> rs_artifact_hash r \<noteq> [] \<and> actual \<noteq> Some (rs_artifact_hash r)
          then [''artifact_hash_mismatch''] else []))"

record artifact_validation =
  av_ok :: bool
  av_reasons :: "string list"
  av_eligible :: bool

definition validate_training_result ::
    "compute_env \<Rightarrow> training_result \<Rightarrow> string \<Rightarrow> pydict \<Rightarrow> nat \<Rightarrow> string option \<Rightarrow> string option \<Rightarrow>
     bool \<Rightarrow> artifact_validation" where
  "validate_training_result e r expected_dataset expected_schema min_len artifact_path artifact_bytes require =
     (let reasons = validation_reasons e r expected_dataset expected_schema min_len artifact_path
                      artifact_bytes require
      in \<lparr>av_ok = (reasons = []), av_reasons = reasons, av_eligible = (reasons = [])\<rparr>)"

text \<open>
  What eligibility means: a successful job, the expected dataset, and an artifact that exists and
  has the digest the provider declared.
\<close>

lemma eligible_digest:
  "av_eligible (validate_training_result e r expd sch n path None True) \<Longrightarrow>
     \<exists>p raw. resolve_artifact_path e r path = Some p \<and> ce_files e p = Some (Inr raw) \<and>
       ce_sha256 e raw = rs_artifact_hash r"
  by (auto simp: validate_training_result_def validation_reasons_def actual_digest_def Let_def
      split: option.splits sum.splits prod.splits if_splits)

lemma eligible_job:
  "av_eligible (validate_training_result e r expd sch n path raw req) \<Longrightarrow>
     tj_status (rs_job r) = J_SUCCESS \<and> n \<le> length (rs_artifact_hash r)"
  by (auto simp: validate_training_result_def validation_reasons_def Let_def
      split: prod.splits if_splits)

lemma eligible_dataset:
  "av_eligible (validate_training_result e r expd sch n path raw req) \<Longrightarrow> expd \<noteq> [] \<Longrightarrow>
     tj_dataset_hash (rs_job r) = expd"
  by (auto simp: validate_training_result_def validation_reasons_def dataset_reasons_def Let_def
      split: prod.splits if_splits)

end
