(* ===== verification/Champion.thy ===== *)
theory Champion
  imports MlManifest MlCompute
begin

text \<open>
  The model registry and the governance of its champion: \<^verbatim>\<open>god/ml/registry.py\<close>,
  \<^verbatim>\<open>god/ml/retention.py\<close>, \<^verbatim>\<open>god/ml/promotion.py\<close>, \<^verbatim>\<open>god/ml/rollback_safe.py\<close>
  and \<^verbatim>\<open>god/ml/recovery.py\<close>. A registry is its records in order, the disk below its root and
  the audit sink the caller passes along. An operation that may raise returns \<open>Inl\<close> of the
  exception together with the registry as the exception leaves it.
\<close>

section \<open>Records\<close>

record model_record =
  mr_model_id :: string
  mr_model_version :: string
  mr_status :: string
  mr_features_version :: string
  mr_dataset_hash :: string
  mr_metrics :: pydict
  mr_backend :: string
  mr_path :: string
  mr_saved_at :: string
  mr_calibration_status :: string
  mr_model_family :: string
  mr_hardware_profile :: string
  mr_oos_metrics :: pydict

definition record_to_dict :: "model_record \<Rightarrow> pydict" where
  "record_to_dict r =
     [(''model_id'', PyStr (mr_model_id r)), (''model_version'', PyStr (mr_model_version r)),
      (''status'', PyStr (mr_status r)), (''features_version'', PyStr (mr_features_version r)),
      (''dataset_hash'', PyStr (mr_dataset_hash r)), (''metrics'', PyDict (mr_metrics r)),
      (''backend'', PyStr (mr_backend r)), (''path'', PyStr (mr_path r)),
      (''saved_at'', PyStr (mr_saved_at r)),
      (''calibration_status'', PyStr (mr_calibration_status r)),
      (''model_family'', PyStr (mr_model_family r)),
      (''hardware_profile'', PyStr (mr_hardware_profile r)),
      (''oos_metrics'', PyDict (mr_oos_metrics r))]"

text \<open>
  Reading a record back. The code does not check the types of the text fields; a file where one of
  them is not a string is outside the model and counts as a \<open>TypeError\<close>.
\<close>

definition text_of :: "pyval \<Rightarrow> py_exc + string" where
  "text_of v = (case v of PyStr s \<Rightarrow> Inr s | _ \<Rightarrow> Inl TypeE)"

definition text_or :: "pydict \<Rightarrow> string \<Rightarrow> string \<Rightarrow> py_exc + string" where
  "text_or d k dflt = text_of (dict_get d k (PyStr dflt))"

definition record_from_dict :: "pydict \<Rightarrow> py_exc + model_record" where
  "record_from_dict d =
     bindE (bindE (item d ''model_id'') text_of) (\<lambda>mid.
     bindE (bindE (item d ''model_version'') text_of) (\<lambda>ver.
     bindE (text_or d ''status'' ''candidate'') (\<lambda>st.
     bindE (text_or d ''features_version'' []) (\<lambda>fv.
     bindE (text_or d ''dataset_hash'' []) (\<lambda>dh.
     bindE (to_dict_or_empty (dget d ''metrics'')) (\<lambda>metrics.
     bindE (text_or d ''backend'' []) (\<lambda>backend.
     bindE (text_or d ''path'' []) (\<lambda>path.
     bindE (text_or d ''saved_at'' []) (\<lambda>saved.
     bindE (text_or d ''calibration_status'' []) (\<lambda>cs.
     bindE (text_or d ''model_family'' []) (\<lambda>fam.
     bindE (text_or d ''hardware_profile'' []) (\<lambda>hw.
     bindE (to_dict_or_empty (dget d ''oos_metrics'')) (\<lambda>oos.
       Inr \<lparr>mr_model_id = mid, mr_model_version = ver, mr_status = st, mr_features_version = fv,
            mr_dataset_hash = dh, mr_metrics = metrics, mr_backend = backend, mr_path = path,
            mr_saved_at = saved, mr_calibration_status = cs, mr_model_family = fam,
            mr_hardware_profile = hw, mr_oos_metrics = oos\<rparr>)))))))))))))"

section \<open>The registry\<close>

record ml_registry =
  mg_records :: "model_record list"
  mg_disk :: disk
  mg_audit :: audit

definition INDEX :: string where
  "INDEX = ''registry.json''"

fun records_from :: "pyval list \<Rightarrow> py_exc + model_record list" where
  "records_from [] = Inr []"
| "records_from (PyDict d # vs) =
     bindE (record_from_dict d) (\<lambda>r. bindE (records_from vs) (\<lambda>rs. Inr (r # rs)))"
| "records_from (_ # vs) = Inl TypeE"

text \<open>\<open>ModelRegistry(root)\<close>: an unreadable index makes the constructor raise.\<close>

definition registry_load :: "'o ml_env \<Rightarrow> disk \<Rightarrow> py_exc + model_record list" where
  "registry_load e disk =
     (case disk INDEX of
        None \<Rightarrow> Inr []
      | Some txt \<Rightarrow>
          (case me_json e txt of
             Some (PyDict d) \<Rightarrow>
               (case dict_get d ''models'' (PyList []) of
                  PyList vs \<Rightarrow> records_from vs
                | _ \<Rightarrow> Inl TypeE)
           | Some _ \<Rightarrow> Inl AttributeE
           | None \<Rightarrow> Inl ValueE))"

definition registry_save :: "'o ml_env \<Rightarrow> ml_registry \<Rightarrow> ml_registry" where
  "registry_save e g = g\<lparr>mg_disk := (mg_disk g)(INDEX \<mapsto>
     me_dumps e (PyDict [(''models'', PyList (map (\<lambda>r. PyDict (record_to_dict r)) (mg_records g)))]))\<rparr>"

definition is_model :: "string \<Rightarrow> string \<Rightarrow> model_record \<Rightarrow> bool" where
  "is_model mid ver r \<longleftrightarrow> mr_model_id r = mid \<and> mr_model_version r = ver"

definition has_status :: "string \<Rightarrow> model_record \<Rightarrow> bool" where
  "has_status s r \<longleftrightarrow> mr_status r = s"

definition champion :: "ml_registry \<Rightarrow> model_record option" where
  "champion g = find (has_status CHAMPION) (mg_records g)"

text \<open>\<open>sorted(retired, key=saved_at, reverse=True)[0]\<close>, a stable sort.\<close>

definition previous_champion :: "ml_registry \<Rightarrow> model_record option" where
  "previous_champion g =
     (let retired = filter (\<lambda>r. mr_status r \<in> {RETIRED, ROLLED_BACK}) (mg_records g) in
      if retired = [] then None
      else Some (hd (rev (sort_key mr_saved_at (rev retired)))))"

definition candidate_record ::
    "'o ml_env \<Rightarrow> 'o trained_model \<Rightarrow> pydict \<Rightarrow> pydict \<Rightarrow> string \<Rightarrow> string \<Rightarrow> model_record" where
  "candidate_record e m metrics oos hardware family =
     \<lparr>mr_model_id = tm_model_id m, mr_model_version = tm_model_version m, mr_status = ''candidate'',
      mr_features_version = tm_features_version m, mr_dataset_hash = tm_dataset_hash m,
      mr_metrics = dict_merge (tm_metrics m) metrics, mr_backend = tm_backend m, mr_path = [],
      mr_saved_at = [], mr_calibration_status = [],
      mr_model_family = (if family \<noteq> [] then family
         else get_str (me_shw e) (tm_metadata m) ''model_family'' (tm_model_id m)),
      mr_hardware_profile = (if hardware \<noteq> [] then hardware
         else get_str (me_shw e) (tm_metadata m) ''hardware_profile'' []),
      mr_oos_metrics = oos\<rparr>"

definition register_candidate ::
    "'o ml_env \<Rightarrow> ml_registry \<Rightarrow> 'o trained_model \<Rightarrow> calibrator option \<Rightarrow> pydict option \<Rightarrow> pydict \<Rightarrow>
     pydict \<Rightarrow> string \<Rightarrow> string \<Rightarrow> bool \<Rightarrow> model_record \<times> ml_registry" where
  "register_candidate e g m cal calibration metrics oos hardware family persist =
     (let r = candidate_record e m metrics oos hardware family;
          (r, g) = (if persist
            then (let (b, disk) = save_trained_model e (mg_disk g) m cal calibration metrics in
                  (r\<lparr>mr_path := ''artifacts/'' @ tm_model_id m @ ''@'' @ tm_model_version m,
                     mr_saved_at := ab_saved_at b,
                     mr_calibration_status := (case ab_calibration b of
                        Some c \<Rightarrow> if c = [] then [] else get_str (me_shw e) c ''status'' []
                      | None \<Rightarrow> [])\<rparr>, g\<lparr>mg_disk := disk\<rparr>))
            else (r, g))
      in (r, registry_save e (g\<lparr>mg_records := mg_records g @ [r]\<rparr>)))"

subsection \<open>Promotion\<close>

datatype champion_error =
    PermissionError string
  | ModelNotFound string
  | NoModelId
  | PyError py_exc

fun update_first :: "('a \<Rightarrow> bool) \<Rightarrow> ('a \<Rightarrow> 'a) \<Rightarrow> 'a list \<Rightarrow> 'a list" where
  "update_first P f [] = []"
| "update_first P f (x # xs) = (if P x then f x # xs else x # update_first P f xs)"

definition update_last :: "('a \<Rightarrow> bool) \<Rightarrow> ('a \<Rightarrow> 'a) \<Rightarrow> 'a list \<Rightarrow> 'a list" where
  "update_last P f xs = rev (update_first P f (rev xs))"

definition set_mr_status :: "string \<Rightarrow> model_record \<Rightarrow> model_record" where
  "set_mr_status s r = r\<lparr>mr_status := s\<rparr>"

text \<open>The compute gate of \<open>promote_champion\<close>: \<open>None\<close> lets the promotion pass.\<close>

definition compute_gate ::
    "compute_env \<Rightarrow> training_result option \<Rightarrow> string \<Rightarrow> string option \<Rightarrow> bool \<Rightarrow> champion_error option" where
  "compute_gate ce result expected path require =
     (case result of
        None \<Rightarrow> if require then Some (PermissionError ''compute_gate_required:training_result_missing'')
                else None
      | Some r \<Rightarrow>
          (let expected = (if expected \<noteq> [] then expected else tj_dataset_hash (rs_job r)) in
           if expected = []
           then Some (PermissionError ''compute_validation_rejected:missing_expected_dataset_hash'')
           else
             (let gate = validate_training_result ce r expected [] 16 path None True in
              if av_eligible gate then None
              else Some (PermissionError
                     (''compute_validation_rejected:'' @ join '','' (av_reasons gate))))))"

text \<open>
  The loop of \<open>promote_champion\<close> retires every other champion; the model found is the last one
  with the identity. When there is none the exception leaves the retirements in memory.
\<close>

definition retire_others :: "string \<Rightarrow> string \<Rightarrow> model_record list \<Rightarrow> model_record list" where
  "retire_others mid ver =
     map (\<lambda>r. if is_model mid ver r then r
              else if has_status CHAMPION r then set_mr_status RETIRED r else r)"

definition promote_champion ::
    "'o ml_env \<Rightarrow> ml_registry \<Rightarrow> string \<Rightarrow> string \<Rightarrow> (champion_error + model_record) \<times> ml_registry" where
  "promote_champion e g mid ver =
     (let rs = retire_others mid ver (mg_records g) in
      case find (is_model mid ver) (rev rs) of
        None \<Rightarrow> (Inl (ModelNotFound (''model not found: '' @ mid @ ''@'' @ ver)), g\<lparr>mg_records := rs\<rparr>)
      | Some r \<Rightarrow>
          (Inr (set_mr_status CHAMPION r),
           registry_save e (g\<lparr>mg_records := update_last (is_model mid ver) (set_mr_status CHAMPION) rs\<rparr>)))"

definition promote_gated ::
    "'o ml_env \<Rightarrow> compute_env \<Rightarrow> ml_registry \<Rightarrow> string \<Rightarrow> string \<Rightarrow> training_result option \<Rightarrow> string \<Rightarrow>
     string option \<Rightarrow> bool \<Rightarrow> (champion_error + model_record) \<times> ml_registry" where
  "promote_gated e ce g mid ver result expected path require =
     (case compute_gate ce result expected path require of
        Some x \<Rightarrow> (Inl x, g)
      | None \<Rightarrow> promote_champion e g mid ver)"

definition promote_from_compute ::
    "'o ml_env \<Rightarrow> compute_env \<Rightarrow> ml_registry \<Rightarrow> training_result \<Rightarrow> string \<Rightarrow> string \<Rightarrow> string \<Rightarrow>
     string option \<Rightarrow> (champion_error + model_record) \<times> ml_registry" where
  "promote_from_compute e ce g result mid ver expected path =
     (let mid = (if mid \<noteq> [] then mid else tj_model_id (rs_job result));
          ver = (if ver \<noteq> [] then ver else tj_model_version (rs_job result))
      in if mid = [] then (Inl NoModelId, g)
         else promote_gated e ce g mid ver (Some result) expected path True)"

section \<open>Retention\<close>

record retention_policy =
  rp_max_candidates :: int
  rp_max_retired :: int

text \<open>\<open>rmtree\<close> of a directory, or unlinking a file.\<close>

definition remove_artifact :: "string \<Rightarrow> disk \<Rightarrow> disk" where
  "remove_artifact path disk =
     (if path = [] then disk
      else (\<lambda>p. if p = path \<or> prefix (path @ ''/'') p then None else disk p))"

text \<open>The surplus of a class of records, newest first, without the champion; records carry their position.\<close>

definition surplus ::
    "string \<Rightarrow> int \<Rightarrow> model_record option \<Rightarrow> (nat \<times> model_record) list \<Rightarrow> (nat \<times> model_record) list" where
  "surplus st keep champ rs =
     filter (\<lambda>(i, r). case champ of None \<Rightarrow> True
               | Some c \<Rightarrow> \<not> is_model (mr_model_id c) (mr_model_version c) r)
       (slice_from (rev (sort_key (\<lambda>(i, r). mr_saved_at r)
          (rev (filter (\<lambda>(i, r). has_status st r) rs)))) keep)"

definition apply_retention :: "'o ml_env \<Rightarrow> ml_registry \<Rightarrow> retention_policy \<Rightarrow> string list \<times> ml_registry" where
  "apply_retention e g pol =
     (let rs = enumerate 0 (mg_records g);
          champ = champion g;
          excess_c = surplus ''candidate'' (rp_max_candidates pol) champ rs;
          excess_r = surplus ''retired'' (rp_max_retired pol) champ rs;
          pruned = map fst (excess_c @ excess_r);
          disk = fold (\<lambda>(i, r). remove_artifact (mr_path r)) (excess_c @ excess_r) (mg_disk g);
          active = map snd (filter (\<lambda>(i, r). i \<notin> set pruned \<and> mr_status r \<noteq> ''pruned'') rs)
      in (map (\<lambda>(i, r). ''candidate:'' @ mr_model_id r @ ''@'' @ mr_model_version r) excess_c @
          map (\<lambda>(i, r). ''retired:'' @ mr_model_id r @ ''@'' @ mr_model_version r) excess_r,
          registry_save e (g\<lparr>mg_records := active, mg_disk := disk\<rparr>)))"

end
