(* ===== verification/Promotion.thy ===== *)
theory Promotion
  imports Champion
begin

text \<open>
  Changing the champion: the promotion gates and the transactional promotion
  (\<^verbatim>\<open>god/ml/promotion.py\<close>), the rollbacks (\<open>try_rollback\<close> there and
  \<^verbatim>\<open>god/ml/rollback_safe.py\<close>) and the recovery at startup (\<^verbatim>\<open>god/ml/recovery.py\<close>).
\<close>

section \<open>The promotion gates\<close>

record benchmark =
  bm_accuracy :: flt
  bm_precision :: flt
  bm_recall :: flt
  bm_brier :: flt
  bm_log_loss :: flt
  bm_n :: int

record promotion_policy =
  pp_min_oos_accuracy :: flt
  pp_min_oos_n :: int
  pp_max_brier :: flt
  pp_min_improvement :: flt
  pp_require_calibration :: bool
  pp_block_on_drift :: bool

definition default_promotion_policy :: promotion_policy where
  "default_promotion_policy = \<lparr>pp_min_oos_accuracy = 52 / 100, pp_min_oos_n = 20, pp_max_brier = 30 / 100,
     pp_min_improvement = 1 / 100, pp_require_calibration = False, pp_block_on_drift = True\<rparr>"

record gate_result =
  pg_allowed :: bool
  pg_reason :: string
  pg_id :: string
  pg_version :: string
  pg_metrics :: "(string \<times> flt) list"

definition gate_of :: "bool \<Rightarrow> string \<Rightarrow> model_record \<Rightarrow> (string \<times> flt) list \<Rightarrow> gate_result" where
  "gate_of ok reason r metrics = \<lparr>pg_allowed = ok, pg_reason = reason, pg_id = mr_model_id r,
     pg_version = mr_model_version r, pg_metrics = metrics\<rparr>"

text \<open>Accuracy, Brier score and sample size of the challenger: the given benchmark or its record.\<close>

definition oos_evidence ::
    "'o ml_env \<Rightarrow> model_record \<Rightarrow> benchmark option \<Rightarrow> py_exc + (flt \<times> flt \<times> int)" where
  "oos_evidence e r oos =
     (case oos of
        Some b \<Rightarrow> Inr (bm_accuracy b, bm_brier b, bm_n b)
      | None \<Rightarrow>
          bindE (to_float (me_parse e) (dict_get (mr_oos_metrics r) ''accuracy''
                   (dict_get (mr_metrics r) ''oos_acc'' (PyNum 0)))) (\<lambda>acc.
          bindE (to_float (me_parse e) (dict_get (mr_oos_metrics r) ''brier''
                   (dict_get (mr_metrics r) ''brier'' (PyNum 1)))) (\<lambda>brier.
          bindE (to_int (me_parse e) (dict_get (mr_oos_metrics r) ''n''
                   (dict_get (mr_metrics r) ''n'' (PyNum 0)))) (\<lambda>n.
            Inr (acc, brier, n)))))"

text \<open>The incumbent's out-of-sample accuracy, if it has one.\<close>

definition incumbent_accuracy :: "'o ml_env \<Rightarrow> model_record option \<Rightarrow> py_exc + flt option" where
  "incumbent_accuracy e champ =
     (case champ of
        None \<Rightarrow> Inr None
      | Some c \<Rightarrow>
          (let v = dget (mr_oos_metrics c) ''accuracy'';
               v = (if v = PyNone then dget (mr_metrics c) ''oos_acc'' else v)
           in if v = PyNone then Inr None
              else bindE (to_float (me_parse e) v) (\<lambda>x. Inr (Some x))))"

definition evidence_gate ::
    "'o ml_env \<Rightarrow> promotion_policy \<Rightarrow> model_record \<Rightarrow> model_record option \<Rightarrow> flt \<Rightarrow> flt \<Rightarrow> int \<Rightarrow>
     py_exc + gate_result" where
  "evidence_gate e pol r champ acc brier n =
     (if n < pp_min_oos_n pol
      then Inr (gate_of False ''insufficient_oos_n'' r
                  [(''n'', of_int n), (''min_n'', of_int (pp_min_oos_n pol))])
      else if acc < pp_min_oos_accuracy pol
      then Inr (gate_of False ''oos_accuracy_below_threshold'' r
                  [(''accuracy'', acc), (''min_accuracy'', pp_min_oos_accuracy pol)])
      else if pp_max_brier pol < brier
      then Inr (gate_of False ''brier_too_high'' r [(''brier'', brier), (''max_brier'', pp_max_brier pol)])
      else
        bindE (incumbent_accuracy e champ) (\<lambda>c.
          case c of
            Some x \<Rightarrow>
              if acc < x + pp_min_improvement pol
              then Inr (gate_of False ''no_meaningful_improvement_vs_champion'' r
                          [(''challenger_acc'', acc), (''champion_acc'', x)])
              else if pp_require_calibration pol \<and> mr_calibration_status r \<notin> {''VALID'', ''valid''}
              then Inr (gate_of False ''calibration_required_not_valid'' r [])
              else Inr (gate_of True ''oos_gates_passed'' r
                          [(''accuracy'', acc), (''brier'', brier), (''n'', of_int n)])
          | None \<Rightarrow>
              if pp_require_calibration pol \<and> mr_calibration_status r \<notin> {''VALID'', ''valid''}
              then Inr (gate_of False ''calibration_required_not_valid'' r [])
              else Inr (gate_of True ''oos_gates_passed'' r
                          [(''accuracy'', acc), (''brier'', brier), (''n'', of_int n)])))"

definition evaluate_promotion ::
    "'o ml_env \<Rightarrow> model_record \<Rightarrow> model_record option \<Rightarrow> benchmark option \<Rightarrow> drift_report option \<Rightarrow>
     promotion_policy \<Rightarrow> bool \<Rightarrow> py_exc + gate_result" where
  "evaluate_promotion e r champ oos drift pol hardware_only =
     (if hardware_only then Inr (gate_of False ''hardware_change_alone_cannot_promote'' r [])
      else case drift of
        Some d \<Rightarrow>
          if pp_block_on_drift pol \<and> dr_restrict d
          then Inr (gate_of False ''drift_restricts_promotion'' r [(''confidence_multiplier'', dr_confidence d)])
          else bindE (oos_evidence e r oos) (\<lambda>(acc, brier, n). evidence_gate e pol r champ acc brier n)
      | None \<Rightarrow> bindE (oos_evidence e r oos) (\<lambda>(acc, brier, n). evidence_gate e pol r champ acc brier n))"

text \<open>Operations that may raise, with the registry they leave.\<close>

type_synonym 'a outcome = "(py_exc + 'a) \<times> ml_registry"

definition try_promote ::
    "'o ml_env \<Rightarrow> ml_registry \<Rightarrow> string \<Rightarrow> string \<Rightarrow> benchmark option \<Rightarrow> drift_report option \<Rightarrow>
     promotion_policy \<Rightarrow> gate_result outcome" where
  "try_promote e g mid ver oos drift pol =
     (case find (is_model mid ver) (mg_records g) of
        None \<Rightarrow> (Inr \<lparr>pg_allowed = False, pg_reason = ''model_not_found'', pg_id = mid,
                     pg_version = ver, pg_metrics = []\<rparr>, g)
      | Some r \<Rightarrow>
          (case evaluate_promotion e r (champion g) oos drift pol False of
             Inl x \<Rightarrow> (Inl x, g)
           | Inr gate \<Rightarrow>
               if pg_allowed gate
               then (Inr (gate\<lparr>pg_reason := ''promoted:'' @ pg_reason gate\<rparr>),
                     snd (promote_champion e g mid ver))
               else (Inr gate, g)))"

section \<open>Transactional promotion\<close>

record tx_result =
  tx_success :: bool
  tx_reason :: string
  tx_champion_id :: string
  tx_champion_version :: string
  tx_previous_id :: string
  tx_previous_version :: string
  tx_steps :: "string list"
  tx_no_trade :: bool

definition tx_fail :: "string \<Rightarrow> string list \<Rightarrow> bool \<Rightarrow> tx_result" where
  "tx_fail reason steps no_trade = \<lparr>tx_success = False, tx_reason = reason, tx_champion_id = [],
     tx_champion_version = [], tx_previous_id = [], tx_previous_version = [], tx_steps = steps,
     tx_no_trade = no_trade\<rparr>"

definition opt_id :: "model_record option \<Rightarrow> string" where
  "opt_id c = (case c of None \<Rightarrow> [] | Some r \<Rightarrow> mr_model_id r)"

definition opt_version :: "model_record option \<Rightarrow> string" where
  "opt_version c = (case c of None \<Rightarrow> [] | Some r \<Rightarrow> mr_model_version r)"

text \<open>A manifest check passes when it succeeds or there is no readable manifest.\<close>

definition manifest_passes :: "bool \<times> string \<Rightarrow> bool" where
  "manifest_passes m \<longleftrightarrow> fst m \<or> snd m = ''manifest_missing_or_corrupt''"

text \<open>
  The gates after the status check: artifact integrity, manifest, evidence. \<open>Inl\<close> of a result
  is a refusal, \<open>Inr\<close> the verdict of the evidence gate.
\<close>

definition tx_gates ::
    "'o ml_env \<Rightarrow> disk \<Rightarrow> model_record \<Rightarrow> model_record option \<Rightarrow> string \<Rightarrow> string \<Rightarrow> benchmark option \<Rightarrow>
     drift_report option \<Rightarrow> promotion_policy \<Rightarrow> py_exc + (tx_result + gate_result)" where
  "tx_gates e disk r prev mid ver oos drift pol =
     bindE (verify_artifact_integrity e disk ARTIFACT_SCHEMA_VERSION mid ver) (\<lambda>irep.
       if \<not> ir_ok irep
       then Inr (Inl (tx_fail (''integrity_failed:'' @ ir_status irep) [''candidate_found'', ''state_ok''] True))
       else
         bindE (verify_manifest_against_disk e disk mid ver) (\<lambda>man.
           if \<not> manifest_passes man
           then Inr (Inl (tx_fail (''manifest_failed:'' @ snd man)
                            [''candidate_found'', ''state_ok'', ''integrity_ok''] False))
           else
             bindE (evaluate_promotion e r prev oos drift pol False) (\<lambda>gate.
               if \<not> pg_allowed gate
               then Inr (Inl (tx_fail (pg_reason gate)
                      [''candidate_found'', ''state_ok'', ''integrity_ok'', ''manifest_ok''] False))
               else Inr (Inr gate))))"

definition tx_passed :: "string list" where
  "tx_passed = [''candidate_found'', ''state_ok'', ''integrity_ok'', ''manifest_ok'', ''oos_gate_ok'',
     ''champion_pointer_updated'', ''post_verify_ok'']"

definition promoted_manifest :: "'o ml_env \<Rightarrow> model_record option \<Rightarrow> manifest \<Rightarrow> manifest" where
  "promoted_manifest e prev m = m\<lparr>am_status := ''champion'', am_promoted_at := me_now e,
     am_parent_id := opt_id prev, am_parent_version := opt_version prev\<rparr>"

definition promote_event ::
    "string \<Rightarrow> string \<Rightarrow> model_record option \<Rightarrow> string list \<Rightarrow> gate_result \<Rightarrow> audit_event" where
  "promote_event mid ver prev steps gate =
     \<lparr>ev_kind = ''promote'', ev_model_id = mid, ev_model_version = ver, ev_outcome = ''success'',
      ev_detail = [(''previous'', PyStr (opt_id prev @ ''@'' @ opt_version prev)),
        (''steps'', PyList (map PyStr steps)), (''metrics'', num_dict (pg_metrics gate))]\<rparr>"

text \<open>The commit and what follows it.\<close>

definition tx_commit ::
    "'o ml_env \<Rightarrow> ml_registry \<Rightarrow> model_record option \<Rightarrow> string \<Rightarrow> string \<Rightarrow> gate_result \<Rightarrow> tx_result outcome" where
  "tx_commit e g prev mid ver gate =
     (case promote_champion e g mid ver of
        (Inl _, g) \<Rightarrow> (Inl KeyE, g)
      | (Inr _, g) \<Rightarrow>
          (case champion g of
             Some c \<Rightarrow>
               if is_model mid ver c
               then
                 (case load_manifest e (mg_disk g) mid ver of
                    Inl x \<Rightarrow> (Inl x, g)
                  | Inr man \<Rightarrow>
                      (let steps = tx_passed @ (if man = None then [] else [''manifest_updated'']);
                           g = (case man of None \<Rightarrow> g
                                | Some m \<Rightarrow> g\<lparr>mg_disk := save_manifest e (mg_disk g) (promoted_manifest e prev m)\<rparr>);
                           a = snd (apply_transition (me_now e) PROMOTION_GATE CHAMPION mid ver False (mg_audit g))
                       in (Inr \<lparr>tx_success = True, tx_reason = ''promoted_transactional'',
                                tx_champion_id = mid, tx_champion_version = ver,
                                tx_previous_id = opt_id prev, tx_previous_version = opt_version prev,
                                tx_steps = steps, tx_no_trade = False\<rparr>,
                           g\<lparr>mg_audit := audit_record (promote_event mid ver prev steps gate) a\<rparr>)))
               else (Inr (tx_fail ''post_promotion_verify_failed'' (butlast tx_passed) True),
                     case prev of None \<Rightarrow> g
                     | Some p \<Rightarrow> snd (promote_champion e g (mr_model_id p) (mr_model_version p)))
           | None \<Rightarrow> (Inr (tx_fail ''post_promotion_verify_failed'' (butlast tx_passed) True),
                     case prev of None \<Rightarrow> g
                     | Some p \<Rightarrow> snd (promote_champion e g (mr_model_id p) (mr_model_version p)))))"

definition transactional_promote ::
    "'o ml_env \<Rightarrow> ml_registry \<Rightarrow> string \<Rightarrow> string \<Rightarrow> benchmark option \<Rightarrow> drift_report option \<Rightarrow>
     promotion_policy \<Rightarrow> tx_result outcome" where
  "transactional_promote e g mid ver oos drift pol =
     (case find (is_model mid ver) (mg_records g) of
        None \<Rightarrow> (Inr (tx_fail ''model_not_found'' [] False), g)
      | Some r \<Rightarrow>
          (let prev = champion g;
               (tr, a) = apply_transition (me_now e) (mr_status r) PROMOTION_GATE mid ver False (mg_audit g);
               g = g\<lparr>mg_audit := a\<rparr>
           in if \<not> tr_allowed tr \<and> mr_status r \<notin> {CANDIDATE, CHALLENGER}
              then (Inr (tx_fail (''illegal_status:'' @ mr_status r) [''candidate_found''] False), g)
              else case tx_gates e (mg_disk g) r prev mid ver oos drift pol of
                     Inl x \<Rightarrow> (Inl x, g)
                   | Inr (Inl res) \<Rightarrow> (Inr res, g)
                   | Inr (Inr gate) \<Rightarrow> tx_commit e g prev mid ver gate))"

section \<open>Rollback\<close>

record triggers =
  rt_performance_collapse :: bool
  rt_abnormal_drift :: bool
  rt_calibration_failure :: bool
  rt_runtime_failure :: bool
  rt_resource_failure :: bool
  rt_instability :: bool

definition trigger_names :: "triggers \<Rightarrow> string list" where
  "trigger_names t =
     map fst (filter snd
       [(''performance_collapse'', rt_performance_collapse t), (''abnormal_drift'', rt_abnormal_drift t),
        (''calibration_failure'', rt_calibration_failure t), (''runtime_failure'', rt_runtime_failure t),
        (''resource_failure'', rt_resource_failure t), (''instability'', rt_instability t)])"

definition any_trigger :: "triggers \<Rightarrow> bool" where
  "any_trigger t \<longleftrightarrow> rt_performance_collapse t \<or> rt_abnormal_drift t \<or> rt_calibration_failure t \<or>
     rt_runtime_failure t \<or> rt_resource_failure t \<or> rt_instability t"

record rollback_result =
  rr_success :: bool
  rr_reason :: string
  rr_restored_id :: string
  rr_restored_version :: string
  rr_demoted_id :: string
  rr_demoted_version :: string

definition rollback_of ::
    "bool \<Rightarrow> string \<Rightarrow> model_record option \<Rightarrow> model_record option \<Rightarrow> rollback_result" where
  "rollback_of ok reason restored demoted =
     \<lparr>rr_success = ok, rr_reason = reason, rr_restored_id = opt_id restored,
      rr_restored_version = opt_version restored, rr_demoted_id = opt_id demoted,
      rr_demoted_version = opt_version demoted\<rparr>"

definition evaluate_rollback ::
    "model_record option \<Rightarrow> model_record option \<Rightarrow> triggers \<Rightarrow> rollback_result" where
  "evaluate_rollback champ prev t =
     (if \<not> any_trigger t then rollback_of False ''no_rollback_trigger'' None None
      else if prev = None then rollback_of False ''no_previous_champion'' None None
      else if champ = None then rollback_of True ''restore_previous_no_current_champion'' prev None
      else rollback_of True ''rollback_trigger_active'' prev champ)"

text \<open>The two loops that move the status of the first record of each model.\<close>

definition swap_champion ::
    "model_record option \<Rightarrow> model_record \<Rightarrow> model_record list \<Rightarrow> model_record list" where
  "swap_champion champ prev rs =
     (let rs = (case champ of None \<Rightarrow> rs
                | Some c \<Rightarrow> update_first (is_model (mr_model_id c) (mr_model_version c))
                              (set_mr_status ROLLED_BACK) rs)
      in update_first (is_model (mr_model_id prev) (mr_model_version prev)) (set_mr_status CHAMPION) rs)"

definition try_rollback :: "'o ml_env \<Rightarrow> ml_registry \<Rightarrow> triggers \<Rightarrow> rollback_result \<times> ml_registry" where
  "try_rollback e g t =
     (let champ = champion g; prev = previous_champion g; d = evaluate_rollback champ prev t in
      if \<not> rr_success d then (d, g)
      else case prev of
             None \<Rightarrow> (d, g)
           | Some p \<Rightarrow>
               (rollback_of True ''rolled_back_to_previous'' (Some p) champ,
                registry_save e (g\<lparr>mg_records := swap_champion champ p (mg_records g)\<rparr>)))"

record safe_rollback_result =
  sr_success :: bool
  sr_reason :: string
  sr_restored_id :: string
  sr_restored_version :: string
  sr_demoted_id :: string
  sr_demoted_version :: string
  sr_integrity :: string
  sr_no_trade :: bool
  sr_details :: pydict

definition sr_fail :: "string \<Rightarrow> model_record option \<Rightarrow> string \<Rightarrow> bool \<Rightarrow> pydict \<Rightarrow> safe_rollback_result" where
  "sr_fail reason demoted integrity no_trade details =
     \<lparr>sr_success = False, sr_reason = reason, sr_restored_id = [], sr_restored_version = [],
      sr_demoted_id = opt_id demoted, sr_demoted_version = opt_version demoted,
      sr_integrity = integrity, sr_no_trade = no_trade, sr_details = details\<rparr>"

text \<open>The checks of the model to restore: \<open>Inl\<close> of a result is a refusal.\<close>

definition rollback_checks ::
    "'o ml_env \<Rightarrow> disk \<Rightarrow> model_record option \<Rightarrow> model_record \<Rightarrow> py_exc + (safe_rollback_result + unit)" where
  "rollback_checks e disk champ prev =
     (let mid = mr_model_id prev; ver = mr_model_version prev in
      bindE (verify_artifact_integrity e disk ARTIFACT_SCHEMA_VERSION mid ver) (\<lambda>irep.
        if \<not> ir_ok irep
        then Inr (Inl (sr_fail (''previous_integrity_failed:'' @ ir_status irep) champ (ir_status irep) True
               [(''integrity_reasons'', PyList (map PyStr (ir_reasons irep)))]))
        else
          bindE (verify_manifest_against_disk e disk mid ver) (\<lambda>man.
            if \<not> manifest_passes man
            then Inr (Inl (sr_fail (''previous_manifest_failed:'' @ snd man) None (ir_status irep) True []))
            else
              bindE (load_with_integrity e disk [] mid ver) (\<lambda>(loaded, rep).
                if loaded = None \<or> \<not> ir_ok rep
                then Inr (Inl (sr_fail (''previous_load_failed:'' @ ir_status rep) None (ir_status rep) True []))
                else Inr (Inr ())))))"

definition rollback_manifest :: "'o ml_env \<Rightarrow> model_record option \<Rightarrow> triggers \<Rightarrow> manifest \<Rightarrow> manifest" where
  "rollback_manifest e champ t m = m\<lparr>am_status := ''champion'', am_promoted_at := me_now e,
     am_rollback_from_id := opt_id champ, am_rollback_from_version := opt_version champ,
     am_rollback_reason := join '','' (trigger_names t)\<rparr>"

definition rollback_event :: "model_record option \<Rightarrow> model_record \<Rightarrow> triggers \<Rightarrow> audit_event" where
  "rollback_event champ prev t =
     \<lparr>ev_kind = ''rollback'', ev_model_id = mr_model_id prev, ev_model_version = mr_model_version prev,
      ev_outcome = ''success'',
      ev_detail = [(''from'', PyStr (opt_id champ @ ''@'' @ opt_version champ)),
        (''triggers'', PyList (map PyStr (trigger_names t))), (''integrity'', PyStr ''ok'')]\<rparr>"

definition safe_rollback ::
    "'o ml_env \<Rightarrow> ml_registry \<Rightarrow> triggers \<Rightarrow> safe_rollback_result outcome" where
  "safe_rollback e g t =
     (if \<not> any_trigger t then (Inr (sr_fail ''no_rollback_trigger'' None [] False []), g)
      else
        (let champ = champion g in
         case previous_champion g of
           None \<Rightarrow> (Inr (sr_fail ''no_previous_champion'' champ [] True []), g)
         | Some prev \<Rightarrow>
             (case rollback_checks e (mg_disk g) champ prev of
                Inl x \<Rightarrow> (Inl x, g)
              | Inr (Inl res) \<Rightarrow> (Inr res, g)
              | Inr (Inr _) \<Rightarrow>
                  (let g = registry_save e (g\<lparr>mg_records := swap_champion champ prev (mg_records g)\<rparr>) in
                   case load_manifest e (mg_disk g) (mr_model_id prev) (mr_model_version prev) of
                     Inl x \<Rightarrow> (Inl x, g)
                   | Inr man \<Rightarrow>
                       (let g = (case man of None \<Rightarrow> g
                            | Some m \<Rightarrow> g\<lparr>mg_disk := save_manifest e (mg_disk g) (rollback_manifest e champ t m)\<rparr>)
                        in (Inr \<lparr>sr_success = True, sr_reason = ''rolled_back_integrity_verified'',
                                 sr_restored_id = mr_model_id prev,
                                 sr_restored_version = mr_model_version prev,
                                 sr_demoted_id = opt_id champ, sr_demoted_version = opt_version champ,
                                 sr_integrity = ''ok'', sr_no_trade = False, sr_details = []\<rparr>,
                            g\<lparr>mg_audit := audit_record (rollback_event champ prev t) (mg_audit g)\<rparr>))))))"

section \<open>Recovery\<close>

record recovery_result =
  rc_success :: bool
  rc_status :: string
  rc_model_id :: string
  rc_model_version :: string
  rc_reasons :: "string list"
  rc_restored_at :: string
  rc_no_trade :: bool
  rc_details :: pydict

definition recovery_to_dict :: "recovery_result \<Rightarrow> pydict" where
  "recovery_to_dict r =
     [(''success'', PyBool (rc_success r)), (''status'', PyStr (rc_status r)),
      (''model_id'', PyStr (rc_model_id r)), (''model_version'', PyStr (rc_model_version r)),
      (''reasons'', PyList (map PyStr (rc_reasons r))), (''restored_at'', PyStr (rc_restored_at r)),
      (''prefer_no_trade'', PyBool (rc_no_trade r)), (''details'', PyDict (rc_details r))]"

text \<open>\<open>_try_load_valid\<close>: the model if there is one, the status, the reasons.\<close>

definition try_load_valid ::
    "'o ml_env \<Rightarrow> disk \<Rightarrow> string \<Rightarrow> string \<Rightarrow> py_exc + ('o trained_model option \<times> string \<times> string list)" where
  "try_load_valid e disk mid ver =
     bindE (verify_artifact_integrity e disk ARTIFACT_SCHEMA_VERSION mid ver) (\<lambda>irep.
       if \<not> ir_ok irep
       then Inr (None, ir_status irep, (''integrity:'' @ ir_status irep) # ir_reasons irep)
       else
         bindE (verify_manifest_against_disk e disk mid ver) (\<lambda>man.
           if \<not> manifest_passes man then Inr (None, ''corrupt'', [''manifest:'' @ snd man])
           else
             bindE (load_with_integrity e disk [] mid ver) (\<lambda>(loaded, rep).
               case loaded of
                 None \<Rightarrow>
                   Inr (None, if ir_status rep = [] then ''corrupt'' else ir_status rep,
                        (''load:'' @ ir_status rep) # ir_reasons rep)
               | Some (m, cal, b) \<Rightarrow>
                   if \<not> ir_ok rep
                   then Inr (None, if ir_status rep = [] then ''corrupt'' else ir_status rep,
                             (''load:'' @ ir_status rep) # ir_reasons rep)
                   else if (case ab_calibration b of None \<Rightarrow> False
                            | Some c \<Rightarrow> dget c ''status'' \<in>
                                set (map PyStr [''corrupt'', ''invalid'', ''INVALID'']))
                   then Inr (None, ''corrupt'', [''calibration_corrupt''])
                   else Inr (Some m, ''ok'', []))))"

definition recovery_event :: "string \<Rightarrow> string \<Rightarrow> string \<Rightarrow> recovery_result \<Rightarrow> audit_event" where
  "recovery_event mid ver outcome r =
     \<lparr>ev_kind = ''recovery'', ev_model_id = mid, ev_model_version = ver, ev_outcome = outcome,
      ev_detail = recovery_to_dict r\<rparr>"

definition finish_recovery ::
    "recovery_result \<Rightarrow> 'o trained_model option \<Rightarrow> ml_registry \<Rightarrow>
     (recovery_result \<times> 'o trained_model option) outcome" where
  "finish_recovery r m g =
     (Inr (r, m), g\<lparr>mg_audit := audit_record (recovery_event (rc_model_id r) (rc_model_version r)
        (if rc_success r then ''success'' else ''failed'') r) (mg_audit g)\<rparr>)"

text \<open>The fallback loop: every record of the champion is demoted, every one of the previous model promoted.\<close>

definition fall_back :: "model_record \<Rightarrow> model_record \<Rightarrow> model_record list \<Rightarrow> model_record list" where
  "fall_back champ prev =
     map (\<lambda>r. if is_model (mr_model_id champ) (mr_model_version champ) r then set_mr_status ROLLED_BACK r
              else if is_model (mr_model_id prev) (mr_model_version prev) r then set_mr_status CHAMPION r
              else r)"

definition recovery_failed :: "'o ml_env \<Rightarrow> model_record \<Rightarrow> string \<Rightarrow> string list \<Rightarrow> recovery_result" where
  "recovery_failed e champ st reasons =
     \<lparr>rc_success = False,
      rc_status = (if st \<in> {''corrupt'', ''missing'', ''incomplete''} then ''safe_only'' else ''corrupt''),
      rc_model_id = mr_model_id champ, rc_model_version = mr_model_version champ, rc_reasons = reasons,
      rc_restored_at = me_now e, rc_no_trade = True, rc_details = []\<rparr>"

definition recover_previous ::
    "'o ml_env \<Rightarrow> ml_registry \<Rightarrow> model_record \<Rightarrow> string \<Rightarrow> string list \<Rightarrow>
     (recovery_result \<times> 'o trained_model option) outcome" where
  "recover_previous e g champ st reasons =
     (case previous_champion g of
        None \<Rightarrow> finish_recovery (recovery_failed e champ st reasons) None g
      | Some prev \<Rightarrow>
          (case try_load_valid e (mg_disk g) (mr_model_id prev) (mr_model_version prev) of
             Inl x \<Rightarrow> (Inl x, g)
           | Inr (Some m, _, extra) \<Rightarrow>
               finish_recovery
                 \<lparr>rc_success = True, rc_status = ''restored'', rc_model_id = mr_model_id prev,
                  rc_model_version = mr_model_version prev,
                  rc_reasons = reasons @ [''fell_back_to_previous_champion''] @ extra,
                  rc_restored_at = me_now e, rc_no_trade = False,
                  rc_details = [(''demoted'', PyStr (mr_model_id champ @ ''@'' @ mr_model_version champ))]\<rparr>
                 (Some m)
                 (registry_save e (g\<lparr>mg_records := fall_back champ prev (mg_records g)\<rparr>))
           | Inr (None, st', extra) \<Rightarrow>
               finish_recovery (recovery_failed e champ st (reasons @ [''previous_load_'' @ st'] @ extra))
                 None g))"

definition recover_champion ::
    "'o ml_env \<Rightarrow> ml_registry \<Rightarrow> bool \<Rightarrow> (recovery_result \<times> 'o trained_model option) outcome" where
  "recover_champion e g try_previous =
     (case champion g of
        None \<Rightarrow>
          finish_recovery
            \<lparr>rc_success = False, rc_status = ''no_champion'', rc_model_id = [], rc_model_version = [],
             rc_reasons = [''registry_has_no_champion''], rc_restored_at = me_now e, rc_no_trade = True,
             rc_details = []\<rparr> None g
      | Some champ \<Rightarrow>
          (case try_load_valid e (mg_disk g) (mr_model_id champ) (mr_model_version champ) of
             Inl x \<Rightarrow> (Inl x, g)
           | Inr (Some m, _, _) \<Rightarrow>
               finish_recovery
                 \<lparr>rc_success = True, rc_status = ''restored'', rc_model_id = mr_model_id champ,
                  rc_model_version = mr_model_version champ, rc_reasons = [], rc_restored_at = me_now e,
                  rc_no_trade = False, rc_details = []\<rparr> (Some m) g
           | Inr (None, st, reasons) \<Rightarrow>
               (let reasons = reasons @ (if st = ''missing'' then [''incomplete_artifact''] else []) in
                if try_previous then recover_previous e g champ st reasons
                else finish_recovery (recovery_failed e champ st reasons) None g)))"

record consistency =
  cs_consistent :: bool
  cs_champions :: nat
  cs_issues :: "string list"

definition check_state_consistency :: "ml_registry \<Rightarrow> consistency" where
  "check_state_consistency g =
     (let n = length (filter (has_status CHAMPION) (mg_records g));
          issues = (if n = 0 then [''no_champion'']
                    else if 1 < n then [''multiple_champions:'' @ show_nat n] else [])
      in \<lparr>cs_consistent = (issues = []), cs_champions = n, cs_issues = issues\<rparr>)"

definition consistency_to_dict :: "'o ml_env \<Rightarrow> consistency \<Rightarrow> pydict" where
  "consistency_to_dict e c =
     [(''consistent'', PyBool (cs_consistent c)), (''champion_count'', num (int (cs_champions c))),
      (''issues'', PyList (map PyStr (cs_issues c))), (''checked_at'', PyStr (me_now e))]"

definition recover_startup ::
    "'o ml_env \<Rightarrow> ml_registry \<Rightarrow> (recovery_result \<times> 'o trained_model option) outcome" where
  "recover_startup e g =
     (let c = check_state_consistency g in
      if \<not> cs_consistent c \<and> (\<exists>s \<in> set (cs_issues c). py_in ''multiple_champions'' s)
      then finish_recovery
             \<lparr>rc_success = False, rc_status = ''inconsistent'', rc_model_id = [], rc_model_version = [],
              rc_reasons = cs_issues c, rc_restored_at = me_now e, rc_no_trade = True,
              rc_details = consistency_to_dict e c\<rparr> None g
      else recover_champion e g True)"

end
