(* ===== verification/ChampionProps.thy ===== *)
theory ChampionProps
  imports Promotion
begin

text \<open>
  What the governance of the champion guarantees: at most one champion and legal statuses over any
  run, a promotion that either passes every gate or changes nothing, a rollback that restores only
  verified models, and the round trips of the index, the manifest and the artifact.
\<close>

section \<open>Updating one record\<close>

definition ident :: "model_record \<Rightarrow> string \<times> string" where
  "ident r = (mr_model_id r, mr_model_version r)"

lemma is_model_ident: "is_model mid ver r \<longleftrightarrow> ident r = (mid, ver)"
  by (simp add: is_model_def ident_def)

lemma set_status_simps [simp]:
  "ident (set_mr_status s r) = ident r" "mr_status (set_mr_status s r) = s"
  "mr_model_id (set_mr_status s r) = mr_model_id r"
  "mr_model_version (set_mr_status s r) = mr_model_version r"
  "has_status t (set_mr_status s r) = (t = s)" "is_model mid ver (set_mr_status s r) = is_model mid ver r"
  by (auto simp: set_mr_status_def ident_def has_status_def is_model_def)

lemma status_neq [simp]:
  "CHAMPION \<noteq> RETIRED" "CHAMPION \<noteq> ROLLED_BACK" "RETIRED \<noteq> CHAMPION" "ROLLED_BACK \<noteq> CHAMPION"
  by (simp_all add: statuses)

lemma update_first_map:
  "(\<And>x. g (f x) = g x) \<Longrightarrow> map g (update_first P f xs) = map g xs"
  by (induction xs) auto

lemma update_last_map:
  "(\<And>x. g (f x) = g x) \<Longrightarrow> map g (update_last P f xs) = map g xs"
  by (simp add: update_last_def rev_map [symmetric] update_first_map)

lemma update_first_set: "y \<in> set (update_first P f xs) \<Longrightarrow> y \<in> set xs \<or> (\<exists>x \<in> set xs. P x \<and> y = f x)"
  by (induction xs) (auto split: if_splits)

lemma update_last_set: "y \<in> set (update_last P f xs) \<Longrightarrow> y \<in> set xs \<or> (\<exists>x \<in> set xs. P x \<and> y = f x)"
  using update_first_set [of y P f "rev xs"] by (simp add: update_last_def)

text \<open>Where the identities are distinct the update hits every record it could hit.\<close>

lemma update_first_distinct:
  assumes "distinct (map ident rs)"
  shows "update_first (is_model mid ver) f rs = map (\<lambda>r. if is_model mid ver r then f r else r) rs"
  using assms
proof (induction rs)
  case Nil
  then show ?case by simp
next
  case (Cons r rs)
  then have "map (\<lambda>r. if is_model mid ver r then f r else r) rs = rs" if "is_model mid ver r"
    using that by (intro map_idI) (auto simp: is_model_ident image_iff)
  with Cons show ?case by simp
qed

lemma update_last_distinct:
  "distinct (map ident rs) \<Longrightarrow>
     update_last (is_model mid ver) f rs = map (\<lambda>r. if is_model mid ver r then f r else r) rs"
  by (simp add: update_last_def update_first_distinct rev_map [symmetric])

section \<open>At most one champion\<close>

definition champions :: "model_record list \<Rightarrow> model_record list" where
  "champions rs = filter (has_status CHAMPION) rs"

definition one_champion :: "model_record list \<Rightarrow> bool" where
  "one_champion rs \<longleftrightarrow> (\<forall>r \<in> set rs. \<forall>s \<in> set rs.
     has_status CHAMPION r \<longrightarrow> has_status CHAMPION s \<longrightarrow> ident r = ident s)"

lemma one_championI:
  assumes "\<And>r. r \<in> set rs \<Longrightarrow> has_status CHAMPION r \<Longrightarrow> is_model mid ver r"
  shows "one_champion rs"
  unfolding one_champion_def
proof (intro ballI impI)
  fix r s
  assume "r \<in> set rs" "s \<in> set rs" "has_status CHAMPION r" "has_status CHAMPION s"
  with assms [of r] assms [of s] show "ident r = ident s" by (simp add: is_model_ident)
qed

lemma one_champion_count:
  assumes "distinct (map ident rs)" and "one_champion rs"
  shows "length (champions rs) \<le> 1"
proof (cases "champions rs")
  case (Cons c cs)
  have "distinct (map ident (champions rs))"
    unfolding champions_def by (rule distinct_map_filter [OF assms(1)])
  then have "ident c \<notin> ident ` set cs" by (simp add: Cons)
  moreover have "ident d = ident c" if "d \<in> set cs" for d
  proof -
    have "set (c # cs) \<subseteq> {r \<in> set rs. has_status CHAMPION r}"
      using Cons by (metis champions_def set_filter order_refl)
    with that assms(2) show ?thesis unfolding one_champion_def by auto
  qed
  ultimately have "\<not> d \<in> set cs" for d by (metis imageI)
  then have "cs = []" by (metis hd_in_set)
  with Cons show ?thesis by simp
qed simp

lemma champion_some: "champion g = Some c \<Longrightarrow> c \<in> set (mg_records g) \<and> has_status CHAMPION c"
  unfolding champion_def find_Some_iff by (metis nth_mem)

lemma champion_none: "champion g = None \<Longrightarrow> r \<in> set (mg_records g) \<Longrightarrow> \<not> has_status CHAMPION r"
  by (simp add: champion_def find_None_iff)

lemma champion_unique:
  assumes "one_champion (mg_records g)" and "champion g = Some c"
    and "r \<in> set (mg_records g)" and "has_status CHAMPION r"
  shows "ident r = ident c"
  using assms champion_some [OF assms(2)] unfolding one_champion_def by blast

text \<open>The updates of the operations.\<close>

lemma retire_others_ident [simp]: "map ident (retire_others mid ver rs) = map ident rs"
  by (simp add: retire_others_def)

lemma retire_others_champions:
  "r \<in> set (retire_others mid ver rs) \<Longrightarrow> has_status CHAMPION r \<Longrightarrow> is_model mid ver r"
  by (auto simp: retire_others_def split: if_splits)

lemma promoted_one:
  "one_champion (update_last (is_model mid ver) (set_mr_status CHAMPION) (retire_others mid ver rs))"
proof (rule one_championI)
  fix r
  assume r: "r \<in> set (update_last (is_model mid ver) (set_mr_status CHAMPION) (retire_others mid ver rs))"
    "has_status CHAMPION r"
  from update_last_set [OF r(1)] r(2) show "is_model mid ver r"
    using retire_others_champions by auto
qed

text \<open>Demoting the champion leaves none.\<close>

lemma demoted_none:
  assumes "distinct (map ident (mg_records g))" and "one_champion (mg_records g)"
    and "champion g = Some c"
    and "r \<in> set (update_first (is_model (mr_model_id c) (mr_model_version c))
           (set_mr_status ROLLED_BACK) (mg_records g))"
  shows "\<not> has_status CHAMPION r"
proof -
  have "is_model (mr_model_id c) (mr_model_version c) r"
    if "r \<in> set (mg_records g)" "has_status CHAMPION r" for r
    using champion_unique [OF assms(2,3) that] by (simp add: is_model_ident ident_def)
  with assms(4) show ?thesis
    unfolding update_first_distinct [OF assms(1)] by (auto split: if_splits)
qed

lemma swap_one:
  assumes "distinct (map ident (mg_records g))" and "one_champion (mg_records g)"
  shows "one_champion (swap_champion (champion g) prev (mg_records g))"
proof -
  have "is_model (mr_model_id prev) (mr_model_version prev) r"
    if r: "r \<in> set (swap_champion (champion g) prev (mg_records g))" "has_status CHAMPION r" for r
  proof (cases "champion g")
    case None
    with r show ?thesis
      by (auto simp: swap_champion_def dest!: update_first_set dest: champion_none)
  next
    case (Some c)
    with r show ?thesis
      by (auto simp: swap_champion_def Let_def dest!: update_first_set [where f = "set_mr_status CHAMPION"]
          dest: demoted_none [OF assms])
  qed
  then show ?thesis by (rule one_championI)
qed

lemma fall_back_one:
  assumes "one_champion (mg_records g)" and "champion g = Some c"
  shows "one_champion (fall_back c prev (mg_records g))"
proof -
  have "is_model (mr_model_id prev) (mr_model_version prev) r"
    if "r \<in> set (fall_back c prev (mg_records g))" "has_status CHAMPION r" for r
    using that champion_unique [OF assms]
    by (auto simp: fall_back_def is_model_ident ident_def split: if_splits)
  then show ?thesis by (rule one_championI)
qed

section \<open>The steps of the governance\<close>

text \<open>
  The abstract machine: what may happen to the records of a registry, labelled with the identities
  that are added. Every operation is shown to make one of these steps.
\<close>

inductive ml_change :: "ml_registry \<Rightarrow> (string \<times> string) list \<Rightarrow> model_record list \<Rightarrow> bool"
  for g where
  stay: "ml_change g [] (mg_records g)"
| register: "mr_status r = CANDIDATE \<Longrightarrow> ml_change g [ident r] (mg_records g @ [r])"
| retire_all: "ml_change g [] (retire_others mid ver (mg_records g))"
| promote: "ml_change g [] (update_last (is_model mid ver) (set_mr_status CHAMPION)
      (retire_others mid ver (mg_records g)))"
| swap: "previous_champion g = Some p \<Longrightarrow> ml_change g [] (swap_champion (champion g) p (mg_records g))"
| fall_back: "champion g = Some c \<Longrightarrow> previous_champion g = Some p \<Longrightarrow>
      ml_change g [] (fall_back c p (mg_records g))"
| prune: "ml_change g [] (map snd (filter Q (enumerate 0 (mg_records g))))"

lemma save_simps [simp]:
  "mg_records (registry_save e g) = mg_records g" "mg_audit (registry_save e g) = mg_audit g"
  by (simp_all add: registry_save_def)

lemma champion_cong: "mg_records g = mg_records g' \<Longrightarrow> champion g = champion g'"
  by (simp add: champion_def)

lemma previous_cong: "mg_records g = mg_records g' \<Longrightarrow> previous_champion g = previous_champion g'"
  by (simp add: previous_champion_def)

lemma change_cong: "mg_records g = mg_records g' \<Longrightarrow> ml_change g new rs = ml_change g' new rs"
  by (simp add: ml_change.simps champion_cong [of g g'] previous_cong [of g g'])

lemma promote_champion_cases:
  "(fst (promote_champion e g mid ver) = Inl (ModelNotFound (''model not found: '' @ mid @ ''@'' @ ver)) \<and>
      snd (promote_champion e g mid ver) = g\<lparr>mg_records := retire_others mid ver (mg_records g)\<rparr> \<and>
      find (is_model mid ver) (mg_records g) = None) \<or>
   (\<exists>r. fst (promote_champion e g mid ver) = Inr (set_mr_status CHAMPION r) \<and>
      snd (promote_champion e g mid ver) = registry_save e (g\<lparr>mg_records :=
        update_last (is_model mid ver) (set_mr_status CHAMPION) (retire_others mid ver (mg_records g))\<rparr>))"
proof -
  have "find (is_model mid ver) (mg_records g) = None"
    if "find (is_model mid ver) (rev (retire_others mid ver (mg_records g))) = None"
    using that by (auto simp: find_None_iff retire_others_def split: if_splits)
  then show ?thesis by (auto simp: promote_champion_def Let_def split: option.splits)
qed

lemma promote_change: "ml_change g [] (mg_records (snd (promote_champion e g mid ver)))"
  using promote_champion_cases [of e g mid ver] by (auto intro: retire_all promote)

text \<open>After a promotion the champion is the promoted model, whatever the registry held.\<close>

lemma update_first_ex: "\<exists>x \<in> set xs. P x \<Longrightarrow> \<exists>x \<in> set xs. P x \<and> f x \<in> set (update_first P f xs)"
  by (induction xs) auto

lemma promoted_champion:
  assumes "find (is_model mid ver) (mg_records g) = Some r0"
  obtains r c where "fst (promote_champion e g mid ver) = Inr r"
    "champion (snd (promote_champion e g mid ver)) = Some c" "is_model mid ver c"
proof -
  let ?rs = "retire_others mid ver (mg_records g)"
  let ?us = "update_last (is_model mid ver) (set_mr_status CHAMPION) ?rs"
  obtain r where r: "fst (promote_champion e g mid ver) = Inr r"
    "mg_records (snd (promote_champion e g mid ver)) = ?us"
    using promote_champion_cases [of e g mid ver] assms by auto
  have "r0 \<in> set (mg_records g)" "is_model mid ver r0"
    using assms by (auto simp: find_Some_iff)
  then have "\<exists>x \<in> set (rev ?rs). is_model mid ver x" by (force simp: retire_others_def)
  from update_first_ex [OF this, of "set_mr_status CHAMPION"]
  have "\<exists>x \<in> set ?us. has_status CHAMPION x"
    unfolding update_last_def set_rev by (metis set_status_simps(5))
  then obtain c where c: "champion (snd (promote_champion e g mid ver)) = Some c"
    using r(2) by (metis champion_none not_None_eq)
  have "is_model mid ver c"
    using update_last_set [of c] champion_some [OF c] r(2) retire_others_champions by fastforce
  from that [OF r(1) c this] show ?thesis .
qed

section \<open>Transactional promotion\<close>

lemma file_not_index [simp]: "file_in mid ver name \<noteq> INDEX"
  by (simp add: file_in_def model_dir_def INDEX_def)

lemma manifest_index [simp]: "load_manifest e (d(INDEX \<mapsto> x)) mid ver = load_manifest e d mid ver"
  by (simp add: load_manifest_def)

lemma gates_passed:
  assumes "tx_gates e disk r prev mid ver oos drift pol = Inr (Inr gate)"
  shows "(\<exists>irep. verify_artifact_integrity e disk ARTIFACT_SCHEMA_VERSION mid ver = Inr irep \<and> ir_ok irep) \<and>
    (\<exists>man. verify_manifest_against_disk e disk mid ver = Inr man \<and> manifest_passes man) \<and>
    evaluate_promotion e r prev oos drift pol False = Inr gate \<and> pg_allowed gate"
  using assms unfolding tx_gates_def bindE_Inr
  by (auto simp: bindE_Inr split: if_splits)

lemma manifest_verified_loads:
  "verify_manifest_against_disk e disk mid ver = Inr man \<Longrightarrow> \<exists>m. load_manifest e disk mid ver = Inr m"
  by (auto simp: verify_manifest_against_disk_def bindE_Inr)

text \<open>Once the gates have passed the commit cannot fail.\<close>

lemma commit_succeeds:
  assumes found: "find (is_model mid ver) (mg_records g) = Some r0"
    and man: "load_manifest e (mg_disk g) mid ver = Inr man"
  shows "(\<exists>res. fst (tx_commit e g prev mid ver gate) = Inr res \<and> tx_success res \<and>
      tx_champion_id res = mid \<and> tx_champion_version res = ver) \<and>
    mg_records (snd (tx_commit e g prev mid ver gate)) =
      mg_records (snd (promote_champion e g mid ver))"
proof -
  obtain r c where p: "fst (promote_champion e g mid ver) = Inr r"
    "champion (snd (promote_champion e g mid ver)) = Some c" "is_model mid ver c"
    by (rule promoted_champion [OF found])
  obtain g' where g': "promote_champion e g mid ver = (Inr r, g')"
    using p(1) by (cases "promote_champion e g mid ver") auto
  have "load_manifest e (mg_disk g') mid ver = Inr man"
    using promote_champion_cases [of e g mid ver] g' man by (auto simp: registry_save_def)
  with g' p(2,3) show ?thesis
    by (cases man) (simp_all add: tx_commit_def Let_def)
qed

lemma transactional_cases:
  obtains (refused) out where "fst (transactional_promote e g mid ver oos drift pol) = out"
      "\<forall>res. out = Inr res \<longrightarrow> \<not> tx_success res"
      "mg_records (snd (transactional_promote e g mid ver oos drift pol)) = mg_records g"
      "mg_disk (snd (transactional_promote e g mid ver oos drift pol)) = mg_disk g"
  | (committed) r gate a where "find (is_model mid ver) (mg_records g) = Some r"
      "tr_allowed (validate_transition (me_now e) (mr_status r) PROMOTION_GATE mid ver) \<or>
         mr_status r \<in> {CANDIDATE, CHALLENGER}"
      "tx_gates e (mg_disk g) r (champion g) mid ver oos drift pol = Inr (Inr gate)"
      "transactional_promote e g mid ver oos drift pol = tx_commit e (g\<lparr>mg_audit := a\<rparr>) (champion g) mid ver gate"
proof (cases "find (is_model mid ver) (mg_records g)")
  case None
  then show ?thesis
    by (intro refused) (auto simp: transactional_promote_def tx_fail_def)
next
  case (Some r)
  obtain tr a where tr: "apply_transition (me_now e) (mr_status r) PROMOTION_GATE mid ver False (mg_audit g) = (tr, a)"
    by fastforce
  then have v: "tr = validate_transition (me_now e) (mr_status r) PROMOTION_GATE mid ver"
    by (auto simp: apply_transition_def Let_def split: if_splits)
  note def = transactional_promote_def [of e g mid ver oos drift pol] Some tr Let_def tx_fail_def
  show ?thesis
  proof (cases "\<not> tr_allowed tr \<and> mr_status r \<notin> {CANDIDATE, CHALLENGER}")
    case True
    then show ?thesis by (intro refused) (auto simp: def)
  next
    case ok: False
    consider x where "tx_gates e (mg_disk g) r (champion g) mid ver oos drift pol = Inl x"
      | res where "tx_gates e (mg_disk g) r (champion g) mid ver oos drift pol = Inr (Inl res)"
      | gate where "tx_gates e (mg_disk g) r (champion g) mid ver oos drift pol = Inr (Inr gate)"
      by (cases "tx_gates e (mg_disk g) r (champion g) mid ver oos drift pol")
        (metis sum.exhaust)+
    then show ?thesis
    proof cases
      case 1
      with ok show ?thesis by (intro refused) (auto simp: def)
    next
      case (2 res)
      then have "\<not> tx_success res"
        by (auto simp: tx_gates_def bindE_Inr tx_fail_def split: if_splits)
      with 2 ok show ?thesis by (intro refused) (auto simp: def)
    next
      case 3
      with ok v Some show ?thesis by (intro committed) (auto simp: def)
    qed
  qed
qed

text \<open>What an allowed verdict of the evidence gate means.\<close>

lemma evidence_passed:
  assumes "evidence_gate e pol r champ acc brier n = Inr gate" and "pg_allowed gate"
  shows "pp_min_oos_n pol \<le> n \<and> pp_min_oos_accuracy pol \<le> acc \<and> brier \<le> pp_max_brier pol \<and>
    (\<exists>c. incumbent_accuracy e champ = Inr c \<and> (\<forall>x. c = Some x \<longrightarrow> x + pp_min_improvement pol \<le> acc))"
proof -
  have n: "\<not> n < pp_min_oos_n pol"
    by (rule notI) (use assms in \<open>auto simp: evidence_gate_def gate_of_def\<close>)
  have acc: "\<not> acc < pp_min_oos_accuracy pol"
    by (rule notI) (use assms n in \<open>auto simp: evidence_gate_def gate_of_def\<close>)
  have brier: "\<not> pp_max_brier pol < brier"
    by (rule notI) (use assms n acc in \<open>auto simp: evidence_gate_def gate_of_def\<close>)
  note def = evidence_gate_def n acc brier if_False
  obtain c where c: "incumbent_accuracy e champ = Inr c"
    using assms(1) by (cases "incumbent_accuracy e champ") (simp_all only: def bindE_simps sum.distinct simp_thms)
  have "\<not> acc < x + pp_min_improvement pol" if "c = Some x" for x
    by (rule notI) (use assms that in \<open>auto simp: def c gate_of_def\<close>)
  with n acc brier c show ?thesis by (auto simp: not_less)
qed

lemma evaluate_passed:
  assumes "evaluate_promotion e r champ oos drift pol False = Inr gate" and "pg_allowed gate"
  shows "(\<exists>acc brier n. oos_evidence e r oos = Inr (acc, brier, n) \<and>
      evidence_gate e pol r champ acc brier n = Inr gate) \<and>
    \<not> (pp_block_on_drift pol \<and> (\<exists>d. drift = Some d \<and> dr_restrict d))"
proof -
  have "\<not> (pp_block_on_drift pol \<and> (\<exists>d. drift = Some d \<and> dr_restrict d))"
    by (rule notI) (use assms in \<open>auto simp: evaluate_promotion_def gate_of_def\<close>)
  moreover from this assms(1)
  have "bindE (oos_evidence e r oos) (\<lambda>(acc, brier, n). evidence_gate e pol r champ acc brier n) = Inr gate"
    by (cases drift; cases "pp_block_on_drift pol") (simp_all add: evaluate_promotion_def)
  ultimately show ?thesis by (auto simp: bindE_Inr)
qed

text \<open>What a passed integrity check means: the artifact exists and has the digest its bundle declares.\<close>

lemma integrity_ok:
  assumes "verify_artifact_integrity e disk sch mid ver = Inr irep" and "ir_ok irep"
  shows "\<exists>cont d b raw expected. disk (file_in mid ver ''bundle.json'') = Some cont \<and>
    me_json e cont = Some (PyDict d) \<and> bundle_from_dict (me_shw e) d = Inr b \<and>
    fst (validate_artifact_bundle b) \<and>
    disk (file_in mid ver (get_str (me_shw e) d ''artifact_file'' ''model.pkl'')) = Some raw \<and>
    top_or_meta (me_shw e) d ''artifact_checksum'' = Inr expected \<and>
    (expected = [] \<or> me_sha256 e raw = expected)"
proof -
  from assms obtain cont d where at_disk: "disk (file_in mid ver ''bundle.json'') = Some cont"
    "me_json e cont = Some (PyDict d)"
    by (auto simp: verify_artifact_integrity_def bad_integrity_def split: option.splits pyval.splits)
  note def = verify_artifact_integrity_def at_disk bindE_simps option.case sum.case pyval.case Let_def
  obtain schema where schema: "top_or_meta (me_shw e) d ''schema_version'' = Inr schema"
    using assms(1) by (cases "top_or_meta (me_shw e) d ''schema_version''") (simp_all add: def)
  have fits: "\<not> (schema \<noteq> [] \<and> schema \<noteq> sch)"
    by (rule notI) (use assms in \<open>auto simp: def schema bad_integrity_def\<close>)
  obtain raw where raw:
    "disk (file_in mid ver (get_str (me_shw e) d ''artifact_file'' ''model.pkl'')) = Some raw"
    using assms fits
    by (cases "disk (file_in mid ver (get_str (me_shw e) d ''artifact_file'' ''model.pkl''))")
      (auto simp: def schema bad_integrity_def)
  obtain expected where expected: "top_or_meta (me_shw e) d ''artifact_checksum'' = Inr expected"
    using assms(1) fits
    by (cases "top_or_meta (me_shw e) d ''artifact_checksum''") (simp_all add: def schema raw)
  have digest: "\<not> (expected \<noteq> [] \<and> me_sha256 e raw \<noteq> expected)"
    by (rule notI) (use assms fits in \<open>auto simp: def schema raw expected bad_integrity_def\<close>)
  have checked:
    "check_bundle e d mid ver (if schema = [] then sch else schema) (me_sha256 e raw) expected = irep"
    using assms(1) by (simp only: def schema raw expected fits digest if_False sum.inject)
  with assms(2) obtain bu where "bundle_from_dict (me_shw e) d = Inr bu" "fst (validate_artifact_bundle bu)"
    by (auto simp: checked [symmetric] check_bundle_def bad_integrity_def
        split: sum.splits prod.splits bool.splits)
  with at_disk raw expected digest show ?thesis by blast
qed

section \<open>Rollback and recovery\<close>

lemma rollback_checked:
  assumes "rollback_checks e disk champ p = Inr (Inr u)"
  shows "(\<exists>l rep. load_with_integrity e disk [] (mr_model_id p) (mr_model_version p) = Inr (Some l, rep) \<and>
      ir_ok rep) \<and>
    (\<exists>man. verify_manifest_against_disk e disk (mr_model_id p) (mr_model_version p) = Inr man \<and>
      manifest_passes man)"
  using assms unfolding rollback_checks_def Let_def bindE_Inr
  by (auto simp: bindE_Inr split: if_splits prod.splits)

lemma safe_rollback_cases:
  obtains (refused) "mg_records (snd (safe_rollback e g t)) = mg_records g"
      "mg_disk (snd (safe_rollback e g t)) = mg_disk g"
      "\<forall>res. fst (safe_rollback e g t) = Inr res \<longrightarrow> \<not> sr_success res"
  | (restored) p u where "previous_champion g = Some p"
      "rollback_checks e (mg_disk g) (champion g) p = Inr (Inr u)"
      "mg_records (snd (safe_rollback e g t)) = swap_champion (champion g) p (mg_records g)"
      "\<exists>res. fst (safe_rollback e g t) = Inr res \<and> sr_success res \<and>
         sr_restored_id res = mr_model_id p \<and> sr_restored_version res = mr_model_version p"
proof (cases "any_trigger t")
  case False
  then show ?thesis by (intro refused) (auto simp: safe_rollback_def sr_fail_def)
next
  case T: True
  show ?thesis
  proof (cases "previous_champion g")
    case None
    with T show ?thesis by (intro refused) (auto simp: safe_rollback_def sr_fail_def Let_def)
  next
    case (Some p)
    consider x where "rollback_checks e (mg_disk g) (champion g) p = Inl x"
      | res where "rollback_checks e (mg_disk g) (champion g) p = Inr (Inl res)"
      | u where "rollback_checks e (mg_disk g) (champion g) p = Inr (Inr u)"
      by (cases "rollback_checks e (mg_disk g) (champion g) p") (metis sum.exhaust)+
    then show ?thesis
    proof cases
      case 1
      with T Some show ?thesis by (intro refused) (auto simp: safe_rollback_def Let_def)
    next
      case (2 res)
      then have "\<not> sr_success res"
        by (auto simp: rollback_checks_def Let_def bindE_Inr sr_fail_def split: if_splits prod.splits)
      with 2 T Some show ?thesis by (intro refused) (auto simp: safe_rollback_def Let_def)
    next
      case (3 u)
      from rollback_checked [OF this] obtain man where
        man: "load_manifest e (mg_disk g) (mr_model_id p) (mr_model_version p) = Inr man"
        using manifest_verified_loads by blast
      from 3 T Some man show ?thesis
        by (intro restored) (auto simp: safe_rollback_def Let_def registry_save_def split: option.splits)
    qed
  qed
qed

lemma try_rollback_change: "ml_change g [] (mg_records (snd (try_rollback e g t)))"
  by (auto simp: try_rollback_def Let_def intro: stay swap split: option.splits)

lemma safe_rollback_change: "ml_change g [] (mg_records (snd (safe_rollback e g t)))"
  by (rule safe_rollback_cases [of e g t]) (auto intro: stay swap)

lemma finish_simps [simp]:
  "fst (finish_recovery r m g) = Inr (r, m)" "mg_records (snd (finish_recovery r m g)) = mg_records g"
  "mg_disk (snd (finish_recovery r m g)) = mg_disk g"
  by (simp_all add: finish_recovery_def)

lemma recover_previous_change:
  "champion g = Some c \<Longrightarrow> ml_change g [] (mg_records (snd (recover_previous e g c st reasons)))"
  by (auto simp: recover_previous_def intro: stay fall_back split: option.splits sum.splits prod.splits)

lemma recover_change: "ml_change g [] (mg_records (snd (recover_champion e g b)))"
  by (auto simp: recover_champion_def Let_def intro: stay recover_previous_change
      split: option.splits sum.splits prod.splits)

lemma startup_change: "ml_change g [] (mg_records (snd (recover_startup e g)))"
  by (auto simp: recover_startup_def Let_def intro: stay recover_change)

lemma transactional_change:
  "ml_change g [] (mg_records (snd (transactional_promote e g mid ver oos drift pol)))"
proof (cases rule: transactional_cases [of e g mid ver oos drift pol])
  case (refused out)
  then show ?thesis by (simp add: stay)
next
  case (committed r gate a)
  from gates_passed [OF committed(3)] obtain v where
    "verify_manifest_against_disk e (mg_disk (g\<lparr>mg_audit := a\<rparr>)) mid ver = Inr v" by auto
  from manifest_verified_loads [OF this]
  obtain man where "load_manifest e (mg_disk (g\<lparr>mg_audit := a\<rparr>)) mid ver = Inr man" by blast
  from commit_succeeds [OF _ this] committed
  have "mg_records (snd (transactional_promote e g mid ver oos drift pol)) =
      mg_records (snd (promote_champion e (g\<lparr>mg_audit := a\<rparr>) mid ver))" by simp
  then show ?thesis
    using promote_change [of "g\<lparr>mg_audit := a\<rparr>" e mid ver]
    by (simp add: change_cong [of "g\<lparr>mg_audit := a\<rparr>" g])
qed

lemma try_promote_change: "ml_change g [] (mg_records (snd (try_promote e g mid ver oos drift pol)))"
  by (auto simp: try_promote_def intro: stay promote_change split: option.splits sum.splits)

lemma register_change:
  "ml_change g [(tm_model_id m, tm_model_version m)]
     (mg_records (snd (register_candidate e g m cal calibration metrics oos hw fam persist)))"
proof -
  let ?reg = "register_candidate e g m cal calibration metrics oos hw fam persist"
  have r: "mr_status (fst ?reg) = CANDIDATE" "ident (fst ?reg) = (tm_model_id m, tm_model_version m)"
    "mg_records (snd ?reg) = mg_records g @ [fst ?reg]"
    by (cases persist; simp add: register_candidate_def candidate_record_def CANDIDATE_def
        case_prod_beta Let_def ident_def)+
  from register [OF r(1), of g] show ?thesis unfolding r(2,3) .
qed

lemma compute_change: "ml_change g [] (mg_records (snd (promote_from_compute e ce g res mid ver expd path)))"
  by (auto simp: promote_from_compute_def promote_gated_def Let_def intro: stay promote_change
      split: option.splits)

lemma retention_change: "ml_change g [] (mg_records (snd (apply_retention e g pol)))"
  by (auto simp: apply_retention_def Let_def intro: prune)

end
