(* ===== verification/Governance.thy ===== *)
theory Governance
  imports ChampionProps MlHealthProps
begin

text \<open>
  Runs of governance operations: the invariants that hold over every run, and the round trips of
  what the registry keeps on disk.
\<close>

section \<open>Operations and runs\<close>

datatype 'o ml_op =
    Register "'o trained_model" "calibrator option" "pydict option" pydict pydict string string bool
  | Promote string string
  | PromoteCompute training_result string string string "string option"
  | TryPromote string string "benchmark option" "drift_report option" promotion_policy
  | TxPromote string string "benchmark option" "drift_report option" promotion_policy
  | TryRollback triggers
  | SafeRollback triggers
  | Recover bool
  | Startup
  | Retain retention_policy

fun ml_step :: "'o ml_env \<Rightarrow> compute_env \<Rightarrow> ml_registry \<Rightarrow> 'o ml_op \<Rightarrow> ml_registry" where
  "ml_step e ce g (Register m cal calibration metrics oos hw fam persist) =
     snd (register_candidate e g m cal calibration metrics oos hw fam persist)"
| "ml_step e ce g (Promote mid ver) = snd (promote_champion e g mid ver)"
| "ml_step e ce g (PromoteCompute r mid ver expd path) = snd (promote_from_compute e ce g r mid ver expd path)"
| "ml_step e ce g (TryPromote mid ver oos drift pol) = snd (try_promote e g mid ver oos drift pol)"
| "ml_step e ce g (TxPromote mid ver oos drift pol) = snd (transactional_promote e g mid ver oos drift pol)"
| "ml_step e ce g (TryRollback t) = snd (try_rollback e g t)"
| "ml_step e ce g (SafeRollback t) = snd (safe_rollback e g t)"
| "ml_step e ce g (Recover b) = snd (recover_champion e g b)"
| "ml_step e ce g Startup = snd (recover_startup e g)"
| "ml_step e ce g (Retain pol) = snd (apply_retention e g pol)"

definition ml_run :: "'o ml_env \<Rightarrow> compute_env \<Rightarrow> ml_registry \<Rightarrow> 'o ml_op list \<Rightarrow> ml_registry" where
  "ml_run e ce g ops = foldl (ml_step e ce) g ops"

fun registered :: "'o ml_op \<Rightarrow> (string \<times> string) list" where
  "registered (Register m cal calibration metrics oos hw fam persist) = [(tm_model_id m, tm_model_version m)]"
| "registered _ = []"

lemma machine_step: "ml_change g (registered opn) (mg_records (ml_step e ce g opn))"
  by (cases opn) (simp_all add: register_change promote_change compute_change try_promote_change
      transactional_change try_rollback_change safe_rollback_change recover_change startup_change
      retention_change)

section \<open>Invariants of the machine\<close>

definition STATUSES :: "string list" where
  "STATUSES = [CANDIDATE, CHAMPION, RETIRED, ROLLED_BACK]"


lemma status_mem [simp]:
  "CANDIDATE \<in> set STATUSES" "CHAMPION \<in> set STATUSES" "RETIRED \<in> set STATUSES"
  "ROLLED_BACK \<in> set STATUSES"
  by (simp_all add: STATUSES_def)



text \<open>The identities after a step are among those before it and the new ones, in order.\<close>

lemma pruned_subseq: "subseq (map f (map snd (filter Q (enumerate n rs)))) (map f rs)"
proof -
  have "subseq (filter Q (enumerate n rs)) (enumerate n rs)" by simp
  then have "subseq (map (f \<circ> snd) (filter Q (enumerate n rs))) (map (f \<circ> snd) (enumerate n rs))"
    by (rule subseq_map)
  then show ?thesis by (simp only: map_map [symmetric] map_snd_enumerate)
qed

lemma swap_idents [simp]: "map ident (swap_champion c p rs) = map ident rs"
  by (cases c) (simp_all add: swap_champion_def update_first_map)

lemma change_idents: "ml_change g new rs \<Longrightarrow> subseq (map ident rs) (map ident (mg_records g) @ new)"
proof (induction rule: ml_change.induct)
  case (fall_back c p)
  have "map ident (fall_back c p (mg_records g)) = map ident (mg_records g)"
    by (simp add: fall_back_def)
  then show ?case by (simp add: Champion.champion_def del: map_eq_conv)
next
  case (prune Q)
  then show ?case using pruned_subseq [of ident Q 0] by simp
qed (simp_all add: update_last_map)

text \<open>A step into records with distinct identities keeps at most one champion.\<close>

lemma CANDIDATE_not_CHAMPION [simp]: "CANDIDATE \<noteq> CHAMPION"
  by (simp add: statuses)

lemma one_champion_subset: "one_champion rs \<Longrightarrow> set rs' \<subseteq> set rs \<Longrightarrow> one_champion rs'"
  unfolding one_champion_def by blast

lemma one_champion_snoc:
  "one_champion rs \<Longrightarrow> \<not> has_status CHAMPION r \<Longrightarrow> one_champion (rs @ [r])"
  unfolding one_champion_def by (intro ballI impI) (auto simp only: set_append Un_iff list.set empty_iff insert_iff)

lemma change_one:
  "ml_change g new rs \<Longrightarrow> distinct (map ident (mg_records g)) \<Longrightarrow> one_champion (mg_records g) \<Longrightarrow>
     one_champion rs"
proof (induction rule: ml_change.induct)
  case (register r)
  then show ?case by (intro one_champion_snoc) (simp_all add: has_status_def)
next
  case (retire_all mid ver)
  show ?case by (rule one_championI) (rule retire_others_champions)
next
  case (promote mid ver)
  then show ?case by (simp add: promoted_one)
next
  case (swap p)
  then show ?case by (simp add: swap_one)
next
  case (fall_back c p)
  then show ?case by (simp add: fall_back_one)
next
  case (prune Q)
  then show ?case by (elim one_champion_subset) (auto simp: in_set_enumerate_eq)
qed

section \<open>Runs\<close>

definition all_registered :: "'o ml_op list \<Rightarrow> (string \<times> string) list" where
  "all_registered ops = concat (map registered ops)"

lemma run_snoc: "ml_run e ce g (ops @ [opn]) = ml_step e ce (ml_run e ce g ops) opn"
  by (simp add: ml_run_def)



lemma run_idents:
  "subseq (map ident (mg_records (ml_run e ce g ops))) (map ident (mg_records g) @ all_registered ops)"
proof (induction ops rule: rev_induct)
  case Nil
  then show ?case by (simp add: ml_run_def all_registered_def)
next
  case (snoc opn ops)
  let ?g = "ml_run e ce g ops"
  have "subseq (map ident (mg_records (ml_step e ce ?g opn))) (map ident (mg_records ?g) @ registered opn)"
    by (rule change_idents [OF machine_step])
  also have "subseq (map ident (mg_records ?g) @ registered opn)
      ((map ident (mg_records g) @ all_registered ops) @ registered opn)"
    unfolding subseq_append by (rule snoc.IH)
  finally show ?case by (simp add: run_snoc all_registered_def)
qed

lemma subseq_distinct: "subseq xs ys \<Longrightarrow> distinct ys \<Longrightarrow> distinct xs"
  unfolding subseq_conv_nths by (elim exE) (simp add: distinct_nthsI)

lemma run_one_champion:
  assumes "distinct (map ident (mg_records g) @ all_registered ops)" and "one_champion (mg_records g)"
  shows "one_champion (mg_records (ml_run e ce g ops))"
  using assms
proof (induction ops rule: rev_induct)
  case Nil
  then show ?case by (simp add: ml_run_def)
next
  case (snoc opn ops)
  then have d: "distinct (map ident (mg_records g) @ all_registered ops)"
    by (auto simp: all_registered_def)
  have "distinct (map ident (mg_records (ml_run e ce g ops)))"
    by (rule subseq_distinct [OF run_idents d])
  with snoc d show ?case unfolding run_snoc using change_one [OF machine_step] by blast
qed

text \<open>C18: As long as no identity is registered twice, no run of governance operations - promotions,
  rollbacks, recoveries, retention, failures included - leaves two champions.\<close>

theorem at_most_one_champion:
  assumes "distinct (map ident (mg_records g) @ all_registered ops)" and "one_champion (mg_records g)"
  shows "length (champions (mg_records (ml_run e ce g ops))) \<le> 1"
proof (rule one_champion_count)
  show "distinct (map ident (mg_records (ml_run e ce g ops)))"
    by (rule subseq_distinct [OF run_idents assms(1)])
  show "one_champion (mg_records (ml_run e ce g ops))"
    by (rule run_one_champion [OF assms])
qed

section \<open>Promotion\<close>

text \<open>The call returned a successful result.\<close>

definition tx_won :: "tx_result outcome \<Rightarrow> bool" where
  "tx_won out = (case fst out of Inr res \<Rightarrow> tx_success res | Inl x \<Rightarrow> False)"

text \<open>C19: A transactional promotion either succeeds and makes the model champion, or leaves the
  records and the disk as they were, whether it refuses or raises.\<close>

theorem promotion_all_or_nothing:
  "let out = transactional_promote e g mid ver oos drift pol
   in if tx_won out then \<exists>c. champion (snd out) = Some c \<and> is_model mid ver c
      else mg_records (snd out) = mg_records g \<and> mg_disk (snd out) = mg_disk g"
proof (cases rule: transactional_cases [of e g mid ver oos drift pol])
  case (refused res)
  then show ?thesis by (auto simp: tx_won_def Let_def split: sum.splits)
next
  case (committed r gate a)
  let ?g = "g\<lparr>mg_audit := a\<rparr>"
  from gates_passed [OF committed(3)] obtain v where
    "verify_manifest_against_disk e (mg_disk ?g) mid ver = Inr v" by auto
  from manifest_verified_loads [OF this]
  obtain man where man: "load_manifest e (mg_disk ?g) mid ver = Inr man" by blast
  have found: "find (is_model mid ver) (mg_records ?g) = Some r" using committed(1) by simp
  obtain c where "champion (snd (promote_champion e ?g mid ver)) = Some c" "is_model mid ver c"
    by (rule promoted_champion [OF found])
  then have "\<exists>c. champion (snd (transactional_promote e g mid ver oos drift pol)) = Some c \<and>
      is_model mid ver c"
    and "tx_won (transactional_promote e g mid ver oos drift pol)"
    using commit_succeeds [OF found man, of "champion g" gate] committed(4)
    by (auto simp: tx_won_def) (metis champion_cong)+
  then show ?thesis by (simp add: Let_def)
qed

text \<open>What the gates demand of a challenger, as one predicate.\<close>

definition fit_for_champion ::
    "'o ml_env \<Rightarrow> ml_registry \<Rightarrow> string \<Rightarrow> string \<Rightarrow> model_record \<Rightarrow> benchmark option \<Rightarrow>
     drift_report option \<Rightarrow> promotion_policy \<Rightarrow> bool" where
  "fit_for_champion e g mid ver r oos drift pol \<longleftrightarrow>
     (tr_allowed (validate_transition (me_now e) (mr_status r) PROMOTION_GATE mid ver) \<or>
        mr_status r \<in> {CANDIDATE, CHALLENGER}) \<and>
     (\<exists>d raw digest. (\<exists>txt. mg_disk g (file_in mid ver ''bundle.json'') = Some txt \<and>
          me_json e txt = Some (PyDict d)) \<and>
        mg_disk g (file_in mid ver (get_str (me_shw e) d ''artifact_file'' ''model.pkl'')) = Some raw \<and>
        top_or_meta (me_shw e) d ''artifact_checksum'' = Inr digest \<and>
        (digest = [] \<or> me_sha256 e raw = digest)) \<and>
     (\<exists>man. verify_manifest_against_disk e (mg_disk g) mid ver = Inr man \<and> manifest_passes man) \<and>
     \<not> (pp_block_on_drift pol \<and> (\<exists>d. drift = Some d \<and> dr_restrict d)) \<and>
     (\<exists>acc brier n c. oos_evidence e r oos = Inr (acc, brier, n) \<and> pp_min_oos_n pol \<le> n \<and>
        pp_min_oos_accuracy pol \<le> acc \<and> brier \<le> pp_max_brier pol \<and>
        incumbent_accuracy e (champion g) = Inr c \<and> (\<forall>x. c = Some x \<longrightarrow> x + pp_min_improvement pol \<le> acc))"

text \<open>C20: A successful transactional promotion passed every gate: a status that may be promoted, an
  artifact with the declared digest, a manifest that does not contradict it, no blocking drift, and
  out-of-sample evidence above the thresholds and above the incumbent.\<close>

theorem promoted_model_passed_gates:
  assumes "fst (transactional_promote e g mid ver oos drift pol) = Inr res" and "tx_success res"
  shows "\<exists>r. find (is_model mid ver) (mg_records g) = Some r \<and> fit_for_champion e g mid ver r oos drift pol"
proof (cases rule: transactional_cases [of e g mid ver oos drift pol])
  case (refused out)
  with assms show ?thesis by simp
next
  case (committed r gate a)
  note gates = gates_passed [OF committed(3)]
  then obtain irep where "verify_artifact_integrity e (mg_disk g) ARTIFACT_SCHEMA_VERSION mid ver = Inr irep"
    "ir_ok irep" by blast
  note integrity = integrity_ok [OF this]
  have ev: "evaluate_promotion e r (champion g) oos drift pol False = Inr gate" "pg_allowed gate"
    using gates by simp_all
  obtain acc brier n where "oos_evidence e r oos = Inr (acc, brier, n)"
    "evidence_gate e pol r (champion g) acc brier n = Inr gate"
    "\<not> (pp_block_on_drift pol \<and> (\<exists>d. drift = Some d \<and> dr_restrict d))"
    using evaluate_passed [OF ev] by blast
  note fit = this evidence_passed [OF this(2) ev(2)] integrity gates committed(2)
  have "fit_for_champion e g mid ver r oos drift pol"
    unfolding fit_for_champion_def using fit by blast
  with committed(1) show ?thesis by blast
qed

lemma sorted_le_last: "sorted (xs :: 'a::linorder list) \<Longrightarrow> x \<in> set xs \<Longrightarrow> x \<le> last xs"
  by (induction xs) auto

lemma last_sorted_key:
  assumes "xs \<noteq> []"
  shows "last (sort_key f xs) \<in> set xs \<and> (\<forall>x \<in> set xs. f x \<le> f (last (sort_key f xs)))"
proof -
  let ?ss = "sort_key f xs"
  have ne: "?ss \<noteq> []" using assms by (metis length_0_conv length_sort)
  have "f x \<le> f (last ?ss)" if "x \<in> set xs" for x
    using sorted_le_last [OF sorted_sort_key [of f xs], of "f x"] that ne by (simp add: last_map)
  moreover have "last ?ss \<in> set xs" using last_in_set [OF ne] by simp
  ultimately show ?thesis by blast
qed

lemma previous_newest:
  assumes "previous_champion g = Some p"
  shows "p \<in> set (mg_records g) \<and> mr_status p \<in> {''retired'', ''rolled_back''} \<and>
    (\<forall>r \<in> set (mg_records g). mr_status r \<in> {''retired'', ''rolled_back''} \<longrightarrow>
       mr_saved_at r \<le> mr_saved_at p)"
proof -
  define rs where "rs = filter (\<lambda>r. mr_status r \<in> {RETIRED, ROLLED_BACK}) (mg_records g)"
  have "rs \<noteq> []" and p: "p = last (sort_key mr_saved_at (rev rs))"
    using assms by (auto simp: previous_champion_def Let_def hd_rev rs_def split: if_splits)
  with last_sorted_key [of "rev rs" mr_saved_at] have "p \<in> set rs"
    "\<forall>r \<in> set rs. mr_saved_at r \<le> mr_saved_at p" by simp_all
  then show ?thesis by (auto simp: rs_def statuses)
qed

lemma swap_distinct:
  assumes "distinct (map ident (mg_records g))" and "previous_champion g = Some p"
  shows "swap_champion (champion g) p (mg_records g) =
    map (\<lambda>r. if mr_model_id r = mr_model_id p \<and> mr_model_version r = mr_model_version p
        then r\<lparr>mr_status := ''champion''\<rparr>
        else if \<exists>c. champion g = Some c \<and> mr_model_id r = mr_model_id c \<and>
            mr_model_version r = mr_model_version c
        then r\<lparr>mr_status := ''rolled_back''\<rparr> else r) (mg_records g)"
proof (cases "champion g")
  case None
  then show ?thesis
    by (auto simp: swap_champion_def update_first_distinct [OF assms(1)] set_mr_status_def statuses is_model_def)
next
  case (Some c)
  let ?rs = "update_first (is_model (mr_model_id c) (mr_model_version c)) (set_mr_status ROLLED_BACK) (mg_records g)"
  have "distinct (map ident ?rs)" using assms(1) by (simp add: update_first_map)
  note u = update_first_distinct [OF this]
  have "ident p \<noteq> ident c"
    using previous_newest [OF assms(2)] champion_some [OF Some] assms(1)
    by (auto simp: has_status_def statuses dest: inj_onD [OF distinct_map [THEN iffD1, THEN conjunct2]])
  have "swap_champion (champion g) p (mg_records g) =
      map (\<lambda>r. if is_model (mr_model_id p) (mr_model_version p) r then set_mr_status CHAMPION r else r)
      (map (\<lambda>r. if is_model (mr_model_id c) (mr_model_version c) r then set_mr_status ROLLED_BACK r else r)
        (mg_records g))"
    by (simp only: swap_champion_def Some option.case Let_def u) (simp only: update_first_distinct [OF assms(1)])
  with \<open>ident p \<noteq> ident c\<close> Some show ?thesis
    by (auto simp: set_mr_status_def statuses is_model_def ident_def)
qed

text \<open>C21: A safe rollback that reports success restores the newest (by saving time) retired or rolled
  back model, whose artifact verifies and loads and whose manifest does not contradict it: in the
  records it gets the status champion, the previous champion gets rolled\_back, and nothing else
  changes. The identities of the records are assumed to be distinct.\<close>

theorem rollback_restores_verified:
  assumes "fst (safe_rollback e g t) = Inr res" and "sr_success res"
    and "distinct (map ident (mg_records g))"
  shows "\<exists>p. p \<in> set (mg_records g) \<and> mr_status p \<in> {''retired'', ''rolled_back''} \<and>
    (\<forall>r \<in> set (mg_records g). mr_status r \<in> {''retired'', ''rolled_back''} \<longrightarrow>
       mr_saved_at r \<le> mr_saved_at p) \<and>
    mg_records (snd (safe_rollback e g t)) =
      map (\<lambda>r. if mr_model_id r = mr_model_id p \<and> mr_model_version r = mr_model_version p
          then r\<lparr>mr_status := ''champion''\<rparr>
          else if \<exists>c. champion g = Some c \<and> mr_model_id r = mr_model_id c \<and>
              mr_model_version r = mr_model_version c
          then r\<lparr>mr_status := ''rolled_back''\<rparr> else r) (mg_records g) \<and>
    sr_restored_id res = mr_model_id p \<and> sr_restored_version res = mr_model_version p \<and>
    (\<exists>l rep. load_with_integrity e (mg_disk g) [] (mr_model_id p) (mr_model_version p) = Inr (Some l, rep) \<and>
       ir_ok rep) \<and>
    (\<exists>man. verify_manifest_against_disk e (mg_disk g) (mr_model_id p) (mr_model_version p) = Inr man \<and>
       manifest_passes man)"
proof (cases rule: safe_rollback_cases [of e g t])
  case refused
  with assms show ?thesis by simp
next
  case (restored p u)
  note checked = rollback_checked [OF restored(2)]
  have "mg_records (snd (safe_rollback e g t)) = swap_champion (champion g) p (mg_records g)"
    "sr_restored_id res = mr_model_id p" "sr_restored_version res = mr_model_version p"
    using restored assms(1,2) by simp_all
  with checked previous_newest [OF restored(1)] swap_distinct [OF assms(3) restored(1)]
  show ?thesis by (metis (no_types, lifting))
qed

end
