(* ===== verification/ArtifactProps.thy ===== *)
theory ArtifactProps
  imports ChampionProps
begin

text \<open>
  Round trips through the disk: the registry's index, the manifest, and a saved model, which
  verifies and loads back as it was saved.
\<close>

section \<open>The index\<close>

lemma text_simps [simp]: "text_of (PyStr s) = Inr s"
  by (simp add: text_of_def)

lemma record_round_trip: "record_from_dict (record_to_dict r) = Inr r"
  by (simp add: record_from_dict_def record_to_dict_def item_def text_or_def lookups)

lemma records_round_trip: "records_from (map (\<lambda>r. PyDict (record_to_dict r)) rs) = Inr rs"
  by (induction rs) (simp_all add: record_round_trip)

definition index_payload :: "model_record list \<Rightarrow> pyval" where
  "index_payload rs = PyDict [(''models'', PyList (map (\<lambda>r. PyDict (record_to_dict r)) rs))]"

text \<open>Where JSON gives back what was dumped, a registry reads back exactly the records it saved.\<close>

theorem index_round_trip:
  assumes "me_json e (me_dumps e (index_payload (mg_records g))) = Some (index_payload (mg_records g))"
  shows "registry_load e (mg_disk (registry_save e g)) = Inr (mg_records g)"
  using assms
  by (simp add: registry_load_def registry_save_def index_payload_def records_round_trip dict_get_def)

section \<open>The manifest\<close>

lemma saved_manifest_loads:
  assumes "me_json e (me_dumps e (PyDict (manifest_to_dict m))) = Some (PyDict (manifest_to_dict m))"
  shows "load_manifest e (save_manifest e disk m) (am_model_id m) (am_model_version m) = Inr (Some m)"
  using assms by (simp add: load_manifest_def save_manifest_def manifest_from_to_dict)

section \<open>Artifacts\<close>

lemma file_in_eq [simp]: "file_in mid ver a = file_in mid ver b \<longleftrightarrow> a = b"
  by (simp add: file_in_def)

lemma py_or_nonempty [simp]: "s \<noteq> [] \<Longrightarrow> py_str shw (py_or (PyStr s) v) = s"
  by (simp add: py_or_def)

lemma opt_dict_round_trip [simp]: "c \<noteq> Some [] \<Longrightarrow> opt_dict_of (opt_dict c) = Inr c"
  by (cases c) (auto simp: opt_dict_of_def opt_dict_def)

lemma bundle_round_trip:
  assumes "ab_calibration b \<noteq> Some []" and "ab_schema_version b \<noteq> []" and "ab_checksum b \<noteq> []"
  shows "bundle_from_dict shw (bundle_to_dict b) = Inr b"
  using assms by (simp add: bundle_from_dict_def bundle_to_dict_def item_def lookups)

lemma top_or_meta_bundle:
  "ab_schema_version b \<noteq> [] \<Longrightarrow>
     top_or_meta shw (bundle_to_dict b) ''schema_version'' = Inr (ab_schema_version b)"
  "ab_checksum b \<noteq> [] \<Longrightarrow>
     top_or_meta shw (bundle_to_dict b) ''artifact_checksum'' = Inr (ab_checksum b)"
  "get_str shw (bundle_to_dict b) ''artifact_file'' ''model.pkl'' = ab_artifact_file b"
  by (simp_all add: top_or_meta_def bundle_to_dict_def lookups)

lemma schema_nonempty [simp]: "ARTIFACT_SCHEMA_VERSION \<noteq> []"
  by (simp add: ARTIFACT_SCHEMA_VERSION_def)

text \<open>What \<open>save_trained_model\<close> leaves on disk and says about it.\<close>

lemma update_nonempty [simp]: "AList.update k v d \<noteq> []"
  by (cases d) auto

lemma merge_nonempty: "d \<noteq> [] \<Longrightarrow> dict_merge d r \<noteq> []"
  unfolding dict_merge_def by (induction r arbitrary: d) (auto simp: case_prod_beta)

lemma saved_fields:
  assumes "save_trained_model e disk m cal calibration extra = (b, disk')"
  shows "ab_model_id b = tm_model_id m" "ab_model_version b = tm_model_version m"
    "ab_backend b = tm_backend m" "ab_feature_names b = tm_feature_names m"
    "ab_features_version b = tm_features_version m" "ab_dataset_hash b = tm_dataset_hash m"
    "ab_artifact_file b = ''model.pkl''" "ab_calibrator_file b = ''calibrator.json''"
    "ab_schema_version b = ARTIFACT_SCHEMA_VERSION"
    "ab_checksum b = me_sha256 e (me_pickle e (tm_backend m) (tm_artifact m))"
  using assms by (simp_all add: save_trained_model_def Let_def case_prod_beta) (clarsimp)+

lemma saved_calibration:
  assumes "save_trained_model e disk m cal calibration extra = (b, disk')"
  shows "ab_calibration b \<noteq> Some []"
  using assms merge_nonempty
  by (auto simp: save_trained_model_def Let_def case_prod_beta calibrator_payload_def
      split: option.splits if_splits)

text \<open>The files after saving; the calibrator's is rewritten only for a fitted calibrator.\<close>

lemma saved_files:
  assumes "save_trained_model e disk m cal calibration extra = (b, disk')"
  shows "disk' (file_in (tm_model_id m) (tm_model_version m) ''bundle.json'') =
      Some (me_dumps e (PyDict (bundle_to_dict b)))"
    "disk' (file_in (tm_model_id m) (tm_model_version m) ''model.pkl'') =
      Some (me_pickle e (tm_backend m) (tm_artifact m))"
    "disk' (file_in (tm_model_id m) (tm_model_version m) ''calibrator.json'') =
      (case cal of
         Some c \<Rightarrow> if cb_fitted c then Some (me_dumps e (PyDict (calibrator_payload c)))
                    else disk (file_in (tm_model_id m) (tm_model_version m) ''calibrator.json'')
       | None \<Rightarrow> disk (file_in (tm_model_id m) (tm_model_version m) ''calibrator.json''))"
  using assms by (auto simp: save_trained_model_def Let_def case_prod_beta split: option.splits)

text \<open>A model that was just saved verifies, given that JSON gives back the bundle, the digest is
  not empty and the bundle is complete.\<close>

theorem saved_model_verifies:
  assumes saved: "save_trained_model e disk m cal calibration extra = (b, disk')"
    and json: "me_json e (me_dumps e (PyDict (bundle_to_dict b))) = Some (PyDict (bundle_to_dict b))"
    and digest: "me_sha256 e (me_pickle e (tm_backend m) (tm_artifact m)) \<noteq> []"
    and complete: "fst (validate_artifact_bundle b)"
  shows "\<exists>irep. verify_artifact_integrity e disk' ARTIFACT_SCHEMA_VERSION (tm_model_id m)
      (tm_model_version m) = Inr irep \<and> ir_ok irep \<and> ir_checksum irep = ab_checksum b"
proof -
  note fields = saved_fields [OF saved] and files = saved_files [OF saved]
  have "bundle_from_dict (me_shw e) (bundle_to_dict b) = Inr b"
    by (rule bundle_round_trip) (simp_all add: fields digest saved_calibration [OF saved])
  moreover obtain reason where "validate_artifact_bundle b = (True, reason)"
    using complete by (cases "validate_artifact_bundle b") auto
  ultimately show ?thesis
    using digest
    by (simp add: verify_artifact_integrity_def files json top_or_meta_bundle fields check_bundle_def Let_def)
qed

text \<open>What loads back: the artifact as unpickled, and whatever calibrator is on disk.\<close>

lemma model_rebuilt [simp]:
  "\<lparr>tm_model_id = tm_model_id m, tm_model_version = tm_model_version m, tm_backend = tm_backend m,
     tm_feature_names = tm_feature_names m, tm_features_version = tm_features_version m,
     tm_dataset_hash = tm_dataset_hash m, tm_artifact = art, tm_metrics = x, tm_metadata = y\<rparr> =
   m\<lparr>tm_artifact := art, tm_metrics := x, tm_metadata := y\<rparr>"
  by (cases m) simp

lemma model_same [simp]: "m\<lparr>tm_artifact := tm_artifact m, tm_metrics := x, tm_metadata := y\<rparr> =
    (m :: 'o trained_model)\<lparr>tm_metrics := x, tm_metadata := y\<rparr>"
  by (cases m) simp

lemma saved_model_loads:
  assumes saved: "save_trained_model e disk m cal calibration extra = (b, disk')"
    and json: "me_json e (me_dumps e (PyDict (bundle_to_dict b))) = Some (PyDict (bundle_to_dict b))"
    and digest: "me_sha256 e (me_pickle e (tm_backend m) (tm_artifact m)) \<noteq> []"
    and pickle: "me_unpickle e (me_pickle e (tm_backend m) (tm_artifact m)) = Inr obj"
      "(if tm_backend m = ''numpy_logit'' then me_logit e obj else Inr obj) = Inr (tm_artifact m)"
  shows "load_trained_model e disk' (tm_model_id m) (tm_model_version m) =
    bindE (load_calibrator e (disk' (file_in (tm_model_id m) (tm_model_version m) ''calibrator.json'')))
      (\<lambda>cal. Inr (m\<lparr>tm_metrics := ab_metrics b, tm_metadata := ab_metadata b\<rparr>, cal, b))"
proof -
  note fields = saved_fields [OF saved] and files = saved_files(1,2) [OF saved]
  have "bundle_from_dict (me_shw e) (bundle_to_dict b) = Inr b"
    by (rule bundle_round_trip) (simp_all add: fields digest saved_calibration [OF saved])
  then have "load_trained_model e disk' (tm_model_id m) (tm_model_version m) =
    bindE (me_unpickle e (me_pickle e (tm_backend m) (tm_artifact m))) (\<lambda>data.
    bindE (if tm_backend m = ''numpy_logit'' then me_logit e data else Inr data) (\<lambda>art.
    bindE (load_calibrator e (disk' (file_in (tm_model_id m) (tm_model_version m) ''calibrator.json''))) (\<lambda>cal.
      Inr (m\<lparr>tm_artifact := art, tm_metrics := ab_metrics b, tm_metadata := ab_metadata b\<rparr>, cal, b))))"
    by (simp add: load_trained_model_def files json read_json_def mapE_def fields)
  also have "\<dots> = bindE (load_calibrator e (disk' (file_in (tm_model_id m) (tm_model_version m) ''calibrator.json'')))
      (\<lambda>cal. Inr (m\<lparr>tm_metrics := ab_metrics b, tm_metadata := ab_metadata b\<rparr>, cal, b))"
    by (simp only: pickle bindE_simps) simp
  finally show ?thesis .
qed

text \<open>A fitted calibrator loads back as saved; without one, the file of an earlier save is used.\<close>

lemma calibrator_loads:
  assumes "me_json e (me_dumps e (PyDict (calibrator_payload c))) = Some (PyDict (calibrator_payload c))"
    and "cb_fitted c"
  shows "load_calibrator e (Some (me_dumps e (PyDict (calibrator_payload c)))) = Inr (Some c)"
  using assms
  by (simp add: load_calibrator_def read_json_def calibrator_payload_def get_float_def lookups to_float_def)

lemma stale_calibrator:
  assumes "save_trained_model e disk m None calibration extra = (b, disk')"
  shows "disk' (file_in (tm_model_id m) (tm_model_version m) ''calibrator.json'') =
    disk (file_in (tm_model_id m) (tm_model_version m) ''calibrator.json'')"
  using saved_files(3) [OF assms] by simp

text \<open>What a calibrator contributes to a save: only a fitted one is written.\<close>

definition fitted_part :: "calibrator option \<Rightarrow> calibrator option" where
  "fitted_part cal = (case cal of None \<Rightarrow> None | Some c \<Rightarrow> if cb_fitted c then Some c else None)"

lemma saved_calibrator:
  assumes "save_trained_model e disk m cal calibration extra = (b, disk')"
  shows "disk' (file_in (tm_model_id m) (tm_model_version m) ''calibrator.json'') =
    (case fitted_part cal of
       None \<Rightarrow> disk (file_in (tm_model_id m) (tm_model_version m) ''calibrator.json'')
     | Some c \<Rightarrow> Some (me_dumps e (PyDict (calibrator_payload c))))"
  by (simp add: saved_files(3) [OF assms] fitted_part_def split: option.split)

lemma fitted_part_fitted: "fitted_part cal = Some c \<Longrightarrow> cb_fitted c"
  by (auto simp: fitted_part_def split: option.splits if_splits)

text \<open>C23: A saved model loads back with its artifact, its identity, its features and the calibrator it
  was saved with, if JSON and pickling give back what was written, the digest is not empty and the
  model is complete. If it was saved without a fitted calibrator, what loads is the calibrator that the
  directory held before the save: none when there was no such file, and the one of an earlier save when
  there was (\<open>old\<close>).\<close>

theorem saved_model_round_trip:
  assumes saved: "save_trained_model e disk m cal calibration extra = (b, disk')"
    and json: "me_json e (me_dumps e (PyDict (bundle_to_dict b))) = Some (PyDict (bundle_to_dict b))"
      "\<And>c. fitted_part cal = Some c \<Longrightarrow>
         me_json e (me_dumps e (PyDict (calibrator_payload c))) = Some (PyDict (calibrator_payload c))"
    and old: "load_calibrator e (disk (file_in (tm_model_id m) (tm_model_version m) ''calibrator.json'')) =
        Inr old"
    and digest: "me_sha256 e (me_pickle e (tm_backend m) (tm_artifact m)) \<noteq> []"
    and pickle: "me_unpickle e (me_pickle e (tm_backend m) (tm_artifact m)) = Inr obj"
      "(if tm_backend m = ''numpy_logit'' then me_logit e obj else Inr obj) = Inr (tm_artifact m)"
    and complete: "fst (validate_artifact_bundle b)"
    and usable: "if tm_backend m = ''numpy_logit'' then me_has_weights e (tm_artifact m)
                 else \<not> me_is_none e (tm_artifact m)"
  shows "load_trained_model_safe e disk' (tm_model_id m) (tm_model_version m) =
    (Some (m\<lparr>tm_metrics := ab_metrics b, tm_metadata := ab_metadata b\<rparr>,
       case fitted_part cal of Some c \<Rightarrow> Some c | None \<Rightarrow> old, b), ''ok'')"
proof -
  have "load_calibrator e (disk' (file_in (tm_model_id m) (tm_model_version m) ''calibrator.json'')) =
      Inr (case fitted_part cal of Some c \<Rightarrow> Some c | None \<Rightarrow> old)"
    unfolding saved_calibrator [OF saved]
    using old calibrator_loads [OF json(2)] fitted_part_fitted by (simp split: option.split)
  then have "load_trained_model e disk' (tm_model_id m) (tm_model_version m) =
      Inr (m\<lparr>tm_metrics := ab_metrics b, tm_metadata := ab_metadata b\<rparr>,
        case fitted_part cal of Some c \<Rightarrow> Some c | None \<Rightarrow> old, b)"
    unfolding saved_model_loads [OF saved json(1) digest pickle] by simp
  with complete usable show ?thesis
    by (simp add: load_trained_model_safe_def saved_fields [OF saved])
qed

text \<open>No calibrator file, no calibrator.\<close>

lemma no_calibrator_file: "load_calibrator e None = Inr None"
  by (simp add: load_calibrator_def)

end
