(* ===== verification/GovernanceDemo.thy ===== *)
theory GovernanceDemo
  imports Governance ArtifactProps
begin

text \<open>
  A small registry on a small disk: the properties of the governance at concrete inputs, and runs
  that show where the code departs from its intention.
\<close>

section \<open>A registry\<close>

definition demo_model :: "string \<Rightarrow> string trained_model" where
  "demo_model ver = \<lparr>tm_model_id = ''m'', tm_model_version = ver, tm_backend = ''b'',
     tm_feature_names = [PyStr ''f''], tm_features_version = ''1'', tm_dataset_hash = ''h'',
     tm_artifact = ''art'', tm_metrics = [], tm_metadata = []\<rparr>"

text \<open>Bundles are written as \<open>B\<close>, calibrators as \<open>C\<close>; pickling is the identity.\<close>

definition base_env :: "string ml_env" where
  "base_env = \<lparr>me_shw = (\<lambda>_. ''?''), me_parse = (\<lambda>_. None), me_json = (\<lambda>_. None), me_dumps = (\<lambda>_. ''B''),
     me_sha256 = (\<lambda>s. ''#'' @ s), me_now = ''now'', me_pickle = (\<lambda>_ x. x), me_unpickle = Inr,
     me_logit = Inr, me_has_weights = (\<lambda>_. True), me_is_none = (\<lambda>_. False)\<rparr>"

definition demo_cal :: calibrator where
  "demo_cal = \<lparr>cb_a = 2, cb_b = 1, cb_fitted = True\<rparr>"

definition demo_bundle :: artifact_bundle where
  "demo_bundle = fst (save_trained_model base_env Map.empty (demo_model ''1'') (Some demo_cal) None [])"

definition demo_env :: "string ml_env" where
  "demo_env = base_env\<lparr>
     me_json := (\<lambda>s. if s = ''B'' then Some (PyDict (bundle_to_dict demo_bundle))
                     else if s = ''C'' then Some (PyDict (calibrator_payload demo_cal)) else None),
     me_dumps := (\<lambda>v. if v = PyDict (calibrator_payload demo_cal) then ''C'' else ''B'')\<rparr>"

definition demo_compute :: compute_env where
  "demo_compute = \<lparr>ce_shw = (\<lambda>_. ''?''), ce_sha256 = id, ce_urlparse = (\<lambda>s. (s, s)), ce_files = (\<lambda>_. None)\<rparr>"

text \<open>Two candidates whose artifacts are on disk.\<close>

definition demo_registry :: ml_registry where
  "demo_registry =
     snd (register_candidate demo_env
       (snd (register_candidate demo_env \<lparr>mg_records = [], mg_disk = Map.empty, mg_audit = Some []\<rparr>
          (demo_model ''1'') (Some demo_cal) None [] [] [] [] True))
       (demo_model ''2'') (Some demo_cal) None [] [] [] [] True)"

definition good_oos :: "flt \<Rightarrow> benchmark" where
  "good_oos acc = \<lparr>bm_accuracy = acc, bm_precision = 0, bm_recall = 0, bm_brier = 2 / 10,
     bm_log_loss = 0, bm_n = 30\<rparr>"

definition unstable :: triggers where
  "unstable = \<lparr>rt_performance_collapse = False, rt_abnormal_drift = False, rt_calibration_failure = False,
     rt_runtime_failure = False, rt_resource_failure = False, rt_instability = True\<rparr>"

definition promote_op :: "string \<Rightarrow> string ml_op" where
  "promote_op ver = TxPromote ''m'' ver (Some (good_oos (6 / 10))) None default_promotion_policy"

definition statuses_of :: "ml_registry \<Rightarrow> (string \<times> string) list" where
  "statuses_of g = map (\<lambda>r. (mr_model_version r, mr_status r)) (mg_records g)"

definition demo_ops :: "string ml_op list" where
  "demo_ops = [promote_op ''1'', TxPromote ''m'' ''2'' (Some (good_oos (7 / 10))) None default_promotion_policy,
     SafeRollback unstable, Startup]"

text \<open>Promote 1 and 2, roll back to 1, restart.\<close>

lemma governance_run:
  "statuses_of (ml_run demo_env demo_compute demo_registry demo_ops) =
     [(''1'', CHAMPION), (''2'', ROLLED_BACK)]"
  by code_simp

section \<open>The properties on the registry\<close>



lemma demo_distinct: "distinct (map ident (mg_records demo_registry) @ all_registered demo_ops)"
  by code_simp

lemma demo_one: "one_champion (mg_records demo_registry)"
  unfolding one_champion_def by code_simp

theorem at_most_one_champion_witness:
  "length (champions (mg_records (ml_run demo_env demo_compute demo_registry demo_ops))) \<le> 1"
  by (rule at_most_one_champion [OF demo_distinct demo_one])

lemma returned: "case x of Inr r \<Rightarrow> P r | Inl _ \<Rightarrow> False \<Longrightarrow> \<exists>r. x = Inr r \<and> P r"
  by (cases x) auto

definition promoted :: "py_exc + tx_result" where
  "promoted = fst (transactional_promote demo_env demo_registry ''m'' ''1'' (Some (good_oos (6 / 10))) None
     default_promotion_policy)"

lemma demo_promoted: "case promoted of Inr res \<Rightarrow> tx_success res | Inl _ \<Rightarrow> False"
  by code_simp

theorem promoted_model_passed_gates_witness:
  "\<exists>r. find (is_model ''m'' ''1'') (mg_records demo_registry) = Some r \<and>
     fit_for_champion demo_env demo_registry ''m'' ''1'' r (Some (good_oos (6 / 10))) None default_promotion_policy"
proof -
  obtain res where "promoted = Inr res" "tx_success res"
    using returned [OF demo_promoted] by blast
  then show ?thesis unfolding promoted_def by (rule promoted_model_passed_gates)
qed

definition before_rollback :: ml_registry where
  "before_rollback = ml_run demo_env demo_compute demo_registry (take 2 demo_ops)"

lemma demo_rolled_back:
  "case fst (safe_rollback demo_env before_rollback unstable) of Inr res \<Rightarrow> sr_success res | Inl _ \<Rightarrow> False"
  by code_simp

lemma before_distinct: "distinct (map ident (mg_records before_rollback))"
  by code_simp

theorem rollback_restores_verified_witness:
  "\<exists>(p :: model_record) man. mr_status p \<in> {''retired'', ''rolled_back''} \<and>
    map mr_status (mg_records (snd (safe_rollback demo_env before_rollback unstable))) =
      map (\<lambda>r. if mr_model_id r = mr_model_id p \<and> mr_model_version r = mr_model_version p
          then ''champion''
          else if \<exists>c. champion before_rollback = Some c \<and> mr_model_id r = mr_model_id c \<and>
              mr_model_version r = mr_model_version c
          then ''rolled_back'' else mr_status r) (mg_records before_rollback) \<and>
    verify_manifest_against_disk demo_env (mg_disk before_rollback) (mr_model_id p) (mr_model_version p) =
      Inr man \<and> manifest_passes man"
proof -
  obtain res where "fst (safe_rollback demo_env before_rollback unstable) = Inr res" "sr_success res"
    using returned [OF demo_rolled_back] by blast
  from rollback_restores_verified [OF this before_distinct] show ?thesis
  proof (elim exE conjE, goal_cases)
    case (1 p l man rep)
    then show ?case by (intro exI [of _ p] exI [of _ man]) (auto simp: comp_def if_distrib [where f = mr_status])
  qed
qed

definition index_env :: "string ml_env" where
  "index_env = base_env\<lparr>me_json := (\<lambda>_. Some (index_payload (mg_records demo_registry)))\<rparr>"

theorem index_round_trip_witness:
  "registry_load index_env (mg_disk (registry_save index_env demo_registry)) = Inr (mg_records demo_registry)"
  by (rule index_round_trip) (simp add: index_env_def)

text \<open>The model is saved with its calibrator, and then again without one on the same disk.\<close>

definition second_bundle :: artifact_bundle where
  "second_bundle = fst (save_trained_model base_env Map.empty (demo_model ''1'') None None [])"

definition second_env :: "string ml_env" where
  "second_env = demo_env\<lparr>
     me_json := (\<lambda>s. if s = ''B'' then Some (PyDict (bundle_to_dict second_bundle)) else me_json demo_env s)\<rparr>"

lemma demo_json_calibrator:
  "me_json second_env ''C'' = Some (PyDict (calibrator_payload demo_cal)) \<and>
   me_json demo_env ''C'' = Some (PyDict (calibrator_payload demo_cal)) \<and>
   me_dumps demo_env (PyDict (calibrator_payload demo_cal)) = ''C''"
  by (simp add: second_env_def demo_env_def)

lemma payload_not_bundle: "bundle_to_dict b \<noteq> calibrator_payload c"
  by (simp add: bundle_to_dict_def calibrator_payload_def)

theorem saved_model_round_trip_witness:
  "\<exists>disk' b disk'' b'.
     save_trained_model demo_env Map.empty (demo_model ''1'') (Some demo_cal) None [] = (b, disk') \<and>
     load_trained_model_safe demo_env disk' ''m'' ''1'' =
       (Some ((demo_model ''1'')\<lparr>tm_metrics := ab_metrics b, tm_metadata := ab_metadata b\<rparr>, Some demo_cal, b), ''ok'') \<and>
     save_trained_model second_env disk' (demo_model ''1'') None None [] = (b', disk'') \<and>
     load_trained_model_safe second_env disk'' ''m'' ''1'' =
       (Some ((demo_model ''1'')\<lparr>tm_metrics := ab_metrics b', tm_metadata := ab_metadata b'\<rparr>, Some demo_cal, b'), ''ok'')"
proof -
  obtain b disk' where saved:
    "save_trained_model demo_env Map.empty (demo_model ''1'') (Some demo_cal) None [] = (b, disk')"
    by fastforce
  obtain b' disk'' where again:
    "save_trained_model second_env disk' (demo_model ''1'') None None [] = (b', disk'')"
    by fastforce
  have b: "b = demo_bundle"
    using saved by (auto simp: save_trained_model_def demo_bundle_def demo_env_def base_env_def Let_def
        case_prod_beta)
  have b': "b' = second_bundle"
    using again by (auto simp: save_trained_model_def second_bundle_def second_env_def demo_env_def
        base_env_def Let_def case_prod_beta)
  have fit: "fitted_part (Some demo_cal) = Some demo_cal" "fitted_part None = None"
    by (simp_all add: fitted_part_def demo_cal_def)
  have "fst (validate_artifact_bundle b)" unfolding b by code_simp
  then have 1: "load_trained_model_safe demo_env disk' (tm_model_id (demo_model ''1'')) (tm_model_version (demo_model ''1'')) =
       (Some ((demo_model ''1'')\<lparr>tm_metrics := ab_metrics b, tm_metadata := ab_metadata b\<rparr>,
          case fitted_part (Some demo_cal) of Some c \<Rightarrow> Some c | None \<Rightarrow> None, b), ''ok'')"
    by (intro saved_model_round_trip [OF saved])
      (auto simp: fit b payload_not_bundle no_calibrator_file demo_env_def base_env_def demo_model_def)
  have "load_calibrator second_env (disk' (file_in (tm_model_id (demo_model ''1'')) (tm_model_version (demo_model ''1''))
      ''calibrator.json'')) = Inr (Some demo_cal)"
    unfolding saved_calibrator [OF saved] fit option.case
    using calibrator_loads [of second_env demo_cal]
    by (simp add: second_env_def demo_env_def demo_cal_def)
  moreover have "fst (validate_artifact_bundle b')" unfolding b' by code_simp
  ultimately have "load_trained_model_safe second_env disk'' (tm_model_id (demo_model ''1'')) (tm_model_version (demo_model ''1'')) =
       (Some ((demo_model ''1'')\<lparr>tm_metrics := ab_metrics b', tm_metadata := ab_metadata b'\<rparr>,
          case fitted_part None of Some c \<Rightarrow> Some c | None \<Rightarrow> Some demo_cal, b'), ''ok'')"
    by (intro saved_model_round_trip [OF again])
      (auto simp: fit b' payload_not_bundle second_env_def demo_env_def base_env_def demo_model_def)
  with 1 saved again show ?thesis by (simp add: fit demo_model_def) 
qed

section \<open>Departures from the intention\<close>

text \<open>Promoting a model that does not exist retires the champion in memory before it raises.\<close>

lemma unknown_promotion_retires:
  "statuses_of (ml_run demo_env demo_compute demo_registry [promote_op ''1'', Promote ''x'' ''1'']) =
     [(''1'', RETIRED), (''2'', CANDIDATE)]"
  by code_simp

text \<open>A second rollback restores the model that was just rolled back.\<close>

lemma rollback_alternates:
  "map (\<lambda>n. statuses_of (ml_run demo_env demo_compute before_rollback (replicate n (SafeRollback unstable)))) [1, 2] =
     [[(''1'', CHAMPION), (''2'', ROLLED_BACK)], [(''1'', ROLLED_BACK), (''2'', CHAMPION)]]"
  by code_simp

end
