(* ===== verification/MarketCache.thy ===== *)
theory MarketCache
  imports Risk
begin

text \<open>
  Market data (\<open>src/src/crypto/market\<close>): the candle, ticker and order book of
  \<open>exchanges/models.py\<close>, the time helpers of \<open>timeutils.py\<close>, the normalised symbols of
  \<open>symbols.py\<close>, the validation and gap detection of \<open>ohlcv_utils.py\<close>, and the bounded
  cache of \<open>cache.py\<close>.

  An \<open>OrderedDict\<close> is an association list, oldest first. The clock readings that the operations
  take when no \<open>now_ms\<close> is passed are their argument \<open>now\<close>.
\<close>

section \<open>Records\<close>

record ohlcv_bar =
  bar_ts :: int
  bar_open :: flt
  bar_high :: flt
  bar_low :: flt
  bar_close :: flt
  bar_volume :: flt

record ticker =
  tk_exchange :: string
  tk_symbol :: string
  tk_ts :: "int option"
  tk_bid :: "flt option"
  tk_ask :: "flt option"
  tk_last :: "flt option"
  tk_high :: "flt option"
  tk_low :: "flt option"
  tk_volume :: "flt option"
  tk_quote_volume :: "flt option"

record book_level =
  lv_price :: flt
  lv_amount :: flt

record order_book =
  ob_exchange :: string
  ob_symbol :: string
  ob_ts :: "int option"
  ob_bids :: "book_level list"
  ob_asks :: "book_level list"

text \<open>The exception classes of \<open>exchanges/errors.py\<close>, and Python's \<open>ValueError\<close>.\<close>

datatype exchange_error =
    ExchangeErr | AuthenticationErr | PermissionErr | RateLimitErr | NetworkErr | MarketDataErr
  | UnsupportedCapabilityErr | ExchangeUnavailableErr | TradingDisabledErr | CredentialMissingErr

datatype market_failure =
    Exchange exchange_error string
  | BadValue string

section \<open>Time\<close>

definition is_future :: "int \<Rightarrow> int \<Rightarrow> int \<Rightarrow> bool" where
  "is_future ts now tolerance \<longleftrightarrow> now + tolerance < ts"

definition future_tolerance :: int where
  "future_tolerance = 60000"

definition ts_stale :: "int option \<Rightarrow> int \<Rightarrow> int \<Rightarrow> bool" where
  "ts_stale ts max_age now = (case ts of None \<Rightarrow> True | Some t \<Rightarrow> max_age < now - t)"

text \<open>
  \<open>int(s)\<close> on ASCII text: white space around, a sign, and digits with single underscores between
  them.
\<close>

fun int_digits :: "bool \<Rightarrow> int \<Rightarrow> string \<Rightarrow> int option" where
  "int_digits after acc [] = (if after then Some acc else None)"
| "int_digits after acc (c # cs) =
     (if c = CHR ''_'' then (if after then int_digits False acc cs else None)
      else if py_isdigit [c] then int_digits True (10 * acc + (of_char c - 48)) cs
      else None)"

definition py_int :: "string \<Rightarrow> int option" where
  "py_int s =
     (case py_strip s of
        [] \<Rightarrow> None
      | c # cs \<Rightarrow>
          if c = CHR ''-'' then map_option uminus (int_digits False 0 cs)
          else if c = CHR ''+'' then int_digits False 0 cs
          else int_digits False 0 (c # cs))"

text \<open>
  \<open>ensure_utc_ms\<close>: a \<open>datetime\<close> comes as its POSIX timestamp, a number as itself, a string is
  parsed.
\<close>

datatype time_value = NoTime | DateTime flt | Number flt | Text string | OtherValue

definition ms_heuristic :: "int \<Rightarrow> int option" where
  "ms_heuristic n = (if n < 0 then None else if n < 1000000000000 then Some (n * 1000) else Some n)"

definition ensure_utc_ms :: "time_value \<Rightarrow> int option" where
  "ensure_utc_ms v =
     (case v of
        NoTime \<Rightarrow> None
      | DateTime t \<Rightarrow> Some (py_trunc (t * 1000))
      | Number x \<Rightarrow> ms_heuristic (py_trunc x)
      | Text s \<Rightarrow> (case py_int s of None \<Rightarrow> None | Some n \<Rightarrow> ms_heuristic n)
      | OtherValue \<Rightarrow> None)"

definition unit_ms :: "char \<Rightarrow> int option" where
  "unit_ms c = map_of
     [(CHR ''s'', 1000), (CHR ''m'', 60000), (CHR ''h'', 3600000), (CHR ''d'', 86400000),
      (CHR ''w'', 604800000)] c"

text \<open>An empty timeframe is an \<open>IndexError\<close> in the code; here it joins the \<open>ValueError\<close>s.\<close>

definition timeframe_to_ms :: "string \<Rightarrow> market_failure + int" where
  "timeframe_to_ms tf =
     (if tf = [] then Inl (BadValue ''string index out of range'')
      else case py_int (butlast tf) of
        None \<Rightarrow> Inl (BadValue (''invalid timeframe: '' @ tf))
      | Some n \<Rightarrow>
          if n \<le> 0 then Inl (BadValue (''invalid timeframe: '' @ tf))
          else case unit_ms (List.last tf) of
            None \<Rightarrow> Inl (BadValue (''invalid timeframe unit: '' @ tf))
          | Some u \<Rightarrow> Inr (n * u))"

lemma unit_ms_pos: "unit_ms c = Some u \<Longrightarrow> 0 < u"
  by (auto simp: unit_ms_def split: if_splits)

lemma timeframe_positive: "timeframe_to_ms tf = Inr i \<Longrightarrow> 0 < i"
  by (auto simp: timeframe_to_ms_def split: if_splits option.splits dest!: unit_ms_pos
      intro: mult_pos_pos)

section \<open>Symbols\<close>

record normalized_symbol =
  ns_base :: string
  ns_quote :: string
  ns_exchange :: string
  ns_native :: string

definition ns_symbol :: "normalized_symbol \<Rightarrow> string" where
  "ns_symbol s = ns_base s @ ''/'' @ ns_quote s"

text \<open>\<open>s.replace(a, b)\<close> for single characters, and \<open>s.split(c)\<close>.\<close>

definition replace_char :: "char \<Rightarrow> char \<Rightarrow> string \<Rightarrow> string" where
  "replace_char a b s = map (\<lambda>c. if c = a then b else c) s"

fun split_char :: "char \<Rightarrow> string \<Rightarrow> string list" where
  "split_char sep [] = [[]]"
| "split_char sep (c # cs) =
     (if c = sep then [] # split_char sep cs
      else case split_char sep cs of [] \<Rightarrow> [[c]] | w # ws \<Rightarrow> (c # w) # ws)"

definition is_alnum :: "char \<Rightarrow> bool" where
  "is_alnum c \<longleftrightarrow> is_upper c \<or> is_lower c \<or> py_isdigit [c]"

text \<open>
  The regular expression \<open>^([A-Za-z0-9]+)[/_-]?([A-Za-z0-9]+)$\<close>: the first group is greedy, so
  without a separator it takes all but the last character.
\<close>

definition pair_match :: "string \<Rightarrow> (string \<times> string) option" where
  "pair_match s =
     (let p = takeWhile is_alnum s; r = dropWhile is_alnum s
      in case r of
           [] \<Rightarrow> if 2 \<le> length p then Some (butlast p, [List.last p]) else None
         | c # q \<Rightarrow>
             if p \<noteq> [] \<and> c \<in> set ''/_-'' \<and> q \<noteq> [] \<and> list_all is_alnum q then Some (p, q)
             else None)"

definition clean_pair :: "string \<Rightarrow> string" where
  "clean_pair native =
     replace_char CHR ''_'' CHR ''/'' (replace_char CHR ''-'' CHR ''/'' (py_upper (py_strip native)))"

definition normalize_symbol ::
  "string \<Rightarrow> string \<Rightarrow> string option \<Rightarrow> string option \<Rightarrow> market_failure + normalized_symbol"
where
  "normalize_symbol ex native base quote_asset =
     (let build = (\<lambda>b q. Inr \<lparr>ns_base = b, ns_quote = q, ns_exchange = ex, ns_native = native\<rparr>);
          by_regex = (case pair_match (py_strip native) of
             Some (b, q) \<Rightarrow> build (py_upper b) (py_upper q)
           | None \<Rightarrow> Inl (BadValue (''cannot normalize symbol '' @ native @ '' on '' @ ex)))
      in case (base, quote_asset) of
           (Some (b # bs), Some (q # qs)) \<Rightarrow> build (py_upper (b # bs)) (py_upper (q # qs))
         | _ \<Rightarrow>
           (case split_char CHR ''/'' (clean_pair native) of
              [b, q] \<Rightarrow> if b \<noteq> [] \<and> q \<noteq> [] then build b q else by_regex
            | _ \<Rightarrow> by_regex))"


lemma alnum_not_space: "is_alnum c \<Longrightarrow> \<not> is_space c"
  by (auto simp: is_alnum_def is_space_def is_upper_def is_lower_def py_isdigit_def)

lemma dropWhile_none: "xs \<noteq> [] \<Longrightarrow> \<not> P (hd xs) \<Longrightarrow> dropWhile P xs = xs"
  by (cases xs) auto

lemma strip_clean: "s \<noteq> [] \<Longrightarrow> \<not> is_space (hd s) \<Longrightarrow> \<not> is_space (List.last s) \<Longrightarrow> py_strip s = s"
  by (simp add: py_strip_def dropWhile_none hd_rev)

lemma upper_char_alnum: "is_alnum c \<Longrightarrow> is_alnum (upper_char c)"
  by (auto simp: is_alnum_def upper_char_def is_upper_def is_lower_def py_isdigit_def)

lemma upper_char_idem: "upper_char (upper_char c) = upper_char c"
  by (auto simp: upper_char_def is_lower_def)

lemma separator_not_alnum: "c \<in> set ''/-_'' \<Longrightarrow> \<not> is_alnum c"
  by (auto simp: is_alnum_def is_upper_def is_lower_def py_isdigit_def)

lemma replace_alnum:
  assumes "list_all is_alnum s" and "a \<in> set ''/-_''"
  shows "replace_char a b s = s"
proof -
  have "c \<noteq> a" if "c \<in> set s" for c
    using assms(1) that separator_not_alnum [OF assms(2)] by (auto simp: list_all_iff)
  then show ?thesis by (auto simp: replace_char_def intro!: map_idI)
qed

lemma slash_not_alnum: "\<not> is_alnum CHR ''/''"
  by (rule separator_not_alnum) simp

lemma split_alnum: "list_all is_alnum s \<Longrightarrow> split_char CHR ''/'' s = [s]"
  by (induction s) (use slash_not_alnum in auto)

lemma split_pair:
  "list_all is_alnum b \<Longrightarrow> list_all is_alnum q \<Longrightarrow> split_char CHR ''/'' (b @ CHR ''/'' # q) = [b, q]"
  by (induction b) (use slash_not_alnum split_alnum in auto)

lemma upper_alnum: "list_all is_alnum s \<Longrightarrow> list_all is_alnum (py_upper s)"
  by (simp add: py_upper_def list_all_iff upper_char_alnum)

lemma upper_separator: "c \<in> set ''/-_'' \<Longrightarrow> upper_char c = c"
  by (auto simp: upper_char_def is_lower_def)

lemma replace_append: "replace_char a b (s @ t) = replace_char a b s @ replace_char a b t"
  by (simp add: replace_char_def)

lemma upper_append: "py_upper (s @ t) = py_upper s @ py_upper t"
  by (simp add: py_upper_def)

lemma clean_separator:
  "c \<in> set ''/-_'' \<Longrightarrow>
    replace_char CHR ''_'' CHR ''/'' (replace_char CHR ''-'' CHR ''/'' (py_upper [c])) = ''/''"
  by (auto simp: replace_char_def py_upper_def upper_separator)

lemma clean_alnum:
  "list_all is_alnum s \<Longrightarrow>
    replace_char CHR ''_'' CHR ''/'' (replace_char CHR ''-'' CHR ''/'' (py_upper s)) = py_upper s"
  by (simp add: replace_alnum upper_alnum)

lemma clean_pair_of:
  assumes "b \<noteq> []" "q \<noteq> []" "list_all is_alnum b" "list_all is_alnum q" "c \<in> set ''/-_''"
  shows "clean_pair (b @ [c] @ q) = py_upper b @ ''/'' @ py_upper q"
proof -
  have "py_strip (b @ [c] @ q) = b @ [c] @ q"
    using assms by (intro strip_clean) (auto simp: list_all_iff alnum_not_space)
  then show ?thesis
    unfolding clean_pair_def
    using assms by (simp only: upper_append replace_append clean_alnum clean_separator)
qed

text \<open>Every separator parses to the same pair, in upper case.\<close>

lemma upper_empty [simp]: "py_upper s = [] \<longleftrightarrow> s = []"
  by (simp add: py_upper_def)

lemma normalize_pair:
  assumes "b \<noteq> []" "q \<noteq> []" "list_all is_alnum b" "list_all is_alnum q" "c \<in> set ''/-_''"
  shows "normalize_symbol ex (b @ [c] @ q) None None =
    Inr \<lparr>ns_base = py_upper b, ns_quote = py_upper q, ns_exchange = ex, ns_native = b @ [c] @ q\<rparr>"
proof -
  have "split_char CHR ''/'' (clean_pair (b @ [c] @ q)) = [py_upper b, py_upper q]"
    using assms clean_pair_of [OF assms] by (simp add: split_pair upper_alnum)
  then show ?thesis
    using assms(1,2) by (simp add: normalize_symbol_def)
qed

text \<open>Without a separator the last character alone becomes the quote asset.\<close>

lemma concatenated_symbol:
  "normalize_symbol ''binance'' ''BTCUSDT'' None None =
     Inr \<lparr>ns_base = ''BTCUSD'', ns_quote = ''T'', ns_exchange = ''binance'', ns_native = ''BTCUSDT''\<rparr>"
  by code_simp

end
