(* ===== verification/MarketSeries.thy ===== *)
theory MarketSeries
  imports MarketCache
begin

text \<open>
  The bounded LRU cache with expiry (\<open>market/cache.py\<close>), candle validation and gap detection
  (\<open>market/ohlcv_utils.py\<close>), and the merge of new candles into the cached series.
\<close>

section \<open>The contract of a forgetful store\<close>

text \<open>
  Steps may forget, but what is found under a key is what was last written there.
\<close>

locale forgetful_store =
  fixes look :: "'s \<Rightarrow> 'k \<Rightarrow> 'v option"
    and step :: "'s \<Rightarrow> 'e \<Rightarrow> 's"
    and written :: "'e \<Rightarrow> ('k \<times> 'v) option"
    and inv :: "'s \<Rightarrow> bool"
  assumes look_step: "inv s \<Longrightarrow> look (step s e) k = Some w \<Longrightarrow>
      (case written e of Some (j, v) \<Rightarrow> if j = k then w = v else look s k = Some w
       | None \<Rightarrow> look s k = Some w)"
    and inv_step: "inv s \<Longrightarrow> inv (step s e)"
begin

lemma run_inv: "inv s \<Longrightarrow> inv (foldl step s es)"
  by (induction es arbitrary: s) (auto simp: inv_step)

definition last_write :: "'e list \<Rightarrow> 'k \<Rightarrow> 'v option" where
  "last_write es = map_of (rev (List.map_filter written es))"

lemma run_look:
  assumes "inv s" and "look (foldl step s es) k = Some w"
  shows "last_write es k = Some w \<or> last_write es k = None \<and> look s k = Some w"
  using assms(2)
proof (induction es arbitrary: w rule: rev_induct)
  case Nil
  then show ?case by (simp add: last_write_def map_filter_def)
next
  case (snoc e es)
  let ?t = "foldl step s es"
  have found: "look (step ?t e) k = Some w" using snoc.prems by simp
  note law = look_step [OF run_inv [OF assms(1)] found]
  show ?case
  proof (cases "written e")
    case None
    with law snoc.IH show ?thesis by (simp add: last_write_def map_filter_def)
  next
    case (Some kv)
    obtain j v where "kv = (j, v)" by force
    with law snoc.IH Some show ?thesis
      by (auto simp: last_write_def map_filter_def split: if_splits)
  qed
qed

end

section \<open>The bounded cache\<close>

record ('k, 'v) bounded_cache =
  bc_max :: int
  bc_ttl :: int
  bc_data :: "('k, 'v \<times> int) dict"
  bc_hits :: int
  bc_misses :: int

definition new_cache :: "int \<Rightarrow> int \<Rightarrow> market_failure + ('k, 'v) bounded_cache" where
  "new_cache max_n ttl =
     (if max_n < 1 then Inl (BadValue ''max_size must be >= 1'')
      else Inr \<lparr>bc_max = max_n, bc_ttl = ttl, bc_data = [], bc_hits = 0, bc_misses = 0\<rparr>)"

definition expired :: "('k, 'v) bounded_cache \<Rightarrow> int \<Rightarrow> int \<Rightarrow> bool" where
  "expired c now stored \<longleftrightarrow> 0 < bc_ttl c \<and> bc_ttl c < now - stored"

definition move_to_end :: "'k \<Rightarrow> ('k, 'a) dict \<Rightarrow> ('k, 'a) dict" where
  "move_to_end k d = (case map_of d k of None \<Rightarrow> d | Some x \<Rightarrow> AList.delete k d @ [(k, x)])"

definition cache_get ::
  "('k, 'v) bounded_cache \<Rightarrow> 'k \<Rightarrow> int \<Rightarrow> 'v option \<times> ('k, 'v) bounded_cache" where
  "cache_get c k now =
     (case map_of (bc_data c) k of
        None \<Rightarrow> (None, c\<lparr>bc_misses := bc_misses c + 1\<rparr>)
      | Some (v, stored) \<Rightarrow>
          if expired c now stored
          then (None, c\<lparr>bc_data := AList.delete k (bc_data c), bc_misses := bc_misses c + 1\<rparr>)
          else (Some v, c\<lparr>bc_data := move_to_end k (bc_data c), bc_hits := bc_hits c + 1\<rparr>))"

text \<open>The loop that drops the oldest entry while there are too many.\<close>

fun evict :: "int \<Rightarrow> 'a list \<Rightarrow> 'a list" where
  "evict n [] = []"
| "evict n (x # xs) = (if n < int (length (x # xs)) then evict n xs else x # xs)"

definition cache_put ::
  "('k, 'v) bounded_cache \<Rightarrow> 'k \<Rightarrow> 'v \<Rightarrow> int \<Rightarrow> ('k, 'v) bounded_cache" where
  "cache_put c k v now =
     c\<lparr>bc_data := evict (bc_max c) (AList.delete k (bc_data c) @ [(k, (v, now))])\<rparr>"

definition cache_clear :: "('k, 'v) bounded_cache \<Rightarrow> ('k, 'v) bounded_cache" where
  "cache_clear c = c\<lparr>bc_data := []\<rparr>"

definition cache_ok :: "('k, 'v) bounded_cache \<Rightarrow> bool" where
  "cache_ok c \<longleftrightarrow> 1 \<le> bc_max c \<and> distinct (map fst (bc_data c)) \<and>
     int (length (bc_data c)) \<le> bc_max c"

lemma evict_drop: "evict n xs = drop (length xs - nat n) xs" if "0 \<le> n"
  using that by (induction n xs rule: evict.induct) (auto simp: Suc_diff_le)

lemma evict_bound: "0 \<le> n \<Longrightarrow> int (length (evict n xs)) \<le> n"
  by (simp add: evict_drop)

lemma evict_suffix: "suffix (evict n xs) xs"
  by (induction n xs rule: evict.induct) (auto simp: suffix_Cons)

lemma evict_last: "1 \<le> n \<Longrightarrow> \<exists>ys. evict n (xs @ [x]) = ys @ [x]"
proof -
  assume "1 \<le> n"
  then have "length (xs @ [x]) - nat n \<le> length xs" by simp
  then show ?thesis using \<open>1 \<le> n\<close> by (simp add: evict_drop)
qed

lemma map_of_suffix:
  "suffix ys xs \<Longrightarrow> distinct (map fst xs) \<Longrightarrow> map_of ys k = Some v \<Longrightarrow> map_of xs k = Some v"
  by (metis map_of_SomeD map_of_eq_Some_iff set_mono_suffix subsetD)

lemma distinct_suffix: "suffix ys xs \<Longrightarrow> distinct (map f xs) \<Longrightarrow> distinct (map f ys)"
  by (auto simp: suffix_def)

lemma delete_fst: "k \<notin> fst ` set (AList.delete k d)"
  by (simp add: delete_keys flip: set_map)

lemma put_entries_distinct:
  "distinct (map fst d) \<Longrightarrow> distinct (map fst (AList.delete k d @ [(k, x)]))"
  by (simp add: distinct_delete delete_fst)

lemma cache_put_ok: "cache_ok c \<Longrightarrow> cache_ok (cache_put c k v now)"
  by (simp add: cache_ok_def cache_put_def evict_bound distinct_suffix [OF evict_suffix]
      put_entries_distinct del: map_append)

lemma delete_length: "length (AList.delete k d) \<le> length d"
  by (rule length_delete_le)

lemma move_to_end_same: "map_of (move_to_end k d) j = map_of d j"
  by (auto simp: move_to_end_def delete_conv' map_add_def split: option.split)

lemma delete_Suc: "k \<in> fst ` set d \<Longrightarrow> length (AList.delete k d) < length d"
  by (induction d) (auto intro: le_imp_less_Suc delete_length)

lemma move_to_end_ok:
  "distinct (map fst d) \<Longrightarrow>
    distinct (map fst (move_to_end k d)) \<and> length (move_to_end k d) \<le> length d"
proof (cases "map_of d k")
  case (Some x)
  assume "distinct (map fst d)"
  moreover have "k \<in> fst ` set d" using Some by (force dest: map_of_SomeD)
  ultimately show ?thesis
    using Some delete_Suc [of k d]
    by (simp add: move_to_end_def put_entries_distinct Suc_le_eq del: map_append)
qed (simp add: move_to_end_def)

lemma cache_get_ok: "cache_ok c \<Longrightarrow> cache_ok (snd (cache_get c k now))"
  using move_to_end_ok [of "bc_data c" k] delete_length [of k "bc_data c"]
  by (auto simp: cache_ok_def cache_get_def distinct_delete split: option.split)

datatype ('k, 'v) cache_op = CacheGet 'k int | CachePut 'k 'v int | CacheClear

fun cache_step :: "('k, 'v) bounded_cache \<Rightarrow> ('k, 'v) cache_op \<Rightarrow> ('k, 'v) bounded_cache" where
  "cache_step c (CacheGet k now) = snd (cache_get c k now)"
| "cache_step c (CachePut k v now) = cache_put c k v now"
| "cache_step c CacheClear = cache_clear c"

fun cache_write :: "('k, 'v) cache_op \<Rightarrow> ('k \<times> 'v \<times> int) option" where
  "cache_write (CachePut k v now) = Some (k, (v, now))"
| "cache_write _ = None"

lemma cache_step_ok: "cache_ok c \<Longrightarrow> cache_ok (cache_step c e)"
  by (cases e) (auto simp: cache_get_ok cache_put_ok, auto simp: cache_clear_def cache_ok_def)

lemma cache_get_look:
  "map_of (bc_data (snd (cache_get c k now))) j = Some w \<Longrightarrow> map_of (bc_data c) j = Some w"
  by (auto simp: cache_get_def move_to_end_same delete_conv' split: option.splits if_splits)

lemma cache_put_look:
  assumes "cache_ok c" and "map_of (bc_data (cache_put c k v now)) j = Some w"
  shows "if j = k then w = (v, now) else map_of (bc_data c) j = Some w"
proof -
  let ?d = "AList.delete k (bc_data c) @ [(k, (v, now))]"
  have "distinct (map fst ?d)"
    by (rule put_entries_distinct) (use assms(1) in \<open>simp add: cache_ok_def\<close>)
  moreover have "map_of (evict (bc_max c) ?d) j = Some w"
    using assms(2) by (simp add: cache_put_def)
  ultimately have "map_of ?d j = Some w"
    by (rule map_of_suffix [OF evict_suffix])
  then show ?thesis by (auto simp: map_add_def delete_conv' split: if_splits option.splits)
qed

interpretation cache: forgetful_store "\<lambda>c. map_of (bc_data c)" cache_step cache_write cache_ok
proof unfold_locales
  fix c :: "('k, 'v) bounded_cache" and e :: "('k, 'v) cache_op" and k w
  assume "cache_ok c"
  then show "cache_ok (cache_step c e)" by (rule cache_step_ok)
  assume "map_of (bc_data (cache_step c e)) k = Some w"
  with \<open>cache_ok c\<close> show "case cache_write e of
      Some (j, v) \<Rightarrow> if j = k then w = v else map_of (bc_data c) k = Some w
    | None \<Rightarrow> map_of (bc_data c) k = Some w"
    by (cases e) (auto simp: cache_clear_def dest: cache_get_look cache_put_look split: if_splits)
qed

text \<open>What was just put is found, as long as it has not expired.\<close>

lemma cache_get_put:
  assumes "cache_ok c" and "bc_ttl c \<le> 0 \<or> later - now \<le> bc_ttl c"
  shows "fst (cache_get (cache_put c k v now) k later) = Some v"
proof -
  obtain ys where ys: "bc_data (cache_put c k v now) = ys @ [(k, (v, now))]"
    using assms(1) evict_last by (force simp: cache_put_def cache_ok_def)
  have "distinct (map fst (bc_data (cache_put c k v now)))"
    using cache_put_ok [OF assms(1)] by (simp add: cache_ok_def)
  then have "map_of ys k = None" by (simp add: ys map_of_eq_None_iff)
  then have "map_of (bc_data (cache_put c k v now)) k = Some (v, now)"
    by (simp add: ys map_add_def)
  moreover have "\<not> expired (cache_put c k v now) later now"
    using assms(2) by (simp add: expired_def cache_put_def) linarith
  ultimately show ?thesis by (simp add: cache_get_def)
qed

lemma cache_ttl_kept: "bc_ttl (cache_step c e) = bc_ttl c \<and> bc_max (cache_step c e) = bc_max c"
  by (cases e) (auto simp: cache_get_def cache_put_def cache_clear_def split: option.split)

lemma cache_run_kept:
  "bc_ttl (foldl cache_step c es) = bc_ttl c \<and> bc_max (foldl cache_step c es) = bc_max c"
  by (induction es arbitrary: c) (auto simp: cache_ttl_kept)

definition writes :: "('k, 'v) cache_op list \<Rightarrow> ('k \<times> 'v \<times> int) list" where
  "writes es = List.map_filter cache_write es"

text \<open>C30: A new cache never grows past its capacity, and over any run of gets, puts and clears a hit
  returns the value last put under the key, put no longer than the expiry time ago.
\<close>

theorem cache_hit_is_fresh_last_write:
  assumes "new_cache n ttl = Inr c"
  shows "int (length (bc_data (foldl cache_step c es))) \<le> n \<and>
    (fst (cache_get (foldl cache_step c es) k now) = Some v \<longrightarrow>
      (\<exists>t. map_of (rev (writes es)) k = Some (v, t) \<and> (0 < ttl \<longrightarrow> now - t \<le> ttl)))"
proof
  let ?c = "foldl cache_step c es"
  have new: "cache_ok c" "bc_max c = n" "bc_ttl c = ttl" "bc_data c = []"
    using assms by (auto simp: new_cache_def cache_ok_def split: if_splits)
  have "cache_ok ?c" by (rule cache.run_inv [OF new(1)])
  then show "int (length (bc_data ?c)) \<le> n"
    using cache_run_kept [of c es] by (simp add: cache_ok_def new)
  show "fst (cache_get ?c k now) = Some v \<longrightarrow>
      (\<exists>t. map_of (rev (writes es)) k = Some (v, t) \<and> (0 < ttl \<longrightarrow> now - t \<le> ttl))"
  proof
    assume "fst (cache_get ?c k now) = Some v"
    then obtain t where t: "map_of (bc_data ?c) k = Some (v, t)" "\<not> expired ?c now t"
      by (auto simp: cache_get_def split: option.splits if_splits)
    from cache.run_look [OF new(1) t(1)] have "map_of (rev (writes es)) k = Some (v, t)"
      by (simp add: new cache.last_write_def writes_def)
    with t(2) show "\<exists>t. map_of (rev (writes es)) k = Some (v, t) \<and> (0 < ttl \<longrightarrow> now - t \<le> ttl)"
      using cache_run_kept [of c es] by (auto simp: expired_def new)
  qed
qed


section \<open>Candles\<close>

definition candle_error :: "ohlcv_bar \<Rightarrow> int \<Rightarrow> market_failure option" where
  "candle_error b now =
     (let bad = (\<lambda>m. Some (Exchange MarketDataErr m))
      in if bar_ts b < 0 then bad ''invalid timestamp''
         else if is_future (bar_ts b) now future_tolerance then bad ''future timestamp''
         else if bar_open b \<le> 0 then bad ''open must be > 0''
         else if bar_high b \<le> 0 then bad ''high must be > 0''
         else if bar_low b \<le> 0 then bad ''low must be > 0''
         else if bar_close b \<le> 0 then bad ''close must be > 0''
         else if bar_volume b < 0 then bad ''volume must be >= 0''
         else if bar_high b < bar_low b then bad ''high < low''
         else if bar_high b < max (bar_open b) (bar_close b) then bad ''high < max(open, close)''
         else if bar_low b > min (bar_open b) (bar_close b) then bad ''low > min(open, close)''
         else None)"

text \<open>\<open>validate_ohlcv_bar\<close> returns or raises; the messages carry no values here.\<close>

definition validate_ohlcv_bar :: "ohlcv_bar \<Rightarrow> int \<Rightarrow> market_failure + unit" where
  "validate_ohlcv_bar b now = (case candle_error b now of Some e \<Rightarrow> Inl e | None \<Rightarrow> Inr ())"

definition add_bar :: "(int, ohlcv_bar) dict \<Rightarrow> ohlcv_bar \<Rightarrow> (int, ohlcv_bar) dict" where
  "add_bar d b = AList.update (bar_ts b) b d"

definition bars_in_order :: "(int, ohlcv_bar) dict \<Rightarrow> ohlcv_bar list" where
  "bars_in_order d = sort_key bar_ts (map snd d)"

fun collect_bars ::
  "int \<Rightarrow> (int, ohlcv_bar) dict \<times> int \<Rightarrow> ohlcv_bar list \<Rightarrow> (int, ohlcv_bar) dict \<times> int" where
  "collect_bars now (d, invalid) [] = (d, invalid)"
| "collect_bars now (d, invalid) (b # bs) =
     (case validate_ohlcv_bar b now of
        Inl e \<Rightarrow> collect_bars now (d, invalid + 1) bs
      | Inr u \<Rightarrow> collect_bars now (add_bar d b, invalid) bs)"

definition validate_ohlcv_series :: "ohlcv_bar list \<Rightarrow> int \<Rightarrow> ohlcv_bar list \<times> int" where
  "validate_ohlcv_series bars now =
     (let (d, invalid) = collect_bars now ([], 0) bars in (bars_in_order d, invalid))"

text \<open>A dictionary of candles under their own time stamps.\<close>

definition bar_dict :: "(int, ohlcv_bar) dict \<Rightarrow> bool" where
  "bar_dict d \<longleftrightarrow> distinct (map fst d) \<and> (\<forall>(t, b) \<in> set d. bar_ts b = t)"

definition series :: "ohlcv_bar list \<Rightarrow> bool" where
  "series bars \<longleftrightarrow> sorted_wrt (<) (map bar_ts bars)"

lemma bar_dict_Nil [simp]: "bar_dict []"
  by (simp add: bar_dict_def)

lemma bar_dict_iff:
  "bar_dict d \<longleftrightarrow> distinct (map fst d) \<and> (\<forall>t b. map_of d t = Some b \<longrightarrow> bar_ts b = t)"
  by (auto simp: bar_dict_def)

lemma bar_dict_add: "bar_dict d \<Longrightarrow> bar_dict (add_bar d b)"
  by (simp add: bar_dict_iff add_bar_def distinct_update)

lemma bar_dict_keys: "bar_dict d \<Longrightarrow> map bar_ts (map snd d) = map fst d"
  by (auto simp: bar_dict_def)

lemma series_of_dict: "bar_dict d \<Longrightarrow> series (bars_in_order d)"
proof -
  assume "bar_dict d"
  then have "distinct (map bar_ts (map snd d))"
    by (simp only: bar_dict_keys) (simp add: bar_dict_def)
  then have "distinct (map bar_ts (bars_in_order d))"
    by (simp only: bars_in_order_def distinct_map distinct_sort set_sort)
  then show ?thesis by (simp add: series_def strict_sorted_iff bars_in_order_def)
qed

lemma dict_set: "bar_dict d \<Longrightarrow> b \<in> set (bars_in_order d) \<longleftrightarrow> map_of d (bar_ts b) = Some b"
  by (force simp: bars_in_order_def bar_dict_def dest: map_of_SomeD)

lemma collected_dict: "bar_dict d \<Longrightarrow> bar_dict (fst (collect_bars now (d, n) bs))"
  by (induction now "(d, n)" bs arbitrary: d n rule: collect_bars.induct)
    (auto simp: bar_dict_add split: sum.split)

lemma foldl_add_dict: "bar_dict d \<Longrightarrow> bar_dict (foldl add_bar d bs)"
  by (induction bs arbitrary: d) (auto simp: bar_dict_add)

lemma foldl_add_look:
  "map_of (foldl add_bar d bs) t =
    (case List.find (\<lambda>b. bar_ts b = t) (rev bs) of Some b \<Rightarrow> Some b | None \<Rightarrow> map_of d t)"
  by (induction bs arbitrary: d rule: rev_induct) (auto simp: add_bar_def)

section \<open>Gaps\<close>

function missing_until :: "int \<Rightarrow> int \<Rightarrow> int \<Rightarrow> int list" where
  "missing_until t hi step =
     (if t < hi \<and> 0 < step then t # missing_until (t + step) hi step else [])"
  by auto
termination by (relation "measure (\<lambda>(t, hi, step). nat (hi - t))") auto

declare missing_until.simps [simp del]

fun gap_scan :: "int \<Rightarrow> int option \<Rightarrow> ohlcv_bar list \<Rightarrow> int list \<times> int" where
  "gap_scan step prev [] = ([], 0)"
| "gap_scan step prev (b # bs) =
     (let (missing, dups) = gap_scan step (Some (bar_ts b)) bs
      in case prev of
           None \<Rightarrow> (missing, dups)
         | Some p \<Rightarrow>
             if bar_ts b = p then (missing, dups + 1)
             else if p + step < bar_ts b
             then (missing_until (p + step) (bar_ts b) step @ missing, dups)
             else (missing, dups))"

definition gap_report :: "int list \<Rightarrow> int \<Rightarrow> data_quality_report" where
  "gap_report missing dups =
     (let reasons_q =
        (if missing \<noteq> [] then ([show_nat (length missing) @ '' gap(s) detected''], GAP_DETECTED)
         else if dups \<noteq> 0 then ([show_int dups @ '' duplicate timestamp(s) collapsed''], PARTIAL)
         else ([], COMPLETE))
      in \<lparr>quality = snd reasons_q, q_reasons = fst reasons_q, missing_timestamps_ms = missing,
          duplicate_count = dups, invalid_count = 0\<rparr>)"

definition detect_gaps ::
  "ohlcv_bar list \<Rightarrow> string \<Rightarrow> market_failure + int list \<times> data_quality_report" where
  "detect_gaps bars timeframe =
     (if bars = [] then
        Inr ([], \<lparr>quality = UNKNOWN_Q, q_reasons = [''empty series''], missing_timestamps_ms = [],
                 duplicate_count = 0, invalid_count = 0\<rparr>)
      else case timeframe_to_ms timeframe of
        Inl e \<Rightarrow> Inl e
      | Inr step \<Rightarrow>
          let (missing, dups) = gap_scan step None bars in Inr (missing, gap_report missing dups))"

lemma steps_split:
  fixes t u step :: int
  shows "(\<exists>k \<ge> 0. u = t + k * step) \<longleftrightarrow> u = t \<or> (\<exists>k \<ge> 0. u = (t + step) + k * step)"
proof
  assume "\<exists>k \<ge> 0. u = t + k * step"
  then obtain k where k: "0 \<le> k" "u = t + k * step" by auto
  show "u = t \<or> (\<exists>k \<ge> 0. u = (t + step) + k * step)"
  proof (cases "k = 0")
    case False
    with k have "0 \<le> k - 1" "u = (t + step) + (k - 1) * step" by (auto simp: algebra_simps)
    then show ?thesis by blast
  qed (use k in simp)
next
  assume "u = t \<or> (\<exists>k \<ge> 0. u = (t + step) + k * step)"
  then show "\<exists>k \<ge> 0. u = t + k * step"
  proof
    assume "\<exists>k \<ge> 0. u = (t + step) + k * step"
    then obtain k where "0 \<le> k" "u = t + (k + 1) * step" by (auto simp: algebra_simps)
    then show ?thesis by (metis add_nonneg_nonneg zero_le_one)
  qed (auto intro: exI [of _ 0])
qed

lemma missing_until_mem:
  "0 < step \<Longrightarrow> u \<in> set (missing_until t hi step) \<longleftrightarrow> u < hi \<and> (\<exists>k \<ge> 0. u = t + k * step)"
proof (induction t hi step rule: missing_until.induct)
  case (1 t hi step)
  have above: "t \<le> u" if "\<exists>k \<ge> 0. u = t + k * step"
    using that 1(2) by auto
  show ?case
  proof (cases "t < hi")
    case False
    then have "missing_until t hi step = []" by (subst missing_until.simps) simp
    moreover have "\<not> (u < hi \<and> (\<exists>k \<ge> 0. u = t + k * step))" using above False by force
    ultimately show ?thesis by (metis empty_iff empty_set)
  next
    case True
    then have "set (missing_until t hi step) = insert t (set (missing_until (t + step) hi step))"
      using 1(2) by (subst missing_until.simps) simp
    then show ?thesis
      unfolding steps_split [of u t step] using True 1 by auto
  qed
qed

text \<open>
  In a series with increasing time stamps: \<open>u\<close> is reported missing exactly when it lies strictly
  between two neighbours, a whole number of steps after the earlier one.
\<close>

fun gap_between :: "int \<Rightarrow> int \<Rightarrow> ohlcv_bar list \<Rightarrow> bool" where
  "gap_between step u (a # b # bs) =
     (bar_ts a < u \<and> u < bar_ts b \<and> (u - bar_ts a) mod step = 0 \<or> gap_between step u (b # bs))"
| "gap_between step u _ = False"

lemma steps_mod:
  fixes p u step :: int
  assumes "0 < step"
  shows "(\<exists>k \<ge> 0. u = (p + step) + k * step) \<longleftrightarrow> p < u \<and> (u - p) mod step = 0"
proof
  assume "\<exists>k \<ge> 0. u = (p + step) + k * step"
  then obtain k where k: "0 \<le> k" "u - p = (k + 1) * step" by (auto simp: algebra_simps)
  then have "0 < u - p" using assms by simp
  with k show "p < u \<and> (u - p) mod step = 0" by simp
next
  assume u: "p < u \<and> (u - p) mod step = 0"
  then obtain k where k: "u - p = step * k" by auto
  have "0 < step * k" using u k by linarith
  then have "0 < k" using assms by (simp add: zero_less_mult_iff)
  moreover have "u = (p + step) + (k - 1) * step" using k by (simp add: algebra_simps)
  ultimately show "\<exists>k \<ge> 0. u = (p + step) + k * step"
    by (intro exI [of _ "k - 1"]) simp
qed

lemma gap_scan_spec:
  assumes "0 < step"
  shows "series (a # bs) \<Longrightarrow>
    (\<forall>u. u \<in> set (fst (gap_scan step (Some (bar_ts a)) bs)) \<longleftrightarrow> gap_between step u (a # bs)) \<and>
    snd (gap_scan step (Some (bar_ts a)) bs) = 0"
proof (induction bs arbitrary: a)
  case Nil
  then show ?case by simp
next
  case (Cons b bs)
  obtain m n where mn: "gap_scan step (Some (bar_ts b)) bs = (m, n)" by force
  have "series (b # bs)" "bar_ts a < bar_ts b" using Cons.prems by (auto simp: series_def)
  with Cons.IH [of b] mn have ih: "\<forall>u. u \<in> set m \<longleftrightarrow> gap_between step u (b # bs)" "n = 0"
    by auto
  have inside: "u \<in> set (missing_until (bar_ts a + step) (bar_ts b) step) \<longleftrightarrow>
      bar_ts a < u \<and> u < bar_ts b \<and> (u - bar_ts a) mod step = 0" for u
    by (subst missing_until_mem [OF assms], subst steps_mod [OF assms]) auto
  have gb: "gap_between step u (a # b # bs) \<longleftrightarrow>
      u \<in> set (missing_until (bar_ts a + step) (bar_ts b) step) \<or> u \<in> set m" for u
    unfolding gap_between.simps(1) inside using ih(1) by blast
  have scan: "gap_scan step (Some (bar_ts a)) (b # bs) =
      (if bar_ts a + step < bar_ts b then missing_until (bar_ts a + step) (bar_ts b) step @ m else m, 0)"
    using mn ih(2) \<open>bar_ts a < bar_ts b\<close> by simp
  show ?case
  proof (cases "bar_ts a + step < bar_ts b")
    case True
    then show ?thesis by (simp add: scan gb del: gap_scan.simps gap_between.simps)
  next
    case False
    then have "missing_until (bar_ts a + step) (bar_ts b) step = []"
      by (subst missing_until.simps) simp
    with False show ?thesis by (simp add: scan gb del: gap_scan.simps gap_between.simps)
  qed
qed

lemma gap_scan_first: "gap_scan step None (b # bs) = gap_scan step (Some (bar_ts b)) bs"
  by (simp split: prod.split)

text \<open>C29: On a series of candles with increasing time stamps, gap detection reports exactly the times a
  whole number of bar intervals after a candle and before the next one, and the quality is COMPLETE
  exactly when there are none.
\<close>

theorem gaps_are_exactly_the_missing_times:
  assumes "series bars" and "bars \<noteq> []" and "detect_gaps bars tf = Inr (missing, report)"
  shows "\<exists>step. timeframe_to_ms tf = Inr step \<and>
    (\<forall>u. (u \<in> set missing) = gap_between step u bars) \<and>
    missing_timestamps_ms report = missing \<and>
    quality report = (if missing = [] then COMPLETE else GAP_DETECTED)"
proof -
  obtain a bs where bars: "bars = a # bs" using assms(2) by (cases bars) auto
  obtain step where step: "timeframe_to_ms tf = Inr step" "0 < step"
    using assms(2,3) timeframe_positive [of tf] by (auto simp: detect_gaps_def split: sum.splits)
  obtain m n where mn: "gap_scan step (Some (bar_ts a)) bs = (m, n)" by force
  have spec: "\<forall>u. u \<in> set m \<longleftrightarrow> gap_between step u bars" "n = 0"
    using gap_scan_spec [OF step(2), of a bs] assms(1) mn by (auto simp: bars)
  have "detect_gaps bars tf = Inr (m, gap_report m n)"
    using mn by (simp add: detect_gaps_def bars step gap_scan_first del: gap_scan.simps)
  with assms(3) have "missing = m" "report = gap_report m n" by auto
  with spec step(1) show ?thesis by (simp add: gap_report_def)
qed


section \<open>The market data cache\<close>

record market_cache =
  mc_tickers :: "(string \<times> string, ticker) bounded_cache"
  mc_books :: "(string \<times> string, order_book) bounded_cache"
  mc_ohlcv :: "(string \<times> string \<times> string, ohlcv_bar list) bounded_cache"
  mc_max_candles :: int

definition new_market_cache :: "int \<Rightarrow> int \<Rightarrow> int \<Rightarrow> int \<Rightarrow> int \<Rightarrow> market_failure + market_cache" where
  "new_market_cache max_ticker max_orderbook max_ohlcv_keys max_candles ttl =
     (case new_cache max_ticker ttl of
        Inl e \<Rightarrow> Inl e
      | Inr tickers \<Rightarrow>
     (case new_cache max_orderbook ttl of
        Inl e \<Rightarrow> Inl e
      | Inr books \<Rightarrow>
     (case new_cache max_ohlcv_keys ttl of
        Inl e \<Rightarrow> Inl e
      | Inr candles \<Rightarrow>
          Inr \<lparr>mc_tickers = tickers, mc_books = books, mc_ohlcv = candles,
               mc_max_candles = max_candles\<rparr>)))"

definition mc_get_ticker ::
  "market_cache \<Rightarrow> string \<Rightarrow> string \<Rightarrow> int \<Rightarrow> ticker option \<times> market_cache" where
  "mc_get_ticker c ex pair now =
     (let (r, d) = cache_get (mc_tickers c) (ex, pair) now in (r, c\<lparr>mc_tickers := d\<rparr>))"

definition mc_put_ticker :: "market_cache \<Rightarrow> string \<Rightarrow> string \<Rightarrow> ticker \<Rightarrow> int \<Rightarrow> market_cache" where
  "mc_put_ticker c ex pair t now = c\<lparr>mc_tickers := cache_put (mc_tickers c) (ex, pair) t now\<rparr>"

definition mc_get_book ::
  "market_cache \<Rightarrow> string \<Rightarrow> string \<Rightarrow> int \<Rightarrow> order_book option \<times> market_cache" where
  "mc_get_book c ex pair now =
     (let (r, d) = cache_get (mc_books c) (ex, pair) now in (r, c\<lparr>mc_books := d\<rparr>))"

definition mc_put_book :: "market_cache \<Rightarrow> string \<Rightarrow> string \<Rightarrow> order_book \<Rightarrow> int \<Rightarrow> market_cache" where
  "mc_put_book c ex pair b now = c\<lparr>mc_books := cache_put (mc_books c) (ex, pair) b now\<rparr>"

definition mc_get_ohlcv ::
  "market_cache \<Rightarrow> string \<Rightarrow> string \<Rightarrow> string \<Rightarrow> int \<Rightarrow> ohlcv_bar list option \<times> market_cache" where
  "mc_get_ohlcv c ex pair tf now =
     (let (r, d) = cache_get (mc_ohlcv c) (ex, pair, tf) now in (r, c\<lparr>mc_ohlcv := d\<rparr>))"

definition clip :: "int \<Rightarrow> 'a list \<Rightarrow> 'a list" where
  "clip n xs = (if n < int (length xs) then slice_from xs (- n) else xs)"

definition mc_put_ohlcv ::
  "market_cache \<Rightarrow> string \<Rightarrow> string \<Rightarrow> string \<Rightarrow> ohlcv_bar list \<Rightarrow> int \<Rightarrow> market_cache" where
  "mc_put_ohlcv c ex pair tf bars now =
     c\<lparr>mc_ohlcv := cache_put (mc_ohlcv c) (ex, pair, tf) (clip (mc_max_candles c) bars) now\<rparr>"

definition merge_bars :: "int \<Rightarrow> ohlcv_bar list \<Rightarrow> ohlcv_bar list \<Rightarrow> ohlcv_bar list" where
  "merge_bars n existing new_bars =
     clip n (bars_in_order (foldl add_bar (foldl add_bar [] existing) new_bars))"

definition merge_ohlcv ::
  "market_cache \<Rightarrow> string \<Rightarrow> string \<Rightarrow> string \<Rightarrow> ohlcv_bar list \<Rightarrow> int \<Rightarrow>
   ohlcv_bar list \<times> market_cache" where
  "merge_ohlcv c ex pair tf new_bars now =
     (let (found, c1) = mc_get_ohlcv c ex pair tf now;
          existing = (case found of Some bars \<Rightarrow> bars | None \<Rightarrow> []);
          merged = merge_bars (mc_max_candles c1) existing new_bars
      in (merged, mc_put_ohlcv c1 ex pair tf merged now))"

definition mc_clear :: "market_cache \<Rightarrow> market_cache" where
  "mc_clear c = c\<lparr>mc_tickers := cache_clear (mc_tickers c), mc_books := cache_clear (mc_books c),
     mc_ohlcv := cache_clear (mc_ohlcv c)\<rparr>"

lemma clip_suffix: "suffix (clip n xs) xs"
  by (simp add: clip_def slice_from_def suffix_drop)

lemma clip_bound: "1 \<le> n \<Longrightarrow> int (length (clip n xs)) \<le> n"
  by (simp add: clip_def slice_from_last)

lemma clip_nonempty: "1 \<le> n \<Longrightarrow> xs \<noteq> [] \<Longrightarrow> clip n xs \<noteq> []"
  by (auto simp: clip_def slice_from_def)

lemma clip_cases:
  assumes "1 \<le> n"
  obtains P where "xs = P @ clip n xs" "P = [] \<and> int (length xs) \<le> n \<or> int (length (clip n xs)) = n"
proof -
  from clip_suffix [of n xs] obtain P where P: "xs = P @ clip n xs" by (auto simp: suffix_def)
  show ?thesis
  proof (cases "n < int (length xs)")
    case True
    then have "int (length (clip n xs)) = n"
      using assms by (simp add: clip_def slice_from_last)
    with P show ?thesis by (rule that [OF _ disjI2])
  next
    case False
    then have "clip n xs = xs" by (simp add: clip_def)
    with P have "P = []" by simp
    with P False show ?thesis by (intro that) auto
  qed
qed

lemma clip_append: "1 \<le> n \<Longrightarrow> int (length ys) = n \<Longrightarrow> clip n (xs @ ys) = ys"
  by (auto simp: clip_def slice_from_def)

lemma clip_idem: "1 \<le> n \<Longrightarrow> clip n (clip n xs) = clip n xs"
  using clip_bound [of n xs] by (simp add: clip_def [of n "clip n xs"])

lemma series_suffix: "suffix ys xs \<Longrightarrow> series xs \<Longrightarrow> series ys"
  by (auto simp: suffix_def series_def sorted_wrt_append)

text \<open>Merging as one dictionary, and what is in it.\<close>

definition norm_bars :: "ohlcv_bar list \<Rightarrow> ohlcv_bar list" where
  "norm_bars bars = bars_in_order (foldl add_bar [] bars)"

lemma merge_norm: "merge_bars n xs ys = clip n (norm_bars (xs @ ys))"
  by (simp add: merge_bars_def norm_bars_def)

lemma norm_series: "series (norm_bars xs)"
  by (simp add: norm_bars_def series_of_dict foldl_add_dict)

lemma norm_mem:
  "b \<in> set (norm_bars xs) \<longleftrightarrow> List.find (\<lambda>c. bar_ts c = bar_ts b) (rev xs) = Some b"
  by (simp add: norm_bars_def dict_set foldl_add_dict foldl_add_look split: option.split)

lemma find_append:
  "List.find P (xs @ ys) = (case List.find P xs of Some x \<Rightarrow> Some x | None \<Rightarrow> List.find P ys)"
  by (induction xs) auto

lemma find_sound: "List.find P xs = Some x \<Longrightarrow> x \<in> set xs \<and> P x"
  by (induction xs) (auto split: if_splits)

lemma find_series_iff:
  assumes "series xs"
  shows "List.find (\<lambda>c. bar_ts c = bar_ts b) (rev xs) = Some b \<longleftrightarrow> b \<in> set xs"
proof
  assume "b \<in> set xs"
  then obtain c where c: "List.find (\<lambda>c. bar_ts c = bar_ts b) (rev xs) = Some c"
    by (cases "List.find (\<lambda>c. bar_ts c = bar_ts b) (rev xs)") (auto simp: find_None_iff)
  with find_sound [OF this] assms \<open>b \<in> set xs\<close> have "c = b"
    by (auto simp: series_def strict_sorted_iff distinct_map dest: inj_onD)
  with c show "List.find (\<lambda>c. bar_ts c = bar_ts b) (rev xs) = Some b" by simp
qed (auto dest: find_sound)

lemma series_unique: "series xs \<Longrightarrow> series ys \<Longrightarrow> set xs = set ys \<Longrightarrow> xs = ys"
proof -
  assume xs: "series xs" and ys: "series ys" and same: "set xs = set ys"
  then have "inj_on bar_ts (set xs \<union> set ys)"
    by (auto simp: series_def strict_sorted_iff distinct_map)
  with xs ys same show "xs = ys"
    by (intro map_sorted_distinct_set_unique [of bar_ts])
      (auto simp: series_def strict_sorted_iff)
qed

lemma series_filter: "series xs \<Longrightarrow> series (filter P xs)"
  by (simp add: series_def sorted_wrt_map sorted_wrt_filter)

text \<open>Merging the new candles again changes nothing.\<close>

lemma merge_idempotent:
  assumes "1 \<le> n"
  shows "merge_bars n (merge_bars n old new) new = merge_bars n old new"
proof -
  let ?X = "norm_bars (old @ new)"
  obtain P where P: "?X = P @ clip n ?X"
    "P = [] \<and> int (length ?X) \<le> n \<or> int (length (clip n ?X)) = n"
    using clip_cases [OF assms] .
  let ?Q = "clip n ?X"
  let ?keep = "\<lambda>b. b \<in> set ?Q \<or> List.find (\<lambda>c. bar_ts c = bar_ts b) (rev new) \<noteq> None"
  have Q: "series ?Q" by (rule series_suffix [OF clip_suffix norm_series])
  have sub: "set ?Q \<subseteq> set ?X" by (rule set_mono_suffix [OF clip_suffix])
  have "b \<in> set (norm_bars (?Q @ new)) \<longleftrightarrow> b \<in> set (filter ?keep ?X)" for b
  proof (cases "List.find (\<lambda>c. bar_ts c = bar_ts b) (rev new)")
    case None
    then show ?thesis using find_series_iff [OF Q, of b] sub
      by (auto simp: norm_mem [of b "?Q @ new"] find_append)
  next
    case (Some c)
    then show ?thesis by (simp add: norm_mem find_append)
  qed
  then have "norm_bars (?Q @ new) = filter ?keep ?X"
    by (intro series_unique norm_series series_filter) blast
  also have "\<dots> = filter ?keep P @ ?Q"
    by (subst P(1)) (simp add: filter_id_conv)
  finally have again: "norm_bars (?Q @ new) = filter ?keep P @ ?Q" .
  from P(2) show ?thesis
  proof
    assume "P = [] \<and> int (length ?X) \<le> n"
    then show ?thesis using again by (simp add: merge_norm clip_idem [OF assms])
  next
    assume "int (length ?Q) = n"
    then show ?thesis using again by (simp add: merge_norm clip_append [OF assms])
  qed
qed

end
