(* ===== verification/MarketEngine.thy ===== *)
theory MarketEngine
  imports MarketSeries
begin

text \<open>
  The market data engine (\<open>src/src/crypto/market/engine.py\<close> with \<open>config.py\<close>): symbols, tickers,
  candles and order books, read from the adapter through the bounded cache, with a quality report.

  The adapter and the clock are the argument \<open>io\<close> of each call: \<open>mio_now\<close> is the reading at the
  start of the call, \<open>mio_poll\<close> and \<open>mio_polled\<close> the two readings of \<open>_throttle\<close>. An
  operation returns its result or exception with the new engine. A metric that is \<open>None\<close> at first
  is an option.
\<close>

section \<open>Configuration, metrics and state\<close>

record market_config =
  mk_symbols :: "string list"
  mk_timeframes :: "string list"
  mk_ticker_stale_ms :: int
  mk_orderbook_stale_ms :: int
  mk_ohlcv_stale_bars :: int
  mk_max_symbols :: int
  mk_max_candles_per_key :: int
  mk_max_ticker_entries :: int
  mk_max_orderbook_entries :: int
  mk_cache_ttl_ms :: int
  mk_min_poll_interval_ms :: int
  mk_default_ohlcv_limit :: int
  mk_future_tolerance_ms :: int

definition default_market_config :: market_config where
  "default_market_config =
     \<lparr>mk_symbols = [], mk_timeframes = [''1m'', ''5m'', ''15m'', ''1h'', ''4h''],
      mk_ticker_stale_ms = 30000, mk_orderbook_stale_ms = 15000, mk_ohlcv_stale_bars = 3,
      mk_max_symbols = 20, mk_max_candles_per_key = 500, mk_max_ticker_entries = 50,
      mk_max_orderbook_entries = 30, mk_cache_ttl_ms = 300000, mk_min_poll_interval_ms = 1000,
      mk_default_ohlcv_limit = 100, mk_future_tolerance_ms = 60000\<rparr>"

definition validate_market_config :: "market_config \<Rightarrow> market_failure + unit" where
  "validate_market_config c =
     (if mk_max_symbols c < 1 then Inl (BadValue ''max_symbols must be >= 1'')
      else if mk_max_candles_per_key c < 1 then Inl (BadValue ''max_candles_per_key must be >= 1'')
      else if mk_ticker_stale_ms c < 0 \<or> mk_orderbook_stale_ms c < 0
      then Inl (BadValue ''stale thresholds must be >= 0'')
      else if mk_ohlcv_stale_bars c < 1 then Inl (BadValue ''ohlcv_stale_bars must be >= 1'')
      else if [] \<in> set (mk_timeframes c) then Inl (BadValue ''invalid timeframe: '')
      else Inr ())"

record market_metrics =
  mm_last_ticker_update_ms :: "int option"
  mm_last_ohlcv_update_ms :: "int option"
  mm_last_orderbook_update_ms :: "int option"
  mm_ticker_age_ms :: "int option"
  mm_ohlcv_age_ms :: "int option"
  mm_orderbook_age_ms :: "int option"
  mm_missing_candles :: int
  mm_duplicate_count :: int
  mm_invalid_count :: int
  mm_request_failures :: int
  mm_rate_limit_events :: int
  mm_cache_hits :: int
  mm_cache_misses :: int

definition no_metrics :: market_metrics where
  "no_metrics =
     \<lparr>mm_last_ticker_update_ms = None, mm_last_ohlcv_update_ms = None,
      mm_last_orderbook_update_ms = None, mm_ticker_age_ms = None, mm_ohlcv_age_ms = None,
      mm_orderbook_age_ms = None, mm_missing_candles = 0, mm_duplicate_count = 0,
      mm_invalid_count = 0, mm_request_failures = 0, mm_rate_limit_events = 0, mm_cache_hits = 0,
      mm_cache_misses = 0\<rparr>"

record market_engine =
  mke_exchange :: string
  mke_config :: market_config
  mke_cache :: market_cache
  mke_metrics :: market_metrics
  mke_last_poll :: "(string, int) dict"
  mke_symbols :: "(string, normalized_symbol) dict"

record exchange_market =
  xm_symbol :: string
  xm_base :: string
  xm_quote :: string

record market_io =
  mio_now :: int
  mio_poll :: int
  mio_polled :: int
  mio_ticker :: "string \<Rightarrow> market_failure + ticker"
  mio_ohlcv :: "string \<Rightarrow> string \<Rightarrow> int option \<Rightarrow> int \<Rightarrow> market_failure + ohlcv_bar list"
  mio_book :: "string \<Rightarrow> int option \<Rightarrow> market_failure + order_book"
  mio_markets :: "market_failure + exchange_market list"

definition new_market_engine :: "string \<Rightarrow> market_config \<Rightarrow> market_failure + market_engine" where
  "new_market_engine ex cfg =
     (case validate_market_config cfg of
        Inl e \<Rightarrow> Inl e
      | Inr u \<Rightarrow>
     (case new_market_cache (mk_max_ticker_entries cfg) (mk_max_orderbook_entries cfg)
             (max 1 (mk_max_symbols cfg * int (length (mk_timeframes cfg))))
             (mk_max_candles_per_key cfg) (mk_cache_ttl_ms cfg) of
        Inl e \<Rightarrow> Inl e
      | Inr c \<Rightarrow>
          Inr \<lparr>mke_exchange = ex, mke_config = cfg, mke_cache = c, mke_metrics = no_metrics,
               mke_last_poll = [], mke_symbols = []\<rparr>))"

section \<open>Symbols\<close>

definition opt_text :: "string \<Rightarrow> string option" where
  "opt_text s = (if s = [] then None else Some s)"

definition add_market ::
  "string \<Rightarrow> (string, normalized_symbol) dict \<Rightarrow> exchange_market \<Rightarrow> (string, normalized_symbol) dict"
where
  "add_market ex d m =
     (case normalize_symbol ex (xm_symbol m) (opt_text (xm_base m)) (opt_text (xm_quote m)) of
        Inl e \<Rightarrow> d
      | Inr ns \<Rightarrow> AList.update (xm_symbol m) ns d)"

definition load_markets ::
  "market_engine \<Rightarrow> market_io \<Rightarrow> (market_failure + exchange_market list) \<times> market_engine" where
  "load_markets g io =
     (case mio_markets io of
        Inl e \<Rightarrow> (Inl e, g)
      | Inr ms \<Rightarrow> (Inr ms, g\<lparr>mke_symbols := foldl (add_market (mke_exchange g)) [] ms\<rparr>))"

definition resolve_symbol :: "market_engine \<Rightarrow> string \<Rightarrow> market_failure + normalized_symbol" where
  "resolve_symbol g s =
     (case map_of (mke_symbols g) s of
        Some ns \<Rightarrow> Inr ns
      | None \<Rightarrow>
     (case List.find (\<lambda>ns. ns_symbol ns = py_upper s \<or> ns_symbol ns = s) (map snd (mke_symbols g)) of
        Some ns \<Rightarrow> Inr ns
      | None \<Rightarrow> normalize_symbol (mke_exchange g) s None None))"

definition native_of :: "normalized_symbol \<Rightarrow> string" where
  "native_of ns = (if ns_native ns \<noteq> [] then ns_native ns else ns_symbol ns)"

section \<open>Throttling and failures\<close>

text \<open>The pause in milliseconds before a poll, and the poll's time stamp after it.\<close>

definition throttle_pause :: "market_engine \<Rightarrow> string \<Rightarrow> int \<Rightarrow> int" where
  "throttle_pause g key now =
     (case map_of (mke_last_poll g) key of
        None \<Rightarrow> 0
      | Some prev \<Rightarrow>
          let elapsed = now - prev; min_i = mk_min_poll_interval_ms (mke_config g)
          in if elapsed < min_i then min_i - elapsed else 0)"

definition throttle :: "market_engine \<Rightarrow> string \<Rightarrow> market_io \<Rightarrow> market_engine" where
  "throttle g key io = g\<lparr>mke_last_poll := AList.update key (mio_polled io) (mke_last_poll g)\<rparr>"

definition count_failure :: "market_failure \<Rightarrow> market_metrics \<Rightarrow> market_metrics" where
  "count_failure e m =
     (case e of
        Exchange k msg \<Rightarrow>
          (if k = RateLimitErr then m\<lparr>mm_rate_limit_events := mm_rate_limit_events m + 1\<rparr> else m)
            \<lparr>mm_request_failures := mm_request_failures m + 1\<rparr>
      | BadValue msg \<Rightarrow> m)"

definition with_metrics :: "(market_metrics \<Rightarrow> market_metrics) \<Rightarrow> market_engine \<Rightarrow> market_engine" where
  "with_metrics f g = g\<lparr>mke_metrics := f (mke_metrics g)\<rparr>"

definition hit :: "market_metrics \<Rightarrow> market_metrics" where
  "hit m = m\<lparr>mm_cache_hits := mm_cache_hits m + 1\<rparr>"

definition miss :: "market_metrics \<Rightarrow> market_metrics" where
  "miss m = m\<lparr>mm_cache_misses := mm_cache_misses m + 1\<rparr>"

definition count_invalid :: "int \<Rightarrow> market_metrics \<Rightarrow> market_metrics" where
  "count_invalid n m = m\<lparr>mm_invalid_count := mm_invalid_count m + n\<rparr>"

definition plain_report :: "data_quality \<Rightarrow> string list \<Rightarrow> data_quality_report" where
  "plain_report q rs = \<lparr>quality = q, q_reasons = rs, missing_timestamps_ms = [],
     duplicate_count = 0, invalid_count = 0\<rparr>"

section \<open>Tickers\<close>

record ticker_snapshot =
  tsn_ticker :: ticker
  tsn_symbol :: normalized_symbol
  tsn_quality :: data_quality_report
  tsn_fetched_at_ms :: int

definition ticker_quality :: "market_config \<Rightarrow> ticker \<Rightarrow> int \<Rightarrow> data_quality_report" where
  "ticker_quality cfg t now =
     (if (case tk_last t of Some x \<Rightarrow> x \<le> 0 | None \<Rightarrow> False)
      then plain_report INVALID [''non-positive last price'']
      else if (case (tk_bid t, tk_ask t) of (Some b, Some a) \<Rightarrow> a < b | _ \<Rightarrow> False)
      then plain_report INVALID [''crossed bid/ask'']
      else if ts_stale (tk_ts t) (mk_ticker_stale_ms cfg) now
      then plain_report STALE [''stale ticker'']
      else plain_report COMPLETE [])"

definition cached_age :: "int \<Rightarrow> int option \<Rightarrow> int option" where
  "cached_age now ts = (case ts of None \<Rightarrow> None | Some t \<Rightarrow> if t = 0 then None else Some (now - t))"

definition fresh_age :: "int \<Rightarrow> int option \<Rightarrow> int" where
  "fresh_age now ts = (case ts of None \<Rightarrow> 0 | Some t \<Rightarrow> now - t)"

definition fetch_ticker ::
  "market_engine \<Rightarrow> market_io \<Rightarrow> normalized_symbol \<Rightarrow>
   (market_failure + ticker_snapshot) \<times> market_engine" where
  "fetch_ticker g io ns =
     (let g1 = throttle g ''ticker'' io; now = mio_now io
      in case mio_ticker io (native_of ns) of
           Inl e \<Rightarrow> (Inl e, with_metrics (count_failure e) g1)
         | Inr raw \<Rightarrow>
             let q = ticker_quality (mke_config g1) raw now
             in if quality q = INVALID
                then (Inl (Exchange MarketDataErr (''invalid ticker for '' @ ns_symbol ns)),
                      with_metrics (count_invalid 1) g1)
                else
                  (Inr \<lparr>tsn_ticker = raw, tsn_symbol = ns, tsn_quality = q, tsn_fetched_at_ms = now\<rparr>,
                   with_metrics (\<lambda>m. m\<lparr>mm_last_ticker_update_ms := Some now,
                                       mm_ticker_age_ms := Some (fresh_age now (tk_ts raw))\<rparr>)
                     (g1\<lparr>mke_cache := mc_put_ticker (mke_cache g1) (mke_exchange g1) (ns_symbol ns) raw now\<rparr>)))"

definition get_ticker ::
  "market_engine \<Rightarrow> market_io \<Rightarrow> string \<Rightarrow> bool \<Rightarrow> bool \<Rightarrow>
   (market_failure + ticker_snapshot) \<times> market_engine" where
  "get_ticker g io symbol use_cache force_refresh =
     (case resolve_symbol g symbol of
        Inl e \<Rightarrow> (Inl e, g)
      | Inr ns \<Rightarrow>
          if use_cache \<and> \<not> force_refresh then
            let now = mio_now io;
                (found, c) = mc_get_ticker (mke_cache g) (mke_exchange g) (ns_symbol ns) now;
                g1 = g\<lparr>mke_cache := c\<rparr>
            in case found of
                 Some t \<Rightarrow>
                   (Inr \<lparr>tsn_ticker = t, tsn_symbol = ns,
                         tsn_quality = ticker_quality (mke_config g1) t now, tsn_fetched_at_ms = now\<rparr>,
                    with_metrics (\<lambda>m. (hit m)\<lparr>mm_ticker_age_ms := cached_age now (tk_ts t)\<rparr>) g1)
               | None \<Rightarrow> fetch_ticker (with_metrics miss g1) io ns
          else fetch_ticker g io ns)"

section \<open>Candles\<close>

record ohlcv_snapshot =
  osn_bars :: "ohlcv_bar list"
  osn_symbol :: normalized_symbol
  osn_timeframe :: string
  osn_quality :: data_quality_report
  osn_fetched_at_ms :: int

definition ohlcv_freshness ::
  "market_config \<Rightarrow> ohlcv_bar list \<Rightarrow> string \<Rightarrow> data_quality_report \<Rightarrow> int \<Rightarrow>
   market_failure + data_quality_report" where
  "ohlcv_freshness cfg bars tf report now =
     (if bars = [] then Inr (plain_report UNKNOWN_Q [''empty''])
      else case timeframe_to_ms tf of
        Inl e \<Rightarrow> Inl e
      | Inr interval \<Rightarrow>
          if ts_stale (Some (bar_ts (List.last bars))) (interval * mk_ohlcv_stale_bars cfg) now
          then Inr \<lparr>quality = STALE, q_reasons = ''last bar stale'' # q_reasons report,
                    missing_timestamps_ms = missing_timestamps_ms report,
                    duplicate_count = duplicate_count report, invalid_count = 0\<rparr>
          else Inr report)"

definition ohlcv_snap ::
  "ohlcv_bar list \<Rightarrow> normalized_symbol \<Rightarrow> string \<Rightarrow> data_quality_report \<Rightarrow> int \<Rightarrow> ohlcv_snapshot" where
  "ohlcv_snap bars ns tf q now = \<lparr>osn_bars = bars, osn_symbol = ns, osn_timeframe = tf,
     osn_quality = q, osn_fetched_at_ms = now\<rparr>"

definition last_bar_age :: "int \<Rightarrow> ohlcv_bar list \<Rightarrow> int option" where
  "last_bar_age now bars = (if bars = [] then None else Some (now - bar_ts (List.last bars)))"

text \<open>The answer from the cache: the gaps are looked for in the cached series.\<close>

definition cached_ohlcv ::
  "market_engine \<Rightarrow> normalized_symbol \<Rightarrow> string \<Rightarrow> ohlcv_bar list \<Rightarrow> int \<Rightarrow>
   (market_failure + ohlcv_snapshot) \<times> market_engine" where
  "cached_ohlcv g ns tf bars now =
     (let g1 = with_metrics hit g
      in case detect_gaps bars tf of
           Inl e \<Rightarrow> (Inl e, g1)
         | Inr (missing, report) \<Rightarrow>
             (case ohlcv_freshness (mke_config g1) bars tf report now of
                Inl e \<Rightarrow> (Inl e, g1)
              | Inr q \<Rightarrow>
                  (Inr (ohlcv_snap bars ns tf q now),
                   with_metrics (\<lambda>m. m\<lparr>mm_missing_candles := int (length missing),
                                       mm_ohlcv_age_ms := last_bar_age now bars\<rparr>) g1)))"

text \<open>The answer from the exchange: the gaps are looked for in the new candles, before the merge.\<close>

definition fetch_ohlcv ::
  "market_engine \<Rightarrow> market_io \<Rightarrow> normalized_symbol \<Rightarrow> string \<Rightarrow> int option \<Rightarrow> int \<Rightarrow>
   (market_failure + ohlcv_snapshot) \<times> market_engine" where
  "fetch_ohlcv g io ns tf since amount =
     (let g1 = throttle g (''ohlcv:'' @ tf) io; now = mio_now io
      in case mio_ohlcv io (native_of ns) tf since amount of
           Inl e \<Rightarrow> (Inl e, with_metrics (count_failure e) g1)
         | Inr raw \<Rightarrow>
             let (valid, invalid) = validate_ohlcv_series raw now;
                 g2 = with_metrics (count_invalid invalid) g1
             in if valid = [] then
                  (Inl (Exchange MarketDataErr (''no valid OHLCV bars for '' @ ns_symbol ns)),
                   with_metrics (\<lambda>m. m\<lparr>mm_request_failures := mm_request_failures m + 1\<rparr>) g2)
                else case detect_gaps valid tf of
                  Inl e \<Rightarrow> (Inl e, g2)
                | Inr (missing, report) \<Rightarrow>
                    let g3 = with_metrics (\<lambda>m. m\<lparr>mm_missing_candles := int (length missing),
                               mm_duplicate_count := mm_duplicate_count m + duplicate_count report\<rparr>) g2;
                        (merged, c) = merge_ohlcv (mke_cache g3) (mke_exchange g3) (ns_symbol ns) tf valid now;
                        g4 = g3\<lparr>mke_cache := c\<rparr>
                    in case ohlcv_freshness (mke_config g4) merged tf report now of
                         Inl e \<Rightarrow> (Inl e, g4)
                       | Inr q \<Rightarrow>
                           (Inr (ohlcv_snap merged ns tf q now),
                            with_metrics (\<lambda>m. m\<lparr>mm_last_ohlcv_update_ms := Some now,
                                               mm_ohlcv_age_ms := last_bar_age now merged\<rparr>) g4))"

definition get_ohlcv ::
  "market_engine \<Rightarrow> market_io \<Rightarrow> string \<Rightarrow> string \<Rightarrow> int option \<Rightarrow> int option \<Rightarrow> bool \<Rightarrow> bool \<Rightarrow>
   (market_failure + ohlcv_snapshot) \<times> market_engine" where
  "get_ohlcv g io symbol tf limit since use_cache force_refresh =
     (case resolve_symbol g symbol of
        Inl e \<Rightarrow> (Inl e, g)
      | Inr ns \<Rightarrow>
          let amount = opt_get limit (mk_default_ohlcv_limit (mke_config g)); now = mio_now io
          in if use_cache \<and> \<not> force_refresh \<and> since = None then
               let (found, c) = mc_get_ohlcv (mke_cache g) (mke_exchange g) (ns_symbol ns) tf now;
                   g1 = g\<lparr>mke_cache := c\<rparr>
               in case found of
                    Some (b # bs) \<Rightarrow> cached_ohlcv g1 ns tf (b # bs) now
                  | _ \<Rightarrow> fetch_ohlcv (with_metrics miss g1) io ns tf since amount
             else fetch_ohlcv g io ns tf since amount)"

section \<open>Order books\<close>

record book_snapshot =
  bsn_book :: order_book
  bsn_symbol :: normalized_symbol
  bsn_quality :: data_quality_report
  bsn_fetched_at_ms :: int

definition orderbook_quality :: "market_config \<Rightarrow> order_book \<Rightarrow> int \<Rightarrow> data_quality_report" where
  "orderbook_quality cfg b now =
     (if ob_bids b = [] \<and> ob_asks b = [] then plain_report PARTIAL [''empty order book'']
      else if (case (ob_bids b, ob_asks b) of
                 (x # xs, y # ys) \<Rightarrow> lv_price y \<le> lv_price x | _ \<Rightarrow> False)
      then plain_report INVALID [''crossed book'']
      else if ts_stale (ob_ts b) (mk_orderbook_stale_ms cfg) now
      then plain_report STALE [''stale order book'']
      else plain_report COMPLETE [])"

definition fetch_order_book ::
  "market_engine \<Rightarrow> market_io \<Rightarrow> normalized_symbol \<Rightarrow> int option \<Rightarrow>
   (market_failure + book_snapshot) \<times> market_engine" where
  "fetch_order_book g io ns limit =
     (let g1 = throttle g ''orderbook'' io; now = mio_now io
      in case mio_book io (native_of ns) limit of
           Inl e \<Rightarrow> (Inl e, with_metrics (count_failure e) g1)
         | Inr b \<Rightarrow>
             let q = orderbook_quality (mke_config g1) b now
             in if quality q = INVALID
                then (Inl (Exchange MarketDataErr (''invalid order book for '' @ ns_symbol ns)),
                      with_metrics (count_invalid 1) g1)
                else
                  (Inr \<lparr>bsn_book = b, bsn_symbol = ns, bsn_quality = q, bsn_fetched_at_ms = now\<rparr>,
                   with_metrics (\<lambda>m. m\<lparr>mm_last_orderbook_update_ms := Some now,
                                       mm_orderbook_age_ms := Some (fresh_age now (ob_ts b))\<rparr>)
                     (g1\<lparr>mke_cache := mc_put_book (mke_cache g1) (mke_exchange g1) (ns_symbol ns) b now\<rparr>)))"

definition get_order_book ::
  "market_engine \<Rightarrow> market_io \<Rightarrow> string \<Rightarrow> int option \<Rightarrow> bool \<Rightarrow> bool \<Rightarrow>
   (market_failure + book_snapshot) \<times> market_engine" where
  "get_order_book g io symbol limit use_cache force_refresh =
     (case resolve_symbol g symbol of
        Inl e \<Rightarrow> (Inl e, g)
      | Inr ns \<Rightarrow>
          if use_cache \<and> \<not> force_refresh then
            let now = mio_now io;
                (found, c) = mc_get_book (mke_cache g) (mke_exchange g) (ns_symbol ns) now;
                g1 = g\<lparr>mke_cache := c\<rparr>
            in case found of
                 Some b \<Rightarrow>
                   (Inr \<lparr>bsn_book = b, bsn_symbol = ns,
                         bsn_quality = orderbook_quality (mke_config g1) b now, bsn_fetched_at_ms = now\<rparr>,
                    with_metrics hit g1)
               | None \<Rightarrow> fetch_order_book (with_metrics miss g1) io ns limit
          else fetch_order_book g io ns limit)"

definition clear_market_cache :: "market_engine \<Rightarrow> market_engine" where
  "clear_market_cache g = g\<lparr>mke_cache := mc_clear (mke_cache g)\<rparr>"


section \<open>What the cache holds\<close>

definition good_ticker :: "ticker \<Rightarrow> bool" where
  "good_ticker t \<longleftrightarrow> (\<forall>x. tk_last t = Some x \<longrightarrow> 0 < x) \<and>
     (\<forall>b a. tk_bid t = Some b \<and> tk_ask t = Some a \<longrightarrow> b \<le> a)"

definition good_book :: "order_book \<Rightarrow> bool" where
  "good_book b \<longleftrightarrow> ob_bids b = [] \<or> ob_asks b = [] \<or>
     lv_price (hd (ob_bids b)) < lv_price (hd (ob_asks b))"

definition good_bar :: "ohlcv_bar \<Rightarrow> bool" where
  "good_bar b \<longleftrightarrow> 0 \<le> bar_ts b \<and> 0 < bar_low b \<and> 0 \<le> bar_volume b \<and>
     bar_low b \<le> bar_open b \<and> bar_low b \<le> bar_close b \<and>
     bar_open b \<le> bar_high b \<and> bar_close b \<le> bar_high b"

definition good_bars :: "int \<Rightarrow> ohlcv_bar list \<Rightarrow> bool" where
  "good_bars n bars \<longleftrightarrow> series bars \<and> int (length bars) \<le> n \<and> list_all good_bar bars"

definition holds_only :: "('v \<Rightarrow> bool) \<Rightarrow> ('k, 'v) bounded_cache \<Rightarrow> bool" where
  "holds_only P c \<longleftrightarrow> cache_ok c \<and> (\<forall>(k, v, t) \<in> set (bc_data c). P v)"

definition market_ok :: "market_engine \<Rightarrow> bool" where
  "market_ok g \<longleftrightarrow>
     (let c = mke_cache g; n = mk_max_candles_per_key (mke_config g)
      in 1 \<le> n \<and> mc_max_candles c = n \<and> holds_only good_ticker (mc_tickers c) \<and>
         holds_only good_book (mc_books c) \<and> holds_only (good_bars n) (mc_ohlcv c))"

lemma ticker_invalid_iff: "quality (ticker_quality cfg t now) = INVALID \<longleftrightarrow> \<not> good_ticker t"
  by (cases "tk_last t"; cases "tk_bid t"; cases "tk_ask t")
    (auto simp: ticker_quality_def plain_report_def good_ticker_def)

lemma book_invalid_iff: "quality (orderbook_quality cfg b now) = INVALID \<longleftrightarrow> \<not> good_book b"
  by (cases "ob_bids b"; cases "ob_asks b")
    (auto simp: orderbook_quality_def plain_report_def good_book_def)

lemma valid_bar: "validate_ohlcv_bar b now = Inr u \<Longrightarrow> good_bar b"
  by (auto simp: validate_ohlcv_bar_def candle_error_def good_bar_def Let_def split: if_splits)

lemma delete_subset: "set (AList.delete k d) \<subseteq> set d"
  by (induction d) auto

lemma move_to_end_set: "set (move_to_end k d) \<subseteq> set d"
  by (auto simp: move_to_end_def dest: map_of_SomeD set_mp [OF delete_subset] split: option.splits)

lemma get_holds:
  assumes "holds_only P c"
  shows "holds_only P (snd (cache_get c k now))" "fst (cache_get c k now) = Some v \<Longrightarrow> P v"
proof -
  have "set (bc_data (snd (cache_get c k now))) \<subseteq> set (bc_data c)"
    using move_to_end_set [of k "bc_data c"] delete_subset [of k "bc_data c"]
    by (auto simp: cache_get_def split: option.split)
  then show "holds_only P (snd (cache_get c k now))"
    using assms cache_get_ok [of c k now] by (auto simp: holds_only_def)
  show "P v" if "fst (cache_get c k now) = Some v"
    using that assms
    by (auto simp: cache_get_def holds_only_def split: option.splits if_splits dest!: map_of_SomeD)
qed

lemma put_holds:
  assumes "holds_only P c" and "P v"
  shows "holds_only P (cache_put c k v now)"
proof -
  have "set (bc_data (cache_put c k v now)) \<subseteq> insert (k, (v, now)) (set (bc_data c))"
    using set_mono_suffix [OF evict_suffix, of "bc_max c" "AList.delete k (bc_data c) @ [(k, (v, now))]"]
      delete_subset [of k "bc_data c"] by (auto simp: cache_put_def)
  with assms cache_put_ok [of c k v now] show ?thesis by (auto simp: holds_only_def)
qed

lemma clear_holds: "holds_only P c \<Longrightarrow> holds_only P (cache_clear c)"
  by (simp add: holds_only_def cache_clear_def cache_ok_def)

lemma norm_set: "set (norm_bars xs) \<subseteq> set xs"
  using find_sound by (fastforce simp: norm_mem)

lemma merged_good:
  assumes "1 \<le> n" and "list_all good_bar old" and "list_all good_bar new" and "new \<noteq> []"
  shows "good_bars n (merge_bars n old new) \<and> merge_bars n old new \<noteq> []"
proof -
  let ?X = "norm_bars (old @ new)"
  have "set (clip n ?X) \<subseteq> set old \<union> set new"
    using norm_set [of "old @ new"] set_mono_suffix [OF clip_suffix, of n ?X] by auto
  moreover have "?X \<noteq> []"
  proof -
    let ?b = "List.last new"
    obtain ys where "new = ys @ [?b]" using assms(4) by (metis append_butlast_last_id)
    then have "List.find (\<lambda>c. bar_ts c = bar_ts ?b) (rev (old @ new)) = Some ?b"
      by (metis (mono_tags, lifting) find.simps(2) rev_append rev_singleton_conv append_Cons append_Nil rev.simps(2))
    then have "?b \<in> set ?X" by (simp only: norm_mem)
    then show ?thesis by auto
  qed
  ultimately show ?thesis
    using assms clip_bound [OF assms(1), of ?X] clip_nonempty [OF assms(1)]
      series_suffix [OF clip_suffix norm_series, of n "old @ new"]
    by (auto simp: merge_norm good_bars_def list_all_iff)
qed

lemma collected_good:
  "\<forall>(t, b) \<in> set d. good_bar b \<Longrightarrow> \<forall>(t, b) \<in> set (fst (collect_bars now (d, n) bs)). good_bar b"
proof (induction now "(d, n)" bs arbitrary: d n rule: collect_bars.induct)
  case (2 now d n b bs)
  show ?case
  proof (cases "validate_ohlcv_bar b now")
    case (Inl e)
    then show ?thesis using 2 by simp
  next
    case (Inr u)
    have "\<forall>(t, b) \<in> set (add_bar d b). good_bar b"
      using 2(3) valid_bar [OF Inr] update_keys
      by (induction d) (auto simp: add_bar_def)
    then show ?thesis using 2(2) [OF Inr] Inr by simp
  qed
qed simp

lemma validated_good: "list_all good_bar (fst (validate_ohlcv_series bars now))"
  using collected_good [of "[]" now 0 bars]
  by (force simp: validate_ohlcv_series_def bars_in_order_def list_all_iff split: prod.split)


lemma with_metrics_ok [simp]: "market_ok (with_metrics f g) = market_ok g"
  by (simp add: market_ok_def with_metrics_def)

lemma throttle_ok [simp]: "market_ok (throttle g key io) = market_ok g"
  by (simp add: market_ok_def throttle_def)

lemma frame_cache [simp]:
  "mke_cache (with_metrics f g) = mke_cache g" "mke_cache (throttle g key io) = mke_cache g"
  "mke_config (with_metrics f g) = mke_config g" "mke_config (throttle g key io) = mke_config g"
  by (simp_all add: with_metrics_def throttle_def)

lemma ticker_got:
  assumes "market_ok g" and "mc_get_ticker (mke_cache g) ex pair now = (found, c)"
  shows "market_ok (g\<lparr>mke_cache := c\<rparr>)" "found = Some t \<Longrightarrow> good_ticker t"
  using assms get_holds [of good_ticker "mc_tickers (mke_cache g)" "(ex, pair)" now]
  by (auto simp: market_ok_def mc_get_ticker_def Let_def split: prod.splits)

lemma book_got:
  assumes "market_ok g" and "mc_get_book (mke_cache g) ex pair now = (found, c)"
  shows "market_ok (g\<lparr>mke_cache := c\<rparr>)" "found = Some b \<Longrightarrow> good_book b"
  using assms get_holds [of good_book "mc_books (mke_cache g)" "(ex, pair)" now]
  by (auto simp: market_ok_def mc_get_book_def Let_def split: prod.splits)

lemma bars_got:
  assumes "market_ok g" and "mc_get_ohlcv (mke_cache g) ex pair tf now = (found, c)"
  shows "market_ok (g\<lparr>mke_cache := c\<rparr>)"
    "found = Some bars \<Longrightarrow> good_bars (mk_max_candles_per_key (mke_config g)) bars"
    "mc_max_candles c = mc_max_candles (mke_cache g)"
  using assms get_holds [of "good_bars (mk_max_candles_per_key (mke_config g))"
      "mc_ohlcv (mke_cache g)" "(ex, pair, tf)" now]
  by (auto simp: market_ok_def mc_get_ohlcv_def Let_def split: prod.splits)

lemma ticker_put:
  "market_ok g \<Longrightarrow> good_ticker t \<Longrightarrow>
    market_ok (g\<lparr>mke_cache := mc_put_ticker (mke_cache g) ex pair t now\<rparr>)"
  by (simp add: market_ok_def mc_put_ticker_def Let_def put_holds)

lemma book_put:
  "market_ok g \<Longrightarrow> good_book b \<Longrightarrow>
    market_ok (g\<lparr>mke_cache := mc_put_book (mke_cache g) ex pair b now\<rparr>)"
  by (simp add: market_ok_def mc_put_book_def Let_def put_holds)

lemma clip_short: "int (length xs) \<le> n \<Longrightarrow> clip n xs = xs"
  by (simp add: clip_def)

lemma bars_put:
  assumes "market_ok g" and "good_bars (mk_max_candles_per_key (mke_config g)) bars"
  shows "market_ok (g\<lparr>mke_cache := mc_put_ohlcv (mke_cache g) ex pair tf bars now\<rparr>)"
  using assms by (simp add: market_ok_def mc_put_ohlcv_def Let_def put_holds clip_short good_bars_def)

lemma bars_merged:
  assumes ok: "market_ok g" and new: "list_all good_bar bars" "bars \<noteq> []"
    and out: "merge_ohlcv (mke_cache g) ex pair tf bars now = (merged, c)"
  shows "market_ok (g\<lparr>mke_cache := c\<rparr>)"
    "good_bars (mk_max_candles_per_key (mke_config g)) merged" "merged \<noteq> []"
proof -
  let ?n = "mk_max_candles_per_key (mke_config g)"
  obtain found d where d: "mc_get_ohlcv (mke_cache g) ex pair tf now = (found, d)" by force
  note got = bars_got [OF ok d]
  have n: "1 \<le> ?n" "mc_max_candles d = ?n"
    using ok got(3) by (simp_all add: market_ok_def Let_def)
  let ?old = "case found of Some bars \<Rightarrow> bars | None \<Rightarrow> []"
  have "list_all good_bar ?old"
    using got(2) by (auto simp: good_bars_def split: option.split)
  note merge = merged_good [OF n(1) this new]
  have merged: "merged = merge_bars ?n ?old bars"
    and c: "c = mc_put_ohlcv d ex pair tf merged now"
    using out d n(2) by (auto simp: merge_ohlcv_def Let_def)
  then show "good_bars ?n merged" "merged \<noteq> []" using merge by simp_all
  with bars_put [OF got(1), of merged ex pair tf now] show "market_ok (g\<lparr>mke_cache := c\<rparr>)"
    by (simp add: c)
qed

subsection \<open>Tickers\<close>

lemma fetch_ticker_ok:
  assumes "market_ok g"
  shows "market_ok (snd (fetch_ticker g io ns)) \<and>
    (\<forall>t. fst (fetch_ticker g io ns) = Inr t \<longrightarrow>
      good_ticker (tsn_ticker t) \<and> quality (tsn_quality t) \<noteq> INVALID)"
proof (cases "mio_ticker io (native_of ns)")
  case (Inl e)
  then show ?thesis using assms by (simp add: fetch_ticker_def)
next
  case (Inr raw)
  show ?thesis
    using Inr assms ticker_put [of "throttle g ''ticker'' io" raw]
      ticker_invalid_iff [of "mke_config g" raw "mio_now io"]
    by (simp add: fetch_ticker_def Let_def)
qed

lemma get_ticker_ok:
  assumes "market_ok g"
  shows "market_ok (snd (get_ticker g io s use force)) \<and>
    (\<forall>t. fst (get_ticker g io s use force) = Inr t \<longrightarrow>
      good_ticker (tsn_ticker t) \<and> quality (tsn_quality t) \<noteq> INVALID)"
proof (cases "resolve_symbol g s")
  case (Inl e)
  then show ?thesis using assms by (simp add: get_ticker_def)
next
  case (Inr ns)
  obtain found c where c: "mc_get_ticker (mke_cache g) (mke_exchange g) (ns_symbol ns) (mio_now io) = (found, c)"
    by force
  note got = ticker_got [OF assms c]
  show ?thesis
  proof (cases found)
    case None
    then show ?thesis
      using Inr c got(1) fetch_ticker_ok [OF assms, of io ns]
        fetch_ticker_ok [of "with_metrics miss (g\<lparr>mke_cache := c\<rparr>)" io ns]
      by (simp add: get_ticker_def Let_def)
  next
    case (Some t)
    then show ?thesis
      using Inr c got fetch_ticker_ok [OF assms, of io ns] ticker_invalid_iff
      by (simp add: get_ticker_def Let_def)
  qed
qed

subsection \<open>Order books\<close>

lemma fetch_book_ok:
  assumes "market_ok g"
  shows "market_ok (snd (fetch_order_book g io ns n)) \<and>
    (\<forall>b. fst (fetch_order_book g io ns n) = Inr b \<longrightarrow>
      good_book (bsn_book b) \<and> quality (bsn_quality b) \<noteq> INVALID)"
proof (cases "mio_book io (native_of ns) n")
  case (Inl e)
  then show ?thesis using assms by (simp add: fetch_order_book_def)
next
  case (Inr raw)
  show ?thesis
    using Inr assms book_put [of "throttle g ''orderbook'' io" raw]
      book_invalid_iff [of "mke_config g" raw "mio_now io"]
    by (simp add: fetch_order_book_def Let_def)
qed

lemma get_book_ok:
  assumes "market_ok g"
  shows "market_ok (snd (get_order_book g io s n use force)) \<and>
    (\<forall>b. fst (get_order_book g io s n use force) = Inr b \<longrightarrow>
      good_book (bsn_book b) \<and> quality (bsn_quality b) \<noteq> INVALID)"
proof (cases "resolve_symbol g s")
  case (Inl e)
  then show ?thesis using assms by (simp add: get_order_book_def)
next
  case (Inr ns)
  obtain found c where c: "mc_get_book (mke_cache g) (mke_exchange g) (ns_symbol ns) (mio_now io) = (found, c)"
    by force
  note got = book_got [OF assms c]
  show ?thesis
  proof (cases found)
    case None
    then show ?thesis
      using Inr c got(1) fetch_book_ok [OF assms, of io ns n]
        fetch_book_ok [of "with_metrics miss (g\<lparr>mke_cache := c\<rparr>)" io ns n]
      by (simp add: get_order_book_def Let_def)
  next
    case (Some b)
    then show ?thesis
      using Inr c got fetch_book_ok [OF assms, of io ns n] book_invalid_iff
      by (simp add: get_order_book_def Let_def)
  qed
qed

subsection \<open>Candles\<close>

definition sound_bars :: "market_config \<Rightarrow> ohlcv_bar list \<Rightarrow> bool" where
  "sound_bars cfg bars \<longleftrightarrow> bars \<noteq> [] \<and> good_bars (mk_max_candles_per_key cfg) bars"

lemma cached_ohlcv_ok:
  assumes "market_ok g" and "sound_bars (mke_config g) bars"
  shows "market_ok (snd (cached_ohlcv g ns tf bars now)) \<and>
    (\<forall>t. fst (cached_ohlcv g ns tf bars now) = Inr t \<longrightarrow> sound_bars (mke_config g) (osn_bars t))"
  using assms by (auto simp: cached_ohlcv_def ohlcv_snap_def Let_def split: sum.splits prod.splits)

lemma fetch_ohlcv_ok:
  assumes "market_ok g"
  shows "market_ok (snd (fetch_ohlcv g io ns tf since n)) \<and>
    (\<forall>t. fst (fetch_ohlcv g io ns tf since n) = Inr t \<longrightarrow> sound_bars (mke_config g) (osn_bars t))"
proof (cases "mio_ohlcv io (native_of ns) tf since n")
  case (Inl e)
  then show ?thesis using assms by (simp add: fetch_ohlcv_def)
next
  case raw: (Inr raw)
  obtain valid bad where valid: "validate_ohlcv_series raw (mio_now io) = (valid, bad)" by force
  have good: "list_all good_bar valid" using validated_good [of raw "mio_now io"] by (simp add: valid)
  show ?thesis
  proof (cases "valid = [] \<or> (\<exists>e. detect_gaps valid tf = Inl e)")
    case True
    then show ?thesis using assms raw valid by (auto simp: fetch_ohlcv_def Let_def)
  next
    case False
    then obtain missing report where gaps: "detect_gaps valid tf = Inr (missing, report)"
      by (cases "detect_gaps valid tf") auto
    let ?g = "with_metrics (\<lambda>m. m\<lparr>mm_missing_candles := int (length missing),
        mm_duplicate_count := mm_duplicate_count m + duplicate_count report\<rparr>)
        (with_metrics (count_invalid bad) (throttle g (''ohlcv:'' @ tf) io))"
    obtain merged c where merged: "merge_ohlcv (mke_cache ?g) (mke_exchange ?g) (ns_symbol ns) tf valid
        (mio_now io) = (merged, c)" by force
    have ok: "market_ok ?g" using assms by simp
    have "valid \<noteq> []" using False by simp
    note m = bars_merged [OF ok good this merged]
    have fetch: "fetch_ohlcv g io ns tf since n =
        (case ohlcv_freshness (mke_config (?g\<lparr>mke_cache := c\<rparr>)) merged tf report (mio_now io) of
           Inl e \<Rightarrow> (Inl e, ?g\<lparr>mke_cache := c\<rparr>)
         | Inr q \<Rightarrow> (Inr (ohlcv_snap merged ns tf q (mio_now io)),
             with_metrics (\<lambda>m. m\<lparr>mm_last_ohlcv_update_ms := Some (mio_now io),
                mm_ohlcv_age_ms := last_bar_age (mio_now io) merged\<rparr>) (?g\<lparr>mke_cache := c\<rparr>)))"
      unfolding fetch_ohlcv_def Let_def using raw valid gaps merged \<open>valid \<noteq> []\<close> by simp
    have "sound_bars (mke_config g) merged" using m(2,3) by (simp add: sound_bars_def)
    then show ?thesis using m(1)
      by (auto simp: fetch ohlcv_snap_def split: sum.split)
  qed
qed

lemma get_ohlcv_ok:
  assumes "market_ok g"
  shows "market_ok (snd (get_ohlcv g io s tf n since use force)) \<and>
    (\<forall>t. fst (get_ohlcv g io s tf n since use force) = Inr t \<longrightarrow> sound_bars (mke_config g) (osn_bars t))"
proof (cases "resolve_symbol g s")
  case (Inl e)
  then show ?thesis using assms by (simp add: get_ohlcv_def)
next
  case (Inr ns)
  obtain found c where c: "mc_get_ohlcv (mke_cache g) (mke_exchange g) (ns_symbol ns) tf (mio_now io) = (found, c)"
    by force
  let ?g = "g\<lparr>mke_cache := c\<rparr>" and ?n = "opt_get n (mk_default_ohlcv_limit (mke_config g))"
  note got = bars_got [OF assms c]
  note fetched = fetch_ohlcv_ok [of "with_metrics miss ?g" io ns tf since ?n]
  note direct = fetch_ohlcv_ok [OF assms, of io ns tf since ?n]
  show ?thesis
  proof (cases "\<exists>b bs. found = Some (b # bs)")
    case True
    then obtain b bs where bars: "found = Some (b # bs)" by blast
    then have "sound_bars (mke_config ?g) (b # bs)" using got(2) by (simp add: sound_bars_def)
    from cached_ohlcv_ok [OF got(1) this] show ?thesis
      using Inr c bars direct by (simp add: get_ohlcv_def Let_def)
  next
    case False
    then have "found = None \<or> found = Some []" by (metis list.exhaust option.exhaust)
    then show ?thesis using Inr c got(1) fetched direct
      by (auto simp: get_ohlcv_def Let_def)
  qed
qed

section \<open>Runs\<close>

datatype market_op =
    GetTicker market_io string bool bool
  | GetOhlcv market_io string string "int option" "int option" bool bool
  | GetOrderBook market_io string "int option" bool bool
  | LoadMarkets market_io
  | ClearCache

fun market_step :: "market_engine \<Rightarrow> market_op \<Rightarrow> market_engine" where
  "market_step g (GetTicker io s use force) = snd (get_ticker g io s use force)"
| "market_step g (GetOhlcv io s tf n since use force) = snd (get_ohlcv g io s tf n since use force)"
| "market_step g (GetOrderBook io s n use force) = snd (get_order_book g io s n use force)"
| "market_step g (LoadMarkets io) = snd (load_markets g io)"
| "market_step g ClearCache = clear_market_cache g"

lemma load_markets_ok: "market_ok g \<Longrightarrow> market_ok (snd (load_markets g io))"
  by (simp add: load_markets_def market_ok_def split: sum.split)

lemma clear_ok: "market_ok g \<Longrightarrow> market_ok (clear_market_cache g)"
  by (simp add: clear_market_cache_def market_ok_def mc_clear_def Let_def clear_holds)

lemma market_step_ok: "market_ok g \<Longrightarrow> market_ok (market_step g x)"
  by (cases x) (simp_all add: get_ticker_ok get_ohlcv_ok get_book_ok load_markets_ok clear_ok)

lemma market_run_ok: "market_ok g \<Longrightarrow> market_ok (foldl market_step g xs)"
  by (induction xs arbitrary: g) (simp_all add: market_step_ok)

lemma new_engine_ok: "new_market_engine ex cfg = Inr g \<Longrightarrow> market_ok g"
  by (auto simp: new_market_engine_def validate_market_config_def new_market_cache_def new_cache_def
      market_ok_def holds_only_def cache_ok_def Let_def split: if_splits)

text \<open>C24: After any run of requests, a ticker or order book that the engine returns is never invalid or
  crossed, and the candles it returns are a nonempty, strictly increasing series of well-formed
  candles within the configured bound.
\<close>

theorem returned_market_data_is_sound:
  assumes "new_market_engine ex cfg = Inr g0" and "g = foldl market_step g0 ops"
  shows "(fst (get_ticker g io s use force) = Inr t \<longrightarrow>
        good_ticker (tsn_ticker t) \<and> quality (tsn_quality t) \<noteq> INVALID) \<and>
    (fst (get_order_book g io s n use force) = Inr b \<longrightarrow>
        good_book (bsn_book b) \<and> quality (bsn_quality b) \<noteq> INVALID) \<and>
    (fst (get_ohlcv g io s tf n since use force) = Inr w \<longrightarrow> sound_bars (mke_config g) (osn_bars w))"
proof -
  have ok: "market_ok g" using market_run_ok [OF new_engine_ok [OF assms(1)]] assms(2) by simp
  show ?thesis using get_ticker_ok [OF ok] get_book_ok [OF ok] get_ohlcv_ok [OF ok] by blast
qed

text \<open>
  A poll waits so that, when the pause is observed, two polls under one key are at least the
  configured interval apart.
\<close>

lemma throttle_spaces_polls:
  assumes "map_of (mke_last_poll g) key = Some prev"
    and "mio_poll io + throttle_pause g key (mio_poll io) \<le> mio_polled io"
  shows "\<exists>t. map_of (mke_last_poll (throttle g key io)) key = Some t \<and>
    mk_min_poll_interval_ms (mke_config g) \<le> t - prev"
  using assms by (auto simp: throttle_def throttle_pause_def Let_def split: if_splits)

end
