(* ===== verification/MarketDemo.thy ===== *)
theory MarketDemo
  imports MarketEngine
begin

text \<open>
  A market data engine at work on concrete input: the witnesses of the properties, and the quality
  report of a fetch that misses the gap between the cached and the new candles.
\<close>

definition demo_bar :: "int \<Rightarrow> flt \<Rightarrow> ohlcv_bar" where
  "demo_bar t p = \<lparr>bar_ts = t, bar_open = p, bar_high = p + 1, bar_low = p - 1, bar_close = p,
     bar_volume = 3\<rparr>"

definition demo_ticker :: ticker where
  "demo_ticker = \<lparr>tk_exchange = ''binance'', tk_symbol = ''BTC/USDT'', tk_ts = Some 599000,
     tk_bid = Some 99, tk_ask = Some 101, tk_last = Some 100, tk_high = None, tk_low = None,
     tk_volume = None, tk_quote_volume = None\<rparr>"

definition demo_book :: order_book where
  "demo_book = \<lparr>ob_exchange = ''binance'', ob_symbol = ''BTC/USDT'', ob_ts = Some 599000,
     ob_bids = [\<lparr>lv_price = 99, lv_amount = 1\<rparr>], ob_asks = [\<lparr>lv_price = 101, lv_amount = 1\<rparr>]\<rparr>"

definition demo_io :: "int \<Rightarrow> ohlcv_bar list \<Rightarrow> market_io" where
  "demo_io now bars = \<lparr>mio_now = now, mio_poll = now, mio_polled = now,
     mio_ticker = (\<lambda>s. Inr demo_ticker), mio_ohlcv = (\<lambda>s tf since n. Inr bars),
     mio_book = (\<lambda>s n. Inr demo_book), mio_markets = Inr []\<rparr>"

definition early_io :: market_io where
  "early_io = demo_io 600000 [demo_bar 480000 100, demo_bar 540000 101]"

definition late_io :: market_io where
  "late_io = demo_io 840000 [demo_bar 780000 104, demo_bar 720000 103]"

definition demo_market_engine :: market_engine where
  "demo_market_engine =
     (case new_market_engine ''binance'' default_market_config of Inr g \<Rightarrow> g)"

definition demo_market_ops :: "market_op list" where
  "demo_market_ops =
     [GetTicker early_io ''BTC/USDT'' True False,
      GetOhlcv early_io ''btc-usdt'' ''1m'' None None True False]"

definition demo_market :: market_engine where
  "demo_market = foldl market_step demo_market_engine demo_market_ops"

definition bars_and_quality ::
  "(market_failure + ohlcv_snapshot) \<times> market_engine \<Rightarrow> (int list \<times> data_quality) option" where
  "bars_and_quality r = (case fst r of Inr s \<Rightarrow> Some (map bar_ts (osn_bars s), quality (osn_quality s))
     | Inl e \<Rightarrow> None)"

lemma demo_new: "new_market_engine ''binance'' default_market_config = Inr demo_market_engine"
  by code_simp

text \<open>
  A forced refresh brings two candles that do not join the cached ones: the merged series has a hole
  and is reported COMPLETE, and the next answer from the cache reports the gap.
\<close>

lemma merged_gap_reported_complete:
  "bars_and_quality (get_ohlcv demo_market late_io ''BTC/USDT'' ''1m'' None None True True) =
     Some ([480000, 540000, 720000, 780000], COMPLETE)"
  by code_simp

lemma cached_gap_reported:
  "bars_and_quality (get_ohlcv
       (snd (get_ohlcv demo_market late_io ''BTC/USDT'' ''1m'' None None True True))
       late_io ''BTC/USDT'' ''1m'' None None True False) =
     Some ([480000, 540000, 720000, 780000], GAP_DETECTED)"
  by code_simp

lemma demo_served:
  "(case fst (get_ticker demo_market late_io ''BTC/USDT'' True False) of Inr t \<Rightarrow> True | _ \<Rightarrow> False)"
  by code_simp

theorem returned_market_data_is_sound_witness:
  "\<exists>t. fst (get_ticker demo_market late_io ''BTC/USDT'' True False) = Inr t \<and>
     good_ticker (tsn_ticker t) \<and> quality (tsn_quality t) \<noteq> INVALID"
proof -
  obtain t where "fst (get_ticker demo_market late_io ''BTC/USDT'' True False) = Inr t"
    using demo_served by (auto split: sum.splits)
  with returned_market_data_is_sound [OF demo_new demo_market_def] show ?thesis by blast
qed

definition demo_cache :: "(string, int) bounded_cache" where
  "demo_cache = (case new_cache 2 10 of Inr c \<Rightarrow> c)"

definition demo_cache_ops :: "(string, int) cache_op list" where
  "demo_cache_ops = [CachePut ''a'' 1 0, CachePut ''b'' 2 1, CacheGet ''a'' 2, CachePut ''c'' 3 3]"

text \<open>Reading \<open>a\<close> makes \<open>b\<close> the oldest entry, the one that is dropped.\<close>

lemma demo_cache_runs:
  "new_cache 2 10 = Inr demo_cache"
  "fst (cache_get (foldl cache_step demo_cache demo_cache_ops) ''a'' 9) = Some 1"
  "fst (cache_get (foldl cache_step demo_cache demo_cache_ops) ''b'' 9) = None"
  "fst (cache_get (foldl cache_step demo_cache demo_cache_ops) ''a'' 11) = None"
  by code_simp+

theorem cache_hit_is_fresh_last_write_witness:
  "\<exists>t. map_of (rev (writes demo_cache_ops)) ''a'' = Some (1, t) \<and> 9 - t \<le> 10"
  using cache_hit_is_fresh_last_write [OF demo_cache_runs(1), of demo_cache_ops "''a''" 9 1]
    demo_cache_runs(2) by auto

theorem gaps_are_exactly_the_missing_times_witness:
  "\<exists>missing report. detect_gaps (map (\<lambda>t. demo_bar t 100) [0, 60000, 240000]) ''1m'' =
      Inr (missing, report) \<and> set missing = {120000, 180000} \<and> quality report = GAP_DETECTED"
proof -
  let ?bars = "map (\<lambda>t. demo_bar t 100) [0, 60000, 240000]"
  have run: "detect_gaps ?bars ''1m'' = Inr ([120000, 180000], gap_report [120000, 180000] 0)"
    by code_simp
  have "series ?bars" by (simp add: series_def demo_bar_def)
  from gaps_are_exactly_the_missing_times [OF this _ run] run show ?thesis by auto
qed

end
