(* ===== verification/Features.thy ===== *)
theory Features
  imports MarketSeries
begin

text \<open>
  From candles to features, labels and the market regime: \<open>src/src/crypto/ml/features.py\<close>,
  \<open>labels.py\<close>, \<open>regime.py\<close> and the enums of \<open>prediction.py\<close>.

  A row is computed from the candles up to its own. \<open>math.sqrt\<close> is the argument \<open>sq\<close>; numbers are
  never infinite or NaN here, so the code's clean-up of such values is the identity.
\<close>

section \<open>Features\<close>

definition FEATURE_NAMES :: "string list" where
  "FEATURE_NAMES =
     [''ret_1'', ''ret_3'', ''ret_5'', ''ret_10'', ''mom_5'', ''mom_10'', ''sma_ratio_5'',
      ''sma_ratio_20'', ''ema_gap'', ''vol_5'', ''vol_10'', ''atr_14'', ''range_pct'', ''body_pct'',
      ''vol_chg_1'', ''vol_sma_ratio_5'', ''vol_sma_ratio_20'', ''rsi_14'', ''hh_10'', ''ll_10'',
      ''close_location'', ''bar_count_norm'']"

record feature_row =
  fr_ts :: int
  fr_values :: "flt list"

definition feature_dict :: "feature_row \<Rightarrow> (string, flt) dict" where
  "feature_dict r = zip FEATURE_NAMES (fr_values r)"

definition safe_div :: "flt \<Rightarrow> flt \<Rightarrow> flt \<Rightarrow> flt" where
  "safe_div a b dflt = (if b = 0 then dflt else a / b)"

text \<open>\<open>xs[max(0, end - window + 1) : end + 1]\<close>.\<close>

definition window_of :: "'a list \<Rightarrow> nat \<Rightarrow> nat \<Rightarrow> 'a list" where
  "window_of xs e window = drop (Suc e - window) (take (Suc e) xs)"

definition sma :: "flt list \<Rightarrow> nat \<Rightarrow> nat \<Rightarrow> flt" where
  "sma closes e window =
     (let seg = window_of closes e window
      in if seg = [] then 0 else sum_list seg / of_nat (length seg))"

definition std :: "(flt \<Rightarrow> flt) \<Rightarrow> flt list \<Rightarrow> nat \<Rightarrow> nat \<Rightarrow> flt" where
  "std sq closes e window =
     (let seg = window_of closes e window
      in if length seg < 2 then 0
         else let m = sum_list seg / of_nat (length seg);
                  var = sum_list (map (\<lambda>x. (x - m) ^ 2) seg) / of_nat (length seg - 1)
              in sq (max 0 var))"

fun gains_losses :: "flt \<times> flt \<Rightarrow> flt list \<Rightarrow> flt \<times> flt" where
  "gains_losses (g, l) [] = (g, l)"
| "gains_losses (g, l) (d # ds) =
     (if 0 \<le> d then gains_losses (g + d, l) ds else gains_losses (g, l - d) ds)"

text \<open>The indices \<open>range(max(1, end - window + 1), end + 1)\<close>.\<close>

definition steps_of :: "nat \<Rightarrow> nat \<Rightarrow> nat list" where
  "steps_of e window = [max 1 (Suc e - window)..<Suc e]"

definition rsi :: "flt list \<Rightarrow> nat \<Rightarrow> nat \<Rightarrow> flt" where
  "rsi closes e window =
     (if e < 1 then 50
      else let idx = steps_of e window;
               (gains, losses) = gains_losses (0, 0) (map (\<lambda>i. closes ! i - closes ! (i - 1)) idx);
               n = of_nat (length idx)
           in if n = 0 then 50
              else let avg_gain = gains / n; avg_loss = losses / n
                   in if avg_loss = 0 then 100
                      else let rs = avg_gain / avg_loss in 100 - 100 / (1 + rs))"

definition true_range :: "ohlcv_bar list \<Rightarrow> nat \<Rightarrow> flt" where
  "true_range bars i =
     (let h = bar_high (bars ! i); l = bar_low (bars ! i); pc = bar_close (bars ! (i - 1))
      in max (max (h - l) \<bar>h - pc\<bar>) \<bar>l - pc\<bar>)"

definition atr :: "ohlcv_bar list \<Rightarrow> nat \<Rightarrow> nat \<Rightarrow> flt" where
  "atr bars e window =
     (let trs = map (true_range bars) (steps_of e window)
      in if trs = [] then 0 else sum_list trs / of_nat (length trs))"

definition ema_of :: "flt list \<Rightarrow> nat \<Rightarrow> flt" where
  "ema_of closes index =
     (let alpha = 2 / 11
      in foldl (\<lambda>ema i. alpha * closes ! i + (1 - alpha) * ema) (closes ! 0) [1..<Suc index])"

definition ret_over :: "flt list \<Rightarrow> nat \<Rightarrow> nat \<Rightarrow> flt" where
  "ret_over closes index n =
     (if index < n \<or> closes ! (index - n) = 0 then 0
      else safe_div (closes ! index - closes ! (index - n)) (closes ! (index - n)) 0)"

definition nz :: "flt \<Rightarrow> flt" where
  "nz x = (if x = 0 then 1 else x)"

definition vol_change :: "flt list \<Rightarrow> nat \<Rightarrow> flt" where
  "vol_change volumes index =
     (if 1 \<le> index \<and> 0 < volumes ! (index - 1)
      then safe_div (volumes ! index - volumes ! (index - 1)) (volumes ! (index - 1)) 0 else 0)"

text \<open>\<open>max\<close> and \<open>min\<close> of a nonempty list, from its first element on.\<close>

definition py_max :: "flt list \<Rightarrow> flt" where
  "py_max xs = foldl max (hd xs) (tl xs)"

definition py_min :: "flt list \<Rightarrow> flt" where
  "py_min xs = foldl min (hd xs) (tl xs)"

definition feature_values :: "(flt \<Rightarrow> flt) \<Rightarrow> ohlcv_bar list \<Rightarrow> nat \<Rightarrow> flt list" where
  "feature_values sq bars i =
     (let closes = map bar_close bars; volumes = map bar_volume bars;
          c = closes ! i; b = bars ! i; v = volumes ! i;
          rng = bar_high b - bar_low b; body = \<bar>bar_close b - bar_open b\<bar>;
          recent = window_of bars i 10;
          hh = py_max (map bar_high recent); ll = py_min (map bar_low recent)
      in [ret_over closes i 1, ret_over closes i 3, ret_over closes i 5, ret_over closes i 10,
          ret_over closes i 5, ret_over closes i 10,
          safe_div c (sma closes i 5) 1 - 1, safe_div c (sma closes i 20) 1 - 1,
          safe_div (c - ema_of closes i) (nz c) 0,
          safe_div (std sq closes i 5) (nz c) 0, safe_div (std sq closes i 10) (nz c) 0,
          safe_div (atr bars i 14) (nz c) 0, safe_div rng (nz c) 0, safe_div body (nz rng) 0,
          vol_change volumes i,
          safe_div v (nz (sma volumes i 5)) 0 - 1, safe_div v (nz (sma volumes i 20)) 0 - 1,
          rsi closes i 14 / 100,
          safe_div c (nz hh) 0, (if ll = 0 then 0 else safe_div c ll 0 - 1),
          safe_div (c - bar_low b) (nz rng) 0,
          min 1 (of_nat (i + 1) / 100)])"

datatype index_error = IndexError string

definition compute_feature_row ::
  "(flt \<Rightarrow> flt) \<Rightarrow> ohlcv_bar list \<Rightarrow> int \<Rightarrow> index_error + feature_row" where
  "compute_feature_row sq bars index =
     (if index < 0 \<or> int (length bars) \<le> index then Inl (IndexError ''feature index out of range'')
      else Inr \<lparr>fr_ts = bar_ts (bars ! nat index), fr_values = feature_values sq bars (nat index)\<rparr>)"

fun feature_rows :: "(flt \<Rightarrow> flt) \<Rightarrow> ohlcv_bar list \<Rightarrow> int list \<Rightarrow> index_error + feature_row list" where
  "feature_rows sq bars [] = Inr []"
| "feature_rows sq bars (i # is) =
     (case compute_feature_row sq bars i of
        Inl e \<Rightarrow> Inl e
      | Inr r \<Rightarrow> (case feature_rows sq bars is of Inl e \<Rightarrow> Inl e | Inr rs \<Rightarrow> Inr (r # rs)))"

definition build_feature_matrix ::
  "(flt \<Rightarrow> flt) \<Rightarrow> ohlcv_bar list \<Rightarrow> int \<Rightarrow> int option \<Rightarrow> index_error + feature_row list \<times> int list" where
  "build_feature_matrix sq bars min_history max_rows =
     (let stop = int (length bars);
          start = (case max_rows of
             Some m \<Rightarrow> if m < stop - min_history then max (stop - m) min_history else min_history
           | None \<Rightarrow> min_history);
          idx = [start..stop - 1]
      in case feature_rows sq bars idx of Inl e \<Rightarrow> Inl e | Inr rows \<Rightarrow> Inr (rows, idx))"

text \<open>The last position of a name, as in a dictionary built from \<open>enumerate\<close>.\<close>

definition name_index :: "string \<Rightarrow> nat option" where
  "name_index n = map_of (rev (zip FEATURE_NAMES [0..<length FEATURE_NAMES])) n"

definition select_features ::
  "feature_row \<Rightarrow> string list option \<Rightarrow> int \<Rightarrow> string list \<times> flt list" where
  "select_features row names max_features =
     (let chosen = slice_to (case names of None \<Rightarrow> FEATURE_NAMES | Some ns \<Rightarrow> ns) max_features;
          used = filter (\<lambda>n. name_index n \<noteq> None) chosen
      in (used, map (\<lambda>n. fr_values row ! the (name_index n)) used))"

section \<open>The regime\<close>

datatype direction = DIR_UP | DIR_NEUTRAL | DIR_DOWN

datatype regime =
  TREND_UP | TREND_DOWN | SIDEWAYS | HIGH_VOLATILITY | LOW_VOLATILITY | REGIME_UNKNOWN

definition abs_returns :: "flt list \<Rightarrow> flt list" where
  "abs_returns closes =
     map (\<lambda>i. \<bar>(closes ! i - closes ! (i - 1)) / closes ! (i - 1)\<bar>)
       (filter (\<lambda>i. closes ! (i - 1) \<noteq> 0) [1..<length closes])"

definition mean_or_zero :: "flt list \<Rightarrow> flt" where
  "mean_or_zero xs = (if xs = [] then 0 else sum_list xs / of_nat (length xs))"

definition detect_regime :: "ohlcv_bar list \<Rightarrow> int \<Rightarrow> regime" where
  "detect_regime bars lookback =
     (if length bars < 5 then REGIME_UNKNOWN
      else
        let recent = (if lookback \<le> int (length bars) then slice_from bars (- lookback) else bars);
            closes = map bar_close recent
        in if closes ! 0 = 0 then REGIME_UNKNOWN
           else let r = (List.last closes - closes ! 0) / closes ! 0;
                    vol = mean_or_zero (abs_returns closes)
                in if 2 / 100 < vol then HIGH_VOLATILITY
                   else if vol < 3 / 1000 then LOW_VOLATILITY
                   else if 1 / 100 < r then TREND_UP
                   else if r < - (1 / 100) then TREND_DOWN
                   else SIDEWAYS)"

section \<open>Labels\<close>

record label_config =
  lc_horizon_bars :: int
  lc_up_threshold :: flt
  lc_down_threshold :: flt

definition default_label_config :: label_config where
  "default_label_config =
     \<lparr>lc_horizon_bars = 5, lc_up_threshold = 2 / 1000, lc_down_threshold = - (2 / 1000)\<rparr>"

text \<open>For indices and horizons that are not negative, as the feature matrix and the code use them.\<close>

definition forward_return :: "ohlcv_bar list \<Rightarrow> nat \<Rightarrow> nat \<Rightarrow> flt option" where
  "forward_return bars index horizon =
     (if length bars \<le> index + horizon then None
      else let c0 = bar_close (bars ! index)
           in if c0 = 0 then None else Some ((bar_close (bars ! (index + horizon)) - c0) / c0))"

definition label_direction :: "flt \<Rightarrow> label_config \<Rightarrow> direction" where
  "label_direction r cfg =
     (if lc_up_threshold cfg \<le> r then DIR_UP
      else if r \<le> lc_down_threshold cfg then DIR_DOWN
      else DIR_NEUTRAL)"

fun direction_to_int :: "direction \<Rightarrow> nat" where
  "direction_to_int DIR_DOWN = 0"
| "direction_to_int DIR_NEUTRAL = 1"
| "direction_to_int DIR_UP = 2"

definition int_to_direction :: "nat \<Rightarrow> direction" where
  "int_to_direction v = (if v = 0 then DIR_DOWN else if v = 2 then DIR_UP else DIR_NEUTRAL)"

definition build_labels :: "ohlcv_bar list \<Rightarrow> int list \<Rightarrow> label_config \<Rightarrow> direction option list" where
  "build_labels bars indices cfg =
     map (\<lambda>i. map_option (\<lambda>r. label_direction r cfg)
       (forward_return bars (nat i) (nat (lc_horizon_bars cfg)))) indices"

text \<open>The three index ranges, as lists.\<close>

definition chronological_split ::
  "int \<Rightarrow> flt \<Rightarrow> flt \<Rightarrow> int list \<times> int list \<times> int list" where
  "chronological_split n train_ratio val_ratio =
     (if n \<le> 0 then ([], [], [])
      else let n_train = py_trunc (of_int n * train_ratio);
               n_val0 = py_trunc (of_int n * val_ratio);
               n_test0 = n - n_train - n_val0;
               n_test = (if n_test0 < 0 then 0 else n_test0);
               n_val = (if n_test0 < 0 then n - n_train else n_val0)
           in ([0..n_train - 1], [n_train..n_train + n_val - 1],
               [n_train + n_val..n_train + n_val + n_test - 1]))"

text \<open>The default ratios.\<close>

definition default_split :: "int \<Rightarrow> int list \<times> int list \<times> int list" where
  "default_split n = chronological_split n (6 / 10) (2 / 10)"

section \<open>No look-ahead\<close>

lemma window_take: "window_of (take (Suc e) xs) e w = window_of xs e w"
  by (simp add: window_of_def)

lemma sma_take: "sma (take (Suc e) xs) e w = sma xs e w"
  by (simp add: sma_def window_take)

lemma std_take: "std sq (take (Suc e) xs) e w = std sq xs e w"
  by (simp add: std_def window_take)

lemma steps_bound: "i \<in> set (steps_of e w) \<Longrightarrow> i \<le> e"
  by (auto simp: steps_of_def)

lemma rsi_take: "rsi (take (Suc e) xs) e w = rsi xs e w"
proof -
  have "map (\<lambda>i. take (Suc e) xs ! i - take (Suc e) xs ! (i - 1)) (steps_of e w) =
      map (\<lambda>i. xs ! i - xs ! (i - 1)) (steps_of e w)"
    by (auto dest: steps_bound)
  then show ?thesis by (simp only: rsi_def Let_def)
qed

lemma atr_take: "atr (take (Suc e) bars) e w = atr bars e w"
proof -
  have "map (true_range (take (Suc e) bars)) (steps_of e w) = map (true_range bars) (steps_of e w)"
    by (auto simp: true_range_def dest: steps_bound)
  then show ?thesis by (simp only: atr_def Let_def)
qed

lemma ema_take: "ema_of (take (Suc e) xs) e = ema_of xs e"
proof -
  have "foldl (\<lambda>m i. a * take (Suc e) xs ! i + b * m) c [1..<Suc k] =
      foldl (\<lambda>m i. a * xs ! i + b * m) c [1..<Suc k]" if "k \<le> e" for a b c k
    using that by (induction k) auto
  from this [of e] show ?thesis by (simp add: ema_of_def del: upt_Suc)
qed

lemma ret_take: "ret_over (take (Suc e) xs) e n = ret_over xs e n"
  by (simp add: ret_over_def)

lemma vol_change_take: "vol_change (take (Suc e) xs) e = vol_change xs e"
  by (simp add: vol_change_def)

lemmas feature_takes =
  window_take sma_take std_take rsi_take atr_take ema_take ret_take vol_change_take

lemma features_take: "feature_values sq (take (Suc e) bars) e = feature_values sq bars e"
  by (simp only: feature_values_def Let_def feature_takes nth_take [OF lessI] flip: take_map)

lemma row_take:
  assumes "index < int n"
  shows "compute_feature_row sq (take n bars) index = compute_feature_row sq bars index"
proof (cases "index < 0 \<or> int (length bars) \<le> index")
  case True
  then show ?thesis using assms by (auto simp: compute_feature_row_def)
next
  case False
  define e where "e = nat index"
  have e: "index = int e" "e < n" "e < length bars"
    using False assms by (auto simp: e_def)
  have "feature_values sq (take n bars) e = feature_values sq (take (Suc e) (take n bars)) e"
    by (simp only: features_take)
  also have "\<dots> = feature_values sq bars e"
    using e(2) by (simp add: features_take Suc_leI min_absorb1)
  finally show ?thesis using e by (simp add: compute_feature_row_def)
qed

text \<open>C26: A feature row never looks ahead: whatever candles follow, the row at an index is the one
  computed from the candles up to that index.
\<close>

theorem features_never_look_ahead:
  assumes "index < int (length bars)"
  shows "compute_feature_row sq (bars @ later) index =
    compute_feature_row sq (take (nat (index + 1)) bars) index"
proof (cases "index < 0")
  case False
  have "compute_feature_row sq (bars @ later) index = compute_feature_row sq bars index"
    using row_take [OF assms, of sq "bars @ later"] by simp
  then show ?thesis using False row_take [of index "nat (index + 1)" sq bars] by simp
qed (simp add: compute_feature_row_def)

section \<open>Bounds\<close>

lemma gains_losses_nonneg:
  "0 \<le> g \<Longrightarrow> 0 \<le> l \<Longrightarrow> 0 \<le> fst (gains_losses (g, l) ds) \<and> 0 \<le> snd (gains_losses (g, l) ds)"
  by (induction "(g, l)" ds arbitrary: g l rule: gains_losses.induct) auto

lemma rsi_bounds: "0 \<le> rsi closes e w \<and> rsi closes e w \<le> 100"
proof -
  have "0 \<le> 100 - 100 / (1 + r) \<and> 100 - 100 / (1 + r) \<le> 100" if "0 \<le> r" for r :: flt
    using that by (simp add: field_simps)
  then show ?thesis
    using gains_losses_nonneg [of 0 0 "map (\<lambda>i. closes ! i - closes ! (i - 1)) (steps_of e w)"]
    by (auto simp: rsi_def Let_def split: prod.split)
qed

lemma feature_count: "length (feature_values sq bars i) = length FEATURE_NAMES"
  by (simp add: feature_values_def FEATURE_NAMES_def Let_def)

lemma labels_round_trip: "int_to_direction (direction_to_int d) = d"
  by (cases d) (simp_all add: int_to_direction_def)

lemma upto_append: "a \<le> b \<Longrightarrow> b \<le> c + 1 \<Longrightarrow> [a..b - 1] @ [b..c] = [a..(c :: int)]"
  using upto_split1 [of a b c] by (cases "b = c + 1") simp_all

text \<open>
  The chronological split cuts the rows into training, validation and test ranges that follow
  each other in time and cover every row exactly once.
\<close>

lemma split_in_order:
  assumes "0 \<le> n" and "0 \<le> train_ratio" and "train_ratio \<le> 1" and "0 \<le> val_ratio"
  shows "case chronological_split n train_ratio val_ratio of (tr, va, te) \<Rightarrow> tr @ va @ te = [0..n - 1]"
proof (cases "n = 0")
  case True
  then show ?thesis by (simp add: chronological_split_def)
next
  case False
  let ?t = "py_trunc (of_int n * train_ratio)" and ?v = "py_trunc (of_int n * val_ratio)"
  have "py_trunc (of_int n * train_ratio) \<le> py_trunc (of_int n)"
    using assms by (intro py_trunc_mono) (auto simp: mult_left_le)
  then have t: "0 \<le> ?t" "?t \<le> n" and v: "0 \<le> ?v"
    using assms by (simp_all add: py_trunc_nonneg)
  define t v where "t = ?t" and "v = (if n - ?t - ?v < 0 then n - ?t else ?v)"
  have "chronological_split n train_ratio val_ratio =
      ([0..t - 1], [t..t + v - 1], [t + v..n - 1])"
    using False assms(1) by (simp add: chronological_split_def Let_def t_def v_def)
  moreover have "0 \<le> t" "t \<le> t + v" "t + v \<le> n"
    using t v by (auto simp: t_def v_def)
  ultimately show ?thesis by (simp add: upto_append)
qed

lemma default_split_in_order:
  "0 \<le> n \<Longrightarrow> default_split n = (tr, va, te) \<Longrightarrow> tr @ va @ te = [0..n - 1]"
  using split_in_order [of n "6 / 10" "2 / 10"] by (simp add: default_split_def)

end
