(* ===== verification/Predict.thy ===== *)
theory Predict
  imports Features Registry
begin

text \<open>
  Training and inference: predictions and the strategy bridge (\<open>src/src/crypto/ml/prediction.py\<close>,
  \<open>strategy.py\<close>), the resource profiles (\<open>profiles.py\<close>), the built-in model
  (\<open>fallback.py\<close>) and the pipeline (\<open>pipeline.py\<close>).

  A model of an optional package is the type variable \<open>'m\<close> with its operations in a \<open>backend\<close>. A
  probability row is a triple (down, neutral, up), as \<open>predict_proba\<close> returns it.
\<close>

section \<open>Predictions\<close>

record model_vote =
  mv_model_id :: string
  mv_algorithm :: string
  mv_direction :: direction
  mv_probability_up :: flt
  mv_probability_down :: flt
  mv_probability_neutral :: flt

record prediction =
  pd_symbol :: string
  pd_direction :: direction
  pd_probability :: flt
  pd_confidence :: flt
  pd_confidence_calibrated :: bool
  pd_expected_return :: flt
  pd_volatility_estimate :: flt
  pd_regime :: regime
  pd_model_id :: string
  pd_algorithm :: string
  pd_feature_timestamp_ms :: int
  pd_generated_at_ms :: int
  pd_data_quality :: data_quality
  pd_votes :: "model_vote list"
  pd_horizon_bars :: int

definition unusable :: "data_quality \<Rightarrow> bool" where
  "unusable q \<longleftrightarrow> q \<in> {INVALID, STALE, UNKNOWN_Q}"

definition is_actionable :: "prediction \<Rightarrow> flt \<Rightarrow> bool" where
  "is_actionable p min_confidence =
     (if unusable (pd_data_quality p) then False
      else if pd_direction p = DIR_NEUTRAL then False
      else min_confidence \<le> pd_confidence p)"

definition prediction_to_proposal ::
  "prediction \<Rightarrow> string \<Rightarrow> string \<Rightarrow> flt \<Rightarrow> flt option \<Rightarrow> flt option \<Rightarrow> string \<Rightarrow> flt \<Rightarrow>
   trade_proposal option" where
  "prediction_to_proposal p ex acc qty price stop strategy min_confidence =
     (if \<not> is_actionable p min_confidence then None
      else
        let propose = (\<lambda>sd. Some
              \<lparr>prop_exchange_id = ex, prop_account_id = acc, prop_symbol = pd_symbol p,
               prop_side = sd, requested_quantity = qty, requested_price = price,
               stop_price = stop, prop_strategy_id = strategy,
               prop_timestamp_ms = Some (pd_generated_at_ms p)\<rparr>)
        in case pd_direction p of
             DIR_UP \<Rightarrow> propose BUY | DIR_DOWN \<Rightarrow> propose SELL | DIR_NEUTRAL \<Rightarrow> None)"

section \<open>Profiles\<close>

datatype ml_profile = ULTRA_LITE_P | LITE_P | BALANCED_P | PERFORMANCE_P | EXTREME_P

record resource_limits =
  rl_max_threads :: int
  rl_max_trees :: int
  rl_max_depth :: int
  rl_max_features :: int
  rl_max_training_rows :: int
  rl_algorithms :: "string list"

fun limits_for :: "ml_profile \<Rightarrow> resource_limits" where
  "limits_for ULTRA_LITE_P = \<lparr>rl_max_threads = 1, rl_max_trees = 20, rl_max_depth = 3,
     rl_max_features = 20, rl_max_training_rows = 2000, rl_algorithms = [''lightgbm'', ''fallback'']\<rparr>"
| "limits_for LITE_P = \<lparr>rl_max_threads = 2, rl_max_trees = 50, rl_max_depth = 4,
     rl_max_features = 30, rl_max_training_rows = 5000,
     rl_algorithms = [''lightgbm'', ''random_forest'', ''fallback'']\<rparr>"
| "limits_for BALANCED_P = \<lparr>rl_max_threads = 4, rl_max_trees = 100, rl_max_depth = 6,
     rl_max_features = 40, rl_max_training_rows = 20000,
     rl_algorithms = [''lightgbm'', ''xgboost'', ''random_forest'', ''fallback'']\<rparr>"
| "limits_for PERFORMANCE_P = \<lparr>rl_max_threads = 8, rl_max_trees = 200, rl_max_depth = 8,
     rl_max_features = 40, rl_max_training_rows = 50000,
     rl_algorithms = [''lightgbm'', ''xgboost'', ''random_forest'', ''catboost'', ''fallback'']\<rparr>"
| "limits_for EXTREME_P = \<lparr>rl_max_threads = 16, rl_max_trees = 400, rl_max_depth = 10,
     rl_max_features = 40, rl_max_training_rows = 100000,
     rl_algorithms = [''lightgbm'', ''xgboost'', ''random_forest'', ''catboost'', ''fallback'']\<rparr>"

fun profile_text :: "ml_profile \<Rightarrow> string" where
  "profile_text ULTRA_LITE_P = ''ULTRA_LITE''"
| "profile_text LITE_P = ''LITE''"
| "profile_text BALANCED_P = ''BALANCED''"
| "profile_text PERFORMANCE_P = ''PERFORMANCE''"
| "profile_text EXTREME_P = ''EXTREME''"

section \<open>Classes and probabilities\<close>

type_synonym proba = "flt \<times> flt \<times> flt"

text \<open>\<open>max(range(3), key=...)\<close>: the first class with the largest value.\<close>

definition argmax3 :: "proba \<Rightarrow> nat" where
  "argmax3 p = (case p of (a, b, c) \<Rightarrow> if b \<le> a \<and> c \<le> a then 0 else if c \<le> b then 1 else 2)"

definition proba_at :: "proba \<Rightarrow> nat \<Rightarrow> flt" where
  "proba_at p i = (case p of (a, b, c) \<Rightarrow> if i = 0 then a else if i = 1 then b else c)"

definition proba_list :: "proba \<Rightarrow> flt list" where
  "proba_list p = (case p of (a, b, c) \<Rightarrow> [a, b, c])"

definition bump :: "proba \<Rightarrow> nat \<Rightarrow> proba" where
  "bump p i = (case p of (a, b, c) \<Rightarrow>
     if i = 0 then (a + 1, b, c) else if i = 1 then (a, b + 1, c) else (a, b, c + 1))"

text \<open>The gap between the two largest values.\<close>

definition margin_of :: "proba \<Rightarrow> flt" where
  "margin_of p = (let ranked = rev (sort (proba_list p)) in ranked ! 0 - ranked ! 1)"

text \<open>
  Division of three class weights by their total, which counts as 1 when it is 0
  (\<open>sum(score) or 1.0\<close>).
\<close>

definition shares :: "proba \<Rightarrow> proba" where
  "shares p = (case p of (a, b, c) \<Rightarrow>
     let s = a + b + c; t = (if s = 0 then 1 else s) in (a / t, b / t, c / t))"

definition proba_ok :: "proba \<Rightarrow> bool" where
  "proba_ok p = (case p of (a, b, c) \<Rightarrow> 0 \<le> a \<and> 0 \<le> b \<and> 0 \<le> c \<and> a + b + c = 1)"

lemma argmax3_le: "argmax3 p \<le> 2"
  by (auto simp: argmax3_def split: prod.split)

lemma argmax3_max: "proba_at p i \<le> proba_at p (argmax3 p)"
  by (cases p) (auto simp: argmax3_def proba_at_def)

lemma shares_ok:
  "0 \<le> a \<Longrightarrow> 0 \<le> b \<Longrightarrow> 0 \<le> c \<Longrightarrow> a + b + c \<noteq> 0 \<Longrightarrow> proba_ok (shares (a, b, c))"
  by (simp add: shares_def proba_ok_def Let_def flip: add_divide_distrib)

lemma margin_bounds:
  assumes "proba_ok p"
  shows "0 \<le> margin_of p \<and> margin_of p \<le> 1"
  using assms by (cases p) (auto simp: margin_of_def proba_list_def proba_ok_def Let_def)

section \<open>The built-in model\<close>

record fallback_model =
  fb_majority :: nat
  fb_stumps :: "(nat \<times> flt \<times> nat \<times> nat) list"
  fb_feature_names :: "string list"
  fb_fitted :: bool

definition new_fallback :: fallback_model where
  "new_fallback = \<lparr>fb_majority = 1, fb_stumps = [], fb_feature_names = [], fb_fitted = False\<rparr>"

datatype ml_error = MlValueError string | MlIndexError | MlRuntimeError string

text \<open>\<open>counts[int(label)] += 1\<close> over a list of three.\<close>

fun count_labels :: "proba \<Rightarrow> nat list \<Rightarrow> ml_error + proba" where
  "count_labels p [] = Inr p"
| "count_labels p (l # ls) = (if l \<le> 2 then count_labels (bump p l) ls else Inl MlIndexError)"

definition split_counts :: "flt list list \<Rightarrow> nat list \<Rightarrow> nat \<Rightarrow> flt \<Rightarrow> bool \<Rightarrow> proba" where
  "split_counts x y fi thresh left_side =
     foldl bump (0, 0, 0) (map snd (filter (\<lambda>(r, l). (r ! fi \<le> thresh) = left_side) (zip x y)))"

text \<open>The stump on one feature, if the feature takes two values at least.\<close>

definition stump_on ::
  "flt list list \<Rightarrow> nat list \<Rightarrow> nat \<Rightarrow> ml_error + (nat \<times> flt \<times> nat \<times> nat) option" where
  "stump_on x y fi =
     (if list_ex (\<lambda>r. length r \<le> fi) x then Inl MlIndexError
      else
        let vals = sort (remdups (map (\<lambda>r. r ! fi) x))
        in if length vals < 2 then Inr None
           else if length x \<noteq> length y then Inl (MlValueError ''zip() arguments differ in length'')
           else let thresh = vals ! (length vals div 2)
                in Inr (Some (fi, thresh, argmax3 (split_counts x y fi thresh True),
                              argmax3 (split_counts x y fi thresh False))))"

fun stumps_on :: "flt list list \<Rightarrow> nat list \<Rightarrow> nat list \<Rightarrow> ml_error + (nat \<times> flt \<times> nat \<times> nat) list"
where
  "stumps_on x y [] = Inr []"
| "stumps_on x y (fi # fis) =
     (case stump_on x y fi of
        Inl e \<Rightarrow> Inl e
      | Inr s \<Rightarrow>
          (case stumps_on x y fis of
             Inl e \<Rightarrow> Inl e
           | Inr ss \<Rightarrow> Inr ((case s of None \<Rightarrow> [] | Some t \<Rightarrow> [t]) @ ss)))"

definition fallback_fit ::
  "flt list list \<Rightarrow> nat list \<Rightarrow> string list \<Rightarrow> ml_error + fallback_model" where
  "fallback_fit x y names =
     (if x = [] \<or> y = [] then Inl (MlValueError ''empty training set'')
      else case count_labels (0, 0, 0) y of
        Inl e \<Rightarrow> Inl e
      | Inr counts \<Rightarrow>
          (case stumps_on x y [0..<min 5 (length (hd x))] of
             Inl e \<Rightarrow> Inl e
           | Inr ss \<Rightarrow> Inr \<lparr>fb_majority = argmax3 counts, fb_stumps = ss, fb_feature_names = names,
                            fb_fitted = True\<rparr>))"

definition stump_vote :: "flt list \<Rightarrow> proba \<Rightarrow> nat \<times> flt \<times> nat \<times> nat \<Rightarrow> proba" where
  "stump_vote r votes s =
     (case s of (fi, thresh, left, right) \<Rightarrow>
        if length r \<le> fi then votes else bump votes (if r ! fi \<le> thresh then left else right))"

definition fallback_votes :: "fallback_model \<Rightarrow> flt list \<Rightarrow> proba" where
  "fallback_votes m r = foldl (stump_vote r) (bump (0, 0, 0) (fb_majority m)) (fb_stumps m)"

definition fallback_proba :: "fallback_model \<Rightarrow> flt list list \<Rightarrow> proba list" where
  "fallback_proba m x = map (\<lambda>r. shares (fallback_votes m r)) x"

definition fallback_predict :: "fallback_model \<Rightarrow> flt list list \<Rightarrow> nat list" where
  "fallback_predict m x = map argmax3 (fallback_proba m x)"

definition weights_ok :: "proba \<Rightarrow> bool" where
  "weights_ok p = (case p of (a, b, c) \<Rightarrow> 0 \<le> a \<and> 0 \<le> b \<and> 0 \<le> c \<and> 1 \<le> a + b + c)"

lemma bump_ok: "weights_ok p \<Longrightarrow> weights_ok (bump p i)"
  by (auto simp: weights_ok_def bump_def split: prod.splits)

lemma first_bump_ok: "weights_ok (bump (0, 0, 0) i)"
  by (simp add: weights_ok_def bump_def)

lemma votes_ok: "weights_ok p \<Longrightarrow> weights_ok (foldl (stump_vote r) p ss)"
  by (induction ss arbitrary: p) (auto simp: stump_vote_def bump_ok split: prod.split)

text \<open>Every row of the built-in model's answer is a probability distribution.\<close>

lemma fallback_is_distribution: "list_all proba_ok (fallback_proba m x)"
proof -
  have "proba_ok (shares (fallback_votes m r))" for r
  proof -
    have "weights_ok (fallback_votes m r)"
      by (simp add: fallback_votes_def votes_ok first_bump_ok)
    then show ?thesis
      by (cases "fallback_votes m r") (auto simp: weights_ok_def intro!: shares_ok)
  qed
  then show ?thesis by (simp add: fallback_proba_def list_all_iff)
qed

lemma fallback_classes: "set (fallback_predict m x) \<subseteq> {0, 1, 2}"
  using argmax3_le by (force simp: fallback_predict_def le_Suc_eq numeral_2_eq_2)

end
