(* ===== verification/MlPipeline.thy ===== *)
theory MlPipeline
  imports Predict
begin

text \<open>
  The training and inference pipeline (\<open>src/src/crypto/ml/pipeline.py\<close>, with \<open>create_model\<close> of
  \<open>backends.py\<close> and \<open>new_metadata\<close> of \<open>artifacts.py\<close>). The operations of a model of an optional
  package, the hash of the training data, the new model's identifier and the clock are in the
  argument \<open>bk\<close>.
\<close>

section \<open>Models\<close>

record 'm backend =
  bk_available :: "string list"
  bk_new :: "string \<Rightarrow> resource_limits \<Rightarrow> 'm"
  bk_fit :: "'m \<Rightarrow> flt list list \<Rightarrow> nat list \<Rightarrow> string list \<Rightarrow> ml_error + 'm"
  bk_predict :: "'m \<Rightarrow> flt list list \<Rightarrow> ml_error + nat list"
  bk_proba :: "'m \<Rightarrow> flt list list \<Rightarrow> ml_error + proba list"
  bk_data_hash :: "flt list list \<Rightarrow> string"
  bk_model_id :: "string \<Rightarrow> string \<Rightarrow> string"
  bk_now :: int

definition create_model :: "'m backend \<Rightarrow> string \<Rightarrow> resource_limits \<Rightarrow> ml_error + 'm" where
  "create_model bk algorithm limits =
     (let algo = py_lower algorithm
      in if algo \<in> {''fallback'', ''lightgbm'', ''xgboost'', ''random_forest'', ''catboost''}
         then Inr (bk_new bk algo limits)
         else Inl (MlValueError (''unknown algorithm: '' @ algorithm)))"

definition new_metadata ::
  "'m backend \<Rightarrow> string \<Rightarrow> string list \<Rightarrow> int \<Rightarrow> string \<Rightarrow> pydict \<Rightarrow> (string \<times> flt) list \<Rightarrow> string \<Rightarrow> int \<Rightarrow>
   model_metadata" where
  "new_metadata bk algorithm names rows hash hyper metrics profile horizon =
     \<lparr>mm_model_id = bk_model_id bk algorithm hash, mm_version = ''1'', mm_algorithm = algorithm,
      mm_schema = FEATURE_SCHEMA_VERSION, mm_feature_names = map PyStr names,
      mm_training_rows = rows, mm_training_data_hash = hash, mm_hyperparameters = hyper,
      mm_metrics = metrics, mm_created_at_ms = bk_now bk, mm_profile = profile,
      mm_label_horizon_bars = horizon\<rparr>"

text \<open>The names of a metadata record; what is not a string is no feature's name.\<close>

definition name_text :: "pyval \<Rightarrow> string" where
  "name_text v = (case v of PyStr s \<Rightarrow> s | _ \<Rightarrow> [])"

definition meta_names :: "model_metadata \<Rightarrow> string list" where
  "meta_names m = map name_text (mm_feature_names m)"

section \<open>Training\<close>

record 'm ml_pipeline =
  mp_profile :: ml_profile
  mp_label_config :: label_config
  mp_loaded :: "('m \<times> model_metadata) option"

definition new_pipeline :: "ml_profile \<Rightarrow> label_config \<Rightarrow> 'm ml_pipeline" where
  "new_pipeline profile cfg = \<lparr>mp_profile = profile, mp_label_config = cfg, mp_loaded = None\<rparr>"

definition mp_limits :: "'m ml_pipeline \<Rightarrow> resource_limits" where
  "mp_limits p = limits_for (mp_profile p)"

definition select_algorithm :: "'m backend \<Rightarrow> resource_limits \<Rightarrow> string" where
  "select_algorithm bk limits =
     (case List.find (\<lambda>a. a \<in> set (bk_available bk)) (rl_algorithms limits) of
        Some a \<Rightarrow> a | None \<Rightarrow> ''fallback'')"

definition eval_metrics ::
  "'m backend \<Rightarrow> 'm \<Rightarrow> flt list list \<Rightarrow> nat list \<Rightarrow> ml_error + (string \<times> flt) list" where
  "eval_metrics bk model x y =
     (if x = [] then Inr [(''accuracy'', 0), (''n'', 0)]
      else case bk_predict bk model x of
        Inl e \<Rightarrow> Inl e
      | Inr preds \<Rightarrow>
          if length preds \<noteq> length y then Inl (MlValueError ''zip() arguments differ in length'')
          else let correct = length (filter (\<lambda>(a, b). a = b) (zip preds y))
               in Inr [(''accuracy'', of_nat correct / of_nat (length y)),
                       (''n'', of_nat (length y))])"

text \<open>The labelled rows: feature vectors with their classes, the unlabelled tail dropped.\<close>

definition labelled_rows ::
  "(flt \<Rightarrow> flt) \<Rightarrow> 'm ml_pipeline \<Rightarrow> ohlcv_bar list \<Rightarrow> ml_error + (feature_row \<times> nat) list" where
  "labelled_rows sq p bars =
     (case build_feature_matrix sq bars 20 (Some (rl_max_training_rows (mp_limits p))) of
        Inl e \<Rightarrow> Inl MlIndexError
      | Inr (rows, indices) \<Rightarrow>
          Inr (List.map_filter (\<lambda>(r, l). map_option (\<lambda>d. (r, direction_to_int d)) l)
            (zip rows (build_labels bars indices (mp_label_config p)))))"

definition pick :: "'a list \<Rightarrow> int list \<Rightarrow> 'a list" where
  "pick xs idx = map (\<lambda>i. xs ! nat i) idx"

definition test_metrics :: "(string \<times> flt) list \<Rightarrow> (string \<times> flt) list" where
  "test_metrics ms = map (\<lambda>(k, v). (''test_'' @ k, v)) ms"

record training_set =
  ts_x :: "flt list list"
  ts_y :: "nat list"

text \<open>The training, validation and test sets, in time order.\<close>

definition split_rows ::
  "flt list list \<Rightarrow> nat list \<Rightarrow> training_set \<times> training_set \<times> training_set" where
  "split_rows x y =
     (case default_split (int (length x)) of
        (tr, va, te) \<Rightarrow>
          let train_set = \<lparr>ts_x = pick x tr, ts_y = pick y tr\<rparr>
          in (train_set,
              if va \<noteq> [] then \<lparr>ts_x = pick x va, ts_y = pick y va\<rparr>
              else \<lparr>ts_x = slice_from (ts_x train_set) (- 10), ts_y = slice_from (ts_y train_set) (- 10)\<rparr>,
              \<lparr>ts_x = pick x te, ts_y = pick y te\<rparr>))"

definition train_on ::
  "'m backend \<Rightarrow> 'm ml_pipeline \<Rightarrow> (feature_row \<times> nat) list \<Rightarrow> ml_error + ('m \<times> model_metadata)" where
  "train_on bk p paired =
     (if length paired < 30 then Inl (MlValueError ''insufficient labeled rows'')
      else
        let limits = mp_limits p;
            names = slice_to FEATURE_NAMES (rl_max_features limits);
            x = map (\<lambda>(r, l). snd (select_features r (Some names) (rl_max_features limits))) paired;
            (tr, va, te) = split_rows x (map snd paired);
            algo = select_algorithm bk limits
        in bindE (create_model bk algo limits) (\<lambda>m0.
           bindE (bk_fit bk m0 (ts_x tr) (ts_y tr) names) (\<lambda>m.
           bindE (eval_metrics bk m (ts_x va) (ts_y va)) (\<lambda>metrics.
           bindE (if ts_x te = [] then Inr [] else eval_metrics bk m (ts_x te) (ts_y te)) (\<lambda>tests.
             Inr (m, new_metadata bk algo names (int (length (ts_x tr))) (bk_data_hash bk (ts_x tr))
                    [(''max_trees'', num (rl_max_trees limits)), (''max_depth'', num (rl_max_depth limits)),
                     (''max_threads'', num (rl_max_threads limits))]
                    (metrics @ test_metrics tests) (profile_text (mp_profile p))
                    (lc_horizon_bars (mp_label_config p))))))))"

definition train ::
  "(flt \<Rightarrow> flt) \<Rightarrow> 'm backend \<Rightarrow> 'm ml_pipeline \<Rightarrow> ohlcv_bar list \<Rightarrow>
   (ml_error + ('m \<times> model_metadata)) \<times> 'm ml_pipeline" where
  "train sq bk p bars =
     (case bindE (labelled_rows sq p bars) (train_on bk p) of
        Inl e \<Rightarrow> (Inl e, p)
      | Inr mm \<Rightarrow> (Inr mm, p\<lparr>mp_loaded := Some mm\<rparr>))"

definition load_model :: "'m ml_pipeline \<Rightarrow> 'm \<Rightarrow> model_metadata \<Rightarrow> (ml_error + unit) \<times> 'm ml_pipeline"
where
  "load_model p m meta =
     (if mm_schema meta \<noteq> ''v1'' then (Inl (MlValueError ''incompatible feature schema''), p)
      else (Inr (), p\<lparr>mp_loaded := Some (m, meta)\<rparr>))"

section \<open>Inference\<close>

text \<open>
  The mean absolute return of the last five candles. \<open>bars[i - 1]\<close> at \<open>i = 0\<close> is the last
  candle.
\<close>

definition before :: "ohlcv_bar list \<Rightarrow> nat \<Rightarrow> ohlcv_bar" where
  "before bars i = (if i = 0 then List.last bars else bars ! (i - 1))"

definition recent_volatility :: "ohlcv_bar list \<Rightarrow> flt" where
  "recent_volatility bars =
     (if length bars < 5 then 0
      else mean_or_zero
        (map (\<lambda>i. \<bar>(bar_close (bars ! i) - bar_close (before bars i)) / bar_close (before bars i)\<bar>)
          (filter (\<lambda>i. bar_close (before bars i) \<noteq> 0) [length bars - 5..<length bars])))"

definition clip01 :: "flt \<Rightarrow> flt" where
  "clip01 x = max 0 (min 1 x)"

definition no_prediction ::
  "'m backend \<Rightarrow> model_metadata \<Rightarrow> string \<Rightarrow> ohlcv_bar list \<Rightarrow> data_quality \<Rightarrow> prediction" where
  "no_prediction bk meta symbol bars q =
     \<lparr>pd_symbol = symbol, pd_direction = DIR_NEUTRAL, pd_probability = 0, pd_confidence = 0,
      pd_confidence_calibrated = False, pd_expected_return = 0, pd_volatility_estimate = 0,
      pd_regime = detect_regime bars 20, pd_model_id = mm_model_id meta,
      pd_algorithm = mm_algorithm meta,
      pd_feature_timestamp_ms = (if bars = [] then 0 else bar_ts (List.last bars)),
      pd_generated_at_ms = bk_now bk, pd_data_quality = q, pd_votes = [],
      pd_horizon_bars = mm_label_horizon_bars meta\<rparr>"

definition vote_of :: "model_metadata \<Rightarrow> proba \<Rightarrow> model_vote" where
  "vote_of meta p =
     \<lparr>mv_model_id = mm_model_id meta, mv_algorithm = mm_algorithm meta,
      mv_direction = int_to_direction (argmax3 p), mv_probability_up = proba_at p 2,
      mv_probability_down = proba_at p 0, mv_probability_neutral = proba_at p 1\<rparr>"

definition prediction_of ::
  "'m backend \<Rightarrow> model_metadata \<Rightarrow> string \<Rightarrow> ohlcv_bar list \<Rightarrow> data_quality \<Rightarrow> int \<Rightarrow> proba \<Rightarrow> prediction"
where
  "prediction_of bk meta symbol bars q ts p =
     \<lparr>pd_symbol = symbol, pd_direction = int_to_direction (argmax3 p),
      pd_probability = proba_at p (argmax3 p), pd_confidence = clip01 (margin_of p),
      pd_confidence_calibrated = False,
      pd_expected_return = (proba_at p 2 - proba_at p 0) * (1 / 100),
      pd_volatility_estimate = recent_volatility bars, pd_regime = detect_regime bars 20,
      pd_model_id = mm_model_id meta, pd_algorithm = mm_algorithm meta,
      pd_feature_timestamp_ms = ts, pd_generated_at_ms = bk_now bk, pd_data_quality = q,
      pd_votes = [vote_of meta p], pd_horizon_bars = mm_label_horizon_bars meta\<rparr>"

definition report_quality :: "data_quality_report option \<Rightarrow> data_quality" where
  "report_quality r = (case r of None \<Rightarrow> UNKNOWN_Q | Some q \<Rightarrow> quality q)"

definition first_proba :: "proba list \<Rightarrow> ml_error + proba" where
  "first_proba ps = (case ps of [] \<Rightarrow> Inl MlIndexError | p # qs \<Rightarrow> Inr p)"

definition predict ::
  "(flt \<Rightarrow> flt) \<Rightarrow> 'm backend \<Rightarrow> 'm ml_pipeline \<Rightarrow> string \<Rightarrow> ohlcv_bar list \<Rightarrow>
   data_quality_report option \<Rightarrow> ml_error + prediction" where
  "predict sq bk p symbol bars report =
     (case mp_loaded p of
        None \<Rightarrow> Inl (MlRuntimeError ''model not loaded/trained'')
      | Some (m, meta) \<Rightarrow>
          let q = report_quality report
          in if unusable q then Inr (no_prediction bk meta symbol bars q)
             else case compute_feature_row sq bars (int (length bars) - 1) of
               Inl e \<Rightarrow> Inl MlIndexError
             | Inr row \<Rightarrow>
                 let (names, vals) = select_features row (Some (meta_names meta)) (rl_max_features (mp_limits p))
                 in if names \<noteq> take (length names) (meta_names meta)
                    then Inl (MlValueError ''feature schema mismatch at inference'')
                    else bindE (bindE (bk_proba bk m [vals]) first_proba) (\<lambda>pr.
                      Inr (prediction_of bk meta symbol bars q (fr_ts row) pr)))"

section \<open>Properties\<close>

lemma slice_to_length: "0 \<le> n \<Longrightarrow> int (length (slice_to xs n)) \<le> n"
  by (simp add: slice_to_def)

lemma limits_positive:
  "0 \<le> rl_max_features (limits_for p)" "20 \<le> rl_max_training_rows (limits_for p)"
  by (cases p; simp)+

lemma feature_rows_length: "feature_rows sq bars is = Inr rows \<Longrightarrow> length rows = length is"
  by (induction "is" arbitrary: rows) (auto split: sum.splits)

lemma map_filter_length: "length (List.map_filter f xs) \<le> length xs"
  by (simp add: map_filter_def)

lemma labelled_bound:
  assumes "labelled_rows sq p bars = Inr paired"
  shows "int (length paired) \<le> rl_max_training_rows (mp_limits p)"
proof -
  let ?n = "rl_max_training_rows (mp_limits p)"
  obtain rows idx where rows: "build_feature_matrix sq bars 20 (Some ?n) = Inr (rows, idx)"
    and paired: "length paired \<le> length rows"
    using assms map_filter_length
    by (fastforce simp: labelled_rows_def split: sum.splits intro: order_trans [OF map_filter_length])
  have "length rows = length idx"
    using rows by (auto simp: build_feature_matrix_def Let_def split: sum.splits dest: feature_rows_length)
  moreover have "int (length idx) \<le> ?n"
    using rows limits_positive(2) [of "mp_profile p"]
    by (auto simp: build_feature_matrix_def Let_def mp_limits_def split: sum.splits if_splits)
  ultimately show ?thesis using paired by simp
qed

lemma selected_algorithm:
  "select_algorithm bk limits = ''fallback'' \<or>
    select_algorithm bk limits \<in> set (bk_available bk) \<inter> set (rl_algorithms limits)"
  by (auto simp: select_algorithm_def split: option.split dest: find_sound)

lemma upto_pick: "pick xs [0..int (length xs) - 1] = xs"
  by (auto simp: pick_def intro!: nth_equalityI)

text \<open>The training set is the oldest part of the rows; validation and test follow it.\<close>

lemma split_rows_order:
  assumes "length y = length x" and "split_rows x y = (tr, va, te)"
  obtains x2 y2 where "ts_x tr @ x2 @ ts_x te = x" "ts_y tr @ y2 @ ts_y te = y"
    "length (ts_x tr) = length (ts_y tr)" "x2 = [] \<or> ts_x va = x2 \<and> ts_y va = y2"
proof -
  obtain t v e where s: "default_split (int (length x)) = (t, v, e)"
    by (cases "default_split (int (length x))") auto
  have cover: "t @ v @ e = [0..int (length x) - 1]"
    by (rule default_split_in_order [OF _ s]) simp
  have "pick x t @ pick x v @ pick x e = x"
    using upto_pick [of x] by (simp add: pick_def flip: cover)
  moreover have "pick y t @ pick y v @ pick y e = y"
    using upto_pick [of y] assms(1) by (simp add: pick_def flip: cover)
  ultimately show ?thesis
    using assms(2)
    by (intro that [of "pick x v" "pick y v"]) (auto simp: split_rows_def s pick_def Let_def)
qed

text \<open>C27: A training run that succeeds used at least 30 labelled rows and at most as many as the profile
  allows, fitted only on the oldest of them, with no more features than the profile allows and an
  algorithm that is available or the built-in one; and the model is the one that is then loaded.
\<close>

theorem training_respects_profile:
  assumes "train sq bk p bars = (Inr (m, meta), q)"
  shows "mp_loaded q = Some (m, meta) \<and>
    (\<exists>paired x rest m0. labelled_rows sq p bars = Inr paired \<and>
      30 \<le> length paired \<and> int (length paired) \<le> rl_max_training_rows (mp_limits p) \<and>
      x @ rest = map (\<lambda>(r, l). snd (select_features r (Some (map name_text (mm_feature_names meta)))
        (rl_max_features (mp_limits p)))) paired \<and>
      bk_fit bk m0 x (take (length x) (map snd paired)) (map name_text (mm_feature_names meta)) = Inr m \<and>
      mm_training_rows meta = int (length x)) \<and>
    int (length (mm_feature_names meta)) \<le> rl_max_features (mp_limits p) \<and>
    mm_algorithm meta \<in> insert ''fallback'' (set (bk_available bk))"
proof -
  let ?limits = "mp_limits p"
  let ?names = "slice_to FEATURE_NAMES (rl_max_features ?limits)"
  obtain paired where paired: "labelled_rows sq p bars = Inr paired" "train_on bk p paired = Inr (m, meta)"
    and q: "mp_loaded q = Some (m, meta)"
    using assms by (auto simp: train_def bindE_def split: sum.splits)
  let ?x = "map (\<lambda>(r, l). snd (select_features r (Some ?names) (rl_max_features ?limits))) paired"
  obtain tr va te where s: "split_rows ?x (map snd paired) = (tr, va, te)"
    by (cases "split_rows ?x (map snd paired)") auto
  obtain m0 where enough: "30 \<le> length paired"
    and fit: "bk_fit bk m0 (ts_x tr) (ts_y tr) ?names = Inr m"
    and meta: "mm_feature_names meta = map PyStr ?names" "mm_training_rows meta = int (length (ts_x tr))"
      "mm_algorithm meta = select_algorithm bk ?limits"
    using paired(2) by (auto simp: train_on_def s Let_def bindE_def new_metadata_def
        split: sum.splits if_splits)
  obtain x2 y2 where order: "ts_x tr @ x2 @ ts_x te = ?x" "ts_y tr @ y2 @ ts_y te = map snd paired"
    "length (ts_x tr) = length (ts_y tr)"
    by (rule split_rows_order [OF _ s]) simp
  have names: "map name_text (mm_feature_names meta) = ?names"
    by (simp add: meta(1) name_text_def comp_def)
  have y: "take (length (ts_x tr)) (map snd paired) = ts_y tr"
    using order(3) by (simp flip: order(2))
  have "\<exists>paired x rest m0. labelled_rows sq p bars = Inr paired \<and>
      30 \<le> length paired \<and> int (length paired) \<le> rl_max_training_rows ?limits \<and>
      x @ rest = map (\<lambda>(r, l). snd (select_features r (Some ?names) (rl_max_features ?limits))) paired \<and>
      bk_fit bk m0 x (take (length x) (map snd paired)) ?names = Inr m \<and>
      mm_training_rows meta = int (length x)"
    using paired(1) enough labelled_bound [OF paired(1)] order(1) fit meta(2) y
    by (intro exI [of _ paired] exI [of _ "ts_x tr"] exI [of _ "x2 @ ts_x te"] exI [of _ m0]) simp
  moreover have "int (length (mm_feature_names meta)) \<le> rl_max_features ?limits"
    using slice_to_length [OF limits_positive(1), of FEATURE_NAMES "mp_profile p"]
    by (simp add: meta(1) mp_limits_def)
  moreover have "mm_algorithm meta \<in> insert ''fallback'' (set (bk_available bk))"
    using selected_algorithm [of bk ?limits] by (auto simp: meta(3))
  ultimately show ?thesis using q by (simp only: names)
qed

text \<open>Training succeeds whenever there are 30 labelled rows and the model's operations return.\<close>

definition works :: "'m backend \<Rightarrow> bool" where
  "works bk \<longleftrightarrow> (\<forall>m x y n. \<exists>m'. bk_fit bk m x y n = Inr m') \<and>
     (\<forall>m x. \<exists>ps. bk_predict bk m x = Inr ps \<and> length ps = length x)"

lemma eval_returns:
  assumes "works bk" and "length x = length y"
  shows "\<exists>ms. eval_metrics bk m x y = Inr ms"
proof -
  obtain ps where "bk_predict bk m x = Inr ps" "length ps = length x"
    using assms(1) unfolding works_def by blast
  then show ?thesis using assms(2) by (simp add: eval_metrics_def Let_def)
qed

lemma slice_from_same: "length x = length y \<Longrightarrow> length (slice_from x i) = length (slice_from y i)"
  by (simp add: slice_from_def)

lemma split_lengths:
  assumes "split_rows x y = (tr, va, te)"
  shows "length (ts_x tr) = length (ts_y tr) \<and> length (ts_x va) = length (ts_y va) \<and>
    length (ts_x te) = length (ts_y te)"
proof -
  obtain t v e where "default_split (int (length x)) = (t, v, e)"
    by (cases "default_split (int (length x))") auto
  moreover have "length (pick x i) = length (pick y i)" for i by (simp add: pick_def)
  ultimately show ?thesis
    using assms slice_from_same [of "pick x t" "pick y t" "- 10"]
    by (cases "v = []") (auto simp: split_rows_def Let_def)
qed

lemma training_succeeds:
  assumes "works bk" and "labelled_rows sq p bars = Inr paired" and "30 \<le> length paired"
    and "create_model bk (select_algorithm bk (mp_limits p)) (mp_limits p) = Inr m0"
  shows "\<exists>m meta. fst (train sq bk p bars) = Inr (m, meta)"
proof -
  let ?names = "slice_to FEATURE_NAMES (rl_max_features (mp_limits p))"
  let ?x = "map (\<lambda>(r, l). snd (select_features r (Some ?names) (rl_max_features (mp_limits p)))) paired"
  obtain tr va te where s: "split_rows ?x (map snd paired) = (tr, va, te)"
    by (cases "split_rows ?x (map snd paired)") auto
  obtain m where m: "bk_fit bk m0 (ts_x tr) (ts_y tr) ?names = Inr m"
    using assms(1) unfolding works_def by blast
  obtain v t where "eval_metrics bk m (ts_x va) (ts_y va) = Inr v" "eval_metrics bk m (ts_x te) (ts_y te) = Inr t"
    using eval_returns [OF assms(1)] split_lengths [OF s] by metis
  with m s assms(3,4) have "\<exists>mm. train_on bk p paired = Inr mm"
    by (simp add: train_on_def Let_def bindE_def)
  then show ?thesis using assms(2) by (auto simp: train_def bindE_def)
qed

lemma feature_rows_return:
  "set is \<subseteq> {0..<int (length bars)} \<Longrightarrow> \<exists>rows. feature_rows sq bars is = Inr rows \<and> length rows = length is"
  by (induction "is") (auto simp: compute_feature_row_def)

lemma labelled_rows_all:
  assumes "build_labels bars [20..int (length bars) - 1] (mp_label_config p) = map Some ls"
    and "int (length bars) - 20 \<le> rl_max_training_rows (mp_limits p)"
  shows "\<exists>paired. labelled_rows sq p bars = Inr paired \<and> length paired = length ls"
proof -
  let ?idx = "[20..int (length bars) - 1]"
  obtain rows where rows: "feature_rows sq bars ?idx = Inr rows" "length rows = length ?idx"
  proof -
    have "set ?idx \<subseteq> {0..<int (length bars)}" by auto
    from feature_rows_return [OF this, of sq] that show thesis by blast
  qed
  have "length ls = length ?idx"
    using arg_cong [OF assms(1), of length] by (simp add: build_labels_def)
  moreover have "List.map_filter (\<lambda>(r, l). map_option (\<lambda>d. (r, direction_to_int d)) l) (zip rs (map Some ls)) =
      map (\<lambda>(r, d). (r, direction_to_int d)) (zip rs ls)" for rs :: "feature_row list"
    by (auto simp: zip_map2 map_filter_def comp_def split_def)
  ultimately show ?thesis
    using rows assms by (simp add: labelled_rows_def build_feature_matrix_def Let_def)
qed

text \<open>A prediction from unusable data is neutral; any prediction has its confidence in [0, 1].\<close>

lemma prediction_safe:
  assumes "predict sq bk p symbol bars report = Inr r"
  shows "0 \<le> pd_confidence r \<and> pd_confidence r \<le> 1 \<and>
    (unusable (report_quality report) \<longrightarrow> \<not> is_actionable r c) \<and>
    pd_data_quality r = report_quality report"
  using assms
  by (auto simp: predict_def bindE_def no_prediction_def prediction_of_def is_actionable_def clip01_def
      Let_def split: option.splits prod.splits sum.splits if_splits)

text \<open>
  With exactly five candles the first return is taken from the last candle, as if it preceded the
  first one.
\<close>

lemma volatility_wraps:
  "recent_volatility (map (\<lambda>p. \<lparr>bar_ts = 0, bar_open = p, bar_high = p, bar_low = p,
     bar_close = p, bar_volume = 0\<rparr>) [100, 100, 100, 100, 200]) = 3 / 10"
  by code_simp

end
