(* ===== verification/Ensemble.thy ===== *)
theory Ensemble
  imports MlPipeline Governor "HOL-Library.Product_Lexorder"
begin

text \<open>
  The ensemble of models: weights (\<open>src/src/crypto/ensemble/weighting.py\<close>), the aggregation of votes
  (\<open>aggregate.py\<close>), the selection of models under a resource budget (\<open>ml/governor.py\<close>) and the
  engine that runs the selected models (\<open>ensemble/engine.py\<close>).

  The wall clock is the argument \<open>now\<close>; the measured duration of the model at position \<open>k\<close> of a
  prediction is \<open>latency k\<close>.
\<close>

section \<open>Weights\<close>

record weight_config =
  wc_base :: "(string, flt) dict"
  wc_regime_multipliers :: "(string, (string, flt) dict) dict option"
  wc_min_weight :: flt
  wc_max_weight :: flt

fun regime_name :: "regime \<Rightarrow> string" where
  "regime_name TREND_UP = ''TREND_UP''"
| "regime_name TREND_DOWN = ''TREND_DOWN''"
| "regime_name SIDEWAYS = ''SIDEWAYS''"
| "regime_name HIGH_VOLATILITY = ''HIGH_VOLATILITY''"
| "regime_name LOW_VOLATILITY = ''LOW_VOLATILITY''"
| "regime_name REGIME_UNKNOWN = ''UNKNOWN''"

definition DEFAULT_WEIGHTS :: weight_config where
  "DEFAULT_WEIGHTS =
     \<lparr>wc_base = [(''lightgbm'', 1), (''xgboost'', 1), (''random_forest'', 9 / 10),
                 (''catboost'', 9 / 10), (''fallback'', 4 / 10)],
      wc_regime_multipliers = Some
        [(''HIGH_VOLATILITY'', [(''random_forest'', 12 / 10), (''fallback'', 8 / 10)]),
         (''TREND_UP'', [(''lightgbm'', 115 / 100), (''xgboost'', 11 / 10)]),
         (''TREND_DOWN'', [(''lightgbm'', 115 / 100), (''xgboost'', 11 / 10)]),
         (''SIDEWAYS'', [(''random_forest'', 11 / 10), (''fallback'', 1)])],
      wc_min_weight = 5 / 100, wc_max_weight = 70 / 100\<rparr>"

type_synonym metrics_by_model = "(string, (string, flt) dict) dict"

definition accuracy_nudge :: "metrics_by_model option \<Rightarrow> string \<Rightarrow> flt \<Rightarrow> flt" where
  "accuracy_nudge metrics algo w =
     (case metrics of None \<Rightarrow> w
      | Some ms \<Rightarrow>
          (case map_of ms algo of None \<Rightarrow> w
           | Some m \<Rightarrow>
               (case map_of m ''accuracy'' of None \<Rightarrow> w
                | Some acc \<Rightarrow> w * max (1 / 2) (min (13 / 10) (1 / 2 + acc)))))"

definition raw_weight :: "weight_config \<Rightarrow> regime \<Rightarrow> metrics_by_model option \<Rightarrow> string \<Rightarrow> flt" where
  "raw_weight cfg rg metrics algo =
     (let reg_map = dict_get (opt_get (wc_regime_multipliers cfg) []) (regime_name rg) [];
          w = dict_get (wc_base cfg) algo (1 / 2) * dict_get reg_map algo 1
      in max (wc_min_weight cfg) (min (wc_max_weight cfg) (accuracy_nudge metrics algo w)))"

definition or_one :: "flt \<Rightarrow> flt" where
  "or_one x = (if x = 0 then 1 else x)"

definition compute_weights ::
  "string list \<Rightarrow> regime \<Rightarrow> metrics_by_model option \<Rightarrow> weight_config option \<Rightarrow> (string, flt) dict" where
  "compute_weights algorithms rg metrics config =
     (let cfg = opt_get config DEFAULT_WEIGHTS;
          raw = foldl (\<lambda>d a. AList.update a (raw_weight cfg rg metrics a) d) [] algorithms;
          total = or_one (dict_total raw)
      in map (\<lambda>(k, v). (k, v / total)) raw)"

definition weights_of ::
  "string list \<Rightarrow> regime \<Rightarrow> metrics_by_model option \<Rightarrow> weight_config option \<Rightarrow> string \<Rightarrow> flt" where
  "weights_of algorithms rg metrics config a =
     dict_get (compute_weights algorithms rg metrics config) a 0"

section \<open>Aggregation\<close>

record ensemble_prediction =
  ep_symbol :: string
  ep_direction :: direction
  ep_probability :: flt
  ep_confidence :: flt
  ep_confidence_calibrated :: bool
  ep_agreement :: flt
  ep_disagreement :: flt
  ep_high_disagreement :: bool
  ep_expected_return :: flt
  ep_volatility_estimate :: flt
  ep_regime :: regime
  ep_model_votes :: "model_vote list"
  ep_model_versions :: "string list"
  ep_weights_used :: "(string, flt) dict"
  ep_data_quality :: data_quality
  ep_opportunity_score :: flt
  ep_feature_timestamp_ms :: int
  ep_generated_at_ms :: int
  ep_horizon_bars :: int

definition to_prediction :: "ensemble_prediction \<Rightarrow> prediction" where
  "to_prediction e =
     \<lparr>pd_symbol = ep_symbol e, pd_direction = ep_direction e, pd_probability = ep_probability e,
      pd_confidence = ep_confidence e, pd_confidence_calibrated = ep_confidence_calibrated e,
      pd_expected_return = ep_expected_return e, pd_volatility_estimate = ep_volatility_estimate e,
      pd_regime = ep_regime e, pd_model_id = ''ensemble'', pd_algorithm = ''ensemble'',
      pd_feature_timestamp_ms = ep_feature_timestamp_ms e,
      pd_generated_at_ms = ep_generated_at_ms e, pd_data_quality = ep_data_quality e,
      pd_votes = ep_model_votes e, pd_horizon_bars = ep_horizon_bars e\<rparr>"

definition vote_proba :: "model_vote \<Rightarrow> proba" where
  "vote_proba v = (mv_probability_down v, mv_probability_neutral v, mv_probability_up v)"

definition add_weighted :: "(string, flt) dict \<Rightarrow> proba \<Rightarrow> model_vote \<Rightarrow> proba" where
  "add_weighted ws s v =
     (case (s, vote_proba v) of ((a, b, c), (x, y, z)) \<Rightarrow>
        let w = dict_get ws (mv_algorithm v) 0 in (a + w * x, b + w * y, c + w * z))"

definition agree_mass :: "(string, flt) dict \<Rightarrow> direction \<Rightarrow> model_vote list \<Rightarrow> flt" where
  "agree_mass ws d votes =
     foldl (\<lambda>m v. if int_to_direction (argmax3 (vote_proba v)) = d
                  then m + dict_get ws (mv_algorithm v) 0 else m) 0 votes"

record vote_context =
  vc_regime :: regime
  vc_data_quality :: data_quality
  vc_feature_timestamp_ms :: int
  vc_volatility :: flt
  vc_metrics :: "metrics_by_model option"
  vc_weight_config :: "weight_config option"
  vc_disagreement_threshold :: flt
  vc_horizon_bars :: int

definition no_votes :: "string \<Rightarrow> vote_context \<Rightarrow> int \<Rightarrow> ensemble_prediction" where
  "no_votes symbol c now =
     \<lparr>ep_symbol = symbol, ep_direction = DIR_NEUTRAL, ep_probability = 0, ep_confidence = 0,
      ep_confidence_calibrated = False, ep_agreement = 0, ep_disagreement = 1,
      ep_high_disagreement = True, ep_expected_return = 0,
      ep_volatility_estimate = vc_volatility c, ep_regime = vc_regime c, ep_model_votes = [],
      ep_model_versions = [], ep_weights_used = [], ep_data_quality = vc_data_quality c,
      ep_opportunity_score = 0, ep_feature_timestamp_ms = vc_feature_timestamp_ms c,
      ep_generated_at_ms = now, ep_horizon_bars = vc_horizon_bars c\<rparr>"

definition aggregate_votes ::
  "string \<Rightarrow> model_vote list \<Rightarrow> vote_context \<Rightarrow> int \<Rightarrow> ensemble_prediction" where
  "aggregate_votes symbol votes c now =
     (if votes = [] then no_votes symbol c now
      else
        let weights = compute_weights (map mv_algorithm votes) (vc_regime c) (vc_metrics c)
              (vc_weight_config c);
            score = shares (foldl (add_weighted weights) (0, 0, 0) votes);
            d = int_to_direction (argmax3 score);
            agreement = clip01 (agree_mass weights d votes);
            disagreement = 1 - agreement;
            confidence = clip01 (margin_of score * (1 - 1 / 2 * disagreement));
            seed = (if unusable (vc_data_quality c) then 0
                    else confidence * (1 - 3 / 10 * disagreement))
        in \<lparr>ep_symbol = symbol, ep_direction = d, ep_probability = proba_at score (argmax3 score),
            ep_confidence = confidence, ep_confidence_calibrated = False,
            ep_agreement = agreement, ep_disagreement = disagreement,
            ep_high_disagreement = (vc_disagreement_threshold c \<le> disagreement),
            ep_expected_return = (proba_at score 2 - proba_at score 0) * (1 / 100),
            ep_volatility_estimate = vc_volatility c, ep_regime = vc_regime c,
            ep_model_votes = votes, ep_model_versions = map mv_model_id votes,
            ep_weights_used = weights, ep_data_quality = vc_data_quality c,
            ep_opportunity_score = clip01 seed,
            ep_feature_timestamp_ms = vc_feature_timestamp_ms c, ep_generated_at_ms = now,
            ep_horizon_bars = vc_horizon_bars c\<rparr>)"

section \<open>Selection of models\<close>

record model_health =
  mh_algorithm :: string
  mh_latency_ms_ewma :: flt
  mh_error_rate :: flt
  mh_samples :: int

definition healthy :: "model_health \<Rightarrow> bool" where
  "healthy h \<longleftrightarrow> mh_error_rate h < 20 / 100 \<and> mh_latency_ms_ewma h < 2000"

record ml_selection =
  sel_active :: "string list"
  sel_considered :: "string list"
  sel_rejected :: "string list"
  sel_reason :: string

record model_governor =
  mgov_health :: "(string, model_health) dict"
  mgov_last :: "ml_selection option"

definition new_model_governor :: model_governor where
  "new_model_governor = \<lparr>mgov_health = [], mgov_last = None\<rparr>"

definition profile_slots :: "string \<Rightarrow> int" where
  "profile_slots p = dict_get
     [(''ULTRA_LITE'', 1), (''LITE'', 1), (''BALANCED'', 2), (''PERFORMANCE'', 3), (''EXTREME'', 4)] p 1"

fun state_factor :: "governor_state \<Rightarrow> flt" where
  "state_factor NORMAL_G = 1"
| "state_factor RECOVERY_G = 75 / 100"
| "state_factor DEGRADED_G = 60 / 100"
| "state_factor CONSTRAINED_G = 25 / 100"
| "state_factor CRITICAL_G = 25 / 100"

definition MIN_SCORE :: flt where
  "MIN_SCORE = 34 / 100"

definition observe :: "model_governor \<Rightarrow> string \<Rightarrow> flt option \<Rightarrow> bool \<Rightarrow> model_governor" where
  "observe g algorithm latency success =
     (let key = py_lower algorithm;
          old = dict_get (mgov_health g) key
            \<lparr>mh_algorithm = key, mh_latency_ms_ewma = 0, mh_error_rate = 0, mh_samples = 0\<rparr>;
          alpha = 20 / 100;
          lat = (case latency of
             None \<Rightarrow> mh_latency_ms_ewma old
           | Some x \<Rightarrow>
               let v = max 0 x
               in if mh_samples old = 0 then v
                  else (1 - alpha) * mh_latency_ms_ewma old + alpha * v);
          err = (if success then 0 else 1);
          rate = (if mh_samples old = 0 then err else (1 - alpha) * mh_error_rate old + alpha * err)
      in g\<lparr>mgov_health := AList.update key
            \<lparr>mh_algorithm = key, mh_latency_ms_ewma = lat, mh_error_rate = rate,
             mh_samples = min (mh_samples old + 1) 100000\<rparr> (mgov_health g)\<rparr>)"

definition quality_score :: "model_metadata \<Rightarrow> flt" where
  "quality_score meta =
     (case map_of (mm_metrics meta) ''test_accuracy'' of
        Some v \<Rightarrow> max 0 (min 1 v)
      | None \<Rightarrow>
     (case map_of (mm_metrics meta) ''accuracy'' of
        Some v \<Rightarrow> max 0 (min 1 v)
      | None \<Rightarrow> 34 / 100))"

definition load_latest :: "('m \<times> model_metadata) list \<Rightarrow> (string, model_metadata) dict" where
  "load_latest models = foldl (\<lambda>d (m, meta). AList.update (py_lower (mm_algorithm meta)) meta d) [] models"

definition slot_score ::
  "(string, model_health) dict \<Rightarrow> nat \<Rightarrow> string \<Rightarrow> model_metadata \<Rightarrow> flt" where
  "slot_score health n_loaded algo meta =
     (let s0 = quality_score meta;
          s1 = (case map_of health algo of
             None \<Rightarrow> s0
           | Some h \<Rightarrow>
               let s = s0 * max (25 / 100) (1 - min (75 / 100) (mh_error_rate h))
               in if 500 < mh_latency_ms_ewma h
                  then s * max (35 / 100) (500 / mh_latency_ms_ewma h) else s)
      in if algo = ''fallback'' \<and> 1 < n_loaded then s1 * (25 / 100) else s1)"

text \<open>\<open>max(d, key=...)\<close>: the first key with the largest value.\<close>

fun first_max :: "('a \<Rightarrow> flt) \<Rightarrow> 'a \<Rightarrow> 'a list \<Rightarrow> 'a" where
  "first_max f best [] = best"
| "first_max f best (x # xs) = first_max f (if f best < f x then x else best) xs"

definition select_slots :: "string \<Rightarrow> governor_state \<Rightarrow> int" where
  "select_slots profile st =
     (let ceiling = profile_slots profile
      in max 1 (min ceiling (py_trunc (of_int ceiling * state_factor st))))"

definition pick_active ::
  "(string, model_health) dict \<Rightarrow> (string, model_metadata) dict \<Rightarrow> int \<Rightarrow> string list" where
  "pick_active health loaded slots =
     (let scored = filter (\<lambda>(s, a). MIN_SCORE \<le> s \<or> a = ''fallback'')
            (map (\<lambda>(a, meta). (slot_score health (length loaded) a meta, a)) loaded);
          active = map snd (slice_to (sort_key (\<lambda>(s, a). (- s, a)) scored) slots)
      in if active \<noteq> [] then active
         else [fst (first_max (\<lambda>(a, meta). quality_score meta) (hd loaded) (tl loaded))])"

definition select ::
  "model_governor \<Rightarrow> ('m \<times> model_metadata) list \<Rightarrow> string \<Rightarrow> governor_state \<Rightarrow>
   ml_selection \<times> model_governor" where
  "select g models profile st =
     (let loaded = load_latest models; considered = sort (map fst loaded);
          result =
            (if loaded = [] then
               \<lparr>sel_active = [], sel_considered = [], sel_rejected = [], sel_reason = ''no models loaded''\<rparr>
             else
               let slots = select_slots profile st; active = pick_active (mgov_health g) loaded slots
               in \<lparr>sel_active = active, sel_considered = considered,
                   sel_rejected = filter (\<lambda>a. a \<notin> set active) considered,
                   sel_reason = ''profile='' @ profile @ '' state='' @ governor_name st @ '' slots='' @
                     show_int slots @ ''/'' @ show_int (profile_slots profile) @ ''; active='' @
                     join '','' active\<rparr>)
      in (result, g\<lparr>mgov_last := Some result\<rparr>))"

section \<open>The engine\<close>

record 'm ensemble_engine =
  ee_max_models :: int
  ee_models :: "('m \<times> model_metadata) list"
  ee_weight_config :: "weight_config option"
  ee_governor :: model_governor
  ee_catalog :: "('m \<times> model_metadata) list"
  ee_last_selection :: "ml_selection option"

definition new_ensemble ::
  "('m \<times> model_metadata) list \<Rightarrow> weight_config option \<Rightarrow> int \<Rightarrow> 'm ensemble_engine" where
  "new_ensemble models cfg max_models =
     (let n = max 1 max_models; ms = slice_to models n
      in \<lparr>ee_max_models = n, ee_models = ms, ee_weight_config = cfg,
          ee_governor = new_model_governor, ee_catalog = ms, ee_last_selection = None\<rparr>)"

definition add_model :: "'m ensemble_engine \<Rightarrow> 'm \<Rightarrow> model_metadata \<Rightarrow> 'm ensemble_engine" where
  "add_model g m meta =
     (if 8 \<le> length (ee_catalog g) then g
      else let cat = ee_catalog g @ [(m, meta)]
           in g\<lparr>ee_catalog := cat, ee_models := slice_to cat (ee_max_models g)\<rparr>)"

definition configure_governor ::
  "'m ensemble_engine \<Rightarrow> string \<Rightarrow> governor_state \<Rightarrow> ml_selection \<times> 'm ensemble_engine" where
  "configure_governor g profile st =
     (let (sel, gov) = select (ee_governor g) (ee_catalog g) profile st
      in (sel, g\<lparr>ee_governor := gov,
                ee_models := filter (\<lambda>(m, meta). py_lower (mm_algorithm meta) \<in> set (sel_active sel))
                  (ee_catalog g),
                ee_last_selection := Some sel\<rparr>))"

definition observe_model ::
  "'m ensemble_engine \<Rightarrow> string \<Rightarrow> flt option \<Rightarrow> bool \<Rightarrow> 'm ensemble_engine" where
  "observe_model g algorithm latency success =
     g\<lparr>ee_governor := observe (ee_governor g) algorithm latency success\<rparr>"

record poll_state =
  ps_governor :: model_governor
  ps_votes :: "model_vote list"
  ps_metrics :: metrics_by_model

definition poll_model ::
  "'m backend \<Rightarrow> feature_row \<Rightarrow> (nat \<Rightarrow> flt) \<Rightarrow> nat \<Rightarrow> poll_state \<Rightarrow> 'm \<Rightarrow> model_metadata \<Rightarrow> poll_state"
where
  "poll_model bk row latency k s m meta =
     (let names = meta_names meta;
          (used, vals) = select_features row (Some names) (int (length names))
      in if length used \<noteq> length names then s
         else case bindE (bk_proba bk m [vals]) first_proba of
           Inl e \<Rightarrow> s\<lparr>ps_governor := observe (ps_governor s) (mm_algorithm meta) (Some (latency k)) False\<rparr>
         | Inr p \<Rightarrow>
             s\<lparr>ps_governor := observe (ps_governor s) (mm_algorithm meta) (Some (latency k)) True,
               ps_votes := ps_votes s @ [vote_of meta p],
               ps_metrics := (if mm_metrics meta = [] then ps_metrics s
                  else AList.update (mm_algorithm meta) (mm_metrics meta) (ps_metrics s))\<rparr>)"

fun poll_models ::
  "'m backend \<Rightarrow> feature_row \<Rightarrow> (nat \<Rightarrow> flt) \<Rightarrow> nat \<Rightarrow> poll_state \<Rightarrow> ('m \<times> model_metadata) list \<Rightarrow> poll_state"
where
  "poll_models bk row latency k s [] = s"
| "poll_models bk row latency k s ((m, meta) # ms) =
     poll_models bk row latency (Suc k) (poll_model bk row latency k s m meta) ms"

definition base_context :: "ohlcv_bar list \<Rightarrow> data_quality \<Rightarrow> vote_context" where
  "base_context bars q =
     \<lparr>vc_regime = (if bars = [] then REGIME_UNKNOWN else detect_regime bars 20), vc_data_quality = q,
      vc_feature_timestamp_ms = (if bars = [] then 0 else bar_ts (List.last bars)),
      vc_volatility = 0, vc_metrics = None, vc_weight_config = None,
      vc_disagreement_threshold = 4 / 10, vc_horizon_bars = 5\<rparr>"

definition ensemble_predict ::
  "(flt \<Rightarrow> flt) \<Rightarrow> 'm backend \<Rightarrow> (nat \<Rightarrow> flt) \<Rightarrow> int \<Rightarrow> 'm ensemble_engine \<Rightarrow> string \<Rightarrow> ohlcv_bar list \<Rightarrow>
   data_quality_report option \<Rightarrow> ensemble_prediction \<times> 'm ensemble_engine" where
  "ensemble_predict sq bk latency now g symbol bars report =
     (let q = report_quality report; c = base_context bars q
      in if unusable q then (aggregate_votes symbol [] c now, g)
         else if ee_models g = [] \<or> bars = [] then (aggregate_votes symbol [] c now, g)
         else case compute_feature_row sq bars (int (length bars) - 1) of
           Inl e \<Rightarrow> (aggregate_votes symbol [] c now, g)
         | Inr row \<Rightarrow>
             let s = poll_models bk row latency 0
                   \<lparr>ps_governor = ee_governor g, ps_votes = [], ps_metrics = []\<rparr> (ee_models g)
             in (aggregate_votes symbol (ps_votes s)
                   (c\<lparr>vc_volatility := recent_volatility bars,
                      vc_metrics := (if ps_metrics s = [] then None else Some (ps_metrics s)),
                      vc_weight_config := ee_weight_config g\<rparr>) now,
                 g\<lparr>ee_governor := ps_governor s\<rparr>))"

end
