(* ===== verification/EnsembleProps.thy ===== *)
theory EnsembleProps
  imports Ensemble
begin

text \<open>
  The ensemble's numbers stay in their ranges, its weights are normalised, and the selection of models
  is a nonempty part of the loaded ones within the slots of the profile.
\<close>

section \<open>Weights\<close>

lemma update_subset: "set (AList.update k v d) \<subseteq> insert (k, v) (set d)"
  by (induction d) auto

lemma raw_weights:
  fixes f :: "string \<Rightarrow> flt"
  assumes "\<And>a. 0 < f a"
  defines "build \<equiv> foldl (\<lambda>d a. AList.update a (f a) d) []"
  shows "(\<forall>(a, w) \<in> set (build as). w = f a) \<and> set (map fst (build as)) = set as \<and>
    distinct (map fst (build as))"
proof (induction as rule: rev_induct)
  case Nil
  then show ?case by (simp add: build_def)
next
  case (snoc a as)
  have step: "build (as @ [a]) = AList.update a (f a) (build as)" by (simp add: build_def)
  show ?case
    using snoc update_subset [of a "f a" "build as"]
    by (auto simp: step update_keys distinct_update)
qed

lemma positive_total: "d \<noteq> [] \<Longrightarrow> \<forall>(a, w) \<in> set d. 0 < w \<Longrightarrow> 0 < dict_total d"
proof -
  have nonneg: "0 \<le> dict_total d" if "\<forall>(a, w) \<in> set d. 0 < w" for d
    using that by (induction d) (auto simp: dict_total_def add_nonneg_nonneg)
  assume "d \<noteq> []" and pos: "\<forall>(a, w) \<in> set d. 0 < w"
  then obtain a w e where d: "d = (a, w) # e" by (cases d) auto
  with pos nonneg [of e] show ?thesis by (simp add: dict_total_def add_pos_nonneg)
qed

lemma scaled_total: "dict_total (map (\<lambda>(k, v). (k, v / t)) d) = dict_total d / t"
  by (induction d) (auto simp: dict_total_def add_divide_distrib)

lemma weights_normalised:
  assumes "algorithms \<noteq> []" and "0 < wc_min_weight (opt_get config DEFAULT_WEIGHTS)"
  shows "dict_total (compute_weights algorithms rg metrics config) = 1 \<and>
    (\<forall>(a, w) \<in> set (compute_weights algorithms rg metrics config). 0 < w) \<and>
    fst ` set (compute_weights algorithms rg metrics config) = set algorithms"
proof -
  let ?f = "raw_weight (opt_get config DEFAULT_WEIGHTS) rg metrics"
  let ?raw = "foldl (\<lambda>d a. AList.update a (?f a) d) [] algorithms"
  have pos: "0 < ?f a" for a using assms(2) by (simp add: raw_weight_def Let_def)
  from raw_weights [of ?f algorithms, OF this]
  have raw: "\<forall>(a, w) \<in> set ?raw. w = ?f a" "fst ` set ?raw = set algorithms" by auto
  then have "?raw \<noteq> []" using assms(1) by (metis empty_set image_is_empty set_empty)
  moreover have all_pos: "\<forall>(a, w) \<in> set ?raw. 0 < w" using raw(1) pos by auto
  ultimately have total: "0 < dict_total ?raw" by (rule positive_total)
  then show ?thesis
    using all_pos raw(2) by (auto simp: compute_weights_def Let_def scaled_total or_one_def image_iff)
      force+
qed

section \<open>Aggregation\<close>

lemma clip01_bounds: "0 \<le> clip01 x \<and> clip01 x \<le> 1"
  by (simp add: clip01_def)

lemma aggregate_bounds:
  "0 \<le> ep_agreement (aggregate_votes symbol votes c now) \<and>
   ep_agreement (aggregate_votes symbol votes c now) \<le> 1 \<and>
   ep_agreement (aggregate_votes symbol votes c now) + ep_disagreement (aggregate_votes symbol votes c now) = 1 \<and>
   0 \<le> ep_confidence (aggregate_votes symbol votes c now) \<and>
   ep_confidence (aggregate_votes symbol votes c now) \<le> 1 \<and>
   0 \<le> ep_opportunity_score (aggregate_votes symbol votes c now) \<and>
   ep_opportunity_score (aggregate_votes symbol votes c now) \<le> 1 \<and>
   ep_data_quality (aggregate_votes symbol votes c now) = vc_data_quality c"
  using clip01_bounds by (auto simp: aggregate_votes_def no_votes_def Let_def)

text \<open>The two loops as sums over the votes.\<close>

lemma add_weighted_sums:
  "foldl (add_weighted ws) (a, b, c) votes =
     (a + sum_list (map (\<lambda>v. dict_get ws (mv_algorithm v) 0 * mv_probability_down v) votes),
      b + sum_list (map (\<lambda>v. dict_get ws (mv_algorithm v) 0 * mv_probability_neutral v) votes),
      c + sum_list (map (\<lambda>v. dict_get ws (mv_algorithm v) 0 * mv_probability_up v) votes))"
  by (induction votes arbitrary: a b c) (simp_all add: add_weighted_def vote_proba_def Let_def)

lemma agree_mass_sum:
  "agree_mass ws d votes = sum_list (map (\<lambda>v. dict_get ws (mv_algorithm v) 0)
     (filter (\<lambda>v. int_to_direction (argmax3 (vote_proba v)) = d) votes))"
proof -
  have "foldl (\<lambda>m v. if int_to_direction (argmax3 (vote_proba v)) = d
      then m + dict_get ws (mv_algorithm v) 0 else m) a votes =
    a + sum_list (map (\<lambda>v. dict_get ws (mv_algorithm v) 0)
      (filter (\<lambda>v. int_to_direction (argmax3 (vote_proba v)) = d) votes))" for a
    by (induction votes arbitrary: a) simp_all
  then show ?thesis by (simp add: agree_mass_def)
qed

text \<open>Weighted sums of distributions: the parts add up to the total weight.\<close>

lemma weighted_mass:
  fixes f :: "model_vote \<Rightarrow> flt"
  assumes "\<forall>v \<in> set votes. proba_ok (vote_proba v)"
  shows "sum_list (map (\<lambda>v. f v * mv_probability_down v) votes) +
    sum_list (map (\<lambda>v. f v * mv_probability_neutral v) votes) +
    sum_list (map (\<lambda>v. f v * mv_probability_up v) votes) = sum_list (map f votes)"
  using assms
proof (induction votes)
  case Nil
  then show ?case by simp
next
  case (Cons v votes)
  then have "mv_probability_down v + mv_probability_neutral v + mv_probability_up v = 1"
    by (simp add: proba_ok_def vote_proba_def)
  then have "f v * mv_probability_down v + f v * mv_probability_neutral v + f v * mv_probability_up v = f v"
    by (simp flip: distrib_left)
  with Cons show ?case by simp
qed

lemma total_weight_positive:
  fixes ws :: "(string, flt) dict" and votes :: "model_vote list"
  assumes "votes \<noteq> []" and "\<forall>(a, w) \<in> set ws. 0 < w" and "fst ` set ws = mv_algorithm ` set votes"
  shows "0 < sum_list (map (\<lambda>v. dict_get ws (mv_algorithm v) 0) votes) \<and> (\<forall>a. 0 \<le> dict_get ws a 0)"
proof -
  have nonneg: "0 \<le> dict_get ws a 0" for a
    using assms(2) by (auto simp: dict_get_def split: option.split dest!: map_of_SomeD intro: less_imp_le)
  obtain v vs where v: "votes = v # vs" using assms(1) by (cases votes) auto
  have "mv_algorithm v \<in> fst ` set ws" using assms(3) v by auto
  then obtain w where "map_of ws (mv_algorithm v) = Some w"
    by (metis domIff dom_map_of_conv_image_fst not_None_eq)
  then have "0 < dict_get ws (mv_algorithm v) 0"
    using assms(2) by (auto simp: dict_get_def dest: map_of_SomeD)
  moreover have "0 \<le> sum_list (map (\<lambda>v. dict_get ws (mv_algorithm v) 0) vs)"
    using nonneg by (intro sum_list_nonneg) auto
  ultimately show ?thesis using nonneg by (simp add: v add_pos_nonneg)
qed

text \<open>C28: When every model votes with a probability distribution, each class share of the ensemble is
  the weighted mean of the votes' probabilities of that class (with positive total weight, and with the
  reported weights, which add up to one), and the shares are again a distribution. The reported
  probability is the largest share and the direction is a class that has it. The agreement is the
  weight of the votes whose own direction is the ensemble's, capped at one, and disagreement is the
  rest. The expected return is a hundredth of the up share less the down share. Confidence and
  opportunity score lie in the unit interval, and the score is zero on unusable data.\<close>

theorem ensemble_is_the_weighted_mean:
  assumes "votes \<noteq> []" and "\<forall>v \<in> set votes. proba_ok (vote_proba v)"
    and "0 < wc_min_weight (opt_get (vc_weight_config c) DEFAULT_WEIGHTS)"
    and "e = aggregate_votes symbol votes c now"
  shows "let w = (\<lambda>v. dict_get (ep_weights_used e) (mv_algorithm v) 0);
      total = sum_list (map w votes);
      down = sum_list (map (\<lambda>v. w v * mv_probability_down v) votes) / total;
      neutral = sum_list (map (\<lambda>v. w v * mv_probability_neutral v) votes) / total;
      up = sum_list (map (\<lambda>v. w v * mv_probability_up v) votes) / total
    in 0 < total \<and> dict_total (ep_weights_used e) = 1 \<and>
      fst ` set (ep_weights_used e) = mv_algorithm ` set votes \<and>
      0 \<le> down \<and> 0 \<le> neutral \<and> 0 \<le> up \<and> down + neutral + up = 1 \<and>
      ep_probability e = max down (max neutral up) \<and>
      (case ep_direction e of DIR_DOWN \<Rightarrow> down | DIR_NEUTRAL \<Rightarrow> neutral | DIR_UP \<Rightarrow> up) = ep_probability e \<and>
      ep_expected_return e = (up - down) / 100 \<and>
      ep_agreement e = min 1 (sum_list (map w
        (filter (\<lambda>v. int_to_direction (argmax3 (vote_proba v)) = ep_direction e) votes))) \<and>
      0 \<le> ep_agreement e \<and> ep_agreement e \<le> 1 \<and> ep_disagreement e = 1 - ep_agreement e \<and>
      0 \<le> ep_confidence e \<and> ep_confidence e \<le> 1 \<and>
      0 \<le> ep_opportunity_score e \<and> ep_opportunity_score e \<le> 1 \<and>
      (unusable (vc_data_quality c) \<longrightarrow> ep_opportunity_score e = 0)"
proof -
  define ws where "ws = compute_weights (map mv_algorithm votes) (vc_regime c) (vc_metrics c) (vc_weight_config c)"
  have used: "ep_weights_used e = ws" using assms(1) by (simp add: assms(4) aggregate_votes_def ws_def Let_def)
  have ws: "dict_total ws = 1" "\<forall>(a, w) \<in> set ws. 0 < w" "fst ` set ws = mv_algorithm ` set votes"
    using weights_normalised [of "map mv_algorithm votes" "vc_weight_config c"] assms(1,3)
    unfolding ws_def by auto
  define w where "w = (\<lambda>v :: model_vote. dict_get ws (mv_algorithm v) 0)"
  define total where "total = sum_list (map w votes)"
  define x where "x = sum_list (map (\<lambda>v. w v * mv_probability_down v) votes)"
  define y where "y = sum_list (map (\<lambda>v. w v * mv_probability_neutral v) votes)"
  define z where "z = sum_list (map (\<lambda>v. w v * mv_probability_up v) votes)"
  have pos: "0 < total" and nonneg: "\<And>v. 0 \<le> w v"
    using total_weight_positive [OF assms(1) ws(2,3)] unfolding total_def w_def by auto
  have sum: "x + y + z = total"
    using weighted_mass [OF assms(2), of w] by (simp add: x_def y_def z_def total_def)
  have xyz: "0 \<le> x" "0 \<le> y" "0 \<le> z"
    unfolding x_def y_def z_def using nonneg assms(2)
    by (auto intro!: sum_list_nonneg mult_nonneg_nonneg simp: proba_ok_def vote_proba_def)
  have sums: "sum_list (map (\<lambda>v. dict_get ws (mv_algorithm v) 0 * mv_probability_down v) votes) = x"
    "sum_list (map (\<lambda>v. dict_get ws (mv_algorithm v) 0 * mv_probability_neutral v) votes) = y"
    "sum_list (map (\<lambda>v. dict_get ws (mv_algorithm v) 0 * mv_probability_up v) votes) = z"
    "sum_list (map (\<lambda>v. dict_get ws (mv_algorithm v) 0) votes) = total"
    by (simp_all add: x_def y_def z_def total_def w_def)
  have s: "shares (foldl (add_weighted ws) (0, 0, 0) votes) = (x / total, y / total, z / total)"
    using pos sum unfolding add_weighted_sums sums add_0 by (simp add: shares_def Let_def)
  have one: "x / total + y / total + z / total = 1"
    using pos sum by (simp flip: add_divide_distrib)
  have agree: "agree_mass ws d votes = sum_list (map w
      (filter (\<lambda>v. int_to_direction (argmax3 (vote_proba v)) = d) votes))" for d
    by (simp add: agree_mass_sum w_def)
  have am: "0 \<le> agree_mass ws d votes" for d
    unfolding agree using nonneg by (auto intro!: sum_list_nonneg)
  have e: "ep_probability e = proba_at (x / total, y / total, z / total) (argmax3 (x / total, y / total, z / total))"
    "ep_direction e = int_to_direction (argmax3 (x / total, y / total, z / total))"
    "ep_expected_return e = (z / total - x / total) / 100"
    "ep_agreement e = clip01 (agree_mass ws (ep_direction e) votes)"
    "ep_disagreement e = 1 - ep_agreement e"
    using assms(1) by (simp_all add: assms(4) aggregate_votes_def Let_def ws_def [symmetric] s proba_at_def)
  have best: "ep_probability e = max (x / total) (max (y / total) (z / total)) \<and>
      (case ep_direction e of DIR_DOWN \<Rightarrow> x / total | DIR_NEUTRAL \<Rightarrow> y / total | DIR_UP \<Rightarrow> z / total) =
        ep_probability e"
    unfolding e(1,2) by (auto simp: argmax3_def proba_at_def int_to_direction_def max_def)
  have agreement: "ep_agreement e = min 1 (sum_list (map (\<lambda>v. dict_get ws (mv_algorithm v) 0)
        (filter (\<lambda>v. int_to_direction (argmax3 (vote_proba v)) = ep_direction e) votes)))"
    using am [of "ep_direction e"] unfolding e(4) agree by (simp add: clip01_def w_def)
  have bounds: "0 \<le> ep_agreement e" "ep_agreement e \<le> 1" "0 \<le> ep_confidence e" "ep_confidence e \<le> 1"
    "0 \<le> ep_opportunity_score e" "ep_opportunity_score e \<le> 1"
    using aggregate_bounds [of symbol votes c now] unfolding assms(4) by blast+
  have "unusable (vc_data_quality c) \<longrightarrow> ep_opportunity_score e = 0"
    using assms(1) by (simp add: assms(4) aggregate_votes_def Let_def clip01_def)
  then show ?thesis
    unfolding Let_def used sums
    using pos ws(1,3) xyz one best e(3,5) agreement bounds by simp
qed

section \<open>Selection\<close>

lemma slots_bounds: "1 \<le> select_slots profile st \<and> select_slots profile st \<le> 4 \<and>
    select_slots profile st \<le> profile_slots profile"
  by (cases st) (auto simp: select_slots_def profile_slots_def dict_get_def py_trunc_def Let_def)

lemma loaded_keys:
  "distinct (map fst (load_latest models)) \<and>
    set (map fst (load_latest models)) = (\<lambda>(m, meta). py_lower (mm_algorithm meta)) ` set models"
proof (induction models rule: rev_induct)
  case Nil
  then show ?case by (simp add: load_latest_def)
next
  case (snoc x models)
  obtain m meta where "x = (m, meta)" by force
  then have "load_latest (models @ [x]) =
      AList.update (py_lower (mm_algorithm meta)) meta (load_latest models)"
    by (simp add: load_latest_def)
  then show ?case using snoc \<open>x = (m, meta)\<close> by (auto simp: update_keys distinct_update)
qed

lemma first_max_mem: "first_max f b xs \<in> insert b (set xs)"
  by (induction xs arbitrary: b) auto

lemma slice_to_sub: "0 \<le> n \<Longrightarrow> set (slice_to xs n) \<subseteq> set xs \<and> (distinct xs \<longrightarrow> distinct (slice_to xs n))"
  by (auto simp: slice_to_def dest: in_set_takeD)

lemma slice_to_map: "map f (slice_to xs n) = slice_to (map f xs) n"
  by (simp add: slice_to_def take_map)

lemma picked:
  assumes "loaded \<noteq> []" and "distinct (map fst loaded)" and "1 \<le> slots"
  shows "pick_active health loaded slots \<noteq> [] \<and> distinct (pick_active health loaded slots) \<and>
    set (pick_active health loaded slots) \<subseteq> fst ` set loaded \<and>
    int (length (pick_active health loaded slots)) \<le> slots"
proof -
  let ?scored = "filter (\<lambda>(s, a). MIN_SCORE \<le> s \<or> a = ''fallback'')
      (map (\<lambda>(a, meta). (slot_score health (length loaded) a meta, a)) loaded)"
  let ?sorted = "sort_key (\<lambda>(s, a). (- s, a)) ?scored"
  let ?active = "map snd (slice_to ?sorted slots)"
  have "map snd (map (\<lambda>(a, meta). (slot_score health (length loaded) a meta, a)) loaded) = map fst loaded"
    by (simp add: comp_def split_def)
  then have "distinct (map snd ?scored)"
    using assms(2) by (intro distinct_map_filter) (simp only:)
  then have "distinct (map snd ?sorted)" by (simp only: distinct_map distinct_sort set_sort)
  then have "distinct ?active"
    unfolding slice_to_map using slice_to_sub [of slots "map snd ?sorted"] assms(3) by linarith
  moreover have "set ?active \<subseteq> fst ` set loaded"
  proof -
    have "set (slice_to ?sorted slots) \<subseteq> set ?sorted"
      using slice_to_sub [of slots ?sorted] assms(3) by linarith
    then have "set ?active \<subseteq> snd ` set ?scored" unfolding set_map set_sort by (rule image_mono)
    also have "\<dots> \<subseteq> fst ` set loaded" by force
    finally show ?thesis .
  qed
  moreover have "int (length ?active) \<le> slots"
    unfolding length_map using assms(3) by (intro slice_to_length) linarith
  moreover have "fst (first_max (\<lambda>(a, meta). quality_score meta) (hd loaded) (tl loaded)) \<in> fst ` set loaded"
    using first_max_mem [of "\<lambda>(a, meta). quality_score meta" "hd loaded" "tl loaded"] assms(1)
    by (cases loaded) auto
  ultimately show ?thesis
    using assms(3) unfolding pick_active_def Let_def by (simp split: if_split)
qed

text \<open>The selection of models is never empty when models are loaded, takes no algorithm twice, stays
  within the slots of the profile, and splits the loaded algorithms into active and rejected ones.
\<close>

theorem selection_is_bounded:
  assumes "models \<noteq> []" and "fst (select g models profile st) = sel"
  shows "sel_active sel \<noteq> [] \<and> distinct (sel_active sel) \<and>
    int (length (sel_active sel)) \<le> profile_slots profile \<and>
    set (sel_considered sel) = (\<lambda>(m, meta). py_lower (mm_algorithm meta)) ` set models \<and>
    set (sel_active sel) \<union> set (sel_rejected sel) = set (sel_considered sel) \<and>
    set (sel_active sel) \<inter> set (sel_rejected sel) = {}"
proof -
  let ?loaded = "load_latest models"
  have keys: "distinct (map fst ?loaded)"
    "fst ` set ?loaded = (\<lambda>(m, meta). py_lower (mm_algorithm meta)) ` set models"
    using loaded_keys [of models] by simp_all
  then have ne: "?loaded \<noteq> []" using assms(1) by (metis empty_set image_is_empty set_empty)
  note slots = slots_bounds [of profile st]
  note active = picked [OF ne keys(1), of "select_slots profile st" "mgov_health g"]
  let ?active = "pick_active (mgov_health g) ?loaded (select_slots profile st)"
  have "sel_active sel = ?active" "sel_considered sel = sort (map fst ?loaded)"
    "sel_rejected sel = filter (\<lambda>a. a \<notin> set ?active) (sort (map fst ?loaded))"
    using ne assms(2) by (auto simp only: select_def Let_def if_False fst_conv ml_selection.simps)
  then show ?thesis using active slots keys(2) by auto
qed

section \<open>What the engine does not keep\<close>

definition demo_vote :: "string \<Rightarrow> flt \<Rightarrow> model_vote" where
  "demo_vote m up = \<lparr>mv_model_id = m, mv_algorithm = ''lightgbm'', mv_direction = DIR_UP,
     mv_probability_up = up, mv_probability_down = 1 - up, mv_probability_neutral = 0\<rparr>"

definition demo_context :: vote_context where
  "demo_context = \<lparr>vc_regime = SIDEWAYS, vc_data_quality = COMPLETE, vc_feature_timestamp_ms = 0,
     vc_volatility = 0, vc_metrics = None, vc_weight_config = None,
     vc_disagreement_threshold = 4 / 10, vc_horizon_bars = 5\<rparr>"

text \<open>
  Two models of one algorithm share one weight, which each of them adds to the agreement: three that
  are split two to one agree completely.
\<close>

lemma same_algorithm_always_agrees:
  "ep_agreement (aggregate_votes ''BTC/USDT''
     [demo_vote ''a'' (9 / 10), demo_vote ''b'' (8 / 10), demo_vote ''c'' (2 / 10)] demo_context 0) = 1"
  by code_simp

definition demo_meta_of :: "string \<Rightarrow> flt \<Rightarrow> model_metadata" where
  "demo_meta_of alg acc = \<lparr>mm_model_id = alg, mm_version = ''1'', mm_algorithm = alg, mm_schema = ''v1'',
     mm_feature_names = [], mm_training_rows = 30, mm_training_data_hash = [], mm_hyperparameters = [],
     mm_metrics = [(''accuracy'', acc)], mm_created_at_ms = 0, mm_profile = ''LITE'',
     mm_label_horizon_bars = 5\<rparr>"

definition demo_ensemble :: "unit ensemble_engine" where
  "demo_ensemble = new_ensemble [((), demo_meta_of ''lightgbm'' (6 / 10)),
     ((), demo_meta_of ''xgboost'' (7 / 10))] None 4"

text \<open>Adding a model puts back what the selection had taken out.\<close>

lemma added_model_undoes_selection:
  "length (ee_models (snd (configure_governor demo_ensemble ''LITE'' CRITICAL_G))) = 1"
  "length (ee_models (add_model (snd (configure_governor demo_ensemble ''LITE'' CRITICAL_G)) ()
     (demo_meta_of ''fallback'' (5 / 10)))) = 3"
  by code_simp+

theorem ensemble_is_the_weighted_mean_witness:
  "let e = aggregate_votes ''BTC/USDT'' [demo_vote ''a'' (9 / 10), demo_vote ''b'' (2 / 10)] demo_context 0
   in ep_expected_return e = 1 / 1000 \<and> ep_agreement e \<le> 1"
proof -
  let ?votes = "[demo_vote ''a'' (9 / 10), demo_vote ''b'' (2 / 10)]"
  let ?e = "aggregate_votes ''BTC/USDT'' ?votes demo_context 0"
  have "\<forall>v \<in> set ?votes. proba_ok (vote_proba v)"
    by (simp add: proba_ok_def vote_proba_def demo_vote_def)
  moreover have "0 < wc_min_weight (opt_get (vc_weight_config demo_context) DEFAULT_WEIGHTS)"
    by code_simp
  ultimately have "ep_agreement ?e \<le> 1"
    using ensemble_is_the_weighted_mean [of ?votes demo_context ?e "''BTC/USDT''" 0] by (simp add: Let_def)
  moreover have "ep_expected_return ?e = 1 / 1000" by code_simp
  ultimately show ?thesis by (simp add: Let_def)
qed

theorem selection_is_bounded_witness:
  "sel_active (fst (select new_model_governor (ee_catalog demo_ensemble) ''LITE'' NORMAL_G)) \<noteq> [] \<and>
   int (length (sel_active (fst (select new_model_governor (ee_catalog demo_ensemble) ''LITE'' NORMAL_G)))) \<le>
     profile_slots ''LITE''"
proof -
  have "ee_catalog demo_ensemble \<noteq> []"
    by (simp add: demo_ensemble_def new_ensemble_def slice_to_def Let_def)
  from selection_is_bounded [OF this refl] show ?thesis by blast
qed

end
