(* ===== verification/Scanner.thy ===== *)
theory Scanner
  imports EnsembleProps
begin

text \<open>
  The opportunity scanner, \<open>src/src/crypto/scanner\<close>: the markets reachable from the holdings
  (\<open>universe.py\<close>), the cheap filters (\<open>filters.py\<close>), the score (\<open>scoring.py\<close>), the scan
  (\<open>engine.py\<close>) and the bridge to a trade proposal (\<open>strategy_bridge.py\<close>).

  The host's callbacks \<open>get_ticker\<close> and \<open>get_ohlcv\<close> are functions of the symbol, \<open>None\<close> when they
  are not supplied.
\<close>

section \<open>Configuration and records\<close>

record scanner_config =
  sc_max_universe :: int
  sc_max_candidates :: int
  sc_max_ml_candidates :: int
  sc_max_predictions_per_cycle :: int
  sc_max_opportunities :: int
  sc_max_spread_pct :: flt
  sc_min_quote_volume :: flt
  sc_max_conversion_hops :: int
  sc_default_fee_pct :: flt
  sc_default_slippage_pct :: flt
  sc_min_opportunity_score :: flt

definition default_scanner_config :: scanner_config where
  "default_scanner_config =
     \<lparr>sc_max_universe = 500, sc_max_candidates = 150, sc_max_ml_candidates = 40,
      sc_max_predictions_per_cycle = 20, sc_max_opportunities = 10, sc_max_spread_pct = 1,
      sc_min_quote_volume = 0, sc_max_conversion_hops = 1, sc_default_fee_pct = 1 / 10,
      sc_default_slippage_pct = 5 / 100, sc_min_opportunity_score = 15 / 100\<rparr>"

definition validate_scanner_config :: "scanner_config \<Rightarrow> market_failure + unit" where
  "validate_scanner_config c =
     (if sc_max_candidates c < sc_max_ml_candidates c
      then Inl (BadValue ''max_ml_candidates cannot exceed max_candidates'')
      else if sc_max_ml_candidates c < sc_max_predictions_per_cycle c
      then Inl (BadValue ''max_predictions_per_cycle cannot exceed max_ml_candidates'')
      else Inr ())"

record listed_market =
  lm_symbol :: string
  lm_base_asset :: string
  lm_quote_asset :: string
  lm_active :: "bool option"
  lm_minimum_amount :: "flt option"
  lm_minimum_cost :: "flt option"

record reachable_market =
  rm_market :: listed_market
  rm_account :: account_key
  rm_hop :: int
  rm_quote_balance :: flt
  rm_base_balance :: flt

datatype reason_code =
    BALANCE_AVAILABLE | INSUFFICIENT_BALANCE | LOW_LIQUIDITY | HIGH_SPREAD | STALE_DATA_R
  | INVALID_DATA | HIGH_DISAGREEMENT | MIN_ORDER_UNFEASIBLE | STRONG_SIGNAL | HIGH_VOLATILITY_R
  | RISK_BLOCKED | MARKET_INACTIVE | NOT_REACHABLE | FEE_EXCEEDS_EDGE | DUPLICATE_EXPOSURE
  | PASSED_FILTERS | RANKED

datatype feasibility = FEASIBLE | ORDER_NOT_FEASIBLE | FEASIBILITY_UNKNOWN

record opportunity =
  op_exchange_id :: string
  op_account_id :: string
  op_symbol :: string
  op_base_asset :: string
  op_quote_asset :: string
  op_native_symbol :: string
  op_available_quote :: flt
  op_available_base :: flt
  op_market_quality :: data_quality
  op_spread_pct :: "flt option"
  op_liquidity_score :: flt
  op_volatility :: flt
  op_ensemble :: "ensemble_prediction option"
  op_opportunity_score :: flt
  op_feasibility :: feasibility
  op_reason_codes :: "reason_code list"
  op_mid_price :: "flt option"
  op_min_cost :: "flt option"
  op_estimated_fee_pct :: flt

record scan_telemetry =
  st_markets_scanned :: int
  st_asset_filtered :: int
  st_liquidity_filtered :: int
  st_spread_filtered :: int
  st_quality_rejected :: int
  st_ml_candidates :: int
  st_predictions :: int
  st_final_opportunities :: int
  st_cache_hits :: int
  st_cache_misses :: int

definition no_telemetry :: scan_telemetry where
  "no_telemetry =
     \<lparr>st_markets_scanned = 0, st_asset_filtered = 0, st_liquidity_filtered = 0,
      st_spread_filtered = 0, st_quality_rejected = 0, st_ml_candidates = 0, st_predictions = 0,
      st_final_opportunities = 0, st_cache_hits = 0, st_cache_misses = 0\<rparr>"

section \<open>The reachable universe\<close>

definition owned_assets :: "asset_holding list \<Rightarrow> account_key \<Rightarrow> (string, flt) dict" where
  "owned_assets hs acc =
     foldl (\<lambda>d h. if h_account h = acc \<and> 0 < h_total h
                  then dict_add d (py_upper (h_asset h)) (h_total h) else d) [] hs"

fun reach_markets ::
  "(string, flt) dict \<Rightarrow> account_key \<Rightarrow> int \<Rightarrow> reachable_market list \<Rightarrow> listed_market list \<Rightarrow>
   reachable_market list" where
  "reach_markets owned acc n out [] = out"
| "reach_markets owned acc n out (m # ms) =
     (let base = py_upper (lm_base_asset m); quote_asset = py_upper (lm_quote_asset m);
          q_bal = dict_get owned quote_asset 0; b_bal = dict_get owned base 0
      in if lm_active m \<noteq> Some True \<or> base = [] \<or> quote_asset = [] then reach_markets owned acc n out ms
         else if 0 < q_bal \<or> 0 < b_bal then
           let grown = out @ [\<lparr>rm_market = m, rm_account = acc, rm_hop = 0,
                               rm_quote_balance = q_bal, rm_base_balance = b_bal\<rparr>]
           in if n \<le> int (length grown) then grown else reach_markets owned acc n grown ms
         else reach_markets owned acc n out ms)"

definition build_reachable_universe ::
  "listed_market list \<Rightarrow> asset_holding list \<Rightarrow> account_key \<Rightarrow> int \<Rightarrow> reachable_market list" where
  "build_reachable_universe markets hs acc limit_n =
     (let owned = owned_assets hs acc
      in if owned = [] then []
         else slice_to (reach_markets owned acc limit_n [] markets) limit_n)"

section \<open>Filters\<close>

definition filter_spread :: "flt option \<Rightarrow> scanner_config \<Rightarrow> bool \<times> reason_code list" where
  "filter_spread spread cfg =
     (case spread of None \<Rightarrow> (True, [])
      | Some s \<Rightarrow> if sc_max_spread_pct cfg < s then (False, [HIGH_SPREAD]) else (True, []))"

definition filter_quality :: "data_quality \<Rightarrow> bool \<times> reason_code list" where
  "filter_quality q =
     (if q = STALE then (False, [STALE_DATA_R])
      else if q = INVALID then (False, [INVALID_DATA])
      else if q = UNKNOWN_Q then (False, [STALE_DATA_R])
      else (True, []))"

definition filter_min_order ::
  "flt \<Rightarrow> flt option \<Rightarrow> flt option \<Rightarrow> flt option \<Rightarrow> feasibility \<times> reason_code list" where
  "filter_min_order available mid low_cost low_amount =
     (case mid of
        None \<Rightarrow> (FEASIBILITY_UNKNOWN, [])
      | Some price \<Rightarrow>
          if price \<le> 0 then (FEASIBILITY_UNKNOWN, [])
          else if (case low_cost of Some c \<Rightarrow> available < c | None \<Rightarrow> False)
          then (ORDER_NOT_FEASIBLE, [MIN_ORDER_UNFEASIBLE])
          else if (case low_amount of Some a \<Rightarrow> available / price < a | None \<Rightarrow> False)
          then (ORDER_NOT_FEASIBLE, [MIN_ORDER_UNFEASIBLE])
          else (FEASIBLE, []))"

definition filter_inactive :: "reachable_market \<Rightarrow> bool \<times> reason_code list" where
  "filter_inactive rm =
     (if lm_active (rm_market rm) \<noteq> Some True then (False, [MARKET_INACTIVE]) else (True, []))"

definition edge_covers_costs :: "flt \<Rightarrow> flt option \<Rightarrow> flt \<Rightarrow> flt \<Rightarrow> bool \<times> reason_code list" where
  "edge_covers_costs expected spread fee slippage =
     (let cost = fee / 100 * 2 + slippage / 100 + opt_get spread 0 / 100
      in if \<bar>expected\<bar> \<le> cost then (False, [FEE_EXCEEDS_EDGE]) else (True, []))"

section \<open>The score\<close>

definition score_opportunity ::
  "ensemble_prediction option \<Rightarrow> flt option \<Rightarrow> flt \<Rightarrow> flt \<Rightarrow> bool \<Rightarrow> flt \<Rightarrow> flt \<Rightarrow> flt" where
  "score_opportunity ens spread liquidity available exposed fee slippage =
     (case ens of
        None \<Rightarrow> 0
      | Some e \<Rightarrow>
          if unusable (ep_data_quality e) then 0
          else if ep_direction e = DIR_NEUTRAL then 0
          else
            let conf = clip01 (ep_confidence e); agree = clip01 (ep_agreement e);
                edge = clip01 (\<bar>ep_expected_return e\<bar> * 50); liq = clip01 liquidity;
                spread_pen = (case spread of None \<Rightarrow> 0 | Some s \<Rightarrow> min 1 (s / 2));
                cost_pen = min 1 ((fee + slippage) / 100 * 20);
                s0 = 35 / 100 * conf + 25 / 100 * agree + 20 / 100 * edge + 10 / 100 * liq
                     - 5 / 100 * spread_pen - 5 / 100 * cost_pen;
                s1 = (if ep_high_disagreement e then s0 * (1 / 2) else s0);
                s2 = (if exposed then s1 * (7 / 10) else s1);
                s3 = (if available \<le> 0 \<and> ep_direction e = DIR_UP then s2 * (3 / 10) else s2)
            in clip01 s3)"

section \<open>The scan\<close>

record 'm scanner =
  sn_ensemble :: "'m ensemble_engine"
  sn_config :: scanner_config
  sn_telemetry :: scan_telemetry

definition new_scanner :: "'m ensemble_engine \<Rightarrow> scanner_config \<Rightarrow> market_failure + 'm scanner" where
  "new_scanner e cfg =
     (case validate_scanner_config cfg of
        Inl x \<Rightarrow> Inl x
      | Inr u \<Rightarrow> Inr \<lparr>sn_ensemble = e, sn_config = cfg, sn_telemetry = no_telemetry\<rparr>)"

record scan_io =
  si_ticker :: "(string \<Rightarrow> ticker option \<times> data_quality_report option) option"
  si_ohlcv :: "(string \<Rightarrow> ohlcv_bar list option) option"
  si_latency :: "string \<Rightarrow> nat \<Rightarrow> flt"
  si_now :: "string \<Rightarrow> int"

record candidate =
  cd_market :: reachable_market
  cd_reasons :: "reason_code list"
  cd_spread :: "flt option"
  cd_mid :: "flt option"
  cd_quality :: data_quality

definition nonzero :: "flt option \<Rightarrow> bool" where
  "nonzero x = (case x of None \<Rightarrow> False | Some v \<Rightarrow> v \<noteq> 0)"

text \<open>
  The spread in per cent and the mid price of a ticker. (An ask of minus the bid would divide by zero.)
\<close>

definition spread_and_mid :: "ticker option \<Rightarrow> flt option \<times> flt option" where
  "spread_and_mid t =
     (case t of
        None \<Rightarrow> (None, None)
      | Some tk \<Rightarrow>
          (case (tk_bid tk, tk_ask tk) of
             (Some b, Some a) \<Rightarrow>
               if a \<noteq> 0 \<and> 0 < b then (Some ((a - b) / ((b + a) / 2) * 100), Some ((b + a) / 2))
               else if nonzero (tk_last tk) then (None, tk_last tk) else (None, None)
           | _ \<Rightarrow> if nonzero (tk_last tk) then (None, tk_last tk) else (None, None)))"

definition bump_quality :: "scan_telemetry \<Rightarrow> scan_telemetry" where
  "bump_quality t = t\<lparr>st_quality_rejected := st_quality_rejected t + 1\<rparr>"

definition bump_spread :: "scan_telemetry \<Rightarrow> scan_telemetry" where
  "bump_spread t = t\<lparr>st_spread_filtered := st_spread_filtered t + 1\<rparr>"

definition check_spread ::
  "scanner_config \<Rightarrow> scan_telemetry \<Rightarrow> reachable_market \<Rightarrow> reason_code list \<Rightarrow> flt option \<Rightarrow> flt option \<Rightarrow>
   data_quality \<Rightarrow> candidate option \<times> scan_telemetry" where
  "check_spread cfg t rm reasons spread mid q =
     (let (ok, rs) = filter_spread spread cfg
      in if \<not> ok then (None, bump_spread t)
         else (Some \<lparr>cd_market = rm, cd_reasons = reasons @ rs, cd_spread = spread, cd_mid = mid,
                     cd_quality = q\<rparr>, t))"

definition prefilter ::
  "scanner_config \<Rightarrow> scan_io \<Rightarrow> scan_telemetry \<Rightarrow> reachable_market \<Rightarrow> candidate option \<times> scan_telemetry"
where
  "prefilter cfg io t rm =
     (let (active, ra) = filter_inactive rm; reasons = BALANCE_AVAILABLE # ra
      in if \<not> active then (None, t)
         else case si_ticker io of
           None \<Rightarrow> check_spread cfg t rm reasons None None COMPLETE
         | Some get_ticker \<Rightarrow>
             let (tk, report) = get_ticker (lm_symbol (rm_market rm));
                 q = (case report of None \<Rightarrow> COMPLETE | Some r \<Rightarrow> quality r);
                 (ok, rq) = filter_quality q;
                 (spread, mid) = spread_and_mid tk
             in if \<not> ok then (None, bump_quality t)
                else check_spread cfg t rm (reasons @ rq) spread mid q)"

fun collect_candidates ::
  "scanner_config \<Rightarrow> scan_io \<Rightarrow> scan_telemetry \<Rightarrow> candidate list \<Rightarrow> reachable_market list \<Rightarrow>
   candidate list \<times> scan_telemetry" where
  "collect_candidates cfg io t cs [] = (cs, t)"
| "collect_candidates cfg io t cs (rm # rms) =
     (case prefilter cfg io t rm of
        (None, t') \<Rightarrow> collect_candidates cfg io t' cs rms
      | (Some c, t') \<Rightarrow>
          let grown = cs @ [c]
          in if sc_max_candidates cfg \<le> int (length grown) then (grown, t')
             else collect_candidates cfg io t' grown rms)"

text \<open>The prediction for a candidate, with at least 25 candles and a model at hand.\<close>

definition candidate_prediction ::
  "(flt \<Rightarrow> flt) \<Rightarrow> 'm backend \<Rightarrow> scan_io \<Rightarrow> 'm ensemble_engine \<Rightarrow> candidate \<Rightarrow>
   ensemble_prediction option \<times> 'm ensemble_engine" where
  "candidate_prediction sq bk io g c =
     (let symbol = lm_symbol (rm_market (cd_market c))
      in case si_ohlcv io of
           None \<Rightarrow> (None, g)
         | Some get_ohlcv \<Rightarrow>
             if ee_models g = [] then (None, g)
             else case get_ohlcv symbol of
               None \<Rightarrow> (None, g)
             | Some bars \<Rightarrow>
                 if length bars < 25 then (None, g)
                 else let (e, g') = ensemble_predict sq bk (si_latency io symbol) (si_now io symbol) g
                            symbol bars (Some \<lparr>quality = cd_quality c, q_reasons = [],
                              missing_timestamps_ms = [], duplicate_count = 0, invalid_count = 0\<rparr>)
                      in (Some e, g'))"

definition signal_reasons :: "ensemble_prediction option \<Rightarrow> reason_code list" where
  "signal_reasons ens =
     (case ens of None \<Rightarrow> []
      | Some e \<Rightarrow>
          (if ep_high_disagreement e then [HIGH_DISAGREEMENT] else []) @
          (if ep_direction e \<noteq> DIR_NEUTRAL \<and> 4 / 10 \<le> ep_confidence e then [STRONG_SIGNAL] else []))"

definition edge_reasons :: "scanner_config \<Rightarrow> ensemble_prediction option \<Rightarrow> flt option \<Rightarrow> reason_code list"
where
  "edge_reasons cfg ens spread =
     (case ens of None \<Rightarrow> []
      | Some e \<Rightarrow>
          let (ok, er) = edge_covers_costs (ep_expected_return e) spread (sc_default_fee_pct cfg)
                (sc_default_slippage_pct cfg)
          in if ok then [] else er)"

text \<open>\<open>tuple(dict.fromkeys(xs))\<close>: the first occurrences, in order.\<close>

fun first_occurrences :: "'a list \<Rightarrow> 'a list" where
  "first_occurrences [] = []"
| "first_occurrences (x # xs) = x # filter (\<lambda>y. y \<noteq> x) (first_occurrences xs)"

definition assess ::
  "scanner_config \<Rightarrow> account_key \<Rightarrow> string set \<Rightarrow> candidate \<Rightarrow> ensemble_prediction option \<Rightarrow>
   opportunity option" where
  "assess cfg acc exposed c ens =
     (let rm = cd_market c; m = rm_market rm;
          (feas, fr) = filter_min_order (rm_quote_balance rm) (cd_mid c) (lm_minimum_cost m)
            (lm_minimum_amount m);
          has_exp = lm_symbol m \<in> exposed;
          liq = (if nonzero (cd_mid c) then 1 / 2 else 2 / 10);
          sc = score_opportunity ens (cd_spread c) liq (rm_quote_balance rm) has_exp
            (sc_default_fee_pct cfg) (sc_default_slippage_pct cfg);
          reasons = cd_reasons c @ signal_reasons ens @ fr @ edge_reasons cfg ens (cd_spread c) @
            (if has_exp then [DUPLICATE_EXPOSURE] else []) @ [PASSED_FILTERS, RANKED]
      in if sc < sc_min_opportunity_score cfg \<and> ens = None then None
         else Some
           \<lparr>op_exchange_id = exchange_id acc, op_account_id = account_id acc, op_symbol = lm_symbol m,
            op_base_asset = py_upper (lm_base_asset m), op_quote_asset = py_upper (lm_quote_asset m),
            op_native_symbol = lm_symbol m, op_available_quote = rm_quote_balance rm,
            op_available_base = rm_base_balance rm, op_market_quality = cd_quality c,
            op_spread_pct = cd_spread c, op_liquidity_score = liq,
            op_volatility = (case ens of Some e \<Rightarrow> ep_volatility_estimate e | None \<Rightarrow> 0),
            op_ensemble = ens, op_opportunity_score = sc, op_feasibility = feas,
            op_reason_codes = first_occurrences reasons, op_mid_price = cd_mid c,
            op_min_cost = lm_minimum_cost m, op_estimated_fee_pct = sc_default_fee_pct cfg\<rparr>)"

fun assess_all ::
  "(flt \<Rightarrow> flt) \<Rightarrow> 'm backend \<Rightarrow> scan_io \<Rightarrow> scanner_config \<Rightarrow> account_key \<Rightarrow> string set \<Rightarrow>
   'm ensemble_engine \<Rightarrow> scan_telemetry \<Rightarrow> opportunity list \<Rightarrow> candidate list \<Rightarrow>
   opportunity list \<times> scan_telemetry \<times> 'm ensemble_engine" where
  "assess_all sq bk io cfg acc exposed g t ops [] = (ops, t, g)"
| "assess_all sq bk io cfg acc exposed g t ops (c # cs) =
     (if sc_max_predictions_per_cycle cfg \<le> int (length ops) then (ops, t, g)
      else
        let (ens, g') = candidate_prediction sq bk io g c;
            t' = (if ens = None then t else t\<lparr>st_predictions := st_predictions t + 1\<rparr>)
        in case assess cfg acc exposed c ens of
             None \<Rightarrow> assess_all sq bk io cfg acc exposed g' t' ops cs
           | Some x \<Rightarrow> assess_all sq bk io cfg acc exposed g' t' (ops @ [x]) cs)"

definition exposed_symbols :: "portfolio_snapshot option \<Rightarrow> account_key \<Rightarrow> string set" where
  "exposed_symbols pf acc =
     (case pf of None \<Rightarrow> {}
      | Some p \<Rightarrow> set (map pos_symbol (filter (\<lambda>q. pos_account q = acc) (positions p))))"

text \<open>A stable sort by decreasing score.\<close>

definition ranked :: "opportunity list \<Rightarrow> opportunity list" where
  "ranked ops = sort_key (\<lambda>x. - op_opportunity_score x) ops"

definition scan ::
  "(flt \<Rightarrow> flt) \<Rightarrow> 'm backend \<Rightarrow> scan_io \<Rightarrow> 'm scanner \<Rightarrow> account_key \<Rightarrow> listed_market list \<Rightarrow>
   asset_holding list \<Rightarrow> portfolio_snapshot option \<Rightarrow> opportunity list \<times> 'm scanner" where
  "scan sq bk io s acc markets hs pf =
     (let cfg = sn_config s;
          reachable = build_reachable_universe markets hs acc (sc_max_universe cfg);
          t0 = no_telemetry\<lparr>st_markets_scanned := int (length markets),
                            st_asset_filtered := int (length reachable)\<rparr>;
          (candidates, t1) = collect_candidates cfg io t0 [] reachable;
          ml_slice = slice_to candidates (sc_max_ml_candidates cfg);
          (ops, t2, g) = assess_all sq bk io cfg acc (exposed_symbols pf acc) (sn_ensemble s)
            (t1\<lparr>st_ml_candidates := int (length ml_slice)\<rparr>) [] ml_slice;
          final = slice_to (ranked ops) (sc_max_opportunities cfg)
      in (final, s\<lparr>sn_ensemble := g,
                   sn_telemetry := t2\<lparr>st_final_opportunities := int (length final)\<rparr>\<rparr>))"

section \<open>The strategy bridge\<close>

definition opportunity_to_proposal ::
  "opportunity \<Rightarrow> flt \<Rightarrow> flt option \<Rightarrow> string \<Rightarrow> flt \<Rightarrow> trade_proposal option" where
  "opportunity_to_proposal opp qty price strategy min_confidence =
     (if op_feasibility opp = ORDER_NOT_FEASIBLE then None
      else case op_ensemble opp of
        None \<Rightarrow> None
      | Some e \<Rightarrow>
          prediction_to_proposal (to_prediction e) (op_exchange_id opp) (op_account_id opp) qty
            (case price of Some p \<Rightarrow> Some p | None \<Rightarrow> op_mid_price opp) None strategy min_confidence)"

definition ensemble_to_proposal ::
  "ensemble_prediction \<Rightarrow> string \<Rightarrow> string \<Rightarrow> flt \<Rightarrow> flt option \<Rightarrow> string \<Rightarrow> flt \<Rightarrow> trade_proposal option"
where
  "ensemble_to_proposal e ex acc qty price strategy min_confidence =
     prediction_to_proposal (to_prediction e) ex acc qty price None strategy min_confidence"

end
