(* ===== verification/ScannerProps.thy ===== *)
theory ScannerProps
  imports Scanner
begin

text \<open>
  What a scan returns: a bounded list in decreasing order of score, each entry a tradable market of
  the account with usable data and a score in the unit interval; and when a proposal comes of it.
\<close>

section \<open>The universe\<close>

definition reachable :: "(string, flt) dict \<Rightarrow> account_key \<Rightarrow> reachable_market \<Rightarrow> bool" where
  "reachable owned acc rm \<longleftrightarrow>
     lm_active (rm_market rm) = Some True \<and> rm_account rm = acc \<and> rm_hop rm = 0 \<and>
     rm_quote_balance rm = dict_get owned (py_upper (lm_quote_asset (rm_market rm))) 0 \<and>
     rm_base_balance rm = dict_get owned (py_upper (lm_base_asset (rm_market rm))) 0 \<and>
     (0 < rm_quote_balance rm \<or> 0 < rm_base_balance rm)"

lemma reach_sound:
  assumes "\<forall>rm \<in> set out. reachable owned acc rm \<and> rm_market rm \<in> M" and "set ms \<subseteq> M"
  shows "\<forall>rm \<in> set (reach_markets owned acc n out ms). reachable owned acc rm \<and> rm_market rm \<in> M"
  using assms
proof (induction ms arbitrary: out)
  case Nil
  then show ?case by simp
next
  case (Cons m ms)
  let ?q = "dict_get owned (py_upper (lm_quote_asset m)) 0"
  let ?b = "dict_get owned (py_upper (lm_base_asset m)) 0"
  let ?rm = "\<lparr>rm_market = m, rm_account = acc, rm_hop = 0, rm_quote_balance = ?q, rm_base_balance = ?b\<rparr>"
  show ?case
  proof (cases "lm_active m = Some True \<and> py_upper (lm_base_asset m) \<noteq> [] \<and>
      py_upper (lm_quote_asset m) \<noteq> [] \<and> (0 < ?q \<or> 0 < ?b)")
    case True
    then have "reachable owned acc ?rm" by (simp add: reachable_def)
    then have grown: "\<forall>rm \<in> set (out @ [?rm]). reachable owned acc rm \<and> rm_market rm \<in> M"
      using Cons.prems by auto
    have "reach_markets owned acc n out (m # ms) = out @ [?rm] \<or>
        reach_markets owned acc n out (m # ms) = reach_markets owned acc n (out @ [?rm]) ms"
      using True by (auto simp: Let_def)
    moreover have "set ms \<subseteq> M" using Cons.prems(2) by simp
    note Cons.IH [OF grown this]
    ultimately show ?thesis using grown by (elim disjE) (simp_all only:)
  next
    case False
    then have "reach_markets owned acc n out (m # ms) = reach_markets owned acc n out ms"
      by (auto simp: Let_def)
    moreover have "set ms \<subseteq> M" using Cons.prems(2) by simp
    note Cons.IH [OF Cons.prems(1) this]
    ultimately show ?thesis by (simp only:)
  qed
qed

lemma universe_sound:
  assumes "0 \<le> n" and "rm \<in> set (build_reachable_universe markets hs acc n)"
  shows "reachable (owned_assets hs acc) acc rm \<and> rm_market rm \<in> set markets"
proof -
  have "rm \<in> set (reach_markets (owned_assets hs acc) acc n [] markets)"
    using assms(2) slice_to_sub [OF assms(1), of "reach_markets (owned_assets hs acc) acc n [] markets"]
    by (auto simp: build_reachable_universe_def Let_def split: if_splits)
  then show ?thesis
    using reach_sound [of "[]" "owned_assets hs acc" acc "set markets" markets n] by simp
qed

lemma owned_total:
  "dict_get (owned_assets hs acc) a 0 =
     sum_list (map h_total (filter (\<lambda>h. h_account h = acc \<and> 0 < h_total h \<and> py_upper (h_asset h) = a) hs))"
proof (induction hs rule: rev_induct)
  case Nil
  then show ?case by (simp add: owned_assets_def dict_get_def)
next
  case (snoc h hs)
  have "owned_assets (hs @ [h]) acc =
      (if h_account h = acc \<and> 0 < h_total h
       then dict_add (owned_assets hs acc) (py_upper (h_asset h)) (h_total h) else owned_assets hs acc)"
    by (simp add: owned_assets_def)
  then show ?case using snoc by (simp add: dict_get_add)
qed

section \<open>Candidates\<close>

definition good_candidate :: "scanner_config \<Rightarrow> candidate \<Rightarrow> bool" where
  "good_candidate cfg c \<longleftrightarrow> \<not> unusable (cd_quality c) \<and>
     (\<forall>s. cd_spread c = Some s \<longrightarrow> s \<le> sc_max_spread_pct cfg)"

lemma check_spread_good:
  assumes "check_spread cfg t rm rs spread mid q = (Some c, t')" and "\<not> unusable q"
  shows "good_candidate cfg c \<and> cd_market c = rm"
  using assms
  by (auto simp: check_spread_def filter_spread_def good_candidate_def split: option.splits if_splits)

lemma prefilter_good:
  assumes "prefilter cfg io t rm = (Some c, t')"
  shows "good_candidate cfg c \<and> cd_market c = rm"
proof (cases "si_ticker io")
  case None
  obtain active ra where "filter_inactive rm = (active, ra)" by force
  then have "check_spread cfg t rm (BALANCE_AVAILABLE # ra) None None COMPLETE = (Some c, t')"
    using assms None by (simp add: prefilter_def Let_def split: if_splits)
  then show ?thesis by (rule check_spread_good) (simp add: unusable_def)
next
  case (Some get_ticker)
  obtain tk report where tk: "get_ticker (lm_symbol (rm_market rm)) = (tk, report)" by force
  let ?q = "case report of None \<Rightarrow> COMPLETE | Some r \<Rightarrow> quality r"
  obtain ok rq where q: "filter_quality ?q = (ok, rq)" by force
  obtain spread mid where s: "spread_and_mid tk = (spread, mid)" by force
  obtain active ra where "filter_inactive rm = (active, ra)" by force
  then have "ok" and spread: "check_spread cfg t rm (BALANCE_AVAILABLE # ra @ rq) spread mid ?q = (Some c, t')"
    using assms by (simp_all add: prefilter_def Some tk q s Let_def split: if_splits)
  then have "\<not> unusable ?q" using q by (auto simp: filter_quality_def unusable_def split: if_splits)
  then show ?thesis by (rule check_spread_good [OF spread])
qed

lemma candidates_good:
  assumes "\<forall>c \<in> set cs. good_candidate cfg c \<and> cd_market c \<in> R" and "set rms \<subseteq> R"
  shows "\<forall>c \<in> set (fst (collect_candidates cfg io t cs rms)). good_candidate cfg c \<and> cd_market c \<in> R"
  using assms
proof (induction rms arbitrary: t cs)
  case Nil
  then show ?case by simp
next
  case (Cons rm rms)
  obtain found t' where f: "prefilter cfg io t rm = (found, t')" by force
  have rest: "set rms \<subseteq> R" using Cons.prems(2) by simp
  show ?case
  proof (cases found)
    case None
    then have "collect_candidates cfg io t cs (rm # rms) = collect_candidates cfg io t' cs rms"
      using f by simp
    then show ?thesis using Cons.IH [OF Cons.prems(1) rest] by (simp only:)
  next
    case (Some c)
    with f have "good_candidate cfg c \<and> cd_market c \<in> R"
      using prefilter_good [of cfg io t rm c t'] Cons.prems(2) by simp
    then have grown: "\<forall>d \<in> set (cs @ [c]). good_candidate cfg d \<and> cd_market d \<in> R"
      using Cons.prems(1) by simp
    have "collect_candidates cfg io t cs (rm # rms) = (cs @ [c], t') \<or>
        collect_candidates cfg io t cs (rm # rms) = collect_candidates cfg io t' (cs @ [c]) rms"
      using f Some by (simp add: Let_def)
    then show ?thesis using Cons.IH [OF grown rest] grown by (elim disjE) (simp_all only: fst_conv)
  qed
qed

section \<open>Opportunities\<close>

definition good_opportunity ::
  "scanner_config \<Rightarrow> account_key \<Rightarrow> reachable_market set \<Rightarrow> opportunity \<Rightarrow> bool" where
  "good_opportunity cfg acc R x \<longleftrightarrow>
     \<not> unusable (op_market_quality x) \<and> op_exchange_id x = exchange_id acc \<and>
     op_account_id x = account_id acc \<and>
     (\<forall>s. op_spread_pct x = Some s \<longrightarrow> s \<le> sc_max_spread_pct cfg) \<and>
     0 \<le> op_opportunity_score x \<and> op_opportunity_score x \<le> 1 \<and>
     (\<exists>rm \<in> R. op_symbol x = lm_symbol (rm_market rm) \<and> op_available_quote x = rm_quote_balance rm \<and>
        op_available_base x = rm_base_balance rm)"

lemma score_bounds: "0 \<le> score_opportunity e s l a b f p \<and> score_opportunity e s l a b f p \<le> 1"
  using clip01_bounds by (auto simp: score_opportunity_def Let_def split: option.split)

lemma assess_good:
  assumes "assess cfg acc exposed c ens = Some x" and "good_candidate cfg c" and "cd_market c \<in> R"
  shows "good_opportunity cfg acc R x"
proof -
  obtain feas fr where f: "filter_min_order (rm_quote_balance (cd_market c)) (cd_mid c)
      (lm_minimum_cost (rm_market (cd_market c))) (lm_minimum_amount (rm_market (cd_market c))) = (feas, fr)"
    by force
  then show ?thesis
    using assms score_bounds
    by (auto simp: assess_def good_opportunity_def good_candidate_def Let_def simp del: reason_code.simps
        split: if_splits)
qed

lemma assess_all_good:
  assumes "\<forall>c \<in> set cs. good_candidate cfg c \<and> cd_market c \<in> R"
    and "\<forall>x \<in> set ops. good_opportunity cfg acc R x"
  shows "\<forall>x \<in> set (fst (assess_all sq bk io cfg acc exposed g t ops cs)). good_opportunity cfg acc R x"
  using assms
proof (induction cs arbitrary: g t ops)
  case Nil
  then show ?case by simp
next
  case (Cons c cs)
  obtain ens g' where e: "candidate_prediction sq bk io g c = (ens, g')" by force
  let ?t = "if ens = None then t else t\<lparr>st_predictions := st_predictions t + 1\<rparr>"
  have rest: "\<forall>c \<in> set cs. good_candidate cfg c \<and> cd_market c \<in> R" using Cons.prems(1) by simp
  show ?case
  proof (cases "assess cfg acc exposed c ens")
    case None
    have "assess_all sq bk io cfg acc exposed g t ops (c # cs) = (ops, t, g) \<or>
        assess_all sq bk io cfg acc exposed g t ops (c # cs) =
          assess_all sq bk io cfg acc exposed g' ?t ops cs"
      using e None by (simp add: Let_def)
    then show ?thesis
      using Cons.IH [OF rest Cons.prems(2)] Cons.prems(2) by (elim disjE) (simp_all only: fst_conv)
  next
    case (Some x)
    have "good_opportunity cfg acc R x" using assess_good [OF Some] Cons.prems(1) by simp
    then have grown: "\<forall>y \<in> set (ops @ [x]). good_opportunity cfg acc R y" using Cons.prems(2) by simp
    have "assess_all sq bk io cfg acc exposed g t ops (c # cs) = (ops, t, g) \<or>
        assess_all sq bk io cfg acc exposed g t ops (c # cs) =
          assess_all sq bk io cfg acc exposed g' ?t (ops @ [x]) cs"
      using e Some by (simp add: Let_def)
    then show ?thesis
      using Cons.IH [OF rest grown] Cons.prems(2) by (elim disjE) (simp_all only: fst_conv)
  qed
qed

lemma assess_all_bound:
  "int (length ops) \<le> max 0 (sc_max_predictions_per_cycle cfg) \<Longrightarrow>
    int (length (fst (assess_all sq bk io cfg acc exposed g t ops cs))) \<le>
      max 0 (sc_max_predictions_per_cycle cfg)"
proof (induction cs arbitrary: g t ops)
  case Nil
  then show ?case by simp
next
  case (Cons c cs)
  obtain ens g' where e: "candidate_prediction sq bk io g c = (ens, g')" by force
  show ?case
    using Cons e by (cases "assess cfg acc exposed c ens") (auto simp: Let_def)
qed

lemma slice_to_sorted: "sorted (map f xs) \<Longrightarrow> sorted (map f (slice_to xs n))"
  by (simp add: slice_to_def take_map [symmetric] sorted_wrt_take)

text \<open>C25: A scan returns at most the configured number of opportunities in decreasing order of score; each
  is an active market of the account in which it holds the base or the quote asset, with usable data,
  a spread within the limit and a score in the unit interval.
\<close>

theorem scan_is_ranked_and_reachable:
  assumes "fst (scan sq bk io s acc markets hs pf) = found" and "sn_config s = cfg"
    and "0 \<le> sc_max_universe cfg" and "0 \<le> sc_max_ml_candidates cfg" and "0 \<le> sc_max_opportunities cfg"
  shows "int (length found) \<le> sc_max_opportunities cfg \<and>
    sorted_wrt (\<ge>) (map op_opportunity_score found) \<and>
    (\<forall>x \<in> set found. good_opportunity cfg acc
       {rm. reachable (owned_assets hs acc) acc rm \<and> rm_market rm \<in> set markets} x)"
proof -
  let ?R = "{rm. reachable (owned_assets hs acc) acc rm \<and> rm_market rm \<in> set markets}"
  let ?reach = "build_reachable_universe markets hs acc (sc_max_universe cfg)"
  let ?t0 = "no_telemetry\<lparr>st_markets_scanned := int (length markets),
      st_asset_filtered := int (length ?reach)\<rparr>"
  obtain cs t1 where cs: "collect_candidates cfg io ?t0 [] ?reach = (cs, t1)" by force
  let ?slice = "slice_to cs (sc_max_ml_candidates cfg)"
  obtain ops t2 g where ops: "assess_all sq bk io cfg acc (exposed_symbols pf acc) (sn_ensemble s)
      (t1\<lparr>st_ml_candidates := int (length ?slice)\<rparr>) [] ?slice = (ops, t2, g)"
    by (cases "assess_all sq bk io cfg acc (exposed_symbols pf acc) (sn_ensemble s)
      (t1\<lparr>st_ml_candidates := int (length ?slice)\<rparr>) [] ?slice") auto
  have found: "found = slice_to (ranked ops) (sc_max_opportunities cfg)"
    using assms(1,2) cs ops by (simp add: scan_def Let_def)
  have "set ?reach \<subseteq> ?R" using universe_sound [OF assms(3)] by blast
  then have "\<forall>c \<in> set cs. good_candidate cfg c \<and> cd_market c \<in> ?R"
    using candidates_good [of "[]" cfg ?R ?reach io ?t0] by (simp add: cs)
  then have "\<forall>c \<in> set ?slice. good_candidate cfg c \<and> cd_market c \<in> ?R"
    using slice_to_sub [OF assms(4), of cs] by blast
  then have "\<forall>x \<in> set (fst (assess_all sq bk io cfg acc (exposed_symbols pf acc) (sn_ensemble s)
      (t1\<lparr>st_ml_candidates := int (length ?slice)\<rparr>) [] ?slice)). good_opportunity cfg acc ?R x"
    by (rule assess_all_good) simp
  then have good: "\<forall>x \<in> set ops. good_opportunity cfg acc ?R x" by (simp only: ops fst_conv)
  have "sorted (map (\<lambda>x. - op_opportunity_score x) (ranked ops))" by (simp add: ranked_def)
  then have "sorted (map (\<lambda>x. - op_opportunity_score x) found)"
    unfolding found by (rule slice_to_sorted)
  then have "sorted_wrt (\<ge>) (map op_opportunity_score found)"
    by (simp add: sorted_wrt_map)
  moreover have "\<forall>x \<in> set found. good_opportunity cfg acc ?R x"
    using slice_to_sub [OF assms(5), of "ranked ops"] good by (auto simp: found ranked_def)
  moreover have "int (length found) \<le> sc_max_opportunities cfg"
    unfolding found by (rule slice_to_length [OF assms(5)])
  ultimately show ?thesis by blast
qed

text \<open>An opportunity becomes a proposal exactly when its order is not ruled out, it has a prediction
  from usable data with a direction, and the confidence reaches the threshold; the proposal then buys
  on an upward and sells on a downward prediction.
\<close>

theorem proposal_iff_actionable:
  "opportunity_to_proposal opp qty price strategy c \<noteq> None \<longleftrightarrow>
    op_feasibility opp \<noteq> ORDER_NOT_FEASIBLE \<and>
    (case op_ensemble opp of None \<Rightarrow> False
     | Some e \<Rightarrow> \<not> unusable (ep_data_quality e) \<and> ep_direction e \<noteq> DIR_NEUTRAL \<and> c \<le> ep_confidence e)"
  by (auto simp: opportunity_to_proposal_def prediction_to_proposal_def is_actionable_def
      to_prediction_def Let_def split: option.split direction.split)

lemma proposal_side:
  assumes "prediction_to_proposal p ex acc qty price stop strategy c = Some r"
  shows "prop_side r = (if pd_direction p = DIR_UP then BUY else SELL) \<and> prop_symbol r = pd_symbol p \<and>
    requested_quantity r = qty"
  using assms by (auto simp: prediction_to_proposal_def is_actionable_def Let_def split: if_splits direction.splits)

end
