(* ===== verification/ScannerDemo.thy ===== *)
theory ScannerDemo
  imports ScannerProps
begin

text \<open>
  The signal pipeline on concrete input: training, a scan and the proposal that comes of it, and an
  opportunity that is ranked although its score is below the minimum.
\<close>

definition flat_bar :: "nat \<Rightarrow> ohlcv_bar" where
  "flat_bar i = \<lparr>bar_ts = int i, bar_open = 100, bar_high = 101, bar_low = 99, bar_close = 100,
     bar_volume = 1\<rparr>"

definition demo_backend :: "proba \<Rightarrow> unit backend" where
  "demo_backend p = \<lparr>bk_available = [], bk_new = (\<lambda>a l. ()), bk_fit = (\<lambda>m x y n. Inr ()),
     bk_predict = (\<lambda>m x. Inr (map (\<lambda>r. 1) x)), bk_proba = (\<lambda>m x. Inr (map (\<lambda>r. p) x)),
     bk_data_hash = (\<lambda>x. ''h''), bk_model_id = (\<lambda>a h. ''m1''), bk_now = 7\<rparr>"

definition demo_pipeline :: "unit ml_pipeline" where
  "demo_pipeline = new_pipeline ULTRA_LITE_P (default_label_config\<lparr>lc_horizon_bars := 0\<rparr>)"

definition demo_bars :: "ohlcv_bar list" where
  "demo_bars = map flat_bar [0..<50]"

lemma demo_labels:
  "length demo_bars = 50"
  "build_labels demo_bars [20..49] (mp_label_config demo_pipeline) = map Some (replicate 30 DIR_NEUTRAL)"
  by code_simp+

lemma demo_works: "works (demo_backend p)"
  by (simp add: works_def demo_backend_def)

theorem training_respects_profile_witness:
  "\<exists>meta q. train (\<lambda>x. x) (demo_backend (0, 1, 0)) demo_pipeline demo_bars = (Inr ((), meta), q) \<and>
     mp_loaded q = Some ((), meta) \<and> length (mm_feature_names meta) \<le> 20"
proof -
  let ?bk = "demo_backend (0, 1, 0)"
  have limits: "mp_limits demo_pipeline = limits_for ULTRA_LITE_P"
    by (simp add: mp_limits_def demo_pipeline_def new_pipeline_def)
  obtain paired where paired: "labelled_rows (\<lambda>x. x) demo_pipeline demo_bars = Inr paired" "length paired = 30"
    using labelled_rows_all [of demo_bars demo_pipeline "replicate 30 DIR_NEUTRAL"] demo_labels
    by (auto simp: limits)
  have "create_model ?bk (select_algorithm ?bk (mp_limits demo_pipeline)) (mp_limits demo_pipeline) = Inr ()"
    by code_simp
  from training_succeeds [OF demo_works paired(1) _ this] paired(2)
  obtain m meta where "fst (train (\<lambda>x. x) ?bk demo_pipeline demo_bars) = Inr (m, meta)" by auto
  then obtain q where run: "train (\<lambda>x. x) ?bk demo_pipeline demo_bars = (Inr ((), meta), q)"
    by (cases "train (\<lambda>x. x) ?bk demo_pipeline demo_bars") auto
  from training_respects_profile [OF run] run show ?thesis by (auto simp: limits)
qed

theorem features_never_look_ahead_witness:
  "compute_feature_row (\<lambda>x. x) ([flat_bar 0, flat_bar 1] @ [flat_bar 9]) 1 =
   compute_feature_row (\<lambda>x. x) (take 2 [flat_bar 0, flat_bar 1]) 1"
  using features_never_look_ahead [of 1 "[flat_bar 0, flat_bar 1]" "\<lambda>x. x" "[flat_bar 9]"]
  by (simp add: nat_add_distrib)

section \<open>A scan\<close>

definition demo_account :: account_key where
  "demo_account = \<lparr>exchange_id = ''binance'', account_id = ''main''\<rparr>"

definition demo_holdings :: "asset_holding list" where
  "demo_holdings = [\<lparr>h_account = demo_account, h_asset = ''usdt'', h_free = 50, h_used = 0, h_total = 50\<rparr>]"

definition demo_listed :: "string \<Rightarrow> string \<Rightarrow> string \<Rightarrow> bool option \<Rightarrow> listed_market" where
  "demo_listed s b q act = \<lparr>lm_symbol = s, lm_base_asset = b, lm_quote_asset = q, lm_active = act,
     lm_minimum_amount = None, lm_minimum_cost = Some 10\<rparr>"

definition demo_markets :: "listed_market list" where
  "demo_markets =
     [demo_listed ''BTC/USDT'' ''BTC'' ''USDT'' (Some True),
      demo_listed ''ETH/USDT'' ''ETH'' ''USDT'' None,
      demo_listed ''ETH/IDR'' ''ETH'' ''IDR'' (Some True)]"

definition demo_quote :: ticker where
  "demo_quote = \<lparr>tk_exchange = ''binance'', tk_symbol = ''BTC/USDT'', tk_ts = Some 24,
     tk_bid = Some 999, tk_ask = Some 1001, tk_last = Some 1000, tk_high = None, tk_low = None,
     tk_volume = None, tk_quote_volume = None\<rparr>"

definition demo_scan_io :: scan_io where
  "demo_scan_io = \<lparr>si_ticker = Some (\<lambda>s. (Some demo_quote, None)),
     si_ohlcv = Some (\<lambda>s. Some (map flat_bar [0..<25])), si_latency = (\<lambda>s k. 1), si_now = (\<lambda>s. 30)\<rparr>"

definition demo_model_meta :: model_metadata where
  "demo_model_meta = (demo_meta_of ''lightgbm'' (6 / 10))\<lparr>mm_feature_names := [PyStr ''ret_1'']\<rparr>"

definition demo_scanner :: "unit scanner" where
  "demo_scanner = \<lparr>sn_ensemble = new_ensemble [((), demo_model_meta)] None 4,
     sn_config = default_scanner_config, sn_telemetry = no_telemetry\<rparr>"

definition demo_scan :: "proba \<Rightarrow> opportunity list" where
  "demo_scan p = fst (scan (\<lambda>x. x) (demo_backend p) demo_scan_io demo_scanner demo_account demo_markets
     demo_holdings None)"

definition scan_summary :: "opportunity list \<Rightarrow> (string \<times> bool \<times> bool) list" where
  "scan_summary xs = map (\<lambda>x. (op_symbol x,
     op_opportunity_score x < sc_min_opportunity_score default_scanner_config,
     opportunity_to_proposal x 1 None ''s'' (55 / 100) \<noteq> None)) xs"

text \<open>Only the active market with a held asset is found, and an upward prediction becomes a proposal.\<close>

lemma demo_scan_up: "scan_summary (demo_scan (1 / 10, 1 / 10, 8 / 10)) = [(''BTC/USDT'', False, True)]"
  by code_simp

text \<open>A neutral prediction scores 0, which is below the minimum, and is ranked all the same.\<close>

lemma zero_score_is_ranked:
  "scan_summary (demo_scan (1 / 10, 8 / 10, 1 / 10)) = [(''BTC/USDT'', True, False)]"
  by code_simp

theorem scan_is_ranked_and_reachable_witness:
  "int (length (demo_scan (1 / 10, 1 / 10, 8 / 10))) \<le> 10 \<and> demo_scan (1 / 10, 1 / 10, 8 / 10) \<noteq> [] \<and>
   list_all (\<lambda>x. 0 \<le> op_opportunity_score x) (demo_scan (1 / 10, 1 / 10, 8 / 10))"
proof -
  have "demo_scan (1 / 10, 1 / 10, 8 / 10) \<noteq> []"
    using demo_scan_up by (auto simp: scan_summary_def)
  moreover have "sn_config demo_scanner = default_scanner_config"
    by (simp add: demo_scanner_def)
  from scan_is_ranked_and_reachable [OF demo_scan_def [symmetric] this, of "(1 / 10, 1 / 10, 8 / 10)"]
  have "int (length (demo_scan (1 / 10, 1 / 10, 8 / 10))) \<le> 10 \<and>
      list_all (\<lambda>x. 0 \<le> op_opportunity_score x) (demo_scan (1 / 10, 1 / 10, 8 / 10))"
    by (auto simp: default_scanner_config_def good_opportunity_def list_all_iff)
  ultimately show ?thesis by blast
qed

end
