(* ===== verification/Spec2Isabelle.thy ===== *)
theory Spec2Isabelle
  imports ExecProps RiskProps LiveGate RecoveryProps ControlPlane ProductionProps GovernorProps
    RegistryProps Notify CapitalProps LiveControllerProps PaperProps
    MlHealthProps GovernanceDemo MarketDemo ScannerDemo
begin

text \<open>
  A verification library for NVRA, a Python system that trades crypto assets and foreign exchange. The
  library models the parts of the program that decide whether, how much and how often it trades, what
  it may spend in computation, and what it does when something fails. Everything is a shallow
  embedding: the program's dataclasses are records, its enums datatypes, its methods functions from a
  state to a result and a new state, its exceptions values of a sum type. Floats are rational numbers
  (\<open>flt\<close>): the rounding of IEEE arithmetic, infinities and NaN are outside the model. Python integers
  are \<open>int\<close>, strings are \<open>string\<close>, a value of a JSON-like dictionary is a \<open>pyval\<close>.

  The parts, and where they are modelled. Under \<^verbatim>\<open>src/src/crypto\<close>:

  \<^item> Prelude, PyJson: Python's values, strings, dictionaries and conversions with their exceptions; the
    step-relation contract \<open>state_graph\<close> and the store contract \<open>keyed_store\<close>, which OrderStates,
    Capital, ExecStore and RegistryProps interpret on the program's own definitions.
  \<^item> OrderStates: \<^verbatim>\<open>execution/states.py\<close>, the life cycle of an order.
  \<^item> Portfolio: \<^verbatim>\<open>portfolio/\<close>, holdings, positions, exposure, equity, and the comparison of the
    local portfolio with the exchange (\<open>reconcile\<close>).
  \<^item> Risk, RiskProps: \<^verbatim>\<open>risk/\<close> and \<^verbatim>\<open>market/quality.py\<close>, the policy and its validation, the
    equity tracker, position sizing, \<open>evaluate\<close> with every gate in the code's order, and the
    circuit breakers that move the safety mode.
  \<^item> ExecModels, ExecStore, PaperBroker, ExecEngine, ExecProofs, ExecProps: \<^verbatim>\<open>execution/\<close> and
    \<^verbatim>\<open>exchanges/base.py\<close>. The execution record and its fills, the SQLite table as a list of rows
    written by \<open>save\<close>, the paper broker, and the engine's \<open>submit\<close>, \<open>cancel\<close>, \<open>reconcile\<close> and
    \<open>recover_on_startup\<close> over a world that holds the database, the adapter, the risk engine and the
    log of the calls to the exchange. The exchange is a parameter (\<open>venue\<close>): any function from a call
    to a response or an exception.
  \<^item> LiveGate: \<^verbatim>\<open>control/live_gate.py\<close>, the controller that switches LIVE trading on and off.
  \<^item> Recovery, Supervisor, RecoveryProps: \<^verbatim>\<open>recovery/\<close>, the backoff, the recovery circuit breaker,
    component health, safe mode, the resolution of orders whose fate is unknown, the phased startup
    and the supervisor that ties them together.
  \<^item> ControlPlane: \<^verbatim>\<open>control/audit.py\<close>, \<^verbatim>\<open>auth.py\<close>, \<^verbatim>\<open>plane.py\<close>, the operator's commands behind a
    PIN with lockout and sessions.
  \<^item> Production, ProductionProps: \<^verbatim>\<open>production/\<close>, the micro-capital limits, the canary round trip, the
    kill switch, the execution profiler and the gate that decides LIVE GO.
  \<^item> Hardware, Governor, GovernorProps: \<^verbatim>\<open>hardware/\<close> and \<^verbatim>\<open>governor/\<close>, the capability profile of the
    machine, the budgets that follow from it, and the governor that scales them under load.
  \<^item> Registry, RegistryProps: \<^verbatim>\<open>registry/\<close>, \<^verbatim>\<open>ml/base.py\<close>, \<^verbatim>\<open>ml/artifacts.py\<close>, the model registry
    with its index file and the checks of an artifact before it is trusted.
  \<^item> Notify: \<^verbatim>\<open>notify/queue.py\<close>, the notification queue, against a bounded priority queue on
    multisets.
  \<^item> MarketCache, MarketSeries, MarketEngine, MarketDemo: \<^verbatim>\<open>market/\<close>, the symbols, the bounded cache
    with expiry (an interpretation of the contract \<open>forgetful_store\<close>), the validation and merge of
    candles, gap detection, and the engine that serves tickers, candles and order books.
  \<^item> Features, Predict, MlPipeline: \<^verbatim>\<open>ml/features.py\<close>, \<^verbatim>\<open>labels.py\<close>, \<^verbatim>\<open>regime.py\<close>, \<^verbatim>\<open>prediction.py\<close>,
    \<^verbatim>\<open>profiles.py\<close>, \<^verbatim>\<open>strategy.py\<close>, \<^verbatim>\<open>fallback.py\<close> and \<^verbatim>\<open>pipeline.py\<close>: feature rows that never
    look ahead, training on the oldest rows, and inference.
  \<^item> Ensemble, EnsembleProps: \<^verbatim>\<open>ensemble/\<close> and \<^verbatim>\<open>ml/governor.py\<close>, the weights of the models, the
    aggregation of their votes, and the selection of models under a resource profile.
  \<^item> Scanner, ScannerProps, ScannerDemo: \<^verbatim>\<open>scanner/\<close>, from the markets and the holdings of an account
    to ranked opportunities and, for the risk engine, a trade proposal.

  Under \<^verbatim>\<open>src/god\<close>, the desktop system:

  \<^item> Capital, CapitalProps: \<^verbatim>\<open>capital/\<close>, the safety posture and its transitions.
  \<^item> LiveAuth, LiveController, LiveControllerProps: \<^verbatim>\<open>live/\<close> and \<^verbatim>\<open>mt5_runtime/safety_gate.py\<close>, the
    LIVE authorization gate, the preflight, the capital gate, the controller that hands orders to the
    broker, the stored trading policy and the headless start.

  \<^item> Contract: \<^verbatim>\<open>execution_contract/\<close>, the intent made from a decision, its validator, and the null
    provider that answers it.
  \<^item> PaperSim, PaperBook, PaperCycle, PaperProps: \<^verbatim>\<open>paper/\<close>, the paper pipeline: executions filled at
    the last observed price, their reconciliation and recovery, the portfolio with its performance and
    risk gate, the lifecycle, the orchestrator and the readiness gate.

  \<^item> MlState, MlHealth, MlHealthProps: \<^verbatim>\<open>ml/state_machine.py\<close>, \<^verbatim>\<open>freshness.py\<close>, \<^verbatim>\<open>degradation.py\<close>,
    \<^verbatim>\<open>drift.py\<close>, \<^verbatim>\<open>telemetry.py\<close> and \<^verbatim>\<open>health.py\<close>, the statuses of a model and the advisory gates
    around it.
  \<^item> MlArtifacts, MlManifest, MlCompute, Champion, Promotion: \<^verbatim>\<open>ml/persist.py\<close>, \<^verbatim>\<open>lifecycle.py\<close>,
    \<^verbatim>\<open>manifest.py\<close>, \<^verbatim>\<open>compute/\<close>, \<^verbatim>\<open>registry.py\<close>, \<^verbatim>\<open>retention.py\<close>, \<^verbatim>\<open>promotion.py\<close>,
    \<^verbatim>\<open>rollback_safe.py\<close> and \<^verbatim>\<open>recovery.py\<close>: artifacts on disk, and which model is the champion.
    ChampionProps, Governance, ArtifactProps and GovernanceDemo hold the theorems: the lemma
    \<open>machine_step\<close> collects what every operation may do to the records in the relation \<open>ml_change\<close>,
    and the invariants of that relation hold over every run.

  How the parts interact in the model: \<open>ExecEngine.submit\<close> calls \<open>Risk.evaluate\<close> a second time just
  before the order is sent, opens the adapter's trading gate only around the call, writes every
  change through \<open>ExecStore.save\<close>, and moves each record through \<open>OrderStates.transition\<close>;
  \<open>LiveGate\<close> and \<open>ControlPlane\<close> act on the same adapter flag and on the same modes; the budgets of
  \<open>Hardware\<close> are the base of \<open>Governor\<close>; \<open>LiveController\<close> asks both gates of \<open>LiveAuth\<close> on every
  order; \<open>Scanner.scan\<close> runs \<open>Ensemble.ensemble_predict\<close> on the candles of a market and hands
  what it finds on as a \<open>Risk.trade_proposal\<close>.

  The groups of lemmas: for every component with a state there is a step relation whose rules are its
  operations with arbitrary arguments, and invariants over arbitrary finite runs (the engine, the LIVE
  gate, the supervisor, the control plane, the canary, the governor, the registry, the queue, the
  capital posture, the LIVE controller); the functional theories prove what an operation returns on
  every branch, some against a reference written without the code's operations (\<open>recovered_states\<close> for
  the startup recovery, \<open>most_urgent\<close> for the queue, weighted means for the ensemble); some theorems state behaviour that the code has and that its comments deny or that its
  authors can hardly want. Loops of the program over finite lists are recursions over the lists, and
  the retry loop of the headless start is a recursion over its attempts, so no fuel is needed anywhere.

  Not modelled: logging, threads and locks (operations are atomic, as the code's locks make them),
  wall clocks (arguments), cryptographic hashes (parameters), and the parts that are I/O, machine
  learning on third-party libraries, user interfaces or vendor bindings. Most of the desktop system
  under \<^verbatim>\<open>src/god\<close>, the research harness and the packaging are not modelled yet.
\<close>

end
